(* ===== verification/Mmgr_Prelude.thy ===== *)
theory Mmgr_Prelude
  imports Main "HOL-Library.Word" "HOL-Library.Monad_Syntax"
begin

unbundle bit_operations_syntax

text \<open>
  Shared vocabulary of the development: machine integers, single-bit flags
  (the \<^verbatim>\<open>0x1 << n\<close> constants of the C code), bounds-checked access to byte buffers,
  and the generic lemmas on lists, options and words that the component theories use.

  A function of the C code that can end the process (a failed \<^verbatim>\<open>ASSERT\<close>, \<^verbatim>\<open>abort\<close>,
  \<^verbatim>\<open>exit\<close>) or touch memory outside a buffer returns an \<^typ>\<open>'a option\<close>, where
  \<^term>\<open>None\<close> is that outcome; sequences of such calls are written with the
  option monad's do-notation.
\<close>

named_theorems flag_simps \<open>bit tests on words built from flags\<close>
named_theorems mem_simps \<open>bounds-checked buffer accesses\<close>

type_synonym byte = "8 word"
type_synonym u16 = "16 word"
type_synonym u32 = "32 word"

text \<open>A buffer under construction: its bytes and the offset of the write pointer.\<close>

type_synonym buf = "byte list \<times> nat"

subsection \<open>Flags\<close>

definition flag :: "nat \<Rightarrow> u32" where
  "flag n = push_bit n 1"

lemma bit_flag [flag_simps]: "bit (flag n) m \<longleftrightarrow> m = n \<and> n < 32"
  by (auto simp: flag_def bit_simps)

lemma and_flag_eq_0 [flag_simps]: "n < 32 \<Longrightarrow> x AND flag n = 0 \<longleftrightarrow> \<not> bit x n"
  by (auto simp: bit_eq_iff [of "x AND flag n"] bit_and_iff bit_flag)

lemma and_flag_eq_flag [flag_simps]: "n < 32 \<Longrightarrow> x AND flag n = flag n \<longleftrightarrow> bit x n"
  by (auto simp: bit_eq_iff [of "x AND flag n"] bit_and_iff bit_flag)

lemma bit_or_flag [flag_simps]: "bit (x OR flag n) m \<longleftrightarrow> bit x m \<or> m = n \<and> n < 32"
  by (auto simp: bit_or_iff bit_flag)

lemma bit_and_not_flag [flag_simps]:
  "bit (x AND NOT (flag n)) m \<longleftrightarrow> bit x m \<and> m \<noteq> n" for x :: u32
proof -
  have "bit x m \<Longrightarrow> m < 32"
    using bit_imp_le_length [of x m] by simp
  then show ?thesis
    by (auto simp: bit_and_iff bit_not_iff bit_flag)
qed

lemma flag_neq_0 [simp]: "n < 32 \<Longrightarrow> flag n \<noteq> 0"
  by (metis and_flag_eq_0 and_flag_eq_flag)

subsection \<open>Bounds-checked memory accesses\<close>

text \<open>
  \<^verbatim>\<open>memcpy\<close> from or to a buffer at an offset. An access that leaves the buffer is
  undefined behaviour in C and \<^term>\<open>None\<close> here.
\<close>

definition mem_read :: "byte list \<Rightarrow> nat \<Rightarrow> nat \<Rightarrow> byte list option" where
  "mem_read bs off n = (if off + n \<le> length bs then Some (take n (drop off bs)) else None)"

definition mem_write :: "byte list \<Rightarrow> nat \<Rightarrow> byte list \<Rightarrow> byte list option" where
  "mem_write bs off xs =
     (if off + length xs \<le> length bs
      then Some (take off bs @ xs @ drop (off + length xs) bs) else None)"

text \<open>Reading \<open>n\<close> bytes through a pointer that may be NULL.\<close>

definition ptr_read :: "byte list option \<Rightarrow> nat \<Rightarrow> byte list option" where
  "ptr_read p n =
     (case p of None \<Rightarrow> if n = 0 then Some [] else None | Some bs \<Rightarrow> mem_read bs 0 n)"

lemma mem_read_SomeD [dest]: "mem_read bs off n = Some xs \<Longrightarrow> length xs = n \<and> off + n \<le> length bs"
  by (auto simp: mem_read_def split: if_splits)

lemma mem_write_length [dest]: "mem_write bs off xs = Some bs' \<Longrightarrow> length bs' = length bs"
  by (auto simp: mem_write_def split: if_splits)

lemma mem_read_append [mem_simps]:
  "length pre = off \<Longrightarrow> length xs = n \<Longrightarrow> mem_read (pre @ xs @ post) off n = Some xs"
  by (simp add: mem_read_def)

lemma mem_write_append [mem_simps]:
  "length pre = off \<Longrightarrow> length xs = length old \<Longrightarrow>
     mem_write (pre @ old @ post) off xs = Some (pre @ xs @ post)"
  by (simp add: mem_write_def)

text \<open>Filling a zeroed buffer front to back, which is how every message is built.\<close>

lemma mem_write_zeros [mem_simps]:
  "length pre = off \<Longrightarrow> length xs \<le> n \<Longrightarrow>
     mem_write (pre @ replicate n 0) off xs = Some (pre @ xs @ replicate (n - length xs) 0)"
  by (simp add: mem_write_def)

lemma ptr_read_Some [mem_simps]: "ptr_read (Some bs) n = (if n \<le> length bs then Some (take n bs) else None)"
  by (simp add: ptr_read_def mem_read_def)

lemma ptr_read_exact [simp]: "length bs = n \<Longrightarrow> ptr_read (Some bs) n = Some bs"
  by (simp add: ptr_read_def mem_read_def)

subsection \<open>Signed division\<close>

text \<open>C divides signed integers towards zero.\<close>

definition tdiv :: "int \<Rightarrow> int \<Rightarrow> int" where
  "tdiv a b = sgn a * sgn b * (\<bar>a\<bar> div \<bar>b\<bar>)"

lemma tdiv_0 [simp]: "tdiv 0 b = 0"
  by (simp add: tdiv_def)

subsection \<open>Strings\<close>

text \<open>The bytes of a C string constant, without the terminating zero.\<close>

definition cstr :: "string \<Rightarrow> byte list" where
  "cstr s = map of_char s"

lemma length_cstr [simp]: "length (cstr s) = length s"
  by (simp add: cstr_def)

subsection \<open>Options and lists\<close>

lemma bind_eq_SomeE:
  assumes "Option.bind x f = Some y"
  obtains z where "x = Some z" and "f z = Some y"
  using assms by (auto simp: bind_eq_Some_conv)

lemma length_filter_update:
  assumes "i < length xs"
  shows "length (filter P (xs[i := x])) + (if P (xs ! i) then 1 else 0)
       = length (filter P xs) + (if P x then 1 else 0)"
  using assms
proof (induction xs arbitrary: i)
  case Nil
  then show ?case by simp
next
  case (Cons y ys)
  show ?case
  proof (cases i)
    case 0
    then show ?thesis by simp
  next
    case (Suc j)
    with Cons.prems have "j < length ys" by simp
    from Cons.IH [OF this] Suc show ?thesis by simp
  qed
qed

subsection \<open>Results of calls that may not return\<close>

text \<open>A result is described with \<^const>\<open>pred_option\<close>: if there is one, it satisfies the predicate.\<close>

lemma pred_bind:
  assumes "pred_option P m" and "\<And>x. P x \<Longrightarrow> pred_option Q (f x)"
  shows "pred_option Q (m \<bind> f)"
  using assms by (cases m) auto

lemma pred_optionD: "pred_option P m \<Longrightarrow> m = Some x \<Longrightarrow> P x"
  by simp

lemma pred_optionI: "(\<And>x. m = Some x \<Longrightarrow> P x) \<Longrightarrow> pred_option P m"
  by (cases m) auto

lemma pred_if: "(b \<Longrightarrow> pred_option P x) \<Longrightarrow> (\<not> b \<Longrightarrow> pred_option P y) \<Longrightarrow> pred_option P (if b then x else y)"
  by simp

lemma pred_mono: "pred_option P m \<Longrightarrow> (\<And>x. P x \<Longrightarrow> Q x) \<Longrightarrow> pred_option Q m"
  by (cases m) auto

lemma pred_Some: "P x \<Longrightarrow> pred_option P (Some x)"
  by simp

lemma pred_map: "pred_option (\<lambda>x. P (f x)) m \<Longrightarrow> pred_option P (map_option f m)"
  by (cases m) auto

lemma pred_bind2:
  assumes "pred_option (\<lambda>(a, b). P a b) m" and "\<And>a b. P a b \<Longrightarrow> pred_option Q (g a b)"
  shows "pred_option Q (m \<bind> (\<lambda>(a, b). g a b))"
  using assms by (cases m) auto

lemma pred_bind_any:
  assumes "\<And>x. m = Some x \<Longrightarrow> pred_option Q (f x)"
  shows "pred_option Q (m \<bind> f)"
  using assms by (cases m) auto

lemma pred_case_prod:
  "(\<And>a b. x = (a, b) \<Longrightarrow> pred_option Q (g a b)) \<Longrightarrow> pred_option Q (case x of (a, b) \<Rightarrow> g a b)"
  "(\<And>a b. x = (a, b) \<Longrightarrow> pred_option Q (g' a b c)) \<Longrightarrow> pred_option Q ((case x of (a, b) \<Rightarrow> g' a b) c)"
  by (cases x; simp)+

lemma pred_let_prod:
  "(\<And>a b. t = (a, b) \<Longrightarrow> pred_option Q (g a b)) \<Longrightarrow> pred_option Q (let (a, b) = t in g a b)"
  by (cases t) simp

lemma pred_case_option:
  "(x = None \<Longrightarrow> pred_option Q f) \<Longrightarrow> (\<And>a. x = Some a \<Longrightarrow> pred_option Q (g a)) \<Longrightarrow>
     pred_option Q (case x of None \<Rightarrow> f | Some a \<Rightarrow> g a)"
  by (cases x) auto

lemma pred_let_any: "(\<And>x. pred_option Q (f x)) \<Longrightarrow> pred_option Q (let x = t in f x)"
  by simp

end
