(* ===== verification/Mmgr_Types.thy ===== *)
theory Mmgr_Types
  imports Mmgr_Prelude
begin

text \<open>
  The enumerations of the modem manager that several components share, with the
  constructors of the C headers (\<^verbatim>\<open>mmgr/inc/mmgr.h\<close>, \<^verbatim>\<open>mmgr/core/states.h\<close>,
  \<^verbatim>\<open>mmgr/libutils/errors.h\<close> and others), and the integer codes of those that are shifted
  into bit masks or written into messages. The sentinel enumerators
  (\<^verbatim>\<open>E_MMGR_NUM\<close>, \<^verbatim>\<open>E_MMGR_NUM_EVENTS\<close>, ...) are kept: the code uses them as array bounds
  and as default values.
\<close>

datatype e_mmgr_errors =
    E_ERR_SUCCESS | E_ERR_FAILED | E_ERR_TTY_BAD_FD | E_ERR_TTY_POLLHUP
  | E_ERR_TTY_TIMEOUT | E_ERR_DISCONNECTED

definition CLOSED_FD :: int where
  "CLOSED_FD = -1"

definition CLIENT_NAME_LEN :: nat where "CLIENT_NAME_LEN = 64"

datatype e_mmgr_requests =
    E_MMGR_SET_NAME | E_MMGR_SET_EVENTS
  | E_MMGR_RESOURCE_ACQUIRE | E_MMGR_RESOURCE_RELEASE
  | E_MMGR_REQUEST_MODEM_RECOVERY | E_MMGR_REQUEST_MODEM_RESTART
  | E_MMGR_REQUEST_FORCE_MODEM_SHUTDOWN
  | E_MMGR_ACK_MODEM_COLD_RESET | E_MMGR_ACK_MODEM_SHUTDOWN
  | E_MMGR_REQUEST_MODEM_FUSE_INFO | E_MMGR_REQUEST_MODEM_GET_HW_ID
  | E_MMGR_REQUEST_MODEM_BACKUP_PRODUCTION
  | E_MMGR_REQUEST_FAKE_DOWN | E_MMGR_REQUEST_FAKE_UP | E_MMGR_REQUEST_FAKE_AP_RESET
  | E_MMGR_REQUEST_FAKE_SELF_RESET | E_MMGR_REQUEST_FAKE_MODEM_SHUTDOWN
  | E_MMGR_REQUEST_FAKE_MODEM_OUT_OF_SERVICE | E_MMGR_REQUEST_FAKE_CORE_DUMP
  | E_MMGR_REQUEST_FAKE_CORE_DUMP_COMPLETE | E_MMGR_REQUEST_FAKE_PLATFORM_REBOOT
  | E_MMGR_REQUEST_FAKE_TFT_EVENT
  | E_MMGR_NUM_REQUESTS

datatype e_mmgr_events =
    E_MMGR_EVENT_MODEM_DOWN | E_MMGR_EVENT_MODEM_UP | E_MMGR_EVENT_MODEM_NFLUSH
  | E_MMGR_EVENT_MODEM_OUT_OF_SERVICE
  | E_MMGR_NOTIFY_MODEM_COLD_RESET | E_MMGR_NOTIFY_MODEM_SHUTDOWN
  | E_MMGR_NOTIFY_PLATFORM_REBOOT | E_MMGR_NOTIFY_CORE_DUMP
  | E_MMGR_ACK | E_MMGR_NACK
  | E_MMGR_NOTIFY_CORE_DUMP_COMPLETE | E_MMGR_NOTIFY_AP_RESET
  | E_MMGR_NOTIFY_SELF_RESET | E_MMGR_NOTIFY_TFT_EVENT
  | E_MMGR_RESPONSE_MODEM_HW_ID | E_MMGR_RESPONSE_MODEM_FW_RESULT
  | E_MMGR_RESPONSE_MODEM_NVM_RESULT | E_MMGR_RESPONSE_FUSE_INFO
  | E_MMGR_RESPONSE_MODEM_BACKUP_PRODUCTION
  | E_MMGR_NUM_EVENTS

text \<open>The enumerators in declaration order; a C enumerator's value is its position.\<close>

definition all_requests :: "e_mmgr_requests list" where
  "all_requests =
    [E_MMGR_SET_NAME, E_MMGR_SET_EVENTS, E_MMGR_RESOURCE_ACQUIRE, E_MMGR_RESOURCE_RELEASE,
     E_MMGR_REQUEST_MODEM_RECOVERY, E_MMGR_REQUEST_MODEM_RESTART,
     E_MMGR_REQUEST_FORCE_MODEM_SHUTDOWN, E_MMGR_ACK_MODEM_COLD_RESET,
     E_MMGR_ACK_MODEM_SHUTDOWN, E_MMGR_REQUEST_MODEM_FUSE_INFO,
     E_MMGR_REQUEST_MODEM_GET_HW_ID, E_MMGR_REQUEST_MODEM_BACKUP_PRODUCTION,
     E_MMGR_REQUEST_FAKE_DOWN, E_MMGR_REQUEST_FAKE_UP, E_MMGR_REQUEST_FAKE_AP_RESET,
     E_MMGR_REQUEST_FAKE_SELF_RESET, E_MMGR_REQUEST_FAKE_MODEM_SHUTDOWN,
     E_MMGR_REQUEST_FAKE_MODEM_OUT_OF_SERVICE, E_MMGR_REQUEST_FAKE_CORE_DUMP,
     E_MMGR_REQUEST_FAKE_CORE_DUMP_COMPLETE, E_MMGR_REQUEST_FAKE_PLATFORM_REBOOT,
     E_MMGR_REQUEST_FAKE_TFT_EVENT, E_MMGR_NUM_REQUESTS]"

definition request_of_id :: "u32 \<Rightarrow> e_mmgr_requests" where
  "request_of_id i =
     (if unat i < length all_requests then all_requests ! unat i else E_MMGR_NUM_REQUESTS)"

primrec request_id :: "e_mmgr_requests \<Rightarrow> u32" where
  "request_id E_MMGR_SET_NAME = 0"
| "request_id E_MMGR_SET_EVENTS = 1"
| "request_id E_MMGR_RESOURCE_ACQUIRE = 2"
| "request_id E_MMGR_RESOURCE_RELEASE = 3"
| "request_id E_MMGR_REQUEST_MODEM_RECOVERY = 4"
| "request_id E_MMGR_REQUEST_MODEM_RESTART = 5"
| "request_id E_MMGR_REQUEST_FORCE_MODEM_SHUTDOWN = 6"
| "request_id E_MMGR_ACK_MODEM_COLD_RESET = 7"
| "request_id E_MMGR_ACK_MODEM_SHUTDOWN = 8"
| "request_id E_MMGR_REQUEST_MODEM_FUSE_INFO = 9"
| "request_id E_MMGR_REQUEST_MODEM_GET_HW_ID = 10"
| "request_id E_MMGR_REQUEST_MODEM_BACKUP_PRODUCTION = 11"
| "request_id E_MMGR_REQUEST_FAKE_DOWN = 12"
| "request_id E_MMGR_REQUEST_FAKE_UP = 13"
| "request_id E_MMGR_REQUEST_FAKE_AP_RESET = 14"
| "request_id E_MMGR_REQUEST_FAKE_SELF_RESET = 15"
| "request_id E_MMGR_REQUEST_FAKE_MODEM_SHUTDOWN = 16"
| "request_id E_MMGR_REQUEST_FAKE_MODEM_OUT_OF_SERVICE = 17"
| "request_id E_MMGR_REQUEST_FAKE_CORE_DUMP = 18"
| "request_id E_MMGR_REQUEST_FAKE_CORE_DUMP_COMPLETE = 19"
| "request_id E_MMGR_REQUEST_FAKE_PLATFORM_REBOOT = 20"
| "request_id E_MMGR_REQUEST_FAKE_TFT_EVENT = 21"
| "request_id E_MMGR_NUM_REQUESTS = 22"

primrec ev_code :: "e_mmgr_events \<Rightarrow> nat" where
  "ev_code E_MMGR_EVENT_MODEM_DOWN = 0"
| "ev_code E_MMGR_EVENT_MODEM_UP = 1"
| "ev_code E_MMGR_EVENT_MODEM_NFLUSH = 2"
| "ev_code E_MMGR_EVENT_MODEM_OUT_OF_SERVICE = 3"
| "ev_code E_MMGR_NOTIFY_MODEM_COLD_RESET = 4"
| "ev_code E_MMGR_NOTIFY_MODEM_SHUTDOWN = 5"
| "ev_code E_MMGR_NOTIFY_PLATFORM_REBOOT = 6"
| "ev_code E_MMGR_NOTIFY_CORE_DUMP = 7"
| "ev_code E_MMGR_ACK = 8"
| "ev_code E_MMGR_NACK = 9"
| "ev_code E_MMGR_NOTIFY_CORE_DUMP_COMPLETE = 10"
| "ev_code E_MMGR_NOTIFY_AP_RESET = 11"
| "ev_code E_MMGR_NOTIFY_SELF_RESET = 12"
| "ev_code E_MMGR_NOTIFY_TFT_EVENT = 13"
| "ev_code E_MMGR_RESPONSE_MODEM_HW_ID = 14"
| "ev_code E_MMGR_RESPONSE_MODEM_FW_RESULT = 15"
| "ev_code E_MMGR_RESPONSE_MODEM_NVM_RESULT = 16"
| "ev_code E_MMGR_RESPONSE_FUSE_INFO = 17"
| "ev_code E_MMGR_RESPONSE_MODEM_BACKUP_PRODUCTION = 18"
| "ev_code E_MMGR_NUM_EVENTS = 19"

definition all_events :: "e_mmgr_events list" where
  "all_events =
    [E_MMGR_EVENT_MODEM_DOWN, E_MMGR_EVENT_MODEM_UP, E_MMGR_EVENT_MODEM_NFLUSH,
     E_MMGR_EVENT_MODEM_OUT_OF_SERVICE, E_MMGR_NOTIFY_MODEM_COLD_RESET,
     E_MMGR_NOTIFY_MODEM_SHUTDOWN, E_MMGR_NOTIFY_PLATFORM_REBOOT, E_MMGR_NOTIFY_CORE_DUMP,
     E_MMGR_ACK, E_MMGR_NACK, E_MMGR_NOTIFY_CORE_DUMP_COMPLETE, E_MMGR_NOTIFY_AP_RESET,
     E_MMGR_NOTIFY_SELF_RESET, E_MMGR_NOTIFY_TFT_EVENT, E_MMGR_RESPONSE_MODEM_HW_ID,
     E_MMGR_RESPONSE_MODEM_FW_RESULT, E_MMGR_RESPONSE_MODEM_NVM_RESULT,
     E_MMGR_RESPONSE_FUSE_INFO, E_MMGR_RESPONSE_MODEM_BACKUP_PRODUCTION, E_MMGR_NUM_EVENTS]"

definition event_of_id :: "u32 \<Rightarrow> e_mmgr_events" where
  "event_of_id i =
     (if unat i < length all_events then all_events ! unat i else E_MMGR_NUM_EVENTS)"

definition event_id :: "e_mmgr_events \<Rightarrow> u32" where
  "event_id e = word_of_nat (ev_code e)"

datatype e_mmgr_state =
    E_MMGR_MDM_OFF | E_MMGR_MDM_RESET | E_MMGR_MDM_START | E_MMGR_MDM_CONF_ONGOING
  | E_MMGR_MDM_UP | E_MMGR_MDM_OOS | E_MMGR_WAIT_COLD_ACK | E_MMGR_WAIT_SHT_ACK
  | E_MMGR_MDM_CORE_DUMP | E_MMGR_MDM_PREPARE_OFF | E_MMGR_MDM_LINK_USB_DISC
  | E_MMGR_NUM

datatype e_core_dump_state =
    E_CD_SUCCEED | E_CD_TIMEOUT | E_CD_LINK_ERROR | E_CD_PROTOCOL_ERROR
  | E_CD_SELF_RESET | E_CD_OTHER

primrec cd_state_code :: "e_core_dump_state \<Rightarrow> u32" where
  "cd_state_code E_CD_SUCCEED = 0"
| "cd_state_code E_CD_TIMEOUT = 1"
| "cd_state_code E_CD_LINK_ERROR = 2"
| "cd_state_code E_CD_PROTOCOL_ERROR = 3"
| "cd_state_code E_CD_SELF_RESET = 4"
| "cd_state_code E_CD_OTHER = 5"

datatype e_modem_fw_error =
    E_MODEM_FW_SUCCEED | E_MODEM_FW_OUTDATED | E_MODEM_FW_READY_TIMEOUT
  | E_MODEM_FW_SECURITY_CORRUPTED | E_MODEM_FW_SW_CORRUPTED | E_MODEM_FW_BAD_FAMILY
  | E_MODEM_FW_ERROR_UNSPECIFIED | E_MODEM_FW_NUM

primrec fw_error_code :: "e_modem_fw_error \<Rightarrow> u32" where
  "fw_error_code E_MODEM_FW_SUCCEED = 0"
| "fw_error_code E_MODEM_FW_OUTDATED = 1"
| "fw_error_code E_MODEM_FW_READY_TIMEOUT = 2"
| "fw_error_code E_MODEM_FW_SECURITY_CORRUPTED = 3"
| "fw_error_code E_MODEM_FW_SW_CORRUPTED = 4"
| "fw_error_code E_MODEM_FW_BAD_FAMILY = 5"
| "fw_error_code E_MODEM_FW_ERROR_UNSPECIFIED = 6"
| "fw_error_code E_MODEM_FW_NUM = 7"

datatype e_modem_nvm_error =
    E_MODEM_NVM_SUCCEED | E_MODEM_NVM_NO_NVM_PATCH | E_MODEM_NVM_ERROR_UNSPECIFIED
  | E_MODEM_NVM_FAIL | E_MODEM_NVM_NUM

primrec nvm_error_code :: "e_modem_nvm_error \<Rightarrow> u32" where
  "nvm_error_code E_MODEM_NVM_SUCCEED = 0"
| "nvm_error_code E_MODEM_NVM_NO_NVM_PATCH = 1"
| "nvm_error_code E_MODEM_NVM_ERROR_UNSPECIFIED = 2"
| "nvm_error_code E_MODEM_NVM_FAIL = 3"
| "nvm_error_code E_MODEM_NVM_NUM = 4"

datatype e_event_type = E_EVENT_ERROR | E_EVENT_STATS | E_EVENT_INFO

primrec event_type_code :: "e_event_type \<Rightarrow> u32" where
  "event_type_code E_EVENT_ERROR = 0"
| "event_type_code E_EVENT_STATS = 1"
| "event_type_code E_EVENT_INFO = 2"

text \<open>Wake-up configuration of the modem (\<^verbatim>\<open>mmgr/core/modem_info.h\<close>).\<close>

datatype e_mdm_wakeup_cfg = E_MDM_WAKEUP_UNKNOWN | E_MDM_WAKEUP_INBAND | E_MDM_WAKEUP_OUTBAND

text \<open>Message and action intents (\<^verbatim>\<open>mmgr/core/java_intent.h\<close>).\<close>

datatype e_intent_msg =
    E_MSG_INTENT_CORE_DUMP_WARNING | E_MSG_INTENT_CORE_DUMP_COMPLETE
  | E_MSG_INTENT_MODEM_OUT_OF_SERVICE | E_MSG_INTENT_PLATFORM_REBOOT | E_MSG_INTENT_REBOOT
  | E_MSG_INTENT_MODEM_COLD_RESET | E_MSG_INTENT_MODEM_UNSOLICITED_RESET
  | E_MSG_INTENT_MODEM_NOT_RESPONSIVE | E_MSG_INTENT_MODEM_FW_BAD_FAMILY
  | E_MSG_INTENT_MODEM_FW_OUTDATED | E_MSG_INTENT_MODEM_FW_SECURITY_CORRUPTED
  | E_MSG_INTENT_MODEM_FW_RESTRICTED | E_MSG_INTENT_MODEM_FW_UPDATE_FAILURE
  | E_MSG_INTENT_MSG_NUM

datatype e_intent_action = E_ACTION_INTENT_REBOOT | E_ACTION_INTENT_ACTION_NUM

subsection \<open>The codes are faithful to the declaration order\<close>

lemma request_of_request_id [simp]: "request_of_id (request_id r) = r"
  by (cases r) (simp_all add: request_of_id_def all_requests_def)

lemma request_of_id_NUM_iff: "request_of_id i = E_MMGR_NUM_REQUESTS \<longleftrightarrow> 22 \<le> i"
proof -
  have "request_of_id i \<noteq> E_MMGR_NUM_REQUESTS" if "unat i < 22"
  proof -
    have "i = word_of_nat (unat i)" by simp
    moreover have "unat i \<in> set [0..<22]" using that by simp
    ultimately show ?thesis
      by (auto simp: request_of_id_def all_requests_def upt_rec)
  qed
  moreover have "request_of_id i = E_MMGR_NUM_REQUESTS" if "22 \<le> unat i"
    using that by (auto simp: request_of_id_def all_requests_def not_less_eq le_Suc_eq
        nth_Cons' split: if_splits)
  moreover have "22 \<le> i \<longleftrightarrow> 22 \<le> unat i"
    by (simp add: word_le_nat_alt)
  ultimately show ?thesis by (meson not_le)
qed

lemma ev_code_less_32 [simp]: "ev_code e < 32"
  by (cases e) simp_all

lemma event_of_event_id [simp]: "event_of_id (event_id e) = e"
  by (cases e) (simp_all add: event_of_id_def all_events_def event_id_def)

lemma ev_code_inject [simp]: "ev_code a = ev_code b \<longleftrightarrow> a = b"
  by (metis event_id_def event_of_event_id)

lemma ev_code_NUM_iff: "ev_code e < 19 \<longleftrightarrow> e \<noteq> E_MMGR_NUM_EVENTS"
  by (cases e) simp_all

end
