(* ===== verification/Mmgr_World.thy ===== *)
theory Mmgr_World
  imports Mmgr_Types
begin

text \<open>
  The world outside the modem manager: the kernel, the C library, the Android
  services, the modem control driver and the loaded libraries. None of it is
  code of the repository, so it is a parameter of the model.

  Every interaction is a value of \<open>ext\<close>. The history of a run is the list of the
  interactions so far, newest first, and the environment \<open>env\<close> answers an interaction from the whole
  history up to and including it. The answers are therefore arbitrary and
  may change from one call to the next; a property that needs a particular behaviour of
  the outside world states it as a hypothesis on the environment.
\<close>

record timespec =
  tv_sec :: int
  tv_nsec :: int

text \<open>
  The states a client of the modem control driver can read and poll. They are bits of
  an \<^verbatim>\<open>int\<close> in the C code, with values from a kernel header that is not part of the repository;
  a mask is the set of its bits.
\<close>

datatype mdm_ctrl_state =
    MDM_CTRL_STATE_UNKNOWN | MDM_CTRL_STATE_OFF | MDM_CTRL_STATE_COLD_BOOT
  | MDM_CTRL_STATE_WARM_BOOT | MDM_CTRL_STATE_COREDUMP | MDM_CTRL_STATE_IPC_READY
  | MDM_CTRL_STATE_FW_DOWNLOAD_READY

text \<open>The modem families \<^verbatim>\<open>mdm_mcd_configure\<close> knows.\<close>

datatype mdm_ctrl_mdm_type = MODEM_UNSUP | MODEM_6360 | MODEM_7160 | MODEM_7260 | MODEM_2230

datatype mdm_ctrl_cmd =
    MDM_CTRL_POWER_OFF | MDM_CTRL_POWER_ON | MDM_CTRL_COLD_RESET | MDM_CTRL_GET_STATE
  | MDM_CTRL_GET_HANGUP_REASONS | MDM_CTRL_CLEAR_HANGUP_REASONS
  | MDM_CTRL_SET_POLLED_STATES "mdm_ctrl_state set"
  | MDM_CTRL_SET_CFG int mdm_ctrl_mdm_type

text \<open>The states of the core dump library, and the values of \<^verbatim>\<open>errno\<close> the code looks at.\<close>

datatype mcdr_status =
    MCDR_ARCHIVE_IN_PROGRESS | MCDR_SUCCEED | MCDR_CLEANING_UP | MCDR_FS_ERROR
  | MCDR_INIT_ERROR | MCDR_IO_ERROR | MCDR_START_PROT_ERR | MCDR_PROT_ERROR | MCDR_OTHER

datatype errno = EBADF | EINVAL | ENOENT | EAGAIN | EACCES | EBUSY | EEXIST | E_other

datatype worker_thread =
    Thread_flash | Thread_mcdr | Thread_delayed_link_on int | Thread_delayed_mcd_up int

text \<open>
  The results of the modem update library, and what it is told about the firmware to push. Its numbers are not
  part of the repository.
\<close>

datatype e_mup_err =
    E_MUP_SUCCEED | E_MUP_FAILED | E_MUP_FW_OUTDATED | E_MUP_FW_CORRUPTED | E_MUP_BAD_PARAMETER | E_MUP_FW_RESTRICTED

record mup_fw_update_params_t =
  mup_eb_port :: string
  mup_fls_port :: string
  mup_channel_hw_sw :: bool
  mup_fw_file_path :: string
  mup_baudrate :: int

text \<open>The configuration of the kernel's multiplexer, and the requests to a terminal's line discipline.\<close>

record gsm_config =
  gc_adaption :: int
  gc_encapsulation :: int
  gc_initiator :: int
  gc_t1 :: int
  gc_t2 :: int
  gc_t3 :: int
  gc_n2 :: int
  gc_mru :: int
  gc_mtu :: int
  gc_k :: int
  gc_i :: int
  gc_clocal :: int
  gc_burst :: int

datatype tty_request = TIOCSETD int | TIOCGETD | GSMIOC_GETCONF | GSMIOC_SETCONF gsm_config

text \<open>
  What lies below a directory: the entries of the directory in the order of \<^verbatim>\<open>readdir\<close>, each a
  file, again a directory, or a symbolic link to a directory. A search sees one state of the directory; that
  a directory inside it cannot be opened is an answer of its own.
\<close>

datatype fs_node = Fs_file | Fs_dir "(string \<times> fs_node) list" | Fs_link "(string \<times> fs_node) list"

record tm =
  tm_year :: int
  tm_mon :: int
  tm_mday :: int
  tm_hour :: int
  tm_min :: int
  tm_sec :: int

text \<open>The C library: memory, clocks, processes.\<close>

datatype libc_call =
    X_calloc nat                                \<comment> \<open>answer: 0 when the allocation fails\<close>
  | X_free
  | X_uninit                                    \<comment> \<open>reading an uninitialised local\<close>
  | X_boottime | X_timeofday | X_monotonic | X_realtime | X_sleep int | X_usleep int | X_sync
  | X_thread_create worker_thread | X_thread_join worker_thread | X_exit | X_dlopen string
  | X_dlerror string | X_dlclose string | X_time | X_localtime int | X_system string
  | X_sigemptyset | X_sigaction int | X_atexit

text \<open>Sockets and epoll.\<close>

datatype sock_call =
    X_send int "byte list" | X_recv int nat | X_accept int | X_shutdown int | X_close int
  | X_control_socket string | X_listen int int
  | X_epoll_create | X_epoll_add int int | X_epoll_wait int int int | X_pipe

text \<open>Files and terminals.\<close>

datatype file_call =
    X_open string | X_fcntl_nonblock int | X_tcsetattr int | X_read int nat
  | X_write int "byte list" | X_file_exist string | X_unlink string
  | X_tcflush int bool                          \<comment> \<open>input only, or both directions\<close>
  | X_tty_ioctl int tty_request | X_openat int string | X_fsync int
  | X_fstat int | X_sendfile int int | X_umask
  | X_folder_exist string | X_mkdir string | X_chown string | X_chmod string | X_rmdir string
  | X_getpwnam string | X_getgrnam string
  | X_opendir string | X_closedir string | X_regcomp string | X_regexec string string

text \<open>Android: properties, wake lock.\<close>

datatype android_call =
    X_property_get string | X_property_set string string | X_wake_lock bool

text \<open>The modem: its driver and the libraries that talk to it.\<close>

datatype modem_call =
    X_ioctl int mdm_ctrl_cmd | X_spi_ioctl int bool
  | X_mup_initialize | X_mup_dispose
  | X_mup_check_fw_version string string | X_mup_open_device mup_fw_update_params_t
  | X_mup_config_secur_channel "string option" | X_mup_update_fw mup_fw_update_params_t
  | X_mup_update_nvm string string | X_mup_gen_fls string string string
  | X_mcdr_read | X_mcdr_get_state | X_mcdr_get_reason | X_mcdr_cleanup

text \<open>USB hotplug events and the security library.\<close>

datatype plug_call =
    X_usb_host_init | X_usb_get_fd | X_usb_load | X_usb_read_event | X_usb_cleanup
  | X_usb_open string | X_usb_product_id string | X_usb_vendor_id string | X_usb_close string
  | X_secure_callback u32 "byte list" | X_secure_free | X_md5 "byte list"
  | X_b64_pton string nat | X_b64_ntop "byte list"

text \<open>
  What the client library needs besides: its socket, its reader thread and the condition variable it
  waits on, and the callbacks of the application, numbered, with the event they are called for.
\<close>

datatype cli_call =
    X_socket_local_client string | X_select int | X_reader_create | X_reader_join
  | X_cond_timedwait int | X_callback nat u32

datatype ext =
    Libc libc_call | Sock sock_call | File file_call | Android android_call
  | Modem modem_call | Plug plug_call | Cli cli_call

type_synonym history = "ext list"

text \<open>
  The answers, by type: the returned integer and a second one written through a pointer; bytes
  read; a time; the driver's states and whether its hang-up reasons include a reset; the value of
  \<^verbatim>\<open>errno\<close>; the descriptors \<^verbatim>\<open>epoll_wait\<close> reports; the USB devices added (true) or removed; the
  results of the core dump and of the update libraries and the numbers of the latter's results; the
  content of a directory; the multiplexer's configuration; a calendar time.
\<close>

record env =
  env_int :: "history \<Rightarrow> int"
  env_int2 :: "history \<Rightarrow> int"
  env_bytes :: "history \<Rightarrow> byte list"
  env_string :: "history \<Rightarrow> string"
  env_time :: "history \<Rightarrow> timespec"
  env_states :: "history \<Rightarrow> mdm_ctrl_state set"
  env_hu_reset :: "history \<Rightarrow> bool"
  env_errno :: "history \<Rightarrow> errno"
  env_fds :: "history \<Rightarrow> int list"
  env_usb :: "history \<Rightarrow> (bool \<times> string) list"
  env_mcdr :: "history \<Rightarrow> mcdr_status"
  env_nvm :: "history \<Rightarrow> e_modem_nvm_error"
  env_mup :: "history \<Rightarrow> e_mup_err"
  env_mup_code :: "e_mup_err \<Rightarrow> int"
  env_dir :: "history \<Rightarrow> (string \<times> fs_node) list"
  env_gsm :: "history \<Rightarrow> gsm_config"
  env_tm :: "history \<Rightarrow> tm option"

text \<open>One interaction: it is recorded and the environment answers.\<close>

definition xint :: "env \<Rightarrow> ext \<Rightarrow> history \<Rightarrow> int \<times> history" where
  "xint E c h = (env_int E (c # h), c # h)"

definition xbytes :: "env \<Rightarrow> ext \<Rightarrow> history \<Rightarrow> byte list \<times> history" where
  "xbytes E c h = (env_bytes E (c # h), c # h)"

definition xtime :: "env \<Rightarrow> ext \<Rightarrow> history \<Rightarrow> timespec \<times> history" where
  "xtime E c h = (env_time E (c # h), c # h)"

definition xstring :: "env \<Rightarrow> ext \<Rightarrow> history \<Rightarrow> string \<times> history" where
  "xstring E c h = (env_string E (c # h), c # h)"

text \<open>A call whose answer the code ignores.\<close>

definition xcall :: "ext \<Rightarrow> history \<Rightarrow> history" where
  "xcall c h = c # h"

lemmas ext_defs = xint_def xbytes_def xtime_def xstring_def xcall_def

text \<open>Documented behaviours of the environment that some properties rely on.\<close>

definition alloc_ok :: "env \<Rightarrow> bool" where
  "alloc_ok E \<longleftrightarrow> (\<forall>n h. env_int E (Libc (X_calloc n) # h) \<noteq> 0)"

text \<open>An environment in which every call answers 1, for the examples.\<close>

definition env_ok :: env where
  "env_ok = \<lparr>env_int = (\<lambda>_. 1), env_int2 = (\<lambda>_. 0), env_bytes = (\<lambda>_. []), env_string = (\<lambda>_. []),
             env_time = (\<lambda>_. \<lparr>tv_sec = 0, tv_nsec = 0\<rparr>), env_states = (\<lambda>_. {}),
             env_hu_reset = (\<lambda>_. False), env_errno = (\<lambda>_. E_other), env_fds = (\<lambda>_. []),
             env_usb = (\<lambda>_. []), env_mcdr = (\<lambda>_. MCDR_SUCCEED),
             env_nvm = (\<lambda>_. E_MODEM_NVM_SUCCEED), env_mup = (\<lambda>_. E_MUP_SUCCEED),
             env_mup_code = (\<lambda>e. if e = E_MUP_SUCCEED then 0 else 1), env_dir = (\<lambda>_. []),
             env_gsm = (\<lambda>_. \<lparr>gc_adaption = 1, gc_encapsulation = 0, gc_initiator = 0, gc_t1 = 10, gc_t2 = 30, gc_t3 = 10,
               gc_n2 = 3, gc_mru = 64, gc_mtu = 64, gc_k = 2, gc_i = 1, gc_clocal = 0, gc_burst = 0\<rparr>),
             env_tm = (\<lambda>_. None)\<rparr>"

lemma alloc_ok_env_ok [simp]: "alloc_ok env_ok"
  by (simp add: alloc_ok_def env_ok_def)

text \<open>The interactions a run added to its history, oldest first.\<close>

definition calls_since :: "history \<Rightarrow> history \<Rightarrow> ext list" where
  "calls_since h h' = rev (take (length h' - length h) h')"

lemma calls_since_append [simp]: "calls_since h (cs @ h) = rev cs"
  by (simp add: calls_since_def)

lemma calls_since_Cons [simp]: "calls_since h (c # h) = [c]"
  using calls_since_append [of h "[c]"] by simp

lemma calls_since_self [simp]: "calls_since h h = []"
  by (simp add: calls_since_def)

text \<open>A history only ever grows.\<close>

definition extends :: "history \<Rightarrow> history \<Rightarrow> bool" where
  "extends h h' \<longleftrightarrow> (\<exists>cs. h' = cs @ h)"

lemma extends_refl [simp, intro]: "extends h h"
  by (simp add: extends_def)

lemma extends_Cons [simp]: "extends h (c # h)"
  by (simp add: extends_def)

lemma extends_trans [trans]: "extends a b \<Longrightarrow> extends b c \<Longrightarrow> extends a c"
  by (auto simp: extends_def)

section \<open>Calls of a kind\<close>

text \<open>Only interactions of the given kind were added to a history.\<close>

definition only :: "(ext \<Rightarrow> bool) \<Rightarrow> history \<Rightarrow> history \<Rightarrow> bool" where
  "only P h h' \<longleftrightarrow> (\<exists>cs. h' = cs @ h \<and> list_all P cs)"

lemma only_refl [simp]: "only P h h"
  by (simp add: only_def)

lemma only_Cons [simp]: "only P h h' \<Longrightarrow> P c \<Longrightarrow> only P h (c # h')"
  unfolding only_def by (metis append_Cons list.pred_inject(2))

lemma only_trans [trans]: "only P h h' \<Longrightarrow> only P h' h'' \<Longrightarrow> only P h h''"
  by (auto simp: only_def)

lemma only_mono: "only P h h' \<Longrightarrow> (\<And>c. P c \<Longrightarrow> Q c) \<Longrightarrow> only Q h h'"
  unfolding only_def by (metis list_all_iff)

text \<open>
  A function of the history that skips the calls of a kind is not changed by them.
\<close>

lemma only_same:
  assumes "only P h h'" and "\<And>c h. P c \<Longrightarrow> f (c # h) = f h"
  shows "f h' = f h"
proof -
  obtain cs where "h' = cs @ h" "list_all P cs" using assms(1) by (auto simp: only_def)
  moreover from this(2) have "f (cs @ h) = f h" by (induction cs) (auto simp: assms(2))
  ultimately show ?thesis by simp
qed

text \<open>
  Plain calls: no message to a client, no thread created or joined, no property written, no command to the
  modem's driver.
\<close>

fun plain :: "ext \<Rightarrow> bool" where
  "plain (Sock (X_send _ _)) = False"
| "plain (Libc (X_thread_create _)) = False"
| "plain (Libc (X_thread_join _)) = False"
| "plain (Android (X_property_set _ _)) = False"
| "plain (Modem (X_ioctl _ _)) = False"
| "plain _ = True"

named_theorems plain_rules \<open>operations that make plain calls only\<close>

end
