(* ===== verification/C_Strings.thy ===== *)
theory C_Strings
  imports Mmgr_World
begin

text \<open>
  What the sources use of the C string functions. A string is its list of characters without the terminating zero;
  numbers scanned from a text are reduced to 32 bits, the width of \<^verbatim>\<open>int\<close>.
\<close>

section \<open>Printing and scanning\<close>

text \<open>Decimal digits, as \<^verbatim>\<open>snprintf\<close> prints them; the text is cut to fit the buffer.\<close>

fun digits :: "nat \<Rightarrow> string" where
  "digits n = (if n < 10 then [char_of (48 + n)] else digits (n div 10) @ [char_of (48 + n mod 10)])"

declare digits.simps [simp del]

definition dec :: "int \<Rightarrow> string" where
  "dec i = (if i < 0 then CHR ''-'' # digits (nat (- i)) else digits (nat i))"

definition snprintf :: "nat \<Rightarrow> string \<Rightarrow> string" where
  "snprintf len s = take (len - 1) s"

definition is_digit :: "char \<Rightarrow> bool" where
  "is_digit c \<longleftrightarrow> 48 \<le> (of_char c :: nat) \<and> (of_char c :: nat) \<le> 57"

definition is_space :: "char \<Rightarrow> bool" where
  "is_space c \<longleftrightarrow> (of_char c :: nat) = 32 \<or> 9 \<le> (of_char c :: nat) \<and> (of_char c :: nat) \<le> 13"

fun scan_nat :: "nat \<Rightarrow> string \<Rightarrow> nat \<times> string" where
  "scan_nat acc [] = (acc, [])"
| "scan_nat acc (c # s) =
     (if is_digit c then scan_nat (acc * 10 + (of_char c - 48)) s else (acc, c # s))"

text \<open>The conversion \<^verbatim>\<open>%d\<close> of \<^verbatim>\<open>sscanf\<close>.\<close>

definition scan_int :: "string \<Rightarrow> (int \<times> string) option" where
  "scan_int s =
     (let s1 = dropWhile is_space s;
          (neg, s2) = (case s1 of [] \<Rightarrow> (False, [])
                       | c # r \<Rightarrow> if c = CHR ''-'' then (True, r)
                                  else if c = CHR ''+'' then (False, r) else (False, s1)) in
      case s2 of [] \<Rightarrow> None
      | c # _ \<Rightarrow>
          if is_digit c
          then let (n, r) = scan_nat 0 s2; v = (if neg then - int n else int n) in
               Some (sint (word_of_int v :: u32), r)
          else None)"

section \<open>Searching\<close>

text \<open>\<^verbatim>\<open>strstr\<close>: the rest of the text from the first occurrence on.\<close>

fun strstr :: "string \<Rightarrow> string \<Rightarrow> string option" where
  "strstr [] pat = (if pat = [] then Some [] else None)"
| "strstr (c # s) pat = (if take (length pat) (c # s) = pat then Some (c # s) else strstr s pat)"

text \<open>The bytes of a C buffer up to its zero, as text.\<close>

definition buffer_string :: "byte list \<Rightarrow> string" where
  "buffer_string bs = map (\<lambda>b. char_of (unat b)) (takeWhile (\<lambda>b. b \<noteq> 0) bs)"

text \<open>Line ends as the modem sends them.\<close>

definition CR :: char where "CR = char_of (13 :: nat)"
definition LF :: char where "LF = char_of (10 :: nat)"
definition CRLF :: string where "CRLF = [CR, LF]"

section \<open>Lemmas\<close>

lemma is_digit_char [simp]: "(d :: nat) < 10 \<Longrightarrow> is_digit (char_of (48 + d))"
  by (simp add: is_digit_def)

lemma of_char_digit [simp]: "(d :: nat) < 10 \<Longrightarrow> (of_char (char_of (48 + d)) :: nat) = 48 + d"
  by simp

lemma digits_neq_Nil [simp]: "digits n \<noteq> []"
  by (simp add: digits.simps [of n])

lemma digits_all_digit: "c \<in> set (digits n) \<Longrightarrow> is_digit c"
proof (induction n rule: digits.induct)
  case (1 n)
  then show ?case by (auto simp: digits.simps [of n] split: if_splits)
qed

lemma scan_nat_append:
  "\<forall>c \<in> set xs. is_digit c \<Longrightarrow> scan_nat acc (xs @ s) = scan_nat (fst (scan_nat acc xs)) s"
  by (induction xs arbitrary: acc) auto

lemma scan_nat_digits: "fst (scan_nat acc (digits n)) = acc * 10 ^ length (digits n) + n"
proof (induction n arbitrary: acc rule: digits.induct)
  case (1 n)
  have all: "\<forall>c \<in> set (digits m). is_digit c" for m using digits_all_digit by blast
  show ?case
  proof (cases "n < 10")
    case True
    then show ?thesis by (simp add: digits.simps [of n])
  next
    case False
    have d: "n mod 10 < 10" by simp
    show ?thesis
      using False d 1 [OF False, of acc]
      by (simp add: digits.simps [of n] scan_nat_append [OF all] algebra_simps del: of_char_of)
  qed
qed

lemma scan_nat_stops: "s = [] \<or> \<not> is_digit (hd s) \<Longrightarrow> scan_nat acc s = (acc, s)"
  by (cases s) auto

lemma digits_scan:
  assumes "s = [] \<or> \<not> is_digit (hd s)"
  shows "scan_nat 0 (digits n @ s) = (n, s)"
proof -
  have "\<forall>c \<in> set (digits n). is_digit c" using digits_all_digit by blast
  then show ?thesis
    using scan_nat_digits [of 0 n] by (simp add: scan_nat_append scan_nat_stops [OF assms])
qed

lemma digits_inj: "digits m = digits n \<longleftrightarrow> m = n"
  by (metis digits_scan prod.inject)

lemma digits_length: "n < 10 ^ k \<Longrightarrow> 0 < k \<Longrightarrow> length (digits n) \<le> k"
proof (induction n arbitrary: k rule: digits.induct)
  case (1 n)
  show ?case
  proof (cases "n < 10")
    case True
    with 1 show ?thesis by (simp add: digits.simps [of n])
  next
    case False
    then obtain k' where k: "k = Suc k'" "k' > 0" using 1 by (cases k; cases "k - 1") auto
    then have "n div 10 < 10 ^ k'" using 1 by simp
    with 1 False k show ?thesis by (simp add: digits.simps [of n])
  qed
qed

lemma digits_hd: "\<exists>c cs. digits n = c # cs \<and> is_digit c"
  using digits_all_digit [of "hd (digits n)" n] by (cases "digits n") auto

lemma digit_not_sign: "is_digit c \<Longrightarrow> c \<noteq> CHR ''-'' \<and> c \<noteq> CHR ''+'' \<and> \<not> is_space c"
  by (auto simp: is_digit_def is_space_def)

text \<open>What \<^verbatim>\<open>%d\<close> prints, \<^verbatim>\<open>%d\<close> reads back.\<close>

lemma scan_int_dec:
  assumes "s = [] \<or> \<not> is_digit (hd s)"
  shows "scan_int (dec i @ s) = Some (sint (word_of_int i :: u32), s)"
proof -
  obtain c cs where d: "digits (nat \<bar>i\<bar>) = c # cs" "is_digit c" using digits_hd by blast
  have n: "scan_nat 0 ((c # cs) @ s) = (nat \<bar>i\<bar>, s)" using digits_scan [OF assms, of "nat \<bar>i\<bar>"] d(1) by simp
  have "\<not> is_space (CHR ''-'')" by (simp add: is_space_def)
  with d digit_not_sign [OF d(2)] n show ?thesis
    by (cases "i < 0") (simp_all add: dec_def scan_int_def Let_def)
qed

lemma dec_length: "- (2 ^ 31) \<le> i \<Longrightarrow> i < 2 ^ 31 \<Longrightarrow> length (dec i) \<le> 11"
proof -
  assume "- (2 ^ 31) \<le> i" "i < 2 ^ 31"
  then have "length (digits (nat i)) \<le> 10" "length (digits (nat (- i))) \<le> 10"
    by (intro digits_length; simp add: nat_less_iff)+
  then show ?thesis by (simp add: dec_def)
qed

end
