(* ===== verification/Msg_Format.thy ===== *)
theory Msg_Format
  imports C_Strings
begin

text \<open>
  The message layer shared by the daemon and its client library:
  \<^verbatim>\<open>libcnx/msg_format.c\<close> (integers in network order, message header, message
  allocation) and \<^verbatim>\<open>libcnx/client_cnx.c\<close> (the socket primitives under it).

  A message is built through a cursor that walks over a calloc'ed buffer; the model
  keeps that cursor explicit as the pair \<^typ>\<open>buf\<close>, and every \<^verbatim>\<open>memcpy\<close> is bounds-checked. The
  contract of one integer codec is the locale \<open>wire_codec\<close>, interpreted on the three
  serialize/deserialize pairs of the source. \<^verbatim>\<open>size_t\<close> is 32 bits wide, as on the targets of this
  tree.
\<close>

section \<open>Memory representation of integers\<close>

text \<open>The bytes of a 32-bit integer in memory (little-endian targets), and back.\<close>

definition bytes_of_u32 :: "u32 \<Rightarrow> byte list" where
  "bytes_of_u32 w = [ucast w, ucast (drop_bit 8 w), ucast (drop_bit 16 w), ucast (drop_bit 24 w)]"

fun u32_of_bytes :: "byte list \<Rightarrow> u32" where
  "u32_of_bytes [a, b, c, d] =
     ucast a OR push_bit 8 (ucast b) OR push_bit 16 (ucast c) OR push_bit 24 (ucast d)"
| "u32_of_bytes _ = 0"

definition htonl :: "u32 \<Rightarrow> u32" where
  "htonl w = u32_of_bytes (rev (bytes_of_u32 w))"

definition ntohl :: "u32 \<Rightarrow> u32" where
  "ntohl w = u32_of_bytes (rev (bytes_of_u32 w))"

lemma length_bytes_of_u32 [simp]: "length (bytes_of_u32 w) = 4"
  by (simp add: bytes_of_u32_def)

lemma u32_of_bytes_of_u32 [simp]: "u32_of_bytes (bytes_of_u32 w) = w"
proof (rule bit_word_eqI)
  fix n :: nat
  assume "n < LENGTH(32)"
  then consider "n < 8" | "8 \<le> n" "n < 16" | "16 \<le> n" "n < 24" | "24 \<le> n" "n < 32"
    by fastforce
  then show "bit (u32_of_bytes (bytes_of_u32 w)) n \<longleftrightarrow> bit w n"
    by cases (auto simp: bytes_of_u32_def bit_simps less_diff_conv2)
qed

lemma bytes_of_u32_of_bytes [simp]:
  assumes "length bs = 4" shows "bytes_of_u32 (u32_of_bytes bs) = bs"
proof -
  obtain a b c d where bs: "bs = [a, b, c, d]"
    using assms by (auto simp: numeral_eq_Suc length_Suc_conv)
  show ?thesis
    unfolding bs by (auto simp: bytes_of_u32_def intro!: bit_word_eqI)
      (auto simp: bit_simps dest: bit_imp_le_length)
qed

text \<open>\<^verbatim>\<open>htonl\<close> reverses the bytes in memory and \<^verbatim>\<open>ntohl\<close> undoes it.\<close>

lemma bytes_of_htonl: "bytes_of_u32 (htonl w) = rev (bytes_of_u32 w)"
  by (simp add: htonl_def)

lemma ntohl_htonl [simp]: "ntohl (htonl w) = w"
  by (simp add: ntohl_def bytes_of_htonl)

section \<open>Integer codecs\<close>

text \<open>\<^verbatim>\<open>memcpy(*buffer, &value, 4)\<close> and \<^verbatim>\<open>memcpy(value, *buffer, 4)\<close> with the cursor moved.\<close>

definition serialize_uint32 :: "buf \<Rightarrow> u32 \<Rightarrow> buf option" where
  "serialize_uint32 b v =
     do { bs \<leftarrow> mem_write (fst b) (snd b) (bytes_of_u32 (htonl v));
          Some (bs, snd b + 4) }"

definition deserialize_uint32 :: "buf \<Rightarrow> (u32 \<times> buf) option" where
  "deserialize_uint32 b =
     do { xs \<leftarrow> mem_read (fst b) (snd b) 4;
          Some (ntohl (u32_of_bytes xs), (fst b, snd b + 4)) }"

definition serialize_int :: "buf \<Rightarrow> int \<Rightarrow> buf option" where
  "serialize_int b v = serialize_uint32 b (word_of_int v)"

definition deserialize_int :: "buf \<Rightarrow> (int \<times> buf) option" where
  "deserialize_int b =
     do { (tmp, b') \<leftarrow> deserialize_uint32 b; Some (sint tmp, b') }"

definition serialize_size_t :: "buf \<Rightarrow> u32 \<Rightarrow> buf option" where
  "serialize_size_t b v = serialize_uint32 b v"

definition deserialize_size_t :: "buf \<Rightarrow> (u32 \<times> buf) option" where
  "deserialize_size_t b = deserialize_uint32 b"

text \<open>The wire image of an integer: most significant byte first.\<close>

definition be_bytes :: "u32 \<Rightarrow> byte list" where
  "be_bytes w = rev (bytes_of_u32 w)"

lemma length_be_bytes [simp]: "length (be_bytes w) = 4"
  by (simp add: be_bytes_def)

text \<open>What the message code relies on in a codec.\<close>

locale wire_codec =
  fixes put :: "buf \<Rightarrow> 'a \<Rightarrow> buf option"
    and get :: "buf \<Rightarrow> ('a \<times> buf) option"
    and image :: "'a \<Rightarrow> byte list"
    and valid :: "'a \<Rightarrow> bool"
  assumes length_image: "length (image v) = 4"
    and put_zeros: "length pre = off \<Longrightarrow> 4 \<le> n \<Longrightarrow>
          put (pre @ replicate n 0, off) v = Some (pre @ image v @ replicate (n - 4) 0, off + 4)"
    and put_short: "length bs < off + 4 \<Longrightarrow> put (bs, off) v = None"
    and get_image: "valid v \<Longrightarrow> length pre = off \<Longrightarrow>
          get (pre @ image v @ post, off) = Some (v, (pre @ image v @ post, off + 4))"
    and get_short: "length bs < off + 4 \<Longrightarrow> get (bs, off) = None"
begin

text \<open>Writing a value at the cursor and reading it back there.\<close>

lemma put_get:
  assumes "valid v" "length pre = off" "4 \<le> n"
  shows "Option.bind (put (pre @ replicate n 0, off) v) (\<lambda>b. get (fst b, off)) =
         Some (v, (pre @ image v @ replicate (n - 4) 0, off + 4))"
  using assms by (simp add: put_zeros get_image)

text \<open>A cursor past the end never lets a value through.\<close>

lemma put_get_short: "length bs < off + 4 \<Longrightarrow> put (bs, off) v = None \<and> get (bs, off) = None"
  by (simp add: put_short get_short)

lemma image_inj: "valid v \<Longrightarrow> valid w \<Longrightarrow> image v = image w \<Longrightarrow> v = w"
  using get_image [of v "[]" 0 "[]"] get_image [of w "[]" 0 "[]"] by simp

end

lemma serialize_uint32_zeros:
  "length pre = off \<Longrightarrow> 4 \<le> n \<Longrightarrow>
   serialize_uint32 (pre @ replicate n 0, off) v =
     Some (pre @ be_bytes v @ replicate (n - 4) 0, off + 4)"
  by (simp add: serialize_uint32_def mem_simps bytes_of_htonl be_bytes_def)

lemma deserialize_uint32_image:
  "length pre = off \<Longrightarrow>
   deserialize_uint32 (pre @ be_bytes v @ post, off) =
     Some (v, (pre @ be_bytes v @ post, off + 4))"
  by (simp add: deserialize_uint32_def mem_simps be_bytes_def ntohl_def)

lemma serialize_uint32_short: "length bs < off + 4 \<Longrightarrow> serialize_uint32 (bs, off) v = None"
  by (simp add: serialize_uint32_def mem_write_def)

lemma deserialize_uint32_short: "length bs < off + 4 \<Longrightarrow> deserialize_uint32 (bs, off) = None"
  by (simp add: deserialize_uint32_def mem_read_def)

lemmas uint32_codec_facts = serialize_uint32_zeros deserialize_uint32_image
  serialize_uint32_short deserialize_uint32_short

interpretation u32c: wire_codec serialize_uint32 deserialize_uint32 be_bytes "\<lambda>_. True"
  by unfold_locales (simp_all add: uint32_codec_facts)

definition int_ok :: "int \<Rightarrow> bool" where
  "int_ok v \<longleftrightarrow> - (2 ^ 31) \<le> v \<and> v < 2 ^ 31"

lemma sint_word_of_int_ok: "int_ok v \<Longrightarrow> sint (word_of_int v :: u32) = v"
  by (simp add: int_ok_def sint_sbintrunc' signed_take_bit_int_eq_self)

interpretation intc: wire_codec serialize_int deserialize_int "\<lambda>v. be_bytes (word_of_int v)" int_ok
  by unfold_locales
    (simp_all add: serialize_int_def deserialize_int_def uint32_codec_facts sint_word_of_int_ok)

interpretation sizec: wire_codec serialize_size_t deserialize_size_t be_bytes "\<lambda>_. True"
  by unfold_locales
    (simp_all add: serialize_size_t_def deserialize_size_t_def uint32_codec_facts)

lemmas codec_put = u32c.put_zeros intc.put_zeros sizec.put_zeros
lemmas codec_get = u32c.get_image intc.get_image sizec.get_image

section \<open>Sockets\<close>

text \<open>
  \<^verbatim>\<open>recv\<close> answers a negative code or the bytes it received, never more than asked for;
  \<^verbatim>\<open>send\<close> and \<^verbatim>\<open>close\<close> answer a code. The pointer arguments the code asserts to be non-NULL are
  addresses of the caller's objects and are passed by value.
\<close>

definition recv :: "env \<Rightarrow> int \<Rightarrow> nat \<Rightarrow> history \<Rightarrow> (int \<times> byte list) \<times> history" where
  "recv E fd n h =
     (let c = Sock (X_recv fd n); bs = take n (env_bytes E (c # h)) in
      if env_int E (c # h) < 0 then ((-1, []), c # h)
      else ((int (length bs), bs), c # h))"

definition cnx_open :: "env \<Rightarrow> string \<Rightarrow> history \<Rightarrow> (e_mmgr_errors \<times> int) \<times> history" where
  "cnx_open E cnx_name h =
     (let (fd, h1) = xint E (Sock (X_control_socket cnx_name)) h;
          (r, h2) = xint E (Sock (X_listen fd 5)) h1 in
      ((if r < 0 then E_ERR_FAILED else E_ERR_SUCCESS, fd), h2))"

definition cnx_accept :: "env \<Rightarrow> int \<Rightarrow> history \<Rightarrow> int \<times> history" where
  "cnx_accept E fd h = xint E (Sock (X_accept fd)) h"

text \<open>The result is the error code, the buffer contents and the updated length.\<close>

definition cnx_read ::
  "env \<Rightarrow> int \<Rightarrow> nat \<Rightarrow> history \<Rightarrow> (e_mmgr_errors \<times> byte list \<times> nat) \<times> history" where
  "cnx_read E fd len h =
     (let ((err, bs), h1) = recv E fd len h in
      if err < 0 then ((E_ERR_FAILED, replicate len 0, len), h1)
      else ((E_ERR_SUCCESS, bs @ replicate (len - length bs) 0, nat err), h1))"

definition cnx_write ::
  "env \<Rightarrow> int \<Rightarrow> byte list \<Rightarrow> history \<Rightarrow> e_mmgr_errors \<times> history" where
  "cnx_write E fd data h =
     (let (err, h1) = xint E (Sock (X_send fd data)) h in
      (if err < 0 then E_ERR_FAILED else E_ERR_SUCCESS, h1))"

text \<open>The returned descriptor is always \<^verbatim>\<open>CLOSED_FD\<close>, even when \<^verbatim>\<open>close\<close> fails.\<close>

definition cnx_close :: "env \<Rightarrow> int \<Rightarrow> history \<Rightarrow> (e_mmgr_errors \<times> int) \<times> history" where
  "cnx_close E fd h =
     (let (r, h1) = xint E (Sock (X_shutdown fd)) h;
          (err, h2) = xint E (Sock (X_close fd)) h1 in
      ((if err < 0 then E_ERR_FAILED else E_ERR_SUCCESS, CLOSED_FD), h2))"

text \<open>The name is cut to fit the buffer.\<close>

definition cnx_get_name :: "nat \<Rightarrow> int \<Rightarrow> e_mmgr_errors \<times> string option" where
  "cnx_get_name len i =
     (if i < 1 then (E_ERR_FAILED, None)
      else if i = 1 then (E_ERR_SUCCESS, Some (snprintf len ''mmgr''))
      else (E_ERR_SUCCESS, Some (snprintf len (''mmgr'' @ digits (nat i)))))"

section \<open>Messages\<close>

definition SIZE_HEADER :: nat where
  "SIZE_HEADER = 12"

record msg_hdr_t =
  hdr_id :: u32
  hdr_ts :: u32
  hdr_len :: u32

record msg_t =
  msg_hdr :: msg_hdr_t
  msg_data :: "byte list option"

text \<open>A message structure before it is prepared.\<close>

definition msg_empty :: msg_t where
  "msg_empty = \<lparr>msg_hdr = \<lparr>hdr_id = 0, hdr_ts = 0, hdr_len = 0\<rparr>, msg_data = None\<rparr>"

text \<open>\<^verbatim>\<open>calloc(len, 1)\<close>: a zeroed buffer, or NULL.\<close>

definition calloc :: "env \<Rightarrow> nat \<Rightarrow> history \<Rightarrow> byte list option \<times> history" where
  "calloc E len h =
     (let (r, h1) = xint E (Libc (X_calloc len)) h in
      (if r = 0 then None else Some (replicate len 0), h1))"

text \<open>
  The three fields go to the start of \<^verbatim>\<open>msg->data\<close>. \<^term>\<open>None\<close>: the buffer is missing or too
  small.
\<close>

definition msg_set_header ::
  "env \<Rightarrow> msg_t \<Rightarrow> history \<Rightarrow> ((e_mmgr_errors \<times> msg_t) \<times> history) option" where
  "msg_set_header E msg h =
     do { data \<leftarrow> msg_data msg;
          b1 \<leftarrow> serialize_uint32 (data, 0) (hdr_id (msg_hdr msg));
          let (ts, h1) = xtime E (Libc X_timeofday) h;
          b2 \<leftarrow> serialize_uint32 b1 (word_of_int (tv_sec ts));
          b3 \<leftarrow> serialize_uint32 b2 (hdr_len (msg_hdr msg));
          Some ((E_ERR_SUCCESS, msg\<lparr>msg_data := Some (fst b3)\<rparr>), h1) }"

text \<open>
  The third component of the result is the new \<^verbatim>\<open>*size\<close>; \<^verbatim>\<open>*msg_data\<close> points just after the
  header on success. The sum of the header and the payload is a 32-bit \<^verbatim>\<open>size_t\<close>.
\<close>

definition msg_prepare ::
  "env \<Rightarrow> msg_t \<Rightarrow> u32 \<Rightarrow> u32 \<Rightarrow> history \<Rightarrow>
     ((e_mmgr_errors \<times> msg_t \<times> u32) \<times> history) option" where
  "msg_prepare E msg i sz h =
     (let len = of_nat SIZE_HEADER + sz;
          (data, h1) = calloc E (unat len) h;
          msg1 = msg\<lparr>msg_data := data\<rparr> in
      case data of
        None \<Rightarrow> Some ((E_ERR_FAILED, msg1, sz), h1)
      | Some _ \<Rightarrow>
          do { ((ret, msg2), h2) \<leftarrow>
                 msg_set_header E
                   (msg1\<lparr>msg_hdr := msg_hdr msg1\<lparr>hdr_id := i, hdr_len := sz\<rparr>\<rparr>) h1;
               Some ((ret, msg2, len), h2) })"

definition msg_set_empty ::
  "env \<Rightarrow> msg_t \<Rightarrow> u32 \<Rightarrow> history \<Rightarrow> ((e_mmgr_errors \<times> msg_t) \<times> history) option" where
  "msg_set_empty E msg i h =
     do { ((ret, msg', _), h') \<leftarrow> msg_prepare E msg i 0 h; Some ((ret, msg'), h') }"

text \<open>\<^verbatim>\<open>free\<close> leaves the caller's copy of the pointer dangling; the model keeps the record.\<close>

definition msg_delete :: "msg_t \<Rightarrow> e_mmgr_errors" where
  "msg_delete msg = (if msg_data msg \<noteq> None then E_ERR_SUCCESS else E_ERR_FAILED)"

text \<open>
  The error branches leave the header untouched. The last check compares with the
  received length minus the header size, which is zero at that point.
\<close>

definition msg_get_header ::
  "env \<Rightarrow> int \<Rightarrow> msg_hdr_t \<Rightarrow> history \<Rightarrow> ((e_mmgr_errors \<times> msg_hdr_t) \<times> history) option" where
  "msg_get_header E fd hdr h =
     (let ((ret, buffer, len), h1) = cnx_read E fd SIZE_HEADER h in
      if ret \<noteq> E_ERR_SUCCESS then Some ((ret, hdr), h1)
      else if len = 0 then Some ((E_ERR_DISCONNECTED, hdr), h1)
      else if len < SIZE_HEADER then Some ((E_ERR_FAILED, hdr), h1)
      else
        do { (i, p1) \<leftarrow> deserialize_uint32 (buffer, 0);
             (ts, p2) \<leftarrow> deserialize_uint32 p1;
             (l, p3) \<leftarrow> deserialize_uint32 p2;
             Some ((if l < of_nat (len - SIZE_HEADER) then ret else E_ERR_SUCCESS,
                    hdr\<lparr>hdr_id := i, hdr_ts := ts, hdr_len := l\<rparr>), h1) })"

section \<open>The header on the wire\<close>

definition header_image :: "u32 \<Rightarrow> u32 \<Rightarrow> u32 \<Rightarrow> byte list" where
  "header_image i ts l = be_bytes i @ be_bytes ts @ be_bytes l"

lemma length_header_image [simp]: "length (header_image i ts l) = SIZE_HEADER"
  by (simp add: header_image_def SIZE_HEADER_def)

lemma msg_set_header_zeros:
  assumes "msg_data msg = Some (replicate n 0)" "SIZE_HEADER \<le> n"
  shows "msg_set_header E msg h =
    (let (ts, h1) = xtime E (Libc X_timeofday) h in
     Some ((E_ERR_SUCCESS, msg\<lparr>msg_data := Some
       (header_image (hdr_id (msg_hdr msg)) (word_of_int (tv_sec ts)) (hdr_len (msg_hdr msg))
        @ replicate (n - SIZE_HEADER) 0)\<rparr>), h1))"
  using assms u32c.put_zeros [where pre = "[]" and n = n]
    u32c.put_zeros [where pre = "be_bytes a" and n = "n - 4" for a]
    u32c.put_zeros [where pre = "be_bytes a @ be_bytes b" and n = "n - 8" for a b]
  by (simp add: msg_set_header_def header_image_def SIZE_HEADER_def xtime_def)

lemma deserialize_header_image:
  "Option.bind (deserialize_uint32 (header_image i ts l @ post, 0)) (\<lambda>(a, p1).
   Option.bind (deserialize_uint32 p1) (\<lambda>(b, p2).
   Option.bind (deserialize_uint32 p2) (\<lambda>(c, p3). f a b c))) = f i ts l"
  using u32c.get_image [where pre = "[]" and v = i and post = "be_bytes ts @ be_bytes l @ post"]
    u32c.get_image [where pre = "be_bytes i" and v = ts and post = "be_bytes l @ post"]
    u32c.get_image [where pre = "be_bytes i @ be_bytes ts" and v = l and post = post]
  by (simp add: header_image_def)

text \<open>The header comes back as it was sent, whatever follows it in the buffer.\<close>

lemma msg_get_header_image:
  assumes "env_int E (Sock (X_recv fd SIZE_HEADER) # h) \<ge> 0"
    and "take SIZE_HEADER (env_bytes E (Sock (X_recv fd SIZE_HEADER) # h)) = header_image i ts l"
  shows "msg_get_header E fd hdr h =
    Some ((E_ERR_SUCCESS, hdr\<lparr>hdr_id := i, hdr_ts := ts, hdr_len := l\<rparr>),
          Sock (X_recv fd SIZE_HEADER) # h)"
  using assms deserialize_header_image [of i ts l "[]"]
  by (simp add: msg_get_header_def cnx_read_def recv_def Let_def SIZE_HEADER_def [symmetric]
      case_prod_unfold del: One_nat_def) (simp add: SIZE_HEADER_def)

lemma msg_prepare_ok:
  fixes h :: history
  assumes "alloc_ok E" and "unat sz + SIZE_HEADER < 2 ^ 32"
  defines "h1 \<equiv> Libc X_timeofday # Libc (X_calloc (unat sz + SIZE_HEADER)) # h"
  shows "msg_prepare E msg i sz h =
    Some ((E_ERR_SUCCESS,
           msg\<lparr>msg_hdr := (msg_hdr msg)\<lparr>hdr_id := i, hdr_len := sz\<rparr>,
               msg_data := Some (header_image i (word_of_int (tv_sec (env_time E h1))) sz
                                 @ replicate (unat sz) 0)\<rparr>,
           of_nat SIZE_HEADER + sz), h1)"
proof -
  have len: "unat (of_nat SIZE_HEADER + sz) = unat sz + SIZE_HEADER"
    using assms(2) by (simp add: unat_word_ariths SIZE_HEADER_def)
  show ?thesis
    using assms(1)
    by (simp add: msg_prepare_def calloc_def len xint_def xtime_def alloc_ok_def Let_def
        msg_set_header_zeros h1_def)
qed

lemma msg_prepare_fails:
  assumes "env_int E (Libc (X_calloc (unat (of_nat SIZE_HEADER + sz))) # h) = 0"
  shows "msg_prepare E msg i sz h =
    Some ((E_ERR_FAILED, msg\<lparr>msg_data := None\<rparr>, sz),
          Libc (X_calloc (unat (of_nat SIZE_HEADER + sz))) # h)"
  using assms by (simp add: msg_prepare_def calloc_def xint_def Let_def)

end
