(* ===== verification/Msg_Events.thy ===== *)
theory Msg_Events
  imports Msg_Format
begin

text \<open>
  The payloads that travel between the daemon and its clients, and the daemon side of
  their encoding (\<^verbatim>\<open>core/data_to_msg.c\<close>). The structures are those of \<^verbatim>\<open>inc/mmgr.h\<close> and
  \<^verbatim>\<open>inc/mmgr_cli.h\<close>; a pointer to characters is the memory region it points to, or \<^term>\<open>None\<close> for
  NULL; enumerators stored in a structure are their integer codes.
\<close>

section \<open>Payload structures\<close>

record mmgr_cli_core_dump_t =
  cd_state :: u32
  cd_path :: "byte list option"
  cd_path_len :: u32
  cd_reason :: "byte list option"
  cd_reason_len :: u32

record mmgr_cli_recovery_cause_t =
  rc_len :: u32
  rc_cause :: "byte list option"

record mmgr_cli_ap_reset_t =
  ap_len :: u32
  ap_name :: "byte list option"
  ap_num_causes :: u32
  ap_recovery_causes :: "mmgr_cli_recovery_cause_t list option"

record mmgr_cli_internal_ap_reset_t =
  iap_len :: u32
  iap_name :: "byte list option"
  iap_extra_len :: u32
  iap_extra_data :: "byte list option"

record mmgr_cli_tft_event_data_t =
  td_len :: u32
  td_value :: "byte list option"

record mmgr_cli_tft_event_t =
  tft_type :: int
  tft_name_len :: u32
  tft_name :: "byte list option"
  tft_log :: int
  tft_num_data :: u32
  tft_data :: "mmgr_cli_tft_event_data_t list option"

record mmgr_cli_nvm_update_result_t =
  nvm_id :: u32
  nvm_sub_error_code :: int

record mmgr_cli_hw_id_t =
  hw_len :: u32
  hw_id :: "byte list option"

text \<open>
  What the untyped \<^verbatim>\<open>data\<close> pointer of an event or a request points to. Using it at another type
  is undefined behaviour, so an operation that meets the wrong constructor yields \<^term>\<open>None\<close>. The flag
  of \<open>D_causes\<close> tells whether the pointer is correctly aligned, which the client library tests.
\<close>

datatype cli_data =
    D_null
  | D_core_dump mmgr_cli_core_dump_t
  | D_ap_reset mmgr_cli_ap_reset_t
  | D_internal_ap_reset mmgr_cli_internal_ap_reset_t
  | D_tft_event mmgr_cli_tft_event_t
  | D_fw_result u32
  | D_nvm_result mmgr_cli_nvm_update_result_t
  | D_fuse_info "byte list"
  | D_hw_id mmgr_cli_hw_id_t
  | D_bytes "byte list"
  | D_int u32
  | D_restart u32
  | D_causes bool "mmgr_cli_recovery_cause_t list"

record mmgr_cli_event_t =
  ev_id :: u32
  ev_len :: u32
  ev_data :: cli_data
  ev_context :: nat

definition FUSE_LEN :: nat where "FUSE_LEN = 9"
definition MMGR_CLI_MAX_TFT_EVENT_DATA :: u32 where "MMGR_CLI_MAX_TFT_EVENT_DATA = 6"
definition MMGR_CLI_MAX_RECOVERY_CAUSES :: u32 where "MMGR_CLI_MAX_RECOVERY_CAUSES = 5"
definition MMGR_CLI_MAX_RECOVERY_CAUSE_LEN :: u32 where "MMGR_CLI_MAX_RECOVERY_CAUSE_LEN = 512"

section \<open>Building a message\<close>

text \<open>\<^verbatim>\<open>memcpy(msg_data, p, n); msg_data += n\<close>.\<close>

definition put_bytes :: "buf \<Rightarrow> byte list option \<Rightarrow> nat \<Rightarrow> buf option" where
  "put_bytes b p n =
     do { xs \<leftarrow> ptr_read p n; bs \<leftarrow> mem_write (fst b) (snd b) xs; Some (bs, snd b + n) }"

text \<open>
  The frame every builder has: \<^verbatim>\<open>msg_prepare\<close>, and on success the payload is written behind
  the header.
\<close>

definition build_msg ::
  "env \<Rightarrow> msg_t \<Rightarrow> u32 \<Rightarrow> u32 \<Rightarrow> (buf \<Rightarrow> buf option) \<Rightarrow> history \<Rightarrow>
     ((e_mmgr_errors \<times> msg_t) \<times> history) option" where
  "build_msg E msg i sz body h =
     do { ((ret, msg1, _), h1) \<leftarrow> msg_prepare E msg i sz h;
          if ret \<noteq> E_ERR_SUCCESS then Some ((ret, msg1), h1)
          else do { data \<leftarrow> msg_data msg1;
                    b \<leftarrow> body (data, SIZE_HEADER);
                    Some ((ret, msg1\<lparr>msg_data := Some (fst b)\<rparr>), h1) } }"

type_synonym builder =
  "env \<Rightarrow> msg_t \<Rightarrow> mmgr_cli_event_t \<Rightarrow> history \<Rightarrow> ((e_mmgr_errors \<times> msg_t) \<times> history) option"

definition set_msg_modem_hw_id :: builder where
  "set_msg_modem_hw_id E msg request h =
     (case ev_data request of
        D_hw_id hw \<Rightarrow>
          build_msg E msg (event_id E_MMGR_RESPONSE_MODEM_HW_ID) (hw_len hw)
            (\<lambda>b. put_bytes b (hw_id hw) (unat (hw_len hw))) h
      | _ \<Rightarrow> None)"

definition set_msg_fuse_info :: builder where
  "set_msg_fuse_info E msg request h =
     (case ev_data request of
        D_fuse_info fid \<Rightarrow>
          build_msg E msg (event_id E_MMGR_RESPONSE_FUSE_INFO) (of_nat FUSE_LEN)
            (\<lambda>b. put_bytes b (Some fid) FUSE_LEN) h
      | _ \<Rightarrow> None)"

definition set_msg_ap_reset :: builder where
  "set_msg_ap_reset E msg request h =
     (case ev_data request of
        D_internal_ap_reset ap \<Rightarrow>
          build_msg E msg (event_id E_MMGR_NOTIFY_AP_RESET) (4 + iap_len ap + iap_extra_len ap)
            (\<lambda>b. do {
               b1 \<leftarrow> serialize_size_t b (iap_len ap);
               b2 \<leftarrow> put_bytes b1 (iap_name ap) (unat (iap_len ap));
               if iap_extra_len ap \<noteq> 0
               then put_bytes b2 (iap_extra_data ap) (unat (iap_extra_len ap))
               else Some b2 }) h
      | _ \<Rightarrow> None)"

definition set_msg_modem_fw_result :: builder where
  "set_msg_modem_fw_result E msg request h =
     (case ev_data request of
        D_fw_result i \<Rightarrow>
          build_msg E msg (event_id E_MMGR_RESPONSE_MODEM_FW_RESULT) 4
            (\<lambda>b. serialize_uint32 b i) h
      | _ \<Rightarrow> None)"

definition set_msg_modem_nvm_result :: builder where
  "set_msg_modem_nvm_result E msg request h =
     (case ev_data request of
        D_nvm_result result \<Rightarrow>
          build_msg E msg (event_id E_MMGR_RESPONSE_MODEM_NVM_RESULT) (4 + 4)
            (\<lambda>b. do { b1 \<leftarrow> serialize_uint32 b (nvm_id result);
                     serialize_int b1 (nvm_sub_error_code result) }) h
      | _ \<Rightarrow> None)"

definition set_msg_core_dump :: builder where
  "set_msg_core_dump E msg request h =
     (case ev_data request of
        D_core_dump cd \<Rightarrow>
          build_msg E msg (event_id E_MMGR_NOTIFY_CORE_DUMP_COMPLETE)
            (3 * 4 + (cd_path_len cd + cd_reason_len cd))
            (\<lambda>b. do {
               b1 \<leftarrow> serialize_uint32 b (cd_state cd);
               b2 \<leftarrow> serialize_size_t b1 (cd_path_len cd);
               b3 \<leftarrow> serialize_size_t b2 (cd_reason_len cd);
               b4 \<leftarrow> put_bytes b3 (cd_path cd) (unat (cd_path_len cd));
               if cd_reason_len cd > 0
               then put_bytes b4 (cd_reason cd) (unat (cd_reason_len cd))
               else Some b4 }) h
      | _ \<Rightarrow> None)"

text \<open>The two loops over \<^verbatim>\<open>ev->data[0 .. num_data - 1]\<close>; reading past the array is \<^term>\<open>None\<close>.\<close>

fun tft_data_size :: "nat \<Rightarrow> mmgr_cli_tft_event_data_t list \<Rightarrow> u32 \<Rightarrow> u32 option" where
  "tft_data_size 0 ds sz = Some sz"
| "tft_data_size (Suc n) [] sz = None"
| "tft_data_size (Suc n) (d # ds) sz = tft_data_size n ds (sz + (4 + td_len d))"

fun tft_put_data :: "nat \<Rightarrow> mmgr_cli_tft_event_data_t list \<Rightarrow> buf \<Rightarrow> buf option" where
  "tft_put_data 0 ds b = Some b"
| "tft_put_data (Suc n) [] b = None"
| "tft_put_data (Suc n) (d # ds) b =
     (if td_len d < MMGR_CLI_MAX_RECOVERY_CAUSE_LEN
      then do { b1 \<leftarrow> serialize_size_t b (td_len d);
                b2 \<leftarrow> put_bytes b1 (td_value d) (unat (td_len d));
                tft_put_data n ds b2 }
      else None)"

definition tft_array :: "mmgr_cli_tft_event_t \<Rightarrow> mmgr_cli_tft_event_data_t list" where
  "tft_array ev = (case tft_data ev of None \<Rightarrow> [] | Some ds \<Rightarrow> ds)"

definition set_msg_tft_event :: builder where
  "set_msg_tft_event E msg request h =
     (case ev_data request of
        D_tft_event ev \<Rightarrow>
          do { sz \<leftarrow> tft_data_size (unat (tft_num_data ev)) (tft_array ev) (4 * 4 + tft_name_len ev);
               build_msg E msg (event_id E_MMGR_NOTIFY_TFT_EVENT) sz
                 (\<lambda>b. do {
                    b1 \<leftarrow> serialize_int b (tft_type ev);
                    b2 \<leftarrow> serialize_size_t b1 (tft_name_len ev);
                    b3 \<leftarrow> put_bytes b2 (tft_name ev) (unat (tft_name_len ev));
                    b4 \<leftarrow> serialize_int b3 (tft_log ev);
                    b5 \<leftarrow> serialize_size_t b4 (tft_num_data ev);
                    if tft_num_data ev \<le> MMGR_CLI_MAX_TFT_EVENT_DATA
                    then tft_put_data (unat (tft_num_data ev)) (tft_array ev) b5
                    else None }) h }
      | _ \<Rightarrow> None)"

section \<open>Exact filling\<close>

text \<open>
  A payload writer \<open>fills\<close> the cursor with some bytes when, from any position in front of enough
  zeroed space, it writes exactly these bytes and leaves the cursor behind them.
\<close>

definition fills :: "(buf \<Rightarrow> buf option) \<Rightarrow> byte list \<Rightarrow> bool" where
  "fills body payload \<longleftrightarrow>
     (\<forall>pre n. length payload \<le> n \<longrightarrow>
        body (pre @ replicate n 0, length pre) =
          Some (pre @ payload @ replicate (n - length payload) 0, length pre + length payload))"

lemma fillsD:
  "fills body payload \<Longrightarrow> length payload \<le> n \<Longrightarrow>
     body (pre @ replicate n 0, length pre) =
       Some (pre @ payload @ replicate (n - length payload) 0, length pre + length payload)"
  by (simp add: fills_def)

named_theorems fill_rules \<open>rules that compute the payload a writer fills in\<close>

lemma fills_bind [fill_rules]:
  assumes "fills f p" and "fills g q"
  shows "fills (\<lambda>b. Option.bind (f b) g) (p @ q)"
  unfolding fills_def
proof (intro allI impI)
  fix pre and n :: nat
  assume n: "length (p @ q) \<le> n"
  have "f (pre @ replicate n 0, length pre) =
      Some ((pre @ p) @ replicate (n - length p) 0, length (pre @ p))"
    using assms(1) n by (simp add: fills_def)
  moreover have "g ((pre @ p) @ replicate (n - length p) 0, length (pre @ p)) =
      Some ((pre @ p) @ q @ replicate (n - length p - length q) 0, length (pre @ p) + length q)"
    by (rule fillsD [OF assms(2)]) (use n in simp)
  ultimately show "Option.bind (f (pre @ replicate n 0, length pre)) g =
      Some (pre @ (p @ q) @ replicate (n - length (p @ q)) 0, length pre + length (p @ q))"
    by simp
qed

lemma fills_Some [fill_rules]: "fills Some []"
  by (simp add: fills_def)

lemma fills_if:
  "(c \<Longrightarrow> fills f p) \<Longrightarrow> (\<not> c \<Longrightarrow> fills g q) \<Longrightarrow>
     fills (\<lambda>b. if c then f b else g b) (if c then p else q)"
  by (simp add: fills_def)

lemma fills_codecs [fill_rules]:
  "fills (\<lambda>b. serialize_uint32 b v) (be_bytes v)"
  "fills (\<lambda>b. serialize_size_t b v) (be_bytes v)"
  "fills (\<lambda>b. serialize_int b i) (be_bytes (word_of_int i))"
  by (simp_all add: fills_def codec_put)

lemma fills_bytes [fill_rules]:
  "p = Some bs \<Longrightarrow> length bs = n \<Longrightarrow> fills (\<lambda>b. put_bytes b p n) bs"
  by (simp add: fills_def put_bytes_def mem_simps)

lemma fills_bytes_opt:
  "length bs = unat n \<Longrightarrow> (n > 0 \<longrightarrow> p = Some bs) \<Longrightarrow> fills (\<lambda>b. put_bytes b p (unat n)) bs"
  for n :: u32
  by (cases "n = 0") (auto simp: word_gt_0 fills_bytes fills_def put_bytes_def ptr_read_def
      mem_read_def mem_write_def split: option.splits)

text \<open>A writer that fills exactly the announced size yields header plus payload, nothing else.\<close>

lemma build_msg_fills:
  fixes h :: history
  assumes "alloc_ok E" and "fills body payload"
    and "unat sz = length payload" and "length payload + SIZE_HEADER < 2 ^ 32"
  defines "h1 \<equiv> Libc X_timeofday # Libc (X_calloc (length payload + SIZE_HEADER)) # h"
  shows "build_msg E msg i sz body h =
    Some ((E_ERR_SUCCESS,
           msg\<lparr>msg_hdr := (msg_hdr msg)\<lparr>hdr_id := i, hdr_len := sz\<rparr>,
               msg_data := Some (header_image i (word_of_int (tv_sec (env_time E h1))) sz
                                 @ payload)\<rparr>), h1)"
proof -
  have "body (header_image i ts sz @ replicate (unat sz) 0, SIZE_HEADER) =
      Some (header_image i ts sz @ payload, SIZE_HEADER + length payload)" for ts
  proof -
    have "body (header_image i ts sz @ replicate (unat sz) 0, length (header_image i ts sz)) =
        Some (header_image i ts sz @ payload @ replicate (unat sz - length payload) 0,
              length (header_image i ts sz) + length payload)"
      by (rule fillsD [OF assms(2)]) (simp add: assms(3))
    then show ?thesis using assms(3) by simp
  qed
  with assms show ?thesis
    by (simp add: build_msg_def msg_prepare_ok)
qed

end
