(* ===== verification/Msg_Client.thy ===== *)
theory Msg_Client
  imports Msg_Events
begin

text \<open>
  The client side of the message encoding: the request builders of
  \<^verbatim>\<open>libclients/c/data_to_msg.c\<close> and the event decoders of \<^verbatim>\<open>libclients/c/msg_to_data.c\<close>.

  A received message carries in \<^verbatim>\<open>data\<close> the payload alone, the header having been read
  first. The decoders trust the lengths found inside a payload: a length that leads outside
  the payload, or outside an allocated array, is \<^term>\<open>None\<close>.
\<close>

section \<open>Requests: \<^verbatim>\<open>data_to_msg.c\<close>\<close>

definition data_region :: "cli_data \<Rightarrow> byte list option option" where
  "data_region d = (case d of D_bytes bs \<Rightarrow> Some (Some bs) | D_null \<Rightarrow> Some None | _ \<Rightarrow> None)"

definition set_msg_name :: builder where
  "set_msg_name E msg request h =
     (if ev_len request = 0 then Some ((E_ERR_FAILED, msg), h)
      else
        build_msg E msg (ev_id request) (ev_len request)
          (\<lambda>b. do { p \<leftarrow> data_region (ev_data request);
                    put_bytes b p (unat (ev_len request)) }) h)"

definition set_msg_filter :: builder where
  "set_msg_filter E msg request h =
     build_msg E msg (ev_id request) 4
       (\<lambda>b. case ev_data request of D_int v \<Rightarrow> serialize_uint32 b v | _ \<Rightarrow> None) h"

definition set_msg_restart :: builder where
  "set_msg_restart E msg request h =
     (case ev_data request of
        D_restart optional \<Rightarrow>
          build_msg E msg (ev_id request) 4 (\<lambda>b. serialize_uint32 b optional) h
      | D_null \<Rightarrow> build_msg E msg (ev_id request) 0 Some h
      | _ \<Rightarrow> None)"

text \<open>
  The validation loop of \<^verbatim>\<open>set_msg_recovery\<close>: it stops at the first invalid entry, which
  drops all the causes, and otherwise sums the lengths.
\<close>

fun check_causes :: "nat \<Rightarrow> mmgr_cli_recovery_cause_t list \<Rightarrow> u32 \<Rightarrow> (bool \<times> u32) option" where
  "check_causes 0 cs acc = Some (True, acc)"
| "check_causes (Suc n) [] acc = None"
| "check_causes (Suc n) (c # cs) acc =
     (if rc_len c > MMGR_CLI_MAX_RECOVERY_CAUSE_LEN \<or> rc_cause c = None
      then Some (False, acc)
      else check_causes n cs (acc + rc_len c))"

fun put_causes :: "nat \<Rightarrow> mmgr_cli_recovery_cause_t list \<Rightarrow> buf \<Rightarrow> buf option" where
  "put_causes 0 cs b = Some b"
| "put_causes (Suc n) [] b = None"
| "put_causes (Suc n) (c # cs) b =
     do { b1 \<leftarrow> serialize_size_t b (rc_len c);
          b2 \<leftarrow> put_bytes b1 (rc_cause c) (unat (rc_len c));
          put_causes n cs b2 }"

text \<open>The array behind the request's pointer and whether the pointer is usable.\<close>

definition causes_ptr :: "cli_data \<Rightarrow> (bool \<times> mmgr_cli_recovery_cause_t list) option" where
  "causes_ptr d =
     (case d of D_null \<Rightarrow> Some (False, []) | D_causes aligned cs \<Rightarrow> Some (aligned, cs) | _ \<Rightarrow> None)"

definition set_msg_recovery :: builder where
  "set_msg_recovery E msg request h =
     do { (usable, cs) \<leftarrow> causes_ptr (ev_data request);
          let r0 = ev_len request;
          let r1 = (if r0 > MMGR_CLI_MAX_RECOVERY_CAUSES * 8 \<or> r0 mod 8 \<noteq> 0 then 0 else r0);
          let r2 = (if r1 \<noteq> 0 \<and> \<not> usable then 0 else r1);
          let r3 = r2 div 8;
          (ok, string_size) \<leftarrow> check_causes (unat r3) cs 0;
          let req_size = (if ok then r3 else 0);
          let sz = (if req_size \<noteq> 0 then 4 + req_size * 4 + string_size else 0);
          build_msg E msg (ev_id request) sz
            (\<lambda>b. if req_size \<noteq> 0
                 then do { b1 \<leftarrow> serialize_size_t b req_size; put_causes (unat req_size) cs b1 }
                 else Some b) h }"

section \<open>Events: \<^verbatim>\<open>msg_to_data.c\<close>\<close>

type_synonym decoder =
  "env \<Rightarrow> msg_t \<Rightarrow> mmgr_cli_event_t \<Rightarrow> history \<Rightarrow>
     ((e_mmgr_errors \<times> mmgr_cli_event_t) \<times> history) option"

text \<open>\<^verbatim>\<open>malloc\<close>: the answer is zero for NULL; every byte is written before it is read.\<close>

definition malloc :: "env \<Rightarrow> nat \<Rightarrow> history \<Rightarrow> bool \<times> history" where
  "malloc E n h = (let (r, h1) = xint E (Libc (X_calloc n)) h in (r \<noteq> 0, h1))"

text \<open>
  \<^verbatim>\<open>p = malloc(len + 1); memcpy(p, msg_data, len); p[len] = 0\<close>: the pointer (NULL when the
  allocation fails, and then nothing is copied).
\<close>

definition dup_string :: "env \<Rightarrow> buf \<Rightarrow> u32 \<Rightarrow> history \<Rightarrow> (byte list option \<times> history) option" where
  "dup_string E b len h =
     (case calloc E (unat (len + 1)) h of
        (None, h1) \<Rightarrow> Some (None, h1)
      | (Some dst, h1) \<Rightarrow>
          do { xs \<leftarrow> mem_read (fst b) (snd b) (unat len);
               d1 \<leftarrow> mem_write dst 0 xs;
               d2 \<leftarrow> mem_write d1 (unat len) [0];
               Some (Some d2, h1) })"

definition skip :: "buf \<Rightarrow> u32 \<Rightarrow> buf" where
  "skip b n = (fst b, snd b + unat n)"

definition set_data_empty :: decoder where
  "set_data_empty E msg event h =
     Some ((E_ERR_SUCCESS, event\<lparr>ev_data := D_null, ev_len := 0\<rparr>), h)"

definition set_data_fuse_info :: decoder where
  "set_data_fuse_info E msg request h =
     (let len = hdr_len (msg_hdr msg); (ok, h1) = malloc E FUSE_LEN h in
      if \<not> ok then Some ((E_ERR_FAILED, request\<lparr>ev_data := D_null\<rparr>), h1)
      else do { xs \<leftarrow> ptr_read (msg_data msg) (unat len);
                fid \<leftarrow> mem_write (replicate FUSE_LEN 0) 0 xs;
                Some ((E_ERR_SUCCESS, request\<lparr>ev_data := D_fuse_info fid\<rparr>), h1) })"

definition set_data_hw_id :: decoder where
  "set_data_hw_id E msg request h =
     (let (ok, h1) = malloc E 8 h in
      if \<not> ok then Some ((E_ERR_FAILED, request\<lparr>ev_data := D_null\<rparr>), h1)
      else
        do { let len = hdr_len (msg_hdr msg);
             (p, h2) \<leftarrow> dup_string E (case msg_data msg of None \<Rightarrow> [] | Some d \<Rightarrow> d, 0) len h1;
             Some ((if p = None then E_ERR_FAILED else E_ERR_SUCCESS,
                    request\<lparr>ev_data := D_hw_id \<lparr>hw_len = len, hw_id = p\<rparr>\<rparr>), h2) })"

text \<open>
  The loop over the causes: \<open>cap\<close> is the number of entries the allocated array has room for. The
  first result is the array as far as it was initialised, the second the number of causes.
\<close>

fun get_causes ::
  "env \<Rightarrow> nat \<Rightarrow> nat \<Rightarrow> buf \<Rightarrow> history \<Rightarrow>
     ((mmgr_cli_recovery_cause_t list \<times> nat) \<times> history) option" where
  "get_causes E 0 cap b h = Some (([], 0), h)"
| "get_causes E (Suc n) 0 b h = None"
| "get_causes E (Suc n) (Suc cap) b h =
     do { (len, b1) \<leftarrow> deserialize_size_t b;
          (p, h1) \<leftarrow> dup_string E b1 len h;
          if p = None then Some (([\<lparr>rc_len = len, rc_cause = None\<rparr>], 0), h1)
          else do { ((cs, k), h2) \<leftarrow> get_causes E n cap (skip b1 len) h1;
                    Some ((\<lparr>rc_len = len, rc_cause = p\<rparr> # cs, Suc k), h2) } }"

definition set_data_ap_reset :: decoder where
  "set_data_ap_reset E msg request h =
     do { data \<leftarrow> msg_data msg;
          (len_name, b1) \<leftarrow> deserialize_size_t (data, 0);
          (name, h1) \<leftarrow> dup_string E b1 len_name h;
          if name = None then Some ((E_ERR_FAILED, request\<lparr>ev_data := D_null\<rparr>), h1)
          else do {
            let b2 = skip b1 len_name;
            (num, b3) \<leftarrow> (if hdr_len (msg_hdr msg) > len_name + 4 then deserialize_size_t b2
                          else Some (0, b2));
            let (ok_ap, h2) = malloc E 16 h1;
            if \<not> ok_ap then Some ((E_ERR_FAILED, request\<lparr>ev_data := D_null\<rparr>), xcall (Libc X_free) h2)
            else do {
              let (ok_causes, h3) = malloc E (unat (num * 8)) h2;
              if \<not> ok_causes
              then Some ((E_ERR_SUCCESS, request\<lparr>ev_data := D_ap_reset
                     \<lparr>ap_len = len_name, ap_name = name, ap_num_causes = 0,
                      ap_recovery_causes = None\<rparr>\<rparr>), h3)
              else do {
                ((cs, k), h4) \<leftarrow> get_causes E (unat num) (unat (num * 8) div 8) b3 h3;
                Some ((E_ERR_SUCCESS, request\<lparr>ev_data := D_ap_reset
                     \<lparr>ap_len = len_name, ap_name = name, ap_num_causes = of_nat k,
                      ap_recovery_causes = Some cs\<rparr>\<rparr>), h4) } } } }"

definition cd_zero :: mmgr_cli_core_dump_t where
  "cd_zero = \<lparr>cd_state = 0, cd_path = None, cd_path_len = 0, cd_reason = None, cd_reason_len = 0\<rparr>"

definition set_data_core_dump :: decoder where
  "set_data_core_dump E msg request h =
     (if hdr_len (msg_hdr msg) < 3 * 4
      then Some ((E_ERR_FAILED, request\<lparr>ev_data := D_null\<rparr>), h)
      else
        let (ok, h1) = malloc E 20 h in
        if \<not> ok then Some ((E_ERR_FAILED, request\<lparr>ev_data := D_null\<rparr>), h1)
        else do {
          data \<leftarrow> msg_data msg;
          (st, b1) \<leftarrow> deserialize_uint32 (data, 0);
          (path_len, b2) \<leftarrow> deserialize_size_t b1;
          (reason_len, b3) \<leftarrow> deserialize_size_t b2;
          let cd = cd_zero\<lparr>cd_state := st, cd_path_len := path_len, cd_reason_len := reason_len\<rparr>;
          if path_len + reason_len \<noteq> hdr_len (msg_hdr msg) - 12
          then Some ((E_ERR_FAILED, request\<lparr>ev_data := D_core_dump cd\<rparr>), h1)
          else do {
            (path, h2) \<leftarrow> dup_string E b3 path_len h1;
            if path = None then Some ((E_ERR_FAILED, request\<lparr>ev_data := D_core_dump cd\<rparr>), h2)
            else if reason_len > 0
            then do {
              (reason, h3) \<leftarrow> dup_string E (skip b3 path_len) reason_len h2;
              Some ((if reason = None then E_ERR_FAILED else E_ERR_SUCCESS,
                     request\<lparr>ev_data :=
                       D_core_dump (cd\<lparr>cd_path := path, cd_reason := reason\<rparr>)\<rparr>), h3) }
            else Some ((E_ERR_SUCCESS,
                     request\<lparr>ev_data := D_core_dump (cd\<lparr>cd_path := path\<rparr>)\<rparr>), h2) } })"

text \<open>
  The loop over the data of a TFT event. The flag tells whether it ran to the end; entries that
  were not reached stay as \<^verbatim>\<open>calloc\<close> left them.
\<close>

definition td_zero :: mmgr_cli_tft_event_data_t where
  "td_zero = \<lparr>td_len = 0, td_value = None\<rparr>"

fun get_tft_data ::
  "env \<Rightarrow> nat \<Rightarrow> buf \<Rightarrow> history \<Rightarrow>
     ((bool \<times> mmgr_cli_tft_event_data_t list) \<times> history) option" where
  "get_tft_data E 0 b h = Some ((True, []), h)"
| "get_tft_data E (Suc n) b h =
     do { (len, b1) \<leftarrow> deserialize_size_t b;
          (p, h1) \<leftarrow> dup_string E b1 len h;
          if p = None
          then Some ((False, \<lparr>td_len = len, td_value = None\<rparr> # replicate n td_zero), h1)
          else do { ((ok, ds), h2) \<leftarrow> get_tft_data E n (skip b1 len) h1;
                    Some ((ok, \<lparr>td_len = len, td_value = p\<rparr> # ds), h2) } }"

definition tft_zero :: mmgr_cli_tft_event_t where
  "tft_zero = \<lparr>tft_type = 0, tft_name_len = 0, tft_name = None, tft_log = 0, tft_num_data = 0,
               tft_data = None\<rparr>"

definition set_data_tft_event :: decoder where
  "set_data_tft_event E msg request h =
     (if hdr_len (msg_hdr msg) < 4 * 4
      then Some ((E_ERR_FAILED, request\<lparr>ev_data := D_null\<rparr>), h)
      else
        let (ok, h1) = malloc E 24 h in
        if \<not> ok then Some ((E_ERR_FAILED, request\<lparr>ev_data := D_null\<rparr>), h1)
        else do {
          data \<leftarrow> msg_data msg;
          (typ, b1) \<leftarrow> deserialize_int (data, 0);
          (name_len, b2) \<leftarrow> deserialize_size_t b1;
          let ev1 = tft_zero\<lparr>tft_type := typ, tft_name_len := name_len\<rparr>;
          (name, h2) \<leftarrow> dup_string E b2 name_len h1;
          if name = None then Some ((E_ERR_FAILED, request\<lparr>ev_data := D_tft_event ev1\<rparr>), h2)
          else do {
            (lg, b3) \<leftarrow> deserialize_int (skip b2 name_len);
            (num_data, b4) \<leftarrow> deserialize_size_t b3;
            let ev2 = ev1\<lparr>tft_name := name, tft_log := lg, tft_num_data := num_data\<rparr>;
            if num_data > 0
            then let (ok_data, h3) = malloc E (unat num_data * 8) h2 in
                 if \<not> ok_data
                 then Some ((E_ERR_FAILED, request\<lparr>ev_data := D_tft_event ev2\<rparr>), h3)
                 else do {
                   ((ok_all, ds), h4) \<leftarrow> get_tft_data E (unat num_data) b4 h3;
                   Some ((if ok_all then E_ERR_SUCCESS else E_ERR_FAILED,
                          request\<lparr>ev_data := D_tft_event (ev2\<lparr>tft_data := Some ds\<rparr>)\<rparr>), h4) }
            else Some ((E_ERR_SUCCESS, request\<lparr>ev_data := D_tft_event ev2\<rparr>), h2) } })"

definition set_data_fw_result :: decoder where
  "set_data_fw_result E msg request h =
     (if hdr_len (msg_hdr msg) \<noteq> 4
      then Some ((E_ERR_FAILED, request\<lparr>ev_data := D_null\<rparr>), h)
      else
        let (ok, h1) = malloc E 4 h in
        if \<not> ok then Some ((E_ERR_FAILED, request\<lparr>ev_data := D_null\<rparr>), h1)
        else do {
          data \<leftarrow> msg_data msg;
          (tmp, b1) \<leftarrow> deserialize_uint32 (data, 0);
          Some ((E_ERR_SUCCESS, request\<lparr>ev_data := D_fw_result tmp\<rparr>), h1) })"

definition set_data_nvm_result :: decoder where
  "set_data_nvm_result E msg request h =
     (if hdr_len (msg_hdr msg) \<noteq> 4 + 4
      then Some ((E_ERR_FAILED, request\<lparr>ev_data := D_null\<rparr>), h)
      else
        let (ok, h1) = malloc E 8 h in
        if \<not> ok then Some ((E_ERR_FAILED, request\<lparr>ev_data := D_null\<rparr>), h1)
        else do {
          data \<leftarrow> msg_data msg;
          (tmp, b1) \<leftarrow> deserialize_uint32 (data, 0);
          (sub, b2) \<leftarrow> deserialize_int b1;
          Some ((E_ERR_SUCCESS,
                 request\<lparr>ev_data := D_nvm_result \<lparr>nvm_id = tmp, nvm_sub_error_code = sub\<rparr>\<rparr>), h1) })"

section \<open>Releasing an event: \<^verbatim>\<open>msg_to_data.c\<close>\<close>

text \<open>
  Each function frees the blocks behind the event's data; freeing NULL has no effect. Data of another kind are \<^term>\<open>None\<close>,
  and so is an array with fewer entries than its counter says.
\<close>

type_synonym releaser = "mmgr_cli_event_t \<Rightarrow> history \<Rightarrow> (e_mmgr_errors \<times> history) option"

definition free_ptr :: "'a option \<Rightarrow> history \<Rightarrow> history" where
  "free_ptr p h = (case p of None \<Rightarrow> h | Some _ \<Rightarrow> xcall (Libc X_free) h)"

definition free_one_element_struct :: releaser where
  "free_one_element_struct request h =
     Some (case ev_data request of D_null \<Rightarrow> (E_ERR_FAILED, h) | _ \<Rightarrow> (E_ERR_SUCCESS, xcall (Libc X_free) h))"

definition free_data_hw_id :: releaser where
  "free_data_hw_id request h =
     (case ev_data request of
        D_null \<Rightarrow> Some (E_ERR_FAILED, h)
      | D_hw_id hw \<Rightarrow> Some (E_ERR_SUCCESS, xcall (Libc X_free) (free_ptr (hw_id hw) h))
      | _ \<Rightarrow> None)"

definition free_data_core_dump :: releaser where
  "free_data_core_dump request h =
     (case ev_data request of
        D_null \<Rightarrow> Some (E_ERR_FAILED, h)
      | D_core_dump cd \<Rightarrow> Some (E_ERR_SUCCESS, xcall (Libc X_free) (free_ptr (cd_reason cd) (free_ptr (cd_path cd) h)))
      | _ \<Rightarrow> None)"

fun free_each :: "('a \<Rightarrow> 'b option) \<Rightarrow> nat \<Rightarrow> 'a list \<Rightarrow> history \<Rightarrow> history option" where
  "free_each ptr 0 xs h = Some h"
| "free_each ptr (Suc n) [] h = None"
| "free_each ptr (Suc n) (x # xs) h = free_each ptr n xs (free_ptr (ptr x) h)"

definition free_array :: "('a \<Rightarrow> 'b option) \<Rightarrow> nat \<Rightarrow> 'a list option \<Rightarrow> history \<Rightarrow> history option" where
  "free_array ptr n p h =
     (case p of None \<Rightarrow> Some h | Some xs \<Rightarrow> do { h1 \<leftarrow> free_each ptr n xs h; Some (xcall (Libc X_free) h1) })"

definition free_data_ap_reset :: releaser where
  "free_data_ap_reset request h =
     (case ev_data request of
        D_null \<Rightarrow> Some (E_ERR_FAILED, h)
      | D_ap_reset ap \<Rightarrow>
          do { h1 \<leftarrow> free_array rc_cause (unat (ap_num_causes ap)) (ap_recovery_causes ap) (free_ptr (ap_name ap) h);
               Some (E_ERR_SUCCESS, xcall (Libc X_free) h1) }
      | _ \<Rightarrow> None)"

definition free_data_tft_event :: releaser where
  "free_data_tft_event request h =
     (case ev_data request of
        D_null \<Rightarrow> Some (E_ERR_FAILED, h)
      | D_tft_event ev \<Rightarrow>
          do { h1 \<leftarrow> free_array td_value (unat (tft_num_data ev)) (tft_data ev) (free_ptr (tft_name ev) h);
               Some (E_ERR_SUCCESS, xcall (Libc X_free) h1) }
      | _ \<Rightarrow> None)"

definition free_data_empty :: releaser where
  "free_data_empty event h = Some (E_ERR_SUCCESS, h)"

section \<open>Decoding what was encoded\<close>

text \<open>The message the client sees: the header it read and the payload behind it.\<close>

definition received :: "msg_t \<Rightarrow> msg_t" where
  "received m = m\<lparr>msg_data := map_option (drop SIZE_HEADER) (msg_data m)\<rparr>"

lemma received_simps [simp]:
  "msg_hdr (received m) = msg_hdr m"
  "msg_data (received m) = map_option (drop SIZE_HEADER) (msg_data m)"
  by (simp_all add: received_def)

text \<open>A string behind a pointer, with its length; what a decoder makes of it.\<close>

definition str_ok :: "byte list option \<Rightarrow> u32 \<Rightarrow> bool" where
  "str_ok p len \<longleftrightarrow> (case p of None \<Rightarrow> False | Some s \<Rightarrow> length s = unat len)"

definition nul :: "byte list option \<Rightarrow> byte list option" where
  "nul p = map_option (\<lambda>s. s @ [0]) p"

lemma str_okE:
  assumes "str_ok p len" obtains s where "p = Some s" and "length s = unat len"
  using assms by (auto simp: str_ok_def split: option.splits)

lemma ntohl_be_bytes [simp]: "ntohl (u32_of_bytes (be_bytes v)) = v"
  by (simp add: be_bytes_def flip: htonl_def)

lemma deserialize_at:
  "deserialize_uint32 (bs, off) =
     (if off + 4 \<le> length bs
      then Some (ntohl (u32_of_bytes (take 4 (drop off bs))), (bs, off + 4)) else None)"
  by (simp add: deserialize_uint32_def mem_read_def)

lemmas deserialize_simps =
  deserialize_at deserialize_size_t_def deserialize_int_def skip_def SIZE_HEADER_def

lemma malloc_ok: "alloc_ok E \<Longrightarrow> malloc E n h = (True, Libc (X_calloc n) # h)"
  by (simp add: malloc_def xint_def alloc_ok_def)

lemma dup_string_ok:
  assumes "alloc_ok E" "unat len + 1 < 2 ^ 32" "off + unat len \<le> length bs"
  shows "dup_string E (bs, off) len h =
    Some (Some (take (unat len) (drop off bs) @ [0]), Libc (X_calloc (unat len + 1)) # h)"
proof -
  have "unat (len + 1) = unat len + 1"
    using assms(2) by (simp add: unat_word_ariths)
  with assms show ?thesis
    by (simp add: dup_string_def calloc_def xint_def alloc_ok_def mem_read_def mem_write_def)
qed

lemma dup_string_append:
  assumes "alloc_ok E" "length s = unat len" "unat len + 1 < 2 ^ 32"
  shows "dup_string E (pre @ s @ post, length pre) len h =
    Some (Some (s @ [0]), Libc (X_calloc (unat len + 1)) # h)"
  using assms by (simp add: dup_string_ok)

text \<open>
  A builder succeeded and produced a message with identifier \<open>i\<close> whose receiver sees exactly
  \<open>payload\<close>, with its length in the header.
\<close>

definition sent_as ::
  "((e_mmgr_errors \<times> msg_t) \<times> history) option \<Rightarrow> u32 \<Rightarrow> byte list \<Rightarrow> bool" where
  "sent_as r i payload \<longleftrightarrow>
     length payload + SIZE_HEADER < 2 ^ 32 \<and>
     (\<exists>m h hd. r = Some ((E_ERR_SUCCESS, m), h) \<and> hdr_id (msg_hdr m) = i \<and>
            hdr_len (msg_hdr m) = of_nat (length payload) \<and>
            msg_data m = Some (hd @ payload) \<and> length hd = SIZE_HEADER)"

lemma build_msg_sent:
  assumes "alloc_ok E" "fills body payload" "length payload + SIZE_HEADER < 2 ^ 32"
    and "sz = of_nat (length payload)"
  shows "sent_as (build_msg E msg i sz body h) i payload"
proof -
  have "unat sz = length payload"
    using assms(3,4) by (simp add: unat_of_nat)
  with build_msg_fills [OF assms(1,2) this assms(3)] assms(3,4) show ?thesis
    by (simp add: sent_as_def)
qed

lemma sent_asE:
  assumes "sent_as r i payload"
  obtains m h where "r = Some ((E_ERR_SUCCESS, m), h)" "hdr_id (msg_hdr m) = i"
    "hdr_len (msg_hdr m) = of_nat (length payload)" "msg_data (received m) = Some payload"
    "length payload + SIZE_HEADER < 2 ^ 32"
  using assms by (auto simp: sent_as_def)

subsection \<open>Arrays of strings\<close>

text \<open>
  TFT event data and recovery causes travel the same way: a counted array of
  strings, each with its length in front. The locale states what one writing and one reading loop
  do at each step, and proves that together they transport the array.
\<close>

locale string_array =
  fixes len :: "'i \<Rightarrow> u32"
    and val :: "'i \<Rightarrow> byte list option"
    and mk :: "u32 \<Rightarrow> byte list option \<Rightarrow> 'i"
    and ok :: "'i \<Rightarrow> bool"
    and put :: "nat \<Rightarrow> 'i list \<Rightarrow> buf \<Rightarrow> buf option"
    and get :: "env \<Rightarrow> nat \<Rightarrow> buf \<Rightarrow> history \<Rightarrow> ('i list \<times> history) option"
  assumes okD: "ok d \<Longrightarrow> unat (len d) \<le> 512 \<and> str_ok (val d) (len d)"
    and put_done: "put 0 ds b = Some b"
    and put_step: "ok d \<Longrightarrow> put (Suc n) (d # ds) b =
          do { b1 \<leftarrow> serialize_size_t b (len d);
               b2 \<leftarrow> put_bytes b1 (val d) (unat (len d));
               put n ds b2 }"
    and get_done: "get E 0 b h = Some ([], h)"
    and get_step: "deserialize_size_t b = Some (l, b1) \<Longrightarrow>
          dup_string E b1 l h = Some (Some p, h1) \<Longrightarrow> get E n (skip b1 l) h1 = Some (ds, h2) \<Longrightarrow>
          get E (Suc n) b h = Some (mk l (Some p) # ds, h2)"
begin

definition item_image :: "'i \<Rightarrow> byte list" where
  "item_image d = be_bytes (len d) @ (case val d of None \<Rightarrow> [] | Some s \<Rightarrow> s)"

definition image :: "'i list \<Rightarrow> byte list" where
  "image ds = concat (map item_image ds)"

definition terminated :: "'i \<Rightarrow> 'i" where
  "terminated d = mk (len d) (nul (val d))"

lemma image_simps [simp]: "image [] = []" "image (d # ds) = item_image d @ image ds"
  by (simp_all add: image_def)

lemma okE:
  assumes "ok d"
  obtains s where "val d = Some s" "length s = unat (len d)" "unat (len d) \<le> 512"
    "item_image d = be_bytes (len d) @ s" "terminated d = mk (len d) (Some (s @ [0]))"
  using okD [OF assms] by (auto simp: item_image_def terminated_def nul_def elim!: str_okE)

lemma length_image:
  "list_all ok ds \<Longrightarrow> length (image ds) = (\<Sum>d\<leftarrow>ds. 4 + unat (len d))"
  by (induction ds) (auto elim!: okE)

lemma length_image_le: "list_all ok ds \<Longrightarrow> length (image ds) \<le> 516 * length ds"
  by (induction ds) (auto elim!: okE)

lemma put_fills: "list_all ok ds \<Longrightarrow> fills (put (length ds) ds) (image ds)"
proof (induction ds)
  case Nil
  then show ?case by (simp add: fills_def put_done)
next
  case (Cons d ds)
  then have IH: "fills (put (length ds) ds) (image ds)" and d: "ok d" by simp_all
  from d obtain s where s: "val d = Some s" "length s = unat (len d)"
    and im: "item_image d = be_bytes (len d) @ s" by (rule okE)
  have "fills (\<lambda>b. do { b1 \<leftarrow> serialize_size_t b (len d);
                      b2 \<leftarrow> put_bytes b1 (val d) (unat (len d));
                      put (length ds) ds b2 })
          (be_bytes (len d) @ s @ image ds)"
    by (intro fill_rules IH s)
  then show ?case
    using d by (simp add: im put_step)
qed

lemma get_image:
  "alloc_ok E \<Longrightarrow> list_all ok ds \<Longrightarrow>
     \<exists>h'. get E (length ds) (pre @ image ds @ post, length pre) h =
       Some (map terminated ds, h')"
proof (induction ds arbitrary: pre h)
  case Nil
  then show ?case by (simp add: get_done)
next
  case (Cons d ds)
  from Cons.prems have "ok d" by simp
  then obtain s where s: "length s = unat (len d)" "unat (len d) \<le> 512"
    and im: "item_image d = be_bytes (len d) @ s" "terminated d = mk (len d) (Some (s @ [0]))"
    by (rule okE)
  let ?buf = "pre @ be_bytes (len d) @ s @ image ds @ post"
  let ?h1 = "Libc (X_calloc (unat (len d) + 1)) # h"
  have "deserialize_size_t (?buf, length pre) = Some (len d, ?buf, length pre + 4)"
    by (simp add: sizec.get_image)
  moreover have "dup_string E (?buf, length pre + 4) (len d) h = Some (Some (s @ [0]), ?h1)"
    using dup_string_append [of E s "len d" "pre @ be_bytes (len d)" "image ds @ post" h]
      Cons.prems s by simp
  moreover obtain h' where "get E (length ds) (skip (?buf, length pre + 4) (len d)) ?h1 =
      Some (map terminated ds, h')"
    using Cons.IH [of "pre @ be_bytes (len d) @ s" ?h1] Cons.prems s
    by (auto simp: skip_def add.assoc)
  ultimately show ?case
    by (simp add: im get_step)
qed

end

definition td_ok :: "mmgr_cli_tft_event_data_t \<Rightarrow> bool" where
  "td_ok d \<longleftrightarrow> td_len d < MMGR_CLI_MAX_RECOVERY_CAUSE_LEN \<and> str_ok (td_value d) (td_len d)"

definition rc_ok :: "mmgr_cli_recovery_cause_t \<Rightarrow> bool" where
  "rc_ok c \<longleftrightarrow> rc_len c \<le> MMGR_CLI_MAX_RECOVERY_CAUSE_LEN \<and> str_ok (rc_cause c) (rc_len c)"

text \<open>The reading loops, restricted to the runs in which every allocation succeeds.\<close>

definition get_all_tft_data ::
  "env \<Rightarrow> nat \<Rightarrow> buf \<Rightarrow> history \<Rightarrow> (mmgr_cli_tft_event_data_t list \<times> history) option" where
  "get_all_tft_data E n b h =
     do { ((ok, ds), h') \<leftarrow> get_tft_data E n b h; if ok then Some (ds, h') else None }"

definition get_all_causes ::
  "env \<Rightarrow> nat \<Rightarrow> buf \<Rightarrow> history \<Rightarrow> (mmgr_cli_recovery_cause_t list \<times> history) option" where
  "get_all_causes E n b h =
     do { ((cs, k), h') \<leftarrow> get_causes E n n b h; if k = n then Some (cs, h') else None }"

interpretation tft: string_array td_len td_value
  "\<lambda>l v. \<lparr>td_len = l, td_value = v\<rparr>" td_ok tft_put_data get_all_tft_data
proof unfold_locales
  show "td_ok d \<Longrightarrow> unat (td_len d) \<le> 512 \<and> str_ok (td_value d) (td_len d)" for d
    by (simp add: td_ok_def MMGR_CLI_MAX_RECOVERY_CAUSE_LEN_def word_less_nat_alt)
qed (auto simp: td_ok_def get_all_tft_data_def bind_eq_Some_conv split: if_splits)

interpretation causes: string_array rc_len rc_cause
  "\<lambda>l v. \<lparr>rc_len = l, rc_cause = v\<rparr>" rc_ok put_causes get_all_causes
proof unfold_locales
  show "rc_ok d \<Longrightarrow> unat (rc_len d) \<le> 512 \<and> str_ok (rc_cause d) (rc_len d)" for d
    by (simp add: rc_ok_def MMGR_CLI_MAX_RECOVERY_CAUSE_LEN_def word_le_nat_alt)
qed (auto simp: rc_ok_def get_all_causes_def bind_eq_Some_conv split: if_splits)

subsection \<open>Well-formed payloads\<close>

definition tft_wf :: "mmgr_cli_tft_event_t \<Rightarrow> bool" where
  "tft_wf ev \<longleftrightarrow>
     int_ok (tft_type ev) \<and> int_ok (tft_log ev) \<and> str_ok (tft_name ev) (tft_name_len ev) \<and>
     tft_num_data ev \<le> MMGR_CLI_MAX_TFT_EVENT_DATA \<and>
     length (tft_array ev) = unat (tft_num_data ev) \<and> list_all td_ok (tft_array ev) \<and>
     unat (tft_name_len ev) < 2 ^ 31"

definition tft_terminated :: "mmgr_cli_tft_event_t \<Rightarrow> mmgr_cli_tft_event_t" where
  "tft_terminated ev =
     \<lparr>tft_type = tft_type ev, tft_name_len = tft_name_len ev, tft_name = nul (tft_name ev),
      tft_log = tft_log ev, tft_num_data = tft_num_data ev,
      tft_data = (if tft_num_data ev = 0 then None
                  else Some (map (\<lambda>d. \<lparr>td_len = td_len d, td_value = nul (td_value d)\<rparr>)
                               (tft_array ev)))\<rparr>"

lemma tft_data_size_image:
  "list_all td_ok ds \<Longrightarrow>
     tft_data_size (length ds) ds s = Some (s + of_nat (length (tft.image ds)))"
  by (induction ds arbitrary: s) (auto simp: add_ac elim!: tft.okE)

definition tft_payload :: "mmgr_cli_tft_event_t \<Rightarrow> byte list \<Rightarrow> byte list" where
  "tft_payload ev name = be_bytes (word_of_int (tft_type ev)) @ be_bytes (tft_name_len ev) @ name @
     be_bytes (word_of_int (tft_log ev)) @ be_bytes (tft_num_data ev) @ tft.image (tft_array ev)"

lemma tft_body_fills:
  assumes "tft_wf ev" and "tft_name ev = Some name"
  shows "fills (\<lambda>b. do {
      b1 \<leftarrow> serialize_int b (tft_type ev);
      b2 \<leftarrow> serialize_size_t b1 (tft_name_len ev);
      b3 \<leftarrow> put_bytes b2 (tft_name ev) (unat (tft_name_len ev));
      b4 \<leftarrow> serialize_int b3 (tft_log ev);
      b5 \<leftarrow> serialize_size_t b4 (tft_num_data ev);
      if tft_num_data ev \<le> MMGR_CLI_MAX_TFT_EVENT_DATA
      then tft_put_data (unat (tft_num_data ev)) (tft_array ev) b5 else None })
    (tft_payload ev name)"
proof -
  have "fills (tft_put_data (unat (tft_num_data ev)) (tft_array ev)) (tft.image (tft_array ev))"
    using tft.put_fills [of "tft_array ev"] assms(1) by (simp add: tft_wf_def)
  then have "fills (\<lambda>b5. if tft_num_data ev \<le> MMGR_CLI_MAX_TFT_EVENT_DATA
      then tft_put_data (unat (tft_num_data ev)) (tft_array ev) b5 else None)
      (tft.image (tft_array ev))"
    using assms(1) by (simp add: tft_wf_def)
  moreover have "length name = unat (tft_name_len ev)"
    using assms by (simp add: tft_wf_def str_ok_def)
  ultimately show ?thesis
    unfolding tft_payload_def by (intro fill_rules assms(2))
qed

lemma tft_encoded:
  assumes "alloc_ok E" "tft_wf ev" "tft_name ev = Some name" "ev_data request = D_tft_event ev"
  shows "sent_as (set_msg_tft_event E msg request h) (event_id E_MMGR_NOTIFY_TFT_EVENT)
    (tft_payload ev name)"
    (is "sent_as _ _ ?payload")
proof -
  have len: "length name = unat (tft_name_len ev)" "list_all td_ok (tft_array ev)"
    "unat (tft_num_data ev) = length (tft_array ev)"
    using assms(2,3) by (simp_all add: tft_wf_def str_ok_def)
  have "length (tft_array ev) \<le> 6"
    using assms(2) by (simp add: tft_wf_def MMGR_CLI_MAX_TFT_EVENT_DATA_def word_le_nat_alt)
  with tft.length_image_le [OF len(2)] have small: "length (tft.image (tft_array ev)) \<le> 3096"
    by simp
  have bound: "length ?payload + SIZE_HEADER < 2 ^ 32"
    using assms(2) small len(1) by (simp add: tft_wf_def SIZE_HEADER_def tft_payload_def)
  have "16 + tft_name_len ev + of_nat (length (tft.image (tft_array ev))) =
      (of_nat (length ?payload) :: u32)"
    by (simp add: len(1) tft_payload_def)
  with build_msg_sent [OF assms(1) tft_body_fills [OF assms(2,3)] bound refl]
  show ?thesis
    by (simp add: set_msg_tft_event_def assms(4) tft_data_size_image [OF len(2)] len(3) add.assoc)
qed

lemma get_tft_data_image:
  assumes "alloc_ok E" "list_all td_ok ds"
  shows "\<exists>h'. get_tft_data E (length ds) (pre @ tft.image ds, length pre) h =
    Some ((True, map tft.terminated ds), h')"
  using tft.get_image [OF assms, of pre "[]" h]
  by (auto simp: get_all_tft_data_def bind_eq_Some_conv split: if_splits)

lemma tft_decoded:
  assumes "alloc_ok E" "tft_wf ev" "tft_name ev = Some name"
    and "hdr_len (msg_hdr m) = of_nat (length (tft_payload ev name))"
    and "length (tft_payload ev name) + SIZE_HEADER < 2 ^ 32"
    and "msg_data m = Some (tft_payload ev name)"
  shows "\<exists>h'. set_data_tft_event E m request h =
    Some ((E_ERR_SUCCESS, request\<lparr>ev_data := D_tft_event (tft_terminated ev)\<rparr>), h')"
proof -
  have wf: "length name = unat (tft_name_len ev)" "list_all td_ok (tft_array ev)"
    "unat (tft_num_data ev) = length (tft_array ev)" "unat (tft_name_len ev) + 1 < 2 ^ 32"
    "sint (word_of_int (tft_type ev) :: u32) = tft_type ev"
    "sint (word_of_int (tft_log ev) :: u32) = tft_log ev"
    using assms(2,3) by (simp_all add: tft_wf_def str_ok_def sint_word_of_int_ok)
  have len: "\<not> hdr_len (msg_hdr m) < 16"
  proof -
    have "unat (hdr_len (msg_hdr m)) = length (tft_payload ev name)"
      using assms(5) unfolding assms(4) by (simp add: unat_of_nat)
    then show ?thesis by (simp add: word_less_nat_alt tft_payload_def)
  qed
  define pre where "pre = be_bytes (word_of_int (tft_type ev)) @ be_bytes (tft_name_len ev) @ name @
     be_bytes (word_of_int (tft_log ev)) @ be_bytes (tft_num_data ev)"
  have "\<exists>h'. get_tft_data E (length (tft_array ev)) (tft_payload ev name, 16 + unat (tft_name_len ev)) h =
      Some ((True, map tft.terminated (tft_array ev)), h')" for h
    using get_tft_data_image [OF assms(1) wf(2), of pre h] wf(1)
    by (simp add: tft_payload_def pre_def)
  then obtain k where k: "\<And>h. get_tft_data E (length (tft_array ev))
      (tft_payload ev name, 16 + unat (tft_name_len ev)) h = Some ((True, map tft.terminated (tft_array ev)), k h)"
    by metis
  show ?thesis
    using wf assms(1,3,6) k
    by (cases "tft_num_data ev = 0")
      (simp_all add: set_data_tft_event_def len malloc_ok deserialize_simps tft_payload_def dup_string_ok
        Let_def word_gt_0 tft_terminated_def tft_zero_def nul_def tft.terminated_def)
qed

text \<open>
  A TFT event that the daemon encodes and sends is decoded by the client library into the same
  event: same type, log mask and number of data entries, and every string intact with a
  terminating zero added.
\<close>

theorem tft_event_round_trip:
  assumes "alloc_ok E" "alloc_ok E'" "tft_wf ev" "ev_data request = D_tft_event ev"
  shows "\<exists>m h1 h2.
    set_msg_tft_event E msg request h = Some ((E_ERR_SUCCESS, m), h1) \<and>
    hdr_id (msg_hdr m) = event_id E_MMGR_NOTIFY_TFT_EVENT \<and>
    set_data_tft_event E' (received m) event h' =
      Some ((E_ERR_SUCCESS, event\<lparr>ev_data := D_tft_event (tft_terminated ev)\<rparr>), h2)"
proof -
  obtain name where name: "tft_name ev = Some name"
    using assms(3) by (auto simp: tft_wf_def elim: str_okE)
  from tft_encoded [OF assms(1,3) name assms(4), of msg h] obtain m h1 where
    "set_msg_tft_event E msg request h = Some ((E_ERR_SUCCESS, m), h1)"
    "hdr_id (msg_hdr m) = event_id E_MMGR_NOTIFY_TFT_EVENT"
    and rcv: "hdr_len (msg_hdr (received m)) = of_nat (length (tft_payload ev name))"
    "length (tft_payload ev name) + SIZE_HEADER < 2 ^ 32"
    "msg_data (received m) = Some (tft_payload ev name)"
    by (rule sent_asE) simp
  with tft_decoded [OF assms(2,3) name rcv] show ?thesis by blast
qed

definition tft_example :: mmgr_cli_tft_event_t where
  "tft_example =
     \<lparr>tft_type = 1, tft_name_len = 3, tft_name = Some [70, 77, 77], tft_log = 2, tft_num_data = 2,
      tft_data = Some [\<lparr>td_len = 2, td_value = Some [1, 2]\<rparr>, \<lparr>td_len = 0, td_value = Some []\<rparr>]\<rparr>"

definition tft_request :: mmgr_cli_event_t where
  "tft_request = \<lparr>ev_id = 13, ev_len = 0, ev_data = D_tft_event tft_example, ev_context = 0\<rparr>"

theorem tft_event_round_trip_witness:
  "tft_wf tft_example \<and>
   (\<exists>m h1 h2.
      set_msg_tft_event env_ok msg_empty tft_request [] = Some ((E_ERR_SUCCESS, m), h1) \<and>
      hdr_id (msg_hdr m) = event_id E_MMGR_NOTIFY_TFT_EVENT \<and>
      set_data_tft_event env_ok (received m) tft_request [] =
        Some ((E_ERR_SUCCESS,
               tft_request\<lparr>ev_data := D_tft_event (tft_terminated tft_example)\<rparr>), h2))"
proof -
  have wf: "tft_wf tft_example"
    by (simp add: tft_wf_def tft_example_def int_ok_def str_ok_def tft_array_def td_ok_def
        MMGR_CLI_MAX_TFT_EVENT_DATA_def MMGR_CLI_MAX_RECOVERY_CAUSE_LEN_def)
  moreover have "ev_data tft_request = D_tft_event tft_example"
    by (simp add: tft_request_def)
  ultimately show ?thesis
    using tft_event_round_trip [OF alloc_ok_env_ok alloc_ok_env_ok wf] by blast
qed

end
