(* ===== verification/Msg_Roundtrip.thy ===== *)
theory Msg_Roundtrip
  imports Msg_Client
begin

text \<open>
  What one side of a connection encodes the other side decodes: recovery causes from the
  requesting client through the daemon to the notified client, core dump reports, and
  the fixed-size results. The TFT events are treated in \<^verbatim>\<open>Msg_Client\<close>.
\<close>

subsection \<open>Recovery causes\<close>

definition causes_payload :: "mmgr_cli_recovery_cause_t list \<Rightarrow> byte list" where
  "causes_payload cs =
     (if cs = [] then [] else be_bytes (of_nat (length cs)) @ causes.image cs)"

definition causes_wf :: "mmgr_cli_recovery_cause_t list \<Rightarrow> bool" where
  "causes_wf cs \<longleftrightarrow> list_all rc_ok cs \<and> unat (of_nat (length cs) :: u32) = length cs \<and>
     of_nat (length cs) \<le> MMGR_CLI_MAX_RECOVERY_CAUSES"

lemma causes_wf_length: "causes_wf cs \<Longrightarrow> length cs \<le> 5"
  by (auto simp: causes_wf_def MMGR_CLI_MAX_RECOVERY_CAUSES_def word_le_nat_alt)

lemma length_causes_payload: "causes_wf cs \<Longrightarrow> length (causes_payload cs) \<le> 2584"
  using causes.length_image_le [of cs] causes_wf_length [of cs]
  by (auto simp: causes_payload_def causes_wf_def)

lemma check_causes_image:
  "list_all rc_ok cs \<Longrightarrow>
     check_causes (length cs) cs s =
       Some (True, s + of_nat (length (causes.image cs)) - 4 * of_nat (length cs))"
proof (induction cs arbitrary: s)
  case Nil
  then show ?case by simp
next
  case (Cons c cs)
  from Cons.prems have c: "rc_ok c" by simp
  then obtain t where "rc_cause c = Some t" "length t = unat (rc_len c)"
    "causes.item_image c = be_bytes (rc_len c) @ t"
    by (rule causes.okE)
  with Cons c show ?case
    by (simp add: rc_ok_def not_less algebra_simps)
qed

text \<open>The size arithmetic of \<^verbatim>\<open>set_msg_recovery\<close> on an array within the limits.\<close>

lemma causes_req_size:
  assumes "causes_wf cs" and "len = of_nat (8 * length cs)"
  shows "\<not> len > MMGR_CLI_MAX_RECOVERY_CAUSES * 8" "len mod 8 = 0" "len div 8 = of_nat (length cs)"
    "len \<noteq> 0 \<longleftrightarrow> cs \<noteq> []"
proof -
  have n: "length cs \<le> 5" by (rule causes_wf_length [OF assms(1)])
  have u: "unat len = 8 * length cs"
    using n unfolding assms(2) by (subst unat_of_nat) simp
  show "\<not> len > MMGR_CLI_MAX_RECOVERY_CAUSES * 8"
    using n u by (simp add: MMGR_CLI_MAX_RECOVERY_CAUSES_def word_less_nat_alt)
  show "len mod 8 = 0"
    using u by (simp add: word_arith_nat_mod)
  show "len div 8 = of_nat (length cs)"
    using u by (simp add: word_arith_nat_div)
  show "len \<noteq> 0 \<longleftrightarrow> cs \<noteq> []"
    using u by (cases cs) (auto simp: unat_eq_zero)
qed

lemma recovery_encoded:
  assumes "alloc_ok E" "causes_wf cs" "ev_data request = D_causes True cs"
    and "ev_len request = of_nat (8 * length cs)"
  shows "sent_as (set_msg_recovery E msg request h) (ev_id request) (causes_payload cs)"
proof (cases "cs = []")
  case True
  with assms build_msg_sent [OF assms(1) fills_Some] show ?thesis
    by (simp add: set_msg_recovery_def causes_ptr_def causes_payload_def SIZE_HEADER_def)
next
  case False
  have ok: "list_all rc_ok cs" "unat (of_nat (length cs) :: u32) = length cs"
    using assms(2) by (simp_all add: causes_wf_def)
  have nz: "(of_nat (length cs) :: u32) \<noteq> 0"
    using ok(2) False by auto
  have bound: "length (causes_payload cs) + SIZE_HEADER < 2 ^ 32"
    using length_causes_payload [OF assms(2)] by (simp add: SIZE_HEADER_def)
  have "fills (\<lambda>b. do { b1 \<leftarrow> serialize_size_t b (of_nat (length cs));
      put_causes (length cs) cs b1 }) (causes_payload cs)"
    using False by (simp add: causes_payload_def) (intro fill_rules causes.put_fills ok)
  from build_msg_sent [OF assms(1) this bound refl]
  show ?thesis
    using False causes_req_size [OF assms(2,4)] check_causes_image [OF ok(1), of 0] ok(2) nz
    by (simp add: set_msg_recovery_def causes_ptr_def assms(3) causes_payload_def Let_def
        mult.commute)
qed

definition ap_payload :: "byte list \<Rightarrow> byte list \<Rightarrow> byte list" where
  "ap_payload name extra = be_bytes (of_nat (length name)) @ name @ extra"

lemma ap_reset_encoded:
  assumes "alloc_ok E" "length name + length extra + 16 < 2 ^ 32"
    and "ev_data request = D_internal_ap_reset
      \<lparr>iap_len = of_nat (length name), iap_name = Some name,
       iap_extra_len = of_nat (length extra), iap_extra_data = Some extra\<rparr>"
  shows "sent_as (set_msg_ap_reset E msg request h) (event_id E_MMGR_NOTIFY_AP_RESET)
    (ap_payload name extra)"
proof -
  have len: "unat (of_nat (length name) :: u32) = length name"
    "unat (of_nat (length extra) :: u32) = length extra"
    using assms(2) by (simp_all add: unat_of_nat)
  have "fills (\<lambda>b. if (of_nat (length extra) :: u32) \<noteq> 0
        then put_bytes b (Some extra) (length extra) else Some b) extra"
  proof (cases "extra = []")
    case True
    then show ?thesis by (simp add: fills_Some)
  next
    case False
    then have "(of_nat (length extra) :: u32) \<noteq> 0"
      using len(2) by auto
    then show ?thesis by (simp add: fills_bytes)
  qed
  then have "fills (\<lambda>b. do {
      b1 \<leftarrow> serialize_size_t b (of_nat (length name));
      b2 \<leftarrow> put_bytes b1 (Some name) (length name);
      if (of_nat (length extra) :: u32) \<noteq> 0
      then put_bytes b2 (Some extra) (length extra) else Some b2 }) (ap_payload name extra)"
    unfolding ap_payload_def by (intro fill_rules) simp_all
  from build_msg_sent [OF assms(1) this] assms(2) show ?thesis
    by (simp add: set_msg_ap_reset_def assms(3) len ap_payload_def SIZE_HEADER_def add.assoc
        cong: if_cong)
qed

lemma get_causes_image:
  assumes "alloc_ok E" "list_all rc_ok cs"
  shows "\<exists>h'. get_causes E (length cs) (length cs) (pre @ causes.image cs, length pre) h =
    Some ((map causes.terminated cs, length cs), h')"
  using causes.get_image [OF assms, of pre "[]" h]
  by (auto simp: get_all_causes_def bind_eq_Some_conv split: if_splits)

definition ap_terminated ::
  "byte list \<Rightarrow> mmgr_cli_recovery_cause_t list \<Rightarrow> mmgr_cli_ap_reset_t" where
  "ap_terminated name cs =
     \<lparr>ap_len = of_nat (length name), ap_name = Some (name @ [0]),
      ap_num_causes = of_nat (length cs),
      ap_recovery_causes =
        Some (map (\<lambda>c. \<lparr>rc_len = rc_len c, rc_cause = nul (rc_cause c)\<rparr>) cs)\<rparr>"

lemma ap_reset_decoded:
  assumes "alloc_ok E" "causes_wf cs" "length name < 2 ^ 31"
    and "hdr_len (msg_hdr m) = of_nat (length (ap_payload name (causes_payload cs)))"
    and "msg_data m = Some (ap_payload name (causes_payload cs))"
  shows "\<exists>h'. set_data_ap_reset E m request h =
    Some ((E_ERR_SUCCESS, request\<lparr>ev_data := D_ap_reset (ap_terminated name cs)\<rparr>), h')"
proof -
  have len: "unat (of_nat (length name) :: u32) = length name"
    using assms(3) by (simp add: unat_of_nat)
  have n: "length cs \<le> 5" "unat (of_nat (length cs) :: u32) = length cs" "list_all rc_ok cs"
    using assms(2) causes_wf_length by (auto simp: causes_wf_def)
  have cap: "unat (of_nat (length cs) * 8 :: u32) div 8 = length cs"
    using n by (simp add: unat_word_ariths)
  have extra: "hdr_len (msg_hdr m) > of_nat (length name) + 4 \<longleftrightarrow> cs \<noteq> []"
  proof -
    have u: "unat (hdr_len (msg_hdr m)) = 4 + length name + length (causes_payload cs)"
      using assms(3) length_causes_payload [OF assms(2)] unfolding assms(4)
      by (subst unat_of_nat) (simp add: ap_payload_def)
    have v: "unat (of_nat (length name) + 4 :: u32) = length name + 4"
      using assms(3) len by (simp add: unat_word_ariths)
    have "length (causes_payload cs) = 0 \<longleftrightarrow> cs = []"
      by (cases cs) (simp_all add: causes_payload_def del: length_0_conv)
    then show ?thesis unfolding word_less_nat_alt u v by simp
  qed
  define pre where "pre = be_bytes (of_nat (length name)) @ name @ be_bytes (of_nat (length cs))"
  have "\<exists>h'. get_causes E (length cs) (length cs)
      (be_bytes (of_nat (length name)) @ name @ be_bytes (of_nat (length cs)) @ causes.image cs,
       8 + length name) h = Some ((map causes.terminated cs, length cs), h')" for h
    using get_causes_image [OF assms(1) n(3), of pre h] by (simp add: pre_def)
  then obtain k where k: "\<And>h. get_causes E (length cs) (length cs)
      (be_bytes (of_nat (length name)) @ name @ be_bytes (of_nat (length cs)) @ causes.image cs,
       8 + length name) h = Some ((map causes.terminated cs, length cs), k h)"
    by metis
  show ?thesis
    using assms(1,3,5) n cap k extra len
    by (cases "cs = []")
      (simp_all add: set_data_ap_reset_def deserialize_simps malloc_ok dup_string_ok ap_payload_def
        causes_payload_def ap_terminated_def causes.terminated_def)
qed

text \<open>
  C37: Recovery causes survive the whole trip. A client that requests a modem recovery encodes its
  causes; the daemon forwards the raw payload in its AP_RESET notification, behind the
  name of the requester; the receiving client decodes the requester's name and the
  same causes, each with a terminating zero added.
\<close>

theorem recovery_causes_end_to_end:
  assumes "alloc_ok E1" "alloc_ok E2" "alloc_ok E3" "causes_wf cs" "length name < 2 ^ 31"
    and "ev_data request = D_causes True cs" "ev_len request = of_nat (8 * length cs)"
  shows "\<exists>m1 h1 extra m2 h2 h3.
    set_msg_recovery E1 msg1 request g1 = Some ((E_ERR_SUCCESS, m1), h1) \<and>
    msg_data (received m1) = Some extra \<and> hdr_len (msg_hdr m1) = of_nat (length extra) \<and>
    set_msg_ap_reset E2 msg2 (notif\<lparr>ev_data := D_internal_ap_reset
      \<lparr>iap_len = of_nat (length name), iap_name = Some name,
       iap_extra_len = hdr_len (msg_hdr m1), iap_extra_data = Some extra\<rparr>\<rparr>) g2 =
      Some ((E_ERR_SUCCESS, m2), h2) \<and>
    set_data_ap_reset E3 (received m2) event g3 =
      Some ((E_ERR_SUCCESS, event\<lparr>ev_data := D_ap_reset (ap_terminated name cs)\<rparr>), h3)"
proof -
  let ?extra = "causes_payload cs"
  have bound: "length name + length ?extra + 16 < 2 ^ 32"
    using assms(5) length_causes_payload [OF assms(4)] by simp
  obtain m1 h1 where m1: "set_msg_recovery E1 msg1 request g1 = Some ((E_ERR_SUCCESS, m1), h1)"
    "msg_data (received m1) = Some ?extra" "hdr_len (msg_hdr m1) = of_nat (length ?extra)"
    using recovery_encoded [OF assms(1,4,6,7), of msg1 g1] by (elim sent_asE) simp
  let ?notif = "notif\<lparr>ev_data := D_internal_ap_reset
      \<lparr>iap_len = of_nat (length name), iap_name = Some name,
       iap_extra_len = hdr_len (msg_hdr m1), iap_extra_data = Some ?extra\<rparr>\<rparr>"
  obtain m2 h2 where m2: "set_msg_ap_reset E2 msg2 ?notif g2 = Some ((E_ERR_SUCCESS, m2), h2)"
    "msg_data (received m2) = Some (ap_payload name ?extra)"
    "hdr_len (msg_hdr (received m2)) = of_nat (length (ap_payload name ?extra))"
    using ap_reset_encoded [OF assms(2) bound, of ?notif msg2 g2] m1(3)
    by (auto elim: sent_asE)
  from ap_reset_decoded [OF assms(3,4,5) m2(3,2)] m1 m2(1) show ?thesis by blast
qed

definition cause_example :: "mmgr_cli_recovery_cause_t list" where
  "cause_example = [\<lparr>rc_len = 2, rc_cause = Some [65, 84]\<rparr>, \<lparr>rc_len = 1, rc_cause = Some [66]\<rparr>]"

definition recovery_request :: mmgr_cli_event_t where
  "recovery_request = \<lparr>ev_id = 4, ev_len = 16, ev_data = D_causes True cause_example, ev_context = 0\<rparr>"

theorem recovery_causes_end_to_end_witness:
  "causes_wf cause_example \<and>
   (\<exists>m1 h1 extra m2 h2 h3.
    set_msg_recovery env_ok msg_empty recovery_request [] = Some ((E_ERR_SUCCESS, m1), h1) \<and>
    msg_data (received m1) = Some extra \<and> hdr_len (msg_hdr m1) = of_nat (length extra) \<and>
    set_msg_ap_reset env_ok msg_empty (recovery_request\<lparr>ev_data := D_internal_ap_reset
      \<lparr>iap_len = of_nat (length [82::byte]), iap_name = Some [82],
       iap_extra_len = hdr_len (msg_hdr m1), iap_extra_data = Some extra\<rparr>\<rparr>) [] =
      Some ((E_ERR_SUCCESS, m2), h2) \<and>
    set_data_ap_reset env_ok (received m2) recovery_request [] =
      Some ((E_ERR_SUCCESS,
        recovery_request\<lparr>ev_data := D_ap_reset (ap_terminated [82] cause_example)\<rparr>), h3))"
proof (intro conjI)
  show wf: "causes_wf cause_example"
    by (simp add: causes_wf_def cause_example_def rc_ok_def str_ok_def
        MMGR_CLI_MAX_RECOVERY_CAUSE_LEN_def MMGR_CLI_MAX_RECOVERY_CAUSES_def)
  show "\<exists>m1 h1 extra m2 h2 h3.
    set_msg_recovery env_ok msg_empty recovery_request [] = Some ((E_ERR_SUCCESS, m1), h1) \<and>
    msg_data (received m1) = Some extra \<and> hdr_len (msg_hdr m1) = of_nat (length extra) \<and>
    set_msg_ap_reset env_ok msg_empty (recovery_request\<lparr>ev_data := D_internal_ap_reset
      \<lparr>iap_len = of_nat (length [82::byte]), iap_name = Some [82],
       iap_extra_len = hdr_len (msg_hdr m1), iap_extra_data = Some extra\<rparr>\<rparr>) [] =
      Some ((E_ERR_SUCCESS, m2), h2) \<and>
    set_data_ap_reset env_ok (received m2) recovery_request [] =
      Some ((E_ERR_SUCCESS,
        recovery_request\<lparr>ev_data := D_ap_reset (ap_terminated [82] cause_example)\<rparr>), h3)"
    by (rule recovery_causes_end_to_end [OF alloc_ok_env_ok alloc_ok_env_ok alloc_ok_env_ok wf])
      (simp_all add: recovery_request_def cause_example_def)
qed

subsection \<open>Core dump reports\<close>

definition cd_wf :: "mmgr_cli_core_dump_t \<Rightarrow> bool" where
  "cd_wf cd \<longleftrightarrow>
     str_ok (cd_path cd) (cd_path_len cd) \<and>
     (cd_reason_len cd > 0 \<longrightarrow> str_ok (cd_reason cd) (cd_reason_len cd)) \<and>
     unat (cd_path_len cd) + unat (cd_reason_len cd) < 2 ^ 31"

definition cd_terminated :: "mmgr_cli_core_dump_t \<Rightarrow> mmgr_cli_core_dump_t" where
  "cd_terminated cd =
     cd\<lparr>cd_path := nul (cd_path cd),
        cd_reason := (if cd_reason_len cd > 0 then nul (cd_reason cd) else None)\<rparr>"

definition cd_payload :: "mmgr_cli_core_dump_t \<Rightarrow> byte list \<Rightarrow> byte list \<Rightarrow> byte list" where
  "cd_payload cd path reason =
     be_bytes (cd_state cd) @ be_bytes (cd_path_len cd) @ be_bytes (cd_reason_len cd) @ path @ reason"

text \<open>The strings of a well-formed report; no reason is the empty one.\<close>

lemma cd_wfE:
  assumes "cd_wf cd"
  obtains path reason where "cd_path cd = Some path" "length path = unat (cd_path_len cd)"
    "length reason = unat (cd_reason_len cd)" "cd_reason_len cd > 0 \<longrightarrow> cd_reason cd = Some reason"
proof -
  obtain path where "cd_path cd = Some path" "length path = unat (cd_path_len cd)"
    using assms by (auto simp: cd_wf_def elim: str_okE)
  moreover obtain reason where "length reason = unat (cd_reason_len cd)"
    "cd_reason_len cd > 0 \<longrightarrow> cd_reason cd = Some reason"
  proof (cases "cd_reason_len cd > 0")
    case True
    then show ?thesis using that assms by (auto simp: cd_wf_def elim: str_okE)
  next
    case False
    then show ?thesis using that [of "[]"] by (simp add: word_gt_0)
  qed
  ultimately show ?thesis by (rule that)
qed

lemma core_dump_encoded:
  assumes "alloc_ok E" "unat (cd_path_len cd) + unat (cd_reason_len cd) < 2 ^ 31"
    and "ev_data request = D_core_dump cd"
    and "cd_path_len cd > 0 \<longrightarrow> cd_path cd = Some path" "length path = unat (cd_path_len cd)"
    and "length reason = unat (cd_reason_len cd)" "cd_reason_len cd > 0 \<longrightarrow> cd_reason cd = Some reason"
  shows "sent_as (set_msg_core_dump E msg request h) (event_id E_MMGR_NOTIFY_CORE_DUMP_COMPLETE)
    (cd_payload cd path reason)"
proof -
  have "fills (\<lambda>b. if cd_reason_len cd > 0
      then put_bytes b (cd_reason cd) (unat (cd_reason_len cd)) else Some b) reason"
    using fills_bytes_opt [OF assms(6,7)] assms(6)
    by (cases "cd_reason_len cd = 0") (auto simp: word_gt_0 fills_Some)
  then have fills: "fills (\<lambda>b. do {
      b1 \<leftarrow> serialize_uint32 b (cd_state cd);
      b2 \<leftarrow> serialize_size_t b1 (cd_path_len cd);
      b3 \<leftarrow> serialize_size_t b2 (cd_reason_len cd);
      b4 \<leftarrow> put_bytes b3 (cd_path cd) (unat (cd_path_len cd));
      if cd_reason_len cd > 0
      then put_bytes b4 (cd_reason cd) (unat (cd_reason_len cd)) else Some b4 })
      (cd_payload cd path reason)"
    unfolding cd_payload_def by (intro fill_rules fills_bytes_opt assms(4,5))
  have size: "12 + (cd_path_len cd + cd_reason_len cd) =
      of_nat (length (cd_payload cd path reason))"
    by (simp add: cd_payload_def assms(5,6))
  have "length (cd_payload cd path reason) + SIZE_HEADER < 2 ^ 32"
    using assms(2,5,6) by (simp add: cd_payload_def SIZE_HEADER_def)
  from build_msg_sent [OF assms(1) fills this size] show ?thesis
    by (simp add: set_msg_core_dump_def assms(3))
qed

lemma core_dump_decoded:
  assumes "alloc_ok E" "cd_wf cd" "cd_path cd = Some path" "length path = unat (cd_path_len cd)"
    and "length reason = unat (cd_reason_len cd)" "cd_reason_len cd > 0 \<longrightarrow> cd_reason cd = Some reason"
    and "hdr_len (msg_hdr m) = of_nat (length (cd_payload cd path reason))"
    and "msg_data m = Some (cd_payload cd path reason)"
  shows "\<exists>h'. set_data_core_dump E m request h =
    Some ((E_ERR_SUCCESS, request\<lparr>ev_data := D_core_dump (cd_terminated cd)\<rparr>), h')"
proof -
  have size: "hdr_len (msg_hdr m) = 12 + (cd_path_len cd + cd_reason_len cd)"
    by (simp add: assms(4,5,7) cd_payload_def)
  have "unat (hdr_len (msg_hdr m)) = 12 + unat (cd_path_len cd) + unat (cd_reason_len cd)"
    using assms(2,4,5) unfolding assms(7)
    by (subst unat_of_nat) (simp add: cd_payload_def cd_wf_def)
  then have len: "\<not> hdr_len (msg_hdr m) < 12"
    by (simp add: word_less_nat_alt)
  show ?thesis
    using assms(1-6,8) len
    by (cases "cd_reason_len cd = 0")
      (simp_all add: set_data_core_dump_def malloc_ok deserialize_simps cd_payload_def dup_string_ok
        cd_wf_def size word_gt_0 cd_terminated_def cd_zero_def nul_def Let_def)
qed

text \<open>
  A core dump report that the daemon encodes is decoded by the client into the same
  report: state, path and, when there is one, failure reason.
\<close>

theorem core_dump_round_trip:
  assumes "alloc_ok E" "alloc_ok E'" "cd_wf cd" "ev_data request = D_core_dump cd"
  shows "\<exists>m h1 h2.
    set_msg_core_dump E msg request h = Some ((E_ERR_SUCCESS, m), h1) \<and>
    hdr_id (msg_hdr m) = event_id E_MMGR_NOTIFY_CORE_DUMP_COMPLETE \<and>
    set_data_core_dump E' (received m) event h' =
      Some ((E_ERR_SUCCESS, event\<lparr>ev_data := D_core_dump (cd_terminated cd)\<rparr>), h2)"
proof -
  obtain path reason where pr: "cd_path cd = Some path" "length path = unat (cd_path_len cd)"
    "length reason = unat (cd_reason_len cd)" "cd_reason_len cd > 0 \<longrightarrow> cd_reason cd = Some reason"
    using assms(3) by (rule cd_wfE)
  obtain m h1 where
    "set_msg_core_dump E msg request h = Some ((E_ERR_SUCCESS, m), h1)"
    "hdr_id (msg_hdr m) = event_id E_MMGR_NOTIFY_CORE_DUMP_COMPLETE"
    and m: "hdr_len (msg_hdr (received m)) = of_nat (length (cd_payload cd path reason))"
    "msg_data (received m) = Some (cd_payload cd path reason)"
  proof -
    have "unat (cd_path_len cd) + unat (cd_reason_len cd) < 2 ^ 31"
      using assms(3) by (simp add: cd_wf_def)
    from core_dump_encoded [OF assms(1) this assms(4) impI pr(2-4)] pr(1) that show ?thesis
      by (metis received_simps(1) sent_asE)
  qed
  with core_dump_decoded [OF assms(2,3) pr m] show ?thesis by blast
qed

definition cd_example :: mmgr_cli_core_dump_t where
  "cd_example = \<lparr>cd_state = cd_state_code E_CD_TIMEOUT, cd_path = Some [47], cd_path_len = 1,
                 cd_reason = Some [116, 111], cd_reason_len = 2\<rparr>"

definition cd_request :: mmgr_cli_event_t where
  "cd_request = \<lparr>ev_id = 10, ev_len = 0, ev_data = D_core_dump cd_example, ev_context = 0\<rparr>"

theorem core_dump_round_trip_witness:
  "cd_wf cd_example \<and>
   (\<exists>m h1 h2.
     set_msg_core_dump env_ok msg_empty cd_request [] = Some ((E_ERR_SUCCESS, m), h1) \<and>
     hdr_id (msg_hdr m) = event_id E_MMGR_NOTIFY_CORE_DUMP_COMPLETE \<and>
     set_data_core_dump env_ok (received m) cd_request [] =
       Some ((E_ERR_SUCCESS, cd_request\<lparr>ev_data := D_core_dump (cd_terminated cd_example)\<rparr>), h2))"
proof -
  have wf: "cd_wf cd_example"
    by (simp add: cd_wf_def cd_example_def str_ok_def)
  moreover have "ev_data cd_request = D_core_dump cd_example"
    by (simp add: cd_request_def)
  ultimately show ?thesis
    using core_dump_round_trip [OF alloc_ok_env_ok alloc_ok_env_ok wf] by blast
qed

subsection \<open>Update results and identifiers\<close>

lemma fw_result_encoded:
  assumes "alloc_ok E" "ev_data request = D_fw_result i"
  shows "sent_as (set_msg_modem_fw_result E msg request h)
    (event_id E_MMGR_RESPONSE_MODEM_FW_RESULT) (be_bytes i)"
  using build_msg_sent [OF assms(1) fills_codecs(1) _ refl, of i]
  by (simp add: set_msg_modem_fw_result_def assms(2) SIZE_HEADER_def)

lemma nvm_result_encoded:
  assumes "alloc_ok E" "ev_data request = D_nvm_result r"
  shows "sent_as (set_msg_modem_nvm_result E msg request h)
    (event_id E_MMGR_RESPONSE_MODEM_NVM_RESULT)
    (be_bytes (nvm_id r) @ be_bytes (word_of_int (nvm_sub_error_code r)))"
proof -
  have "fills (\<lambda>b. do { b1 \<leftarrow> serialize_uint32 b (nvm_id r);
      serialize_int b1 (nvm_sub_error_code r) })
      (be_bytes (nvm_id r) @ be_bytes (word_of_int (nvm_sub_error_code r)))"
    by (intro fill_rules)
  from build_msg_sent [OF assms(1) this _ refl] show ?thesis
    by (simp add: set_msg_modem_nvm_result_def assms(2) SIZE_HEADER_def)
qed

lemma fixed_size_decoded:
  assumes "alloc_ok E"
  shows "hdr_len (msg_hdr m) = 4 \<Longrightarrow> msg_data m = Some (be_bytes i) \<Longrightarrow>
      \<exists>h'. set_data_fw_result E m event h =
        Some ((E_ERR_SUCCESS, event\<lparr>ev_data := D_fw_result i\<rparr>), h')"
    and "hdr_len (msg_hdr m) = 8 \<Longrightarrow> int_ok (nvm_sub_error_code r) \<Longrightarrow>
      msg_data m = Some (be_bytes (nvm_id r) @ be_bytes (word_of_int (nvm_sub_error_code r))) \<Longrightarrow>
      \<exists>h'. set_data_nvm_result E m event h =
        Some ((E_ERR_SUCCESS, event\<lparr>ev_data := D_nvm_result r\<rparr>), h')"
    and "hdr_len (msg_hdr m) = of_nat FUSE_LEN \<Longrightarrow> msg_data m = Some fid \<Longrightarrow> length fid = FUSE_LEN \<Longrightarrow>
      \<exists>h'. set_data_fuse_info E m event h =
        Some ((E_ERR_SUCCESS, event\<lparr>ev_data := D_fuse_info fid\<rparr>), h')"
  using assms
  by (simp_all add: set_data_fw_result_def set_data_nvm_result_def set_data_fuse_info_def malloc_ok
      deserialize_simps sint_word_of_int_ok mem_write_def FUSE_LEN_def Let_def)

lemma hw_id_decoded:
  assumes "alloc_ok E" "hdr_len (msg_hdr m) = hw_len hw" "msg_data m = Some s"
    "length s = unat (hw_len hw)" "unat (hw_len hw) < 2 ^ 31" "hw_id hw = Some s"
  shows "\<exists>h'. set_data_hw_id E m event h = Some ((E_ERR_SUCCESS,
    event\<lparr>ev_data := D_hw_id \<lparr>hw_len = hw_len hw, hw_id = nul (hw_id hw)\<rparr>\<rparr>), h')"
  using assms by (simp add: set_data_hw_id_def malloc_ok dup_string_ok nul_def Let_def)

text \<open>
  The result of a firmware update and of an NVM update (with its sub error code, which may be
  negative) reach the client unchanged.
\<close>

theorem update_results_round_trip:
  assumes "alloc_ok E" "alloc_ok E'" "int_ok (nvm_sub_error_code r)"
  shows "(\<exists>m h1 h2.
      set_msg_modem_fw_result E msg (request\<lparr>ev_data := D_fw_result i\<rparr>) h =
        Some ((E_ERR_SUCCESS, m), h1) \<and>
      set_data_fw_result E' (received m) event h' =
        Some ((E_ERR_SUCCESS, event\<lparr>ev_data := D_fw_result i\<rparr>), h2)) \<and>
    (\<exists>m h1 h2.
      set_msg_modem_nvm_result E msg (request\<lparr>ev_data := D_nvm_result r\<rparr>) h =
        Some ((E_ERR_SUCCESS, m), h1) \<and>
      set_data_nvm_result E' (received m) event h' =
        Some ((E_ERR_SUCCESS, event\<lparr>ev_data := D_nvm_result r\<rparr>), h2))"
proof (intro conjI, goal_cases)
  case 1
  have "ev_data (request\<lparr>ev_data := D_fw_result i\<rparr>) = D_fw_result i" by simp
  from fw_result_encoded [OF assms(1) this, of msg h] obtain m h1 where
    "set_msg_modem_fw_result E msg (request\<lparr>ev_data := D_fw_result i\<rparr>) h =
      Some ((E_ERR_SUCCESS, m), h1)"
    "hdr_len (msg_hdr m) = 4" "msg_data (received m) = Some (be_bytes i)"
    by (rule sent_asE) simp
  with fixed_size_decoded(1) [OF assms(2), of "received m"] show ?case by simp
next
  case 2
  have "ev_data (request\<lparr>ev_data := D_nvm_result r\<rparr>) = D_nvm_result r" by simp
  from nvm_result_encoded [OF assms(1) this, of msg h] obtain m h1 where
    "set_msg_modem_nvm_result E msg (request\<lparr>ev_data := D_nvm_result r\<rparr>) h =
      Some ((E_ERR_SUCCESS, m), h1)"
    "hdr_len (msg_hdr m) = 8"
    "msg_data (received m) = Some (be_bytes (nvm_id r) @ be_bytes (word_of_int (nvm_sub_error_code r)))"
    by (rule sent_asE) simp
  with fixed_size_decoded(2) [OF assms(2) _ assms(3), of "received m"] show ?case by simp
qed

theorem update_results_round_trip_witness:
  "int_ok (-7) \<and>
   (\<exists>m h1 h2.
      set_msg_modem_nvm_result env_ok msg_empty
        (cd_request\<lparr>ev_data := D_nvm_result \<lparr>nvm_id = 3, nvm_sub_error_code = -7\<rparr>\<rparr>) [] =
        Some ((E_ERR_SUCCESS, m), h1) \<and>
      set_data_nvm_result env_ok (received m) cd_request [] =
        Some ((E_ERR_SUCCESS,
          cd_request\<lparr>ev_data := D_nvm_result \<lparr>nvm_id = 3, nvm_sub_error_code = -7\<rparr>\<rparr>), h2))"
proof -
  have "int_ok (nvm_sub_error_code \<lparr>nvm_id = 3, nvm_sub_error_code = -7\<rparr>)"
    by (simp add: int_ok_def)
  from update_results_round_trip [OF alloc_ok_env_ok alloc_ok_env_ok this,
      where msg = msg_empty and request = cd_request and h = "[]" and event = cd_request and h' = "[]"]
    this show ?thesis by simp
qed

text \<open>
  A hardware identifier reaches the client as a zero-terminated copy with its length, and
  the fuse information, always \<^verbatim>\<open>FUSE_LEN\<close> bytes, is copied unchanged.
\<close>

theorem identifiers_round_trip:
  assumes "alloc_ok E" "alloc_ok E'" "str_ok (hw_id hw) (hw_len hw)"
    and "unat (hw_len hw) < 2 ^ 31" "length fid = FUSE_LEN"
  shows "(\<exists>m h1 h2.
      set_msg_modem_hw_id E msg (request\<lparr>ev_data := D_hw_id hw\<rparr>) h =
        Some ((E_ERR_SUCCESS, m), h1) \<and>
      set_data_hw_id E' (received m) event h' =
        Some ((E_ERR_SUCCESS, event\<lparr>ev_data := D_hw_id
          \<lparr>hw_len = hw_len hw, hw_id = nul (hw_id hw)\<rparr>\<rparr>), h2)) \<and>
    (\<exists>m h1 h2.
      set_msg_fuse_info E msg (request\<lparr>ev_data := D_fuse_info fid\<rparr>) h =
        Some ((E_ERR_SUCCESS, m), h1) \<and>
      set_data_fuse_info E' (received m) event h' =
        Some ((E_ERR_SUCCESS, event\<lparr>ev_data := D_fuse_info fid\<rparr>), h2))"
proof (intro conjI, goal_cases)
  case 1
  obtain s where s: "hw_id hw = Some s" "length s = unat (hw_len hw)"
    using assms(3) by (rule str_okE)
  have "sent_as (set_msg_modem_hw_id E msg (request\<lparr>ev_data := D_hw_id hw\<rparr>) h)
      (event_id E_MMGR_RESPONSE_MODEM_HW_ID) s"
  proof -
    have "length s + SIZE_HEADER < 2 ^ 32" "hw_len hw = of_nat (length s)"
      using assms(4) by (simp_all add: s(2) SIZE_HEADER_def)
    from build_msg_sent [OF assms(1) fills_bytes [OF s] this] show ?thesis
      by (simp add: set_msg_modem_hw_id_def)
  qed
  then obtain m h1 where "set_msg_modem_hw_id E msg (request\<lparr>ev_data := D_hw_id hw\<rparr>) h =
      Some ((E_ERR_SUCCESS, m), h1)" "hdr_len (msg_hdr m) = hw_len hw"
    "msg_data (received m) = Some s"
    by (rule sent_asE) (simp add: s(2))
  with hw_id_decoded [OF assms(2) _ _ s(2) assms(4) s(1), of "received m"] show ?case by simp
next
  case 2
  have "sent_as (set_msg_fuse_info E msg (request\<lparr>ev_data := D_fuse_info fid\<rparr>) h)
      (event_id E_MMGR_RESPONSE_FUSE_INFO) fid"
    using build_msg_sent [OF assms(1) fills_bytes [OF refl assms(5)], where sz = "of_nat FUSE_LEN"] assms(5)
    by (simp add: set_msg_fuse_info_def SIZE_HEADER_def FUSE_LEN_def)
  then obtain m h1 where "set_msg_fuse_info E msg (request\<lparr>ev_data := D_fuse_info fid\<rparr>) h =
      Some ((E_ERR_SUCCESS, m), h1)" "hdr_len (msg_hdr m) = of_nat FUSE_LEN"
    "msg_data (received m) = Some fid"
    by (rule sent_asE) (simp add: assms(5))
  with fixed_size_decoded(3) [OF assms(2) _ _ assms(5), of "received m"] show ?case by simp
qed

theorem identifiers_round_trip_witness:
  "length [1, 2, 3, 4, 5, 6, 7, 8, 9 :: byte] = FUSE_LEN \<and>
   (\<exists>m h1 h2.
      set_msg_fuse_info env_ok msg_empty
        (cd_request\<lparr>ev_data := D_fuse_info [1, 2, 3, 4, 5, 6, 7, 8, 9]\<rparr>) [] =
        Some ((E_ERR_SUCCESS, m), h1) \<and>
      set_data_fuse_info env_ok (received m) cd_request [] =
        Some ((E_ERR_SUCCESS, cd_request\<lparr>ev_data := D_fuse_info [1, 2, 3, 4, 5, 6, 7, 8, 9]\<rparr>), h2))"
proof -
  have "str_ok (hw_id \<lparr>hw_len = 1, hw_id = Some [5]\<rparr>) (hw_len \<lparr>hw_len = 1, hw_id = Some [5]\<rparr>)"
    "unat (hw_len \<lparr>hw_len = 1, hw_id = Some [5]\<rparr>) < 2 ^ 31"
    and len: "length [1, 2, 3, 4, 5, 6, 7, 8, 9 :: byte] = FUSE_LEN"
    by (simp_all add: str_ok_def FUSE_LEN_def)
  from identifiers_round_trip [OF alloc_ok_env_ok alloc_ok_env_ok this,
      where msg = msg_empty and request = cd_request and h = "[]" and event = cd_request and h' = "[]"]
    len show ?thesis by blast
qed

end
