(* ===== verification/Clients.thy ===== *)
theory Clients
  imports Msg_Roundtrip
begin

text \<open>
  The table of connected clients (\<^verbatim>\<open>core/client.c\<close>): slots with a socket, the flags of what the client
  has done (\<^verbatim>\<open>cnx\<close>) and the mask of events it wants (\<^verbatim>\<open>subscription\<close>); adding, finding and
  removing clients, waiting for acknowledgements, and informing clients of events.

  A \<^verbatim>\<open>client_hdle_t\<close> is a pointer into the table and is modelled by the slot's index. A loop over the
  slots is a recursion over the list of slots. The contract the event loop relies on is the
  locale \<open>fd_table\<close>, interpreted on these operations.
\<close>

section \<open>State\<close>

definition E_CNX_NAME :: u32 where "E_CNX_NAME = flag 0"
definition E_CNX_FILTER :: u32 where "E_CNX_FILTER = flag 1"
definition E_CNX_COLD_RESET :: u32 where "E_CNX_COLD_RESET = flag 2"
definition E_CNX_MODEM_SHUTDOWN :: u32 where "E_CNX_MODEM_SHUTDOWN = flag 3"
definition E_CNX_RESOURCE_RELEASED :: u32 where "E_CNX_RESOURCE_RELEASED = flag 4"

lemmas E_CNX_defs = E_CNX_NAME_def E_CNX_FILTER_def E_CNX_COLD_RESET_def
  E_CNX_MODEM_SHUTDOWN_def E_CNX_RESOURCE_RELEASED_def

datatype e_print = E_PRINT | E_MUTE


text \<open>The name is the C string held by the array, without its terminating zero.\<close>

record client_t =
  cl_name :: "byte list"
  cl_fd :: int
  cl_time :: timespec
  cl_subscription :: u32
  cl_cnx :: u32

text \<open>
  \<open>down_state\<close> is the static variable of \<^verbatim>\<open>clients_inform_all\<close>. The table of message
  builders never changes after \<^verbatim>\<open>clients_init\<close> and is the function \<open>set_data\<close> below.
\<close>

record client_list_t =
  list_size :: int
  connected :: int
  cl_list :: "client_t list"
  down_state :: bool

definition subscribed :: "client_t \<Rightarrow> e_mmgr_events \<Rightarrow> bool" where
  "subscribed c ev \<longleftrightarrow> cl_subscription c AND flag (ev_code ev) \<noteq> 0"

abbreviation is_open :: "client_t \<Rightarrow> bool" where
  "is_open c \<equiv> cl_fd c \<noteq> CLOSED_FD"

section \<open>Operations\<close>

definition client_is_registered :: "client_t option \<Rightarrow> bool" where
  "client_is_registered p =
     (case p of
        None \<Rightarrow> False
      | Some c \<Rightarrow> cl_cnx c AND E_CNX_NAME \<noteq> 0 \<and> cl_cnx c AND E_CNX_FILTER \<noteq> 0)"

text \<open>The loop keeps going after the first missing acknowledgement only to print.\<close>

fun ack_loop :: "u32 \<Rightarrow> e_mmgr_events \<Rightarrow> e_print \<Rightarrow> bool \<Rightarrow> client_t list \<Rightarrow> bool" where
  "ack_loop filt ev print answer [] = answer"
| "ack_loop filt ev print answer (c # cs) =
     (if is_open c \<and> subscribed c ev \<and> cl_cnx c AND filt \<noteq> filt
      then if print = E_PRINT then ack_loop filt ev print False cs else False
      else ack_loop filt ev print answer cs)"

text \<open>The range check of the event uses \<open>>\<close>, so it never rejects an enumerator.\<close>

definition check_all_clients_ack ::
  "client_list_t \<Rightarrow> u32 \<Rightarrow> e_mmgr_events \<Rightarrow> e_print \<Rightarrow> bool" where
  "check_all_clients_ack clients filt ev print =
     (if ev_code ev > ev_code E_MMGR_NUM_EVENTS then False
      else ack_loop filt ev print True (cl_list clients))"

definition reset_ack :: "client_list_t \<Rightarrow> u32 \<Rightarrow> e_mmgr_errors \<times> client_list_t" where
  "reset_ack clients filt =
     (E_ERR_SUCCESS,
      clients\<lparr>cl_list := map (\<lambda>c. if is_open c then c\<lparr>cl_cnx := cl_cnx c AND NOT filt\<rparr> else c)
                            (cl_list clients)\<rparr>)"

definition init_client :: "env \<Rightarrow> client_t \<Rightarrow> int \<Rightarrow> history \<Rightarrow> client_t \<times> history" where
  "init_client E client fd h =
     (let (t, h1) = xtime E (Libc X_monotonic) h in
      (client\<lparr>cl_fd := fd, cl_cnx := E_CNX_RESOURCE_RELEASED,
              cl_subscription := flag (ev_code E_MMGR_ACK) OR flag (ev_code E_MMGR_NACK),
              cl_name := cstr ''unknown'', cl_time := t\<rparr>, h1))"

fun find_slot :: "int \<Rightarrow> client_t list \<Rightarrow> nat option" where
  "find_slot fd [] = None"
| "find_slot fd (c # cs) = (if cl_fd c = fd then Some 0 else map_option Suc (find_slot fd cs))"

definition remove_from_list :: "client_list_t \<Rightarrow> int \<Rightarrow> e_mmgr_errors \<times> client_list_t" where
  "remove_from_list clients fd =
     (if fd = CLOSED_FD then (E_ERR_FAILED, clients)
      else
        case find_slot fd (cl_list clients) of
          None \<Rightarrow> (E_ERR_FAILED, clients)
        | Some i \<Rightarrow>
            (E_ERR_SUCCESS,
             clients\<lparr>connected := connected clients - 1,
                     cl_list := (cl_list clients)[i := (cl_list clients ! i)\<lparr>cl_fd := CLOSED_FD\<rparr>]\<rparr>))"

text \<open>The message builder of each event; the array has no entry for \<^verbatim>\<open>E_MMGR_NUM_EVENTS\<close>.\<close>

definition set_data :: "e_mmgr_events \<Rightarrow> builder option" where
  "set_data ev =
     (case ev of
        E_MMGR_NUM_EVENTS \<Rightarrow> None
      | E_MMGR_RESPONSE_MODEM_HW_ID \<Rightarrow> Some set_msg_modem_hw_id
      | E_MMGR_RESPONSE_FUSE_INFO \<Rightarrow> Some set_msg_fuse_info
      | E_MMGR_NOTIFY_AP_RESET \<Rightarrow> Some set_msg_ap_reset
      | E_MMGR_NOTIFY_CORE_DUMP_COMPLETE \<Rightarrow> Some set_msg_core_dump
      | E_MMGR_NOTIFY_TFT_EVENT \<Rightarrow> Some set_msg_tft_event
      | E_MMGR_RESPONSE_MODEM_FW_RESULT \<Rightarrow> Some set_msg_modem_fw_result
      | E_MMGR_RESPONSE_MODEM_NVM_RESULT \<Rightarrow> Some set_msg_modem_nvm_result
      | _ \<Rightarrow> Some (\<lambda>E msg request h. msg_set_empty E msg (ev_id request) h))"

definition client_zero :: client_t where
  "client_zero = \<lparr>cl_name = [], cl_fd = 0, cl_time = \<lparr>tv_sec = 0, tv_nsec = 0\<rparr>,
                  cl_subscription = 0, cl_cnx = 0\<rparr>"

fun init_slots :: "env \<Rightarrow> nat \<Rightarrow> history \<Rightarrow> client_t list \<times> history" where
  "init_slots E 0 h = ([], h)"
| "init_slots E (Suc n) h =
     (let (c, h1) = init_client E client_zero CLOSED_FD h; (cs, h2) = init_slots E n h1 in
      (c # cs, h2))"

text \<open>A failed allocation gives the NULL handle.\<close>

definition clients_init :: "env \<Rightarrow> int \<Rightarrow> history \<Rightarrow> client_list_t option \<times> history" where
  "clients_init E n h =
     (let (r1, h1) = xint E (Libc (X_calloc 88)) h in
      if r1 = 0 then (None, h1)
      else
        let (r2, h2) = xint E (Libc (X_calloc (nat n * 96))) h1 in
        if r2 = 0 then (None, h2)
        else
          let (cs, h3) = init_slots E (nat n) h2 in
          (Some \<lparr>list_size = n, connected = 0, cl_list = cs, down_state = False\<rparr>, h3))"

text \<open>\<^verbatim>\<open>client_close\<close>: every open descriptor is shut down and closed.\<close>

fun close_slots :: "env \<Rightarrow> client_t list \<Rightarrow> history \<Rightarrow> client_t list \<times> history" where
  "close_slots E [] h = ([], h)"
| "close_slots E (c # cs) h =
     (if is_open c
      then let ((_, fd), h1) = cnx_close E (cl_fd c) h; (cs', h2) = close_slots E cs h1 in
           (c\<lparr>cl_fd := fd\<rparr> # cs', h2)
      else let (cs', h2) = close_slots E cs h in (c # cs', h2))"

definition client_close ::
  "env \<Rightarrow> client_list_t \<Rightarrow> history \<Rightarrow> (e_mmgr_errors \<times> client_list_t) \<times> history" where
  "client_close E clients h =
     (let (cs, h1) = close_slots E (cl_list clients) h in
      ((E_ERR_SUCCESS, clients\<lparr>cl_list := cs\<rparr>), h1))"

text \<open>After \<^verbatim>\<open>clients_dispose\<close> the handle is freed; what remains is the calls it made.\<close>

definition clients_dispose ::
  "env \<Rightarrow> client_list_t option \<Rightarrow> history \<Rightarrow> e_mmgr_errors \<times> history" where
  "clients_dispose E p h =
     (case p of
        None \<Rightarrow> (E_ERR_SUCCESS, h)
      | Some clients \<Rightarrow> (E_ERR_SUCCESS, snd (client_close E clients h)))"

definition client_add ::
  "env \<Rightarrow> client_list_t \<Rightarrow> int \<Rightarrow> history \<Rightarrow> (e_mmgr_errors \<times> client_list_t) \<times> history" where
  "client_add E clients fd h =
     (case find_slot CLOSED_FD (cl_list clients) of
        None \<Rightarrow> ((E_ERR_FAILED, clients), h)
      | Some i \<Rightarrow>
          let (c, h1) = init_client E (cl_list clients ! i) fd h in
          ((E_ERR_SUCCESS,
            clients\<lparr>connected := connected clients + 1, cl_list := (cl_list clients)[i := c]\<rparr>), h1))"

definition client_remove ::
  "env \<Rightarrow> client_list_t \<Rightarrow> int \<Rightarrow> history \<Rightarrow> (e_mmgr_errors \<times> client_list_t) \<times> history" where
  "client_remove E clients fd h =
     (let (ret, clients') = remove_from_list clients fd; (_, h1) = cnx_close E fd h in
      ((ret, clients'), h1))"

text \<open>
  \<^verbatim>\<open>strncpy\<close> reads the source up to its end of string or \<open>len\<close> bytes; \<^term>\<open>None\<close>: it would read
  past the source.
\<close>

definition client_set_name ::
  "client_t \<Rightarrow> byte list \<Rightarrow> nat \<Rightarrow> (e_mmgr_errors \<times> client_t) option" where
  "client_set_name client name len =
     (let n = (if len > CLIENT_NAME_LEN then CLIENT_NAME_LEN else len) in
      if length name < n \<and> 0 \<notin> set name then None
      else Some (E_ERR_SUCCESS,
                 client\<lparr>cl_name := takeWhile (\<lambda>b. b \<noteq> 0) (take n name),
                        cl_cnx := cl_cnx client OR E_CNX_NAME\<rparr>))"

definition client_set_filter :: "client_t \<Rightarrow> u32 \<Rightarrow> e_mmgr_errors \<times> client_t" where
  "client_set_filter client subscription =
     (E_ERR_SUCCESS,
      client\<lparr>cl_subscription := subscription, cl_cnx := cl_cnx client OR E_CNX_FILTER\<rparr>)"

definition client_find :: "client_list_t \<Rightarrow> int \<Rightarrow> nat option" where
  "client_find clients fd = (if fd = CLOSED_FD then None else find_slot fd (cl_list clients))"

text \<open>
  The message is built even for a client that did not subscribe. \<^verbatim>\<open>cnx_write\<close> asserts that
  there is a message, so a failed allocation ends the process when the client subscribed.
\<close>

definition client_inform ::
  "env \<Rightarrow> client_t \<Rightarrow> e_mmgr_events \<Rightarrow> cli_data \<Rightarrow> history \<Rightarrow> (e_mmgr_errors \<times> history) option" where
  "client_inform E client state data h =
     do { build \<leftarrow> set_data state;
          let event = \<lparr>ev_id = event_id state, ev_len = 0, ev_data = data, ev_context = 0\<rparr>;
          ((_, msg), h1) \<leftarrow> build E msg_empty event h;
          if subscribed client state
          then do { bs \<leftarrow> msg_data msg;
                    xs \<leftarrow> mem_read bs 0 (unat (of_nat SIZE_HEADER + hdr_len (msg_hdr msg)));
                    let (ret, h2) = cnx_write E (cl_fd client) xs h1;
                    Some (ret, h2) }
          else Some (E_ERR_SUCCESS, h1) }"

fun inform_slots ::
  "env \<Rightarrow> e_mmgr_events \<Rightarrow> cli_data \<Rightarrow> e_mmgr_errors \<Rightarrow> client_t list \<Rightarrow> history \<Rightarrow>
     (e_mmgr_errors \<times> history) option" where
  "inform_slots E state data ret [] h = Some (ret, h)"
| "inform_slots E state data ret (c # cs) h =
     (if is_open c
      then do { (ret', h1) \<leftarrow> client_inform E c state data h;
                inform_slots E state data ret' cs h1 }
      else inform_slots E state data ret cs h)"

definition clients_inform_all ::
  "env \<Rightarrow> client_list_t \<Rightarrow> e_mmgr_events \<Rightarrow> cli_data \<Rightarrow> history \<Rightarrow>
     ((e_mmgr_errors \<times> client_list_t) \<times> history) option" where
  "clients_inform_all E clients state data h =
     (if state = E_MMGR_EVENT_MODEM_DOWN \<and> down_state clients
      then Some ((E_ERR_SUCCESS, clients), h)
      else
        do { let clients' =
               (if state = E_MMGR_EVENT_MODEM_DOWN then clients\<lparr>down_state := True\<rparr>
                else if state = E_MMGR_EVENT_MODEM_UP then clients\<lparr>down_state := False\<rparr>
                else clients);
             (ret, h1) \<leftarrow> inform_slots E state data E_ERR_SUCCESS (cl_list clients') h;
             Some ((ret, clients'), h1) })"

definition clients_has_ack_cold :: "client_list_t \<Rightarrow> e_print \<Rightarrow> bool" where
  "clients_has_ack_cold clients print =
     check_all_clients_ack clients E_CNX_COLD_RESET E_MMGR_NOTIFY_MODEM_COLD_RESET print"

definition clients_has_ack_shtdwn :: "client_list_t \<Rightarrow> e_print \<Rightarrow> bool" where
  "clients_has_ack_shtdwn clients print =
     check_all_clients_ack clients E_CNX_MODEM_SHUTDOWN E_MMGR_NOTIFY_MODEM_SHUTDOWN print"

fun resource_loop :: "e_print \<Rightarrow> bool \<Rightarrow> client_t list \<Rightarrow> bool" where
  "resource_loop print answer [] = answer"
| "resource_loop print answer (c # cs) =
     (if is_open c \<and> cl_cnx c AND E_CNX_RESOURCE_RELEASED \<noteq> E_CNX_RESOURCE_RELEASED
      then if print = E_PRINT then resource_loop print True cs else True
      else resource_loop print answer cs)"

definition clients_has_resource :: "client_list_t \<Rightarrow> e_print \<Rightarrow> bool" where
  "clients_has_resource clients print = resource_loop print False (cl_list clients)"

definition clients_reset_ack_cold :: "client_list_t \<Rightarrow> e_mmgr_errors \<times> client_list_t" where
  "clients_reset_ack_cold clients = reset_ack clients E_CNX_COLD_RESET"

definition clients_reset_ack_shtdwn :: "client_list_t \<Rightarrow> e_mmgr_errors \<times> client_list_t" where
  "clients_reset_ack_shtdwn clients = reset_ack clients E_CNX_MODEM_SHUTDOWN"

definition client_get_name :: "client_t \<Rightarrow> byte list" where
  "client_get_name client = cl_name client"

definition client_get_fd :: "client_t \<Rightarrow> int" where
  "client_get_fd client = cl_fd client"

definition client_set_request :: "client_t \<Rightarrow> u32 \<Rightarrow> e_mmgr_errors \<times> client_t" where
  "client_set_request client req = (E_ERR_SUCCESS, client\<lparr>cl_cnx := cl_cnx client OR req\<rparr>)"

definition client_unset_request :: "client_t \<Rightarrow> u32 \<Rightarrow> e_mmgr_errors \<times> client_t" where
  "client_unset_request client req = (E_ERR_SUCCESS, client\<lparr>cl_cnx := cl_cnx client AND NOT req\<rparr>)"

definition clients_get_connected :: "client_list_t \<Rightarrow> int" where
  "clients_get_connected clients = connected clients"

definition clients_get_allowed :: "client_list_t \<Rightarrow> int" where
  "clients_get_allowed clients = list_size clients"

section \<open>The table contract\<close>

text \<open>
  A table indexed by descriptors. \<open>lookup\<close> is its abstraction: the finite map from open
  descriptors to client records.
\<close>

locale fd_table =
  fixes wf :: "'t \<Rightarrow> bool"
    and lookup :: "'t \<Rightarrow> int \<Rightarrow> 'c option"
    and fresh :: "int \<Rightarrow> 'c"
    and add :: "'t \<Rightarrow> int \<Rightarrow> 't option"
    and remove :: "'t \<Rightarrow> int \<Rightarrow> 't option"
    and count :: "'t \<Rightarrow> int"
    and capacity :: "'t \<Rightarrow> int"
    and bad :: int
  assumes finite_dom: "wf t \<Longrightarrow> finite (dom (lookup t))"
    and lookup_bad: "lookup t bad = None"
    and count_dom: "wf t \<Longrightarrow> count t = int (card (dom (lookup t)))"
    and count_le: "wf t \<Longrightarrow> count t \<le> capacity t"
    and add_None: "wf t \<Longrightarrow> add t fd = None \<longleftrightarrow> count t = capacity t"
    and add_wf: "wf t \<Longrightarrow> fd \<noteq> bad \<Longrightarrow> lookup t fd = None \<Longrightarrow> add t fd = Some t' \<Longrightarrow> wf t'"
    and add_lookup: "wf t \<Longrightarrow> fd \<noteq> bad \<Longrightarrow> lookup t fd = None \<Longrightarrow> add t fd = Some t' \<Longrightarrow>
          lookup t' = (lookup t)(fd \<mapsto> fresh fd)"
    and add_capacity: "add t fd = Some t' \<Longrightarrow> capacity t' = capacity t"
    and remove_None: "wf t \<Longrightarrow> remove t fd = None \<longleftrightarrow> lookup t fd = None"
    and remove_wf: "wf t \<Longrightarrow> remove t fd = Some t' \<Longrightarrow> wf t'"
    and remove_lookup: "wf t \<Longrightarrow> remove t fd = Some t' \<Longrightarrow> lookup t' = (lookup t)(fd := None)"
    and remove_capacity: "remove t fd = Some t' \<Longrightarrow> capacity t' = capacity t"
begin

text \<open>A connection that comes and goes leaves the other clients as they were.\<close>

lemma add_remove:
  assumes "wf t" "fd \<noteq> bad" "lookup t fd = None" "count t < capacity t"
  obtains t1 t2 where "add t fd = Some t1" "remove t1 fd = Some t2" "wf t2"
    "lookup t2 = lookup t" "count t2 = count t"
proof -
  obtain t1 where t1: "add t fd = Some t1"
    using add_None [OF assms(1), of fd] assms(4) by force
  have wf1: "wf t1" and l1: "lookup t1 = (lookup t)(fd \<mapsto> fresh fd)"
    using add_wf add_lookup assms t1 by blast+
  obtain t2 where t2: "remove t1 fd = Some t2"
    using remove_None [OF wf1, of fd] l1 by auto
  have wf2: "wf t2" and l2: "lookup t2 = lookup t"
    using remove_wf [OF wf1 t2] remove_lookup [OF wf1 t2] l1 assms(3) by auto
  with count_dom [OF wf2] count_dom [OF assms(1)] have "count t2 = count t" by simp
  with t1 t2 wf2 l2 show thesis by (rule that)
qed

lemma add_count:
  assumes "wf t" "fd \<noteq> bad" "lookup t fd = None" "add t fd = Some t'"
  shows "count t' = count t + 1"
  using count_dom [OF assms(1)] count_dom [OF add_wf [OF assms]] add_lookup [OF assms] assms(3)
    finite_dom [OF assms(1)]
  by (simp add: card_insert_if domIff)

lemma remove_count:
  assumes "wf t" "remove t fd = Some t'"
  shows "count t' = count t - 1"
proof -
  have "fd \<in> dom (lookup t)"
    using remove_None [OF assms(1), of fd] assms(2) by auto
  moreover have "dom (lookup t') = dom (lookup t) - {fd}"
    using remove_lookup [OF assms] by auto
  ultimately show ?thesis
    using count_dom [OF assms(1)] count_dom [OF remove_wf [OF assms]]
      card_Suc_Diff1 [OF finite_dom [OF assms(1)], of fd] by simp
qed

text \<open>Nothing is forgotten and nothing is invented over any sequence of connections.\<close>

lemma lookup_other:
  assumes "wf t" "fd \<noteq> bad" "lookup t fd = None" "add t fd = Some t'" "fd' \<noteq> fd"
  shows "lookup t' fd' = lookup t fd'"
  using add_lookup [OF assms(1-4)] assms(5) by simp

end

definition clients_wf :: "client_list_t \<Rightarrow> bool" where
  "clients_wf t \<longleftrightarrow>
     list_size t = int (length (cl_list t)) \<and>
     connected t = int (length (filter is_open (cl_list t))) \<and>
     distinct (map cl_fd (filter is_open (cl_list t)))"

definition client_lookup :: "client_list_t \<Rightarrow> int \<Rightarrow> client_t option" where
  "client_lookup t fd = map_option (\<lambda>i. cl_list t ! i) (client_find t fd)"

subsection \<open>Slots\<close>

lemma find_slot_SomeD:
  "find_slot fd cs = Some i \<Longrightarrow> i < length cs \<and> cl_fd (cs ! i) = fd"
  by (induction cs arbitrary: i) (auto split: if_splits)

lemma find_slot_None_iff: "find_slot fd cs = None \<longleftrightarrow> fd \<notin> cl_fd ` set cs"
  by (induction cs) auto

lemma find_slot_update_other:
  "i < length cs \<Longrightarrow> cl_fd (cs ! i) \<noteq> fd \<Longrightarrow> cl_fd c \<noteq> fd \<Longrightarrow>
     find_slot fd (cs[i := c]) = find_slot fd cs"
  by (induction cs arbitrary: i) (auto split: nat.splits)

lemma find_slot_update_same:
  "i < length cs \<Longrightarrow> fd \<notin> cl_fd ` set cs \<Longrightarrow> cl_fd c = fd \<Longrightarrow> find_slot fd (cs[i := c]) = Some i"
  by (induction cs arbitrary: i) (auto split: nat.splits)

lemma find_slot_closed_full:
  "find_slot CLOSED_FD cs = None \<longleftrightarrow> length (filter is_open cs) = length cs"
  by (induction cs) (auto simp: le_imp_less_Suc less_imp_neq)

text \<open>Opening a closed slot and closing an open one, in terms of the set of open descriptors.\<close>

lemma open_update:
  assumes "i < length cs" "cl_fd (cs ! i) = CLOSED_FD" "is_open c"
  shows "length (filter is_open (cs[i := c])) = Suc (length (filter is_open cs))"
    and "distinct (map cl_fd (filter is_open cs)) \<Longrightarrow> cl_fd c \<notin> cl_fd ` set cs \<Longrightarrow>
         distinct (map cl_fd (filter is_open (cs[i := c])))"
  using assms by (induction cs arbitrary: i) (auto split: nat.splits dest!: set_update_subset_insert [THEN subsetD])

lemma close_update:
  assumes "i < length cs" "is_open (cs ! i)" "cl_fd c = CLOSED_FD"
  shows "Suc (length (filter is_open (cs[i := c]))) = length (filter is_open cs)"
    and "distinct (map cl_fd (filter is_open cs)) \<Longrightarrow>
         distinct (map cl_fd (filter is_open (cs[i := c])))"
  using assms by (induction cs arbitrary: i) (auto split: nat.splits dest!: set_update_subset_insert [THEN subsetD])

lemma close_removes:
  assumes "distinct (map cl_fd (filter is_open cs))" "find_slot fd cs = Some i" "fd \<noteq> CLOSED_FD"
    "cl_fd c = CLOSED_FD"
  shows "find_slot fd (cs[i := c]) = None"
  using assms(1,2)
proof (induction cs arbitrary: i)
  case Nil
  then show ?case by simp
next
  case (Cons a cs)
  show ?case
  proof (cases "cl_fd a = fd")
    case True
    with Cons.prems assms(3) have "fd \<notin> cl_fd ` set cs" by auto
    with True Cons.prems assms(3,4) show ?thesis by (auto simp: find_slot_None_iff)
  next
    case False
    with Cons.prems obtain j where "i = Suc j" "find_slot fd cs = Some j" by auto
    moreover have "distinct (map cl_fd (filter is_open cs))"
      using Cons.prems(1) by (simp split: if_splits)
    ultimately show ?thesis using Cons.IH False by simp
  qed
qed

lemma dom_client_lookup: "dom (client_lookup t) = cl_fd ` {c \<in> set (cl_list t). is_open c}"
proof (intro set_eqI)
  fix fd
  have "client_lookup t fd \<noteq> None \<longleftrightarrow> fd \<noteq> CLOSED_FD \<and> fd \<in> cl_fd ` set (cl_list t)"
    using find_slot_None_iff [of fd "cl_list t"] by (auto simp: client_lookup_def client_find_def)
  then show "fd \<in> dom (client_lookup t) \<longleftrightarrow> fd \<in> cl_fd ` {c \<in> set (cl_list t). is_open c}"
    by auto
qed

lemma card_dom_lookup:
  "clients_wf t \<Longrightarrow> card (dom (client_lookup t)) = length (filter is_open (cl_list t))"
  using distinct_card [of "map cl_fd (filter is_open (cl_list t))"]
  by (simp add: dom_client_lookup clients_wf_def)

text \<open>The operations, at a given environment and history, in the shape of the contract.\<close>

definition fresh_client :: "env \<Rightarrow> history \<Rightarrow> int \<Rightarrow> client_t" where
  "fresh_client E h fd = fst (init_client E client_zero fd h)"

definition ok_result :: "(e_mmgr_errors \<times> 'a) \<times> history \<Rightarrow> 'a option" where
  "ok_result r = (if fst (fst r) = E_ERR_SUCCESS then Some (snd (fst r)) else None)"

lemma init_client_fresh: "fst (init_client E c fd h) = fresh_client E h fd"
  by (cases c) (simp add: fresh_client_def init_client_def client_zero_def xtime_def)

lemma fresh_client_simps [simp]:
  "cl_fd (fresh_client E h fd) = fd"
  "cl_cnx (fresh_client E h fd) = E_CNX_RESOURCE_RELEASED"
  "cl_subscription (fresh_client E h fd) = flag (ev_code E_MMGR_ACK) OR flag (ev_code E_MMGR_NACK)"
  "cl_name (fresh_client E h fd) = cstr ''unknown''"
  by (simp_all add: fresh_client_def init_client_def xtime_def)

lemma client_add_ok:
  "ok_result (client_add E t fd h) =
     map_option (\<lambda>i. t\<lparr>connected := connected t + 1,
                       cl_list := (cl_list t)[i := fresh_client E h fd]\<rparr>)
       (find_slot CLOSED_FD (cl_list t))"
  using init_client_fresh [of E _ fd h]
  by (auto simp: client_add_def ok_result_def case_prod_unfold Let_def split: option.splits)

lemma client_remove_ok:
  "ok_result (client_remove E t fd h) =
     (if fd = CLOSED_FD then None
      else map_option (\<lambda>i. t\<lparr>connected := connected t - 1,
             cl_list := (cl_list t)[i := (cl_list t ! i)\<lparr>cl_fd := CLOSED_FD\<rparr>]\<rparr>)
             (find_slot fd (cl_list t)))"
  by (auto simp: client_remove_def remove_from_list_def ok_result_def case_prod_unfold Let_def
      split: option.splits)

text \<open>Changing a slot does not change what the other descriptors find.\<close>

lemma lookup_update_other:
  assumes "i < length (cl_list t)" "cl_fd (cl_list t ! i) \<noteq> x" "cl_fd c \<noteq> x"
  shows "client_lookup (t\<lparr>connected := n, cl_list := (cl_list t)[i := c]\<rparr>) x = client_lookup t x"
proof (cases "find_slot x (cl_list t)")
  case None
  then show ?thesis
    using find_slot_update_other [OF assms] by (simp add: client_lookup_def client_find_def)
next
  case (Some j)
  with find_slot_SomeD [OF Some] assms(2) have "j \<noteq> i" by auto
  with Some show ?thesis
    using find_slot_update_other [OF assms] by (simp add: client_lookup_def client_find_def)
qed

lemma client_add_contract:
  assumes "clients_wf t" "fd \<noteq> CLOSED_FD" "client_lookup t fd = None"
    and "ok_result (client_add E t fd h) = Some t'"
  shows "clients_wf t'" and "client_lookup t' = (client_lookup t)(fd \<mapsto> fresh_client E h fd)"
proof -
  from assms(4) obtain i where i: "find_slot CLOSED_FD (cl_list t) = Some i"
    and t': "t' = t\<lparr>connected := connected t + 1, cl_list := (cl_list t)[i := fresh_client E h fd]\<rparr>"
    by (auto simp: client_add_ok)
  from assms(2,3) have notin: "fd \<notin> cl_fd ` set (cl_list t)"
    by (simp add: client_lookup_def client_find_def find_slot_None_iff)
  note slot = find_slot_SomeD [OF i]
  show "clients_wf t'"
    using assms(1,2) open_update [of i "cl_list t" "fresh_client E h fd"] slot notin
    by (simp add: t' clients_wf_def)
  show "client_lookup t' = (client_lookup t)(fd \<mapsto> fresh_client E h fd)"
  proof
    fix x
    show "client_lookup t' x = ((client_lookup t)(fd \<mapsto> fresh_client E h fd)) x"
    proof (cases "x = fd \<or> x = CLOSED_FD")
      case True
      with slot notin assms(2) show ?thesis
        by (auto simp: client_lookup_def client_find_def t' find_slot_update_same)
    next
      case False
      with slot show ?thesis by (simp add: t' lookup_update_other)
    qed
  qed
qed

lemma client_remove_contract:
  assumes "clients_wf t" "ok_result (client_remove E t fd h) = Some t'"
  shows "clients_wf t'" and "client_lookup t' = (client_lookup t)(fd := None)"
proof -
  from assms(2) obtain i where fd: "fd \<noteq> CLOSED_FD" and i: "find_slot fd (cl_list t) = Some i"
    and t': "t' = t\<lparr>connected := connected t - 1,
             cl_list := (cl_list t)[i := (cl_list t ! i)\<lparr>cl_fd := CLOSED_FD\<rparr>]\<rparr>"
    by (auto simp: client_remove_ok split: if_splits)
  note slot = find_slot_SomeD [OF i]
  show "clients_wf t'"
    using assms(1) close_update [of i "cl_list t" "(cl_list t ! i)\<lparr>cl_fd := CLOSED_FD\<rparr>"] slot fd
    by (auto simp: t' clients_wf_def)
  show "client_lookup t' = (client_lookup t)(fd := None)"
  proof
    fix x
    show "client_lookup t' x = ((client_lookup t)(fd := None)) x"
    proof (cases "x = fd \<or> x = CLOSED_FD")
      case True
      with close_removes [of "cl_list t" fd i] assms(1) i fd show ?thesis
        by (auto simp: client_lookup_def client_find_def t' clients_wf_def)
    next
      case False
      with slot show ?thesis by (simp add: t' lookup_update_other)
    qed
  qed
qed

interpretation ct: fd_table clients_wf client_lookup "fresh_client E h"
  "\<lambda>t fd. ok_result (client_add E t fd h)" "\<lambda>t fd. ok_result (client_remove E t fd h)"
  clients_get_connected clients_get_allowed CLOSED_FD
  for E h
proof unfold_locales
  fix t t' :: client_list_t and fd
  show "client_lookup t CLOSED_FD = None"
    by (simp add: client_lookup_def client_find_def)
  show "ok_result (client_add E t fd h) = Some t' \<Longrightarrow> clients_get_allowed t' = clients_get_allowed t"
    "ok_result (client_remove E t fd h) = Some t' \<Longrightarrow> clients_get_allowed t' = clients_get_allowed t"
    by (auto simp: client_add_ok client_remove_ok clients_get_allowed_def split: if_splits)
  assume wf: "clients_wf t"
  show "finite (dom (client_lookup t))" by (simp add: dom_client_lookup)
  show "clients_get_connected t = int (card (dom (client_lookup t)))"
    using wf by (simp add: card_dom_lookup) (simp add: clients_get_connected_def clients_wf_def)
  show "clients_get_connected t \<le> clients_get_allowed t"
    using wf by (simp add: clients_get_connected_def clients_get_allowed_def clients_wf_def)
  show "ok_result (client_add E t fd h) = None \<longleftrightarrow> clients_get_connected t = clients_get_allowed t"
    using wf by (simp add: client_add_ok clients_get_connected_def clients_get_allowed_def
        clients_wf_def find_slot_closed_full)
  show "ok_result (client_remove E t fd h) = None \<longleftrightarrow> client_lookup t fd = None"
    by (auto simp: client_remove_ok client_lookup_def client_find_def)
qed (rule client_add_contract client_remove_contract, assumption+)+

section \<open>Properties\<close>

text \<open>
  Adding a client. It succeeds exactly when a slot is free; then the descriptor maps to a fresh
  record (unregistered, resource released, subscribed to ACK and NACK only) and every other descriptor
  to what it mapped to before; a full table is left unchanged. The table stays well-formed and the
  number of connected clients follows.
\<close>

theorem client_add_spec:
  assumes "clients_wf t" "fd \<noteq> CLOSED_FD" "client_lookup t fd = None"
    and "client_add E t fd h = ((ret, t'), h')"
  shows "(ret = E_ERR_SUCCESS \<longleftrightarrow> clients_get_connected t < clients_get_allowed t) \<and>
    clients_wf t' \<and>
    client_lookup t' = (if ret = E_ERR_SUCCESS then (client_lookup t)(fd \<mapsto> fresh_client E h fd)
                        else client_lookup t) \<and>
    clients_get_connected t' = clients_get_connected t + (if ret = E_ERR_SUCCESS then 1 else 0)"
proof (cases "ret = E_ERR_SUCCESS")
  case True
  then have ok: "ok_result (client_add E t fd h) = Some t'"
    using assms(4) by (simp add: ok_result_def)
  show ?thesis
    using True ct.add_None [OF assms(1), of E fd h] ct.count_le [OF assms(1)] ok
      client_add_contract [OF assms(1-3) ok] ct.add_count [OF assms(1-3) ok]
    by simp
next
  case False
  then have "ok_result (client_add E t fd h) = None" "t' = t"
    using assms(4) by (auto simp: ok_result_def client_add_def Let_def case_prod_unfold
        split: option.splits)
  with False ct.add_None [OF assms(1), of E fd h] assms(1) show ?thesis by simp
qed

definition slot_example :: "int \<Rightarrow> client_t" where
  "slot_example fd = \<lparr>cl_name = [], cl_fd = fd, cl_time = \<lparr>tv_sec = 0, tv_nsec = 0\<rparr>,
     cl_subscription = flag 0 OR flag 4, cl_cnx = E_CNX_RESOURCE_RELEASED\<rparr>"

definition clients_example :: client_list_t where
  "clients_example = \<lparr>list_size = 2, connected = 1, cl_list = [slot_example 5, slot_example (-1)],
     down_state = False\<rparr>"

lemma clients_example_wf: "clients_wf clients_example"
  by (simp add: clients_wf_def clients_example_def slot_example_def CLOSED_FD_def)

lemma clients_example_lookup:
  "client_lookup clients_example 7 = None" "client_lookup clients_example 5 = Some (slot_example 5)"
  by (simp_all add: client_lookup_def client_find_def clients_example_def slot_example_def CLOSED_FD_def)

theorem client_add_spec_witness:
  "clients_wf clients_example \<and> client_lookup clients_example 7 = None \<and>
   fst (fst (client_add env_ok clients_example 7 [])) = E_ERR_SUCCESS \<and>
   client_lookup (snd (fst (client_add env_ok clients_example 7 []))) 7 = Some (fresh_client env_ok [] 7) \<and>
   client_lookup (snd (fst (client_add env_ok clients_example 7 []))) 5 = Some (slot_example 5)"
proof -
  let ?r = "client_add env_ok clients_example 7 []"
  have fd: "(7 :: int) \<noteq> CLOSED_FD" by (simp add: CLOSED_FD_def)
  have "?r = ((fst (fst ?r), snd (fst ?r)), snd ?r)" by simp
  from client_add_spec [OF clients_example_wf fd clients_example_lookup(1) this]
  show ?thesis
    by (simp add: clients_example_wf clients_example_lookup)
      (simp add: clients_example_def clients_get_connected_def clients_get_allowed_def)
qed

text \<open>
  Removing a client. It succeeds exactly for a descriptor in the table, frees that descriptor
  only, keeps the table well-formed, and in every case shuts the socket down and closes it.
\<close>

theorem client_remove_spec:
  assumes "clients_wf t" "client_remove E t fd h = ((ret, t'), h')"
  shows "(ret = E_ERR_SUCCESS \<longleftrightarrow> client_lookup t fd \<noteq> None) \<and>
    clients_wf t' \<and> client_lookup t' = (client_lookup t)(fd := None) \<and>
    clients_get_connected t' = clients_get_connected t - (if ret = E_ERR_SUCCESS then 1 else 0) \<and>
    calls_since h h' = [Sock (X_shutdown fd), Sock (X_close fd)]"
proof -
  have calls: "calls_since h h' = [Sock (X_shutdown fd), Sock (X_close fd)]"
    using assms(2) calls_since_append [of h "[Sock (X_close fd), Sock (X_shutdown fd)]"]
    by (auto simp: client_remove_def cnx_close_def xint_def Let_def case_prod_unfold)
  show ?thesis
  proof (cases "ret = E_ERR_SUCCESS")
    case True
    then have ok: "ok_result (client_remove E t fd h) = Some t'"
      using assms(2) by (simp add: ok_result_def)
    show ?thesis
      using True ct.remove_None [OF assms(1), of E fd h] ok calls
        client_remove_contract [OF assms(1) ok] ct.remove_count [OF assms(1) ok]
      by simp
  next
    case False
    then have none: "ok_result (client_remove E t fd h) = None" and "t' = t"
      using assms(2) by (auto simp: ok_result_def client_remove_def remove_from_list_def Let_def
          case_prod_unfold split: option.splits if_splits)
    with False ct.remove_None [OF assms(1), of E fd h] assms(1) calls show ?thesis
      by (auto simp: fun_upd_idem)
  qed
qed

theorem client_remove_spec_witness:
  "clients_wf clients_example \<and>
   fst (fst (client_remove env_ok clients_example 5 [])) = E_ERR_SUCCESS \<and>
   client_lookup (snd (fst (client_remove env_ok clients_example 5 []))) 5 = None"
proof -
  let ?r = "client_remove env_ok clients_example 5 []"
  have "?r = ((fst (fst ?r), snd (fst ?r)), snd ?r)" by simp
  from client_remove_spec [OF clients_example_wf this] show ?thesis
    by (simp add: clients_example_wf clients_example_lookup)
qed

subsection \<open>Acknowledgements and resources\<close>

text \<open>The clients an acknowledgement is awaited from, and whether one has given it.\<close>

definition awaited :: "client_list_t \<Rightarrow> e_mmgr_events \<Rightarrow> client_t set" where
  "awaited t ev = {c \<in> set (cl_list t). is_open c \<and> subscribed c ev}"

lemma ack_loop_spec:
  "ack_loop filt ev print answer cs \<longleftrightarrow>
     answer \<and> (\<forall>c\<in>set cs. is_open c \<and> subscribed c ev \<longrightarrow> cl_cnx c AND filt = filt)"
  by (induction filt ev print answer cs rule: ack_loop.induct) auto

lemma resource_loop_spec:
  "resource_loop print answer cs \<longleftrightarrow>
     answer \<or> (\<exists>c\<in>set cs. is_open c \<and> cl_cnx c AND E_CNX_RESOURCE_RELEASED \<noteq> E_CNX_RESOURCE_RELEASED)"
  by (induction print answer cs rule: resource_loop.induct) auto

lemma check_all_clients_ack_spec:
  "check_all_clients_ack t filt ev print \<longleftrightarrow> (\<forall>c\<in>awaited t ev. cl_cnx c AND filt = filt)"
proof -
  have "\<not> ev_code ev > ev_code E_MMGR_NUM_EVENTS"
    by (cases ev) simp_all
  then show ?thesis
    by (auto simp: check_all_clients_ack_def ack_loop_spec awaited_def)
qed

text \<open>
  C34: The modem is held until everybody agreed: the cold-reset (shutdown) acknowledgement
  is complete if and only if every open client subscribed to the notification
  has its acknowledgement flag set, whether or not the check prints; and some
  client has the resource if and only if an open client has not released it.
\<close>

theorem acknowledgements_spec:
  "(clients_has_ack_cold t print \<longleftrightarrow>
      (\<forall>c \<in> awaited t E_MMGR_NOTIFY_MODEM_COLD_RESET. bit (cl_cnx c) 2)) \<and>
   (clients_has_ack_shtdwn t print \<longleftrightarrow>
      (\<forall>c \<in> awaited t E_MMGR_NOTIFY_MODEM_SHUTDOWN. bit (cl_cnx c) 3)) \<and>
   (clients_has_resource t print \<longleftrightarrow>
      (\<exists>c \<in> set (cl_list t). is_open c \<and> \<not> bit (cl_cnx c) 4))"
  by (simp add: clients_has_ack_cold_def clients_has_ack_shtdwn_def check_all_clients_ack_spec
      clients_has_resource_def resource_loop_spec E_CNX_defs flag_simps)

lemma clients_example_slots:
  "set (cl_list clients_example) = {slot_example 5, slot_example (-1)}"
  "awaited clients_example E_MMGR_NOTIFY_MODEM_COLD_RESET = {slot_example 5}"
  "\<not> bit (cl_cnx (slot_example fd)) 2" "bit (cl_cnx (slot_example fd)) 4"
  by (auto simp: awaited_def subscribed_def clients_example_def slot_example_def CLOSED_FD_def
      E_CNX_RESOURCE_RELEASED_def flag_simps)

theorem acknowledgements_spec_witness:
  "\<not> clients_has_ack_cold clients_example E_MUTE \<and> \<not> clients_has_resource clients_example E_PRINT"
  using acknowledgements_spec [of clients_example E_MUTE] acknowledgements_spec [of clients_example E_PRINT]
  by (simp add: clients_example_slots)

text \<open>
  After a reset of the acknowledgements nobody has acknowledged: the check succeeds only if no
  open client is subscribed to the notification. The reset touches no other flag, in particular neither
  the registration nor the resource of a client.
\<close>

theorem reset_ack_spec:
  assumes "clients_reset_ack_cold t = (ret, t')"
  shows "ret = E_ERR_SUCCESS \<and>
    (clients_has_ack_cold t' print \<longleftrightarrow> awaited t' E_MMGR_NOTIFY_MODEM_COLD_RESET = {}) \<and>
    clients_has_resource t' print = clients_has_resource t print \<and>
    clients_has_ack_shtdwn t' print = clients_has_ack_shtdwn t print \<and>
    map client_is_registered (map Some (cl_list t')) = map client_is_registered (map Some (cl_list t)) \<and>
    (clients_wf t \<longrightarrow> clients_wf t')"
proof -
  define f where "f = (\<lambda>c. if is_open c then c\<lparr>cl_cnx := cl_cnx c AND NOT E_CNX_COLD_RESET\<rparr> else c)"
  have t': "ret = E_ERR_SUCCESS" "t' = t\<lparr>cl_list := map f (cl_list t)\<rparr>"
    using assms by (simp_all add: clients_reset_ack_cold_def reset_ack_def f_def)
  have bits: "bit (cl_cnx (f c)) n \<longleftrightarrow> bit (cl_cnx c) n \<and> (n = 2 \<longrightarrow> \<not> is_open c)" for c n
    by (auto simp: f_def E_CNX_COLD_RESET_def flag_simps)
  have fd: "cl_fd (f c) = cl_fd c" "subscribed (f c) ev = subscribed c ev" for c ev
    by (simp_all add: f_def subscribed_def)
  have wf: "clients_wf t \<longrightarrow> clients_wf t'"
    by (simp add: clients_wf_def t'(2) filter_map comp_def fd)
  have "client_is_registered (Some (f c)) = client_is_registered (Some c)" for c
    using bits [of c 0] bits [of c 1] by (simp add: client_is_registered_def E_CNX_defs flag_simps)
  moreover have "clients_has_ack_cold t' print \<longleftrightarrow> awaited t' E_MMGR_NOTIFY_MODEM_COLD_RESET = {}"
    unfolding clients_has_ack_cold_def check_all_clients_ack_spec
    using bits [of _ 2] by (auto simp: awaited_def t'(2) E_CNX_COLD_RESET_def flag_simps fd)
  moreover have "clients_has_resource t' print = clients_has_resource t print"
    unfolding clients_has_resource_def resource_loop_spec
    using bits [of _ 4] by (auto simp: t'(2) E_CNX_RESOURCE_RELEASED_def flag_simps fd)
  moreover have "clients_has_ack_shtdwn t' print = clients_has_ack_shtdwn t print"
    unfolding clients_has_ack_shtdwn_def check_all_clients_ack_spec awaited_def
    using bits [of _ 3] by (auto simp: t'(2) E_CNX_MODEM_SHUTDOWN_def flag_simps fd)
  ultimately show ?thesis
    using t' wf by (simp add: comp_def)
qed

theorem reset_ack_spec_witness:
  "clients_reset_ack_cold clients_example =
     (E_ERR_SUCCESS, snd (clients_reset_ack_cold clients_example)) \<and>
   clients_wf (snd (clients_reset_ack_cold clients_example)) \<and>
   clients_has_resource (snd (clients_reset_ack_cold clients_example)) E_MUTE =
     clients_has_resource clients_example E_MUTE"
proof -
  have e: "clients_reset_ack_cold clients_example =
      (E_ERR_SUCCESS, snd (clients_reset_ack_cold clients_example))"
    by (simp add: clients_reset_ack_cold_def reset_ack_def)
  from reset_ack_spec [OF e, of E_MUTE] e clients_example_wf show ?thesis by simp
qed

subsection \<open>Informing clients\<close>

definition is_send :: "ext \<Rightarrow> bool" where
  "is_send c = (case c of Sock (X_send _ _) \<Rightarrow> True | _ \<Rightarrow> False)"

text \<open>The messages sent between two points of a run, oldest first.\<close>

definition sends :: "history \<Rightarrow> history \<Rightarrow> ext list" where
  "sends h h' = filter is_send (calls_since h h')"

definition no_payload :: "e_mmgr_events \<Rightarrow> bool" where
  "no_payload ev \<longleftrightarrow>
     ev \<notin> {E_MMGR_NUM_EVENTS, E_MMGR_RESPONSE_MODEM_HW_ID, E_MMGR_RESPONSE_FUSE_INFO,
            E_MMGR_NOTIFY_AP_RESET, E_MMGR_NOTIFY_CORE_DUMP_COMPLETE, E_MMGR_NOTIFY_TFT_EVENT,
            E_MMGR_RESPONSE_MODEM_FW_RESULT, E_MMGR_RESPONSE_MODEM_NVM_RESULT}"

lemma set_data_no_payload:
  "no_payload ev \<Longrightarrow> set_data ev = Some (\<lambda>E msg request h. msg_set_empty E msg (ev_id request) h)"
  by (cases ev) (simp_all add: no_payload_def set_data_def)

text \<open>\<open>notice fd ev x\<close>: the call \<open>x\<close> sends the bare message of event \<open>ev\<close> to \<open>fd\<close>.\<close>

definition notice :: "e_mmgr_events \<Rightarrow> client_t \<Rightarrow> ext \<Rightarrow> bool" where
  "notice ev c x \<longleftrightarrow> (\<exists>ts. x = Sock (X_send (cl_fd c) (header_image (event_id ev) ts 0)))"

lemma client_inform_empty:
  assumes "alloc_ok E" "no_payload ev"
  obtains r cs where "client_inform E c ev d h = Some (r, cs @ h)"
    "list_all2 (notice ev) (if subscribed c ev then [c] else []) (filter is_send (rev cs))"
proof -
  let ?h1 = "Libc X_timeofday # Libc (X_calloc SIZE_HEADER) # h"
  let ?ts = "word_of_int (tv_sec (env_time E ?h1)) :: u32"
  let ?send = "Sock (X_send (cl_fd c) (header_image (event_id ev) ?ts 0))"
  have prep: "msg_set_empty E msg_empty (event_id ev) h =
      Some ((E_ERR_SUCCESS, msg_empty\<lparr>msg_hdr := (msg_hdr msg_empty)\<lparr>hdr_id := event_id ev, hdr_len := 0\<rparr>,
        msg_data := Some (header_image (event_id ev) ?ts 0)\<rparr>), ?h1)"
    using msg_prepare_ok [OF assms(1), where sz = 0 and msg = msg_empty and h = h and i = "event_id ev"]
    by (simp add: msg_set_empty_def SIZE_HEADER_def)
  show thesis
  proof (cases "subscribed c ev")
    case True
    then obtain r where "client_inform E c ev d h = Some (r, [?send, Libc X_timeofday, Libc (X_calloc SIZE_HEADER)] @ h)"
      using prep by (simp add: client_inform_def set_data_no_payload assms(2) cnx_write_def xint_def
          mem_read_def SIZE_HEADER_def Let_def)
    then show thesis
      by (rule that) (auto simp: True is_send_def notice_def)
  next
    case False
    then have "client_inform E c ev d h =
        Some (E_ERR_SUCCESS, [Libc X_timeofday, Libc (X_calloc SIZE_HEADER)] @ h)"
      using prep by (simp add: client_inform_def set_data_no_payload assms(2))
    then show thesis
      by (rule that) (simp add: False is_send_def)
  qed
qed

lemma inform_slots_sends:
  assumes "alloc_ok E" "no_payload ev"
  shows "\<exists>r' calls. inform_slots E ev d r cs h = Some (r', calls @ h) \<and>
    list_all2 (notice ev) (filter (\<lambda>c. is_open c \<and> subscribed c ev) cs) (filter is_send (rev calls))"
proof (induction cs arbitrary: r h)
  case Nil
  then show ?case by simp
next
  case (Cons c cs)
  show ?case
  proof (cases "is_open c")
    case False
    then show ?thesis using Cons.IH by simp
  next
    case True
    obtain r1 c1 where c1: "client_inform E c ev d h = Some (r1, c1 @ h)"
      "list_all2 (notice ev) (if subscribed c ev then [c] else []) (filter is_send (rev c1))"
      by (rule client_inform_empty [OF assms])
    obtain r' calls where "inform_slots E ev d r1 cs (c1 @ h) = Some (r', calls @ c1 @ h)"
      and l: "list_all2 (notice ev) (filter (\<lambda>c. is_open c \<and> subscribed c ev) cs)
        (filter is_send (rev calls))"
      using Cons.IH by blast
    then have "inform_slots E ev d r (c # cs) h = Some (r', (calls @ c1) @ h)"
      using True c1(1) by simp
    moreover have "list_all2 (notice ev) (filter (\<lambda>c. is_open c \<and> subscribed c ev) (c # cs))
        (filter is_send (rev (calls @ c1)))"
      using list_all2_appendI [OF c1(2) l] True by (auto split: if_splits)
    ultimately show ?thesis by blast
  qed
qed

text \<open>
  C38: Broadcasting an event without payload reaches the right clients: unless it is a repeated
  MODEM_DOWN, exactly one message goes to each open client subscribed to the event, in slot
  order, none to anybody else, and the message is the event's header with an empty body.
\<close>

theorem inform_all_reaches_subscribers:
  assumes "alloc_ok E" "no_payload ev" "\<not> (ev = E_MMGR_EVENT_MODEM_DOWN \<and> down_state t)"
  shows "\<exists>r t' h'. clients_inform_all E t ev d h = Some ((r, t'), h') \<and>
    cl_list t' = cl_list t \<and>
    list_all2 (notice ev) (filter (\<lambda>c. is_open c \<and> subscribed c ev) (cl_list t)) (sends h h')"
proof -
  define t' where "t' = (if ev = E_MMGR_EVENT_MODEM_DOWN then t\<lparr>down_state := True\<rparr>
     else if ev = E_MMGR_EVENT_MODEM_UP then t\<lparr>down_state := False\<rparr> else t)"
  have same: "cl_list t' = cl_list t" by (simp add: t'_def)
  obtain r calls where
    "inform_slots E ev d E_ERR_SUCCESS (cl_list t') h = Some (r, calls @ h)"
    "list_all2 (notice ev) (filter (\<lambda>c. is_open c \<and> subscribed c ev) (cl_list t'))
       (filter is_send (rev calls))"
    using inform_slots_sends [OF assms(1,2)] by blast
  then show ?thesis
    using assms(3) same unfolding clients_inform_all_def t'_def [symmetric] Let_def
    by (auto simp: sends_def)
qed

theorem inform_all_reaches_subscribers_witness:
  "alloc_ok env_ok \<and> no_payload E_MMGR_EVENT_MODEM_DOWN \<and>
   (\<exists>r t' h'. clients_inform_all env_ok clients_example E_MMGR_EVENT_MODEM_DOWN D_null [] =
       Some ((r, t'), h') \<and> cl_list t' = cl_list clients_example \<and>
     list_all2 (notice E_MMGR_EVENT_MODEM_DOWN) [slot_example 5] (sends [] h'))"
proof -
  have np: "no_payload E_MMGR_EVENT_MODEM_DOWN" by (simp add: no_payload_def)
  have nd: "\<not> (E_MMGR_EVENT_MODEM_DOWN = E_MMGR_EVENT_MODEM_DOWN \<and> down_state clients_example)"
    by (simp add: clients_example_def)
  have f: "filter (\<lambda>c. is_open c \<and> subscribed c E_MMGR_EVENT_MODEM_DOWN) (cl_list clients_example) =
      [slot_example 5]"
    by (simp add: clients_example_def slot_example_def subscribed_def CLOSED_FD_def flag_simps)
  from inform_all_reaches_subscribers [OF alloc_ok_env_ok np nd, of D_null "[]"] np f
  show ?thesis by simp
qed

text \<open>
  An event is \<open>sendable\<close> with some data when its builder makes a message out of it
  (memory permitting); such an event can always be broadcast, and the table of clients stays the same.
\<close>

definition sendable :: "e_mmgr_events \<Rightarrow> cli_data \<Rightarrow> bool" where
  "sendable ev d \<longleftrightarrow>
     (\<exists>build. set_data ev = Some build \<and>
       (\<forall>E h. alloc_ok E \<longrightarrow>
          (\<exists>payload. sent_as (build E msg_empty
             \<lparr>ev_id = event_id ev, ev_len = 0, ev_data = d, ev_context = 0\<rparr> h) (event_id ev) payload)))"

lemma sendableI:
  assumes "set_data ev = Some build"
    and "\<And>E h. alloc_ok E \<Longrightarrow> sent_as (build E msg_empty
      \<lparr>ev_id = event_id ev, ev_len = 0, ev_data = d, ev_context = 0\<rparr> h) (event_id ev) payload"
  shows "sendable ev d"
  unfolding sendable_def using assms by blast

lemma msg_set_empty_sent: "alloc_ok E \<Longrightarrow> sent_as (msg_set_empty E msg i h) i []"
  using length_header_image
  by (auto simp: msg_set_empty_def msg_prepare_ok sent_as_def SIZE_HEADER_def)

lemma sendable_no_payload [intro]: "no_payload ev \<Longrightarrow> sendable ev d"
  by (rule sendableI [where payload = "[]"], erule set_data_no_payload)
    (simp add: msg_set_empty_sent)

lemma sendable_results:
  "sendable E_MMGR_RESPONSE_MODEM_FW_RESULT (D_fw_result i)"
  "sendable E_MMGR_RESPONSE_MODEM_NVM_RESULT (D_nvm_result r)"
  by (rule sendableI, simp add: set_data_def, rule fw_result_encoded nvm_result_encoded, simp_all)+

lemma sendable_tft: "tft_wf ev \<Longrightarrow> sendable E_MMGR_NOTIFY_TFT_EVENT (D_tft_event ev)"
proof -
  assume wf: "tft_wf ev"
  then obtain name where "tft_name ev = Some name"
    by (auto simp: tft_wf_def elim: str_okE)
  with wf show ?thesis
    by (intro sendableI [where build = set_msg_tft_event]) (auto simp: set_data_def intro: tft_encoded)
qed

lemma sendable_core_dump:
  assumes "unat (cd_path_len cd) + unat (cd_reason_len cd) < 2 ^ 31"
    and "cd_path_len cd > 0 \<longrightarrow> cd_path cd = Some path" "length path = unat (cd_path_len cd)"
    and "length reason = unat (cd_reason_len cd)" "cd_reason_len cd > 0 \<longrightarrow> cd_reason cd = Some reason"
  shows "sendable E_MMGR_NOTIFY_CORE_DUMP_COMPLETE (D_core_dump cd)"
  by (rule sendableI, simp add: set_data_def, rule core_dump_encoded [OF _ assms(1) _ assms(2-5)]) simp_all

lemma sendable_ap_reset:
  assumes "length name + length extra + 16 < 2 ^ 32"
  shows "sendable E_MMGR_NOTIFY_AP_RESET (D_internal_ap_reset
    \<lparr>iap_len = of_nat (length name), iap_name = Some name,
     iap_extra_len = of_nat (length extra), iap_extra_data = Some extra\<rparr>)"
  by (rule sendableI, simp add: set_data_def, rule ap_reset_encoded [OF _ assms]) simp_all

lemma client_inform_total:
  assumes "alloc_ok E" "sendable ev d"
  shows "\<exists>r h'. client_inform E c ev d h = Some (r, h')"
proof -
  obtain build payload where b: "set_data ev = Some build" and sent:
    "sent_as (build E msg_empty \<lparr>ev_id = event_id ev, ev_len = 0, ev_data = d, ev_context = 0\<rparr> h)
       (event_id ev) payload"
    using assms unfolding sendable_def by blast
  obtain m h1 hd where m: "build E msg_empty
      \<lparr>ev_id = event_id ev, ev_len = 0, ev_data = d, ev_context = 0\<rparr> h = Some ((E_ERR_SUCCESS, m), h1)"
    "hdr_len (msg_hdr m) = of_nat (length payload)" "msg_data m = Some (hd @ payload)"
    "length hd = SIZE_HEADER" and bound: "length payload + SIZE_HEADER < 2 ^ 32"
    using sent by (auto simp: sent_as_def)
  have "unat (of_nat SIZE_HEADER + of_nat (length payload) :: u32) = SIZE_HEADER + length payload"
    using bound by (simp add: unat_word_ariths unat_of_nat SIZE_HEADER_def)
  with b m show ?thesis
    by (simp add: client_inform_def mem_read_def case_prod_unfold Let_def)
qed

lemma inform_slots_total:
  assumes "alloc_ok E" "sendable ev d"
  shows "\<exists>r' h'. inform_slots E ev d r cs h = Some (r', h')"
proof (induction cs arbitrary: r h)
  case Nil
  then show ?case by simp
next
  case (Cons c cs)
  obtain r1 h1 where "client_inform E c ev d h = Some (r1, h1)"
    using client_inform_total [OF assms] by blast
  with Cons.IH show ?case by simp
qed

lemma inform_all_total:
  assumes "alloc_ok E" "sendable ev d"
  obtains r t' h' where "clients_inform_all E t ev d h = Some ((r, t'), h')"
proof (cases "ev = E_MMGR_EVENT_MODEM_DOWN \<and> down_state t")
  case True
  then have "clients_inform_all E t ev d h = Some ((E_ERR_SUCCESS, t), h)"
    by (simp add: clients_inform_all_def)
  then show thesis by (rule that)
next
  case False
  define t' where "t' = (if ev = E_MMGR_EVENT_MODEM_DOWN then t\<lparr>down_state := True\<rparr>
     else if ev = E_MMGR_EVENT_MODEM_UP then t\<lparr>down_state := False\<rparr> else t)"
  obtain r h' where "inform_slots E ev d E_ERR_SUCCESS (cl_list t') h = Some (r, h')"
    using inform_slots_total [OF assms] by blast
  with False have "clients_inform_all E t ev d h = Some ((r, t'), h')"
    unfolding clients_inform_all_def t'_def [symmetric] Let_def by auto
  then show thesis by (rule that)
qed

text \<open>Broadcasting changes nothing in the table but the static variable.\<close>

lemma inform_all_same:
  "clients_inform_all E t ev d h = Some ((r, t'), h') \<Longrightarrow>
     t' = t\<lparr>down_state := down_state t'\<rparr>"
  by (auto simp: clients_inform_all_def Let_def bind_eq_Some_conv split: if_splits)

lemma inform_all_other:
  "clients_inform_all E t ev d h = Some ((r, t'), h') \<Longrightarrow>
     ev \<noteq> E_MMGR_EVENT_MODEM_DOWN \<Longrightarrow> ev \<noteq> E_MMGR_EVENT_MODEM_UP \<Longrightarrow> t' = t"
  by (auto simp: clients_inform_all_def Let_def bind_eq_Some_conv split: if_splits)

lemma inform_all_keeps:
  assumes "clients_inform_all E t ev d h = Some ((r, t'), h')"
  shows "cl_list t' = cl_list t" "list_size t' = list_size t" "connected t' = connected t"
    "clients_wf t' = clients_wf t" "client_lookup t' = client_lookup t"
    "client_find t' = client_find t"
proof -
  note eq = inform_all_same [OF assms]
  show "cl_list t' = cl_list t" "list_size t' = list_size t" "connected t' = connected t"
    by (subst eq, simp)+
  then show "clients_wf t' = clients_wf t" "client_find t' = client_find t"
    "client_lookup t' = client_lookup t"
    by (simp_all add: clients_wf_def client_find_def client_lookup_def fun_eq_iff)
qed

text \<open>A sequence of broadcasts.\<close>

fun inform_run ::
  "env \<Rightarrow> client_list_t \<Rightarrow> (e_mmgr_events \<times> cli_data) list \<Rightarrow> history \<Rightarrow>
     (client_list_t \<times> history) option" where
  "inform_run E t [] h = Some (t, h)"
| "inform_run E t ((ev, d) # evs) h =
     do { ((_, t1), h1) \<leftarrow> clients_inform_all E t ev d h; inform_run E t1 evs h1 }"

lemma inform_all_down_state:
  "clients_inform_all E t ev d h = Some ((r, t'), h') \<Longrightarrow>
     down_state t' = (if ev = E_MMGR_EVENT_MODEM_DOWN then True
                      else if ev = E_MMGR_EVENT_MODEM_UP then False else down_state t)"
  by (auto simp: clients_inform_all_def Let_def bind_eq_Some_conv split: if_splits)

lemma inform_run_down_state:
  "inform_run E t evs h = Some (t', h') \<Longrightarrow> down_state t \<Longrightarrow>
     E_MMGR_EVENT_MODEM_UP \<notin> fst ` set evs \<Longrightarrow> down_state t'"
proof (induction evs arbitrary: t h)
  case Nil
  then show ?case by simp
next
  case (Cons e evs)
  then obtain ev d r t1 h1 where e: "e = (ev, d)"
    "clients_inform_all E t ev d h = Some ((r, t1), h1)" "inform_run E t1 evs h1 = Some (t', h')"
    by (cases e) (auto simp: bind_eq_Some_conv)
  with Cons.prems inform_all_down_state [OF e(2)] have "down_state t1" by auto
  with Cons.IH [OF e(3)] Cons.prems(3) show ?case by simp
qed

text \<open>
  MODEM_DOWN is not repeated: once it has been broadcast, broadcasting it again sends nothing and
  changes nothing until a MODEM_UP has been broadcast, whatever other events were in between.
\<close>

theorem modem_down_not_repeated:
  assumes "clients_inform_all E t E_MMGR_EVENT_MODEM_DOWN d h = Some ((r, t1), h1)"
    and "inform_run E t1 evs h1 = Some (t2, h2)" "E_MMGR_EVENT_MODEM_UP \<notin> fst ` set evs"
  shows "clients_inform_all E t2 E_MMGR_EVENT_MODEM_DOWN d' h2 = Some ((E_ERR_SUCCESS, t2), h2)"
  using inform_run_down_state [OF assms(2) _ assms(3)] inform_all_down_state [OF assms(1)]
  by (simp add: clients_inform_all_def)

theorem modem_down_not_repeated_witness:
  "\<exists>r t1 h1 t2 h2.
     clients_inform_all env_ok clients_example E_MMGR_EVENT_MODEM_DOWN D_null [] = Some ((r, t1), h1) \<and>
     inform_run env_ok t1 [(E_MMGR_NOTIFY_MODEM_COLD_RESET, D_null)] h1 = Some (t2, h2) \<and>
     clients_inform_all env_ok t2 E_MMGR_EVENT_MODEM_DOWN D_null h2 = Some ((E_ERR_SUCCESS, t2), h2)"
proof -
  obtain r t1 h1 where 1:
    "clients_inform_all env_ok clients_example E_MMGR_EVENT_MODEM_DOWN D_null [] = Some ((r, t1), h1)"
    using inform_all_reaches_subscribers [of env_ok E_MMGR_EVENT_MODEM_DOWN clients_example D_null "[]"]
    by (auto simp: no_payload_def clients_example_def)
  obtain r2 t2 h2 where
    "clients_inform_all env_ok t1 E_MMGR_NOTIFY_MODEM_COLD_RESET D_null h1 = Some ((r2, t2), h2)"
    using inform_all_reaches_subscribers [of env_ok E_MMGR_NOTIFY_MODEM_COLD_RESET t1 D_null h1]
    by (auto simp: no_payload_def)
  then have 2: "inform_run env_ok t1 [(E_MMGR_NOTIFY_MODEM_COLD_RESET, D_null)] h1 = Some (t2, h2)"
    by simp
  from modem_down_not_repeated [OF 1 2] 1 2 show ?thesis by auto
qed

text \<open>
  A client is registered after it gave both its name and its event filter, in either
  order, and not before; the name it is known by is never longer than \<^verbatim>\<open>CLIENT_NAME_LEN\<close> bytes; later
  acquire, release and acknowledgement requests do not change its registration.
\<close>

theorem registration_spec:
  assumes "client_set_name c name len = Some (r1, c1)" and "client_set_filter c sub = (r2, c2)"
    and "client_set_name c2 name len = Some (r3, c3)" and "client_set_filter c1 sub = (r4, c4)"
    and "req \<in> {E_CNX_COLD_RESET, E_CNX_MODEM_SHUTDOWN, E_CNX_RESOURCE_RELEASED}"
    and "cl_cnx c = E_CNX_RESOURCE_RELEASED"
  shows "\<not> client_is_registered (Some c) \<and> \<not> client_is_registered (Some c1) \<and>
    \<not> client_is_registered (Some c2) \<and> client_is_registered (Some c3) \<and> c4 = c3 \<and>
    cl_subscription c3 = sub \<and> length (cl_name c3) \<le> min len CLIENT_NAME_LEN \<and>
    client_is_registered (Some (snd (client_set_request c3 req))) \<and>
    client_is_registered (Some (snd (client_unset_request c3 req)))"
proof -
  let ?n = "if len > CLIENT_NAME_LEN then CLIENT_NAME_LEN else len"
  let ?name = "takeWhile (\<lambda>b. b \<noteq> 0) (take ?n name)"
  have c1: "c1 = c\<lparr>cl_name := ?name, cl_cnx := cl_cnx c OR E_CNX_NAME\<rparr>"
    and c2: "c2 = c\<lparr>cl_subscription := sub, cl_cnx := cl_cnx c OR E_CNX_FILTER\<rparr>"
    and c3: "c3 = c2\<lparr>cl_name := ?name, cl_cnx := cl_cnx c2 OR E_CNX_NAME\<rparr>"
    and c4: "c4 = c1\<lparr>cl_subscription := sub, cl_cnx := cl_cnx c1 OR E_CNX_FILTER\<rparr>"
    using assms(1-4) by (auto simp: client_set_name_def client_set_filter_def Let_def split: if_splits)
  have "length ?name \<le> min len CLIENT_NAME_LEN"
    using length_takeWhile_le [of "\<lambda>b. b \<noteq> 0" "take ?n name"] by (auto split: if_splits)
  moreover have "c4 = c3"
    by (simp add: c1 c2 c3 c4 or.assoc or.commute or.left_commute)
  ultimately show ?thesis
    using assms(5,6)
    by (auto simp: c1 c2 c3 client_is_registered_def client_set_request_def client_unset_request_def
        E_CNX_defs flag_simps)
qed

theorem registration_spec_witness:
  "cl_cnx (slot_example 5) = E_CNX_RESOURCE_RELEASED \<and>
   (\<exists>c1 c3. client_set_name (slot_example 5) [82, 73, 76, 0] 4 = Some (E_ERR_SUCCESS, c1) \<and>
     client_set_name (snd (client_set_filter (slot_example 5) 3)) [82, 73, 76, 0] 4 =
       Some (E_ERR_SUCCESS, c3) \<and>
     client_is_registered (Some c3) \<and> \<not> client_is_registered (Some c1))"
proof -
  have cnx: "cl_cnx (slot_example 5) = E_CNX_RESOURCE_RELEASED" by (simp add: slot_example_def)
  obtain c1 where c1: "client_set_name (slot_example 5) [82, 73, 76, 0] 4 = Some (E_ERR_SUCCESS, c1)"
    by (simp add: client_set_name_def CLIENT_NAME_LEN_def)
  obtain c3 where c3: "client_set_name (snd (client_set_filter (slot_example 5) 3)) [82, 73, 76, 0] 4 =
      Some (E_ERR_SUCCESS, c3)"
    by (simp add: client_set_name_def CLIENT_NAME_LEN_def)
  from registration_spec [OF c1 prod.collapse [symmetric] c3 prod.collapse [symmetric] _ cnx,
      of E_CNX_COLD_RESET] c1 c3 cnx show ?thesis by simp
qed

end
