(* ===== verification/Tty.thy ===== *)
theory Tty
  imports Msg_Format
begin

text \<open>
  Files, properties and terminals (\<^verbatim>\<open>libutils/file.c\<close>, \<^verbatim>\<open>libutils/property.c\<close>,
  \<^verbatim>\<open>libutils/tty.c\<close>): the small routines through which the daemon drives sysfs files,
  Android properties and the modem's serial channels.

  \<^verbatim>\<open>write\<close> and \<^verbatim>\<open>read\<close> answer a negative number or a count that is at most the requested one;
  \<^verbatim>\<open>errno\<close> is looked at right after the failing call.
\<close>

section \<open>System calls\<close>

definition PATH_MAX :: nat where "PATH_MAX = 4096"

definition sys_write :: "env \<Rightarrow> int \<Rightarrow> byte list \<Rightarrow> history \<Rightarrow> int \<times> history" where
  "sys_write E fd bs h =
     (let (r, h1) = xint E (File (X_write fd bs)) h in
      (if r < 0 then -1 else min r (int (length bs)), h1))"

definition sys_read :: "env \<Rightarrow> int \<Rightarrow> nat \<Rightarrow> history \<Rightarrow> (int \<times> byte list) \<times> history" where
  "sys_read E fd n h =
     (let c = File (X_read fd n); bs = take n (env_bytes E (c # h)) in
      if env_int E (c # h) < 0 then ((-1, []), c # h)
      else ((int (length bs), bs), c # h))"

definition sys_open :: "env \<Rightarrow> string \<Rightarrow> history \<Rightarrow> int \<times> history" where
  "sys_open E path h =
     (let (r, h1) = xint E (File (X_open path)) h in (if r < 0 then CLOSED_FD else r, h1))"

section \<open>Files\<close>

text \<open>
  The written size is compared as a \<^verbatim>\<open>size_t\<close>. In \<^verbatim>\<open>file_read\<close> the comparison \<^verbatim>\<open>(size_t)read_size > 0\<close>
  also accepts a failed read (-1), after which the terminating zero is written in front of the
  buffer: \<^term>\<open>None\<close>.
\<close>

definition file_write :: "env \<Rightarrow> string \<Rightarrow> byte list \<Rightarrow> history \<Rightarrow> e_mmgr_errors \<times> history" where
  "file_write E path value h =
     (let (fd, h1) = sys_open E path h in
      if fd < 0 then (E_ERR_FAILED, h1)
      else
        let (write_size, h2) = (if length value > 0 then sys_write E fd value h1 else (0, h1));
            (c, h3) = xint E (Sock (X_close fd)) h2 in
        (if c = 0 \<and> (word_of_int write_size :: u32) = of_nat (length value)
         then E_ERR_SUCCESS else E_ERR_FAILED, h3))"

definition file_read ::
  "env \<Rightarrow> string \<Rightarrow> byte list \<Rightarrow> history \<Rightarrow> ((e_mmgr_errors \<times> byte list) \<times> history) option" where
  "file_read E path value h =
     (let sz = length value; (fd, h1) = sys_open E path h in
      if fd < 0 then Some ((E_ERR_FAILED, value), h1)
      else
        let ((read_size, bs), h2) = (if sz > 0 then sys_read E fd sz h1 else ((0, []), h1));
            (c, h3) = xint E (Sock (X_close fd)) h2;
            value1 = bs @ drop (length bs) value in
        if c = 0 \<and> (word_of_int read_size :: u32) > 0
        then if read_size < 0 then None
             else Some ((E_ERR_SUCCESS, value1[min (nat read_size) (sz - 1) := 0]), h3)
        else Some ((E_ERR_FAILED, value1), h3))"

definition file_exist :: "env \<Rightarrow> string \<Rightarrow> history \<Rightarrow> bool \<times> history" where
  "file_exist E path h = (let (r, h1) = xint E (File (X_file_exist path)) h in (r = 0, h1))"

section \<open>Properties\<close>

definition PROPERTY_VALUE_MAX :: nat where
  "PROPERTY_VALUE_MAX = 92"

definition property_get_string :: "env \<Rightarrow> string \<Rightarrow> history \<Rightarrow> string \<times> history" where
  "property_get_string E key h =
     (let (v, h1) = xstring E (Android (X_property_get key)) h in
      (take (PROPERTY_VALUE_MAX - 1) v, h1))"

text \<open>
  An integer property is its decimal text. A property that is not set reads as ''0'', which is an answer like
  any other here.
\<close>

definition property_set_int :: "env \<Rightarrow> string \<Rightarrow> int \<Rightarrow> history \<Rightarrow> e_mmgr_errors \<times> history" where
  "property_set_int E key value h =
     (let (r, h1) = xint E (Android (X_property_set key (snprintf PROPERTY_VALUE_MAX (dec value)))) h in
      (if r = 0 then E_ERR_SUCCESS else E_ERR_FAILED, h1))"

definition property_get_int :: "env \<Rightarrow> string \<Rightarrow> history \<Rightarrow> (e_mmgr_errors \<times> int) \<times> history" where
  "property_get_int E key h =
     (let (v, h1) = xstring E (Android (X_property_get key)) h in
      case scan_int v of
        None \<Rightarrow> ((E_ERR_FAILED, 0), h1)
      | Some (value, _) \<Rightarrow> ((E_ERR_SUCCESS, value), h1))"

section \<open>Terminals\<close>

definition tty_listen_fd :: "env \<Rightarrow> int \<Rightarrow> int \<Rightarrow> history \<Rightarrow> e_mmgr_errors \<times> history" where
  "tty_listen_fd E epollfd fd h =
     (let (r, h1) = xint E (Sock (X_epoll_add epollfd fd)) h in
      (if r = -1 then E_ERR_FAILED else E_ERR_SUCCESS, h1))"

definition tty_init_listener :: "env \<Rightarrow> history \<Rightarrow> (e_mmgr_errors \<times> int) \<times> history" where
  "tty_init_listener E h =
     (let (epollfd, h1) = xint E (Sock X_epoll_create) h in
      ((if epollfd = CLOSED_FD then E_ERR_FAILED else E_ERR_SUCCESS, epollfd), h1))"

text \<open>
  The bits of \<^verbatim>\<open>ev.events\<close> are the second answer of \<^verbatim>\<open>epoll_wait\<close>. A listener that could not be
  created is not closed.
\<close>

definition EPOLLIN :: u32 where "EPOLLIN = 1"
definition EPOLLHUP :: u32 where "EPOLLHUP = 16"

definition tty_wait_for_event :: "env \<Rightarrow> int \<Rightarrow> int \<Rightarrow> history \<Rightarrow> e_mmgr_errors \<times> history" where
  "tty_wait_for_event E fd timeout h =
     (let ((ret, epollfd), h1) = tty_init_listener E h;
          (ret2, h2) =
            (if ret \<noteq> E_ERR_SUCCESS then (ret, h1)
             else
               let (l, h2) = tty_listen_fd E epollfd fd h1 in
               if l \<noteq> E_ERR_SUCCESS then (l, h2)
               else
                 let (err, h3) = xint E (Sock (X_epoll_wait epollfd 1 timeout)) h2;
                     events = word_of_int (env_int2 E h3) in
                 if err > 0
                 then (if events AND EPOLLHUP \<noteq> 0 then E_ERR_TTY_POLLHUP
                       else if events AND EPOLLIN \<noteq> 0 then E_ERR_SUCCESS else E_ERR_FAILED, h3)
                 else (if err = 0 then E_ERR_TTY_TIMEOUT else E_ERR_FAILED, h3)) in
      (ret2, if epollfd \<noteq> CLOSED_FD then xcall (Sock (X_close epollfd)) h2 else h2))"

text \<open>
  The loop of \<^verbatim>\<open>tty_read\<close>: \<open>n\<close> is the number of tries left, \<open>got\<close> what was read so far. The
  first component of the result is the error; the second what the buffer holds before its zeros.
\<close>

fun read_loop ::
  "env \<Rightarrow> int \<Rightarrow> nat \<Rightarrow> byte list \<Rightarrow> nat \<Rightarrow> history \<Rightarrow> (e_mmgr_errors \<times> byte list) \<times> history" where
  "read_loop E fd sz got 0 h = ((E_ERR_SUCCESS, got), h)"
| "read_loop E fd sz got (Suc n) h =
     (let ((err, bs), h1) = sys_read E fd (sz - length got) h in
      if err < 0
      then ((if env_errno E h1 = EBADF then E_ERR_TTY_BAD_FD else E_ERR_FAILED, got), h1)
      else if err = 0
      then if length got > 0 then ((E_ERR_SUCCESS, got), h1)
           else read_loop E fd sz got n (xcall (Libc (X_usleep 20000)) h1)
      else read_loop E fd sz (got @ bs) n h1)"

text \<open>On failure the caller's size is left as it was.\<close>

definition tty_read ::
  "env \<Rightarrow> int \<Rightarrow> nat \<Rightarrow> nat \<Rightarrow> history \<Rightarrow> (e_mmgr_errors \<times> byte list \<times> nat) \<times> history" where
  "tty_read E fd data_size max_retries h =
     (let ((ret, got), h1) = read_loop E fd data_size [] max_retries h;
          data = got @ replicate (data_size - length got) 0 in
      if ret = E_ERR_SUCCESS then ((ret, data, length got), h1) else ((ret, data, data_size), h1))"

function tty_write :: "env \<Rightarrow> int \<Rightarrow> byte list \<Rightarrow> history \<Rightarrow> e_mmgr_errors \<times> history" where
  "tty_write E fd data h =
     (let (err, h1) = sys_write E fd data h in
      if err = 0 then (E_ERR_FAILED, h1)
      else if err < 0 then (E_ERR_TTY_BAD_FD, h1)
      else if err < int (length data) then tty_write E fd (drop (nat err) data) h1
      else (E_ERR_SUCCESS, h1))"
  by pat_completeness auto
termination
  by (relation "measure (\<lambda>(_, _, data, _). length data)") (auto simp: sys_write_def Let_def split: if_splits)

declare tty_write.simps [simp del]

definition tty_set_termio :: "env \<Rightarrow> int \<Rightarrow> history \<Rightarrow> e_mmgr_errors \<times> history" where
  "tty_set_termio E fd h =
     (let (r, h1) = xint E (File (X_fcntl_nonblock fd)) h in
      if r < 0 then (E_ERR_FAILED, h1)
      else (E_ERR_SUCCESS, xcall (File (X_tcsetattr fd)) h1))"

definition MAX_OPEN_RETRY :: nat where
  "MAX_OPEN_RETRY = 5"

fun open_loop :: "env \<Rightarrow> string \<Rightarrow> int \<Rightarrow> nat \<Rightarrow> history \<Rightarrow> int \<times> history" where
  "open_loop E tty_name fd 0 h = (fd, h)"
| "open_loop E tty_name fd (Suc n) h =
     (let (fd', h1) = sys_open E tty_name h in
      if fd' > 0 then (fd', h1)
      else if env_errno E h1 \<in> {ENOENT, EAGAIN, EACCES}
      then open_loop E tty_name fd' n (xcall (Libc (X_sleep 1)) h1)
      else (fd', h1))"

text \<open>The descriptor is an in-out parameter: an open one is refused.\<close>

definition tty_open :: "env \<Rightarrow> string \<Rightarrow> int \<Rightarrow> history \<Rightarrow> (e_mmgr_errors \<times> int) \<times> history" where
  "tty_open E tty_name fd h =
     (if fd \<noteq> CLOSED_FD then ((E_ERR_TTY_BAD_FD, fd), h)
      else
        let (fd1, h1) = open_loop E tty_name fd MAX_OPEN_RETRY h in
        if fd1 < 0 then ((E_ERR_TTY_BAD_FD, fd1), h1)
        else
          let (ret, h2) = tty_set_termio E fd1 h1 in
          if ret \<noteq> E_ERR_SUCCESS
          then ((E_ERR_TTY_BAD_FD, CLOSED_FD), xcall (Sock (X_close fd1)) h2)
          else ((E_ERR_SUCCESS, fd1), h2))"

definition tty_close :: "env \<Rightarrow> int \<Rightarrow> history \<Rightarrow> (e_mmgr_errors \<times> int) \<times> history" where
  "tty_close E fd h =
     (if fd > CLOSED_FD then ((E_ERR_SUCCESS, CLOSED_FD), xcall (Sock (X_close fd)) h)
      else ((E_ERR_FAILED, fd), h))"

section \<open>What reaches the modem\<close>

text \<open>The bytes the kernel accepted for a descriptor, over the whole history.\<close>

fun written :: "env \<Rightarrow> int \<Rightarrow> history \<Rightarrow> byte list" where
  "written E fd [] = []"
| "written E fd (c # h) =
     written E fd h @
     (case c of File (X_write fd' bs) \<Rightarrow>
        if fd' = fd then take (nat (env_int E (c # h))) bs else [] | _ \<Rightarrow> [])"

lemma sys_write_written:
  assumes "sys_write E fd bs h = (err, h')"
  shows "written E fd h' = written E fd h @ take (nat err) bs"
    and "err \<le> int (length bs)" and "err \<ge> -1"
  using assms by (auto simp: sys_write_def xint_def Let_def min_def split: if_splits)

lemma tty_write_written:
  assumes "tty_write E fd data h = (ret, h')"
  shows "\<exists>k \<le> length data. written E fd h' = written E fd h @ take k data \<and>
    (ret = E_ERR_SUCCESS \<longrightarrow> k = length data) \<and>
    (ret \<noteq> E_ERR_SUCCESS \<longrightarrow> k < length data \<or> data = []) \<and>
    ret \<in> {E_ERR_SUCCESS, E_ERR_FAILED, E_ERR_TTY_BAD_FD}"
  using assms
proof (induction E fd data h arbitrary: ret h' rule: tty_write.induct)
  case (1 E fd data h)
  obtain err h1 where w: "sys_write E fd data h = (err, h1)" by fastforce
  note ww = sys_write_written [OF w]
  show ?case
  proof (cases "0 < err \<and> err < int (length data)")
    case True
    then have "tty_write E fd (drop (nat err) data) h1 = (ret, h')"
      using 1(2) w by (simp add: tty_write.simps [of E fd data h])
    from "1.IH" [OF w [symmetric] refl _ _ _ this] True
    obtain k where k: "k \<le> length data - nat err"
      "written E fd h' = written E fd h1 @ take k (drop (nat err) data)"
      "ret = E_ERR_SUCCESS \<longrightarrow> k = length data - nat err"
      "ret \<noteq> E_ERR_SUCCESS \<longrightarrow> k < length data - nat err \<or> drop (nat err) data = []"
      "ret \<in> {E_ERR_SUCCESS, E_ERR_FAILED, E_ERR_TTY_BAD_FD}"
      by auto
    have "nat err < length data" using True by linarith
    with k ww(1) show ?thesis
      by (intro exI [of _ "nat err + k"]) (auto simp: take_add)
  next
    case False
    with 1(2) w have r: "h' = h1" "ret = (if err = 0 then E_ERR_FAILED
        else if err < 0 then E_ERR_TTY_BAD_FD else E_ERR_SUCCESS)"
      by (auto simp: tty_write.simps [of E fd data h] split: if_splits)
    show ?thesis
    proof (cases "err \<le> 0")
      case True
      with ww(1) r show ?thesis by (intro exI [of _ 0]) auto
    next
      case pos: False
      with False ww(2) have "nat err = length data" by simp
      with ww(1) r pos show ?thesis by (intro exI [of _ "length data"]) auto
    qed
  qed
qed

text \<open>
  C39: \<^verbatim>\<open>tty_write\<close> always returns, and what the modem has received on the descriptor
  afterwards is what it had before followed by an initial part of the data, each byte once and in order:
  all of the data if it reports success, and not all of it if it reports an error.
\<close>

theorem tty_write_complete:
  assumes "tty_write E fd data h = (ret, h')" "data \<noteq> []"
  shows "\<exists>k \<le> length data. written E fd h' = written E fd h @ take k data \<and>
    (ret = E_ERR_SUCCESS \<longleftrightarrow> k = length data)"
  using tty_write_written [OF assms(1)] assms(2) by auto

theorem tty_write_complete_witness:
  "\<exists>k \<le> 2. written env_ok 7 (snd (tty_write env_ok 7 [1, 2] [])) = take k [1, 2] \<and>
    (fst (tty_write env_ok 7 [1, 2] []) = E_ERR_SUCCESS \<longleftrightarrow> k = 2)"
  using tty_write_complete [of env_ok 7 "[1, 2]" "[]"] by (simp add: numeral_2_eq_2)

subsection \<open>Opening and closing\<close>

lemma open_loop_ge: "fd \<ge> CLOSED_FD \<Longrightarrow> fst (open_loop E name fd n h) \<ge> CLOSED_FD"
  by (induction n arbitrary: fd h)
    (auto simp: sys_open_def xint_def CLOSED_FD_def Let_def split: if_splits)

lemma tty_open_result:
  assumes "tty_open E name fd h = ((ret, fd'), h')"
  shows "ret = E_ERR_SUCCESS \<Longrightarrow> fd = CLOSED_FD \<and> 0 \<le> fd'"
    and "ret \<noteq> E_ERR_SUCCESS \<Longrightarrow> ret = E_ERR_TTY_BAD_FD"
    and "ret \<noteq> E_ERR_SUCCESS \<Longrightarrow> fd = CLOSED_FD \<Longrightarrow> fd' = CLOSED_FD"
  using assms open_loop_ge [of fd E name MAX_OPEN_RETRY h]
  by (auto simp: tty_open_def CLOSED_FD_def Let_def split: if_splits prod.splits)

lemma tty_close_fd [simp]: "fd \<ge> CLOSED_FD \<Longrightarrow> snd (fst (tty_close E fd h)) = CLOSED_FD"
  by (auto simp: tty_close_def CLOSED_FD_def)

subsection \<open>Commands to sysfs files\<close>

text \<open>A command reached a file: opened, written completely in one call, closed without error.\<close>

definition delivered :: "env \<Rightarrow> string \<Rightarrow> byte list \<Rightarrow> history \<Rightarrow> history \<Rightarrow> bool" where
  "delivered E path v h h' \<longleftrightarrow>
     (\<exists>fd \<ge> 0. h' = Sock (X_close fd) # File (X_write fd v) # File (X_open path) # h \<and>
        env_int E (File (X_write fd v) # File (X_open path) # h) \<ge> int (length v) \<and>
        env_int E h' = 0)"

lemma file_write_success:
  assumes "file_write E path v h = (E_ERR_SUCCESS, h')" "v \<noteq> []" "length v < 2 ^ 31"
  shows "delivered E path v h h'"
proof -
  define fd where "fd = env_int E (File (X_open path) # h)"
  define r where "r = env_int E (File (X_write fd v) # File (X_open path) # h)"
  define n where "n = (if r < 0 then -1 else min r (int (length v)))"
  have fd: "fd \<ge> 0"
    using assms by (auto simp: file_write_def sys_open_def xint_def fd_def CLOSED_FD_def Let_def split: if_splits)
  then have h': "h' = Sock (X_close fd) # File (X_write fd v) # File (X_open path) # h"
    and c: "env_int E h' = 0" and w: "(word_of_int n :: u32) = of_nat (length v)"
    using assms
    by (auto simp: file_write_def sys_open_def sys_write_def xint_def fd_def r_def n_def Let_def
        split: if_splits)
  have "n mod 2 ^ 32 = int (length v) mod 2 ^ 32"
    using arg_cong [OF w, of uint] by (simp add: uint_word_of_int unsigned_of_nat take_bit_eq_mod of_nat_mod)
  then have "r \<ge> int (length v)"
    using assms(2,3) by (auto simp: n_def min_def split: if_splits)
  with fd h' c show ?thesis by (auto simp: delivered_def r_def)
qed

subsection \<open>Plain calls\<close>

text \<open>Reading, writing and waiting are plain calls.\<close>

lemma plain_sys [plain_rules]:
  "only plain h0 h \<Longrightarrow> only plain h0 (snd (sys_write E fd bs h))"
  "only plain h0 h \<Longrightarrow> only plain h0 (snd (sys_read E fd n h))"
  "only plain h0 h \<Longrightarrow> only plain h0 (snd (sys_open E path h))"
  by (simp_all add: sys_write_def sys_read_def sys_open_def xint_def Let_def)

lemma plain_file_exist [plain_rules]: "only plain h0 h \<Longrightarrow> only plain h0 (snd (file_exist E path h))"
  by (simp add: file_exist_def xint_def Let_def)

lemma plain_property_get [plain_rules]: "only plain h0 h \<Longrightarrow> only plain h0 (snd (property_get_string E key h))"
  by (simp add: property_get_string_def xstring_def Let_def)

lemma plain_tty_wait [plain_rules]: "only plain h0 h \<Longrightarrow> only plain h0 (snd (tty_wait_for_event E fd timeout h))"
  by (simp add: tty_wait_for_event_def tty_init_listener_def tty_listen_fd_def ext_defs Let_def)

lemma plain_read_loop: "only plain h0 h \<Longrightarrow> only plain h0 (snd (read_loop E fd sz got n h))"
proof (induction n arbitrary: got h)
  case 0
  then show ?case by simp
next
  case (Suc n)
  then show ?case by (simp add: plain_rules ext_defs case_prod_unfold Let_def)
qed

lemma plain_tty_read [plain_rules]: "only plain h0 h \<Longrightarrow> only plain h0 (snd (tty_read E fd n k h))"
  by (simp add: tty_read_def plain_read_loop case_prod_unfold Let_def)

lemma plain_tty_write [plain_rules]: "only plain h0 h \<Longrightarrow> only plain h0 (snd (tty_write E fd data h))"
proof (induction E fd data h rule: tty_write.induct)
  case (1 E fd data h)
  then show ?case by (simp add: tty_write.simps [of E fd data h] plain_rules case_prod_unfold Let_def)
qed

lemma plain_open_loop: "only plain h0 h \<Longrightarrow> only plain h0 (snd (open_loop E name fd n h))"
  by (induction n arbitrary: fd h) (simp_all add: plain_rules ext_defs case_prod_unfold Let_def)

lemma plain_tty_open [plain_rules]:
  "only plain h0 h \<Longrightarrow> only plain h0 (snd (tty_set_termio E fd h))"
  "only plain h0 h \<Longrightarrow> only plain h0 (snd (tty_open E name fd h))"
  "only plain h0 h \<Longrightarrow> only plain h0 (snd (tty_close E fd h))"
  by (simp_all add: tty_open_def tty_set_termio_def tty_close_def plain_open_loop ext_defs case_prod_unfold Let_def)

end
