(* ===== verification/Java_Intent.thy ===== *)
theory Java_Intent
  imports C_Strings
begin

text \<open>
  Android intents (\<^verbatim>\<open>core/java_intent.c\<close>): the user interface is told about an event of the modem by a shell command
  that names it. The names are those of the enumerations.
\<close>

primrec msg_str :: "e_intent_msg \<Rightarrow> string" where
  "msg_str E_MSG_INTENT_CORE_DUMP_WARNING = ''CORE_DUMP_WARNING''"
| "msg_str E_MSG_INTENT_CORE_DUMP_COMPLETE = ''CORE_DUMP_COMPLETE''"
| "msg_str E_MSG_INTENT_MODEM_OUT_OF_SERVICE = ''MODEM_OUT_OF_SERVICE''"
| "msg_str E_MSG_INTENT_PLATFORM_REBOOT = ''PLATFORM_REBOOT''"
| "msg_str E_MSG_INTENT_REBOOT = ''REBOOT''"
| "msg_str E_MSG_INTENT_MODEM_COLD_RESET = ''MODEM_COLD_RESET''"
| "msg_str E_MSG_INTENT_MODEM_UNSOLICITED_RESET = ''MODEM_UNSOLICITED_RESET''"
| "msg_str E_MSG_INTENT_MODEM_NOT_RESPONSIVE = ''MODEM_NOT_RESPONSIVE''"
| "msg_str E_MSG_INTENT_MODEM_FW_BAD_FAMILY = ''MODEM_FW_BAD_FAMILY''"
| "msg_str E_MSG_INTENT_MODEM_FW_OUTDATED = ''MODEM_FW_OUTDATED''"
| "msg_str E_MSG_INTENT_MODEM_FW_SECURITY_CORRUPTED = ''MODEM_FW_SECURITY_CORRUPTED''"
| "msg_str E_MSG_INTENT_MODEM_FW_RESTRICTED = ''MODEM_FW_RESTRICTED''"
| "msg_str E_MSG_INTENT_MODEM_FW_UPDATE_FAILURE = ''MODEM_FW_UPDATE_FAILURE''"
| "msg_str E_MSG_INTENT_MSG_NUM = ''MSG_NUM''"

primrec action_str :: "e_intent_action \<Rightarrow> string" where
  "action_str E_ACTION_INTENT_REBOOT = ''REBOOT''"
| "action_str E_ACTION_INTENT_ACTION_NUM = ''ACTION_NUM''"

definition INTENT_MAX_SIZE :: nat where "INTENT_MAX_SIZE = 256"

text \<open>The format of the message is a text before and one after the name, the latter empty in both formats.\<close>

definition broadcast :: "string \<Rightarrow> string \<Rightarrow> history \<Rightarrow> history" where
  "broadcast fmt action h =
     (let msg = fmt @ action in
      if msg \<noteq> [] then xcall (Libc (X_system (snprintf INTENT_MAX_SIZE msg))) h else h)"

definition intent_msg :: "e_intent_msg \<Rightarrow> history \<Rightarrow> history" where
  "intent_msg i = broadcast ''am broadcast -a com.intel.action.'' (msg_str i)"

definition broadcast_action :: "e_intent_action \<Rightarrow> history \<Rightarrow> history" where
  "broadcast_action i = broadcast ''am start -a android.intent.action.'' (action_str i)"

text \<open>An intent is one shell command, whose text is complete.\<close>

lemma intent_msg_eq: "intent_msg i h = Libc (X_system (''am broadcast -a com.intel.action.'' @ msg_str i)) # h"
  by (cases i) (simp_all add: intent_msg_def broadcast_def snprintf_def INTENT_MAX_SIZE_def xcall_def)

lemma broadcast_action_eq: "broadcast_action i h = Libc (X_system (''am start -a android.intent.action.'' @ action_str i)) # h"
  by (cases i) (simp_all add: broadcast_action_def broadcast_def snprintf_def INTENT_MAX_SIZE_def xcall_def)

end
