(* ===== verification/Recovery.thy ===== *)
theory Recovery
  imports Tty Java_Intent
begin

text \<open>
  The escalation recovery (\<^verbatim>\<open>core/reset_escalation.c\<close>): how many cold resets, then platform
  reboots, are tried before the modem is declared out of service, and when the ladder starts again from
  its first level. The configuration structure is the part of TCS' \<^verbatim>\<open>mmgr_recovery_t\<close> the code reads.

  \<^verbatim>\<open>recov_next\<close> walks the table with a do-while loop that nothing in its code bounds; it
  is a partial function, and that it returns is a theorem about the tables \<^verbatim>\<open>recov_init\<close> builds. The
  contract of a level table is the locale \<open>ladder\<close>.
\<close>

section \<open>State\<close>

datatype e_escalation_level =
    E_EL_UNKNOWN | E_EL_MODEM_COLD_RESET | E_EL_PLATFORM_REBOOT | E_EL_MODEM_OUT_OF_SERVICE
  | E_EL_NUMBER_OF

datatype e_reset_operation_state = E_OPERATION_NONE | E_OPERATION_WAIT | E_OPERATION_CONTINUE

datatype e_force_operation = E_FORCE_NONE | E_FORCE_NO_COUNT | E_FORCE_OOS

record reset_operation_t =
  retry_allowed :: int
  next_level :: e_escalation_level

text \<open>The array \<^verbatim>\<open>process\<close> is a function of the level.\<close>

type_synonym process = "e_escalation_level \<Rightarrow> reset_operation_t"

record reset_management_t =
  level_id :: e_escalation_level
  level_counter :: int
  rs_state :: e_reset_operation_state
  rs_process :: process
  last_reset_time :: timespec
  rs_op :: e_force_operation
  reset_delay :: int
  key_reboot :: string

record mmgr_recovery_t =
  rc_enable :: bool
  rc_cold_reset :: int
  rc_reboot :: int
  rc_cold_timeout :: int
  rc_shtdwn_timeout :: int
  rc_reset_delay :: int

section \<open>Operations\<close>

definition platform_reboot :: "env \<Rightarrow> history \<Rightarrow> e_mmgr_errors \<times> history" where
  "platform_reboot E h =
     (let (_, h1) = xint E (Libc X_sync) h;
          h2 = broadcast_action E_ACTION_INTENT_REBOOT h1 in
      (E_ERR_SUCCESS, h2))"

text \<open>The do-while loop of \<^verbatim>\<open>recov_next\<close>; \<^term>\<open>None\<close>: it does not end.\<close>

partial_function (option) next_loop ::
  "process \<Rightarrow> e_escalation_level \<Rightarrow> e_escalation_level option" where
  "next_loop p l =
     (let l' = next_level (p l) in
      if retry_allowed (p l') \<le> 0 \<and> l' \<noteq> E_EL_MODEM_OUT_OF_SERVICE then next_loop p l' else Some l')"

declare next_loop.simps [code]

definition recov_next :: "reset_management_t \<Rightarrow> (e_mmgr_errors \<times> reset_management_t) option" where
  "recov_next r =
     map_option (\<lambda>l. (E_ERR_SUCCESS, r\<lparr>level_id := l, level_counter := 0\<rparr>))
       (next_loop (rs_process r) (level_id r))"

definition recov_reinit :: "reset_management_t \<Rightarrow> (e_mmgr_errors \<times> reset_management_t) option" where
  "recov_reinit r =
     (let r1 = r\<lparr>level_counter := 0, level_id := E_EL_MODEM_COLD_RESET\<rparr> in
      if retry_allowed (rs_process r1 (level_id r1)) \<le> 0
      then map_option (\<lambda>(_, r2). (E_ERR_SUCCESS, r2)) (recov_next r1)
      else Some (E_ERR_SUCCESS, r1))"

text \<open>
  With \<^verbatim>\<open>E_FORCE_OOS\<close> the local \<^verbatim>\<open>current_time\<close> is stored without having been set. The result
  of \<^verbatim>\<open>recov_reinit\<close> is ignored by the code.
\<close>

definition recov_start ::
  "env \<Rightarrow> reset_management_t \<Rightarrow> history \<Rightarrow>
     ((e_mmgr_errors \<times> reset_management_t) \<times> history) option" where
  "recov_start E r h =
     (if rs_op r = E_FORCE_OOS
      then let (t, h1) = xtime E (Libc X_uninit) h in
           Some ((E_ERR_SUCCESS, r\<lparr>level_id := E_EL_MODEM_OUT_OF_SERVICE, rs_op := E_FORCE_NONE,
                                   last_reset_time := t\<rparr>), h1)
      else
        let (now, h1) = xtime E (Libc X_timeofday) h in
        if level_id r \<noteq> E_EL_MODEM_OUT_OF_SERVICE \<and>
           tv_sec now - tv_sec (last_reset_time r) > reset_delay r
        then do { (_, r1) \<leftarrow> recov_reinit r;
                  let (_, h2) = property_set_int E (key_reboot r) 0 h1;
                  Some ((E_ERR_SUCCESS, r1\<lparr>last_reset_time := now\<rparr>), h2) }
        else Some ((E_ERR_SUCCESS, r\<lparr>last_reset_time := now\<rparr>), h1))"

definition recov_get_level :: "reset_management_t option \<Rightarrow> e_escalation_level" where
  "recov_get_level p = (case p of None \<Rightarrow> E_EL_UNKNOWN | Some r \<Rightarrow> level_id r)"

definition recov_get_reboot :: "env \<Rightarrow> reset_management_t \<Rightarrow> history \<Rightarrow> int \<times> history" where
  "recov_get_reboot E r h =
     (let ((_, reboot), h1) = property_get_int E (key_reboot r) h in (reboot, h1))"

definition recov_set_reboot :: "env \<Rightarrow> reset_management_t \<Rightarrow> int \<Rightarrow> history \<Rightarrow> history" where
  "recov_set_reboot E r reboot h = snd (property_set_int E (key_reboot r) reboot h)"

definition recov_done :: "reset_management_t \<Rightarrow> (e_mmgr_errors \<times> reset_management_t) option" where
  "recov_done r =
     (let r1 = r\<lparr>rs_state := E_OPERATION_NONE\<rparr> in
      if level_id r1 = E_EL_NUMBER_OF then Some (E_ERR_SUCCESS, r1)
      else
        let r2 = (if rs_op r1 = E_FORCE_NO_COUNT then r1\<lparr>rs_op := E_FORCE_NONE\<rparr>
                  else r1\<lparr>level_counter := level_counter r1 + 1\<rparr>);
            p = rs_process r2 (level_id r2) in
        if retry_allowed p \<ge> 0 \<and> level_counter r2 \<ge> retry_allowed p
        then map_option (\<lambda>(_, r3). (E_ERR_SUCCESS, r3)) (recov_next r2)
        else Some (E_ERR_SUCCESS, r2))"

text \<open>The table; the assignments of the code in order. A failed \<^verbatim>\<open>calloc\<close> is an assertion failure.\<close>

definition recov_table :: "mmgr_recovery_t \<Rightarrow> process" where
  "recov_table cfg =
     (let p0 = (\<lambda>_. \<lparr>retry_allowed = 0, next_level = E_EL_MODEM_OUT_OF_SERVICE\<rparr>);
          p1 = (if rc_enable cfg \<and> rc_cold_reset cfg > 0
                then p0(E_EL_MODEM_COLD_RESET :=
                          (p0 E_EL_MODEM_COLD_RESET)\<lparr>retry_allowed := rc_cold_reset cfg\<rparr>)
                else p0);
          p2 = (if rc_enable cfg \<and> rc_reboot cfg > 0
                then p1(E_EL_MODEM_COLD_RESET :=
                          (p1 E_EL_MODEM_COLD_RESET)\<lparr>next_level := E_EL_PLATFORM_REBOOT\<rparr>,
                        E_EL_PLATFORM_REBOOT :=
                          (p1 E_EL_PLATFORM_REBOOT)\<lparr>retry_allowed := rc_reboot cfg\<rparr>)
                else p1) in
      p2(E_EL_MODEM_OUT_OF_SERVICE := (p2 E_EL_MODEM_OUT_OF_SERVICE)\<lparr>retry_allowed := -1\<rparr>))"

definition recov_init ::
  "env \<Rightarrow> mmgr_recovery_t \<Rightarrow> string \<Rightarrow> history \<Rightarrow> (reset_management_t \<times> history) option" where
  "recov_init E cfg key h =
     (let (ok, h1) = xint E (Libc (X_calloc 64)) h in
      if ok = 0 then None
      else
        let r0 = \<lparr>level_id = E_EL_UNKNOWN, level_counter = 0, rs_state = E_OPERATION_NONE,
                  rs_process = recov_table cfg, last_reset_time = \<lparr>tv_sec = 0, tv_nsec = 0\<rparr>,
                  rs_op = E_FORCE_NONE, reset_delay = rc_reset_delay cfg, key_reboot = key\<rparr> in
        if rc_enable cfg
        then let (now, h2) = xtime E (Libc X_timeofday) h1 in
             Some (r0\<lparr>level_id := E_EL_MODEM_COLD_RESET, last_reset_time := now\<rparr>, h2)
        else Some (r0, h1))"

definition recov_get_last_reset :: "reset_management_t \<Rightarrow> timespec" where
  "recov_get_last_reset r = last_reset_time r"

definition recov_set_state ::
  "reset_management_t \<Rightarrow> e_reset_operation_state \<Rightarrow> e_mmgr_errors \<times> reset_management_t" where
  "recov_set_state r st = (E_ERR_SUCCESS, r\<lparr>rs_state := st\<rparr>)"

definition recov_get_state :: "reset_management_t \<Rightarrow> e_reset_operation_state" where
  "recov_get_state r = rs_state r"

definition recov_get_retry_allowed :: "reset_management_t \<Rightarrow> int" where
  "recov_get_retry_allowed r = retry_allowed (rs_process r (level_id r))"

definition recov_force ::
  "reset_management_t \<Rightarrow> e_force_operation \<Rightarrow> e_mmgr_errors \<times> reset_management_t" where
  "recov_force r op = (E_ERR_SUCCESS, r\<lparr>rs_op := op\<rparr>)"

definition recov_get_operation :: "reset_management_t \<Rightarrow> e_force_operation" where
  "recov_get_operation r = rs_op r"

section \<open>Ladders\<close>

text \<open>
  The contract of a level table: a rank that strictly decreases along \<open>next_level\<close> down to
  the last level, which leads to itself. Then the walk ends at the first usable level.
\<close>

locale ladder =
  fixes p :: process and rank :: "e_escalation_level \<Rightarrow> nat"
  assumes rank_next: "l \<noteq> E_EL_MODEM_OUT_OF_SERVICE \<Longrightarrow> rank (next_level (p l)) < rank l"
    and last_loops: "next_level (p E_EL_MODEM_OUT_OF_SERVICE) = E_EL_MODEM_OUT_OF_SERVICE"
begin

lemma next_loop_ends:
  obtains l' where "next_loop p l = Some l'"
    "l' = E_EL_MODEM_OUT_OF_SERVICE \<or> retry_allowed (p l') > 0"
    "l \<noteq> E_EL_MODEM_OUT_OF_SERVICE \<Longrightarrow> rank l' < rank l"
    "l = E_EL_MODEM_OUT_OF_SERVICE \<Longrightarrow> l' = E_EL_MODEM_OUT_OF_SERVICE"
proof (induction "rank l" arbitrary: l thesis rule: less_induct)
  case less
  show ?case
  proof (cases "l = E_EL_MODEM_OUT_OF_SERVICE")
    case True
    then have "next_loop p l = Some E_EL_MODEM_OUT_OF_SERVICE"
      by (subst next_loop.simps) (simp add: last_loops)
    with True less.prems show ?thesis by blast
  next
    case False
    let ?n = "next_level (p l)"
    have dec: "rank ?n < rank l" using rank_next [OF False] .
    show ?thesis
    proof (cases "retry_allowed (p ?n) \<le> 0 \<and> ?n \<noteq> E_EL_MODEM_OUT_OF_SERVICE")
      case True
      then have eq: "next_loop p l = next_loop p ?n"
        by (subst next_loop.simps) simp
      obtain l' where "next_loop p ?n = Some l'"
        "l' = E_EL_MODEM_OUT_OF_SERVICE \<or> retry_allowed (p l') > 0" "rank l' < rank ?n"
        using less.hyps [OF dec] True by blast
      with eq dec False show ?thesis by (intro less.prems [of l']) auto
    next
      case stop: False
      then have "next_loop p l = Some ?n"
        by (subst next_loop.simps) auto
      with stop dec False show ?thesis by (intro less.prems [of ?n]) auto
    qed
  qed
qed

end

primrec level_rank :: "e_escalation_level \<Rightarrow> nat" where
  "level_rank E_EL_UNKNOWN = 3"
| "level_rank E_EL_MODEM_COLD_RESET = 2"
| "level_rank E_EL_PLATFORM_REBOOT = 1"
| "level_rank E_EL_MODEM_OUT_OF_SERVICE = 0"
| "level_rank E_EL_NUMBER_OF = 3"

lemma recov_table_simps:
  "recov_table cfg E_EL_MODEM_OUT_OF_SERVICE =
     \<lparr>retry_allowed = -1, next_level = E_EL_MODEM_OUT_OF_SERVICE\<rparr>"
  "recov_table cfg E_EL_PLATFORM_REBOOT =
     \<lparr>retry_allowed = (if rc_enable cfg \<and> rc_reboot cfg > 0 then rc_reboot cfg else 0),
      next_level = E_EL_MODEM_OUT_OF_SERVICE\<rparr>"
  "recov_table cfg E_EL_MODEM_COLD_RESET =
     \<lparr>retry_allowed = (if rc_enable cfg \<and> rc_cold_reset cfg > 0 then rc_cold_reset cfg else 0),
      next_level = (if rc_enable cfg \<and> rc_reboot cfg > 0 then E_EL_PLATFORM_REBOOT
                    else E_EL_MODEM_OUT_OF_SERVICE)\<rparr>"
  "recov_table cfg E_EL_UNKNOWN = \<lparr>retry_allowed = 0, next_level = E_EL_MODEM_OUT_OF_SERVICE\<rparr>"
  "recov_table cfg E_EL_NUMBER_OF = \<lparr>retry_allowed = 0, next_level = E_EL_MODEM_OUT_OF_SERVICE\<rparr>"
  by (simp_all add: recov_table_def Let_def)

interpretation rl: ladder "recov_table cfg" level_rank for cfg
proof unfold_locales
  fix l
  show "l \<noteq> E_EL_MODEM_OUT_OF_SERVICE \<Longrightarrow> level_rank (next_level (recov_table cfg l)) < level_rank l"
    by (cases l) (simp_all add: recov_table_simps)
qed (simp add: recov_table_simps)

section \<open>Properties\<close>

text \<open>
  \<^verbatim>\<open>recov_next\<close> always returns on a configured table, and lands on a level further down whose
  retries are allowed, or on out of service, with the counter cleared; from out of
  service it goes nowhere else.
\<close>

theorem recov_next_lands:
  assumes "rs_process r = recov_table cfg"
  shows "\<exists>r'. recov_next r = Some (E_ERR_SUCCESS, r') \<and> level_counter r' = 0 \<and>
    (level_id r' = E_EL_MODEM_OUT_OF_SERVICE \<or> recov_get_retry_allowed r' > 0) \<and>
    (level_id r \<noteq> E_EL_MODEM_OUT_OF_SERVICE \<longrightarrow> level_rank (level_id r') < level_rank (level_id r)) \<and>
    (level_id r = E_EL_MODEM_OUT_OF_SERVICE \<longrightarrow> level_id r' = E_EL_MODEM_OUT_OF_SERVICE) \<and>
    rs_process r' = recov_table cfg"
proof -
  obtain l' where "next_loop (recov_table cfg) (level_id r) = Some l'"
    "l' = E_EL_MODEM_OUT_OF_SERVICE \<or> retry_allowed (recov_table cfg l') > 0"
    "level_id r \<noteq> E_EL_MODEM_OUT_OF_SERVICE \<Longrightarrow> level_rank l' < level_rank (level_id r)"
    "level_id r = E_EL_MODEM_OUT_OF_SERVICE \<Longrightarrow> l' = E_EL_MODEM_OUT_OF_SERVICE"
    using rl.next_loop_ends [of cfg "level_id r"] by blast
  then show ?thesis
    using assms by (simp add: recov_next_def recov_get_retry_allowed_def)
qed

definition cfg_example :: mmgr_recovery_t where
  "cfg_example = \<lparr>rc_enable = True, rc_cold_reset = 2, rc_reboot = 1, rc_cold_timeout = 10,
     rc_shtdwn_timeout = 10, rc_reset_delay = 600\<rparr>"

definition recov_example :: reset_management_t where
  "recov_example = \<lparr>level_id = E_EL_MODEM_COLD_RESET, level_counter = 1, rs_state = E_OPERATION_NONE,
     rs_process = recov_table cfg_example, last_reset_time = \<lparr>tv_sec = 0, tv_nsec = 0\<rparr>,
     rs_op = E_FORCE_NONE, reset_delay = 600, key_reboot = ''reboot''\<rparr>"

theorem recov_next_lands_witness:
  "rs_process recov_example = recov_table cfg_example \<and>
   (\<exists>r'. recov_next recov_example = Some (E_ERR_SUCCESS, r') \<and>
      level_rank (level_id r') < level_rank (level_id recov_example))"
proof -
  have p: "rs_process recov_example = recov_table cfg_example"
    and l: "level_id recov_example \<noteq> E_EL_MODEM_OUT_OF_SERVICE"
    by (simp_all add: recov_example_def)
  from recov_next_lands [OF p] p l show ?thesis by blast
qed

lemma next_loop_table:
  "next_loop (recov_table cfg) E_EL_MODEM_COLD_RESET =
     Some (if rc_enable cfg \<and> rc_reboot cfg > 0 then E_EL_PLATFORM_REBOOT
           else E_EL_MODEM_OUT_OF_SERVICE)"
  "next_loop (recov_table cfg) E_EL_PLATFORM_REBOOT = Some E_EL_MODEM_OUT_OF_SERVICE"
  "next_loop (recov_table cfg) E_EL_MODEM_OUT_OF_SERVICE = Some E_EL_MODEM_OUT_OF_SERVICE"
  by (subst next_loop.simps; simp add: recov_table_simps Let_def)+

text \<open>A run of \<open>n\<close> finished recovery operations.\<close>

primrec recov_dones :: "nat \<Rightarrow> reset_management_t \<Rightarrow> reset_management_t option" where
  "recov_dones 0 r = Some r"
| "recov_dones (Suc n) r = do { r1 \<leftarrow> recov_dones n r; (_, r2) \<leftarrow> recov_done r1; Some r2 }"

text \<open>The position on the ladder after \<open>n\<close> counted operations.\<close>

definition ladder_level :: "mmgr_recovery_t \<Rightarrow> nat \<Rightarrow> e_escalation_level" where
  "ladder_level cfg n =
     (if int n < max 1 (rc_cold_reset cfg) then E_EL_MODEM_COLD_RESET
      else if int n < max 1 (rc_cold_reset cfg) + max 0 (rc_reboot cfg) then E_EL_PLATFORM_REBOOT
      else E_EL_MODEM_OUT_OF_SERVICE)"

definition ladder_counter :: "mmgr_recovery_t \<Rightarrow> nat \<Rightarrow> int" where
  "ladder_counter cfg n =
     (if ladder_level cfg n = E_EL_MODEM_COLD_RESET then int n
      else if ladder_level cfg n = E_EL_PLATFORM_REBOOT then int n - max 1 (rc_cold_reset cfg)
      else int n - max 1 (rc_cold_reset cfg) - max 0 (rc_reboot cfg))"

lemma recov_dones_ladder:
  assumes "rc_enable cfg" "rs_process r = recov_table cfg" "level_id r = E_EL_MODEM_COLD_RESET"
    "level_counter r = 0" "rs_op r = E_FORCE_NONE"
  shows "\<exists>r'. recov_dones n r = Some r' \<and> level_id r' = ladder_level cfg n \<and>
    level_counter r' = ladder_counter cfg n \<and> rs_process r' = recov_table cfg \<and> rs_op r' = E_FORCE_NONE"
proof (induction n)
  case 0
  then show ?case using assms by (simp add: ladder_level_def ladder_counter_def)
next
  case (Suc n)
  then obtain r' where r': "recov_dones n r = Some r'" "level_id r' = ladder_level cfg n"
    "level_counter r' = ladder_counter cfg n" "rs_process r' = recov_table cfg"
    "rs_op r' = E_FORCE_NONE"
    by blast
  consider "ladder_level cfg n = E_EL_MODEM_COLD_RESET"
    | "ladder_level cfg n = E_EL_PLATFORM_REBOOT" | "ladder_level cfg n = E_EL_MODEM_OUT_OF_SERVICE"
    by (cases "ladder_level cfg n") (auto simp: ladder_level_def split: if_splits)
  then show ?case
    using r' assms(1)
    by cases (auto simp: recov_done_def recov_next_def next_loop_table recov_table_simps Let_def
        ladder_level_def ladder_counter_def split: if_splits)
qed

text \<open>
  C35: The escalation ladder, exactly. From a fresh initialisation with recovery enabled, after \<open>n\<close>
  finished and counted recoveries the level is cold reset while \<open>n\<close> is below the
  configured number of cold resets (at least one), then platform reboot for the configured number of
  reboots, then out of service for ever.
\<close>

theorem escalation_ladder:
  assumes "recov_init E cfg key h = Some (r, h')" "rc_enable cfg"
  shows "\<exists>r'. recov_dones n r = Some r' \<and> level_id r' = ladder_level cfg n"
proof -
  have "rs_process r = recov_table cfg" "level_id r = E_EL_MODEM_COLD_RESET"
    "level_counter r = 0" "rs_op r = E_FORCE_NONE"
    using assms by (auto simp: recov_init_def xint_def xtime_def Let_def split: if_splits)
  from recov_dones_ladder [OF assms(2) this] show ?thesis by blast
qed

theorem escalation_ladder_witness:
  "\<exists>r h'. recov_init env_ok cfg_example ''k'' [] = Some (r, h') \<and>
     (\<exists>r'. recov_dones 2 r = Some r' \<and> level_id r' = E_EL_PLATFORM_REBOOT) \<and>
     (\<exists>r'. recov_dones 3 r = Some r' \<and> level_id r' = E_EL_MODEM_OUT_OF_SERVICE)"
proof -
  obtain r h' where r: "recov_init env_ok cfg_example ''k'' [] = Some (r, h')"
    by (simp add: recov_init_def xint_def xtime_def env_ok_def cfg_example_def Let_def)
  have en: "rc_enable cfg_example" by (simp add: cfg_example_def)
  from escalation_ladder [OF r en, of 2] escalation_ladder [OF r en, of 3] r show ?thesis
    by (simp add: ladder_level_def cfg_example_def)
qed

text \<open>
  Starting a recovery. A forced out-of-service request is obeyed and consumed. Otherwise out of
  service is kept; a level other than out of service is kept with its counter unless the last reset is
  more than the stability delay ago, in which case the ladder starts again at the first usable level, the
  counter and the persistent reboot counter are cleared.
\<close>

theorem recov_start_spec:
  assumes "rs_process r = recov_table cfg" "rc_enable cfg"
    and "now = env_time E (Libc X_timeofday # h)"
  shows "\<exists>r' h'. recov_start E r h = Some ((E_ERR_SUCCESS, r'), h') \<and>
    (rs_op r = E_FORCE_OOS \<longrightarrow>
       level_id r' = E_EL_MODEM_OUT_OF_SERVICE \<and> rs_op r' = E_FORCE_NONE) \<and>
    (rs_op r \<noteq> E_FORCE_OOS \<longrightarrow> last_reset_time r' = now \<and> rs_op r' = rs_op r \<and>
       (if level_id r \<noteq> E_EL_MODEM_OUT_OF_SERVICE \<and>
           tv_sec now - tv_sec (last_reset_time r) > reset_delay r
        then level_id r' = (if rc_cold_reset cfg > 0 then E_EL_MODEM_COLD_RESET
                            else if rc_reboot cfg > 0 then E_EL_PLATFORM_REBOOT
                            else E_EL_MODEM_OUT_OF_SERVICE) \<and>
             level_counter r' = 0 \<and>
             Android (X_property_set (key_reboot r) (dec 0)) \<in> set (calls_since h h')
        else level_id r' = level_id r \<and> level_counter r' = level_counter r \<and>
             calls_since h h' = [Libc X_timeofday]))"
  using assms calls_since_append [of h "[Android (X_property_set (key_reboot r) (dec 0)), Libc X_timeofday]"]
  by (auto simp: recov_start_def property_set_int_def snprintf_def dec_def digits.simps PROPERTY_VALUE_MAX_def recov_reinit_def recov_next_def next_loop_table recov_table_simps
      xtime_def xint_def Let_def)

theorem recov_start_spec_witness:
  "\<exists>r' h'. recov_start env_ok (recov_example\<lparr>last_reset_time := \<lparr>tv_sec = -601, tv_nsec = 0\<rparr>\<rparr>) [] =
     Some ((E_ERR_SUCCESS, r'), h') \<and> level_id r' = E_EL_MODEM_COLD_RESET \<and> level_counter r' = 0"
proof -
  let ?r = "recov_example\<lparr>last_reset_time := \<lparr>tv_sec = -601, tv_nsec = 0\<rparr>\<rparr>"
  have "rs_process ?r = recov_table cfg_example" "rc_enable cfg_example"
    by (simp_all add: recov_example_def cfg_example_def)
  from recov_start_spec [OF this refl, of env_ok "[]"] show ?thesis
    by (auto simp: recov_example_def cfg_example_def env_ok_def)
qed

text \<open>
  A recovery marked as not to be counted leaves level and counter as they are when
  it finishes below the limit, and the mark is used up: the next one counts again.
\<close>

theorem uncounted_recovery:
  assumes "rs_op r = E_FORCE_NO_COUNT" "level_id r \<noteq> E_EL_NUMBER_OF"
    and "level_counter r < recov_get_retry_allowed r"
  shows "recov_done r =
    Some (E_ERR_SUCCESS, r\<lparr>rs_state := E_OPERATION_NONE, rs_op := E_FORCE_NONE\<rparr>) \<and>
    (level_counter r + 1 < recov_get_retry_allowed r \<longrightarrow>
       (\<exists>r'. recov_done (r\<lparr>rs_state := E_OPERATION_NONE, rs_op := E_FORCE_NONE\<rparr>) =
          Some (E_ERR_SUCCESS, r') \<and> level_id r' = level_id r \<and>
          level_counter r' = level_counter r + 1))"
  using assms by (simp add: recov_done_def recov_get_retry_allowed_def Let_def)

theorem uncounted_recovery_witness:
  "recov_done (recov_example\<lparr>rs_op := E_FORCE_NO_COUNT\<rparr>) =
    Some (E_ERR_SUCCESS, recov_example\<lparr>rs_op := E_FORCE_NONE\<rparr>)"
proof -
  let ?r = "recov_example\<lparr>rs_op := E_FORCE_NO_COUNT\<rparr>"
  have "rs_op ?r = E_FORCE_NO_COUNT" "level_id ?r \<noteq> E_EL_NUMBER_OF"
    "level_counter ?r < recov_get_retry_allowed ?r"
    by (simp_all add: recov_example_def recov_get_retry_allowed_def recov_table_simps cfg_example_def)
  from uncounted_recovery [OF this] show ?thesis by (simp add: recov_example_def)
qed

section \<open>The counter across reboots\<close>

text \<open>
  The number of platform reboots survives the reboot. Whatever number \<^verbatim>\<open>recov_set_reboot\<close> stores, a daemon that is started later with the
  same property key reads it back, if the property service returns the text it was given: the text is never cut, and
  negative numbers come back as well.
\<close>

theorem reboot_counter_persists:
  assumes "- (2 ^ 31) \<le> n" "n < 2 ^ 31" "recov_set_reboot E r n h = Android (X_property_set k v) # h"
    and "env_string E' (Android (X_property_get k) # h') = v" "key_reboot r' = k"
  shows "recov_get_reboot E' r' h' = (n, Android (X_property_get k) # h')"
proof -
  have "length (dec n) \<le> PROPERTY_VALUE_MAX - 1" using dec_length [OF assms(1,2)] by (simp add: PROPERTY_VALUE_MAX_def)
  then have "v = dec n"
    using assms(3) by (simp add: recov_set_reboot_def property_set_int_def snprintf_def xint_def)
  moreover have "sint (word_of_int n :: u32) = n"
    using assms(1,2) by (simp add: sint_sbintrunc' signed_take_bit_int_eq_self)
  ultimately show ?thesis
    using scan_int_dec [of "[]" n] assms(4,5) by (simp add: recov_get_reboot_def property_get_int_def ext_defs)
qed

theorem reboot_counter_persists_witness:
  "fst (recov_get_reboot (env_ok\<lparr>env_string := (\<lambda>_. ''3'')\<rparr>) recov_example []) = 3"
proof -
  have d: "digits 3 = ''3''" by code_simp
  have "recov_set_reboot env_ok recov_example 3 [] = [Android (X_property_set (key_reboot recov_example) ''3'')]"
    using d by (simp add: recov_set_reboot_def property_set_int_def snprintf_def xint_def dec_def PROPERTY_VALUE_MAX_def)
  from reboot_counter_persists [OF _ _ this, of "env_ok\<lparr>env_string := (\<lambda>_. ''3'')\<rparr>" "[]" recov_example] show ?thesis by simp
qed

end
