(* ===== verification/Timers.thy ===== *)
theory Timers
  imports Clients Recovery
begin

text \<open>
  The timers of the event loop (\<^verbatim>\<open>core/timer_events.c\<close>): which are armed, when they expire, what
  \<^verbatim>\<open>epoll_wait\<close> may sleep, and what the expiry of each asks the modem event handlers to do.

  The arrays indexed by the timer are functions. Times are unbounded integers; the C code
  computes differences of at most a few timeouts in \<^verbatim>\<open>long\<close>. The module keeps a pointer to the client
  table, which is an argument and a result here. The contract of the service is
  the locale \<open>timer_service\<close>.
\<close>

section \<open>State\<close>

datatype e_timer_type =
    E_TIMER_COLD_RESET_ACK | E_TIMER_MODEM_SHUTDOWN_ACK | E_TIMER_WAIT_FOR_IPC_READY
  | E_TIMER_WAIT_FOR_BUS_READY | E_TIMER_REBOOT_MODEM_DELAY | E_TIMER_CORE_DUMP_IPC_RESET
  | E_TIMER_WAIT_CORE_DUMP_READY | E_TIMER_MDM_FLASHING | E_TIMER_CORE_DUMP_READING
  | E_TIMER_FMMO | E_TIMER_NUM

primrec timer_code :: "e_timer_type \<Rightarrow> nat" where
  "timer_code E_TIMER_COLD_RESET_ACK = 0"
| "timer_code E_TIMER_MODEM_SHUTDOWN_ACK = 1"
| "timer_code E_TIMER_WAIT_FOR_IPC_READY = 2"
| "timer_code E_TIMER_WAIT_FOR_BUS_READY = 3"
| "timer_code E_TIMER_REBOOT_MODEM_DELAY = 4"
| "timer_code E_TIMER_CORE_DUMP_IPC_RESET = 5"
| "timer_code E_TIMER_WAIT_CORE_DUMP_READY = 6"
| "timer_code E_TIMER_MDM_FLASHING = 7"
| "timer_code E_TIMER_CORE_DUMP_READING = 8"
| "timer_code E_TIMER_FMMO = 9"
| "timer_code E_TIMER_NUM = 10"

text \<open>The indices of the arrays, in order.\<close>

definition all_timers :: "e_timer_type list" where
  "all_timers =
     [E_TIMER_COLD_RESET_ACK, E_TIMER_MODEM_SHUTDOWN_ACK, E_TIMER_WAIT_FOR_IPC_READY,
      E_TIMER_WAIT_FOR_BUS_READY, E_TIMER_REBOOT_MODEM_DELAY, E_TIMER_CORE_DUMP_IPC_RESET,
      E_TIMER_WAIT_CORE_DUMP_READY, E_TIMER_MDM_FLASHING, E_TIMER_CORE_DUMP_READING, E_TIMER_FMMO]"

definition E_TIMER_NO_ACTION :: u32 where "E_TIMER_NO_ACTION = 0"
definition E_TIMER_RESET :: u32 where "E_TIMER_RESET = flag 0"
definition E_TIMER_START_MDM_OFF :: u32 where "E_TIMER_START_MDM_OFF = flag 1"
definition E_TIMER_FINALIZE_MDM_OFF :: u32 where "E_TIMER_FINALIZE_MDM_OFF = flag 2"
definition E_TIMER_CD_ERR :: u32 where "E_TIMER_CD_ERR = flag 3"
definition E_TIMER_CANCEL_FLASHING :: u32 where "E_TIMER_CANCEL_FLASHING = flag 4"
definition E_TIMER_STOP_MCDR :: u32 where "E_TIMER_STOP_MCDR = flag 5"
definition E_TIMER_STREAMLINE :: u32 where "E_TIMER_STREAMLINE = flag 6"

lemmas timer_action_defs = E_TIMER_NO_ACTION_def E_TIMER_RESET_def E_TIMER_START_MDM_OFF_def
  E_TIMER_FINALIZE_MDM_OFF_def E_TIMER_CD_ERR_def E_TIMER_CANCEL_FLASHING_def
  E_TIMER_STOP_MCDR_def E_TIMER_STREAMLINE_def

record mmgr_timer_t =
  tm_type :: u32
  tm_timeout :: "e_timer_type \<Rightarrow> int"
  tm_end :: "e_timer_type \<Rightarrow> timespec"

text \<open>The timing parameters of TCS that the module reads.\<close>

record mmgr_timings_t =
  tg_ipc_ready :: int
  tg_cd_ipc_reset :: int
  tg_cd_ipc_ready :: int
  tg_mdm_flash :: int
  tg_fmmo :: int

definition armed :: "mmgr_timer_t \<Rightarrow> e_timer_type \<Rightarrow> bool" where
  "armed t ty \<longleftrightarrow> tm_type t AND flag (timer_code ty) \<noteq> 0"

section \<open>Operations\<close>

definition timer_get_elapsed :: "timespec \<Rightarrow> timespec \<Rightarrow> int" where
  "timer_get_elapsed cur end =
     (tv_sec end - tv_sec cur) * 1000 + tdiv (tv_nsec end - tv_nsec cur) 1000000"

definition timer_is_elapsed :: "mmgr_timer_t \<Rightarrow> e_timer_type \<Rightarrow> timespec \<Rightarrow> bool" where
  "timer_is_elapsed t ty cur \<longleftrightarrow> armed t ty \<and> timer_get_elapsed cur (tm_end t ty) \<le> 0"

fun timeout_loop :: "mmgr_timer_t \<Rightarrow> timespec \<Rightarrow> int \<Rightarrow> e_timer_type list \<Rightarrow> int" where
  "timeout_loop t cur m [] = m"
| "timeout_loop t cur m (ty # tys) =
     (if armed t ty
      then let diff0 = timer_get_elapsed cur (tm_end t ty);
               diff = (if diff0 < 0 then 0 else diff0) in
           timeout_loop t cur (if m = -1 then diff else if m > diff then diff else m) tys
      else timeout_loop t cur m tys)"

definition timer_get_timeout :: "env \<Rightarrow> mmgr_timer_t \<Rightarrow> history \<Rightarrow> int \<times> history" where
  "timer_get_timeout E t h =
     (if tm_type t \<noteq> 0
      then let (cur, h1) = xtime E (Libc X_boottime) h in (timeout_loop t cur (-1) all_timers, h1)
      else (-1, h))"

definition timer_start ::
  "env \<Rightarrow> mmgr_timer_t \<Rightarrow> e_timer_type \<Rightarrow> history \<Rightarrow> (e_mmgr_errors \<times> mmgr_timer_t) \<times> history" where
  "timer_start E t ty h =
     (let (cur, h1) = xtime E (Libc X_boottime) h in
      if tm_timeout t ty \<noteq> 0
      then ((E_ERR_SUCCESS,
             t\<lparr>tm_type := tm_type t OR flag (timer_code ty),
               tm_end := (tm_end t)(ty := cur\<lparr>tv_sec := tv_sec cur + tm_timeout t ty\<rparr>)\<rparr>), h1)
      else ((E_ERR_SUCCESS, t), h1))"

definition timer_stop_all :: "mmgr_timer_t \<Rightarrow> e_mmgr_errors \<times> mmgr_timer_t" where
  "timer_stop_all t = (E_ERR_SUCCESS, t\<lparr>tm_type := 0\<rparr>)"

definition timer_stop :: "mmgr_timer_t \<Rightarrow> e_timer_type \<Rightarrow> e_mmgr_errors \<times> mmgr_timer_t" where
  "timer_stop t ty = (E_ERR_SUCCESS, t\<lparr>tm_type := tm_type t AND NOT (flag (timer_code ty))\<rparr>)"

text \<open>
  The notifications an expiry may send: a TFT event with one string, and the failure report of a core
  dump. Their strings are C constants.
\<close>

definition tft_error :: "string \<Rightarrow> string \<Rightarrow> mmgr_cli_tft_event_t" where
  "tft_error ev_type msg =
     \<lparr>tft_type = 0, tft_name_len = of_nat (length ev_type), tft_name = Some (cstr ev_type),
      tft_log = 1, tft_num_data = 1,
      tft_data = Some [\<lparr>td_len = of_nat (length msg), td_value = Some (cstr msg)\<rparr>]\<rparr>"

definition cd_link_error :: mmgr_cli_core_dump_t where
  "cd_link_error =
     \<lparr>cd_state = cd_state_code E_CD_LINK_ERROR, cd_path = None, cd_path_len = 0,
      cd_reason = Some (cstr ''modem enumeration failure''), cd_reason_len = 25\<rparr>"

text \<open>The state threaded through the cascade of \<^verbatim>\<open>timer_event\<close>: timers, action mask, clients.\<close>

type_synonym tstate = "(mmgr_timer_t \<times> u32 \<times> client_list_t) \<times> history"

definition stop_and :: "e_timer_type \<Rightarrow> u32 \<Rightarrow> tstate \<Rightarrow> tstate option" where
  "stop_and ty act s =
     (case s of ((t, a, cl), h) \<Rightarrow> Some ((snd (timer_stop t ty), a OR act, cl), h))"

definition tell :: "env \<Rightarrow> e_mmgr_events \<Rightarrow> cli_data \<Rightarrow> tstate \<Rightarrow> tstate option" where
  "tell E ev d s =
     (case s of ((t, a, cl), h) \<Rightarrow>
        do { ((_, cl'), h') \<leftarrow> clients_inform_all E cl ev d h; Some ((t, a, cl'), h') })"

definition on_elapsed ::
  "e_timer_type \<Rightarrow> timespec \<Rightarrow> (tstate \<Rightarrow> tstate option) \<Rightarrow> tstate \<Rightarrow> tstate option" where
  "on_elapsed ty cur body s = (if timer_is_elapsed (fst (fst s)) ty cur then body s else Some s)"

text \<open>
  The checks of the missing acknowledgements in the first two branches only print; their
  results are not used.
\<close>

definition timer_event ::
  "env \<Rightarrow> mmgr_timer_t \<Rightarrow> client_list_t \<Rightarrow> e_mmgr_state \<Rightarrow> bool \<Rightarrow> history \<Rightarrow>
     ((e_mmgr_errors \<times> mmgr_timer_t \<times> u32 \<times> client_list_t) \<times> history) option" where
  "timer_event E t cl state core_dump_signal_hw_working h =
     (let (cur, h0) = xtime E (Libc X_boottime) h in
      do { s1 \<leftarrow> on_elapsed E_TIMER_COLD_RESET_ACK cur
                  (stop_and E_TIMER_COLD_RESET_ACK E_TIMER_RESET) ((t, E_TIMER_NO_ACTION, cl), h0);
           s2 \<leftarrow> on_elapsed E_TIMER_MODEM_SHUTDOWN_ACK cur
                  (stop_and E_TIMER_MODEM_SHUTDOWN_ACK (E_TIMER_RESET OR E_TIMER_START_MDM_OFF)) s1;
           s3 \<leftarrow> on_elapsed E_TIMER_WAIT_FOR_IPC_READY cur
                  (\<lambda>s. do { sa \<leftarrow> tell E E_MMGR_RESPONSE_MODEM_FW_RESULT
                                   (D_fw_result (fw_error_code E_MODEM_FW_READY_TIMEOUT)) s;
                           sb \<leftarrow> tell E E_MMGR_NOTIFY_TFT_EVENT
                                   (D_tft_event (tft_error ''TFT_ERROR_IPC'' ''IPC READY not received'')) sa;
                           stop_and E_TIMER_WAIT_FOR_IPC_READY E_TIMER_RESET sb }) s2;
           s4 \<leftarrow> on_elapsed E_TIMER_WAIT_FOR_BUS_READY cur
                  (\<lambda>s. do { let msg = (if state = E_MMGR_MDM_CONF_ONGOING
                                       then ''BUS READY (Modem Mode) not received''
                                       else ''BUS READY (Flash Mode) not received'');
                           sa \<leftarrow> tell E E_MMGR_NOTIFY_TFT_EVENT
                                   (D_tft_event (tft_error ''TFT_ERROR_USB'' msg)) s;
                           stop_and E_TIMER_WAIT_FOR_BUS_READY E_TIMER_RESET sa }) s3;
           s5 \<leftarrow> on_elapsed E_TIMER_REBOOT_MODEM_DELAY cur
                  (stop_and E_TIMER_REBOOT_MODEM_DELAY E_TIMER_STREAMLINE) s4;
           s6 \<leftarrow> on_elapsed E_TIMER_CORE_DUMP_IPC_RESET cur
                  (stop_and E_TIMER_CORE_DUMP_IPC_RESET E_TIMER_CD_ERR) s5;
           s7 \<leftarrow> on_elapsed E_TIMER_WAIT_CORE_DUMP_READY cur
                  (\<lambda>s. do { sa \<leftarrow> stop_and E_TIMER_WAIT_CORE_DUMP_READY E_TIMER_RESET s;
                           if core_dump_signal_hw_working
                           then tell E E_MMGR_NOTIFY_CORE_DUMP_COMPLETE (D_core_dump cd_link_error) sa
                           else Some sa }) s6;
           s8 \<leftarrow> on_elapsed E_TIMER_MDM_FLASHING cur
                  (stop_and E_TIMER_MDM_FLASHING E_TIMER_CANCEL_FLASHING) s7;
           s9 \<leftarrow> on_elapsed E_TIMER_CORE_DUMP_READING cur
                  (stop_and E_TIMER_CORE_DUMP_READING E_TIMER_STOP_MCDR) s8;
           s10 \<leftarrow> on_elapsed E_TIMER_FMMO cur
                  (stop_and E_TIMER_FMMO E_TIMER_FINALIZE_MDM_OFF) s9;
           Some ((E_ERR_SUCCESS, fst s10), snd s10) })"

text \<open>A failed allocation gives the NULL handle; \<open>mcdr_timeout\<close> is \<^verbatim>\<open>mcdr->gnl.timeout\<close>.\<close>

definition timer_init ::
  "env \<Rightarrow> mmgr_recovery_t \<Rightarrow> mmgr_timings_t \<Rightarrow> int \<Rightarrow> history \<Rightarrow> mmgr_timer_t option \<times> history" where
  "timer_init E recov timings mcdr_timeout h =
     (let (ok, h1) = xint E (Libc (X_calloc 128)) h in
      (if ok = 0 then None
       else Some \<lparr>tm_type = 0,
         tm_timeout = (\<lambda>_. 0)
           (E_TIMER_COLD_RESET_ACK := rc_cold_timeout recov,
            E_TIMER_MODEM_SHUTDOWN_ACK := rc_shtdwn_timeout recov,
            E_TIMER_WAIT_FOR_IPC_READY := tg_ipc_ready timings,
            E_TIMER_WAIT_FOR_BUS_READY := tg_ipc_ready timings,
            E_TIMER_REBOOT_MODEM_DELAY := tg_ipc_ready timings,
            E_TIMER_CORE_DUMP_IPC_RESET := tg_cd_ipc_reset timings,
            E_TIMER_WAIT_CORE_DUMP_READY := tg_cd_ipc_ready timings,
            E_TIMER_MDM_FLASHING := tg_mdm_flash timings,
            E_TIMER_CORE_DUMP_READING := mcdr_timeout,
            E_TIMER_FMMO := tg_fmmo timings),
         tm_end = (\<lambda>_. \<lparr>tv_sec = 0, tv_nsec = 0\<rparr>)\<rparr>, h1))"

definition timer_get_value :: "env \<Rightarrow> mmgr_timer_t \<Rightarrow> e_timer_type \<Rightarrow> history \<Rightarrow> int \<times> history" where
  "timer_get_value E t ty h =
     (let (cur, h1) = xtime E (Libc X_boottime) h in
      (tm_timeout t ty * 1000 - timer_get_elapsed cur (tm_end t ty), h1))"

section \<open>The timer service\<close>

lemma timer_code_less_32 [simp]: "timer_code ty < 32"
  by (cases ty) simp_all

lemma timer_code_inject [simp]: "timer_code a = timer_code b \<longleftrightarrow> a = b"
  by (cases a; cases b) simp_all

lemma armed_bit: "armed t ty \<longleftrightarrow> bit (tm_type t) (timer_code ty)"
  by (simp add: armed_def flag_simps)

text \<open>
  What the modem and client event handlers rely on: starting arms one timer (if it is configured),
  stopping disarms one, and neither touches another.
\<close>

locale timer_service =
  fixes is_armed :: "'t \<Rightarrow> 'k \<Rightarrow> bool"
    and configured :: "'t \<Rightarrow> 'k \<Rightarrow> bool"
    and start :: "'t \<Rightarrow> 'k \<Rightarrow> 't"
    and stop :: "'t \<Rightarrow> 'k \<Rightarrow> 't"
    and stop_all :: "'t \<Rightarrow> 't"
  assumes start_armed: "is_armed (start t k) k' \<longleftrightarrow> is_armed t k' \<or> k' = k \<and> configured t k"
    and start_configured: "configured (start t k) = configured t"
    and stop_armed: "is_armed (stop t k) k' \<longleftrightarrow> is_armed t k' \<and> k' \<noteq> k"
    and stop_configured: "configured (stop t k) = configured t"
    and stop_all_armed: "\<not> is_armed (stop_all t) k"
    and stop_all_configured: "configured (stop_all t) = configured t"
begin

lemma start_stop: "is_armed (stop (start t k) k) k' \<longleftrightarrow> is_armed t k' \<and> k' \<noteq> k"
  by (auto simp: start_armed stop_armed)

lemma stop_start: "configured t k \<Longrightarrow> is_armed (start (stop t k) k) k' \<longleftrightarrow> is_armed t k' \<or> k' = k"
  by (auto simp: start_armed stop_armed stop_configured)

lemma stops_armed: "is_armed (fold (\<lambda>k t. stop t k) ks t) k' \<longleftrightarrow> is_armed t k' \<and> k' \<notin> set ks"
  by (induction ks arbitrary: t) (auto simp: stop_armed)

end

abbreviation timer_started :: "env \<Rightarrow> history \<Rightarrow> mmgr_timer_t \<Rightarrow> e_timer_type \<Rightarrow> mmgr_timer_t" where
  "timer_started E h t ty \<equiv> snd (fst (timer_start E t ty h))"

interpretation ts: timer_service armed "\<lambda>t ty. tm_timeout t ty \<noteq> 0" "timer_started E h"
  "\<lambda>t ty. snd (timer_stop t ty)" "\<lambda>t. snd (timer_stop_all t)"
  for E h
  by unfold_locales
    (auto simp: armed_bit timer_start_def timer_stop_def timer_stop_all_def xtime_def flag_simps)

subsection \<open>How long to sleep\<close>

definition remaining :: "mmgr_timer_t \<Rightarrow> timespec \<Rightarrow> e_timer_type \<Rightarrow> int" where
  "remaining t cur ty = max 0 (timer_get_elapsed cur (tm_end t ty))"

lemma timeout_loop_spec:
  "m \<ge> -1 \<Longrightarrow> timeout_loop t cur m tys =
     (let rs = map (remaining t cur) (filter (armed t) tys) in
      if rs = [] then m else if m = -1 then Min (set rs) else min m (Min (set rs)))"
proof (induction tys arbitrary: m)
  case Nil
  then show ?case by simp
next
  case (Cons ty tys)
  define d where "d = remaining t cur ty"
  have d: "(if timer_get_elapsed cur (tm_end t ty) < 0 then 0
      else timer_get_elapsed cur (tm_end t ty)) = d" "d \<ge> 0"
    by (simp_all add: d_def remaining_def)
  show ?case
  proof (cases "armed t ty")
    case False
    with Cons show ?thesis by (simp add: Let_def)
  next
    case True
    define rs where "rs = map (remaining t cur) (filter (armed t) tys)"
    define m' where "m' = (if m = -1 then d else if m > d then d else m)"
    have m': "m' \<ge> 0" using Cons.prems d(2) by (auto simp: m'_def)
    have "timeout_loop t cur m (ty # tys) = timeout_loop t cur m' tys"
      using True d(1) by (simp add: Let_def m'_def)
    also have "\<dots> = (if rs = [] then m' else min m' (Min (set rs)))"
      using Cons.IH [of m'] m' by (simp add: Let_def rs_def)
    also have "\<dots> = (if m = -1 then Min (set (d # rs)) else min m (Min (set (d # rs))))"
      using Cons.prems d(2) by (cases "rs = []") (auto simp: m'_def min_def)
    finally show ?thesis
      using True by (simp add: Let_def d_def rs_def)
  qed
qed

text \<open>
  The event loop sleeps until the next expiry: the timeout is infinite (-1) exactly when
  no timer is armed, and otherwise the smallest remaining time of an armed timer, never negative.
\<close>

theorem timer_get_timeout_spec:
  assumes "timer_get_timeout E t h = (n, h')" "cur = env_time E (Libc X_boottime # h)"
  shows "(n = -1 \<longleftrightarrow> (\<forall>ty \<in> set all_timers. \<not> armed t ty)) \<and>
    (\<forall>ty \<in> set all_timers. armed t ty \<longrightarrow> 0 \<le> n \<and> n \<le> remaining t cur ty) \<and>
    (n \<noteq> -1 \<longrightarrow> (\<exists>ty \<in> set all_timers. armed t ty \<and> n = remaining t cur ty))"
proof (cases "filter (armed t) all_timers = []")
  case True
  then have "n = -1"
    using assms by (auto simp: timer_get_timeout_def timeout_loop_spec xtime_def Let_def split: if_splits)
  with True show ?thesis by (simp add: filter_empty_conv)
next
  case False
  let ?rs = "remaining t cur ` set (filter (armed t) all_timers)"
  have "tm_type t \<noteq> 0"
    using False by (auto simp: filter_empty_conv armed_def)
  then have n: "n = Min ?rs"
    using assms False by (auto simp: timer_get_timeout_def timeout_loop_spec xtime_def Let_def)
  have fin: "finite ?rs" "?rs \<noteq> {}" using False by (auto simp: filter_empty_conv)
  have "n \<in> ?rs" unfolding n by (rule Min_in [OF fin])
  moreover have "n \<le> remaining t cur ty" if "ty \<in> set all_timers" "armed t ty" for ty
    unfolding n using that fin by (intro Min_le) auto
  moreover have "n \<ge> 0" using \<open>n \<in> ?rs\<close> by (auto simp: remaining_def)
  ultimately show ?thesis using False by (auto simp: filter_empty_conv)
qed

definition timer_example :: mmgr_timer_t where
  "timer_example = \<lparr>tm_type = flag 0 OR flag 7, tm_timeout = (\<lambda>_. 10),
     tm_end = (\<lambda>ty. \<lparr>tv_sec = (if ty = E_TIMER_MDM_FLASHING then -1 else 4), tv_nsec = 0\<rparr>)\<rparr>"

theorem timer_get_timeout_spec_witness:
  "fst (timer_get_timeout env_ok timer_example []) \<noteq> -1 \<and>
   fst (timer_get_timeout env_ok timer_example []) = 0"
proof -
  let ?r = "timer_get_timeout env_ok timer_example []"
  have e: "?r = (fst ?r, snd ?r)" by simp
  have flashing: "E_TIMER_MDM_FLASHING \<in> set all_timers" "armed timer_example E_TIMER_MDM_FLASHING"
    by (simp_all add: all_timers_def armed_bit timer_example_def flag_simps)
  have "remaining timer_example (env_time env_ok [Libc X_boottime]) E_TIMER_MDM_FLASHING = 0"
    by (simp add: remaining_def timer_example_def env_ok_def timer_get_elapsed_def)
  with timer_get_timeout_spec [OF e refl] flashing show ?thesis by force
qed

subsection \<open>Expiry\<close>

text \<open>The action each expiry asks for.\<close>

primrec timer_action :: "e_timer_type \<Rightarrow> u32" where
  "timer_action E_TIMER_COLD_RESET_ACK = E_TIMER_RESET"
| "timer_action E_TIMER_MODEM_SHUTDOWN_ACK = E_TIMER_RESET OR E_TIMER_START_MDM_OFF"
| "timer_action E_TIMER_WAIT_FOR_IPC_READY = E_TIMER_RESET"
| "timer_action E_TIMER_WAIT_FOR_BUS_READY = E_TIMER_RESET"
| "timer_action E_TIMER_REBOOT_MODEM_DELAY = E_TIMER_STREAMLINE"
| "timer_action E_TIMER_CORE_DUMP_IPC_RESET = E_TIMER_CD_ERR"
| "timer_action E_TIMER_WAIT_CORE_DUMP_READY = E_TIMER_RESET"
| "timer_action E_TIMER_MDM_FLASHING = E_TIMER_CANCEL_FLASHING"
| "timer_action E_TIMER_CORE_DUMP_READING = E_TIMER_STOP_MCDR"
| "timer_action E_TIMER_FMMO = E_TIMER_FINALIZE_MDM_OFF"
| "timer_action E_TIMER_NUM = E_TIMER_NO_ACTION"

text \<open>A branch of the cascade: it returns, stops its timer, adds its action and leaves the clients.\<close>

definition branch_ok :: "e_timer_type \<Rightarrow> (tstate \<Rightarrow> tstate option) \<Rightarrow> bool" where
  "branch_ok ty body \<longleftrightarrow>
     (\<forall>t a cl h. \<exists>h'. body ((t, a, cl), h) = Some ((snd (timer_stop t ty), a OR timer_action ty, cl), h'))"

lemma stop_and_branch: "act = timer_action ty \<Longrightarrow> branch_ok ty (stop_and ty act)"
  by (simp add: branch_ok_def stop_and_def)

lemma tell_other:
  assumes "alloc_ok E" "sendable ev d" "ev \<noteq> E_MMGR_EVENT_MODEM_DOWN" "ev \<noteq> E_MMGR_EVENT_MODEM_UP"
  shows "\<exists>h'. tell E ev d ((t, a, cl), h) = Some ((t, a, cl), h')"
proof -
  obtain r cl' h' where i: "clients_inform_all E cl ev d h = Some ((r, cl'), h')"
    by (rule inform_all_total [OF assms(1,2)])
  with inform_all_other [OF i assms(3,4)] show ?thesis by (simp add: tell_def)
qed

lemma branch_okE:
  assumes "branch_ok ty body"
  obtains h' where "body ((t, a, cl), h) = Some ((snd (timer_stop t ty), a OR timer_action ty, cl), h')"
  using assms unfolding branch_ok_def by blast

lemma branch_tell:
  assumes "alloc_ok E" "sendable ev d" "ev \<noteq> E_MMGR_EVENT_MODEM_DOWN" "ev \<noteq> E_MMGR_EVENT_MODEM_UP"
    and "branch_ok ty body"
  shows "branch_ok ty (\<lambda>s. Option.bind (tell E ev d s) body)"
    and "branch_ok ty (\<lambda>s. Option.bind (body s) (\<lambda>s. if c then tell E ev d s else Some s))"
  unfolding branch_ok_def
proof (intro allI)
  fix t a cl h
  obtain h1 where "tell E ev d ((t, a, cl), h) = Some ((t, a, cl), h1)"
    using tell_other [OF assms(1-4)] by blast
  moreover obtain h2 where
    "body ((t, a, cl), h1) = Some ((snd (timer_stop t ty), a OR timer_action ty, cl), h2)"
    using assms(5) by (rule branch_okE)
  ultimately show "\<exists>h'. Option.bind (tell E ev d ((t, a, cl), h)) body =
      Some ((snd (timer_stop t ty), a OR timer_action ty, cl), h')" by simp
next
  show "\<forall>t a cl h. \<exists>h'. Option.bind (body ((t, a, cl), h)) (\<lambda>s. if c then tell E ev d s else Some s) =
      Some ((snd (timer_stop t ty), a OR timer_action ty, cl), h')"
  proof (intro allI)
    fix t a cl h
    obtain h1 where b: "body ((t, a, cl), h) = Some ((snd (timer_stop t ty), a OR timer_action ty, cl), h1)"
      using assms(5) by (rule branch_okE)
    obtain h2 where "tell E ev d ((snd (timer_stop t ty), a OR timer_action ty, cl), h1) =
        Some ((snd (timer_stop t ty), a OR timer_action ty, cl), h2)"
      using tell_other [OF assms(1-4)] by blast
    with b show "\<exists>h'. Option.bind (body ((t, a, cl), h)) (\<lambda>s. if c then tell E ev d s else Some s) =
        Some ((snd (timer_stop t ty), a OR timer_action ty, cl), h')" by simp
  qed
qed

lemma tft_error_wf:
  "length ev_type < 1000 \<Longrightarrow> length msg < 500 \<Longrightarrow> tft_wf (tft_error ev_type msg)"
  by (simp add: tft_wf_def tft_error_def int_ok_def str_ok_def tft_array_def td_ok_def
      MMGR_CLI_MAX_TFT_EVENT_DATA_def MMGR_CLI_MAX_RECOVERY_CAUSE_LEN_def word_less_nat_alt unat_of_nat)

lemma cd_link_error_sendable: "sendable E_MMGR_NOTIFY_CORE_DUMP_COMPLETE (D_core_dump cd_link_error)"
  by (rule sendable_core_dump [where path = "[]" and reason = "cstr ''modem enumeration failure''"])
    (simp_all add: cd_link_error_def)

text \<open>What the cascade has done once the timers in \<open>D\<close> have been looked at.\<close>

definition cascade ::
  "mmgr_timer_t \<Rightarrow> client_list_t \<Rightarrow> timespec \<Rightarrow> e_timer_type set \<Rightarrow> tstate \<Rightarrow> bool" where
  "cascade t cl cur D s \<longleftrightarrow>
     (\<exists>t' a h. s = ((t', a, cl), h) \<and>
        tm_timeout t' = tm_timeout t \<and> tm_end t' = tm_end t \<and>
        (\<forall>ty. armed t' ty \<longleftrightarrow> armed t ty \<and> \<not> (ty \<in> D \<and> timer_is_elapsed t ty cur)) \<and>
        (\<forall>n. bit a n \<longleftrightarrow> (\<exists>ty\<in>D. timer_is_elapsed t ty cur \<and> bit (timer_action ty) n)))"

lemma cascade_step:
  assumes "cascade t cl cur D s" "ty \<notin> D" "branch_ok ty body"
  obtains s' where "on_elapsed ty cur body s = Some s'" "cascade t cl cur (insert ty D) s'"
proof -
  obtain t' a h where s: "s = ((t', a, cl), h)"
    and t': "tm_timeout t' = tm_timeout t" "tm_end t' = tm_end t"
    "\<And>k. armed t' k \<longleftrightarrow> armed t k \<and> \<not> (k \<in> D \<and> timer_is_elapsed t k cur)"
    and a: "\<And>n. bit a n \<longleftrightarrow> (\<exists>k\<in>D. timer_is_elapsed t k cur \<and> bit (timer_action k) n)"
    using assms(1) by (auto simp: cascade_def)
  have same: "timer_is_elapsed t' ty cur = timer_is_elapsed t ty cur"
    using assms(2) t' by (simp add: timer_is_elapsed_def)
  show thesis
  proof (cases "timer_is_elapsed t ty cur")
    case False
    then have "on_elapsed ty cur body s = Some s"
      using same by (simp add: on_elapsed_def s)
    moreover have "cascade t cl cur (insert ty D) s"
      using False t' a by (auto simp: cascade_def s)
    ultimately show thesis by (rule that)
  next
    case True
    obtain h' where "body s = Some ((snd (timer_stop t' ty), a OR timer_action ty, cl), h')"
      unfolding s using assms(3) by (rule branch_okE)
    then have "on_elapsed ty cur body s = Some ((snd (timer_stop t' ty), a OR timer_action ty, cl), h')"
      using True same by (simp add: on_elapsed_def s)
    moreover have "cascade t cl cur (insert ty D) ((snd (timer_stop t' ty), a OR timer_action ty, cl), h')"
      using True t' a by (auto simp: cascade_def ts.stop_armed bit_or_iff) (simp_all add: timer_stop_def)
    ultimately show thesis by (rule that)
  qed
qed

lemma cascade_start: "cascade t cl cur {} ((t, E_TIMER_NO_ACTION, cl), h)"
  by (simp add: cascade_def E_TIMER_NO_ACTION_def)

text \<open>The ten branches are branches in the above sense.\<close>

lemma timer_event_branches:
  assumes "alloc_ok E"
  shows "branch_ok E_TIMER_COLD_RESET_ACK (stop_and E_TIMER_COLD_RESET_ACK E_TIMER_RESET)"
    "branch_ok E_TIMER_MODEM_SHUTDOWN_ACK
       (stop_and E_TIMER_MODEM_SHUTDOWN_ACK (E_TIMER_RESET OR E_TIMER_START_MDM_OFF))"
    "branch_ok E_TIMER_WAIT_FOR_IPC_READY
       (\<lambda>s. do { sa \<leftarrow> tell E E_MMGR_RESPONSE_MODEM_FW_RESULT
                         (D_fw_result (fw_error_code E_MODEM_FW_READY_TIMEOUT)) s;
                 sb \<leftarrow> tell E E_MMGR_NOTIFY_TFT_EVENT
                         (D_tft_event (tft_error ''TFT_ERROR_IPC'' ''IPC READY not received'')) sa;
                 stop_and E_TIMER_WAIT_FOR_IPC_READY E_TIMER_RESET sb })"
    "branch_ok E_TIMER_WAIT_FOR_BUS_READY
       (\<lambda>s. do { let msg = (if state = E_MMGR_MDM_CONF_ONGOING
                             then ''BUS READY (Modem Mode) not received''
                             else ''BUS READY (Flash Mode) not received'');
                 sa \<leftarrow> tell E E_MMGR_NOTIFY_TFT_EVENT (D_tft_event (tft_error ''TFT_ERROR_USB'' msg)) s;
                 stop_and E_TIMER_WAIT_FOR_BUS_READY E_TIMER_RESET sa })"
    "branch_ok E_TIMER_REBOOT_MODEM_DELAY (stop_and E_TIMER_REBOOT_MODEM_DELAY E_TIMER_STREAMLINE)"
    "branch_ok E_TIMER_CORE_DUMP_IPC_RESET (stop_and E_TIMER_CORE_DUMP_IPC_RESET E_TIMER_CD_ERR)"
    "branch_ok E_TIMER_WAIT_CORE_DUMP_READY
       (\<lambda>s. do { sa \<leftarrow> stop_and E_TIMER_WAIT_CORE_DUMP_READY E_TIMER_RESET s;
                 if hw then tell E E_MMGR_NOTIFY_CORE_DUMP_COMPLETE (D_core_dump cd_link_error) sa
                 else Some sa })"
    "branch_ok E_TIMER_MDM_FLASHING (stop_and E_TIMER_MDM_FLASHING E_TIMER_CANCEL_FLASHING)"
    "branch_ok E_TIMER_CORE_DUMP_READING (stop_and E_TIMER_CORE_DUMP_READING E_TIMER_STOP_MCDR)"
    "branch_ok E_TIMER_FMMO (stop_and E_TIMER_FMMO E_TIMER_FINALIZE_MDM_OFF)"
  unfolding Let_def using assms
  by (intro branch_tell stop_and_branch sendable_results sendable_tft tft_error_wf
      cd_link_error_sendable; simp)+

lemma cascade_bind:
  assumes "cascade t cl cur D s" "ty \<notin> D" "branch_ok ty body"
    and "\<And>s'. cascade t cl cur (insert ty D) s' \<Longrightarrow> \<exists>s''. k s' = Some (f s'') \<and> Q s''"
  shows "\<exists>s''. Option.bind (on_elapsed ty cur body s) k = Some (f s'') \<and> Q s''"
proof -
  obtain s' where "on_elapsed ty cur body s = Some s'" "cascade t cl cur (insert ty D) s'"
    by (rule cascade_step [OF assms(1-3)])
  with assms(4) show ?thesis by simp
qed

lemma timer_event_cascade:
  assumes "alloc_ok E"
  shows "\<exists>s. timer_event E t cl state hw h = Some ((E_ERR_SUCCESS, fst s), snd s) \<and>
    cascade t cl (env_time E (Libc X_boottime # h)) (set all_timers) s"
  unfolding timer_event_def xtime_def Let_def prod.case
  apply (rule cascade_bind, rule cascade_start, simp, rule timer_event_branches [OF assms])
  apply (rule cascade_bind, assumption, simp, rule timer_event_branches [OF assms])
  apply (rule cascade_bind, assumption, simp, rule timer_event_branches [OF assms])
  apply (rule cascade_bind, assumption, simp, rule timer_event_branches [OF assms, unfolded Let_def])
  apply (rule cascade_bind, assumption, simp, rule timer_event_branches [OF assms])
  apply (rule cascade_bind, assumption, simp, rule timer_event_branches [OF assms])
  apply (rule cascade_bind, assumption, simp, rule timer_event_branches [OF assms])
  apply (rule cascade_bind, assumption, simp, rule timer_event_branches [OF assms])
  apply (rule cascade_bind, assumption, simp, rule timer_event_branches [OF assms])
  apply (rule cascade_bind, assumption, simp, rule timer_event_branches [OF assms])
  apply (auto simp: all_timers_def insert_commute)
  done

text \<open>
  C36: Expiry handling. \<^verbatim>\<open>timer_event\<close> returns (its notifications never trip an assertion),
  and afterwards a timer is armed exactly if it was armed and had not elapsed; the deadlines of the others
  and the table of clients are untouched. The action mask asks exactly for what the
  elapsed timers ask for: a modem reset after a missing acknowledgement, IPC or bus or core dump timeout,
  the shutdown only after a missing shutdown acknowledgement, and so on.
\<close>

theorem timer_event_spec:
  assumes "alloc_ok E" "cur = env_time E (Libc X_boottime # h)"
  shows "\<exists>t' act h'. timer_event E t cl state hw h = Some ((E_ERR_SUCCESS, t', act, cl), h') \<and>
    tm_end t' = tm_end t \<and> tm_timeout t' = tm_timeout t \<and>
    (\<forall>ty \<in> set all_timers. armed t' ty \<longleftrightarrow> armed t ty \<and> \<not> timer_is_elapsed t ty cur) \<and>
    (act AND E_TIMER_RESET \<noteq> 0 \<longleftrightarrow>
       timer_is_elapsed t E_TIMER_COLD_RESET_ACK cur \<or> timer_is_elapsed t E_TIMER_MODEM_SHUTDOWN_ACK cur \<or>
       timer_is_elapsed t E_TIMER_WAIT_FOR_IPC_READY cur \<or>
       timer_is_elapsed t E_TIMER_WAIT_FOR_BUS_READY cur \<or>
       timer_is_elapsed t E_TIMER_WAIT_CORE_DUMP_READY cur) \<and>
    (act AND E_TIMER_START_MDM_OFF \<noteq> 0 \<longleftrightarrow> timer_is_elapsed t E_TIMER_MODEM_SHUTDOWN_ACK cur) \<and>
    (act AND E_TIMER_FINALIZE_MDM_OFF \<noteq> 0 \<longleftrightarrow> timer_is_elapsed t E_TIMER_FMMO cur) \<and>
    (act AND E_TIMER_CD_ERR \<noteq> 0 \<longleftrightarrow> timer_is_elapsed t E_TIMER_CORE_DUMP_IPC_RESET cur) \<and>
    (act AND E_TIMER_CANCEL_FLASHING \<noteq> 0 \<longleftrightarrow> timer_is_elapsed t E_TIMER_MDM_FLASHING cur) \<and>
    (act AND E_TIMER_STOP_MCDR \<noteq> 0 \<longleftrightarrow> timer_is_elapsed t E_TIMER_CORE_DUMP_READING cur) \<and>
    (act AND E_TIMER_STREAMLINE \<noteq> 0 \<longleftrightarrow> timer_is_elapsed t E_TIMER_REBOOT_MODEM_DELAY cur)"
proof -
  obtain t' act h' where ev: "timer_event E t cl state hw h = Some ((E_ERR_SUCCESS, t', act, cl), h')"
    "tm_timeout t' = tm_timeout t" "tm_end t' = tm_end t"
    and arm: "\<And>ty. armed t' ty \<longleftrightarrow> armed t ty \<and> \<not> (ty \<in> set all_timers \<and> timer_is_elapsed t ty cur)"
    and bits: "\<And>n. bit act n \<longleftrightarrow>
      (\<exists>ty\<in>set all_timers. timer_is_elapsed t ty cur \<and> bit (timer_action ty) n)"
    using timer_event_cascade [OF assms(1), of t cl state hw h] assms(2)
    by (auto simp: cascade_def)
  show ?thesis
    by (rule exI [of _ t'], rule exI [of _ act], rule exI [of _ h'])
      (simp add: ev arm bits flag_simps timer_action_defs all_timers_def)
qed

theorem timer_event_spec_witness:
  "\<exists>t' act h'. timer_event env_ok timer_example clients_example E_MMGR_MDM_UP True [] =
     Some ((E_ERR_SUCCESS, t', act, clients_example), h') \<and>
     \<not> armed t' E_TIMER_MDM_FLASHING \<and> armed t' E_TIMER_COLD_RESET_ACK \<and>
     act AND E_TIMER_CANCEL_FLASHING \<noteq> 0 \<and> act AND E_TIMER_RESET = 0"
proof -
  let ?cur = "env_time env_ok [Libc X_boottime]"
  have a: "armed timer_example ty \<longleftrightarrow> ty = E_TIMER_MDM_FLASHING \<or> ty = E_TIMER_COLD_RESET_ACK" for ty
    by (cases ty) (simp_all add: armed_bit timer_example_def flag_simps)
  have e: "timer_is_elapsed timer_example ty ?cur \<longleftrightarrow> ty = E_TIMER_MDM_FLASHING" for ty
    unfolding timer_is_elapsed_def a by (auto simp: timer_example_def env_ok_def timer_get_elapsed_def)
  from timer_event_spec [OF alloc_ok_env_ok refl, of timer_example clients_example E_MMGR_MDM_UP True "[]"]
  show ?thesis by (auto simp: a e all_timers_def)
qed

text \<open>
  Arming a timer. A configured timer becomes armed and is due after exactly its
  configured timeout; a timer configured to zero is never armed by starting it; no other timer changes. A
  stopped timer no longer counts, and stopping all leaves nothing to wait for.
\<close>

theorem timer_start_stop_spec:
  assumes "timer_start E t ty h = ((r, t1), h1)" "timer_stop t1 ty' = (r', t2)"
    "timer_stop_all t1 = (r'', t3)"
  shows "r = E_ERR_SUCCESS \<and> r' = E_ERR_SUCCESS \<and> r'' = E_ERR_SUCCESS \<and>
    (\<forall>k. armed t1 k \<longleftrightarrow> armed t k \<or> k = ty \<and> tm_timeout t ty \<noteq> 0) \<and>
    (tm_timeout t ty \<noteq> 0 \<longrightarrow>
       timer_get_elapsed (env_time E (Libc X_boottime # h)) (tm_end t1 ty) = tm_timeout t ty * 1000) \<and>
    (\<forall>k. k \<noteq> ty \<longrightarrow> tm_end t1 k = tm_end t k) \<and>
    (\<forall>k. armed t2 k \<longleftrightarrow> armed t1 k \<and> k \<noteq> ty') \<and>
    fst (timer_get_timeout E t3 h1) = -1"
proof -
  have "t1 = timer_started E h t ty" "t2 = snd (timer_stop t1 ty')" "t3 = snd (timer_stop_all t1)"
    using assms by simp_all
  then have "(\<forall>k. armed t1 k \<longleftrightarrow> armed t k \<or> k = ty \<and> tm_timeout t ty \<noteq> 0)"
    "(\<forall>k. armed t2 k \<longleftrightarrow> armed t1 k \<and> k \<noteq> ty')"
    using ts.start_armed ts.stop_armed by auto
  moreover have "fst (timer_get_timeout E t3 h1) = -1"
    using assms(3) by (auto simp: timer_stop_all_def timer_get_timeout_def)
  ultimately show ?thesis
    using assms(1-3)
    by (auto simp: timer_start_def timer_stop_def timer_stop_all_def xtime_def timer_get_elapsed_def
        split: if_splits)
qed

theorem timer_start_stop_spec_witness:
  "armed (timer_started env_ok [] timer_example E_TIMER_FMMO) E_TIMER_FMMO \<and>
   \<not> armed (snd (timer_stop (timer_started env_ok [] timer_example E_TIMER_FMMO) E_TIMER_FMMO))
       E_TIMER_FMMO"
proof -
  let ?r = "timer_start env_ok timer_example E_TIMER_FMMO []"
  let ?t1 = "snd (fst ?r)"
  have 1: "?r = ((fst (fst ?r), ?t1), snd ?r)" by simp
  have 2: "timer_stop ?t1 E_TIMER_FMMO = (fst (timer_stop ?t1 E_TIMER_FMMO), snd (timer_stop ?t1 E_TIMER_FMMO))"
    and 3: "timer_stop_all ?t1 = (fst (timer_stop_all ?t1), snd (timer_stop_all ?t1))"
    by simp_all
  have "tm_timeout timer_example E_TIMER_FMMO \<noteq> 0" by (simp add: timer_example_def)
  with timer_start_stop_spec [OF 1 2 3] show ?thesis by blast
qed

end
