(* ===== verification/Bus_Events.thy ===== *)
theory Bus_Events
  imports Tty
begin

text \<open>
  USB enumeration events (\<^verbatim>\<open>core/bus_events.c\<close>): the callbacks of the USB host library queue
  additions and removals, and \<^verbatim>\<open>bus_ev_hdle_events\<close> turns the queue into the set of modem interfaces
  (flashing, baseband, core dump) that are present, with their paths.

  The theory also holds the configuration structures of TCS that describe the modem's
  links, restricted to the fields the code reads.
\<close>

section \<open>Configuration\<close>

datatype e_link = E_LINK_HSI | E_LINK_USB | E_LINK_SPI | E_LINK_UART | E_LINK_OTHER

datatype link_t =
    Link_hsi (hsi_device: string) (hsi_ctrl: string) (hsi_cmd: "byte list")
  | Link_usb (usb_device: string) (usb_pid: u16) (usb_vid: u16)
  | Link_spi (spi_device: string) (spi_high_speed: bool)
  | Link_uart (uart_device: string) (uart_baudrate: int)
  | Link_other

fun link_type :: "link_t \<Rightarrow> e_link" where
  "link_type (Link_hsi _ _ _) = E_LINK_HSI"
| "link_type (Link_usb _ _ _) = E_LINK_USB"
| "link_type (Link_spi _ _) = E_LINK_SPI"
| "link_type (Link_uart _ _) = E_LINK_UART"
| "link_type Link_other = E_LINK_OTHER"

section \<open>State\<close>

definition BUS_EV_CAPACITY :: nat where "BUS_EV_CAPACITY = 32"
definition MDM_FLASH_READY :: u32 where "MDM_FLASH_READY = flag 0"
definition MDM_BB_READY :: u32 where "MDM_BB_READY = flag 1"
definition MDM_CD_READY :: u32 where "MDM_CD_READY = flag 2"

lemmas MDM_READY_defs = MDM_FLASH_READY_def MDM_BB_READY_def MDM_CD_READY_def

datatype e_bus_ev = EV_NONE | EV_ADDED | EV_DELETED

record bus_event_t =
  be_path :: string
  be_event :: e_bus_ev

text \<open>
  The array of queued events and its fill level are the list of the filled entries. \<open>bus_ctx\<close>: the
  USB host context exists.
\<close>

record bus_ev_t =
  bus_ctx :: bool
  cli_evs :: "bus_event_t list"
  mdm_state :: u32
  wd_fd :: int
  modem_flash_path :: string
  modem_bb_path :: string
  modem_cd_path :: string
  modem_flash_pid :: u16
  modem_flash_vid :: u16
  modem_bb_pid :: u16
  modem_bb_vid :: u16
  modem_reconfig_pid :: u16
  modem_reconfig_vid :: u16
  mcdr_bb_pid :: u16
  mcdr_bb_vid :: u16

section \<open>Operations\<close>

definition add_ev ::
  "string \<Rightarrow> e_bus_ev \<Rightarrow> bus_event_t list \<Rightarrow> e_mmgr_errors \<times> bus_event_t list" where
  "add_ev path event evs =
     (if length evs \<ge> BUS_EV_CAPACITY then (E_ERR_FAILED, evs)
      else (E_ERR_SUCCESS, evs @ [\<lparr>be_path = take PATH_MAX path, be_event = event\<rparr>]))"

definition device_added_cb :: "string \<Rightarrow> bus_event_t list \<Rightarrow> e_mmgr_errors \<times> bus_event_t list" where
  "device_added_cb path evs = add_ev path EV_ADDED evs"

definition device_rmed_cb :: "string \<Rightarrow> bus_event_t list \<Rightarrow> e_mmgr_errors \<times> bus_event_t list" where
  "device_rmed_cb path evs = add_ev path EV_DELETED evs"

text \<open>The USB host library calls the callbacks for what it saw on the bus.\<close>

definition usb_callbacks :: "(bool \<times> string) list \<Rightarrow> bus_event_t list \<Rightarrow> bus_event_t list" where
  "usb_callbacks seen evs =
     fold (\<lambda>(added, path) q. snd (if added then device_added_cb path q else device_rmed_cb path q))
       seen evs"

definition is_pid_and_vid :: "env \<Rightarrow> string \<Rightarrow> u16 \<Rightarrow> u16 \<Rightarrow> history \<Rightarrow> bool \<times> history" where
  "is_pid_and_vid E dev pid vid h =
     (let (ppid, h1) = xint E (Plug (X_usb_product_id dev)) h;
          (pvid, h2) = xint E (Plug (X_usb_vendor_id dev)) h1 in
      (word_of_int ppid = pid \<and> word_of_int pvid = vid, h2))"

definition bus_ev_read :: "env \<Rightarrow> bus_ev_t option \<Rightarrow> history \<Rightarrow> (int \<times> bus_ev_t option) \<times> history" where
  "bus_ev_read E p h =
     (case p of
        None \<Rightarrow> ((0, None), h)
      | Some b \<Rightarrow>
          let (ev, h1) = xint E (Plug X_usb_read_event) h in
          ((ev, Some (b\<lparr>cli_evs := usb_callbacks (env_usb E h1) (cli_evs b)\<rparr>)), h1))"

text \<open>One iteration of the loop; a result of \<^term>\<open>None\<close> means that \<^verbatim>\<open>ret\<close> is left as it was.\<close>

definition hdle_added ::
  "env \<Rightarrow> bus_ev_t \<Rightarrow> string \<Rightarrow> history \<Rightarrow> (e_mmgr_errors option \<times> bus_ev_t) \<times> history" where
  "hdle_added E b path h =
     (let (dev, h1) = xint E (Plug (X_usb_open path)) h in
      if dev = 0 then ((None, b), h1)
      else
        let (flash, h2) = is_pid_and_vid E path (modem_flash_pid b) (modem_flash_vid b) h1 in
        if flash
        then ((Some E_ERR_SUCCESS, b\<lparr>mdm_state := mdm_state b OR MDM_FLASH_READY,
                modem_flash_path := path\<rparr>), xcall (Plug (X_usb_close path)) h2)
        else
          let (bb, h3) = is_pid_and_vid E path (modem_bb_pid b) (modem_bb_vid b) h2 in
          if bb
          then ((Some E_ERR_SUCCESS, b\<lparr>mdm_state := mdm_state b OR MDM_BB_READY,
                  modem_bb_path := path\<rparr>), xcall (Plug (X_usb_close path)) h3)
          else
            let (rc, h4) = is_pid_and_vid E path (modem_reconfig_pid b) (modem_reconfig_vid b) h3 in
            if rc
            then ((Some E_ERR_SUCCESS, b\<lparr>mdm_state := mdm_state b OR MDM_BB_READY,
                    modem_bb_path := path\<rparr>), xcall (Plug (X_usb_close path)) h4)
            else
              let (cd, h5) = is_pid_and_vid E path (mcdr_bb_pid b) (mcdr_bb_vid b) h4 in
              if cd
              then ((Some E_ERR_SUCCESS, b\<lparr>mdm_state := mdm_state b OR MDM_CD_READY,
                      modem_cd_path := path\<rparr>), xcall (Plug (X_usb_close path)) h5)
              else ((None, b), xcall (Plug (X_usb_close path)) h5))"

definition hdle_deleted :: "bus_ev_t \<Rightarrow> string \<Rightarrow> e_mmgr_errors option \<times> bus_ev_t" where
  "hdle_deleted b path =
     (if modem_flash_path b = path
      then (Some E_ERR_SUCCESS,
            b\<lparr>mdm_state := mdm_state b AND NOT MDM_FLASH_READY, modem_flash_path := ''''\<rparr>)
      else if modem_bb_path b = path
      then (Some E_ERR_SUCCESS,
            b\<lparr>mdm_state := mdm_state b AND NOT MDM_BB_READY, modem_bb_path := ''''\<rparr>)
      else if modem_cd_path b = path
      then (Some E_ERR_SUCCESS,
            b\<lparr>mdm_state := mdm_state b AND NOT MDM_CD_READY, modem_cd_path := ''''\<rparr>)
      else (None, b))"

definition hdle_one ::
  "env \<Rightarrow> bus_ev_t \<Rightarrow> bus_event_t \<Rightarrow> history \<Rightarrow> (e_mmgr_errors option \<times> bus_ev_t) \<times> history" where
  "hdle_one E b ev h =
     (case be_event ev of
        EV_ADDED \<Rightarrow> hdle_added E b (be_path ev) h
      | EV_DELETED \<Rightarrow> (hdle_deleted b (be_path ev), h)
      | EV_NONE \<Rightarrow> ((None, b), h))"

fun hdle_loop ::
  "env \<Rightarrow> bus_event_t list \<Rightarrow> e_mmgr_errors \<Rightarrow> bus_ev_t \<Rightarrow> history \<Rightarrow>
     (e_mmgr_errors \<times> bus_ev_t) \<times> history" where
  "hdle_loop E [] ret b h = ((ret, b), h)"
| "hdle_loop E (ev # evs) ret b h =
     (let ((r, b1), h1) = hdle_one E b ev h in
      hdle_loop E evs (case r of None \<Rightarrow> ret | Some x \<Rightarrow> x) b1 h1)"

definition bus_ev_hdle_events ::
  "env \<Rightarrow> bus_ev_t \<Rightarrow> history \<Rightarrow> (e_mmgr_errors \<times> bus_ev_t) \<times> history" where
  "bus_ev_hdle_events E b h =
     (let ((ret, b1), h1) = hdle_loop E (cli_evs b) E_ERR_FAILED b h in
      ((ret, b1\<lparr>cli_evs := []\<rparr>), h1))"

definition bus_ev_get_state :: "bus_ev_t option \<Rightarrow> u32" where
  "bus_ev_get_state p = (case p of None \<Rightarrow> 0 | Some b \<Rightarrow> mdm_state b)"

definition bus_ev_get_fd :: "bus_ev_t option \<Rightarrow> int" where
  "bus_ev_get_fd p = (case p of None \<Rightarrow> CLOSED_FD | Some b \<Rightarrow> wd_fd b)"

definition bus_ev_start :: "env \<Rightarrow> bus_ev_t \<Rightarrow> history \<Rightarrow> (e_mmgr_errors \<times> bus_ev_t) \<times> history" where
  "bus_ev_start E b h =
     (let (fd, h1) = xint E (Plug X_usb_get_fd) h in ((E_ERR_SUCCESS, b\<lparr>wd_fd := fd\<rparr>), h1))"

definition bus_ev_dispose :: "bus_ev_t option \<Rightarrow> history \<Rightarrow> e_mmgr_errors \<times> history" where
  "bus_ev_dispose p h =
     (case p of
        None \<Rightarrow> (E_ERR_SUCCESS, h)
      | Some b \<Rightarrow> (E_ERR_SUCCESS, if bus_ctx b then xcall (Plug X_usb_cleanup) h else h))"

text \<open>
  Each of the four interfaces in turn: the flags \<open>usb\<close> and \<open>err\<close> of the code and the
  pair of identifiers (zero when the interface is not on USB or is misconfigured).
\<close>

definition usb_ids :: "link_t \<Rightarrow> bool \<times> bool \<times> u16 \<times> u16" where
  "usb_ids l =
     (case l of
        Link_usb _ pid vid \<Rightarrow>
          if pid \<noteq> 0 \<and> vid \<noteq> 0 then (True, False, pid, vid) else (True, True, 0, 0)
      | _ \<Rightarrow> (False, False, 0, 0))"

definition bus_ev_init ::
  "env \<Rightarrow> link_t \<Rightarrow> link_t \<Rightarrow> link_t \<Rightarrow> link_t \<Rightarrow> history \<Rightarrow> bus_ev_t option \<times> history" where
  "bus_ev_init E fl bb rc cd h =
     (let (ok, h1) = xint E (Libc (X_calloc 209000)) h in
      if ok = 0 then (None, snd (bus_ev_dispose None h1))
      else
        let (u1, e1, p1, v1) = usb_ids fl; (u2, e2, p2, v2) = usb_ids bb;
            (u3, e3, p3, v3) = usb_ids rc; (u4, e4, p4, v4) = usb_ids cd;
            b = \<lparr>bus_ctx = False, cli_evs = [], mdm_state = 0, wd_fd = CLOSED_FD,
                 modem_flash_path = '''', modem_bb_path = '''', modem_cd_path = '''',
                 modem_flash_pid = p1, modem_flash_vid = v1, modem_bb_pid = p2, modem_bb_vid = v2,
                 modem_reconfig_pid = p3, modem_reconfig_vid = v3,
                 mcdr_bb_pid = p4, mcdr_bb_vid = v4\<rparr> in
        if (u1 \<or> u2 \<or> u3 \<or> u4) \<and> \<not> (e1 \<or> e2 \<or> e3 \<or> e4)
        then
          let (ctx, h2) = xint E (Plug X_usb_host_init) h1 in
          if ctx = 0 then (None, snd (bus_ev_dispose (Some b) h2))
          else
            let h3 = xcall (Plug X_usb_load) h2;
                b1 = b\<lparr>bus_ctx := True, cli_evs := usb_callbacks (env_usb E h3) []\<rparr>;
                ((_, b2), h4) = bus_ev_hdle_events E b1 h3 in
            (Some b2, h4)
        else (Some b, h1))"

definition bus_ev_get_flash_interface :: "bus_ev_t option \<Rightarrow> string option" where
  "bus_ev_get_flash_interface p = map_option modem_flash_path p"

section \<open>The interfaces that are present\<close>

text \<open>An interface is flagged ready exactly when its path is known.\<close>

definition bus_inv :: "bus_ev_t \<Rightarrow> bool" where
  "bus_inv b \<longleftrightarrow>
     (mdm_state b AND MDM_FLASH_READY \<noteq> 0 \<longleftrightarrow> modem_flash_path b \<noteq> '''') \<and>
     (mdm_state b AND MDM_BB_READY \<noteq> 0 \<longleftrightarrow> modem_bb_path b \<noteq> '''') \<and>
     (mdm_state b AND MDM_CD_READY \<noteq> 0 \<longleftrightarrow> modem_cd_path b \<noteq> '''')"

text \<open>What a consumer of the module can see of the three interfaces.\<close>

definition bus_view :: "bus_ev_t \<Rightarrow> u32 \<times> string \<times> string \<times> string" where
  "bus_view b = (mdm_state b, modem_flash_path b, modem_bb_path b, modem_cd_path b)"

lemma bus_inv_bits:
  "bus_inv b \<longleftrightarrow>
     (bit (mdm_state b) 0 \<longleftrightarrow> modem_flash_path b \<noteq> '''') \<and>
     (bit (mdm_state b) 1 \<longleftrightarrow> modem_bb_path b \<noteq> '''') \<and>
     (bit (mdm_state b) 2 \<longleftrightarrow> modem_cd_path b \<noteq> '''')"
  by (simp add: bus_inv_def MDM_READY_defs flag_simps)

lemma hdle_one_cases:
  assumes "hdle_one E b ev h = ((r, b'), h')"
  shows "r = None \<and> b' = b \<or> r = Some E_ERR_SUCCESS \<and>
    b' \<in> {b\<lparr>mdm_state := mdm_state b OR MDM_FLASH_READY, modem_flash_path := be_path ev\<rparr>,
          b\<lparr>mdm_state := mdm_state b OR MDM_BB_READY, modem_bb_path := be_path ev\<rparr>,
          b\<lparr>mdm_state := mdm_state b OR MDM_CD_READY, modem_cd_path := be_path ev\<rparr>,
          b\<lparr>mdm_state := mdm_state b AND NOT MDM_FLASH_READY, modem_flash_path := ''''\<rparr>,
          b\<lparr>mdm_state := mdm_state b AND NOT MDM_BB_READY, modem_bb_path := ''''\<rparr>,
          b\<lparr>mdm_state := mdm_state b AND NOT MDM_CD_READY, modem_cd_path := ''''\<rparr>}"
  using assms
  by (simp add: hdle_one_def hdle_added_def hdle_deleted_def Let_def split: e_bus_ev.splits prod.splits if_splits)

lemma hdle_one_step:
  assumes "hdle_one E b ev h = ((r, b'), h')" "bus_inv b" "be_path ev \<noteq> ''''"
  shows "bus_inv b'" and "r = None \<Longrightarrow> b' = b" and "r = None \<or> r = Some E_ERR_SUCCESS"
    and "cli_evs b' = cli_evs b"
  using hdle_one_cases [OF assms(1)] assms(2,3)
  by (auto simp: bus_inv_bits MDM_READY_defs flag_simps)

lemma hdle_loop_step:
  assumes "hdle_loop E evs ret b h = ((ret', b'), h')" "bus_inv b"
    and "\<forall>ev \<in> set evs. be_path ev \<noteq> ''''"
  shows "bus_inv b' \<and> (ret' = E_ERR_SUCCESS \<or> ret' = ret \<and> b' = b) \<and> cli_evs b' = cli_evs b"
  using assms
proof (induction evs arbitrary: ret b h)
  case Nil
  then show ?case by simp
next
  case (Cons ev evs)
  obtain r b1 h1 where one: "hdle_one E b ev h = ((r, b1), h1)" by (metis prod.exhaust)
  have "hdle_loop E evs (case r of None \<Rightarrow> ret | Some x \<Rightarrow> x) b1 h1 = ((ret', b'), h')"
    using Cons.prems(1) one by simp
  from Cons.IH [OF this] hdle_one_step [OF one Cons.prems(2)] Cons.prems(3)
  show ?case by (auto split: option.splits)
qed

text \<open>
  C40: The modem manager never believes in an interface without a path, or ignores one it has a path for:
  handling the queued USB events keeps every ready flag equal to ``the path is known'', empties the
  queue, and a batch that reports failure (no event concerned the modem) leaves the view of the
  interfaces unchanged.
\<close>

theorem bus_ready_iff_path:
  assumes "bus_inv b" "\<forall>ev \<in> set (cli_evs b). be_path ev \<noteq> ''''"
    and "bus_ev_hdle_events E b h = ((ret, b'), h')"
  shows "bus_inv b' \<and> cli_evs b' = [] \<and>
    (ret = E_ERR_SUCCESS \<or> ret = E_ERR_FAILED \<and> bus_view b' = bus_view b)"
proof -
  obtain b1 where "hdle_loop E (cli_evs b) E_ERR_FAILED b h = ((ret, b1), h')"
    and b': "b' = b1\<lparr>cli_evs := []\<rparr>"
    using assms(3) by (auto simp: bus_ev_hdle_events_def split: prod.splits)
  from hdle_loop_step [OF this(1) assms(1,2)] b' show ?thesis
    by (auto simp: bus_inv_def bus_view_def)
qed

definition bus_example :: bus_ev_t where
  "bus_example =
     \<lparr>bus_ctx = True,
      cli_evs = [\<lparr>be_path = ''/dev/bus/1'', be_event = EV_ADDED\<rparr>,
                 \<lparr>be_path = ''/dev/bus/2'', be_event = EV_DELETED\<rparr>],
      mdm_state = 0, wd_fd = 5, modem_flash_path = '''', modem_bb_path = '''', modem_cd_path = '''',
      modem_flash_pid = 7, modem_flash_vid = 1, modem_bb_pid = 1, modem_bb_vid = 1,
      modem_reconfig_pid = 2, modem_reconfig_vid = 2, mcdr_bb_pid = 3, mcdr_bb_vid = 3\<rparr>"

lemma bus_example_run:
  "bus_ev_hdle_events env_ok bus_example [] =
     ((E_ERR_SUCCESS, bus_example\<lparr>cli_evs := [], mdm_state := MDM_BB_READY,
        modem_bb_path := ''/dev/bus/1''\<rparr>), snd (bus_ev_hdle_events env_ok bus_example []))"
  by (simp add: bus_example_def bus_ev_hdle_events_def hdle_one_def hdle_added_def hdle_deleted_def
      is_pid_and_vid_def env_ok_def xint_def xcall_def Let_def)

theorem bus_ready_iff_path_witness:
  "bus_inv (bus_example\<lparr>cli_evs := [], mdm_state := MDM_BB_READY, modem_bb_path := ''/dev/bus/1''\<rparr>)"
  using bus_ready_iff_path [OF _ _ bus_example_run]
  by (simp add: bus_inv_bits) (simp add: bus_example_def)

subsection \<open>The queue\<close>

definition queued :: "bool \<times> string \<Rightarrow> bus_event_t" where
  "queued x = \<lparr>be_path = take PATH_MAX (snd x), be_event = (if fst x then EV_ADDED else EV_DELETED)\<rparr>"

lemma usb_callbacks_take:
  "length evs \<le> BUS_EV_CAPACITY \<Longrightarrow>
     usb_callbacks seen evs = take BUS_EV_CAPACITY (evs @ map queued seen)"
proof (induction seen arbitrary: evs)
  case Nil
  then show ?case by (simp add: usb_callbacks_def)
next
  case (Cons x seen)
  obtain added path where x: "x = (added, path)" by fastforce
  define q where "q = snd (add_ev path (if added then EV_ADDED else EV_DELETED) evs)"
  have step: "usb_callbacks (x # seen) evs = usb_callbacks seen q"
    by (simp add: usb_callbacks_def x q_def device_added_cb_def device_rmed_cb_def)
  have "length q \<le> BUS_EV_CAPACITY" using Cons.prems by (auto simp: q_def add_ev_def)
  from Cons.IH [OF this] Cons.prems show ?case
    unfolding step by (auto simp: q_def add_ev_def queued_def x not_le take_Cons')
qed

text \<open>
  The event queue cannot overflow: whatever burst the USB library delivers, the queue holds at
  most \<^verbatim>\<open>BUS_EV_CAPACITY\<close> events, namely the oldest ones, in order; only the newest are lost.
\<close>

theorem bus_queue_bounded:
  assumes "length (cli_evs b) \<le> BUS_EV_CAPACITY" "bus_ev_read E (Some b) h = ((ev, Some b'), h')"
  shows "length (cli_evs b') \<le> BUS_EV_CAPACITY \<and>
    cli_evs b' = take BUS_EV_CAPACITY (cli_evs b @ map queued (env_usb E h')) \<and>
    bus_view b' = bus_view b"
  using assms usb_callbacks_take [OF assms(1)]
  by (auto simp: bus_ev_read_def bus_view_def xint_def)

theorem bus_queue_bounded_witness:
  "length (cli_evs (the (snd (fst (bus_ev_read env_ok (Some bus_example) []))))) \<le> 32"
  using bus_queue_bounded [of bus_example env_ok "[]"]
  by (simp add: bus_ev_read_def xint_def BUS_EV_CAPACITY_def bus_example_def)

end
