(* ===== verification/Link.thy ===== *)
theory Link
  imports Bus_Events
begin

text \<open>
  The modem's links (\<^verbatim>\<open>core/link/link.c\<close>, \<^verbatim>\<open>ctrl.c\<close>, \<^verbatim>\<open>pm.c\<close>): which control and power-management
  files are written on which modem event, depending on the type of the baseband and core dump links. The
  delayed operation runs in a thread of its own: the caller only starts it; its body is
  \<open>delayed_link_on\<close>.

  The contract of a handler that drives one sysfs file is the locale \<open>file_switch\<close>.
\<close>

section \<open>Link control\<close>

record link_ctrl_t =
  lc_device :: string
  lc_on :: string
  lc_off :: string
  lc_reset :: string

record ctrl_link_t =
  cl_ctrl :: link_ctrl_t
  cl_type :: e_link

record ctrl_ctx_t =
  ctrl_mdm :: ctrl_link_t
  ctrl_cd :: ctrl_link_t

datatype e_ctrl_action = E_ACTION_ON | E_ACTION_OFF | E_ACTION_RESET

definition fill_ctrl_link :: "e_link \<Rightarrow> link_ctrl_t \<Rightarrow> ctrl_link_t" where
  "fill_ctrl_link ty ctrl = \<lparr>cl_ctrl = ctrl, cl_type = ty\<rparr>"

text \<open>A failed allocation or an empty device name on a USB link gives the NULL handle.\<close>

definition ctrl_init ::
  "env \<Rightarrow> e_link \<Rightarrow> link_ctrl_t \<Rightarrow> e_link \<Rightarrow> link_ctrl_t \<Rightarrow> history \<Rightarrow> ctrl_ctx_t option \<times> history" where
  "ctrl_init E mdm_type mc cd_type cc h =
     (let (ok, h1) = xint E (Libc (X_calloc 33000)) h in
      if ok = 0 then (None, h1)
      else if mdm_type = E_LINK_USB \<and> lc_device mc = '''' then (None, h1)
      else if cd_type = E_LINK_USB \<and> lc_device cc = '''' then (None, h1)
      else (Some \<lparr>ctrl_mdm = fill_ctrl_link mdm_type mc, ctrl_cd = fill_ctrl_link cd_type cc\<rparr>, h1))"

definition ctrl_set_state ::
  "env \<Rightarrow> link_ctrl_t \<Rightarrow> e_ctrl_action \<Rightarrow> history \<Rightarrow> e_mmgr_errors \<times> history" where
  "ctrl_set_state E ctrl action h =
     (let cmd = (case action of E_ACTION_OFF \<Rightarrow> lc_off ctrl | E_ACTION_ON \<Rightarrow> lc_on ctrl
                 | E_ACTION_RESET \<Rightarrow> lc_reset ctrl) in
      file_write E (lc_device ctrl) (cstr cmd) h)"

definition ctrl_on_mdm_down :: "env \<Rightarrow> ctrl_ctx_t \<Rightarrow> history \<Rightarrow> e_mmgr_errors \<times> history" where
  "ctrl_on_mdm_down E ctx h =
     (case cl_type (ctrl_mdm ctx) of
        E_LINK_HSI \<Rightarrow> (E_ERR_SUCCESS, h)
      | E_LINK_USB \<Rightarrow> ctrl_set_state E (cl_ctrl (ctrl_mdm ctx)) E_ACTION_OFF h
      | E_LINK_SPI \<Rightarrow> (E_ERR_SUCCESS, h)
      | E_LINK_UART \<Rightarrow> (E_ERR_SUCCESS, h)
      | E_LINK_OTHER \<Rightarrow> (E_ERR_FAILED, h))"

definition ctrl_on_mdm_reset_op :: "env \<Rightarrow> ctrl_ctx_t \<Rightarrow> history \<Rightarrow> e_mmgr_errors \<times> history" where
  "ctrl_on_mdm_reset_op E ctx h =
     (case cl_type (ctrl_mdm ctx) of
        E_LINK_HSI \<Rightarrow> (E_ERR_SUCCESS, h)
      | E_LINK_USB \<Rightarrow> ctrl_set_state E (cl_ctrl (ctrl_mdm ctx)) E_ACTION_ON h
      | E_LINK_UART \<Rightarrow> (E_ERR_SUCCESS, h)
      | E_LINK_SPI \<Rightarrow> (E_ERR_SUCCESS, h)
      | E_LINK_OTHER \<Rightarrow> (E_ERR_FAILED, h))"

text \<open>\<^verbatim>\<open>delay_do\<close>, the body of the threads that wait and then call a function.\<close>

definition delay_do :: "int \<Rightarrow> (history \<Rightarrow> 'a \<times> history) \<Rightarrow> history \<Rightarrow> history" where
  "delay_do delay_sec fn h = snd (fn (xcall (Libc (X_sleep delay_sec)) h))"

definition delayed_link_on :: "env \<Rightarrow> ctrl_ctx_t \<Rightarrow> int \<Rightarrow> history \<Rightarrow> history" where
  "delayed_link_on E ctx delay h = delay_do delay (ctrl_on_mdm_reset_op E ctx) h"

definition ctrl_on_mdm_reset :: "env \<Rightarrow> ctrl_ctx_t \<Rightarrow> int \<Rightarrow> history \<Rightarrow> e_mmgr_errors \<times> history" where
  "ctrl_on_mdm_reset E ctx delay h =
     (if delay > 0
      then (E_ERR_SUCCESS, xcall (Libc (X_thread_create (Thread_delayed_link_on delay))) h)
      else ctrl_on_mdm_reset_op E ctx h)"

text \<open>The switch looks at the modem's link type, the command goes to the core dump link.\<close>

definition ctrl_on_cd_ipc_failure :: "env \<Rightarrow> ctrl_ctx_t \<Rightarrow> history \<Rightarrow> e_mmgr_errors \<times> history" where
  "ctrl_on_cd_ipc_failure E ctx h =
     (case cl_type (ctrl_mdm ctx) of
        E_LINK_HSI \<Rightarrow> (E_ERR_SUCCESS, h)
      | E_LINK_USB \<Rightarrow> ctrl_set_state E (cl_ctrl (ctrl_cd ctx)) E_ACTION_RESET h
      | E_LINK_UART \<Rightarrow> (E_ERR_SUCCESS, h)
      | E_LINK_SPI \<Rightarrow> (E_ERR_SUCCESS, h)
      | E_LINK_OTHER \<Rightarrow> (E_ERR_FAILED, h))"

section \<open>Power management\<close>

record power_t =
  pw_device :: string
  pw_on :: string
  pw_off :: string

record pm_link_t =
  pl_power :: power_t
  pl_type :: e_link

record pm_ctx_t =
  pm_mdm :: pm_link_t
  pm_cd :: pm_link_t

definition fill_link :: "e_link \<Rightarrow> power_t \<Rightarrow> pm_link_t" where
  "fill_link ty p = \<lparr>pl_power = p, pl_type = ty\<rparr>"

definition pm_init ::
  "env \<Rightarrow> e_link \<Rightarrow> power_t \<Rightarrow> e_link \<Rightarrow> power_t \<Rightarrow> history \<Rightarrow> pm_ctx_t option \<times> history" where
  "pm_init E mdm_type mp cd_type cp h =
     (let (ok, h1) = xint E (Libc (X_calloc 25000)) h in
      if ok = 0 then (None, h1)
      else if mdm_type = E_LINK_USB \<and> pw_device mp = '''' then (None, h1)
      else if cd_type = E_LINK_UART \<and> pw_device cp = '''' then (None, h1)
      else (Some \<lparr>pm_mdm = fill_link mdm_type mp, pm_cd = fill_link cd_type cp\<rparr>, h1))"

definition pm_set_state :: "env \<Rightarrow> power_t \<Rightarrow> bool \<Rightarrow> history \<Rightarrow> e_mmgr_errors \<times> history" where
  "pm_set_state E p state h =
     file_write E (pw_device p) (cstr (if \<not> state then pw_off p else pw_on p)) h"

definition pm_on_mdm_up :: "env \<Rightarrow> pm_ctx_t \<Rightarrow> history \<Rightarrow> e_mmgr_errors \<times> history" where
  "pm_on_mdm_up E ctx h =
     (case pl_type (pm_mdm ctx) of
        E_LINK_HSI \<Rightarrow> (E_ERR_SUCCESS, h)
      | E_LINK_USB \<Rightarrow> pm_set_state E (pl_power (pm_mdm ctx)) True h
      | E_LINK_UART \<Rightarrow> (E_ERR_SUCCESS, h)
      | E_LINK_SPI \<Rightarrow> (E_ERR_SUCCESS, h)
      | E_LINK_OTHER \<Rightarrow> (E_ERR_FAILED, h))"

definition pm_on_cd :: "env \<Rightarrow> pm_ctx_t \<Rightarrow> history \<Rightarrow> e_mmgr_errors \<times> history" where
  "pm_on_cd E ctx h =
     (case pl_type (pm_cd ctx) of
        E_LINK_HSI \<Rightarrow> (E_ERR_SUCCESS, h)
      | E_LINK_USB \<Rightarrow> (E_ERR_SUCCESS, h)
      | E_LINK_SPI \<Rightarrow> (E_ERR_SUCCESS, h)
      | E_LINK_UART \<Rightarrow> pm_set_state E (pl_power (pm_cd ctx)) False h
      | E_LINK_OTHER \<Rightarrow> (E_ERR_FAILED, h))"

definition pm_on_cd_complete :: "env \<Rightarrow> pm_ctx_t \<Rightarrow> history \<Rightarrow> e_mmgr_errors \<times> history" where
  "pm_on_cd_complete E ctx h =
     (case pl_type (pm_cd ctx) of
        E_LINK_HSI \<Rightarrow> (E_ERR_SUCCESS, h)
      | E_LINK_USB \<Rightarrow> (E_ERR_SUCCESS, h)
      | E_LINK_SPI \<Rightarrow> (E_ERR_SUCCESS, h)
      | E_LINK_UART \<Rightarrow> pm_set_state E (pl_power (pm_cd ctx)) True h
      | E_LINK_OTHER \<Rightarrow> (E_ERR_FAILED, h))"

section \<open>Links\<close>

record link_ctx_t =
  lk_flash_ebl :: link_t
  lk_flash_fw :: link_t
  lk_bb :: link_t
  lk_cd_type :: e_link
  lk_ctrl :: ctrl_ctx_t
  lk_pm :: pm_ctx_t
  lk_ssic_hack :: bool

record mmgr_mdm_link_t =
  ml_flash_ebl :: link_t
  ml_flash_fw :: link_t
  ml_baseband :: link_t
  ml_ctrl :: link_ctrl_t
  ml_power :: power_t

text \<open>The descriptor is compared with \<open>>\<close>, so descriptor 0 counts as a failed open and is not closed.\<close>

definition link_set_spi_speed :: "env \<Rightarrow> string \<Rightarrow> bool \<Rightarrow> history \<Rightarrow> e_mmgr_errors \<times> history" where
  "link_set_spi_speed E device high_speed h =
     (let (fd, h1) = sys_open E device h in
      if fd > 0
      then let (r, h2) = xint E (Modem (X_spi_ioctl fd high_speed)) h1 in
           (if r = 0 then E_ERR_SUCCESS else E_ERR_FAILED, xcall (Sock (X_close fd)) h2)
      else (E_ERR_FAILED, h1))"

text \<open>\<open>bus\<close> is the bus handle of the link context, \<^term>\<open>None\<close> the NULL that the baseband getter passes.\<close>

definition link_get_flash_interface :: "link_t \<Rightarrow> bus_ev_t option \<Rightarrow> string option" where
  "link_get_flash_interface l bus =
     (case l of
        Link_usb d _ _ \<Rightarrow> (case bus of Some b \<Rightarrow> bus_ev_get_flash_interface (Some b) | None \<Rightarrow> Some d)
      | Link_hsi d _ _ \<Rightarrow> Some d
      | Link_uart d _ \<Rightarrow> Some d
      | Link_spi d _ \<Rightarrow> Some d
      | Link_other \<Rightarrow> None)"

definition link_on_mdm_reset :: "env \<Rightarrow> link_ctx_t \<Rightarrow> int \<Rightarrow> history \<Rightarrow> e_mmgr_errors \<times> history" where
  "link_on_mdm_reset E l delay h = ctrl_on_mdm_reset E (lk_ctrl l) delay h"

definition link_on_mdm_flash :: "env \<Rightarrow> link_ctx_t \<Rightarrow> history \<Rightarrow> e_mmgr_errors \<times> history" where
  "link_on_mdm_flash E l h =
     (if link_type (lk_flash_ebl l) = E_LINK_HSI
      then file_write E (hsi_ctrl (lk_flash_ebl l)) (hsi_cmd (lk_flash_ebl l)) h
      else if link_type (lk_flash_fw l) = E_LINK_SPI
      then link_set_spi_speed E (spi_device (lk_flash_fw l)) (spi_high_speed (lk_flash_fw l)) h
      else (E_ERR_SUCCESS, h))"

definition link_on_mdm_flash_complete :: "env \<Rightarrow> link_ctx_t \<Rightarrow> history \<Rightarrow> e_mmgr_errors \<times> history" where
  "link_on_mdm_flash_complete E l h =
     (let (ret, h1) =
        (if link_type (lk_bb l) = E_LINK_HSI
         then file_write E (hsi_ctrl (lk_bb l)) (hsi_cmd (lk_bb l)) h
         else if link_type (lk_bb l) = E_LINK_SPI
         then link_set_spi_speed E (spi_device (lk_bb l)) (spi_high_speed (lk_bb l)) h
         else (E_ERR_SUCCESS, h)) in
      (ret, if lk_ssic_hack l then snd (ctrl_on_mdm_reset E (lk_ctrl l) 15 h1) else h1))"

definition link_on_mdm_up :: "env \<Rightarrow> link_ctx_t \<Rightarrow> history \<Rightarrow> e_mmgr_errors \<times> history" where
  "link_on_mdm_up E l h = pm_on_mdm_up E (lk_pm l) h"

definition link_on_cd :: "env \<Rightarrow> link_ctx_t \<Rightarrow> history \<Rightarrow> e_mmgr_errors \<times> history" where
  "link_on_cd E l h = pm_on_cd E (lk_pm l) h"

definition link_on_cd_complete :: "env \<Rightarrow> link_ctx_t \<Rightarrow> history \<Rightarrow> e_mmgr_errors \<times> history" where
  "link_on_cd_complete E l h = pm_on_cd_complete E (lk_pm l) h"

definition link_on_cd_failure :: "env \<Rightarrow> link_ctx_t \<Rightarrow> history \<Rightarrow> e_mmgr_errors \<times> history" where
  "link_on_cd_failure E l h = ctrl_on_cd_ipc_failure E (lk_ctrl l) h"

definition link_on_mdm_down :: "env \<Rightarrow> link_ctx_t \<Rightarrow> history \<Rightarrow> e_mmgr_errors \<times> history" where
  "link_on_mdm_down E l h = ctrl_on_mdm_down E (lk_ctrl l) h"

definition link_get_flash_ebl_interface :: "link_ctx_t \<Rightarrow> bus_ev_t \<Rightarrow> string option" where
  "link_get_flash_ebl_interface l bus = link_get_flash_interface (lk_flash_ebl l) (Some bus)"

definition link_get_flash_fw_interface :: "link_ctx_t \<Rightarrow> bus_ev_t \<Rightarrow> string option" where
  "link_get_flash_fw_interface l bus = link_get_flash_interface (lk_flash_fw l) (Some bus)"

definition link_get_bb_interface :: "link_ctx_t \<Rightarrow> string option" where
  "link_get_bb_interface l = link_get_flash_interface (lk_bb l) None"

definition link_get_flash_ebl_type :: "link_ctx_t \<Rightarrow> e_link" where
  "link_get_flash_ebl_type l = link_type (lk_flash_ebl l)"

definition link_get_flash_fw_type :: "link_ctx_t \<Rightarrow> e_link" where
  "link_get_flash_fw_type l = link_type (lk_flash_fw l)"

definition link_get_bb_type :: "link_ctx_t \<Rightarrow> e_link" where
  "link_get_bb_type l = link_type (lk_bb l)"

definition link_get_cd_type :: "link_ctx_t \<Rightarrow> e_link" where
  "link_get_cd_type l = lk_cd_type l"

definition link_get_ebl_baudrate :: "link_ctx_t \<Rightarrow> int" where
  "link_get_ebl_baudrate l =
     (case lk_flash_ebl l of Link_uart _ baud \<Rightarrow> baud | _ \<Rightarrow> 0)"

text \<open>\<^term>\<open>None\<close>: one of the assertions fails.\<close>

definition link_init ::
  "env \<Rightarrow> mmgr_mdm_link_t \<Rightarrow> e_link \<Rightarrow> link_ctrl_t \<Rightarrow> power_t \<Rightarrow> bool \<Rightarrow> history \<Rightarrow>
     (link_ctx_t \<times> history) option" where
  "link_init E links cd_type cd_ctrl cd_power ssic_hack h =
     (let (ok, h1) = xint E (Libc (X_calloc 60000)) h in
      if ok = 0 then None
      else
        let bb = link_type (ml_baseband links);
            (ctrl, h2) = ctrl_init E bb (ml_ctrl links) cd_type cd_ctrl h1;
            (pm, h3) = pm_init E bb (ml_power links) cd_type cd_power h2 in
        do { c \<leftarrow> ctrl; p \<leftarrow> pm;
             Some (\<lparr>lk_flash_ebl = ml_flash_ebl links, lk_flash_fw = ml_flash_fw links,
                    lk_bb = ml_baseband links, lk_cd_type = cd_type, lk_ctrl = c, lk_pm = p,
                    lk_ssic_hack = ssic_hack\<rparr>, h3) })"

section \<open>Handlers that drive one file\<close>

text \<open>
  A handler looks at the type of one link. On the type it is for it writes one command into one
  file, on any other known type it does nothing, and an unknown type is an error.
\<close>

locale file_switch =
  fixes handler :: "env \<Rightarrow> 'c \<Rightarrow> history \<Rightarrow> e_mmgr_errors \<times> history"
    and kind :: "'c \<Rightarrow> e_link"
    and active :: e_link
    and device :: "'c \<Rightarrow> string"
    and command :: "'c \<Rightarrow> string"
  assumes on_active: "kind c = active \<Longrightarrow> handler E c h = file_write E (device c) (cstr (command c)) h"
    and on_idle: "kind c \<noteq> active \<Longrightarrow> kind c \<noteq> E_LINK_OTHER \<Longrightarrow> handler E c h = (E_ERR_SUCCESS, h)"
    and on_unknown: "kind c = E_LINK_OTHER \<Longrightarrow> handler E c h = (E_ERR_FAILED, h)"
    and active_known: "active \<noteq> E_LINK_OTHER"
begin

text \<open>Success means that the command was delivered, or that there was nothing to do.\<close>

lemma success_delivered:
  assumes "handler E c h = (E_ERR_SUCCESS, h')" "command c \<noteq> ''''" "length (command c) < 2 ^ 31"
  shows "if kind c = active then delivered E (device c) (cstr (command c)) h h' else h' = h"
proof (cases "kind c = active")
  case True
  moreover have "file_write E (device c) (cstr (command c)) h = (E_ERR_SUCCESS, h')"
    using assms(1) on_active [OF True] by simp
  from file_write_success [OF this] assms(2,3) have
    "delivered E (device c) (cstr (command c)) h h'"
    by (simp add: cstr_def)
  ultimately show ?thesis by simp
next
  case False
  then show ?thesis
    using assms(1) on_idle [OF False, of E h] on_unknown [of c E h] by (cases "kind c = E_LINK_OTHER") auto
qed

lemma unknown_fails: "kind c = E_LINK_OTHER \<Longrightarrow> fst (handler E c h) = E_ERR_FAILED"
  using on_unknown by simp

end

interpretation sw_down: file_switch link_on_mdm_down "\<lambda>l. cl_type (ctrl_mdm (lk_ctrl l))" E_LINK_USB
  "\<lambda>l. lc_device (cl_ctrl (ctrl_mdm (lk_ctrl l)))" "\<lambda>l. lc_off (cl_ctrl (ctrl_mdm (lk_ctrl l)))"
  by unfold_locales
    (auto simp: link_on_mdm_down_def ctrl_on_mdm_down_def ctrl_set_state_def split: e_link.splits)

interpretation sw_reset: file_switch "\<lambda>E l. link_on_mdm_reset E l 0"
  "\<lambda>l. cl_type (ctrl_mdm (lk_ctrl l))" E_LINK_USB
  "\<lambda>l. lc_device (cl_ctrl (ctrl_mdm (lk_ctrl l)))" "\<lambda>l. lc_on (cl_ctrl (ctrl_mdm (lk_ctrl l)))"
  by unfold_locales
    (auto simp: link_on_mdm_reset_def ctrl_on_mdm_reset_def ctrl_on_mdm_reset_op_def ctrl_set_state_def
      split: e_link.splits)

interpretation sw_cd_failure: file_switch link_on_cd_failure
  "\<lambda>l. cl_type (ctrl_mdm (lk_ctrl l))" E_LINK_USB
  "\<lambda>l. lc_device (cl_ctrl (ctrl_cd (lk_ctrl l)))" "\<lambda>l. lc_reset (cl_ctrl (ctrl_cd (lk_ctrl l)))"
  by unfold_locales
    (auto simp: link_on_cd_failure_def ctrl_on_cd_ipc_failure_def ctrl_set_state_def split: e_link.splits)

interpretation sw_up: file_switch link_on_mdm_up "\<lambda>l. pl_type (pm_mdm (lk_pm l))" E_LINK_USB
  "\<lambda>l. pw_device (pl_power (pm_mdm (lk_pm l)))" "\<lambda>l. pw_on (pl_power (pm_mdm (lk_pm l)))"
  by unfold_locales
    (auto simp: link_on_mdm_up_def pm_on_mdm_up_def pm_set_state_def split: e_link.splits)

interpretation sw_cd: file_switch link_on_cd "\<lambda>l. pl_type (pm_cd (lk_pm l))" E_LINK_UART
  "\<lambda>l. pw_device (pl_power (pm_cd (lk_pm l)))" "\<lambda>l. pw_off (pl_power (pm_cd (lk_pm l)))"
  by unfold_locales
    (auto simp: link_on_cd_def pm_on_cd_def pm_set_state_def split: e_link.splits)

interpretation sw_cd_complete: file_switch link_on_cd_complete "\<lambda>l. pl_type (pm_cd (lk_pm l))"
  E_LINK_UART
  "\<lambda>l. pw_device (pl_power (pm_cd (lk_pm l)))" "\<lambda>l. pw_on (pl_power (pm_cd (lk_pm l)))"
  by unfold_locales
    (auto simp: link_on_cd_complete_def pm_on_cd_complete_def pm_set_state_def split: e_link.splits)

lemma link_init_fields:
  assumes "link_init E links cdt cc cp ssic h0 = Some (l, h1)"
  shows "cl_type (ctrl_mdm (lk_ctrl l)) = link_type (ml_baseband links)"
    and "cl_ctrl (ctrl_mdm (lk_ctrl l)) = ml_ctrl links"
    and "cl_ctrl (ctrl_cd (lk_ctrl l)) = cc" and "pl_type (pm_mdm (lk_pm l)) = link_type (ml_baseband links)"
    and "pl_power (pm_mdm (lk_pm l)) = ml_power links" and "pl_type (pm_cd (lk_pm l)) = cdt"
    and "pl_power (pm_cd (lk_pm l)) = cp" and "link_get_bb_type l = link_type (ml_baseband links)"
  using assms
  by (auto simp: link_init_def ctrl_init_def pm_init_def fill_ctrl_link_def fill_link_def
      link_get_bb_type_def xint_def Let_def split: if_splits)

text \<open>The commands of a configuration are non-empty strings of reasonable size.\<close>

definition link_cmds_ok :: "mmgr_mdm_link_t \<Rightarrow> link_ctrl_t \<Rightarrow> power_t \<Rightarrow> bool" where
  "link_cmds_ok links cc cp \<longleftrightarrow>
     (\<forall>s \<in> {lc_on (ml_ctrl links), lc_off (ml_ctrl links), lc_reset cc, pw_on (ml_power links),
             pw_on cp, pw_off cp}. s \<noteq> '''' \<and> length s < 2 ^ 31)"

text \<open>
  The links follow the modem. On a platform whose baseband is on USB, a successful link operation
  means that the right command was completely delivered to the right file: \<open>on\<close> before a reset, \<open>off\<close> when
  the modem goes down, the power-management \<open>on\<close> when it is up; the core dump power file
  is driven only for a UART core dump link, \<open>off\<close> during the dump and \<open>on\<close> after it. On
  any other supported link nothing is touched.
\<close>

theorem link_follows_modem:
  assumes "link_init E0 links cdt cc cp ssic h0 = Some (l, h1)" "link_cmds_ok links cc cp"
  defines "usb \<equiv> link_type (ml_baseband links) = E_LINK_USB" and "uart \<equiv> cdt = E_LINK_UART"
  shows "(link_on_mdm_reset E l 0 h = (E_ERR_SUCCESS, h') \<longrightarrow>
       (if usb then delivered E (lc_device (ml_ctrl links)) (cstr (lc_on (ml_ctrl links))) h h' else h' = h))
    \<and> (link_on_mdm_down E l h = (E_ERR_SUCCESS, h') \<longrightarrow>
       (if usb then delivered E (lc_device (ml_ctrl links)) (cstr (lc_off (ml_ctrl links))) h h' else h' = h))
    \<and> (link_on_mdm_up E l h = (E_ERR_SUCCESS, h') \<longrightarrow>
       (if usb then delivered E (pw_device (ml_power links)) (cstr (pw_on (ml_power links))) h h' else h' = h))
    \<and> (link_on_cd E l h = (E_ERR_SUCCESS, h') \<longrightarrow>
       (if uart then delivered E (pw_device cp) (cstr (pw_off cp)) h h' else h' = h))
    \<and> (link_on_cd_complete E l h = (E_ERR_SUCCESS, h') \<longrightarrow>
       (if uart then delivered E (pw_device cp) (cstr (pw_on cp)) h h' else h' = h))"
proof -
  note f = link_init_fields [OF assms(1)]
  note d = sw_reset.success_delivered [of E l h h', unfolded f]
    sw_down.success_delivered [of E l h h', unfolded f]
    sw_up.success_delivered [of E l h h', unfolded f] sw_cd.success_delivered [of E l h h', unfolded f]
    sw_cd_complete.success_delivered [of E l h h', unfolded f]
  show ?thesis
    unfolding usb_def uart_def using assms(2)
    by (intro conjI impI; elim d) (simp_all add: link_cmds_ok_def)
qed

definition links_example :: mmgr_mdm_link_t where
  "links_example =
     \<lparr>ml_flash_ebl = Link_usb ''/dev/ttyACM1'' 7 1, ml_flash_fw = Link_usb ''/dev/ttyACM1'' 7 1,
      ml_baseband = Link_usb ''/dev/ttyACM0'' 1 1,
      ml_ctrl = \<lparr>lc_device = ''/sys/ctrl'', lc_on = ''1'', lc_off = ''0'', lc_reset = ''2''\<rparr>,
      ml_power = \<lparr>pw_device = ''/sys/power'', pw_on = ''on'', pw_off = ''off''\<rparr>\<rparr>"

definition cd_ctrl_example :: link_ctrl_t where
  "cd_ctrl_example = \<lparr>lc_device = ''/sys/cd'', lc_on = ''1'', lc_off = ''0'', lc_reset = ''2''\<rparr>"

definition cd_power_example :: power_t where
  "cd_power_example = \<lparr>pw_device = ''/sys/cdpower'', pw_on = ''on'', pw_off = ''off''\<rparr>"

definition link_example :: link_ctx_t where
  "link_example = fst (the (link_init env_ok links_example E_LINK_USB cd_ctrl_example cd_power_example
     False []))"

lemma link_example_init:
  "link_init env_ok links_example E_LINK_USB cd_ctrl_example cd_power_example False [] =
     Some (link_example, snd (the (link_init env_ok links_example E_LINK_USB cd_ctrl_example
       cd_power_example False [])))"
  by (simp add: link_example_def link_init_def ctrl_init_def pm_init_def links_example_def
      cd_ctrl_example_def cd_power_example_def xint_def env_ok_def Let_def)

text \<open>An environment in which files are open as descriptor 3, accept everything and close.\<close>

definition env_files :: env where
  "env_files = env_ok\<lparr>env_int := (\<lambda>h. case h of Sock (X_close _) # _ \<Rightarrow> 0 | _ \<Rightarrow> 3)\<rparr>"

theorem link_follows_modem_witness:
  "delivered env_files ''/sys/ctrl'' (cstr ''0'') []
     (snd (link_on_mdm_down env_files link_example []))"
proof -
  let ?h = "snd (link_on_mdm_down env_files link_example [])"
  have "link_on_mdm_down env_files link_example [] = (E_ERR_SUCCESS, ?h)"
    by (simp add: link_example_def link_init_def ctrl_init_def pm_init_def links_example_def
        cd_ctrl_example_def cd_power_example_def xint_def env_ok_def Let_def fill_ctrl_link_def
        link_on_mdm_down_def ctrl_on_mdm_down_def ctrl_set_state_def file_write_def sys_open_def
        sys_write_def env_files_def cstr_def)
  moreover have "link_cmds_ok links_example cd_ctrl_example cd_power_example"
    by (simp add: link_cmds_ok_def links_example_def cd_ctrl_example_def cd_power_example_def)
  ultimately show ?thesis
    using link_follows_modem [OF link_example_init, where E = env_files and h = "[]" and h' = ?h]
    by (simp add: links_example_def)
qed

end
