(* ===== verification/Mcd.thy ===== *)
theory Mcd
  imports Link
begin

text \<open>
  The modem control driver (\<^verbatim>\<open>core/mdm_mcd.c\<close>): power on, power off and cold reset of the modem, the
  modem state as the event loop sees it, and the set of driver states the daemon is woken up for.

  An \<^verbatim>\<open>ioctl\<close> succeeds when it answers 0. With \<^verbatim>\<open>ssic_hack\<close> a cold reset powers the modem off and leaves it
  to a delayed thread, whose body is \<open>delayed_mcd_up\<close>, to power it on again.
\<close>

section \<open>State\<close>

definition E_EV_NONE :: u32 where "E_EV_NONE = 0"
definition E_EV_MODEM_SELF_RESET :: u32 where "E_EV_MODEM_SELF_RESET = flag 0"
definition E_EV_CORE_DUMP :: u32 where "E_EV_CORE_DUMP = flag 1"
definition E_EV_IPC_READY :: u32 where "E_EV_IPC_READY = flag 2"
definition E_EV_FW_DOWNLOAD_READY :: u32 where "E_EV_FW_DOWNLOAD_READY = flag 3"
definition E_EV_MODEM_OFF :: u32 where "E_EV_MODEM_OFF = flag 4"

lemmas E_EV_defs = E_EV_NONE_def E_EV_MODEM_SELF_RESET_def E_EV_CORE_DUMP_def E_EV_IPC_READY_def
  E_EV_FW_DOWNLOAD_READY_def E_EV_MODEM_OFF_def

record mmgr_mcd_ctx_t =
  mcd_fd :: int
  mcd_ssic_hack :: bool
  mcd_off_allowed :: bool
  mcd_flashless :: bool
  mcd_ipc_ready_present :: bool
  mcd_filter :: "mdm_ctrl_state set"
  mcd_link :: link_ctx_t

section \<open>Operations\<close>

abbreviation ioctl :: "env \<Rightarrow> int \<Rightarrow> mdm_ctrl_cmd \<Rightarrow> history \<Rightarrow> int \<times> history" where
  "ioctl E fd cmd h \<equiv> xint E (Modem (X_ioctl fd cmd)) h"

definition mdm_mcd_cold_reset :: "env \<Rightarrow> mmgr_mcd_ctx_t \<Rightarrow> history \<Rightarrow> e_mmgr_errors \<times> history" where
  "mdm_mcd_cold_reset E mcd h =
     (if mcd_ssic_hack mcd
      then
        let (r, h1) = ioctl E (mcd_fd mcd) MDM_CTRL_POWER_OFF h in
        if r = 0
        then (E_ERR_SUCCESS, xcall (Libc (X_thread_create (Thread_delayed_mcd_up 8))) h1)
        else (E_ERR_FAILED, h1)
      else
        let (r, h1) = ioctl E (mcd_fd mcd) MDM_CTRL_COLD_RESET h in
        if r = 0 then (E_ERR_SUCCESS, h1) else (E_ERR_FAILED, h1))"

definition mdm_mcd_down :: "env \<Rightarrow> mmgr_mcd_ctx_t \<Rightarrow> history \<Rightarrow> e_mmgr_errors \<times> history" where
  "mdm_mcd_down E mcd h =
     (let h1 = (if \<not> mcd_ssic_hack mcd then snd (link_on_mdm_down E (mcd_link mcd) h) else h);
          (r, h2) = ioctl E (mcd_fd mcd) MDM_CTRL_POWER_OFF h1;
          ret = (if r = 0 then E_ERR_SUCCESS else E_ERR_FAILED) in
      (ret, if mcd_ssic_hack mcd
            then snd (link_on_mdm_down E (mcd_link mcd) (xcall (Libc (X_sleep 8)) h2)) else h2))"

definition mdm_mcd_off :: "env \<Rightarrow> mmgr_mcd_ctx_t \<Rightarrow> history \<Rightarrow> e_mmgr_errors \<times> history" where
  "mdm_mcd_off E mcd h =
     (if mcd_off_allowed mcd then mdm_mcd_down E mcd h else mdm_mcd_cold_reset E mcd h)"

text \<open>
  On a flash-based modem the result of the power-on is overwritten by that of the cold reset
  that follows.
\<close>

definition mdm_mcd_up :: "env \<Rightarrow> mmgr_mcd_ctx_t \<Rightarrow> history \<Rightarrow> e_mmgr_errors \<times> history" where
  "mdm_mcd_up E mcd h =
     (let delay = (if mcd_ssic_hack mcd then 1 else 0);
          (_, h1) = link_on_mdm_reset E (mcd_link mcd) delay h;
          (r, h2) = ioctl E (mcd_fd mcd) MDM_CTRL_GET_STATE h1;
          state = env_states E h2 in
      if r = 0
      then
        let (ret, h5) =
          (if MDM_CTRL_STATE_OFF \<in> state
           then
             let (p, h3) = ioctl E (mcd_fd mcd) MDM_CTRL_POWER_ON h2;
                 ret1 = (if p \<noteq> 0 then E_ERR_FAILED else E_ERR_SUCCESS) in
             if \<not> mcd_flashless mcd
             then mdm_mcd_cold_reset E mcd (xcall (Libc (X_sleep 1)) h3)
             else (ret1, h3)
           else mdm_mcd_cold_reset E mcd h2) in
        (ret, if ret = E_ERR_SUCCESS then h5 else snd (link_on_mdm_down E (mcd_link mcd) h5))
      else (E_ERR_FAILED, h2))"

definition delayed_mcd_up :: "env \<Rightarrow> mmgr_mcd_ctx_t \<Rightarrow> int \<Rightarrow> history \<Rightarrow> history" where
  "delayed_mcd_up E mcd delay h = delay_do delay (mdm_mcd_up E mcd) h"

text \<open>The events of one read of the driver; the hang-up reasons are cleared in every case.\<close>

definition state_events :: "mdm_ctrl_state set \<Rightarrow> u32" where
  "state_events read =
     (let s0 = E_EV_NONE;
          s1 = (if MDM_CTRL_STATE_OFF \<in> read then s0 OR E_EV_MODEM_OFF else s0);
          s2 = (if MDM_CTRL_STATE_IPC_READY \<in> read then s1 OR E_EV_IPC_READY else s1);
          s3 = (if MDM_CTRL_STATE_COREDUMP \<in> read then s2 OR E_EV_CORE_DUMP else s2) in
      if MDM_CTRL_STATE_FW_DOWNLOAD_READY \<in> read then s3 OR E_EV_FW_DOWNLOAD_READY else s3)"

definition mdm_mcd_get_state :: "env \<Rightarrow> mmgr_mcd_ctx_t \<Rightarrow> history \<Rightarrow> u32 \<times> history" where
  "mdm_mcd_get_state E mcd h =
     (let (r, h1) = ioctl E (mcd_fd mcd) MDM_CTRL_GET_STATE h;
          (state, h2) =
            (if r \<noteq> 0 then (E_EV_NONE, h1)
             else
               let s = state_events (env_states E h1);
                   (r2, h2) = ioctl E (mcd_fd mcd) MDM_CTRL_GET_HANGUP_REASONS h1 in
               (if r2 = 0 \<and> env_hu_reset E h2 then s OR E_EV_MODEM_SELF_RESET else s, h2)) in
      (state, snd (ioctl E (mcd_fd mcd) MDM_CTRL_CLEAR_HANGUP_REASONS h2)))"

definition mdm_mcd_update_filter :: "env \<Rightarrow> mmgr_mcd_ctx_t \<Rightarrow> history \<Rightarrow> e_mmgr_errors \<times> history" where
  "mdm_mcd_update_filter E mcd h =
     (let (r, h1) = ioctl E (mcd_fd mcd) (MDM_CTRL_SET_POLLED_STATES (mcd_filter mcd)) h in
      (if r = 0 then E_ERR_SUCCESS else E_ERR_FAILED, h1))"

definition mdm_mcd_register ::
  "env \<Rightarrow> mmgr_mcd_ctx_t \<Rightarrow> mdm_ctrl_state set \<Rightarrow> bool \<Rightarrow> history \<Rightarrow>
     (e_mmgr_errors \<times> mmgr_mcd_ctx_t) \<times> history" where
  "mdm_mcd_register E mcd events overwrite h =
     (let mcd1 = mcd\<lparr>mcd_filter := (if \<not> overwrite then mcd_filter mcd \<union> events else events)\<rparr>;
          (ret, h1) = mdm_mcd_update_filter E mcd1 h in
      ((ret, mcd1), h1))"

definition mdm_mcd_unregister ::
  "env \<Rightarrow> mmgr_mcd_ctx_t \<Rightarrow> mdm_ctrl_state set \<Rightarrow> history \<Rightarrow>
     (e_mmgr_errors \<times> mmgr_mcd_ctx_t) \<times> history" where
  "mdm_mcd_unregister E mcd events h =
     (let mcd1 = mcd\<lparr>mcd_filter := mcd_filter mcd - events\<rparr>;
          (ret, h1) = mdm_mcd_update_filter E mcd1 h in
      ((ret, mcd1), h1))"

definition mdm_mcd_configure ::
  "env \<Rightarrow> int \<Rightarrow> int \<Rightarrow> string \<Rightarrow> history \<Rightarrow> e_mmgr_errors \<times> history" where
  "mdm_mcd_configure E fd board mdm_name h =
     (let ty = (if mdm_name = ''6360'' then MODEM_6360 else if mdm_name = ''7160'' then MODEM_7160
                else if mdm_name = ''7260'' then MODEM_7260 else if mdm_name = ''2230'' then MODEM_2230
                else MODEM_UNSUP);
          (r, h1) = ioctl E fd (MDM_CTRL_SET_CFG board ty) h in
      (if r \<noteq> 0 \<and> env_errno E h1 \<noteq> EBUSY then E_ERR_FAILED else E_ERR_SUCCESS, h1))"

definition mdm_mcd_get_fd :: "mmgr_mcd_ctx_t \<Rightarrow> int" where
  "mdm_mcd_get_fd mcd = mcd_fd mcd"

definition mdm_mcd_is_ipc_ready_present :: "mmgr_mcd_ctx_t \<Rightarrow> bool" where
  "mdm_mcd_is_ipc_ready_present mcd = mcd_ipc_ready_present mcd"

text \<open>
  \<open>board_aob\<close> is the value of the kernel header's constant \<^verbatim>\<open>BOARD_AOB\<close>. The first \<^term>\<open>None\<close> is the
  failed assertion on the allocation, the inner one the NULL handle.
\<close>

definition mdm_mcd_init ::
  "env \<Rightarrow> string \<Rightarrow> int \<Rightarrow> int \<Rightarrow> string \<Rightarrow> bool \<Rightarrow> link_ctx_t \<Rightarrow> bool \<Rightarrow> bool \<Rightarrow> history \<Rightarrow>
     (mmgr_mcd_ctx_t option \<times> history) option" where
  "mdm_mcd_init E path board board_aob name flashless l off_allowed ssic_hack h =
     (let (ok, h1) = xint E (Libc (X_calloc 20)) h in
      if ok = 0 then None
      else
        let (fd, h2) = sys_open E path h1 in
        if fd = -1 then Some (None, xcall (Sock (X_close fd)) h2)
        else
          let (_, h3) = mdm_mcd_configure E fd board name h2;
              mcd = \<lparr>mcd_fd = fd, mcd_ssic_hack = ssic_hack, mcd_off_allowed = off_allowed,
                     mcd_flashless = flashless, mcd_ipc_ready_present = (board = board_aob),
                     mcd_filter = {MDM_CTRL_STATE_COREDUMP}, mcd_link = l\<rparr>;
              (_, h4) = mdm_mcd_update_filter E mcd h3 in
          Some (Some mcd, h4))"

definition mdm_mcd_dispose :: "mmgr_mcd_ctx_t \<Rightarrow> history \<Rightarrow> history" where
  "mdm_mcd_dispose mcd = xcall (Sock (X_close (mcd_fd mcd)))"

section \<open>What the driver is asked to do\<close>

text \<open>The commands sent to the driver so far, newest first.\<close>

fun ioctls :: "history \<Rightarrow> mdm_ctrl_cmd list" where
  "ioctls [] = []"
| "ioctls (Modem (X_ioctl _ cmd) # h) = cmd # ioctls h"
| "ioctls (c # h) = ioctls h"

lemma ioctls_xcall [simp]:
  "ioctls (Sock c # h) = ioctls h" "ioctls (File d # h) = ioctls h" "ioctls (Libc e # h) = ioctls h"
  by (cases c; simp; cases d; simp; cases e; simp)+

lemma ioctls_file_write [simp]: "ioctls (snd (file_write E path v h)) = ioctls h"
  by (simp add: file_write_def sys_open_def sys_write_def xint_def Let_def)

lemma ioctls_link [simp]:
  "ioctls (snd (link_on_mdm_down E l h)) = ioctls h"
  "ioctls (snd (link_on_mdm_reset E l delay h)) = ioctls h"
  by (simp_all add: link_on_mdm_down_def ctrl_on_mdm_down_def ctrl_set_state_def link_on_mdm_reset_def
      ctrl_on_mdm_reset_def ctrl_on_mdm_reset_op_def xcall_def split: e_link.splits)

lemma cold_reset_ioctls:
  "ioctls (snd (mdm_mcd_cold_reset E mcd h)) =
     (if mcd_ssic_hack mcd then MDM_CTRL_POWER_OFF else MDM_CTRL_COLD_RESET) # ioctls h"
  by (simp add: mdm_mcd_cold_reset_def xint_def xcall_def Let_def)

lemma down_ioctls: "ioctls (snd (mdm_mcd_down E mcd h)) = MDM_CTRL_POWER_OFF # ioctls h"
  by (simp add: mdm_mcd_down_def xint_def xcall_def Let_def)

text \<open>
  A modem that must not be turned off is not turned off. Declaring the modem out of
  service sends exactly one command to the driver: a power-off if the platform allows it (or
  resets by power cycling), and otherwise a cold reset.
\<close>

theorem modem_off_command:
  "ioctls (snd (mdm_mcd_off E mcd h)) =
     (if mcd_off_allowed mcd \<or> mcd_ssic_hack mcd then MDM_CTRL_POWER_OFF else MDM_CTRL_COLD_RESET)
     # ioctls h"
  by (simp add: mdm_mcd_off_def cold_reset_ioctls down_ioctls)

text \<open>
  Powering the modem on. Once the link is switched on the driver's state decides: an
  unreadable driver is a failure without any power command; a modem that is off is powered on, and,
  if it is flash-based, reset as well; a modem that is on is reset. The result is that of the last
  command, and after a failed command the link is switched off again.
\<close>

theorem mcd_up_spec:
  assumes "\<not> mcd_ssic_hack mcd" "mdm_mcd_up E mcd h = (ret, h')"
  defines "h1 \<equiv> Modem (X_ioctl (mcd_fd mcd) MDM_CTRL_GET_STATE)
    # snd (link_on_mdm_reset E (mcd_link mcd) 0 h)"
  shows "ioctls h' =
      (if env_int E h1 \<noteq> 0 then []
       else if MDM_CTRL_STATE_OFF \<notin> env_states E h1 then [MDM_CTRL_COLD_RESET]
       else if mcd_flashless mcd then [MDM_CTRL_POWER_ON]
       else [MDM_CTRL_COLD_RESET, MDM_CTRL_POWER_ON]) @ MDM_CTRL_GET_STATE # ioctls h \<and>
    (ret = E_ERR_SUCCESS \<longrightarrow> env_int E h1 = 0 \<and> env_int E h' = 0) \<and>
    (ret \<noteq> E_ERR_SUCCESS \<longrightarrow> (env_int E h1 \<noteq> 0 \<and> h' = h1) \<or>
      (\<exists>h2. env_int E h2 \<noteq> 0 \<and> h' = snd (link_on_mdm_down E (mcd_link mcd) h2)))"
  using assms
  by (auto simp: mdm_mcd_up_def mdm_mcd_cold_reset_def xint_def xcall_def Let_def case_prod_unfold
      split: if_splits)

definition mcd_example :: mmgr_mcd_ctx_t where
  "mcd_example =
     \<lparr>mcd_fd = 4, mcd_ssic_hack = False, mcd_off_allowed = True, mcd_flashless = True,
      mcd_ipc_ready_present = True, mcd_filter = {MDM_CTRL_STATE_COREDUMP}, mcd_link = link_example\<rparr>"

text \<open>Every driver call succeeds and the modem is off.\<close>

definition env_driver :: env where
  "env_driver = env_files\<lparr>env_int := (\<lambda>h. case h of Modem _ # _ \<Rightarrow> 0 | _ \<Rightarrow> env_int env_files h),
                          env_states := (\<lambda>_. {MDM_CTRL_STATE_OFF})\<rparr>"

theorem mcd_up_spec_witness:
  "ioctls (snd (mdm_mcd_up env_driver mcd_example [])) = [MDM_CTRL_POWER_ON, MDM_CTRL_GET_STATE]"
  using mcd_up_spec [of mcd_example env_driver "[]"]
  by (simp add: mcd_example_def env_driver_def prod_eq_iff)

subsection \<open>Reading the driver\<close>

lemma state_events_bits:
  "bit (state_events read) n \<longleftrightarrow>
     n = 4 \<and> MDM_CTRL_STATE_OFF \<in> read \<or> n = 2 \<and> MDM_CTRL_STATE_IPC_READY \<in> read \<or>
     n = 1 \<and> MDM_CTRL_STATE_COREDUMP \<in> read \<or> n = 3 \<and> MDM_CTRL_STATE_FW_DOWNLOAD_READY \<in> read"
  by (auto simp: state_events_def E_EV_defs flag_simps Let_def)

text \<open>
  Reading the modem state reports each condition of the driver as its own event and invents none; a
  driver that cannot be read reports nothing; and the hang-up reasons are cleared
  every time, so that one self-reset is reported once.
\<close>

theorem mcd_get_state_spec:
  assumes "mdm_mcd_get_state E mcd h = (ev, h')"
  defines "h1 \<equiv> Modem (X_ioctl (mcd_fd mcd) MDM_CTRL_GET_STATE) # h"
  defines "h2 \<equiv> Modem (X_ioctl (mcd_fd mcd) MDM_CTRL_GET_HANGUP_REASONS) # h1"
  shows "(ev AND E_EV_MODEM_OFF \<noteq> 0 \<longleftrightarrow> env_int E h1 = 0 \<and> MDM_CTRL_STATE_OFF \<in> env_states E h1) \<and>
    (ev AND E_EV_IPC_READY \<noteq> 0 \<longleftrightarrow> env_int E h1 = 0 \<and> MDM_CTRL_STATE_IPC_READY \<in> env_states E h1) \<and>
    (ev AND E_EV_CORE_DUMP \<noteq> 0 \<longleftrightarrow> env_int E h1 = 0 \<and> MDM_CTRL_STATE_COREDUMP \<in> env_states E h1) \<and>
    (ev AND E_EV_FW_DOWNLOAD_READY \<noteq> 0 \<longleftrightarrow>
       env_int E h1 = 0 \<and> MDM_CTRL_STATE_FW_DOWNLOAD_READY \<in> env_states E h1) \<and>
    (ev AND E_EV_MODEM_SELF_RESET \<noteq> 0 \<longleftrightarrow>
       env_int E h1 = 0 \<and> env_int E h2 = 0 \<and> env_hu_reset E h2) \<and>
    hd (ioctls h') = MDM_CTRL_CLEAR_HANGUP_REASONS"
  using assms
  by (auto simp: mdm_mcd_get_state_def xint_def Let_def flag_simps state_events_bits E_EV_defs
      split: if_splits)

theorem mcd_get_state_spec_witness:
  "fst (mdm_mcd_get_state env_driver mcd_example []) AND E_EV_MODEM_OFF \<noteq> 0"
  using mcd_get_state_spec [of env_driver mcd_example "[]"]
  by (simp add: prod_eq_iff env_driver_def)

lemma register_filter [simp]:
  "mcd_filter (snd (fst (mdm_mcd_register E mcd ev ow h))) = (if ow then ev else mcd_filter mcd \<union> ev)"
  "mcd_filter (snd (fst (mdm_mcd_unregister E mcd ev h))) = mcd_filter mcd - ev"
  by (simp_all add: mdm_mcd_register_def mdm_mcd_unregister_def Let_def case_prod_unfold)

text \<open>The driver always holds the filter of the context after an update.\<close>

lemma register_polled:
  "hd (ioctls (snd (mdm_mcd_register E mcd ev ow h))) =
     MDM_CTRL_SET_POLLED_STATES (mcd_filter (snd (fst (mdm_mcd_register E mcd ev ow h))))"
  "hd (ioctls (snd (mdm_mcd_unregister E mcd ev h))) =
     MDM_CTRL_SET_POLLED_STATES (mcd_filter (snd (fst (mdm_mcd_unregister E mcd ev h))))"
  by (simp_all add: mdm_mcd_register_def mdm_mcd_unregister_def mdm_mcd_update_filter_def xint_def Let_def
      case_prod_unfold)

end
