(* ===== verification/Core_Dump.thy ===== *)
theory Core_Dump
  imports Mcd
begin

text \<open>
  The core dump reader (\<^verbatim>\<open>core/core_dump.c\<close>), which calls a library in a thread of its own, and the
  contract that it shares with the flashing module: at most one worker thread, every
  thread that was started is joined. The contract is the locale \<open>worker\<close>.

  A worker runs concurrently with the event loop, but the loop looks at its results only after having joined
  it; the model runs the thread's body at the join. A call through a function pointer of a
  library that was not loaded is \<^term>\<open>None\<close>.
\<close>

section \<open>Worker threads\<close>

text \<open>Threads of a kind that were created and not joined.\<close>

fun alive :: "worker_thread \<Rightarrow> history \<Rightarrow> int" where
  "alive w [] = 0"
| "alive w (c # h) =
     (if c = Libc (X_thread_create w) then alive w h + 1
      else if c = Libc (X_thread_join w) then alive w h - 1 else alive w h)"

datatype worker_op = W_start | W_finish

locale worker =
  fixes w :: worker_thread
    and running :: "'s \<Rightarrow> bool"
    and start :: "env \<Rightarrow> 's \<Rightarrow> history \<Rightarrow> (e_mmgr_errors \<times> 's) \<times> history"
    and finish :: "env \<Rightarrow> 's \<Rightarrow> history \<Rightarrow> ('s \<times> history) option"
  assumes start_idle: "\<not> running s \<Longrightarrow> start E s h = ((r, s'), h') \<Longrightarrow>
      r = E_ERR_SUCCESS \<and> running s' \<and> alive w h' = alive w h + 1"
    and start_busy: "running s \<Longrightarrow> start E s h = ((E_ERR_FAILED, s), h)"
    and finish_running: "running s \<Longrightarrow> finish E s h = Some (s', h') \<Longrightarrow>
      \<not> running s' \<and> alive w h' = alive w h - 1"
    and finish_idle: "\<not> running s \<Longrightarrow> finish E s h = Some (s, h)"
begin

definition balanced :: "'s \<Rightarrow> history \<Rightarrow> bool" where
  "balanced s h \<longleftrightarrow> alive w h = (if running s then 1 else 0)"

fun run :: "env \<Rightarrow> worker_op list \<Rightarrow> 's \<Rightarrow> history \<Rightarrow> ('s \<times> history) option" where
  "run E [] s h = Some (s, h)"
| "run E (W_start # ops) s h = (let ((_, s1), h1) = start E s h in run E ops s1 h1)"
| "run E (W_finish # ops) s h = (case finish E s h of None \<Rightarrow> None | Some (s1, h1) \<Rightarrow> run E ops s1 h1)"

lemma start_balanced: "balanced s h \<Longrightarrow> start E s h = ((r, s'), h') \<Longrightarrow> balanced s' h'"
  using start_idle [of s E h r s' h'] start_busy [of s E h] by (cases "running s") (auto simp: balanced_def)

lemma finish_balanced: "balanced s h \<Longrightarrow> finish E s h = Some (s', h') \<Longrightarrow> balanced s' h'"
  using finish_running [of s E h s' h'] finish_idle [of s E h] by (cases "running s") (auto simp: balanced_def)

text \<open>Whatever the order of starts and finishes, there is never more than one thread.\<close>

lemma run_balanced: "balanced s h \<Longrightarrow> run E ops s h = Some (s', h') \<Longrightarrow> balanced s' h'"
proof (induction ops arbitrary: s h)
  case Nil
  then show ?case by simp
next
  case (Cons op ops)
  then show ?case
    by (cases op) (auto split: option.splits prod.splits intro: start_balanced finish_balanced)
qed

lemma run_single: "balanced s h \<Longrightarrow> run E ops s h = Some (s', h') \<Longrightarrow> alive w h' \<in> {0, 1}"
  using run_balanced [of s h E ops s' h'] by (simp add: balanced_def)

end

section \<open>The core dump reader\<close>

text \<open>\<open>mc_lib\<close>: the library is loaded and its functions resolved.\<close>

record mcdr_ctx_t =
  mc_enabled :: bool
  mc_running :: bool
  mc_pipe_read :: int
  mc_pipe_write :: int
  mc_lib :: bool
  mc_path :: string
  mc_enable_cd_log :: bool
  mc_mdm_version :: string
  mc_version_size :: nat
  mc_coredump_file :: string

text \<open>
  The parameters are the fields of \<^verbatim>\<open>mcdr_info_t\<close> that are read and the size of the version string in the
  library's structure. \<^term>\<open>None\<close>: an assertion fails.
  \<^verbatim>\<open>calloc\<close> leaves both descriptors of a disabled reader at 0.
\<close>

definition mcdr_init ::
  "env \<Rightarrow> bool \<Rightarrow> string \<Rightarrow> bool \<Rightarrow> nat \<Rightarrow> history \<Rightarrow> (mcdr_ctx_t \<times> history) option" where
  "mcdr_init E enable path cd_log version_size h =
     (let (ok, h1) = xint E (Libc (X_calloc 9000)) h;
          off = \<lparr>mc_enabled = False, mc_running = False, mc_pipe_read = 0, mc_pipe_write = 0,
                 mc_lib = False, mc_path = '''', mc_enable_cd_log = False, mc_mdm_version = '''',
                 mc_version_size = version_size, mc_coredump_file = ''''\<rparr> in
      if ok = 0 then None
      else if \<not> enable then Some (off, h1)
      else
        let (hdle, h2) = xint E (Libc (X_dlopen ''libmcdr.so'')) h1 in
        if hdle = 0 then Some (off, h2)
        else
          let (missing, h3) = xint E (Libc (X_dlerror ''libmcdr.so'')) h2 in
          if missing \<noteq> 0 then None
          else
            let (r, h4) = xint E (Sock X_pipe) h3 in
            if r \<noteq> 0 then None
            else Some (off\<lparr>mc_enabled := True, mc_lib := True, mc_path := path,
                           mc_enable_cd_log := cd_log, mc_pipe_read := env_int2 E h4,
                           mc_pipe_write := env_int2 E h4 + 1\<rparr>, h4))"

definition mcdr_dispose :: "mcdr_ctx_t \<Rightarrow> history \<Rightarrow> e_mmgr_errors \<times> history" where
  "mcdr_dispose ctx h =
     (let h1 = (if mc_lib ctx then xcall (Libc (X_dlclose ''libmcdr.so'')) h else h) in
      (E_ERR_SUCCESS, xcall (Sock (X_close (mc_pipe_write ctx))) (xcall (Sock (X_close (mc_pipe_read ctx))) h1)))"

text \<open>The body of the thread: the library reads the dump and names the file it wrote.\<close>

definition mcdr_read :: "env \<Rightarrow> mcdr_ctx_t \<Rightarrow> history \<Rightarrow> (mcdr_ctx_t \<times> history) option" where
  "mcdr_read E ctx h =
     (if \<not> mc_lib ctx then None
      else
        let (file, h1) = xstring E (Modem X_mcdr_read) h in
        Some (ctx\<lparr>mc_coredump_file := file\<rparr>, xcall (File (X_write (mc_pipe_write ctx) [0])) h1))"

definition mcdr_start :: "env \<Rightarrow> mcdr_ctx_t \<Rightarrow> history \<Rightarrow> (e_mmgr_errors \<times> mcdr_ctx_t) \<times> history" where
  "mcdr_start E ctx h =
     (if \<not> mc_running ctx
      then ((E_ERR_SUCCESS, ctx\<lparr>mc_running := True\<rparr>), xcall (Libc (X_thread_create Thread_mcdr)) h)
      else ((E_ERR_FAILED, ctx), h))"

definition mcdr_finalize :: "env \<Rightarrow> mcdr_ctx_t \<Rightarrow> history \<Rightarrow> (mcdr_ctx_t \<times> history) option" where
  "mcdr_finalize E ctx h =
     (if mc_running ctx
      then do { (ctx1, h1) \<leftarrow> mcdr_read E ctx h;
                Some (ctx1\<lparr>mc_running := False\<rparr>, xcall (Libc (X_thread_join Thread_mcdr)) h1) }
      else Some (ctx, h))"

definition mcdr_cancel :: "env \<Rightarrow> mcdr_ctx_t \<Rightarrow> history \<Rightarrow> (mcdr_ctx_t \<times> history) option" where
  "mcdr_cancel E ctx h =
     (if mc_running ctx
      then if \<not> mc_lib ctx then None
           else
             let h1 = xcall (Modem X_mcdr_get_state) h;
                 h2 = (if env_mcdr E h1 = MCDR_ARCHIVE_IN_PROGRESS then h1
                       else xcall (Modem X_mcdr_cleanup) h1) in
             mcdr_finalize E ctx h2
      else Some (ctx, h))"

definition mcdr_get_fd :: "mcdr_ctx_t option \<Rightarrow> int" where
  "mcdr_get_fd p = (case p of None \<Rightarrow> CLOSED_FD | Some ctx \<Rightarrow> mc_pipe_read ctx)"

definition mcdr_get_path :: "mcdr_ctx_t \<Rightarrow> string" where
  "mcdr_get_path ctx = mc_path ctx"

definition mcdr_get_mdm_version :: "mcdr_ctx_t \<Rightarrow> string" where
  "mcdr_get_mdm_version ctx = mc_mdm_version ctx"

definition mcdr_set_mdm_version :: "mcdr_ctx_t \<Rightarrow> string \<Rightarrow> mcdr_ctx_t" where
  "mcdr_set_mdm_version ctx v = ctx\<lparr>mc_mdm_version := snprintf (mc_version_size ctx) v\<rparr>"

definition mcdr_get_filename :: "mcdr_ctx_t \<Rightarrow> string" where
  "mcdr_get_filename ctx = mc_coredump_file ctx"

definition mcdr_get_error_reason :: "env \<Rightarrow> mcdr_ctx_t \<Rightarrow> history \<Rightarrow> (string \<times> history) option" where
  "mcdr_get_error_reason E ctx h =
     (if \<not> mc_lib ctx then None else Some (xstring E (Modem X_mcdr_get_reason) h))"

definition mcdr_is_enabled :: "mcdr_ctx_t option \<Rightarrow> bool" where
  "mcdr_is_enabled p = (case p of None \<Rightarrow> False | Some ctx \<Rightarrow> mc_enabled ctx)"

definition mcdr_log_is_enabled :: "mcdr_ctx_t option \<Rightarrow> bool" where
  "mcdr_log_is_enabled p = (case p of None \<Rightarrow> False | Some ctx \<Rightarrow> mc_enable_cd_log ctx)"

text \<open>The state is read twice: once for the log, once for the switch.\<close>

definition mcdr_get_result :: "env \<Rightarrow> mcdr_ctx_t \<Rightarrow> history \<Rightarrow> (e_core_dump_state \<times> history) option" where
  "mcdr_get_result E ctx h =
     (if \<not> mc_lib ctx then None
      else
        let h1 = xcall (Modem X_mcdr_get_state) h; h2 = xcall (Modem X_mcdr_get_state) h1 in
        Some (case env_mcdr E h2 of
                MCDR_ARCHIVE_IN_PROGRESS \<Rightarrow> E_CD_SUCCEED
              | MCDR_SUCCEED \<Rightarrow> E_CD_SUCCEED
              | MCDR_CLEANING_UP \<Rightarrow> E_CD_LINK_ERROR
              | MCDR_FS_ERROR \<Rightarrow> E_CD_LINK_ERROR
              | MCDR_INIT_ERROR \<Rightarrow> E_CD_LINK_ERROR
              | MCDR_IO_ERROR \<Rightarrow> E_CD_LINK_ERROR
              | MCDR_START_PROT_ERR \<Rightarrow> E_CD_PROTOCOL_ERROR
              | MCDR_PROT_ERROR \<Rightarrow> E_CD_PROTOCOL_ERROR
              | MCDR_OTHER \<Rightarrow> E_CD_OTHER, h2))"

section \<open>One reader at a time\<close>

interpretation mw: worker Thread_mcdr mc_running mcdr_start mcdr_finalize
  by unfold_locales
    (auto simp: mcdr_start_def mcdr_finalize_def mcdr_read_def xcall_def xstring_def Let_def
      bind_eq_Some_conv split: if_splits)

lemma mcdr_cancel_finishes:
  assumes "mcdr_cancel E ctx h = Some (ctx', h')" "mw.balanced ctx h"
  shows "\<not> mc_running ctx'" and "mw.balanced ctx' h'"
proof -
  have fin: "\<not> mc_running a" if "mcdr_finalize E ctx g = Some (a, g')" for g a g'
    using that by (auto simp: mcdr_finalize_def bind_eq_Some_conv split: if_splits)
  show "\<not> mc_running ctx'"
    using assms(1) fin by (auto simp: mcdr_cancel_def Let_def split: if_splits)
  have "mw.balanced ctx (xcall (Modem c) h)" "mw.balanced ctx (xcall (Modem d) (xcall (Modem c) h))" for c d
    using assms(2) by (simp_all add: mw.balanced_def xcall_def)
  with assms show "mw.balanced ctx' h'"
    by (auto simp: mcdr_cancel_def Let_def split: if_splits intro: mw.finish_balanced)
qed

text \<open>
  There is at most one core dump thread, whatever the order of starts and finalisations: threads
  that were created and not joined number one exactly while the module says it is running. Cancelling a
  retrieval joins its thread.
\<close>

theorem core_dump_single_reader:
  assumes "alive Thread_mcdr h = (if mc_running ctx then 1 else 0)"
  shows "(mw.run E ops ctx h = Some (ctx', h') \<longrightarrow>
      alive Thread_mcdr h' = (if mc_running ctx' then 1 else 0)) \<and>
    (mcdr_cancel E ctx h = Some (ctx', h') \<longrightarrow> alive Thread_mcdr h' = 0 \<and> \<not> mc_running ctx')"
  using assms mw.run_balanced [of ctx h E ops ctx' h'] mcdr_cancel_finishes [of E ctx h ctx' h']
  by (auto simp: mw.balanced_def)

definition mcdr_example :: mcdr_ctx_t where
  "mcdr_example =
     \<lparr>mc_enabled = True, mc_running = False, mc_pipe_read = 8, mc_pipe_write = 9, mc_lib = True,
      mc_path = ''/logs'', mc_enable_cd_log = False, mc_mdm_version = '''', mc_version_size = 64,
      mc_coredump_file = ''''\<rparr>"

theorem core_dump_single_reader_witness:
  "\<exists>ctx' h'. mw.run env_ok [W_start, W_start, W_finish, W_start] mcdr_example [] = Some (ctx', h') \<and>
     alive Thread_mcdr h' = 1"
proof -
  obtain ctx' h' where r: "mw.run env_ok [W_start, W_start, W_finish, W_start] mcdr_example [] = Some (ctx', h')"
    and "mc_running ctx'"
    by (simp add: mcdr_start_def mcdr_finalize_def mcdr_read_def mcdr_example_def xstring_def xcall_def)
  with core_dump_single_reader [of "[]" mcdr_example env_ok "[W_start, W_start, W_finish, W_start]" ctx' h']
  show ?thesis by (auto simp: mcdr_example_def)
qed

end
