(* ===== verification/Files.thy ===== *)
theory Files
  imports Tty "HOL-Library.List_Lexorder" "HOL-Library.Char_ord" "HOL-Library.Multiset"
begin

text \<open>
  Files and folders (\<^verbatim>\<open>libutils/file.c\<close>, \<^verbatim>\<open>libutils/folder.c\<close>): copying a file, searching a folder and everything below it for names that
  match a regular expression, creating and removing a folder.

  Matching a name is an answer of the environment, as is the success of every system call. \<^term>\<open>None\<close>: the memory
  for the list of files could not be allocated, which is an assertion failure.
\<close>

section \<open>Copying\<close>

definition file_copy :: "env \<Rightarrow> string \<Rightarrow> string \<Rightarrow> history \<Rightarrow> e_mmgr_errors \<times> history" where
  "file_copy E src dst h =
     (let (in_fd, h1) = sys_open E src (xcall (File X_umask) h);
          (ret, out_fd, h2) =
            (if in_fd < 0 then (E_ERR_FAILED, -1, h1)
             else
               let (out_fd, h2) = sys_open E dst h1 in
               if out_fd < 0 then (E_ERR_FAILED, out_fd, h2)
               else
                 let (r, h3) = xint E (File (X_fstat in_fd)) h2 in
                 if r = -1 then (E_ERR_FAILED, out_fd, h3)
                 else
                   let (n, h4) = xint E (File (X_sendfile out_fd in_fd)) h3 in
                   (if n = -1 then E_ERR_FAILED else E_ERR_SUCCESS, out_fd, h4));
          h3 = (if in_fd \<ge> 0 then xcall (Sock (X_close in_fd)) h2 else h2);
          (ret', h4) =
            (if out_fd \<ge> 0
             then let (r, h4) = xint E (Sock (X_close out_fd)) h3 in (if r < 0 then E_ERR_FAILED else ret, h4)
             else (ret, h3)) in
      (ret', xcall (File X_umask) h4))"

section \<open>Searching\<close>

definition SIZE_CHUNK :: nat where "SIZE_CHUNK = 20"

definition join_path :: "string \<Rightarrow> string \<Rightarrow> string" where
  "join_path folder name = folder @ ''/'' @ name"

definition is_dot :: "string \<Rightarrow> bool" where
  "is_dot name \<longleftrightarrow> name = ''.'' \<or> name = ''..''"

definition opendir :: "env \<Rightarrow> string \<Rightarrow> history \<Rightarrow> bool \<times> history" where
  "opendir E path h = (let (r, h1) = xint E (File (X_opendir path)) h in (r \<noteq> 0, h1))"

text \<open>
  A file is added to the array, which grows by \<^verbatim>\<open>SIZE_CHUNK\<close> elements when it is full. The text is allocated
  in its full length.
\<close>

definition add_file :: "env \<Rightarrow> string list \<Rightarrow> string \<Rightarrow> history \<Rightarrow> (string list \<times> history) option" where
  "add_file E files path h =
     (let (ok, h1) = (if length files mod SIZE_CHUNK = 0
                      then xint E (Libc (X_calloc (4 * (length files + SIZE_CHUNK)))) h else (1, h));
          (ok2, h2) = xint E (Libc (X_calloc (length path + 1))) h1 in
      if ok = 0 \<or> ok2 = 0 then None else Some (files @ [path], h2))"

text \<open>The loop over the entries of a folder; a folder inside it is searched where it appears.\<close>

fun find_entries ::
  "env \<Rightarrow> string \<Rightarrow> string \<Rightarrow> (string \<times> fs_node) list \<Rightarrow> string list \<Rightarrow> history \<Rightarrow> (string list \<times> history) option" where
  "find_entries E reg folder [] files h = Some (files, xcall (File (X_closedir folder)) h)"
| "find_entries E reg folder ((name, node) # es) files h =
     (if is_dot name then find_entries E reg folder es files h
      else
        case node of
          Fs_dir sub \<Rightarrow>
            let path = snprintf PATH_MAX (join_path folder name); (ok, h1) = opendir E path h in
            if ok
            then do { (files1, h2) \<leftarrow> find_entries E reg path sub files h1;
                      find_entries E reg folder es files1 h2 }
            else find_entries E reg folder es files h1
        | _ \<Rightarrow>
            let (r, h1) = xint E (File (X_regexec reg name)) h in
            if r = 0
            then do { (files1, h2) \<leftarrow> add_file E files (join_path folder name) h1;
                      find_entries E reg folder es files1 h2 }
            else find_entries E reg folder es files h1)"

definition file_find_op ::
  "env \<Rightarrow> string \<Rightarrow> string \<Rightarrow> string list \<Rightarrow> history \<Rightarrow> (string list \<times> history) option" where
  "file_find_op E folder reg files h =
     (let (ok, h1) = opendir E folder h in
      if ok then find_entries E reg folder (env_dir E h1) files h1 else Some (files, h1))"

text \<open>\<^verbatim>\<open>qsort\<close> with \<^verbatim>\<open>strcmp\<close> is the lexicographic order of the characters' numbers.\<close>

definition file_find :: "env \<Rightarrow> string \<Rightarrow> string \<Rightarrow> history \<Rightarrow> (string list \<times> history) option" where
  "file_find E folder regexp h =
     (let (r, h1) = xint E (File (X_regcomp regexp)) h in
      if r = 0 then do { (files, h2) \<leftarrow> file_find_op E folder regexp [] h1; Some (sort files, h2) }
      else Some ([], h1))"

definition file_find_ext :: "env \<Rightarrow> string \<Rightarrow> string \<Rightarrow> history \<Rightarrow> (string list \<times> history) option" where
  "file_find_ext E folder extension = file_find E folder (snprintf 10 (''.*'' @ [char_of (92 :: nat)] @ ''.'' @ extension @ ''$''))"

section \<open>Folders\<close>

definition folder_exist :: "env \<Rightarrow> string \<Rightarrow> history \<Rightarrow> bool \<times> history" where
  "folder_exist E path h = (let (r, h1) = xint E (File (X_folder_exist path)) h in (r = 0, h1))"

definition folder_create :: "env \<Rightarrow> string \<Rightarrow> history \<Rightarrow> int \<times> history" where
  "folder_create E path h =
     (let (r, h1) = xint E (File (X_mkdir path)) (xcall (File X_umask) h);
          (ret, h2) =
            (if r \<noteq> 0 then (if env_errno E h1 = EEXIST then 0 else -1, h1)
             else
               let (pwd, h2) = xint E (File (X_getpwnam ''system'')) h1;
                   (gp, h3) = xint E (File (X_getgrnam ''radio'')) h2 in
               if pwd \<noteq> 0 \<and> gp \<noteq> 0
               then
                 let (c, h4) = xint E (File (X_chown path)) h3 in
                 if c = 0 then let (m, h5) = xint E (File (X_chmod path)) h4 in (if m = 0 then 0 else -1, h5)
                 else (-1, h4)
               else (-1, h3)) in
      (ret, xcall (File X_umask) h2))"

text \<open>
  The loop of \<^verbatim>\<open>folder_remove\<close>: \<open>ret\<close> is the result so far, and \<open>remove_folder\<close> what follows the loop. A folder inside that
  was removed ends the loop; one that could not be removed is passed to \<^verbatim>\<open>unlink\<close>. The test for a folder follows
  symbolic links.
\<close>

definition not_opened :: "env \<Rightarrow> history \<Rightarrow> int" where
  "not_opened E h = (if env_errno E h = ENOENT then 0 else -1)"

definition remove_folder :: "env \<Rightarrow> string \<Rightarrow> int \<Rightarrow> history \<Rightarrow> int \<times> history" where
  "remove_folder E path ret h =
     (let h1 = xcall (File (X_closedir path)) h in
      if ret = 0 then xint E (File (X_rmdir path)) h1 else (ret, h1))"

fun remove_entries ::
  "env \<Rightarrow> string \<Rightarrow> (string \<times> fs_node) list \<Rightarrow> int \<Rightarrow> history \<Rightarrow> int \<times> history" where
  "remove_entries E path [] ret h = remove_folder E path ret h"
| "remove_entries E path ((name, node) # es) ret h =
     (let file = snprintf PATH_MAX (join_path path name) in
      if is_dot name then remove_entries E path es ret h
      else
        let (dir, h1) = folder_exist E file h; (ok, h2) = (if dir then opendir E file h1 else (False, h1));
            (ret1, h3) =
              (if \<not> dir then (ret, h1)
               else if \<not> ok then (not_opened E h2, h2)
               else case node of
                      Fs_dir sub \<Rightarrow> remove_entries E file sub 0 h2
                    | Fs_link sub \<Rightarrow> remove_entries E file sub 0 h2
                    | Fs_file \<Rightarrow> remove_folder E file 0 h2) in
        if dir \<and> ret1 = 0 then remove_folder E path ret1 h3
        else
          let (u, h4) = xint E (File (X_unlink file)) h3 in
          if u \<noteq> 0 \<and> env_errno E h4 \<noteq> ENOENT then remove_folder E path (-1) h4
          else remove_entries E path es ret1 h4)"

definition folder_remove :: "env \<Rightarrow> string \<Rightarrow> history \<Rightarrow> int \<times> history" where
  "folder_remove E path h =
     (let (ok, h1) = opendir E path h in
      if ok then remove_entries E path (env_dir E h1) 0 h1
      else (not_opened E h1, h1))"

section \<open>Plain calls\<close>

lemma plain_add_file:
  "only plain h0 h \<Longrightarrow> pred_option (\<lambda>(fs, h'). only plain h0 h') (add_file E files path h)"
  by (simp add: add_file_def ext_defs Let_def)

lemma plain_opendir [plain_rules]: "only plain h0 h \<Longrightarrow> only plain h0 (snd (opendir E path h))"
  by (simp add: opendir_def ext_defs Let_def)

text \<open>Induction over the content of a folder.\<close>

lemma entries_induct:
  assumes "P []"
    and "\<And>name node es. P es \<Longrightarrow> (\<And>sub. node = Fs_dir sub \<or> node = Fs_link sub \<Longrightarrow> P sub) \<Longrightarrow> P ((name, node) # es)"
  shows "P es"
proof (induction es rule: measure_induct_rule [of "size_list (size_prod (\<lambda>_. 0) size)"])
  case (less es)
  show ?case
  proof (cases es)
    case Nil
    then show ?thesis using assms(1) by simp
  next
    case (Cons e es')
    obtain name node where e: "e = (name, node)" by fastforce
    have "P es'" using less Cons by simp
    moreover have "P sub" if "node = Fs_dir sub \<or> node = Fs_link sub" for sub
      using that less [of sub] Cons e by auto
    ultimately show ?thesis using assms(2) Cons e by blast
  qed
qed

lemma plain_find_entries:
  "only plain h0 h \<Longrightarrow> pred_option (\<lambda>(fs, h'). only plain h0 h') (find_entries E reg folder es files h)"
proof (induction es arbitrary: folder files h rule: entries_induct)
  case 1
  then show ?case by (simp add: xcall_def)
next
  case (2 name node es)
  have o: "only plain h0 (snd (opendir E path h))" "plain c \<Longrightarrow> only plain h0 (c # h)" for path c
    using "2.prems" by (simp_all add: plain_rules)
  from 2 o show ?case
    by (cases "is_dot name"; cases node)
      (auto simp: case_prod_unfold Let_def xint_def intro!: pred_bind [where P = "\<lambda>p. only plain h0 (snd p)"]
        plain_add_file [unfolded case_prod_unfold])
qed

lemma plain_file_find [plain_rules]:
  "only plain h0 h \<Longrightarrow> pred_option (\<lambda>(fs, h'). only plain h0 h') (file_find E folder regexp h)"
  unfolding file_find_def file_find_op_def case_prod_unfold Let_def
  by (auto simp: ext_defs intro!: pred_bind [where P = "\<lambda>p. only plain h0 (snd p)"] plain_rules
      plain_find_entries [unfolded case_prod_unfold])

lemma plain_file_copy [plain_rules]: "only plain h0 h \<Longrightarrow> only plain h0 (snd (file_copy E src dst h))"
  by (simp add: file_copy_def sys_open_def ext_defs Let_def)

lemma plain_folder [plain_rules]:
  "only plain h0 h \<Longrightarrow> only plain h0 (snd (folder_exist E path h))"
  "only plain h0 h \<Longrightarrow> only plain h0 (snd (folder_create E path h))"
  by (simp_all add: folder_exist_def folder_create_def ext_defs Let_def)

lemma plain_remove_folder: "only plain h0 h \<Longrightarrow> only plain h0 (snd (remove_folder E path ret h))"
  by (simp add: remove_folder_def ext_defs Let_def)

lemma plain_remove_entries: "only plain h0 h \<Longrightarrow> only plain h0 (snd (remove_entries E path es ret h))"
proof (induction es arbitrary: path ret h rule: entries_induct)
  case 1
  then show ?case by (simp add: plain_remove_folder)
next
  case (2 name node es)
  then show ?case
    by (cases node) (simp_all add: plain_rules plain_remove_folder ext_defs case_prod_unfold Let_def)
qed

lemma plain_folder_remove [plain_rules]: "only plain h0 h \<Longrightarrow> only plain h0 (snd (folder_remove E path h))"
  by (simp add: folder_remove_def plain_remove_entries plain_rules case_prod_unfold Let_def)

section \<open>What a search finds\<close>

text \<open>The reference: the paths of the files below a folder whose name matches, in the order of the entries.\<close>

fun files_below :: "(string \<Rightarrow> bool) \<Rightarrow> string \<Rightarrow> (string \<times> fs_node) list \<Rightarrow> string list" where
  "files_below M folder [] = []"
| "files_below M folder ((name, node) # es) =
     (if is_dot name then []
      else case node of
             Fs_dir sub \<Rightarrow> files_below M (join_path folder name) sub
           | _ \<Rightarrow> if M name then [join_path folder name] else []) @ files_below M folder es"

text \<open>The path of every folder below fits into its buffer.\<close>

fun folders_fit :: "string \<Rightarrow> (string \<times> fs_node) list \<Rightarrow> bool" where
  "folders_fit folder [] = True"
| "folders_fit folder ((name, node) # es) =
     ((case node of
         Fs_dir sub \<Rightarrow> length (join_path folder name) < PATH_MAX \<and> folders_fit (join_path folder name) sub
       | _ \<Rightarrow> True) \<and> folders_fit folder es)"

text \<open>Every folder can be opened, and a name matches by itself, whenever it is asked.\<close>

definition readable :: "env \<Rightarrow> string \<Rightarrow> (string \<Rightarrow> bool) \<Rightarrow> bool" where
  "readable E reg M \<longleftrightarrow> alloc_ok E \<and>
     (\<forall>p h. env_int E (File (X_opendir p) # h) \<noteq> 0) \<and> (\<forall>n h. env_int E (File (X_regexec reg n) # h) = 0 \<longleftrightarrow> M n)"

lemma add_file_ok: "alloc_ok E \<Longrightarrow> \<exists>h'. add_file E files path h = Some (files @ [path], h')"
  by (simp add: add_file_def xint_def alloc_ok_def Let_def)

lemma find_entries_spec:
  assumes "readable E reg M"
  shows "folders_fit folder es \<Longrightarrow> \<exists>h'. find_entries E reg folder es files h = Some (files @ files_below M folder es, h')"
proof (induction es arbitrary: folder files h rule: entries_induct)
  case (2 name node es)
  let ?p = "join_path folder name"
  have al: "alloc_ok E" and dir: "env_int E (File (X_opendir p) # h) \<noteq> 0"
    and m: "env_int E (File (X_regexec reg n) # h) = 0 \<longleftrightarrow> M n" for p n h
    using assms by (simp_all add: readable_def)
  have rest: "\<exists>h'. find_entries E reg folder es fs h = Some (fs @ files_below M folder es, h')" for fs h
    using "2.IH"(1) "2.prems" by simp
  have leaf: "\<exists>h'. find_entries E reg folder ((name, node) # es) files h = Some (files @ files_below M folder ((name, node) # es), h')"
    if "\<nexists>sub. node = Fs_dir sub" "\<not> is_dot name"
  proof -
    let ?h = "File (X_regexec reg name) # h"
    obtain h1 where "add_file E files ?p ?h = Some (files @ [?p], h1)" using add_file_ok [OF al] by blast
    then show ?thesis
      using that rest [of "files @ [?p]" h1] rest [of files ?h] by (cases node) (simp_all add: xint_def m)
  qed
  show ?case
  proof (cases "\<not> is_dot name \<and> (\<exists>sub. node = Fs_dir sub)")
    case True
    then obtain sub where n: "node = Fs_dir sub" "\<not> is_dot name" by blast
    then have f: "folders_fit ?p sub" "snprintf PATH_MAX ?p = ?p" using "2.prems" by (auto simp: snprintf_def)
    obtain h1 where "find_entries E reg ?p sub files (File (X_opendir ?p) # h) = Some (files @ files_below M ?p sub, h1)"
      using "2.IH"(2) [of sub ?p] n f(1) by blast
    with rest [of "files @ files_below M ?p sub" h1] n f(2) show ?thesis
      by (simp add: opendir_def xint_def dir)
  next
    case False
    then show ?thesis using leaf rest [of files h] by (cases "is_dot name") auto
  qed
qed simp

lemma file_find_spec:
  assumes "readable E reg M" "env_int E (File (X_regcomp reg) # h) = 0"
    and "es = env_dir E (File (X_opendir folder) # File (X_regcomp reg) # h)" "folders_fit folder es"
  obtains h' where "file_find E folder reg h = Some (sort (files_below M folder es), h')"
proof -
  obtain h' where "find_entries E reg folder es [] (File (X_opendir folder) # File (X_regcomp reg) # h) =
      Some (files_below M folder es, h')"
    using find_entries_spec [OF assms(1,4), of "[]"] by auto
  then have "file_find E folder reg h = Some (sort (files_below M folder es), h')"
    using assms(1-3) by (simp add: file_find_def file_find_op_def opendir_def readable_def xint_def)
  then show thesis by (rule that)
qed

text \<open>
  C23: A search finds everything below the folder, once, and in order. If folders can be read, \<^verbatim>\<open>file_find\<close> returns the
  sorted list of the paths of exactly those files, at any depth, whose name matches: nothing is missed when the search comes back from a
  sub-folder, when the array of results grows, or when the folder is empty. Links are files here, so the search always ends.
\<close>

theorem file_find_complete:
  assumes "readable E reg M" "env_int E (File (X_regcomp reg) # h) = 0"
    and "es = env_dir E (File (X_opendir folder) # File (X_regcomp reg) # h)" "folders_fit folder es"
  shows "\<exists>files h'. file_find E folder reg h = Some (files, h') \<and> sorted files \<and> mset files = mset (files_below M folder es)"
  using file_find_spec [OF assms] by (metis mset_sort sorted_sort)

definition tree_example :: "(string \<times> fs_node) list" where
  "tree_example = [(''.'', Fs_dir []), (''b'', Fs_file), (''d'', Fs_dir [(''..'', Fs_dir []), (''a'', Fs_file), (''x'', Fs_link [])]),
     (''a'', Fs_file)]"

definition env_tree :: env where
  "env_tree = env_ok\<lparr>env_dir := (\<lambda>_. tree_example), env_int := (\<lambda>h. case h of File (X_regcomp _) # _ \<Rightarrow> 0
     | File (X_regexec _ n) # _ \<Rightarrow> if n \<in> {''a'', ''b''} then 0 else 1 | _ \<Rightarrow> 1)\<rparr>"

lemma env_tree_readable: "readable env_tree reg (\<lambda>n. n \<in> {''a'', ''b''})"
  by (simp add: readable_def env_tree_def alloc_ok_def)

theorem file_find_complete_witness:
  "\<exists>files h'. file_find env_tree ''/f'' ''r'' [] = Some (files, h') \<and> mset files = {#''/f/b'', ''/f/d/a'', ''/f/a''#}"
proof -
  have "env_dir env_tree h = tree_example" "env_int env_tree (File (X_regcomp r) # h) = 0" for r h
    by (simp_all add: env_tree_def)
  moreover have "folders_fit ''/f'' tree_example" by (simp add: tree_example_def join_path_def PATH_MAX_def)
  moreover have "files_below (\<lambda>n. n \<in> {''a'', ''b''}) ''/f'' tree_example = [''/f/b'', ''/f/d/a'', ''/f/a'']"
    by (simp add: tree_example_def join_path_def is_dot_def)
  ultimately show ?thesis
    using file_find_complete [OF env_tree_readable, of "''r''" "[]" tree_example "''/f''"] by simp blast
qed

end
