(* ===== verification/Mdm_Fw.thy ===== *)
theory Mdm_Fw
  imports Files "HOL-Library.Sublist"
begin

text \<open>
  The modem's firmware files (\<^verbatim>\<open>libutils/mdm_fw.c\<close>): where the firmware, its packaged form, the modem's non-volatile
  memory and the calibration are stored for an instance of the daemon, which firmware of the folder is the right one,
  and which customisation files are applied. In a debug build a folder with files of a developer
  comes first; a production build has no such folder.

  The configuration and the sizes of its arrays come from a library outside the repository and are parameters.
  \<^term>\<open>None\<close>: an assertion fails.
\<close>

section \<open>State\<close>

definition REGEXP_SIZE :: nat where "REGEXP_SIZE = 128"

text \<open>The folders and file names of the configuration, and the sizes of the arrays that hold them.\<close>

record mmgr_fw_t =
  fc_input :: string
  fc_runtime :: string
  fc_injection :: string
  fc_factory :: string
  fc_cal :: string
  fc_dyn :: string
  fc_sta :: string
  fc_cert :: string
  fc_size_runtime :: nat
  fc_size_injection :: nat
  fc_size_factory :: nat
  fc_size_tlv :: nat
  fc_path_max :: nat

record mdm_info_t =
  mi_name :: string
  mi_flashless :: bool
  mi_hw_revision :: string
  mi_sw_revision :: string
  mi_tlvs :: "string list"

record mdm_dbg_fw_t =
  db_miu_folder :: string
  db_miu_fw :: string
  db_tlvs :: "string list"

record mdm_fw_t =
  fw_id :: int
  fw_tlvs :: "string list"
  fw_cfg :: mmgr_fw_t
  fw_regexp :: string
  fw_flashless :: bool
  fw_dbg :: "mdm_dbg_fw_t option"
  fw_blob_path :: string
  fw_fw_file :: "string option"
  fw_packaged_path :: string
  fw_rnd_path :: "string option"
  fw_nvm_dyn_path :: string
  fw_nvm_sta_path :: string

section \<open>Paths\<close>

definition malloc_ok :: "env \<Rightarrow> nat \<Rightarrow> history \<Rightarrow> history option" where
  "malloc_ok E n h = (let (ok, h1) = xint E (Libc (X_calloc n)) h in if ok = 0 then None else Some h1)"

definition mdm_fw_compute_path :: "env \<Rightarrow> string \<Rightarrow> string \<Rightarrow> history \<Rightarrow> (string \<times> history) option" where
  "mdm_fw_compute_path E folder filename h =
     (let len = length folder + length filename + 2 in
      do { h1 \<leftarrow> malloc_ok E len h; Some (snprintf len (join_path folder filename), h1) })"

definition mdm_fw_dbg_init :: "env \<Rightarrow> bool \<Rightarrow> mdm_fw_t \<Rightarrow> history \<Rightarrow> (mdm_fw_t \<times> history) option" where
  "mdm_fw_dbg_init E debug fw h =
     (if debug
      then do {
        h1 \<leftarrow> malloc_ok E 16 h;
        (miu, h2) \<leftarrow> mdm_fw_compute_path E (fc_input (fw_cfg fw)) (snprintf 10 (''miu_'' @ dec (fw_id fw))) h1;
        (f, h3) \<leftarrow> mdm_fw_compute_path E miu ''fw.fls'' h2;
        (rnd, h4) \<leftarrow> mdm_fw_compute_path E miu (fc_cert (fw_cfg fw)) h3;
        Some (fw\<lparr>fw_dbg := Some \<lparr>db_miu_folder = miu, db_miu_fw = f, db_tlvs = []\<rparr>, fw_rnd_path := Some rnd\<rparr>, h4) }
      else Some (fw, h))"

text \<open>
  The customisation files of the developer's folder come after the configured ones. The list is built anew
  at each call, and the names are cut to the size of their array.
\<close>

definition mdm_fw_dbg_get_tlvs :: "env \<Rightarrow> mdm_fw_t \<Rightarrow> history \<Rightarrow> ((string list \<times> mdm_fw_t) \<times> history) option" where
  "mdm_fw_dbg_get_tlvs E fw h =
     (case fw_dbg fw of
        None \<Rightarrow> Some ((fw_tlvs fw, fw), h)
      | Some dbg \<Rightarrow>
          do { (files, h1) \<leftarrow> file_find_ext E (db_miu_folder dbg) ''tlv'' h;
               if files = [] then Some ((fw_tlvs fw, fw), h1)
               else do {
                 h2 \<leftarrow> malloc_ok E (fc_size_tlv (fw_cfg fw) * (length (fw_tlvs fw) + length files)) h1;
                 let tlvs = fw_tlvs fw @ map (snprintf (fc_size_tlv (fw_cfg fw))) files;
                 Some ((tlvs, fw\<lparr>fw_dbg := Some (dbg\<lparr>db_tlvs := tlvs\<rparr>)\<rparr>), h2) } })"

definition mdm_fw_dbg_get_miu_folder :: "mdm_fw_t \<Rightarrow> string option" where
  "mdm_fw_dbg_get_miu_folder fw = map_option db_miu_folder (fw_dbg fw)"

definition mdm_fw_dbg_get_miu_fw_path :: "mdm_fw_t \<Rightarrow> string option" where
  "mdm_fw_dbg_get_miu_fw_path fw = map_option db_miu_fw (fw_dbg fw)"

definition get_fw_regexp :: "string \<Rightarrow> bool \<Rightarrow> string \<Rightarrow> string \<Rightarrow> string" where
  "get_fw_regexp mdm_name flashless hw_revision sw_revision =
     (let fw_type = (if flashless then ''FLASHLESS'' else ''NAND''); dot = [char_of (92 :: nat)] @ ''.'' in
      if mdm_name = ''6360''
      then snprintf REGEXP_SIZE (''^XMM_'' @ mdm_name @ ''_.*'' @ fw_type @ ''.*'' @ dot @ ''fls$'')
      else
        let hw = (if hw_revision = ''NA'' then ''[[:digit:]]{2}'' else hw_revision);
            sw = (if sw_revision = ''NA'' then ''[[:digit:]]{1}'' @ dot @ ''[[:digit:]]{1}'' else sw_revision) in
        snprintf REGEXP_SIZE (''^XMM_'' @ mdm_name @ ''_REV'' @ hw @ ''_[[:digit:]]{4}'' @ dot @ ''[[:digit:]]{2}_V'' @ sw @
          ''.*'' @ fw_type @ ''.*'' @ dot @ ''fls$''))"

text \<open>The calibration: the file in use and its backup.\<close>

definition mdm_fw_get_calib_files :: "mdm_fw_t \<Rightarrow> string \<times> string" where
  "mdm_fw_get_calib_files fw =
     (let c = fw_cfg fw in
      (snprintf (fc_path_max c) (join_path (fc_runtime c) (fc_cal c)),
       snprintf (fc_path_max c) (join_path (fc_factory c) (fc_cal c))))"

definition mdm_fw_prepare_calib :: "env \<Rightarrow> mdm_fw_t \<Rightarrow> history \<Rightarrow> history" where
  "mdm_fw_prepare_calib E fw h =
     (let (run, bkup) = mdm_fw_get_calib_files fw; (there, h1) = file_exist E run h in
      if there then h1 else snd (file_copy E bkup run h1))"

definition mdm_fw_get_runtime_path :: "mdm_fw_t \<Rightarrow> string" where
  "mdm_fw_get_runtime_path fw = fc_runtime (fw_cfg fw)"

definition mdm_fw_get_blob_hash_path :: "mdm_fw_t \<Rightarrow> string" where
  "mdm_fw_get_blob_hash_path fw = fw_blob_path fw"

definition mdm_fw_get_rnd_path :: "mdm_fw_t \<Rightarrow> string option" where
  "mdm_fw_get_rnd_path fw = fw_rnd_path fw"

definition mdm_fw_get_nvm_dyn_path :: "mdm_fw_t \<Rightarrow> string" where
  "mdm_fw_get_nvm_dyn_path fw = fw_nvm_dyn_path fw"

definition mdm_fw_get_nvm_sta_path :: "mdm_fw_t \<Rightarrow> string" where
  "mdm_fw_get_nvm_sta_path fw = fw_nvm_sta_path fw"

definition mdm_fw_get_fw_package_path :: "mdm_fw_t \<Rightarrow> string" where
  "mdm_fw_get_fw_package_path fw = fw_packaged_path fw"

definition mdm_fw_get_factory_folder :: "mdm_fw_t \<Rightarrow> string" where
  "mdm_fw_get_factory_folder fw = fc_factory (fw_cfg fw)"

section \<open>Operations\<close>

text \<open>
  The developer's firmware comes first; otherwise there must be exactly one firmware in the folder. The copy of
  the developer's path may fail for lack of memory, which is not noticed.
\<close>

definition mdm_fw_get_fw_path ::
  "env \<Rightarrow> mdm_fw_t \<Rightarrow> history \<Rightarrow> ((string option \<times> mdm_fw_t) \<times> history) option" where
  "mdm_fw_get_fw_path E fw h =
     (let (miu, h1) = (case fw_dbg fw of None \<Rightarrow> (False, h) | Some dbg \<Rightarrow> file_exist E (db_miu_fw dbg) h) in
      if miu
      then
        let path = db_miu_fw (the (fw_dbg fw)); (ok, h2) = xint E (Libc (X_calloc (length path + 1))) h1;
            file = (if ok = 0 then None else Some path) in
        Some ((file, fw\<lparr>fw_fw_file := file\<rparr>), h2)
      else do {
        (files, h2) \<leftarrow> file_find E (fc_input (fw_cfg fw)) (fw_regexp fw) h1;
        let file = (case files of [f] \<Rightarrow> Some f | _ \<Rightarrow> None);
        Some ((file, fw\<lparr>fw_fw_file := file\<rparr>), h2) })"

definition mdm_fw_get_tlvs :: "env \<Rightarrow> mdm_fw_t \<Rightarrow> history \<Rightarrow> ((string list \<times> mdm_fw_t) \<times> history) option" where
  "mdm_fw_get_tlvs E fw h = mdm_fw_dbg_get_tlvs E fw h"

definition mdm_fw_backup_calib :: "env \<Rightarrow> mdm_fw_t \<Rightarrow> history \<Rightarrow> e_mmgr_errors \<times> history" where
  "mdm_fw_backup_calib E fw h =
     (let (run, bkup) = mdm_fw_get_calib_files fw in file_copy E run bkup h)"

definition mdm_fw_create_folders :: "env \<Rightarrow> mdm_fw_t \<Rightarrow> history \<Rightarrow> e_mmgr_errors \<times> history" where
  "mdm_fw_create_folders E fw h =
     (if fw_flashless fw
      then
        let (r, h1) = folder_create E (fc_runtime (fw_cfg fw)) h;
            (i, h2) = folder_create E (fc_injection (fw_cfg fw)) h1 in
        (if r = 0 \<and> i = 0 then E_ERR_SUCCESS else E_ERR_FAILED, mdm_fw_prepare_calib E fw h2)
      else (E_ERR_SUCCESS, h))"

text \<open>The folders of a flashless modem get the number of the instance; the calibration of the first one stays where it was.\<close>

definition strncat :: "nat \<Rightarrow> string \<Rightarrow> string \<Rightarrow> string" where
  "strncat sz dst src = dst @ take (sz - length dst - 1) src"

definition instance_folders :: "int \<Rightarrow> mmgr_fw_t \<Rightarrow> mmgr_fw_t" where
  "instance_folders inst_id c =
     (let sub = snprintf 10 (''/'' @ dec inst_id @ ''/'') in
      c\<lparr>fc_injection := strncat (fc_size_injection c) (fc_injection c) sub,
        fc_factory := (if inst_id \<noteq> 1 then strncat (fc_size_factory c) (fc_factory c) sub else fc_factory c),
        fc_runtime := strncat (fc_size_runtime c) (fc_runtime c) sub\<rparr>)"

text \<open>The handle is NULL (inner \<^term>\<open>None\<close>) when the input folder is missing.\<close>

definition mdm_fw_init ::
  "env \<Rightarrow> bool \<Rightarrow> int \<Rightarrow> mdm_info_t \<Rightarrow> mmgr_fw_t \<Rightarrow> history \<Rightarrow> (mdm_fw_t option \<times> history) option" where
  "mdm_fw_init E debug inst_id mdm cfg h =
     do { h1 \<leftarrow> malloc_ok E 500 h;
          let cfg' = (if mi_flashless mdm then instance_folders inst_id cfg else cfg);
          let (there, h2) = folder_exist E (fc_input cfg') h1;
          if \<not> there then Some (None, h2)
          else do {
            h3 \<leftarrow> (if mi_tlvs mdm \<noteq> [] then malloc_ok E (fc_size_tlv cfg' * length (mi_tlvs mdm)) h2 else Some h2);
            (blob, h4) \<leftarrow> mdm_fw_compute_path E (fc_input cfg') ''hash'' h3;
            (pack, h5) \<leftarrow> mdm_fw_compute_path E (fc_injection cfg') ''fw.fls'' h4;
            (dyn, h6) \<leftarrow> mdm_fw_compute_path E (fc_runtime cfg') (fc_dyn cfg') h5;
            (sta, h7) \<leftarrow> mdm_fw_compute_path E (fc_runtime cfg') (fc_sta cfg') h6;
            (fw, h8) \<leftarrow> mdm_fw_dbg_init E debug
              \<lparr>fw_id = inst_id, fw_tlvs = map (\<lambda>f. snprintf (fc_size_tlv cfg') (join_path (fc_input cfg') f)) (mi_tlvs mdm),
               fw_cfg = cfg', fw_regexp = get_fw_regexp (mi_name mdm) (mi_flashless mdm) (mi_hw_revision mdm) (mi_sw_revision mdm),
               fw_flashless = mi_flashless mdm, fw_dbg = None, fw_blob_path = blob, fw_fw_file = None, fw_packaged_path = pack,
               fw_rnd_path = None, fw_nvm_dyn_path = dyn, fw_nvm_sta_path = sta\<rparr> h7;
            Some (Some fw, h8) } }"

section \<open>Plain calls\<close>

lemma plain_malloc [plain_rules]: "only plain h0 h \<Longrightarrow> pred_option (only plain h0) (malloc_ok E n h)"
  by (simp add: malloc_ok_def ext_defs Let_def)

lemma plain_fw_get_tlvs [plain_rules]:
  "only plain h0 h \<Longrightarrow> pred_option (\<lambda>(r, h'). only plain h0 h') (mdm_fw_get_tlvs E fw h)"
  unfolding mdm_fw_get_tlvs_def mdm_fw_dbg_get_tlvs_def file_find_ext_def
  by (cases "fw_dbg fw") (auto simp: Let_def intro!: pred_bind2 [OF plain_file_find] pred_bind [OF plain_malloc])

lemma plain_fw_get_fw_path [plain_rules]:
  assumes "only plain h0 h"
  shows "pred_option (\<lambda>(r, h'). only plain h0 h') (mdm_fw_get_fw_path E fw h)"
proof (cases "fw_dbg fw")
  case None
  then show ?thesis
    using assms by (auto simp: mdm_fw_get_fw_path_def Let_def intro!: pred_bind2 [OF plain_file_find])
next
  case (Some dbg)
  have "only plain h0 (snd (file_exist E (db_miu_fw dbg) h))" using assms by (rule plain_rules)
  with Some show ?thesis
    by (auto simp: mdm_fw_get_fw_path_def case_prod_unfold ext_defs Let_def
        intro!: pred_bind [OF plain_file_find [unfolded case_prod_unfold]])
qed

lemma plain_fw_calib [plain_rules]:
  "only plain h0 h \<Longrightarrow> only plain h0 (mdm_fw_prepare_calib E fw h)"
  "only plain h0 h \<Longrightarrow> only plain h0 (snd (mdm_fw_backup_calib E fw h))"
  "only plain h0 h \<Longrightarrow> only plain h0 (snd (mdm_fw_create_folders E fw h))"
  by (simp_all add: mdm_fw_prepare_calib_def mdm_fw_backup_calib_def mdm_fw_create_folders_def plain_rules
      case_prod_unfold Let_def)

section \<open>The firmware that is flashed\<close>

text \<open>
  The firmware is chosen only if there is no doubt. If no developer's firmware is installed and
  the input folder is readable, the firmware is the one file below it that matches the name and revision of the modem; if
  none matches, or more than one, there is no firmware, and nothing is flashed.
\<close>

theorem firmware_unambiguous:
  assumes "readable E (fw_regexp fw) M" "fw_dbg fw = None \<and> h1 = h \<or>
      (\<exists>dbg. fw_dbg fw = Some dbg \<and> h1 = File (X_file_exist (db_miu_fw dbg)) # h \<and> env_int E h1 \<noteq> 0)"
    and "env_int E (File (X_regcomp (fw_regexp fw)) # h1) = 0" "folder = fc_input (fw_cfg fw)"
    and "es = env_dir E (File (X_opendir folder) # File (X_regcomp (fw_regexp fw)) # h1)" "folders_fit folder es"
  shows "\<exists>found fw' h'. mdm_fw_get_fw_path E fw h = Some ((found, fw'), h') \<and>
    (\<forall>p. found = Some p \<longleftrightarrow> files_below M folder es = [p]) \<and> fw_fw_file fw' = found"
proof -
  obtain h' where f: "file_find E folder (fw_regexp fw) h1 = Some (sort (files_below M folder es), h')"
    by (rule file_find_spec [OF assms(1,3,5,6)])
  let ?found = "case sort (files_below M folder es) of [f] \<Rightarrow> Some f | _ \<Rightarrow> None"
  have one: "sort xs = [p] \<longleftrightarrow> xs = [p]" for xs :: "string list" and p
    by (metis mset_single_iff mset_sort)
  have "?found = Some p \<longleftrightarrow> files_below M folder es = [p]" for p
    using one [of "files_below M folder es" p] by (auto split: list.splits)
  moreover have "mdm_fw_get_fw_path E fw h = Some ((?found, fw\<lparr>fw_fw_file := ?found\<rparr>), h')"
    using assms(2) f by (auto simp: mdm_fw_get_fw_path_def file_exist_def xint_def assms(4) [symmetric] Let_def)
  ultimately show ?thesis by auto
qed

definition fw_info_example :: mdm_fw_t where
  "fw_info_example =
     \<lparr>fw_id = 1, fw_tlvs = [], fw_cfg = \<lparr>fc_input = ''/f'', fc_runtime = ''/run'', fc_injection = ''/inj'', fc_factory = ''/fac'',
        fc_cal = ''cal'', fc_dyn = ''dyn'', fc_sta = ''sta'', fc_cert = ''cert'', fc_size_runtime = 64, fc_size_injection = 64,
        fc_size_factory = 64, fc_size_tlv = 64, fc_path_max = 128\<rparr>,
      fw_regexp = ''r'', fw_flashless = True, fw_dbg = None, fw_blob_path = [], fw_fw_file = None, fw_packaged_path = [],
      fw_rnd_path = None, fw_nvm_dyn_path = [], fw_nvm_sta_path = []\<rparr>"

theorem firmware_unambiguous_witness:
  "\<exists>fw' h'. mdm_fw_get_fw_path env_tree fw_info_example [] = Some ((None, fw'), h')"
proof -
  have d: "tree_example = env_dir env_tree h" "env_int env_tree (File (X_regcomp r) # h) = 0" for r h
    by (simp_all add: env_tree_def)
  have f: "folders_fit ''/f'' tree_example" by (simp add: tree_example_def join_path_def PATH_MAX_def)
  have b: "files_below (\<lambda>n. n \<in> {''a'', ''b''}) ''/f'' tree_example = [''/f/b'', ''/f/d/a'', ''/f/a'']"
    by (simp add: tree_example_def join_path_def is_dot_def)
  have i: "''/f'' = fc_input (fw_cfg fw_info_example)" "fw_dbg fw_info_example = None \<and> [] = []"
    by (simp_all add: fw_info_example_def)
  obtain found fw' h' where r: "mdm_fw_get_fw_path env_tree fw_info_example [] = Some ((found, fw'), h')"
    "\<And>p. found = Some p \<longleftrightarrow> files_below (\<lambda>n. n \<in> {''a'', ''b''}) ''/f'' tree_example = [p]"
    using firmware_unambiguous [OF env_tree_readable disjI1 [OF i(2)] d(2) i(1) d(1) f] by blast
  have "found = None" using r(2) unfolding b by (cases found) auto
  with r(1) show ?thesis by blast
qed

section \<open>Instances\<close>

text \<open>The folders of two instances are apart: neither contains the other.\<close>

definition apart :: "string \<Rightarrow> string \<Rightarrow> bool" where
  "apart p q \<longleftrightarrow> \<not> prefix p q \<and> \<not> prefix q p"

lemma digits_slash_apart:
  assumes "m \<noteq> n"
  shows "\<not> prefix (digits m @ ''/'') (digits n @ ''/'')"
proof
  have slash: "\<not> is_digit (CHR ''/'')" by (simp add: is_digit_def)
  assume "prefix (digits m @ ''/'') (digits n @ ''/'')"
  then obtain r where "digits n @ ''/'' = digits m @ ''/'' @ r" by (auto simp: prefix_def)
  then have "scan_nat 0 (digits n @ ''/'') = scan_nat 0 (digits m @ ''/'' @ r)" by simp
  then show False using assms slash by (simp add: digits_scan)
qed

lemma apart_append: "apart (p @ q) (p @ r) \<longleftrightarrow> apart q r"
  by (simp add: apart_def)

lemma instance_sub:
  assumes "1 \<le> i" "i < 10000000"
  shows "snprintf 10 (''/'' @ dec i @ ''/'') = ''/'' @ digits (nat i) @ ''/''"
proof -
  have "length (digits (nat i)) \<le> 7" using assms by (intro digits_length) simp_all
  with assms show ?thesis by (simp add: snprintf_def dec_def)
qed

lemma instance_folders_apart:
  assumes "1 \<le> i" "i < 10000000" "1 \<le> j" "j < 10000000" "i \<noteq> j"
    and "length (fc_runtime c) + 10 \<le> fc_size_runtime c" "length (fc_injection c) + 10 \<le> fc_size_injection c"
  shows "apart (fc_runtime (instance_folders i c)) (fc_runtime (instance_folders j c)) \<and>
    apart (fc_injection (instance_folders i c)) (fc_injection (instance_folders j c))"
proof -
  have sub: "snprintf 10 (''/'' @ dec k @ ''/'') = ''/'' @ digits (nat k) @ ''/''"
    and len: "length (''/'' @ digits (nat k) @ ''/'') \<le> 9" if "k \<in> {i, j}" for k
  proof -
    show s: "snprintf 10 (''/'' @ dec k @ ''/'') = ''/'' @ digits (nat k) @ ''/''"
      using that assms(1-4) by (intro instance_sub) auto
    show "length (''/'' @ digits (nat k) @ ''/'') \<le> 9"
      unfolding s [symmetric] by (simp add: snprintf_def)
  qed
  have cat: "strncat n d (''/'' @ digits (nat k) @ ''/'') = d @ ''/'' @ digits (nat k) @ ''/''"
    if "length d + 10 \<le> n" "k \<in> {i, j}" for n d k
    using len [OF that(2)] that(1) by (simp add: strncat_def)
  have "nat i \<noteq> nat j" using assms by simp
  then have "apart (''/'' @ digits (nat i) @ ''/'') (''/'' @ digits (nat j) @ ''/'')"
    using digits_slash_apart [of "nat i" "nat j"] digits_slash_apart [of "nat j" "nat i"] by (simp add: apart_def)
  then show ?thesis
    using assms(6,7) by (simp add: instance_folders_def sub cat apart_append Let_def del: append.simps append_Cons)
qed

lemma compute_path_eq: "mdm_fw_compute_path E folder name h = Some (p, h') \<Longrightarrow> p = join_path folder name"
  by (auto simp: mdm_fw_compute_path_def bind_eq_Some_conv snprintf_def join_path_def)

lemma mdm_fw_init_paths:
  assumes "mdm_fw_init E debug i mdm c h = Some (Some f, h')" "c' = (if mi_flashless mdm then instance_folders i c else c)"
  shows "mdm_fw_get_runtime_path f = fc_runtime c' \<and> mdm_fw_get_fw_package_path f = join_path (fc_injection c') ''fw.fls'' \<and>
    mdm_fw_get_nvm_dyn_path f = join_path (fc_runtime c') (fc_dyn c') \<and>
    mdm_fw_get_nvm_sta_path f = join_path (fc_runtime c') (fc_sta c')"
proof -
  have dbg: "mdm_fw_dbg_init E debug f0 h0 = Some (f, h') \<Longrightarrow> fw_cfg f = fw_cfg f0 \<and> fw_packaged_path f = fw_packaged_path f0 \<and>
      fw_nvm_dyn_path f = fw_nvm_dyn_path f0 \<and> fw_nvm_sta_path f = fw_nvm_sta_path f0" for f0 h0
    by (auto simp: mdm_fw_dbg_init_def bind_eq_Some_conv split: if_splits)
  show ?thesis
    using assms(1) unfolding mdm_fw_init_def assms(2) [symmetric]
    by (auto simp: bind_eq_Some_conv Let_def mdm_fw_get_runtime_path_def mdm_fw_get_fw_package_path_def
        mdm_fw_get_nvm_dyn_path_def mdm_fw_get_nvm_sta_path_def case_prod_unfold split: if_splits dest!: dbg compute_path_eq)
qed

lemma apart_paths: "apart p q \<Longrightarrow> apart (join_path p x) (join_path q y)"
proof -
  have "\<not> prefix (p @ a) (q @ b)" if "\<not> prefix p q" "\<not> prefix q p" for p q a b :: string
    using that prefix_same_cases [of p "q @ b" q] append_prefixD [of p a "q @ b"] by auto
  then show "apart p q \<Longrightarrow> apart (join_path p x) (join_path q y)"
    by (simp add: apart_def join_path_def)
qed

text \<open>
  C24: Two instances of the daemon do not touch each other's files. Two modules that start for flashless modems with the same
  configuration, whose arrays have room for the number of the instance, have runtime folders of which neither
  contains the other, and different packaged firmwares and modem memories.
\<close>

theorem instances_apart:
  assumes "mdm_fw_init E d i mdm c h = Some (Some f, h1)" "mdm_fw_init E' d' j mdm c h' = Some (Some g, h1')" "mi_flashless mdm"
    and "1 \<le> i" "i < 10000000" "1 \<le> j" "j < 10000000" "i \<noteq> j"
    and "length (fc_runtime c) + 10 \<le> fc_size_runtime c" "length (fc_injection c) + 10 \<le> fc_size_injection c"
  shows "apart (mdm_fw_get_runtime_path f) (mdm_fw_get_runtime_path g) \<and>
    apart (mdm_fw_get_fw_package_path f) (mdm_fw_get_fw_package_path g) \<and>
    apart (mdm_fw_get_nvm_dyn_path f) (mdm_fw_get_nvm_dyn_path g) \<and>
    apart (mdm_fw_get_nvm_sta_path f) (mdm_fw_get_nvm_sta_path g)"
  using instance_folders_apart [OF assms(4-10)] mdm_fw_init_paths [OF assms(1) refl] mdm_fw_init_paths [OF assms(2) refl] assms(3)
  by (simp add: apart_paths)

definition mdm_example :: mdm_info_t where
  "mdm_example = \<lparr>mi_name = ''7260'', mi_flashless = True, mi_hw_revision = ''NA'', mi_sw_revision = ''NA'', mi_tlvs = []\<rparr>"

definition env_there :: env where
  "env_there = env_ok\<lparr>env_int := (\<lambda>h. case h of File (X_folder_exist _) # _ \<Rightarrow> 0 | _ \<Rightarrow> 1)\<rparr>"

theorem instances_apart_witness:
  "\<exists>f g h1 h2. mdm_fw_init env_there True 1 mdm_example (fw_cfg fw_info_example) [] = Some (Some f, h1) \<and>
     mdm_fw_init env_there True 12 mdm_example (fw_cfg fw_info_example) [] = Some (Some g, h2) \<and>
     apart (mdm_fw_get_nvm_dyn_path f) (mdm_fw_get_nvm_dyn_path g)"
proof -
  have "\<exists>f h1. mdm_fw_init env_there True k mdm_example (fw_cfg fw_info_example) [] = Some (Some f, h1)" for k
    by (simp add: mdm_fw_init_def folder_exist_def malloc_ok_def mdm_fw_compute_path_def mdm_fw_dbg_init_def env_there_def
        ext_defs Let_def)
  then obtain f g h1 h2 where "mdm_fw_init env_there True 1 mdm_example (fw_cfg fw_info_example) [] = Some (Some f, h1)"
    "mdm_fw_init env_there True 12 mdm_example (fw_cfg fw_info_example) [] = Some (Some g, h2)" by metis
  with instances_apart [OF this] show ?thesis
    by (simp add: mdm_example_def fw_info_example_def)
qed

end
