(* ===== verification/Mdm_Mup.thy ===== *)
theory Mdm_Mup
  imports Mdm_Fw Link
begin

text \<open>
  The modem update library (\<^verbatim>\<open>core/mdm_mup.c\<close>): the library is loaded, and through it the firmware is packaged and pushed and the
  customisation files are applied. The library itself is not part of the repository: its answers are those of
  the environment. \<^term>\<open>None\<close>: an assertion fails.
\<close>

definition MUP_LIB :: string where "MUP_LIB = ''libmodemupdate.so''"

text \<open>The texts are copies made with \<^verbatim>\<open>strdup\<close>, whose failure is not noticed.\<close>

record mdm_mup_ctx_t =
  mu_mdm_name :: "string option"
  mu_streamline_dlc :: "string option"
  mu_rnd :: "string option"
  mu_channel_switching :: bool
  mu_baudrate :: int

definition strdup :: "env \<Rightarrow> string \<Rightarrow> history \<Rightarrow> string option \<times> history" where
  "strdup E s h = (let (ok, h1) = xint E (Libc (X_calloc (length s + 1))) h in (if ok = 0 then None else Some s, h1))"

text \<open>A call of the library and its result.\<close>

definition xmup :: "env \<Rightarrow> modem_call \<Rightarrow> history \<Rightarrow> e_mup_err \<times> history" where
  "xmup E c h = (env_mup E (Modem c # h), Modem c # h)"

text \<open>The library's context is there when the second answer of the initialisation is not NULL.\<close>

definition mup_initialize :: "env \<Rightarrow> history \<Rightarrow> e_mup_err \<times> bool \<times> history" where
  "mup_initialize E h = (let (err, h1) = xmup E X_mup_initialize h in (err, env_int2 E h1 \<noteq> 0, h1))"

primrec fw_verdict :: "e_mup_err \<Rightarrow> e_modem_fw_error" where
  "fw_verdict E_MUP_FW_RESTRICTED = E_MODEM_FW_SUCCEED"
| "fw_verdict E_MUP_SUCCEED = E_MODEM_FW_SUCCEED"
| "fw_verdict E_MUP_FAILED = E_MODEM_FW_ERROR_UNSPECIFIED"
| "fw_verdict E_MUP_FW_OUTDATED = E_MODEM_FW_OUTDATED"
| "fw_verdict E_MUP_FW_CORRUPTED = E_MODEM_FW_SECURITY_CORRUPTED"
| "fw_verdict E_MUP_BAD_PARAMETER = E_MODEM_FW_ERROR_UNSPECIFIED"

text \<open>A text that may be NULL, as an argument of the library.\<close>

definition or_null :: "string option \<Rightarrow> string" where
  "or_null p = (case p of None \<Rightarrow> '''' | Some s \<Rightarrow> s)"

text \<open>What is done between the initialisation of the library and its disposal.\<close>

definition push_with ::
  "env \<Rightarrow> mdm_mup_ctx_t \<Rightarrow> string \<Rightarrow> string \<Rightarrow> string \<Rightarrow> string \<Rightarrow> history \<Rightarrow> e_modem_fw_error \<times> history" where
  "push_with E mup rnd fw eb_port fls_port h =
     (let (err, h1) = xmup E (X_mup_check_fw_version fw (or_null (mu_mdm_name mup))) h in
      if err \<noteq> E_MUP_SUCCEED then (E_MODEM_FW_BAD_FAMILY, h1)
      else
        let params = \<lparr>mup_eb_port = eb_port, mup_fls_port = fls_port, mup_channel_hw_sw = mu_channel_switching mup,
                      mup_fw_file_path = fw, mup_baudrate = mu_baudrate mup\<rparr>;
            (err, h2) = xmup E (X_mup_open_device params) h1 in
        if err \<noteq> E_MUP_SUCCEED then (E_MODEM_FW_ERROR_UNSPECIFIED, h2)
        else
          let (there, h3) = file_exist E rnd h2;
              (err, h4) = xmup E (X_mup_config_secur_channel (if there then Some rnd else None)) h3 in
          if err \<noteq> E_MUP_SUCCEED then (E_MODEM_FW_ERROR_UNSPECIFIED, h4)
          else let (err, h5) = xmup E (X_mup_update_fw params) h4 in (fw_verdict err, h5))"

definition mdm_mup_push_fw ::
  "env \<Rightarrow> mdm_mup_ctx_t \<Rightarrow> string \<Rightarrow> string option \<Rightarrow> string option \<Rightarrow> history \<Rightarrow> (e_modem_fw_error \<times> history) option" where
  "mdm_mup_push_fw E mup fw eb_port fls_port h =
     do { eb \<leftarrow> eb_port; fls \<leftarrow> fls_port; rnd \<leftarrow> mu_rnd mup;
          let (err, ctx, h1) = mup_initialize E h;
          let (verdict, h2) = (if err \<noteq> E_MUP_SUCCEED then (E_MODEM_FW_ERROR_UNSPECIFIED, h1)
                               else push_with E mup rnd fw eb fls h1);
          Some (verdict, if ctx then xcall (Modem X_mup_dispose) h2 else h2) }"

definition mdm_mup_package ::
  "env \<Rightarrow> mdm_mup_ctx_t \<Rightarrow> string \<Rightarrow> string \<Rightarrow> string \<Rightarrow> history \<Rightarrow> e_mmgr_errors \<times> history" where
  "mdm_mup_package E mup nvm_folder input output h =
     (let (err, h1) = xmup E (X_mup_gen_fls input output nvm_folder) h in
      (if err \<noteq> E_MUP_SUCCEED then E_ERR_FAILED else E_ERR_SUCCESS, h1))"

text \<open>The second component of the result is the library's result as a number.\<close>

definition mdm_mup_push_tlv ::
  "env \<Rightarrow> mdm_mup_ctx_t \<Rightarrow> string \<Rightarrow> history \<Rightarrow> ((e_modem_nvm_error \<times> int) \<times> history) option" where
  "mdm_mup_push_tlv E mup filename h =
     do { dlc \<leftarrow> mu_streamline_dlc mup;
          let (err, _, h1) = mup_initialize E h;
          if err \<noteq> E_MUP_SUCCEED
          then Some ((E_MODEM_NVM_NO_NVM_PATCH, env_mup_code E E_MUP_FAILED), h1)
          else
            let (err, h2) = xmup E (X_mup_update_nvm dlc filename) h1; code = env_mup_code E err in
            Some ((if code = env_mup_code E E_MUP_SUCCEED then E_MODEM_NVM_SUCCEED else E_MODEM_NVM_FAIL, code),
                  xcall (Modem X_mup_dispose) h2) }"

text \<open>
  The handle is NULL (inner \<^term>\<open>None\<close>) when a symbol of the library is missing. A production build has no
  certificate path, which the assertion on it refuses.
\<close>

definition mdm_mup_init ::
  "env \<Rightarrow> string \<Rightarrow> string \<Rightarrow> string option \<Rightarrow> link_ctx_t \<Rightarrow> history \<Rightarrow> (mdm_mup_ctx_t option \<times> history) option" where
  "mdm_mup_init E mdm_name streamline_dlc rnd l h =
     do { h1 \<leftarrow> malloc_ok E 60 h;
          r \<leftarrow> rnd;
          let (lib, h2) = xint E (Libc (X_dlopen MUP_LIB)) h1;
          if lib = 0 then None
          else
            let (missing, h3) = xint E (Libc (X_dlerror MUP_LIB)) h2 in
            if missing \<noteq> 0 then Some (None, xcall (Libc (X_dlclose MUP_LIB)) h3)
            else
              let (name, h4) = strdup E mdm_name h3; (dlc, h5) = strdup E streamline_dlc h4; (cert, h6) = strdup E r h5 in
              Some (Some \<lparr>mu_mdm_name = name, mu_streamline_dlc = dlc, mu_rnd = cert,
                          mu_channel_switching = (link_get_flash_ebl_type l \<noteq> E_LINK_USB),
                          mu_baudrate = link_get_ebl_baudrate l\<rparr>, h6) }"

definition mdm_mup_dispose :: "mdm_mup_ctx_t \<Rightarrow> history \<Rightarrow> history" where
  "mdm_mup_dispose mup = xcall (Libc (X_dlclose MUP_LIB))"

section \<open>Plain calls\<close>

lemma plain_push_fw [plain_rules]:
  "only plain h0 h \<Longrightarrow> pred_option (\<lambda>(r, h'). only plain h0 h') (mdm_mup_push_fw E mup fw eb fls h)"
  unfolding mdm_mup_push_fw_def
  by (auto intro!: pred_bind_any simp: push_with_def mup_initialize_def xmup_def file_exist_def ext_defs Let_def)

lemma plain_push_tlv [plain_rules]:
  "only plain h0 h \<Longrightarrow> pred_option (\<lambda>(r, h'). only plain h0 h') (mdm_mup_push_tlv E mup f h)"
  "only plain h0 h \<Longrightarrow> only plain h0 (snd (mdm_mup_package E mup a b c h))"
  unfolding mdm_mup_push_tlv_def
  by (auto intro!: pred_bind_any simp: mdm_mup_package_def mup_initialize_def xmup_def ext_defs Let_def)

end
