(* ===== verification/Flash.thy ===== *)
theory Flash
  imports Core_Dump Mdm_Mup
begin

text \<open>
  Modem flashing (\<^verbatim>\<open>core/mdm_flash.c\<close>): deciding whether the firmware or its configuration changed since the
  last successful update, packaging the firmware, pushing it in a worker thread, and
  applying the customisation files (TLV) afterwards. The properties that hold the hashes are only written once
  everything has been applied.

  The firmware module is shared with the rest of the daemon; its state is the field \<open>fl_fw\<close>. MD5 is an answer
  of the environment.
\<close>

section \<open>State\<close>

definition MDM_UPDATE_ERR_NONE :: u32 where "MDM_UPDATE_ERR_NONE = 0"
definition MDM_UPDATE_ERR_FLASH :: u32 where "MDM_UPDATE_ERR_FLASH = flag 0"
definition MDM_UPDATE_ERR_TLV :: u32 where "MDM_UPDATE_ERR_TLV = flag 1"

record hash_property_t =
  hp_key :: string
  hp_value :: string

record mdm_flash_ctx_t =
  fl_fw :: mdm_fw_t
  fl_mup :: mdm_mup_ctx_t
  fl_packaged :: string
  fl_flashless :: bool
  fl_update :: bool
  fl_ongoing :: bool
  fl_attempts :: int
  fl_err :: e_modem_fw_error
  fl_upgrade_err :: u32
  fl_pipe_read :: int
  fl_pipe_write :: int
  fl_fw_file :: "string option"
  fl_blob_hash :: hash_property_t
  fl_cfg_hash :: hash_property_t

section \<open>Operations\<close>

definition mdm_flash_set_upgrade_err :: "mdm_flash_ctx_t \<Rightarrow> u32 \<Rightarrow> mdm_flash_ctx_t" where
  "mdm_flash_set_upgrade_err fl err = fl\<lparr>fl_upgrade_err := fl_upgrade_err fl OR err\<rparr>"

definition mdm_flash_is_property_equal :: "env \<Rightarrow> string \<Rightarrow> string \<Rightarrow> history \<Rightarrow> bool \<times> history" where
  "mdm_flash_is_property_equal E key value h =
     (let (v, h1) = property_get_string E key h in (v = value, h1))"

definition mdm_flash_are_property_hashes_empty ::
  "env \<Rightarrow> mdm_flash_ctx_t \<Rightarrow> history \<Rightarrow> bool \<times> history" where
  "mdm_flash_are_property_hashes_empty E fl h =
     (let (a, h1) = mdm_flash_is_property_equal E (hp_key (fl_blob_hash fl)) '''' h in
      if a then mdm_flash_is_property_equal E (hp_key (fl_cfg_hash fl)) '''' h1 else (False, h1))"

text \<open>Two lower-case hexadecimal digits per byte of the digest.\<close>

definition hex_digit :: "nat \<Rightarrow> char" where
  "hex_digit n = char_of (if n < 10 then 48 + n else 87 + n)"

definition hex :: "byte list \<Rightarrow> string" where
  "hex bs = concat (map (\<lambda>b. [hex_digit (unat b div 16), hex_digit (unat b mod 16)]) bs)"

definition mdm_flash_compute_cfg_hash ::
  "env \<Rightarrow> mdm_flash_ctx_t \<Rightarrow> string \<Rightarrow> history \<Rightarrow> (mdm_flash_ctx_t \<times> history) option" where
  "mdm_flash_compute_cfg_hash E fl fw h =
     do { ((tlvs, f), h1) \<leftarrow> mdm_fw_get_tlvs E (fl_fw fl) h;
          let (md5, h2) = xbytes E (Plug (X_md5 (concat (map cstr tlvs) @ cstr fw))) h1;
          Some (fl\<lparr>fl_fw := f, fl_cfg_hash := (fl_cfg_hash fl)\<lparr>hp_value := hex (take 16 md5)\<rparr>\<rparr>, h2) }"

definition mdm_flash_is_hash_changed ::
  "env \<Rightarrow> mdm_flash_ctx_t \<Rightarrow> string \<Rightarrow> history \<Rightarrow> ((bool \<times> mdm_flash_ctx_t) \<times> history) option" where
  "mdm_flash_is_hash_changed E fl fw_path h =
     do { let (same_blob, h1) = mdm_flash_is_property_equal E (hp_key (fl_blob_hash fl))
                                  (hp_value (fl_blob_hash fl)) h;
          (fl1, h2) \<leftarrow> mdm_flash_compute_cfg_hash E fl fw_path h1;
          let (same_cfg, h3) = mdm_flash_is_property_equal E (hp_key (fl_cfg_hash fl1))
                                 (hp_value (fl_cfg_hash fl1)) h2;
          Some ((\<not> same_blob \<or> \<not> same_cfg, fl1), h3) }"

definition HASH_SIZE :: nat where "HASH_SIZE = 33"

definition mdm_flash_init_hash ::
  "env \<Rightarrow> mdm_flash_ctx_t \<Rightarrow> string \<Rightarrow> string \<Rightarrow> history \<Rightarrow>
     ((e_mmgr_errors \<times> mdm_flash_ctx_t) \<times> history) option" where
  "mdm_flash_init_hash E fl blob_key cfg_key h =
     do { ((r, buf), h1) \<leftarrow> file_read E (mdm_fw_get_blob_hash_path (fl_fw fl)) (replicate HASH_SIZE 0) h;
          Some ((if r \<noteq> E_ERR_SUCCESS then E_ERR_FAILED else E_ERR_SUCCESS,
                 fl\<lparr>fl_blob_hash := \<lparr>hp_key = blob_key, hp_value = buffer_string buf\<rparr>,
                    fl_cfg_hash := (fl_cfg_hash fl)\<lparr>hp_key := cfg_key\<rparr>\<rparr>), h1) }"

definition mdm_flash_remove_fw_packaged ::
  "mdm_flash_ctx_t \<Rightarrow> history \<Rightarrow> mdm_flash_ctx_t \<times> history" where
  "mdm_flash_remove_fw_packaged fl h =
     (case fl_fw_file fl of
        None \<Rightarrow> (fl, h)
      | Some f \<Rightarrow> (fl\<lparr>fl_fw_file := None\<rparr>, if fl_flashless fl then xcall (File (X_unlink f)) h else h))"

text \<open>The body of the flashing thread.\<close>

definition mdm_flash_push ::
  "env \<Rightarrow> link_ctx_t \<Rightarrow> bus_ev_t \<Rightarrow> mdm_flash_ctx_t \<Rightarrow> history \<Rightarrow> (mdm_flash_ctx_t \<times> history) option" where
  "mdm_flash_push E l bus fl h =
     do { f \<leftarrow> fl_fw_file fl;
          (verdict, h1) \<leftarrow> mdm_mup_push_fw E (fl_mup fl) f (link_get_flash_ebl_interface l bus)
                            (link_get_flash_fw_interface l bus) h;
          Some (fl\<lparr>fl_err := verdict\<rparr>, xcall (File (X_write (fl_pipe_write fl) [0])) h1) }"

definition mdm_flash_get_flashing_err :: "mdm_flash_ctx_t \<Rightarrow> e_modem_fw_error" where
  "mdm_flash_get_flashing_err fl = fl_err fl"

definition mdm_flash_get_upgrade_err :: "mdm_flash_ctx_t \<Rightarrow> u32" where
  "mdm_flash_get_upgrade_err fl = fl_upgrade_err fl"

text \<open>
  After a factory reset the dynamic memory of the modem and the developer's folder are removed; a production build
  has no such folder, which the assertion of \<^verbatim>\<open>folder_remove\<close> refuses. \<^term>\<open>None\<close>: an assertion fails.
\<close>

definition mdm_flash_factory_reset :: "env \<Rightarrow> mdm_fw_t \<Rightarrow> history \<Rightarrow> history option" where
  "mdm_flash_factory_reset E fw h =
     do { let h1 = xcall (File (X_unlink (mdm_fw_get_nvm_dyn_path fw))) h;
          miu \<leftarrow> mdm_fw_dbg_get_miu_folder fw;
          Some (snd (folder_remove E miu h1)) }"

definition mdm_flash_init ::
  "env \<Rightarrow> mdm_info_t \<Rightarrow> string \<Rightarrow> mdm_fw_t \<Rightarrow> string \<Rightarrow> string \<Rightarrow> link_ctx_t \<Rightarrow> history \<Rightarrow>
     (mdm_flash_ctx_t \<times> history) option" where
  "mdm_flash_init E mdm custo fw blob_key cfg_key l h =
     do { h1 \<leftarrow> malloc_ok E 200 h;
          (mu, h2) \<leftarrow> mdm_mup_init E (mi_name mdm) custo (mdm_fw_get_rnd_path fw) l h1;
          mup \<leftarrow> mu;
          let fl0 = \<lparr>fl_fw = fw, fl_mup = mup, fl_packaged = mdm_fw_get_fw_package_path fw, fl_flashless = mi_flashless mdm,
                     fl_update = False, fl_ongoing = False,
                     fl_attempts = 0, fl_err = E_MODEM_FW_ERROR_UNSPECIFIED,
                     fl_upgrade_err = MDM_UPDATE_ERR_NONE, fl_pipe_read = 0, fl_pipe_write = 0,
                     fl_fw_file = None, fl_blob_hash = \<lparr>hp_key = [], hp_value = []\<rparr>,
                     fl_cfg_hash = \<lparr>hp_key = [], hp_value = []\<rparr>\<rparr>;
          ((r, fl1), h3) \<leftarrow> mdm_flash_init_hash E fl0 blob_key cfg_key h2;
          if r \<noteq> E_ERR_SUCCESS then None
          else do {
            let (empty, h4) = mdm_flash_are_property_hashes_empty E fl1 h3;
            h5 \<leftarrow> (if empty then mdm_flash_factory_reset E fw h4 else Some h4);
            let (p, h6) = xint E (Sock X_pipe) h5;
            if p \<noteq> 0 then None
            else Some (fl1\<lparr>fl_pipe_read := env_int2 E h6, fl_pipe_write := env_int2 E h6 + 1\<rparr>, h6) } }"

definition mdm_flash_dispose :: "mdm_flash_ctx_t \<Rightarrow> history \<Rightarrow> history" where
  "mdm_flash_dispose fl h =
     xcall (Sock (X_close (fl_pipe_write fl))) (xcall (Sock (X_close (fl_pipe_read fl))) (mdm_mup_dispose (fl_mup fl) h))"

text \<open>
  The firmware path is looked up again at each call, which frees the one found before: a module that is not
  flashless is left with a pointer to freed memory when there is no firmware any more, \<^term>\<open>None\<close> here. The result
  of the packaging is not looked at: only whether the packaged file exists.
\<close>

definition mdm_flash_prepare ::
  "env \<Rightarrow> mdm_flash_ctx_t \<Rightarrow> history \<Rightarrow> ((e_mmgr_errors \<times> mdm_flash_ctx_t) \<times> history) option" where
  "mdm_flash_prepare E fl0 h =
     do { ((found, fw), h1) \<leftarrow> mdm_fw_get_fw_path E (fl_fw fl0) h;
          let fl = fl0\<lparr>fl_upgrade_err := MDM_UPDATE_ERR_NONE, fl_fw := fw\<rparr>;
          case found of
            None \<Rightarrow>
              Some ((E_ERR_FAILED, mdm_flash_set_upgrade_err
                       (fl\<lparr>fl_fw_file := (if fl_flashless fl then fl_fw_file fl else None)\<rparr>) MDM_UPDATE_ERR_FLASH), h1)
          | Some input \<Rightarrow>
              do { ((changed, fl1), h2) \<leftarrow> mdm_flash_is_hash_changed E fl input h1;
                   let fl2 = fl1\<lparr>fl_update := changed\<rparr>;
                   let (f, h3) =
                     (if fl_flashless fl2
                      then (fl_packaged fl2, snd (mdm_mup_package E (fl_mup fl2) (mdm_fw_get_runtime_path (fl_fw fl2)) input
                                                    (fl_packaged fl2) h2))
                      else (input, h2));
                   let (ready, h4) = file_exist E f h3;
                   Some (if ready then ((E_ERR_SUCCESS, fl2\<lparr>fl_fw_file := Some f\<rparr>), h4)
                         else ((E_ERR_FAILED, mdm_flash_set_upgrade_err (fl2\<lparr>fl_fw_file := None\<rparr>) MDM_UPDATE_ERR_FLASH), h4)) } }"

definition mdm_flash_start ::
  "env \<Rightarrow> link_ctx_t \<Rightarrow> mdm_flash_ctx_t \<Rightarrow> history \<Rightarrow> (e_mmgr_errors \<times> mdm_flash_ctx_t) \<times> history" where
  "mdm_flash_start E l fl h =
     (if \<not> fl_ongoing fl
      then let (_, h1) = link_on_mdm_flash E l h in
           ((E_ERR_SUCCESS, fl\<lparr>fl_attempts := fl_attempts fl + 1, fl_err := E_MODEM_FW_ERROR_UNSPECIFIED,
                               fl_ongoing := True\<rparr>), xcall (Libc (X_thread_create Thread_flash)) h1)
      else ((E_ERR_FAILED, fl), h))"

definition mdm_flash_finalize ::
  "env \<Rightarrow> link_ctx_t \<Rightarrow> bus_ev_t \<Rightarrow> mdm_flash_ctx_t \<Rightarrow> history \<Rightarrow> (mdm_flash_ctx_t \<times> history) option" where
  "mdm_flash_finalize E l bus fl h =
     (if fl_ongoing fl
      then do { (fl1, h1) \<leftarrow> mdm_flash_push E l bus fl h;
                let h2 = xcall (Libc (X_thread_join Thread_flash)) h1;
                let (fl2, h3) = mdm_flash_remove_fw_packaged (fl1\<lparr>fl_ongoing := False\<rparr>) h2;
                let (_, h4) = link_on_mdm_flash_complete E l h3;
                Some (fl2, h4) }
      else Some (fl, h))"

text \<open>
  The loop over the customisation files: the result of the last push, and the file that failed. With no
  file the caller's structure is left as it is.
\<close>

fun push_tlvs ::
  "env \<Rightarrow> mdm_mup_ctx_t \<Rightarrow> string list \<Rightarrow> e_modem_nvm_error \<times> int \<Rightarrow> history \<Rightarrow>
     ((string option \<times> e_modem_nvm_error \<times> int) \<times> history) option" where
  "push_tlvs E mup [] err h = Some ((None, err), h)"
| "push_tlvs E mup (f # fs) err h =
     do { (err', h1) \<leftarrow> mdm_mup_push_tlv E mup f h;
          if fst err' \<noteq> E_MODEM_NVM_SUCCEED then Some ((Some f, err'), h1) else push_tlvs E mup fs err' h1 }"

text \<open>
  The error structure belongs to the caller, who does not initialise it: with an update but no customisation
  file its contents are whatever the stack held.
\<close>

definition mdm_flash_streamline ::
  "env \<Rightarrow> mdm_flash_ctx_t \<Rightarrow> history \<Rightarrow>
     ((string option \<times> (e_modem_nvm_error \<times> int) \<times> mdm_flash_ctx_t) \<times> history) option" where
  "mdm_flash_streamline E fl h =
     do { ((file, err, fl1), h1) \<leftarrow>
            (if \<not> fl_update fl then Some ((None, (E_MODEM_NVM_NO_NVM_PATCH, 0), fl), h)
             else if mdm_flash_get_flashing_err fl \<noteq> E_MODEM_FW_SUCCEED then None
             else do {
               let h1 = xcall (Libc X_uninit) h;
               let junk = (env_nvm E h1, env_int2 E h1);
               ((tlvs, f), h2) \<leftarrow> mdm_fw_get_tlvs E (fl_fw fl) h1;
               ((file, err), h3) \<leftarrow> push_tlvs E (fl_mup fl) tlvs junk h2;
               let fl1 = (if file = None then fl else mdm_flash_set_upgrade_err fl MDM_UPDATE_ERR_TLV);
               Some ((file, err, fl1\<lparr>fl_fw := f, fl_update := False\<rparr>), h3) });
          let h2 = (if fst err = E_MODEM_NVM_NO_NVM_PATCH \<or> fst err = E_MODEM_NVM_SUCCEED
                    then xcall (Android (X_property_set (hp_key (fl_cfg_hash fl1)) (hp_value (fl_cfg_hash fl1))))
                           (xcall (Android (X_property_set (hp_key (fl_blob_hash fl1))
                              (hp_value (fl_blob_hash fl1)))) h1)
                    else h1);
          Some ((file, err, fl1), h2) }"

definition mdm_flash_get_fd :: "mdm_flash_ctx_t option \<Rightarrow> int" where
  "mdm_flash_get_fd p = (case p of None \<Rightarrow> CLOSED_FD | Some fl \<Rightarrow> fl_pipe_read fl)"

text \<open>The packaged firmware is removed, then the process exits: there is no state after it.\<close>

definition mdm_flash_cancel :: "mdm_flash_ctx_t \<Rightarrow> history \<Rightarrow> (mdm_flash_ctx_t \<times> history) option" where
  "mdm_flash_cancel fl h =
     (case mdm_flash_remove_fw_packaged fl h of (fl1, h1) \<Rightarrow> None)"

definition mdm_flash_get_attempts :: "mdm_flash_ctx_t \<Rightarrow> int" where
  "mdm_flash_get_attempts fl = fl_attempts fl"

definition mdm_flash_reset_attempts :: "mdm_flash_ctx_t \<Rightarrow> mdm_flash_ctx_t" where
  "mdm_flash_reset_attempts fl = fl\<lparr>fl_attempts := 0\<rparr>"

definition mdm_flash_is_required :: "mdm_flash_ctx_t \<Rightarrow> bool" where
  "mdm_flash_is_required fl \<longleftrightarrow> fl_flashless fl \<or> fl_update fl"

section \<open>One flashing thread at a time\<close>

lemma alive_other [simp]:
  "alive w (File c # h) = alive w h" "alive w (Sock d # h) = alive w h"
  "alive w (Modem m # h) = alive w h" "alive w (Android a # h) = alive w h"
  "alive w (Plug p # h) = alive w h" "alive w (Libc (X_sleep n) # h) = alive w h"
  by simp_all

lemma alive_file_write [simp]: "alive w (snd (file_write E path v h)) = alive w h"
  by (simp add: file_write_def sys_open_def sys_write_def xint_def Let_def)

lemma alive_spi [simp]: "alive w (snd (link_set_spi_speed E d s h)) = alive w h"
  by (simp add: link_set_spi_speed_def sys_open_def xint_def xcall_def Let_def)

lemma alive_ctrl_reset [simp]: "alive Thread_flash (snd (ctrl_on_mdm_reset E c delay h)) = alive Thread_flash h"
  by (simp add: ctrl_on_mdm_reset_def ctrl_on_mdm_reset_op_def ctrl_set_state_def xcall_def split: e_link.splits)

lemma alive_link_flash [simp]:
  "alive w (snd (link_on_mdm_flash E l h)) = alive w h"
  "alive Thread_flash (snd (link_on_mdm_flash_complete E l h)) = alive Thread_flash h"
  by (simp_all add: link_on_mdm_flash_def link_on_mdm_flash_complete_def Let_def case_prod_unfold)

lemma alive_plain: "only plain h h' \<Longrightarrow> alive w h' = alive w h"
  by (erule only_same) auto

lemma flash_start_worker:
  assumes "\<not> fl_ongoing fl" "mdm_flash_start E l fl h = ((r, fl'), h')"
  shows "r = E_ERR_SUCCESS \<and> fl_ongoing fl' \<and> alive Thread_flash h' = alive Thread_flash h + 1"
  using assms by (auto simp: mdm_flash_start_def xcall_def case_prod_unfold Let_def)

lemma flash_finalize_worker:
  assumes "fl_ongoing fl" "mdm_flash_finalize E l bus fl h = Some (fl', h')"
  shows "\<not> fl_ongoing fl' \<and> alive Thread_flash h' = alive Thread_flash h - 1"
proof -
  obtain fl1 h1 where p: "mdm_flash_push E l bus fl h = Some (fl1, h1)"
    and f: "fl' = fst (mdm_flash_remove_fw_packaged (fl1\<lparr>fl_ongoing := False\<rparr>)
      (Libc (X_thread_join Thread_flash) # h1))"
    and "h' = snd (link_on_mdm_flash_complete E l (snd (mdm_flash_remove_fw_packaged
      (fl1\<lparr>fl_ongoing := False\<rparr>) (Libc (X_thread_join Thread_flash) # h1))))"
    using assms by (auto simp: mdm_flash_finalize_def bind_eq_Some_conv xcall_def case_prod_unfold Let_def)
  moreover obtain f v h2 where "mdm_mup_push_fw E (fl_mup fl) f (link_get_flash_ebl_interface l bus)
      (link_get_flash_fw_interface l bus) h = Some (v, h2)" "h1 = File (X_write (fl_pipe_write fl) [0]) # h2"
    using p by (auto simp: mdm_flash_push_def bind_eq_Some_conv xcall_def Let_def)
  then have "alive Thread_flash h1 = alive Thread_flash h"
    using pred_optionD [OF plain_push_fw [OF only_refl]] by (force intro!: alive_plain)
  ultimately show ?thesis
    by (auto simp: mdm_flash_remove_fw_packaged_def xcall_def split: option.splits)
qed

interpretation fwk: worker Thread_flash fl_ongoing "\<lambda>E. mdm_flash_start E l"
  "\<lambda>E. mdm_flash_finalize E l bus"
  for l bus
  by unfold_locales
    (use flash_start_worker flash_finalize_worker in blast,
     simp_all add: mdm_flash_start_def mdm_flash_finalize_def,
     use flash_finalize_worker in \<open>force simp: mdm_flash_finalize_def\<close>)

text \<open>
  There is at most one flashing thread: threads created and not joined number one exactly
  while a flashing is marked as ongoing, whatever the order of starts and finalisations; a start
  during a flashing is refused and changes nothing.
\<close>

theorem flash_single_thread:
  assumes "alive Thread_flash h = (if fl_ongoing fl then 1 else 0)"
  shows "(fwk.run l bus E ops fl h = Some (fl', h') \<longrightarrow>
      alive Thread_flash h' = (if fl_ongoing fl' then 1 else 0)) \<and>
    (fl_ongoing fl \<longrightarrow> mdm_flash_start E l fl h = ((E_ERR_FAILED, fl), h))"
  using assms fwk.run_balanced [of fl h l bus E ops fl' h'] fwk.start_busy [of fl E l h]
  by (simp add: fwk.balanced_def)

definition fw_example :: mdm_fw_t where
  "fw_example =
     \<lparr>fw_id = 1, fw_tlvs = [''/in/a.tlv''],
      fw_cfg = \<lparr>fc_input = ''/in'', fc_runtime = ''/run/1/'', fc_injection = ''/inj/1/'', fc_factory = ''/fac'', fc_cal = ''cal'',
        fc_dyn = ''dyn'', fc_sta = ''sta'', fc_cert = ''cert'', fc_size_runtime = 64, fc_size_injection = 64,
        fc_size_factory = 64, fc_size_tlv = 64, fc_path_max = 128\<rparr>,
      fw_regexp = ''fls'', fw_flashless = True,
      fw_dbg = Some \<lparr>db_miu_folder = ''/in/miu_1'', db_miu_fw = ''/in/miu_1/fw.fls'', db_tlvs = []\<rparr>,
      fw_blob_path = ''/in/hash'', fw_fw_file = None, fw_packaged_path = ''/inj/1//fw.fls'', fw_rnd_path = Some ''/in/miu_1/cert'',
      fw_nvm_dyn_path = ''/run/1//dyn'', fw_nvm_sta_path = ''/run/1//sta''\<rparr>"

definition mup_example :: mdm_mup_ctx_t where
  "mup_example = \<lparr>mu_mdm_name = Some ''7260'', mu_streamline_dlc = Some ''/dev/gsmtty1'', mu_rnd = Some ''/in/miu_1/cert'',
     mu_channel_switching = True, mu_baudrate = 0\<rparr>"

definition flash_example :: mdm_flash_ctx_t where
  "flash_example =
     \<lparr>fl_fw = fw_example, fl_mup = mup_example, fl_packaged = ''/inj/1//fw.fls'',
      fl_flashless = True, fl_update = True, fl_ongoing = False, fl_attempts = 0,
      fl_err = E_MODEM_FW_SUCCEED, fl_upgrade_err = 0, fl_pipe_read = 10,
      fl_pipe_write = 11, fl_fw_file = Some ''/inj/1//fw.fls'',
      fl_blob_hash = \<lparr>hp_key = ''blob'', hp_value = ''a''\<rparr>,
      fl_cfg_hash = \<lparr>hp_key = ''cfg'', hp_value = ''b''\<rparr>\<rparr>"

lemma flash_ports_example:
  "\<exists>p. link_get_flash_ebl_interface link_example bus_example = Some p"
  "\<exists>p. link_get_flash_fw_interface link_example bus_example = Some p"
  by (simp_all add: link_get_flash_ebl_interface_def link_get_flash_fw_interface_def link_get_flash_interface_def
      bus_ev_get_flash_interface_def link_example_def link_init_def ctrl_init_def pm_init_def links_example_def
      cd_ctrl_example_def cd_power_example_def xint_def env_ok_def Let_def)

lemma push_example:
  "\<exists>v h'. mdm_mup_push_fw E mup_example f (link_get_flash_ebl_interface link_example bus_example)
     (link_get_flash_fw_interface link_example bus_example) h = Some (v, h')"
  using flash_ports_example by (auto simp: mdm_mup_push_fw_def mup_example_def case_prod_unfold Let_def)

theorem flash_single_thread_witness:
  "\<exists>fl' h'. fwk.run link_example bus_example env_ok [W_start, W_start, W_finish] flash_example [] =
      Some (fl', h') \<and> alive Thread_flash h' = 0"
proof -
  let ?h = "xcall (Libc (X_thread_create Thread_flash)) (snd (link_on_mdm_flash env_ok link_example []))"
  obtain v h1 where p: "mdm_mup_push_fw env_ok mup_example ''/inj/1//fw.fls'' (link_get_flash_ebl_interface link_example bus_example)
     (link_get_flash_fw_interface link_example bus_example) ?h = Some (v, h1)" using push_example by blast
  have "\<exists>fl' h'. fwk.run link_example bus_example env_ok [W_start, W_start, W_finish] flash_example [] = Some (fl', h') \<and>
      \<not> fl_ongoing fl'"
    using p by (simp add: mdm_flash_start_def mdm_flash_finalize_def mdm_flash_push_def flash_example_def
        mdm_flash_remove_fw_packaged_def case_prod_unfold Let_def)
  then obtain fl' h' where r: "fwk.run link_example bus_example env_ok [W_start, W_start, W_finish]
      flash_example [] = Some (fl', h')" and "\<not> fl_ongoing fl'"
    by blast
  with flash_single_thread [of "[]" flash_example link_example bus_example env_ok
      "[W_start, W_start, W_finish]" fl' h']
  show ?thesis by (auto simp: flash_example_def)
qed

section \<open>Preparing a firmware\<close>

lemma plain_is_hash_changed:
  assumes "only plain h0 h"
  shows "pred_option (\<lambda>(r, h'). only plain h0 h') (mdm_flash_is_hash_changed E fl f h)"
proof -
  have p: "only plain h0 (snd (mdm_flash_is_property_equal E k v h))" if "only plain h0 h" for k v h
    using that by (simp add: mdm_flash_is_property_equal_def plain_rules case_prod_unfold Let_def)
  have c: "pred_option (\<lambda>(r, h'). only plain h0 h') (mdm_flash_compute_cfg_hash E fl f h)" if "only plain h0 h" for h
    unfolding mdm_flash_compute_cfg_hash_def
    by (rule pred_bind2 [OF plain_fw_get_tlvs [OF that]]) (auto simp: ext_defs Let_def)
  show ?thesis
    unfolding mdm_flash_is_hash_changed_def case_prod_unfold Let_def
    by (auto intro!: pred_bind [OF c [OF p [OF assms], unfolded case_prod_unfold]] p)
qed

lemma plain_prepare [plain_rules]:
  assumes "only plain h0 h"
  shows "pred_option (\<lambda>(r, h'). only plain h0 h') (mdm_flash_prepare E fl h)"
  unfolding mdm_flash_prepare_def case_prod_unfold Let_def
  by (auto simp: plain_rules split: option.splits intro!: pred_bind [OF plain_fw_get_fw_path [unfolded case_prod_unfold, OF assms]]
      pred_bind [OF plain_is_hash_changed [unfolded case_prod_unfold]])

section \<open>Committing an update\<close>

text \<open>The properties written so far, newest first, and the customisation files pushed.\<close>

fun props_set :: "history \<Rightarrow> (string \<times> string) list" where
  "props_set [] = []"
| "props_set (Android (X_property_set k v) # h) = (k, v) # props_set h"
| "props_set (c # h) = props_set h"

lemma props_set_plain: "only plain h h' \<Longrightarrow> props_set h' = props_set h"
proof (erule only_same)
  fix c h assume "plain c"
  then show "props_set (c # h) = props_set h" by (cases c rule: plain.cases) simp_all
qed

lemma push_tlvs_result:
  assumes "push_tlvs E mup fs err h = Some ((file, err'), h')"
  shows "only plain h h' \<and> (file = None \<longrightarrow> err' = err \<and> fs = [] \<or> fst err' = E_MODEM_NVM_SUCCEED) \<and>
    (\<forall>f. file = Some f \<longrightarrow> f \<in> set fs \<and> fst err' \<in> {E_MODEM_NVM_FAIL, E_MODEM_NVM_NO_NVM_PATCH})"
  using assms
proof (induction fs arbitrary: err h)
  case Nil
  then show ?case by simp
next
  case (Cons f fs)
  then obtain e h1 where p: "mdm_mup_push_tlv E mup f h = Some (e, h1)" by (auto simp: bind_eq_Some_conv)
  have e: "fst e \<in> {E_MODEM_NVM_SUCCEED, E_MODEM_NVM_FAIL, E_MODEM_NVM_NO_NVM_PATCH}" "only plain h h1"
    using p plain_push_tlv(1) [of h h E mup f]
    by (auto simp: mdm_mup_push_tlv_def bind_eq_Some_conv case_prod_unfold Let_def split: if_splits)
  show ?case
  proof (cases "fst e = E_MODEM_NVM_SUCCEED")
    case True
    with Cons.prems p have "push_tlvs E mup fs e h1 = Some ((file, err'), h')" by simp
    from Cons.IH [OF this] True e(2) show ?thesis by (auto intro: only_trans)
  next
    case False
    with Cons.prems p e show ?thesis by auto
  qed
qed

text \<open>
  The customisation as it runs: the list of files, then the pushes, then the hashes.
\<close>

lemma streamline_runs:
  assumes "mdm_flash_streamline E fl h = Some ((file, err, fl'), h')" "fl_update fl"
  obtains h1 tlvs f h2 where "fl_err fl = E_MODEM_FW_SUCCEED" "mdm_fw_get_tlvs E (fl_fw fl) (Libc X_uninit # h) = Some ((tlvs, f), h1)"
    "push_tlvs E (fl_mup fl) tlvs (env_nvm E (Libc X_uninit # h), env_int2 E (Libc X_uninit # h)) h1 = Some ((file, err), h2)"
    "fl' = (if file = None then fl else mdm_flash_set_upgrade_err fl MDM_UPDATE_ERR_TLV)\<lparr>fl_fw := f, fl_update := False\<rparr>"
    "h' = (if fst err = E_MODEM_NVM_NO_NVM_PATCH \<or> fst err = E_MODEM_NVM_SUCCEED
           then Android (X_property_set (hp_key (fl_cfg_hash fl')) (hp_value (fl_cfg_hash fl')))
             # Android (X_property_set (hp_key (fl_blob_hash fl')) (hp_value (fl_blob_hash fl'))) # h2
           else h2)" "only plain h h2"
proof -
  obtain h1 tlvs f h2 where r: "fl_err fl = E_MODEM_FW_SUCCEED"
    "mdm_fw_get_tlvs E (fl_fw fl) (Libc X_uninit # h) = Some ((tlvs, f), h1)"
    "push_tlvs E (fl_mup fl) tlvs (env_nvm E (Libc X_uninit # h), env_int2 E (Libc X_uninit # h)) h1 = Some ((file, err), h2)"
    "fl' = (if file = None then fl else mdm_flash_set_upgrade_err fl MDM_UPDATE_ERR_TLV)\<lparr>fl_fw := f, fl_update := False\<rparr>"
    "h' = (if fst err = E_MODEM_NVM_NO_NVM_PATCH \<or> fst err = E_MODEM_NVM_SUCCEED
           then Android (X_property_set (hp_key (fl_cfg_hash fl')) (hp_value (fl_cfg_hash fl')))
             # Android (X_property_set (hp_key (fl_blob_hash fl')) (hp_value (fl_blob_hash fl'))) # h2
           else h2)"
    using assms
    by (auto simp: mdm_flash_streamline_def mdm_flash_get_flashing_err_def xcall_def bind_eq_Some_conv Let_def
        split: if_splits)
  have "only plain h h1" using plain_fw_get_tlvs [of h "Libc X_uninit # h" E "fl_fw fl"] r(2) by simp
  with push_tlvs_result [OF r(3)] have "only plain h h2" by (blast intro: only_trans)
  with r show thesis by (rule that)
qed

text \<open>
  The update is committed last. The hash properties are written if and only if the customisation
  succeeded or the result says that there was nothing to apply, and then both are, with the hashes of this
  update. A customisation file that could not be applied is reported and recorded as an upgrade error; in
  either case the update is no longer pending.
\<close>

theorem streamline_commit:
  assumes "mdm_flash_streamline E fl h = Some ((file, err, fl'), h')"
  shows "props_set h' =
      (if fst err \<in> {E_MODEM_NVM_SUCCEED, E_MODEM_NVM_NO_NVM_PATCH}
       then [(hp_key (fl_cfg_hash fl), hp_value (fl_cfg_hash fl)),
             (hp_key (fl_blob_hash fl), hp_value (fl_blob_hash fl))] else []) @ props_set h \<and>
    (\<not> fl_update fl \<longrightarrow> file = None \<and> fst err = E_MODEM_NVM_NO_NVM_PATCH) \<and>
    (file \<noteq> None \<longrightarrow> fst err \<noteq> E_MODEM_NVM_SUCCEED \<and> fl_update fl \<and> fl_err fl = E_MODEM_FW_SUCCEED \<and>
       fl_upgrade_err fl' AND MDM_UPDATE_ERR_TLV \<noteq> 0) \<and>
    \<not> fl_update fl'"
proof (cases "fl_update fl")
  case False
  with assms show ?thesis
    by (auto simp: mdm_flash_streamline_def xcall_def Let_def)
next
  case True
  obtain h1 tlvs fw h2 where r: "fl_err fl = E_MODEM_FW_SUCCEED"
    "mdm_fw_get_tlvs E (fl_fw fl) (Libc X_uninit # h) = Some ((tlvs, fw), h1)"
    "push_tlvs E (fl_mup fl) tlvs (env_nvm E (Libc X_uninit # h), env_int2 E (Libc X_uninit # h)) h1 = Some ((file, err), h2)"
    "fl' = (if file = None then fl else mdm_flash_set_upgrade_err fl MDM_UPDATE_ERR_TLV)\<lparr>fl_fw := fw, fl_update := False\<rparr>"
    "h' = (if fst err = E_MODEM_NVM_NO_NVM_PATCH \<or> fst err = E_MODEM_NVM_SUCCEED
           then Android (X_property_set (hp_key (fl_cfg_hash fl')) (hp_value (fl_cfg_hash fl')))
             # Android (X_property_set (hp_key (fl_blob_hash fl')) (hp_value (fl_blob_hash fl'))) # h2
           else h2)" "only plain h h2"
    by (rule streamline_runs [OF assms True])
  have hash: "fl_cfg_hash fl' = fl_cfg_hash fl" "fl_blob_hash fl' = fl_blob_hash fl" "\<not> fl_update fl'"
    "file \<noteq> None \<Longrightarrow> fl_upgrade_err fl' AND MDM_UPDATE_ERR_TLV \<noteq> 0"
    using r(4) by (auto simp: mdm_flash_set_upgrade_err_def MDM_UPDATE_ERR_TLV_def flag_simps)
  have "props_set h2 = props_set h" "file \<noteq> None \<longrightarrow> fst err \<noteq> E_MODEM_NVM_SUCCEED"
    using push_tlvs_result [OF r(3)] props_set_plain [OF r(6)] by auto
  then show ?thesis
    unfolding r(5) hash(1,2) using True r(1) hash(3,4) by simp
qed

text \<open>An environment with an update library that works, and no developer's files.\<close>

definition env_mup_works :: env where
  "env_mup_works = env_ok\<lparr>env_int2 := (\<lambda>_. 1)\<rparr>"

lemma example_tlvs:
  "\<exists>h'. mdm_fw_get_tlvs env_mup_works fw_example h = Some (([''/in/a.tlv''], fw_example), h')"
  by (simp add: mdm_fw_get_tlvs_def mdm_fw_dbg_get_tlvs_def fw_example_def file_find_ext_def file_find_def
      env_mup_works_def env_ok_def ext_defs Let_def)

theorem streamline_commit_witness:
  "\<exists>err fl' h'. mdm_flash_streamline env_mup_works flash_example [] = Some ((None, err, fl'), h') \<and>
     props_set h' = [(''cfg'', ''b''), (''blob'', ''a'')]"
proof -
  obtain h1 where t: "mdm_fw_get_tlvs env_mup_works fw_example [Libc X_uninit] = Some (([''/in/a.tlv''], fw_example), h1)"
    using example_tlvs by blast
  then obtain err fl' h' where r: "mdm_flash_streamline env_mup_works flash_example [] = Some ((None, err, fl'), h')"
    and "fst err = E_MODEM_NVM_SUCCEED"
    by (simp add: mdm_flash_streamline_def flash_example_def mdm_mup_push_tlv_def mup_example_def mup_initialize_def xmup_def
        env_mup_works_def env_ok_def mdm_flash_get_flashing_err_def xcall_def Let_def)
  with streamline_commit [OF r] show ?thesis by (auto simp: flash_example_def)
qed

text \<open>
  A customisation that could not even be tried counts as done. When the update library cannot be initialised, the first
  file is reported as failed and recorded as an upgrade error, yet the hashes of the update are written, so the
  file is not applied at the next start either: \<^verbatim>\<open>mdm_mup_push_tlv\<close> reports this failure as
  \<^verbatim>\<open>E_MODEM_NVM_NO_NVM_PATCH\<close>, the value that means there was nothing to apply.
\<close>

theorem streamline_commits_unapplied:
  assumes "mdm_flash_streamline E fl h = Some ((file, err, fl'), h')" "fl_update fl"
    and "mdm_fw_get_tlvs E (fl_fw fl) (Libc X_uninit # h) = Some ((f # fs, fw'), h1)"
    and "env_mup E (Modem X_mup_initialize # h1) \<noteq> E_MUP_SUCCEED"
  shows "file = Some f \<and> fl_upgrade_err fl' AND MDM_UPDATE_ERR_TLV \<noteq> 0 \<and>
    props_set h' = (hp_key (fl_cfg_hash fl), hp_value (fl_cfg_hash fl)) #
      (hp_key (fl_blob_hash fl), hp_value (fl_blob_hash fl)) # props_set h"
proof -
  obtain h0 tlvs fw h2 where r: "fl_err fl = E_MODEM_FW_SUCCEED"
    "mdm_fw_get_tlvs E (fl_fw fl) (Libc X_uninit # h) = Some ((tlvs, fw), h0)"
    "push_tlvs E (fl_mup fl) tlvs (env_nvm E (Libc X_uninit # h), env_int2 E (Libc X_uninit # h)) h0 = Some ((file, err), h2)"
    "fl' = (if file = None then fl else mdm_flash_set_upgrade_err fl MDM_UPDATE_ERR_TLV)\<lparr>fl_fw := fw, fl_update := False\<rparr>"
    "h' = (if fst err = E_MODEM_NVM_NO_NVM_PATCH \<or> fst err = E_MODEM_NVM_SUCCEED
           then Android (X_property_set (hp_key (fl_cfg_hash fl')) (hp_value (fl_cfg_hash fl')))
             # Android (X_property_set (hp_key (fl_blob_hash fl')) (hp_value (fl_blob_hash fl'))) # h2
           else h2)" "only plain h h2"
    by (rule streamline_runs [OF assms(1,2)])
  have "file = Some f" "fst err = E_MODEM_NVM_NO_NVM_PATCH"
    using r(2,3) assms(3,4)
    by (auto simp: mdm_mup_push_tlv_def mup_initialize_def xmup_def bind_eq_Some_conv split: if_splits)
  with r(4-6) show ?thesis
    by (auto simp: props_set_plain mdm_flash_set_upgrade_err_def MDM_UPDATE_ERR_TLV_def flag_simps)
qed

definition env_mup_broken :: env where
  "env_mup_broken = env_mup_works\<lparr>env_mup := (\<lambda>_. E_MUP_FAILED)\<rparr>"

theorem streamline_commits_unapplied_witness:
  "\<exists>err fl' h'. mdm_flash_streamline env_mup_broken flash_example [] = Some ((Some ''/in/a.tlv'', err, fl'), h') \<and>
     props_set h' = [(''cfg'', ''b''), (''blob'', ''a'')]"
proof -
  obtain h1 where t: "mdm_fw_get_tlvs env_mup_broken fw_example [Libc X_uninit] = Some (([''/in/a.tlv''], fw_example), h1)"
    by (simp add: mdm_fw_get_tlvs_def mdm_fw_dbg_get_tlvs_def fw_example_def file_find_ext_def file_find_def
        env_mup_broken_def env_mup_works_def env_ok_def ext_defs Let_def)
  then obtain x err fl' h' where r: "mdm_flash_streamline env_mup_broken flash_example [] = Some ((x, err, fl'), h')"
    by (simp add: mdm_flash_streamline_def flash_example_def mdm_mup_push_tlv_def mup_example_def mup_initialize_def xmup_def
        env_mup_broken_def env_mup_works_def env_ok_def mdm_flash_get_flashing_err_def xcall_def Let_def)
  from streamline_commits_unapplied [OF r, of "''/in/a.tlv''" "[]" fw_example h1] t r show ?thesis
    by (simp add: flash_example_def env_mup_broken_def env_mup_works_def env_ok_def)
qed

end
