(* ===== verification/At.thy ===== *)
theory At
  imports Tty
begin

text \<open>
  AT commands (\<^verbatim>\<open>libutils/at.c\<close>) and the multiplexer (\<^verbatim>\<open>core/mux.c\<close>): a command is written to the modem's channel and
  repeated until the modem answers \<^verbatim>\<open>OK\<close> or the attempts are used up; the kernel's multiplexer is attached to
  the channel and configured.

  \<^term>\<open>None\<close>: the modem announces \<^verbatim>\<open>PBREADY\<close> for ever.
\<close>

section \<open>AT commands\<close>

definition AT_READ_SIZE :: nat where "AT_READ_SIZE = 20"
definition AT_READ_MAX_RETRIES :: nat where "AT_READ_MAX_RETRIES = 4"
definition AT_ANSWER_NO_TIMEOUT :: int where "AT_ANSWER_NO_TIMEOUT = 0"
definition AT_ANSWER_SHORT_TIMEOUT :: int where "AT_ANSWER_SHORT_TIMEOUT = 2500"

definition tcflush_io :: "int \<Rightarrow> history \<Rightarrow> history" where
  "tcflush_io fd = xcall (File (X_tcflush fd False))"

definition tcflush_in :: "int \<Rightarrow> history \<Rightarrow> history" where
  "tcflush_in fd = xcall (File (X_tcflush fd True))"

text \<open>The loop that waits for the answer. The text read is what \<^verbatim>\<open>tty_read\<close> left in the buffer, up to a zero.\<close>

partial_function (option) answer_loop :: "env \<Rightarrow> int \<Rightarrow> int \<Rightarrow> history \<Rightarrow> (e_mmgr_errors \<times> history) option" where
  "answer_loop E fd timeout h =
     (let (ret, h1) = tty_wait_for_event E fd timeout h in
      if ret \<noteq> E_ERR_SUCCESS then Some (ret, h1)
      else
        let ((ret, buf, data_size), h2) = tty_read E fd AT_READ_SIZE AT_READ_MAX_RETRIES h1 in
        if ret \<noteq> E_ERR_SUCCESS then Some (ret, h2)
        else
          let data = buffer_string (take data_size buf) in
          if strstr data ''OK'' \<noteq> None then Some (E_ERR_SUCCESS, tcflush_in fd h2)
          else if strstr data ''PBREADY'' \<noteq> None then answer_loop E fd timeout h2
          else Some (E_ERR_FAILED, tcflush_in fd h2))"

declare answer_loop.simps [code]

definition send_at :: "env \<Rightarrow> int \<Rightarrow> string \<Rightarrow> int \<Rightarrow> history \<Rightarrow> (e_mmgr_errors \<times> history) option" where
  "send_at E fd command timeout h =
     (let (ret, h1) = tty_write E fd (cstr command) (tcflush_io fd h) in
      if ret \<noteq> E_ERR_SUCCESS \<or> timeout = AT_ANSWER_NO_TIMEOUT then Some (ret, h1)
      else answer_loop E fd timeout h1)"

text \<open>
  The loop of \<^verbatim>\<open>send_at_retry\<close>: \<open>n\<close> attempts are left, \<open>ret\<close> is the result so far.
\<close>

fun at_attempts ::
  "env \<Rightarrow> int \<Rightarrow> string \<Rightarrow> int \<Rightarrow> nat \<Rightarrow> e_mmgr_errors \<Rightarrow> history \<Rightarrow> (e_mmgr_errors \<times> history) option" where
  "at_attempts E fd cmd timeout 0 ret h = Some (ret, h)"
| "at_attempts E fd cmd timeout (Suc n) ret h =
     do { (ret, h1) \<leftarrow> send_at E fd cmd timeout h;
          if ret = E_ERR_TTY_BAD_FD \<or> ret = E_ERR_TTY_POLLHUP \<or> ret = E_ERR_SUCCESS then Some (ret, h1)
          else at_attempts E fd cmd timeout n ret h1 }"

definition send_at_retry ::
  "env \<Rightarrow> int \<Rightarrow> string \<Rightarrow> int \<Rightarrow> int \<Rightarrow> history \<Rightarrow> (e_mmgr_errors \<times> history) option" where
  "send_at_retry E fd_tty at_cmd retry timeout h =
     at_attempts E fd_tty at_cmd timeout (nat (retry + 1)) E_ERR_FAILED h"

section \<open>Multiplexer\<close>

record mux_t =
  mux_frame_size :: int
  mux_retry :: int

definition AT_PING_CMD :: string where "AT_PING_CMD = ''ATE0'' @ [CR]"
definition AT_MUX_CMD_SIZE :: nat where "AT_MUX_CMD_SIZE = 128"
definition N_GSM0710 :: int where "N_GSM0710 = 21"

definition modem_handshake :: "env \<Rightarrow> int \<Rightarrow> int \<Rightarrow> history \<Rightarrow> (e_mmgr_errors \<times> history) option" where
  "modem_handshake E fd_tty retry = send_at_retry E fd_tty AT_PING_CMD retry AT_ANSWER_SHORT_TIMEOUT"

text \<open>The line discipline read back is the second answer of \<^verbatim>\<open>TIOCGETD\<close>.\<close>

definition configure_cmux_driver :: "env \<Rightarrow> int \<Rightarrow> int \<Rightarrow> history \<Rightarrow> e_mmgr_errors \<times> history" where
  "configure_cmux_driver E fd_tty max_frame_size h =
     (let (err, h1) = xint E (File (X_tty_ioctl fd_tty (TIOCSETD N_GSM0710))) h in
      if err < 0 then (E_ERR_FAILED, h1)
      else
        let (err, h2) = xint E (File (X_tty_ioctl fd_tty TIOCGETD)) h1 in
        if err < 0 then (E_ERR_FAILED, h2)
        else if env_int2 E h2 \<noteq> N_GSM0710 then (E_ERR_FAILED, h2)
        else
          let (err, h3) = xint E (File (X_tty_ioctl fd_tty GSMIOC_GETCONF)) h2 in
          if err < 0 then (E_ERR_FAILED, h3)
          else
            let cfg = (env_gsm E h3)\<lparr>gc_encapsulation := 0, gc_initiator := 1, gc_mru := max_frame_size,
                                     gc_mtu := max_frame_size, gc_burst := 0\<rparr>;
                (err, h4) = xint E (File (X_tty_ioctl fd_tty (GSMIOC_SETCONF cfg))) h3 in
            (if err < 0 then E_ERR_FAILED else E_ERR_SUCCESS, h4))"

definition at_cmux_config :: "mux_t \<Rightarrow> string" where
  "at_cmux_config mux = snprintf AT_MUX_CMD_SIZE (''AT+CMUX=0,0,,'' @ dec (mux_frame_size mux) @ '',10,3,30,,'' @ [CR])"

definition send_at_cmux :: "env \<Rightarrow> int \<Rightarrow> mux_t \<Rightarrow> history \<Rightarrow> (e_mmgr_errors \<times> history) option" where
  "send_at_cmux E fd_tty mux = send_at_retry E fd_tty (at_cmux_config mux) (mux_retry mux) AT_ANSWER_SHORT_TIMEOUT"

section \<open>Lemmas\<close>

text \<open>A command without answer is one write; it always returns.\<close>

lemma send_at_no_answer:
  "send_at E fd cmd AT_ANSWER_NO_TIMEOUT h = Some (tty_write E fd (cstr cmd) (tcflush_io fd h))"
  by (simp add: send_at_def Let_def split: prod.splits)

lemma send_at_once:
  "\<exists>ret. send_at_retry E fd cmd 0 AT_ANSWER_NO_TIMEOUT h = Some (ret, snd (tty_write E fd (cstr cmd) (tcflush_io fd h)))"
  by (cases "tty_write E fd (cstr cmd) (tcflush_io fd h)")
    (simp add: send_at_retry_def send_at_no_answer)

text \<open>AT commands are plain calls.\<close>

lemma plain_flush [plain_rules]:
  "only plain h0 h \<Longrightarrow> only plain h0 (tcflush_io fd h)" "only plain h0 h \<Longrightarrow> only plain h0 (tcflush_in fd h)"
  by (simp_all add: tcflush_io_def tcflush_in_def xcall_def)

lemma plain_answer_loop:
  assumes "answer_loop E fd t h = Some p"
  shows "only plain h (snd p)"
proof (rule answer_loop.raw_induct [OF _ assms], goal_cases)
  case (1 f E fd t h p)
  have "f E fd t h' = Some p \<Longrightarrow> only plain h h' \<Longrightarrow> only plain h (snd p)" for h'
    using 1(1) only_trans by blast
  with 1(2) show ?case by (auto simp: case_prod_unfold Let_def plain_rules split: if_splits)
qed

lemma plain_send_at [plain_rules]:
  assumes "only plain h0 h"
  shows "pred_option (\<lambda>(r, h'). only plain h0 h') (send_at E fd cmd t h)"
proof (cases "send_at E fd cmd t h")
  case (Some p)
  let ?w = "tty_write E fd (cstr cmd) (tcflush_io fd h)"
  have w: "only plain h0 (snd ?w)" using assms by (simp add: plain_rules)
  have "p = ?w \<or> answer_loop E fd t (snd ?w) = Some p"
    using Some by (auto simp: send_at_def case_prod_unfold Let_def split: if_splits)
  then show ?thesis using Some w plain_answer_loop only_trans by fastforce
qed simp

lemma plain_at_attempts:
  "only plain h0 h \<Longrightarrow> pred_option (\<lambda>(r, h'). only plain h0 h') (at_attempts E fd cmd t n ret h)"
  by (induction n arbitrary: ret h) (auto intro!: pred_bind2 [OF plain_send_at])

lemma plain_send_at_retry [plain_rules]:
  "only plain h0 h \<Longrightarrow> pred_option (\<lambda>(r, h'). only plain h0 h') (send_at_retry E fd cmd k t h)"
  by (simp add: send_at_retry_def plain_at_attempts)

lemma plain_mux [plain_rules]:
  "only plain h0 h \<Longrightarrow> only plain h0 (snd (configure_cmux_driver E fd n h))"
  by (simp add: configure_cmux_driver_def ext_defs Let_def)

end
