(* ===== verification/Security.thy ===== *)
theory Security
  imports At
begin

text \<open>
  The secure channel (\<^verbatim>\<open>core/security.c\<close>): requests of the modem are decoded, handed to the security
  library, and its answers queued and sent one at a time; the next is sent when the modem acknowledged the
  one before, and a rejected one is sent a second time.

  Text received from the modem is a string without its terminating zero. Base64 and the security
  library are answers of the environment. \<^term>\<open>None\<close> is a failed assertion or an access outside a buffer, or
  an endless loop.
\<close>

section \<open>State\<close>

record sec_msg_t =
  sm_message :: string
  sm_err :: bool

text \<open>The array \<^verbatim>\<open>send_queue\<close> and its fill level are the list of the filled entries.\<close>

record secure_t =
  se_enable :: bool
  se_dlc :: string
  se_fd :: int
  se_hdle :: bool
  se_queue :: "sec_msg_t list"
  se_err_msg :: "string option"

datatype modem_rsp = RSP_OK | RSP_ERROR | RSP_NONE

definition MSGS_MAX :: nat where "MSGS_MAX = 6"
definition AT_SIZE :: nat where "AT_SIZE = 1024"
definition AT_SEC_RETRY :: nat where "AT_SEC_RETRY = 4"
definition MAX_TLV_LEN :: int where "MAX_TLV_LEN = 2 * 1024"
definition MSG_START_STR :: string where "MSG_START_STR = ''+xsecchannel:''"
definition MSG_ANSWER_START :: string where "MSG_ANSWER_START = ''+xsecchannel=''"

section \<open>Strings\<close>

definition lower :: "char \<Rightarrow> char" where
  "lower c = (let n = of_char c :: nat in if 65 \<le> n \<and> n \<le> 90 then char_of (n + 32) else c)"

definition strcasestr :: "string \<Rightarrow> string \<Rightarrow> string option" where
  "strcasestr s pat =
     map_option (\<lambda>r. drop (length s - length r) s) (strstr (map lower s) (map lower pat))"

fun expect :: "char \<Rightarrow> string \<Rightarrow> string option" where
  "expect c [] = None"
| "expect c (d # s) = (if d = c then Some s else None)"

definition scan3 :: "string \<Rightarrow> (int \<times> int \<times> int) option" where
  "scan3 s =
     do { (a, s1) \<leftarrow> scan_int s; s2 \<leftarrow> expect (CHR '','') s1;
          (b, s3) \<leftarrow> scan_int s2; s4 \<leftarrow> expect (CHR '','') s3;
          (c, _) \<leftarrow> scan_int s4; Some (a, b, c) }"

section \<open>Messages\<close>

text \<open>
  Only an upper bound of the announced length is checked: a negative one reaches \<^verbatim>\<open>memcpy\<close> as a huge
  size (\<^term>\<open>None\<close>), unless the allocation fails. A short read of the rest is returned with the
  status of the read, which is a success.
\<close>

definition retrieve_data ::
  "env \<Rightarrow> int \<Rightarrow> string \<Rightarrow> history \<Rightarrow>
     ((e_mmgr_errors \<times> string option \<times> int \<times> int \<times> int) \<times> history) option" where
  "retrieve_data E fd received h =
     (let r1 = drop (length MSG_START_STR) received in
      case scan3 r1 of
        None \<Rightarrow> Some ((E_ERR_FAILED, None, 0, 0, 0), h)
      | Some (send_id, req_id, len) \<Rightarrow>
          if len > MAX_TLV_LEN then Some ((E_ERR_FAILED, None, send_id, req_id, len), h)
          else
            case strstr r1 [char_of (34 :: nat)] of
              None \<Rightarrow> Some ((E_ERR_FAILED, None, send_id, req_id, len), h)
            | Some q \<Rightarrow>
                let r2 = tl q; (ok, h1) = xint E (Libc (X_calloc (unat (word_of_int (len + 3) :: u32)))) h in
                if ok = 0 then Some ((E_ERR_FAILED, None, send_id, req_id, len), h1)
                else if len < 0 then None
                else
                  let data = (case strstr r2 [char_of (13 :: nat)] of
                                Some e \<Rightarrow> take (length r2 - length e) r2 | None \<Rightarrow> r2);
                      part = take (nat len) data in
                  if length part \<noteq> nat len
                  then
                    let remain = nat len - length part + 3;
                        ((ret, bs, tmp), h2) = tty_read E fd remain AT_READ_MAX_RETRIES h1 in
                    if ret \<noteq> E_ERR_SUCCESS \<or> tmp \<noteq> remain
                    then Some ((ret, Some (part @ buffer_string bs), send_id, req_id, len), h2)
                    else Some ((E_ERR_SUCCESS, Some (take (nat len) (part @ buffer_string bs)),
                                send_id, req_id, len), h2)
                  else Some ((E_ERR_SUCCESS, Some part, send_id, req_id, len), h1))"

text \<open>The type is read from the first two bytes of a buffer of \<open>rec_len\<close> bytes.\<close>

definition decode_data ::
  "env \<Rightarrow> string \<Rightarrow> nat \<Rightarrow> history \<Rightarrow> ((e_mmgr_errors \<times> u32 \<times> byte list option) \<times> history) option" where
  "decode_data E received rec_len h =
     (let (tmp, h1) = calloc E rec_len h in
      case tmp of
        None \<Rightarrow> Some ((E_ERR_FAILED, 0, None), h1)
      | Some zeros \<Rightarrow>
          let (r, h2) = xint E (Plug (X_b64_pton received rec_len)) h1;
              bs = take rec_len (env_bytes E h2); tmp1 = bs @ drop (length bs) zeros in
          if r < 0 then Some ((E_ERR_FAILED, 0, None), h2)
          else if rec_len < 2 then None
          else
            let ty = ucast (tmp1 ! 0) OR push_bit 8 (ucast (tmp1 ! 1));
                (m, h3) = xint E (Libc (X_calloc (length bs))) h2 in
            if m = 0 then Some ((E_ERR_FAILED, ty, None), h3)
            else Some ((E_ERR_SUCCESS, ty, Some bs), h3))"

text \<open>The encoded command comes with the size of the buffer it was printed into.\<close>

definition encode_data ::
  "env \<Rightarrow> int \<Rightarrow> int \<Rightarrow> byte list \<Rightarrow> history \<Rightarrow> (e_mmgr_errors \<times> (string \<times> nat) option) \<times> history" where
  "encode_data E send_id req_id src h =
     (if src = [] then ((E_ERR_FAILED, None), h)
      else
        let (ok, h1) = xint E (Libc (X_calloc (length src * 4 div 3 + 4))) h in
        if ok = 0 then ((E_ERR_FAILED, None), h1)
        else
          let (r, h2) = xint E (Plug (X_b64_ntop src)) h1; conv = env_string E h2 in
          if r < 0 then ((E_ERR_FAILED, None), h2)
          else
            let send_len = length conv + 5 * 2 + 12 + (10 + length MSG_ANSWER_START);
                (m, h3) = xint E (Libc (X_calloc send_len)) h2 in
            if m = 0 then ((E_ERR_FAILED, None), h3)
            else ((E_ERR_SUCCESS,
                   Some (''at'' @ MSG_ANSWER_START @ dec send_id @ '','' @ dec req_id @ '','' @
                         dec (int (length conv)) @ '','' @ [char_of (34 :: nat)] @ conv @
                         [char_of (34 :: nat), char_of (13 :: nat), char_of (10 :: nat)], send_len)), h3))"

section \<open>The queue\<close>

fun send_loop :: "env \<Rightarrow> int \<Rightarrow> string \<Rightarrow> e_mmgr_errors \<Rightarrow> nat \<Rightarrow> history \<Rightarrow> e_mmgr_errors \<times> history" where
  "send_loop E fd msg ret 0 h = (ret, h)"
| "send_loop E fd msg ret (Suc n) h =
     (let (ret', h1) = tty_write E fd (cstr msg) h in
      if ret' = E_ERR_SUCCESS then (ret', h1) else send_loop E fd msg ret' n h1)"

text \<open>The first message of the queue is written, at most four times. \<^term>\<open>None\<close>: there is none.\<close>

definition send_sec_msg :: "env \<Rightarrow> secure_t \<Rightarrow> history \<Rightarrow> (e_mmgr_errors \<times> history) option" where
  "send_sec_msg E s h =
     (case se_queue s of
        [] \<Rightarrow> None
      | m # _ \<Rightarrow> Some (send_loop E (se_fd s) (sm_message m) E_ERR_FAILED AT_SEC_RETRY h))"

text \<open>The whole message with its zero is copied: it must fit the buffer it was printed into.\<close>

definition push_msg ::
  "env \<Rightarrow> secure_t \<Rightarrow> string \<times> nat \<Rightarrow> history \<Rightarrow> ((e_mmgr_errors \<times> secure_t) \<times> history) option" where
  "push_msg E s msg h =
     do { ((ret, s1), h1) \<leftarrow>
            (if length (se_queue s) < MSGS_MAX
             then
               let (ok, h1) = xint E (Libc (X_calloc (length (fst msg) + 1))) h in
               if ok = 0 \<or> length (fst msg) + 1 > snd msg then None
               else Some ((E_ERR_SUCCESS,
                           s\<lparr>se_queue := se_queue s @ [\<lparr>sm_message = fst msg, sm_err = False\<rparr>]\<rparr>), h1)
             else Some ((E_ERR_FAILED, s), h));
          if length (se_queue s1) = 1
          then do { (r, h2) \<leftarrow> send_sec_msg E s1 h1;
                    Some ((ret, if r \<noteq> E_ERR_SUCCESS then s1\<lparr>se_queue := []\<rparr> else s1), h2) }
          else Some ((ret, s1), h1) }"

definition pull_msg :: "env \<Rightarrow> secure_t \<Rightarrow> history \<Rightarrow> ((e_mmgr_errors \<times> secure_t) \<times> history) option" where
  "pull_msg E s h =
     (case se_queue s of
        [] \<Rightarrow> None
      | _ # q \<Rightarrow>
          let s1 = s\<lparr>se_queue := q\<rparr> in
          if q \<noteq> []
          then do { (_, h1) \<leftarrow> send_sec_msg E s1 h; Some ((E_ERR_SUCCESS, s1), h1) }
          else Some ((E_ERR_SUCCESS, s1), h))"

definition check_response :: "string \<Rightarrow> modem_rsp" where
  "check_response buffer =
     (if strstr buffer ''OK'' \<noteq> None then RSP_OK
      else if strstr buffer ''ERROR'' \<noteq> None then RSP_ERROR else RSP_NONE)"

text \<open>
  When the library refuses the request the function returns the success of the decoding, and no
  command: the caller pushes its uninitialised or already freed pointer.
\<close>

definition handle_message ::
  "env \<Rightarrow> secure_t \<Rightarrow> string \<Rightarrow> history \<Rightarrow>
     ((e_mmgr_errors \<times> (string \<times> nat) option) \<times> history) option" where
  "handle_message E s buffer h =
     do { ((ret, data, send_id, req_id, rec_len), h1) \<leftarrow> retrieve_data E (se_fd s) buffer h;
          case data of
            None \<Rightarrow> Some ((ret, None), h1)
          | Some d \<Rightarrow>
              if ret \<noteq> E_ERR_SUCCESS then Some ((ret, None), h1)
              else do {
                ((ret2, ty, conv), h2) \<leftarrow> decode_data E d (nat rec_len) h1;
                case conv of
                  None \<Rightarrow> Some ((ret2, None), h2)
                | Some bs \<Rightarrow>
                    let (err, h3) = xint E (Plug (X_secure_callback ty bs)) h2; out = env_bytes E h3 in
                    if err < 0 then Some ((ret2, None), h3)
                    else
                      let ((ret3, send), h4) = encode_data E send_id req_id out h3 in
                      if ret3 \<noteq> E_ERR_SUCCESS then Some ((ret3, None), h4)
                      else Some ((E_ERR_SUCCESS, send), xcall (Plug X_secure_free) h4) } }"

text \<open>Every request of one received chunk.\<close>

lemma strstr_length: "strstr s pat = Some r \<Longrightarrow> length pat \<le> length r \<and> length r \<le> length s"
  by (induction s) (auto split: if_splits, metis length_Cons length_take min.cobounded1)

lemma strcasestr_length:
  "strcasestr s pat = Some r \<Longrightarrow> length pat \<le> length r \<and> length r \<le> length s"
  by (auto simp: strcasestr_def dest!: strstr_length)

function msg_loop :: "env \<Rightarrow> secure_t \<Rightarrow> string \<Rightarrow> history \<Rightarrow> (secure_t \<times> history) option" where
  "msg_loop E s chunk h =
     (case strcasestr chunk MSG_START_STR of
        None \<Rightarrow> Some (s, h)
      | Some m \<Rightarrow>
          do { ((ret, send), h1) \<leftarrow> handle_message E s m h;
               (s1, h2) \<leftarrow> (if ret \<noteq> E_ERR_FAILED
                           then do { msg \<leftarrow> send; ((_, s1), h2) \<leftarrow> push_msg E s msg h1; Some (s1, h2) }
                           else Some (s, h1));
               msg_loop E s1 (drop (length MSG_START_STR) m) h2 })"
  by pat_completeness auto
termination
  by (relation "measure (\<lambda>(_, _, chunk, _). length chunk)")
    (auto simp: MSG_START_STR_def dest!: strcasestr_length)

declare msg_loop.simps [simp del]

text \<open>The modem's answer to the command at the head of the queue.\<close>

definition sec_response ::
  "env \<Rightarrow> secure_t \<Rightarrow> string \<Rightarrow> history \<Rightarrow> (secure_t \<times> history) option" where
  "sec_response E s buffer h =
     (case se_queue s of
        [] \<Rightarrow> Some (s, h)
      | m # q \<Rightarrow>
          (case check_response buffer of
             RSP_OK \<Rightarrow> do { ((_, s1), h1) \<leftarrow> pull_msg E s h; Some (s1, h1) }
           | RSP_ERROR \<Rightarrow>
               if \<not> sm_err m
               then do { (_, h1) \<leftarrow> send_sec_msg E s h;
                         Some (s\<lparr>se_queue := m\<lparr>sm_err := True\<rparr> # q\<rparr>, h1) }
               else do { ((_, s1), h1) \<leftarrow>
                           pull_msg E (s\<lparr>se_err_msg := Some ''AT+XSECCHANNEL command rejected''\<rparr>) h;
                         Some (s1, h1) }
           | RSP_NONE \<Rightarrow> Some (s, h)))"

partial_function (option) event_loop ::
  "env \<Rightarrow> secure_t \<Rightarrow> history \<Rightarrow> ((e_mmgr_errors \<times> secure_t) \<times> history) option" where
  "event_loop E s h =
     (let ((ret, data, read_size), h1) = tty_read E (se_fd s) AT_SIZE AT_READ_MAX_RETRIES h in
      if ret \<noteq> E_ERR_SUCCESS then Some ((ret, s), h1)
      else if read_size = 0 then Some ((ret, s), h1)
      else
        do { let buffer = buffer_string (take read_size data);
             (s1, h2) \<leftarrow> msg_loop E s buffer h1;
             (s2, h3) \<leftarrow> sec_response E s1 buffer h2;
             event_loop E s2 h3 })"

declare event_loop.simps [code]

definition secure_event ::
  "env \<Rightarrow> secure_t \<Rightarrow> history \<Rightarrow> ((e_mmgr_errors \<times> secure_t) \<times> history) option" where
  "secure_event E s h =
     (if \<not> se_enable s then Some ((E_ERR_SUCCESS, s), h)
      else event_loop E (s\<lparr>se_err_msg := None\<rparr>) h)"

section \<open>Start and stop\<close>

definition secure_register ::
  "env \<Rightarrow> secure_t \<Rightarrow> history \<Rightarrow> (e_mmgr_errors \<times> int \<times> secure_t) \<times> history" where
  "secure_register E s h =
     (let s1 = s\<lparr>se_fd := CLOSED_FD\<rparr> in
      if se_enable s1
      then let ((ret, fd), h1) = tty_open E (se_dlc s1) (se_fd s1) h in
           ((ret, fd, s1\<lparr>se_fd := fd\<rparr>), h1)
      else ((E_ERR_SUCCESS, se_fd s1, s1), h))"

definition secure_start :: "env \<Rightarrow> secure_t \<Rightarrow> history \<Rightarrow> (e_mmgr_errors \<times> secure_t) \<times> history" where
  "secure_start E s h =
     (if se_enable s
      then let (ret, h1) = tty_write E (se_fd s) (cstr ''at+xsecchannel?'' @ [13]) h in
           ((ret, s\<lparr>se_queue := []\<rparr>), h1)
      else ((E_ERR_SUCCESS, s), h))"

definition secure_stop :: "env \<Rightarrow> secure_t \<Rightarrow> history \<Rightarrow> (e_mmgr_errors \<times> secure_t) \<times> history" where
  "secure_stop E s h =
     (if se_enable s
      then let ((ret, fd), h1) = tty_close E (se_fd s) h in ((ret, s\<lparr>se_fd := fd\<rparr>), h1)
      else ((E_ERR_SUCCESS, s), h))"

text \<open>A failed allocation or a missing library gives the NULL handle.\<close>

definition secure_init :: "env \<Rightarrow> bool \<Rightarrow> string \<Rightarrow> history \<Rightarrow> secure_t option \<times> history" where
  "secure_init E enabled device h =
     (let (ok, h1) = xint E (Libc (X_calloc 4200)) h;
          s = \<lparr>se_enable = enabled, se_dlc = '''', se_fd = CLOSED_FD, se_hdle = False, se_queue = [],
               se_err_msg = None\<rparr> in
      if ok = 0 then (None, h1)
      else if \<not> enabled then (Some s, h1)
      else
        let (hdle, h2) = xint E (Libc (X_dlopen ''libdx_cc7.so'')) h1 in
        if hdle = 0 then (None, h2)
        else
          let (missing, h3) = xint E (Libc (X_dlerror ''libdx_cc7.so'')) h2 in
          if missing \<noteq> 0 then (None, xcall (Libc (X_dlclose ''libdx_cc7.so'')) h3)
          else (Some (s\<lparr>se_dlc := take 4095 device, se_hdle := True\<rparr>), h3))"

definition secure_dispose :: "secure_t \<Rightarrow> history \<Rightarrow> e_mmgr_errors \<times> history" where
  "secure_dispose s h =
     (if \<not> se_enable s then (E_ERR_SUCCESS, h)
      else if se_hdle s then (E_ERR_SUCCESS, xcall (Libc (X_dlclose ''libdx_cc7.so'')) h)
      else (E_ERR_FAILED, h))"

definition secure_get_fd :: "secure_t \<Rightarrow> int" where
  "secure_get_fd s = se_fd s"

definition secure_get_error :: "secure_t \<Rightarrow> string option" where
  "secure_get_error s = se_err_msg s"

section \<open>Properties of the queue\<close>

lemma send_sec_msg_total: "se_queue s \<noteq> [] \<Longrightarrow> \<exists>r h'. send_sec_msg E s h = Some (r, h')"
  by (cases "se_queue s") (auto simp: send_sec_msg_def intro: prod.exhaust)

text \<open>A pushed command goes to the end of the queue, unless the queue is full or it was first and cannot be sent.\<close>

lemma push_msg_queue:
  assumes "push_msg E s msg h = Some ((ret, s'), h')"
  shows "se_queue s' = se_queue s @ [\<lparr>sm_message = fst msg, sm_err = False\<rparr>] \<or>
    se_queue s' = se_queue s \<and> (length (se_queue s) \<ge> MSGS_MAX \<or> se_queue s = [])"
    and "length (se_queue s) \<le> MSGS_MAX \<Longrightarrow> length (se_queue s') \<le> MSGS_MAX"
proof -
  show *: "se_queue s' = se_queue s @ [\<lparr>sm_message = fst msg, sm_err = False\<rparr>] \<or>
    se_queue s' = se_queue s \<and> (length (se_queue s) \<ge> MSGS_MAX \<or> se_queue s = [])"
    using assms
    by (cases "length (se_queue s) < MSGS_MAX")
      (auto simp: push_msg_def xint_def Let_def bind_eq_Some_conv not_less MSGS_MAX_def split: if_splits)
  show "length (se_queue s') \<le> MSGS_MAX" if "length (se_queue s) \<le> MSGS_MAX"
  proof (cases "length (se_queue s) < MSGS_MAX")
    case True
    with * show ?thesis by auto
  next
    case False
    then have "se_queue s' = se_queue s"
      using assms by (auto simp: push_msg_def MSGS_MAX_def bind_eq_Some_conv split: if_splits)
    with that show ?thesis by simp
  qed
qed

lemma pull_msg_queue:
  assumes "pull_msg E s h = Some ((ret, s'), h')"
  shows "se_queue s' = tl (se_queue s) \<and> se_queue s \<noteq> [] \<and> se_err_msg s' = se_err_msg s"
  using assms by (auto simp: pull_msg_def Let_def bind_eq_Some_conv split: list.splits if_splits)

lemma msg_loop_bounded:
  assumes "msg_loop E s chunk h = Some (s', h')" "length (se_queue s) \<le> MSGS_MAX"
  shows "length (se_queue s') \<le> MSGS_MAX"
  using assms
proof (induction E s chunk h arbitrary: s' h' rule: msg_loop.induct)
  case (1 E s chunk h)
  show ?case
  proof (cases "strcasestr chunk MSG_START_STR")
    case None
    with 1 show ?thesis by (simp add: msg_loop.simps [of E s chunk h])
  next
    case (Some m)
    from "1.prems"(1) Some obtain ret send h1 s1 h2
      where hm: "handle_message E s m h = Some ((ret, send), h1)"
        and st: "(if ret \<noteq> E_ERR_FAILED
             then do { msg \<leftarrow> send; ((_, s1), h2) \<leftarrow> push_msg E s msg h1; Some (s1, h2) }
             else Some (s, h1)) = Some (s1, h2)"
        and rest: "msg_loop E s1 (drop (length MSG_START_STR) m) h2 = Some (s', h')"
      by (auto simp: msg_loop.simps [of E s chunk h] bind_eq_Some_conv)
    have "length (se_queue s1) \<le> MSGS_MAX"
      using st "1.prems"(2) push_msg_queue(2) by (auto simp: bind_eq_Some_conv split: if_splits)
    from "1.IH" [OF Some hm refl refl st refl rest this] show ?thesis .
  qed
qed

lemma sec_response_bounded:
  assumes "sec_response E s buffer h = Some (s', h')" "length (se_queue s) \<le> MSGS_MAX"
  shows "length (se_queue s') \<le> MSGS_MAX"
  using assms
  by (auto simp: sec_response_def bind_eq_Some_conv split: list.splits modem_rsp.splits if_splits
      dest!: pull_msg_queue)

lemma event_loop_bounded:
  assumes "event_loop E s h = Some r"
  shows "length (se_queue s) \<le> MSGS_MAX \<longrightarrow> length (se_queue (snd (fst r))) \<le> MSGS_MAX"
proof (rule event_loop.raw_induct [OF _ assms])
  fix f E s h r
  assume IH: "\<And>E s h r. f E s h = Some r \<Longrightarrow>
      length (se_queue s) \<le> MSGS_MAX \<longrightarrow> length (se_queue (snd (fst r))) \<le> MSGS_MAX"
    and step: "(let ((ret, data, read_size), h1) = tty_read E (se_fd s) AT_SIZE AT_READ_MAX_RETRIES h in
      if ret \<noteq> E_ERR_SUCCESS then Some ((ret, s), h1)
      else if read_size = 0 then Some ((ret, s), h1)
      else
        do { let buffer = buffer_string (take read_size data);
             (s1, h2) \<leftarrow> msg_loop E s buffer h1;
             (s2, h3) \<leftarrow> sec_response E s1 buffer h2;
             f E s2 h3 }) = Some r"
  show "length (se_queue s) \<le> MSGS_MAX \<longrightarrow> length (se_queue (snd (fst r))) \<le> MSGS_MAX"
    using step IH
    by (cases r) (auto simp: Let_def bind_eq_Some_conv split: prod.splits if_splits
        dest!: msg_loop_bounded sec_response_bounded)
qed

text \<open>
  The command queue of the secure channel never exceeds its array: however many
  requests the modem sends in however many chunks, a secure event that returns leaves at most \<^verbatim>\<open>MSGS_MAX\<close>
  commands queued if there were at most that many before.
\<close>

theorem secure_queue_bounded:
  assumes "secure_event E s h = Some ((ret, s'), h')" "length (se_queue s) \<le> MSGS_MAX"
  shows "length (se_queue s') \<le> MSGS_MAX"
  using assms event_loop_bounded [of E "s\<lparr>se_err_msg := None\<rparr>" h "((ret, s'), h')"]
  by (auto simp: secure_event_def split: if_splits)

definition secure_example :: secure_t where
  "secure_example =
     \<lparr>se_enable = True, se_dlc = ''/dev/gsmtty10'', se_fd = 9, se_hdle = True,
      se_queue = [\<lparr>sm_message = ''at+xsecchannel=1'', sm_err = False\<rparr>,
                  \<lparr>sm_message = ''at+xsecchannel=2'', sm_err = False\<rparr>], se_err_msg = None\<rparr>"

theorem secure_queue_bounded_witness:
  "\<exists>ret s' h'. secure_event env_ok secure_example [] = Some ((ret, s'), h') \<and>
     length (se_queue s') \<le> MSGS_MAX"
proof -
  have "\<exists>ret s' h'. secure_event env_ok secure_example [] = Some ((ret, s'), h')"
    by (simp add: secure_event_def secure_example_def event_loop.simps tty_read_def AT_SIZE_def
        AT_READ_MAX_RETRIES_def numeral_eq_Suc sys_read_def env_ok_def xcall_def Let_def)
  then obtain ret s' h' where r: "secure_event env_ok secure_example [] = Some ((ret, s'), h')" by blast
  from secure_queue_bounded [OF r] r show ?thesis
    by (auto simp: secure_example_def MSGS_MAX_def)
qed

text \<open>
  Commands of the secure channel are answered in order, and a rejected one is sent exactly once more. An
  OK drops the head of the queue; a first ERROR keeps it, marks it and writes it again; a second
  ERROR drops it and reports the rejection; anything else changes nothing. The commands behind
  the head are never touched.
\<close>

theorem secure_response_spec:
  assumes "se_queue s = m # q" "sec_response E s buffer h = Some (s', h')"
  shows "(check_response buffer = RSP_OK \<longrightarrow> se_queue s' = q \<and> se_err_msg s' = se_err_msg s) \<and>
    (check_response buffer = RSP_ERROR \<longrightarrow> \<not> sm_err m \<longrightarrow>
       se_queue s' = m\<lparr>sm_err := True\<rparr> # q \<and>
       h' = snd (send_loop E (se_fd s) (sm_message m) E_ERR_FAILED AT_SEC_RETRY h)) \<and>
    (check_response buffer = RSP_ERROR \<longrightarrow> sm_err m \<longrightarrow>
       se_queue s' = q \<and> se_err_msg s' = Some ''AT+XSECCHANNEL command rejected'') \<and>
    (check_response buffer = RSP_NONE \<longrightarrow> s' = s \<and> h' = h)"
  using assms
  by (cases "check_response buffer")
    (auto simp: sec_response_def send_sec_msg_def bind_eq_Some_conv split: if_splits prod.splits
      dest!: pull_msg_queue)

theorem secure_response_spec_witness:
  "\<exists>s' h'. sec_response env_ok secure_example ''xERRORx'' [] = Some (s', h') \<and>
     se_queue s' = (hd (se_queue secure_example))\<lparr>sm_err := True\<rparr> # tl (se_queue secure_example)"
proof -
  have c: "check_response ''xERRORx'' = RSP_ERROR" by (simp add: check_response_def)
  obtain s' h' where r: "sec_response env_ok secure_example ''xERRORx'' [] = Some (s', h')"
    by (cases "send_loop env_ok 9 ''at+xsecchannel=1'' E_ERR_FAILED AT_SEC_RETRY []")
      (auto simp: sec_response_def secure_example_def c send_sec_msg_def)
  from secure_response_spec [OF _ r] c r show ?thesis by (auto simp: secure_example_def)
qed

end
