(* ===== verification/Modem_Info.thy ===== *)
theory Modem_Info
  imports At Link
begin

text \<open>
  Talking to a modem that just came up (\<^verbatim>\<open>core/modem_info.c\<close>): it is pinged, asked for the log of its last
  failure and for its USB wake-up configuration, told to multiplex its channel, and the kernel's multiplexer is started;
  then the daemon waits until the first multiplexed channel can be opened. The module also copies the
  log of a failed core dump to a file.

  The modem's answers are texts that arrive in pieces. A line is complete once its separator
  has arrived; what follows the last separator is kept for the next piece. \<^term>\<open>None\<close>: the modem talks for
  ever, or the sanity channel never appears while the clock stands still.
\<close>

section \<open>Lines\<close>

definition AT_ANSWER_SIZE :: nat where "AT_ANSWER_SIZE = 254"
definition AT_XLOG_GET :: string where "AT_XLOG_GET = ''AT+XLOG=0'' @ [CR]"
definition AT_XLOG_RESET :: string where "AT_XLOG_RESET = ''AT+XLOG=2'' @ [CR]"
definition AT_XLOG_TIMEOUT :: int where "AT_XLOG_TIMEOUT = 2500"
definition AT_STREAMLINE_GET :: string where
  "AT_STREAMLINE_GET = ''at@usbmwtestfw:usb_profile_get_nvm_configuration(USBPOW_ID_HSIC)'' @ [CR]"
definition AT_STREAMLINE_TIMEOUT :: int where "AT_STREAMLINE_TIMEOUT = 1000"
definition AT_STREAMLINE_REPLY_SIZE :: nat where "AT_STREAMLINE_REPLY_SIZE = 2048"
definition AT_DEFAULT_TIMEOUT :: int where "AT_DEFAULT_TIMEOUT = 2500"
definition AT_DEFAULT_RESPONSE_SIZE :: nat where "AT_DEFAULT_RESPONSE_SIZE = 2048"
definition STAT_DELAY :: int where "STAT_DELAY = 250"
definition MAX_TIME_DELAY :: int where "MAX_TIME_DELAY = 4"

text \<open>The first complete line of a text, and what follows its separator.\<close>

definition next_line :: "string \<Rightarrow> (string \<times> string) option" where
  "next_line s =
     map_option (\<lambda>r. (take (length s - length r) s, drop (length CRLF) r)) (strstr s CRLF)"

lemma strstr_suffix: "strstr s pat = Some r \<Longrightarrow> \<exists>p. s = p @ r \<and> take (length pat) r = pat"
proof (induction s)
  case Nil
  then show ?case by (auto split: if_splits)
next
  case (Cons c s)
  show ?case
  proof (cases "take (length pat) (c # s) = pat")
    case True
    with Cons.prems show ?thesis by simp
  next
    case False
    with Cons.prems have "strstr s pat = Some r" by simp
    from Cons.IH [OF this] obtain p where "s = p @ r" "take (length pat) r = pat" by blast
    then show ?thesis by (intro exI [of _ "c # p"]) simp
  qed
qed

lemma next_line_split:
  assumes "next_line s = Some (l, r)"
  shows "s = l @ CRLF @ r"
proof -
  obtain t where t: "strstr s CRLF = Some t" "l = take (length s - length t) s" "r = drop (length CRLF) t"
    using assms by (auto simp: next_line_def)
  obtain p where "s = p @ t" "take (length CRLF) t = CRLF" using strstr_suffix [OF t(1)] by blast
  with t(2,3) show ?thesis using append_take_drop_id [of "length CRLF" t] by simp
qed

lemma next_line_less: "next_line s = Some (l, r) \<Longrightarrow> length r < length s"
  by (drule next_line_split) (simp add: CRLF_def)

section \<open>Failure log\<close>

text \<open>The text is only shown in the log. An answer that never ends keeps the loop going.\<close>

partial_function (option) xlog_loop :: "env \<Rightarrow> int \<Rightarrow> history \<Rightarrow> (e_mmgr_errors \<times> history) option" where
  "xlog_loop E fd h =
     (let ((ret, _, read_size), h1) = tty_read E fd AT_ANSWER_SIZE AT_READ_MAX_RETRIES h in
      if ret \<noteq> E_ERR_SUCCESS then Some (ret, h1)
      else if read_size > 0 then xlog_loop E fd h1
      else Some (E_ERR_SUCCESS, h1))"

declare xlog_loop.simps [code]

definition run_at_xlog :: "env \<Rightarrow> int \<Rightarrow> int \<Rightarrow> history \<Rightarrow> (e_mmgr_errors \<times> history) option" where
  "run_at_xlog E fd max_retry h =
     (let (ret, h1) = tty_write E fd (cstr AT_XLOG_GET) (tcflush_io fd h) in
      if ret \<noteq> E_ERR_SUCCESS then Some (ret, h1)
      else
        let (ret, h2) = tty_wait_for_event E fd AT_XLOG_TIMEOUT h1 in
        if ret \<noteq> E_ERR_SUCCESS then Some (ret, h2)
        else do {
          (ret, h3) \<leftarrow> xlog_loop E fd h2;
          if ret \<noteq> E_ERR_SUCCESS then Some (ret, h3)
          else send_at_retry E fd AT_XLOG_RESET max_retry AT_ANSWER_SHORT_TIMEOUT (tcflush_in fd h3) })"

section \<open>Wake-up configuration\<close>

text \<open>
  The complete lines of the text, one after the other: whether one of them ends the answer, the
  configuration found, and the incomplete rest.
\<close>

function wakeup_lines :: "string \<Rightarrow> e_mdm_wakeup_cfg \<Rightarrow> bool \<times> e_mdm_wakeup_cfg \<times> string" where
  "wakeup_lines cr cfg =
     (case next_line cr of
        None \<Rightarrow> (False, cfg, cr)
      | Some (line, rest) \<Rightarrow>
          if line = ''OK'' \<or> line = ''ERROR'' then (True, cfg, rest)
          else
            wakeup_lines rest
              (if strstr line ''current_configuration'' \<noteq> None
               then if strstr line ''NO_REMOTE_WAKEUP'' \<noteq> None then E_MDM_WAKEUP_OUTBAND else E_MDM_WAKEUP_INBAND
               else cfg))"
  by pat_completeness auto
termination
  by (relation "measure (length \<circ> fst)") (auto dest: next_line_less)

declare wakeup_lines.simps [simp del]

text \<open>
  The two nested loops: \<open>inner\<close> tells which one is entered. The outer one waits for what is left of one second, the
  inner one reads until nothing is there.
\<close>

partial_function (option) wakeup_loop ::
  "env \<Rightarrow> int \<Rightarrow> timespec \<Rightarrow> bool \<Rightarrow> string \<Rightarrow> e_mdm_wakeup_cfg \<Rightarrow> history \<Rightarrow> (e_mdm_wakeup_cfg \<times> history) option" where
  "wakeup_loop E fd start inner pending cfg h =
     (if \<not> inner
      then
        let (now, h1) = xtime E (Libc X_boottime) h;
            timeout = AT_STREAMLINE_TIMEOUT -
              ((tv_sec now - tv_sec start) * 1000 + tdiv (tv_nsec now - tv_nsec start) 1000000) in
        if timeout < 0 then Some (cfg, h1)
        else
          let (err, h2) = tty_wait_for_event E fd timeout h1 in
          if err \<noteq> E_ERR_SUCCESS then Some (cfg, h2) else wakeup_loop E fd start True pending cfg h2
      else
        let room = int AT_STREAMLINE_REPLY_SIZE - int (length pending) in
        if room \<le> 0 then Some (cfg, h)
        else
          let ((err, buf, read_size), h1) = tty_read E fd (nat room) 1 h in
          if err \<noteq> E_ERR_SUCCESS then Some (cfg, h1)
          else if read_size = 0 then wakeup_loop E fd start False pending cfg h1
          else
            let (ended, cfg', rest) = wakeup_lines (pending @ buffer_string (take read_size buf)) cfg in
            if ended then Some (cfg', h1) else wakeup_loop E fd start True rest cfg' h1)"

declare wakeup_loop.simps [code]

definition get_wakeup_cfg :: "env \<Rightarrow> int \<Rightarrow> history \<Rightarrow> (e_mdm_wakeup_cfg \<times> history) option" where
  "get_wakeup_cfg E fd h =
     (let (err, h1) = tty_write E fd (cstr AT_STREAMLINE_GET) (tcflush_io fd h) in
      if err \<noteq> E_ERR_SUCCESS then Some (E_MDM_WAKEUP_UNKNOWN, tcflush_io fd h1)
      else
        let (start, h2) = xtime E (Libc X_boottime) h1 in
        do { (cfg, h3) \<leftarrow> wakeup_loop E fd start False [] E_MDM_WAKEUP_UNKNOWN h2;
             Some (cfg, tcflush_io fd h3) })"

section \<open>Core dump log\<close>

text \<open>A number padded on the left to a width.\<close>

definition pad :: "char \<Rightarrow> nat \<Rightarrow> int \<Rightarrow> string" where
  "pad c n i = replicate (n - length (dec i)) c @ dec i"

text \<open>The buffer keeps its content when the time is not known.\<close>

definition generate_timestamp :: "env \<Rightarrow> string \<Rightarrow> nat \<Rightarrow> history \<Rightarrow> (bool \<times> string) \<times> history" where
  "generate_timestamp E timestamp len h =
     (let (t, h1) = xint E (Libc X_time) h in
      if t = -1 then ((False, timestamp), h1)
      else
        let h2 = xcall (Libc (X_localtime t)) h1 in
        case env_tm E h2 of
          None \<Rightarrow> ((False, timestamp), h2)
        | Some d \<Rightarrow>
            ((True, snprintf len (pad (CHR '' '') 4 (tm_year d + 1900) @ pad (CHR ''0'') 2 (tm_mon d + 1) @
                pad (CHR ''0'') 2 (tm_mday d) @ pad (CHR ''0'') 2 (tm_hour d) @ pad (CHR ''0'') 2 (tm_min d) @
                pad (CHR ''0'') 2 (tm_sec d))), h2))"

text \<open>
  A parsing function gets a line and says whether it ends the log (positive), not yet (0) or failed.
  The result of \<^verbatim>\<open>read_cd_logs\<close> so far is handed on: it is -2 until a first line was parsed and -1 from then on, also
  when a later line fails.
\<close>

type_synonym parse_fct = "string \<Rightarrow> history \<Rightarrow> int \<times> history"

function cd_lines :: "parse_fct \<Rightarrow> string \<Rightarrow> int \<Rightarrow> history \<Rightarrow> (bool \<times> int \<times> string) \<times> history" where
  "cd_lines parse cr ret h =
     (case next_line cr of
        None \<Rightarrow> ((False, ret, cr), h)
      | Some (line, rest) \<Rightarrow>
          if line = [] then cd_lines parse rest ret h
          else
            let (res, h1) = parse line h in
            if res > 0 then ((True, 0, rest), h1)
            else if res = 0 then cd_lines parse rest (-1) h1
            else ((True, ret, rest), h1))"
  by pat_completeness auto
termination
  by (relation "measure (\<lambda>(_, cr, _). length cr)") (auto dest: next_line_less)

declare cd_lines.simps [simp del]

partial_function (option) cd_loop ::
  "env \<Rightarrow> int \<Rightarrow> parse_fct \<Rightarrow> string \<Rightarrow> int \<Rightarrow> history \<Rightarrow> (int \<times> history) option" where
  "cd_loop E fd parse pending ret h =
     (let (err, h1) = tty_wait_for_event E fd AT_DEFAULT_TIMEOUT h in
      if err \<noteq> E_ERR_SUCCESS then Some (ret, h1)
      else
        let room = int AT_DEFAULT_RESPONSE_SIZE - int (length pending) in
        if room \<le> 0 then Some (ret, h1)
        else
          let ((err, buf, read_size), h2) = tty_read E fd (nat room) 1 h1 in
          if err \<noteq> E_ERR_SUCCESS then Some (ret, h2)
          else if read_size = 0 then Some (-1, h2)
          else
            let ((ended, ret', rest), h3) = cd_lines parse (pending @ buffer_string (take read_size buf)) ret h2 in
            if ended \<or> rest = [] then Some (ret', h3) else cd_loop E fd parse rest ret' h3)"

declare cd_loop.simps [code]

definition read_cd_logs :: "env \<Rightarrow> int \<Rightarrow> parse_fct \<Rightarrow> history \<Rightarrow> (int \<times> history) option" where
  "read_cd_logs E fd_tty parse h = (if fd_tty \<le> 0 then Some (-2, h) else cd_loop E fd_tty parse [] (-2) h)"

section \<open>Switching to the multiplexer\<close>

datatype e_switch_to_mux_states =
    E_MUX_HANDSHAKE | E_MUX_XLOG | E_MUX_GET_STREAMLINE | E_MUX_AT_CMD | E_MUX_DRIVER

primrec mux_state_code :: "e_switch_to_mux_states \<Rightarrow> nat" where
  "mux_state_code E_MUX_HANDSHAKE = 0"
| "mux_state_code E_MUX_XLOG = 1"
| "mux_state_code E_MUX_GET_STREAMLINE = 2"
| "mux_state_code E_MUX_AT_CMD = 3"
| "mux_state_code E_MUX_DRIVER = 4"

primrec mux_next :: "e_switch_to_mux_states \<Rightarrow> e_switch_to_mux_states" where
  "mux_next E_MUX_HANDSHAKE = E_MUX_XLOG"
| "mux_next E_MUX_XLOG = E_MUX_GET_STREAMLINE"
| "mux_next E_MUX_GET_STREAMLINE = E_MUX_AT_CMD"
| "mux_next E_MUX_AT_CMD = E_MUX_DRIVER"
| "mux_next E_MUX_DRIVER = E_MUX_DRIVER"

lemma mux_next_code: "st \<noteq> E_MUX_DRIVER \<Longrightarrow> 4 - mux_state_code (mux_next st) < 4 - mux_state_code st"
  by (cases st) simp_all

text \<open>One step of the dialogue with the modem.\<close>

definition mux_step ::
  "env \<Rightarrow> e_link \<Rightarrow> mux_t \<Rightarrow> e_switch_to_mux_states \<Rightarrow> int \<Rightarrow> e_mdm_wakeup_cfg \<Rightarrow> history \<Rightarrow>
     (e_mmgr_errors \<times> e_mdm_wakeup_cfg \<times> history) option" where
  "mux_step E bb_type mux state fd wakeup h =
     (case state of
        E_MUX_HANDSHAKE \<Rightarrow> do { (ret, h1) \<leftarrow> modem_handshake E fd (mux_retry mux) h; Some (ret, wakeup, h1) }
      | E_MUX_XLOG \<Rightarrow> do { (ret, h1) \<leftarrow> run_at_xlog E fd (mux_retry mux) h; Some (ret, wakeup, h1) }
      | E_MUX_GET_STREAMLINE \<Rightarrow>
          if bb_type = E_LINK_USB
          then do { (cfg, h1) \<leftarrow> get_wakeup_cfg E fd h; Some (E_ERR_SUCCESS, cfg, h1) }
          else Some (E_ERR_SUCCESS, E_MDM_WAKEUP_UNKNOWN, h)
      | E_MUX_AT_CMD \<Rightarrow> do { (ret, h1) \<leftarrow> send_at_cmux E fd mux h; Some (ret, wakeup, h1) }
      | E_MUX_DRIVER \<Rightarrow> Some (E_ERR_SUCCESS, wakeup, h))"

text \<open>
  The loop over the states: a bad descriptor is answered once by reopening the channel, and the same
  step is taken again. The second component of the result is the descriptor, which is
  the caller's variable.
\<close>

function mux_loop ::
  "env \<Rightarrow> string \<Rightarrow> e_link \<Rightarrow> mux_t \<Rightarrow> e_switch_to_mux_states \<Rightarrow> bool \<Rightarrow> int \<Rightarrow> e_mdm_wakeup_cfg \<Rightarrow> history \<Rightarrow>
     ((e_mmgr_errors \<times> int \<times> e_mdm_wakeup_cfg) \<times> history) option" where
  "mux_loop E path bb_type mux state retry_done fd wakeup h =
     (if state = E_MUX_DRIVER then Some ((E_ERR_SUCCESS, fd, wakeup), h)
      else
        case mux_step E bb_type mux state fd wakeup h of
          None \<Rightarrow> None
        | Some (ret, wakeup', h1) \<Rightarrow>
            if ret = E_ERR_SUCCESS then mux_loop E path bb_type mux (mux_next state) retry_done fd wakeup' h1
            else if ret = E_ERR_TTY_BAD_FD \<and> \<not> retry_done
            then
              let ((_, fd1), h2) = tty_close E fd h1; ((ret2, fd2), h3) = tty_open E path fd1 h2 in
              if ret2 \<noteq> E_ERR_SUCCESS then Some ((ret2, fd2, wakeup'), h3)
              else mux_loop E path bb_type mux state True fd2 wakeup' h3
            else Some ((E_ERR_FAILED, fd, wakeup'), h1))"
  by pat_completeness auto
termination
  by (relation "measures [\<lambda>(_, _, _, _, st, _). 4 - mux_state_code st, \<lambda>(_, _, _, _, _, d, _). if d then 0 else 1]")
    (auto simp: mux_next_code)

declare mux_loop.simps [simp del]

text \<open>The wait for the first channel: every quarter of a second, for four seconds.\<close>

partial_function (option) sanity_loop :: "env \<Rightarrow> string \<Rightarrow> timespec \<Rightarrow> history \<Rightarrow> (e_mmgr_errors \<times> history) option" where
  "sanity_loop E dlc start h =
     (let (fd, h1) = sys_open E dlc (xcall (Libc (X_usleep (STAT_DELAY * 1000))) h) in
      if fd \<ge> 0 then Some (E_ERR_SUCCESS, xcall (Sock (X_close fd)) h1)
      else
        let (now, h2) = xtime E (Libc X_monotonic) h1 in
        if tv_sec now < tv_sec start + MAX_TIME_DELAY \<or>
           tv_sec now = tv_sec start + MAX_TIME_DELAY \<and> tv_nsec now < tv_nsec start
        then sanity_loop E dlc start h2
        else Some (E_ERR_FAILED, h2))"

declare sanity_loop.simps [code]

definition switch_to_mux ::
  "env \<Rightarrow> int \<Rightarrow> string \<Rightarrow> e_link \<Rightarrow> mux_t \<Rightarrow> string \<Rightarrow> e_mdm_wakeup_cfg \<Rightarrow> history \<Rightarrow>
     ((e_mmgr_errors \<times> int \<times> e_mdm_wakeup_cfg) \<times> history) option" where
  "switch_to_mux E fd_tty mdm_bb_path mdm_bb_type mux sanity_check_dlc wakeup_cfg h =
     do { ((ret, fd, wakeup), h1) \<leftarrow> mux_loop E mdm_bb_path mdm_bb_type mux E_MUX_HANDSHAKE False fd_tty wakeup_cfg h;
          if ret \<noteq> E_ERR_SUCCESS then Some ((ret, fd, wakeup), h1)
          else
            let (ret, h2) = configure_cmux_driver E fd (mux_frame_size mux) h1 in
            if ret \<noteq> E_ERR_SUCCESS then Some ((ret, fd, wakeup), h2)
            else do {
              let (start, h3) = xtime E (Libc X_monotonic) h2;
              (ret, h4) \<leftarrow> sanity_loop E sanity_check_dlc start h3;
              if ret \<noteq> E_ERR_SUCCESS then Some ((ret, fd, wakeup), h4)
              else let (ret, h5) = tty_set_termio E fd h4 in Some ((ret, fd, wakeup), h5) } }"

section \<open>Plain calls\<close>

lemma plain_xlog_loop:
  assumes "xlog_loop E fd h = Some p"
  shows "only plain h (snd p)"
proof (rule xlog_loop.raw_induct [OF _ assms], goal_cases)
  case (1 f E fd h p)
  have "f E fd h' = Some p \<Longrightarrow> only plain h h' \<Longrightarrow> only plain h (snd p)" for h'
    using 1(1) only_trans by blast
  with 1(2) show ?case by (auto simp: case_prod_unfold Let_def plain_rules split: if_splits)
qed

lemma plain_wakeup_loop:
  assumes "wakeup_loop E fd start inner pending cfg h = Some p"
  shows "only plain h (snd p)"
proof (rule wakeup_loop.raw_induct [OF _ assms], goal_cases)
  case (1 f E fd start inner pending cfg h p)
  have "f E fd start b pd c h' = Some p \<Longrightarrow> only plain h h' \<Longrightarrow> only plain h (snd p)" for b pd c h'
    using 1(1) only_trans by blast
  with 1(2) show ?case by (auto simp: case_prod_unfold Let_def plain_rules ext_defs split: if_splits)
qed

lemma plain_sanity_loop:
  assumes "sanity_loop E dlc start h = Some p"
  shows "only plain h (snd p)"
proof (rule sanity_loop.raw_induct [OF _ assms], goal_cases)
  case (1 f E dlc start h p)
  have "f E dlc start h' = Some p \<Longrightarrow> only plain h h' \<Longrightarrow> only plain h (snd p)" for h'
    using 1(1) only_trans by blast
  with 1(2) show ?case by (auto simp: case_prod_unfold Let_def plain_rules ext_defs split: if_splits)
qed

lemma plain_xlog [plain_rules]:
  assumes "only plain h0 h"
  shows "pred_option (\<lambda>(r, h'). only plain h0 h') (run_at_xlog E fd k h)"
proof -
  let ?h1 = "snd (tty_write E fd (cstr AT_XLOG_GET) (tcflush_io fd h))"
  let ?h2 = "snd (tty_wait_for_event E fd AT_XLOG_TIMEOUT ?h1)"
  have "only plain h0 ?h1" "only plain h0 ?h2" using assms by (simp_all add: plain_rules)
  then have "pred_option (\<lambda>(r, h'). only plain h0 h') (xlog_loop E fd ?h2)"
    using plain_xlog_loop [of E fd ?h2] only_trans by (fastforce intro: pred_optionI)
  with \<open>only plain h0 ?h1\<close> \<open>only plain h0 ?h2\<close> show ?thesis
    by (auto simp: run_at_xlog_def case_prod_unfold Let_def plain_rules
        intro!: pred_bind [where P = "\<lambda>p. only plain h0 (snd p)"] plain_send_at_retry [unfolded case_prod_unfold])
qed

lemma plain_get_wakeup [plain_rules]:
  assumes "only plain h0 h"
  shows "pred_option (\<lambda>(r, h'). only plain h0 h') (get_wakeup_cfg E fd h)"
proof -
  let ?h1 = "snd (tty_write E fd (cstr AT_STREAMLINE_GET) (tcflush_io fd h))"
  have 1: "only plain h0 ?h1" "only plain h0 (Libc X_boottime # ?h1)" using assms by (simp_all add: plain_rules)
  then have "pred_option (\<lambda>p. only plain h0 (snd p)) (wakeup_loop E fd t False [] c (Libc X_boottime # ?h1))" for t c
    using plain_wakeup_loop only_trans by (blast intro: pred_optionI)
  with 1 show ?thesis
    by (auto simp: get_wakeup_cfg_def case_prod_unfold Let_def xtime_def plain_rules
        intro!: pred_bind [where P = "\<lambda>p. only plain h0 (snd p)"])
qed

lemma plain_mux_step:
  "only plain h0 h \<Longrightarrow> pred_option (\<lambda>(r, w, h'). only plain h0 h') (mux_step E bb mux st fd wk h)"
  by (cases st) (auto simp: mux_step_def modem_handshake_def send_at_cmux_def
      intro!: pred_bind2 [OF plain_send_at_retry] pred_bind2 [OF plain_xlog] pred_bind2 [OF plain_get_wakeup])

text \<open>Induction over the steps of the dialogue: the next step, or the same one after the channel was reopened.\<close>

lemma mux_loop_induct:
  assumes "\<And>st d fd wk h. (\<And>fd wk h. st \<noteq> E_MUX_DRIVER \<Longrightarrow> P (mux_next st) d fd wk h) \<Longrightarrow>
    (\<And>fd wk h. \<not> d \<Longrightarrow> P st True fd wk h) \<Longrightarrow> P st d fd wk h"
  shows "P st d fd wk h"
proof -
  have "\<forall>fd wk h. P (fst x) (snd x) fd wk h" for x
  proof (induction x rule: measure_induct_rule [of "\<lambda>x. 2 * (4 - mux_state_code (fst x)) + (if snd x then 0 else 1)"])
    case (less x)
    then show ?case using mux_next_code [of "fst x"] assms [of "fst x" "snd x"] by fastforce
  qed
  from this [of "(st, d)"] show ?thesis by simp
qed

lemma plain_mux_loop:
  "only plain h0 h \<Longrightarrow> pred_option (\<lambda>(r, h'). only plain h0 h') (mux_loop E path bb mux st d fd wk h)"
proof (induction st d fd wk h rule: mux_loop_induct)
  case (1 st d fd wk h)
  show ?case
  proof (cases "mux_step E bb mux st fd wk h")
    case None
    with 1(3) show ?thesis by (simp add: mux_loop.simps [of E path bb mux st d])
  next
    case (Some x)
    obtain ret w' h1 where x: "x = (ret, w', h1)" by (cases x)
    have h1: "only plain h0 h1" using plain_mux_step [OF "1.prems", of E bb mux st fd wk] Some x by simp
    let ?c = "tty_close E fd h1" let ?o = "tty_open E path (snd (fst ?c)) (snd ?c)"
    have "only plain h0 (snd ?o)" using h1 by (simp add: plain_rules)
    with h1 1 Some x show ?thesis
      by (auto simp: mux_loop.simps [of E path bb mux st d] case_prod_unfold Let_def)
  qed
qed

text \<open>Switching to the multiplexer tells no client anything and does not touch the modem's power.\<close>

lemma plain_switch_to_mux [plain_rules]:
  assumes "only plain h0 h"
  shows "pred_option (\<lambda>(r, h'). only plain h0 h') (switch_to_mux E fd path bb mux dlc wk h)"
proof -
  have "only plain h0 h1 \<Longrightarrow> pred_option (\<lambda>p. only plain h0 (snd p)) (sanity_loop E dlc t h1)" for t h1
    using plain_sanity_loop only_trans by (blast intro: pred_optionI)
  then show ?thesis
    using plain_mux_loop [OF assms, of E path bb mux E_MUX_HANDSHAKE False fd wk]
    unfolding switch_to_mux_def
    by (auto simp: case_prod_unfold Let_def xtime_def plain_rules intro!: pred_bind [where P = "\<lambda>p. only plain h0 (snd p)"])
qed

end
