(* ===== verification/Mmgr_Context.thy ===== *)
theory Mmgr_Context
  imports Timers Flash Security Modem_Info
begin

text \<open>
  The context of the daemon (\<^verbatim>\<open>core/events_manager.h\<close>): the structure \<^verbatim>\<open>mmgr_data_t\<close> that the event
  handlers share, and the calls to the modules written as operations on it.

  A step of the daemon works on the context and the history of its interactions. Function
  pointers in tables are values of the datatypes \<open>client_hdler\<close> and \<open>pre_hdler\<close>; a table is a function. The
  static variable of \<^verbatim>\<open>bus_events\<close> is the field \<open>mg_bb_seen\<close>.
\<close>

section \<open>State\<close>

datatype e_events_type =
    E_EVENT_IPC | E_EVENT_NEW_CLIENT | E_EVENT_CLIENT | E_EVENT_TIMEOUT | E_EVENT_MCD
  | E_EVENT_BUS | E_EVENT_SECUR | E_EVENT_FLASHING | E_EVENT_MCDR

definition E_CLI_REQ_NONE :: u32 where "E_CLI_REQ_NONE = 0"
definition E_CLI_REQ_RESET :: u32 where "E_CLI_REQ_RESET = flag 1"
definition E_CLI_REQ_OFF :: u32 where "E_CLI_REQ_OFF = flag 2"
definition E_CLI_REQ_PROD :: u32 where "E_CLI_REQ_PROD = flag 3"

definition E_MDM_LINK_NONE :: u32 where "E_MDM_LINK_NONE = 0"
definition E_MDM_LINK_BB_READY :: u32 where "E_MDM_LINK_BB_READY = flag 0"
definition E_MDM_LINK_FLASH_READY :: u32 where "E_MDM_LINK_FLASH_READY = flag 1"
definition E_MDM_LINK_FW_DL_READY :: u32 where "E_MDM_LINK_FW_DL_READY = flag 2"
definition E_MDM_LINK_IPC_READY :: u32 where "E_MDM_LINK_IPC_READY = flag 3"
definition E_MDM_LINK_CORE_DUMP_READY :: u32 where "E_MDM_LINK_CORE_DUMP_READY = flag 4"
definition E_MDM_LINK_CORE_DUMP_READ_READY :: u32 where "E_MDM_LINK_CORE_DUMP_READ_READY = flag 5"

lemmas E_CLI_REQ_defs = E_CLI_REQ_NONE_def E_CLI_REQ_RESET_def E_CLI_REQ_OFF_def E_CLI_REQ_PROD_def

text \<open>\<open>evn_fds\<close> is the descriptor of each entry that \<^verbatim>\<open>epoll_wait\<close> filled in.\<close>

record mmgr_events_t =
  evn_nfds :: int
  evn_fds :: "int list"
  evn_cur_ev :: int
  evn_state :: e_events_type
  evn_bus :: "bus_ev_t option"
  evn_cli_req :: u32
  evn_link_state :: u32

record current_request_t =
  rq_msg :: msg_t
  rq_client :: nat

datatype client_hdler =
    H_client_nack | H_client_ack | H_request_set_name | H_request_set_events
  | H_resource_acquire_wakeup_modem | H_resource_acquire
  | H_request_resource_release_mdm_off | H_request_resource_release
  | H_request_modem_recovery | H_request_modem_restart | H_request_force_modem_shutdown
  | H_request_ack_cold_reset | H_request_ack_modem_shutdown
  | H_request_modem_fuse_info | H_request_modem_get_hw_id | H_request_bkup_prod
  | H_request_fake_down | H_request_fake_up | H_request_fake_shtdwn | H_request_fake_oos
  | H_request_fake_cdd | H_request_fake_ptfrmreboot | H_request_fake_cdd_complete
  | H_request_fake_ap_reset | H_request_fake_self_reset | H_request_fake_tft_event

datatype pre_hdler = H_pre_mdm_cold_reset | H_pre_platform_reboot | H_pre_modem_out_of_service

datatype mdm_hdler = H_mdm_mcd_cold_reset | H_platform_reboot | H_mdm_mcd_off

text \<open>
  The channels of \<^verbatim>\<open>mdm_dlc.c\<close> that the event handlers use, and the property keys of \<^verbatim>\<open>key.c\<close>.
\<close>

record mdm_dlc_t =
  dlc_mux :: mux_t
  dlc_sanity_check :: string
  dlc_shtdwn :: string
  dlc_custom :: string
  dlc_cd_logs :: string

record key_ctx_t =
  key_blob :: string
  key_cfg :: string
  key_amtl :: string
  key_reboot_counter :: string
  key_mdm_version :: string

record mmgr_data_t =
  mg_epollfd :: int
  mg_fd_tty :: int
  mg_fd_cnx :: int
  mg_dsda :: bool
  mg_cd_retrieved :: bool
  mg_state :: e_mmgr_state
  mg_wakeup_cfg :: e_mdm_wakeup_cfg
  mg_reset :: reset_management_t
  mg_clients :: client_list_t
  mg_timer :: mmgr_timer_t
  mg_mcdr :: mcdr_ctx_t
  mg_events :: mmgr_events_t
  mg_request :: current_request_t
  mg_secure :: secure_t
  mg_mcd :: mmgr_mcd_ctx_t
  mg_flash :: mdm_flash_ctx_t
  mg_dlc :: mdm_dlc_t
  mg_keys :: key_ctx_t
  mg_link :: link_ctx_t
  mg_hdler_client :: "e_mmgr_state \<Rightarrow> e_mmgr_requests \<Rightarrow> client_hdler option"
  mg_hdler_pre_mdm :: "e_escalation_level \<Rightarrow> pre_hdler option"
  mg_hdler_mdm :: "e_escalation_level \<Rightarrow> mdm_hdler option"
  mg_bb_seen :: bool

type_synonym st = "mmgr_data_t \<times> history"

section \<open>Channels\<close>

definition mdm_dlc_get_shutdown :: "mdm_dlc_t \<Rightarrow> string" where
  "mdm_dlc_get_shutdown d = dlc_shtdwn d"

definition mdm_dlc_get_streamline :: "mdm_dlc_t \<Rightarrow> string" where
  "mdm_dlc_get_streamline d = dlc_custom d"

definition mdm_dlc_get_sanity :: "mdm_dlc_t \<Rightarrow> string" where
  "mdm_dlc_get_sanity d = dlc_sanity_check d"

definition mdm_dlc_get_cd_logs :: "mdm_dlc_t \<Rightarrow> string" where
  "mdm_dlc_get_cd_logs d = dlc_cd_logs d"

definition mdm_dlc_get_mux_cfg :: "mdm_dlc_t \<Rightarrow> mux_t" where
  "mdm_dlc_get_mux_cfg d = dlc_mux d"

text \<open>
  The devices are cut to the size of the arrays; an empty one gives the NULL handle (inner \<^term>\<open>None\<close>), a
  failed allocation an assertion failure (outer \<^term>\<open>None\<close>).
\<close>

definition mdm_dlc_init ::
  "env \<Rightarrow> mux_t \<Rightarrow> string \<Rightarrow> string \<Rightarrow> string \<Rightarrow> string \<Rightarrow> history \<Rightarrow> (mdm_dlc_t option \<times> history) option" where
  "mdm_dlc_init E mux sanity shtdwn custo cd_logs h =
     (let (ok, h1) = xint E (Libc (X_calloc 16400)) h;
          d = \<lparr>dlc_mux = mux, dlc_sanity_check = take (PATH_MAX - 1) sanity, dlc_shtdwn = take (PATH_MAX - 1) shtdwn,
               dlc_custom = take (PATH_MAX - 1) custo, dlc_cd_logs = take (PATH_MAX - 1) cd_logs\<rparr> in
      if ok = 0 then None
      else if dlc_sanity_check d = '''' \<or> dlc_shtdwn d = '''' \<or> dlc_cd_logs d = '''' \<or> dlc_custom d = ''''
      then Some (None, h1)
      else Some (Some d, h1))"

section \<open>Property keys\<close>

text \<open>\<^verbatim>\<open>PROPERTY_KEY_MAX\<close> of Android is 32. \<^term>\<open>None\<close>: the assertion on the allocation fails.\<close>

definition key_init :: "env \<Rightarrow> int \<Rightarrow> history \<Rightarrow> (key_ctx_t \<times> history) option" where
  "key_init E inst_id h =
     (let (ok, h1) = xint E (Libc (X_calloc 160)) h; i = dec inst_id in
      if ok = 0 then None
      else Some (\<lparr>key_blob = snprintf 32 (''persist.sys.mmgr'' @ i @ ''.blob_hash''),
                  key_cfg = snprintf 32 (''persist.sys.mmgr'' @ i @ ''.config_hash''),
                  key_amtl = snprintf 32 (''service.amtl'' @ i @ ''.cfg''),
                  key_reboot_counter = snprintf 32 (''persist.sys.mmgr'' @ i @ ''.reboot''),
                  key_mdm_version = snprintf 32 (''gsm.version.baseband'' @ (if inst_id = 1 then [] else i))\<rparr>, h1))"

definition key_get_build_type :: string where "key_get_build_type = ''ro.build.type''"
definition key_get_telephony_state :: string where "key_get_telephony_state = ''persist.sys.telephony.off''"
definition key_get_platform :: string where "key_get_platform = ''ro.board.platform''"

section \<open>Calls to the modules\<close>

definition set_mmgr_state :: "e_mmgr_state \<Rightarrow> st \<Rightarrow> st" where
  "set_mmgr_state x s = (fst s\<lparr>mg_state := x\<rparr>, snd s)"

definition inform_all :: "env \<Rightarrow> e_mmgr_events \<Rightarrow> cli_data \<Rightarrow> st \<Rightarrow> (e_mmgr_errors \<times> st) option" where
  "inform_all E ev d s =
     do { ((ret, cl), h1) \<leftarrow> clients_inform_all E (mg_clients (fst s)) ev d (snd s);
          Some (ret, fst s\<lparr>mg_clients := cl\<rparr>, h1) }"

definition tell_all :: "env \<Rightarrow> e_mmgr_events \<Rightarrow> cli_data \<Rightarrow> st \<Rightarrow> st option" where
  "tell_all E ev d s = map_option snd (inform_all E ev d s)"

text \<open>The client of the current request is a slot of the table.\<close>

definition the_client :: "mmgr_data_t \<Rightarrow> client_t option" where
  "the_client m =
     (let i = rq_client (mg_request m) in
      if i < length (cl_list (mg_clients m)) then Some (cl_list (mg_clients m) ! i) else None)"

definition inform_client :: "env \<Rightarrow> e_mmgr_events \<Rightarrow> st \<Rightarrow> (e_mmgr_errors \<times> st) option" where
  "inform_client E ev s =
     do { c \<leftarrow> the_client (fst s);
          (ret, h1) \<leftarrow> client_inform E c ev D_null (snd s);
          Some (ret, fst s, h1) }"

definition reply :: "env \<Rightarrow> e_mmgr_events \<Rightarrow> st \<Rightarrow> st option" where
  "reply E ev s = map_option snd (inform_client E ev s)"

definition on_client :: "(client_t \<Rightarrow> e_mmgr_errors \<times> client_t) \<Rightarrow> st \<Rightarrow> (e_mmgr_errors \<times> st) option" where
  "on_client f s =
     do { c \<leftarrow> the_client (fst s);
          let (ret, c') = f c;
          let cl = mg_clients (fst s);
          Some (ret, fst s\<lparr>mg_clients := cl\<lparr>cl_list := (cl_list cl)[rq_client (mg_request (fst s)) := c']\<rparr>\<rparr>,
                snd s) }"

definition timer_on :: "env \<Rightarrow> e_timer_type \<Rightarrow> st \<Rightarrow> st" where
  "timer_on E ty s =
     (let ((_, t), h1) = timer_start E (mg_timer (fst s)) ty (snd s) in (fst s\<lparr>mg_timer := t\<rparr>, h1))"

definition timer_off :: "e_timer_type \<Rightarrow> st \<Rightarrow> st" where
  "timer_off ty s = (fst s\<lparr>mg_timer := snd (timer_stop (mg_timer (fst s)) ty)\<rparr>, snd s)"

definition timers_off :: "st \<Rightarrow> st" where
  "timers_off s = (fst s\<lparr>mg_timer := snd (timer_stop_all (mg_timer (fst s)))\<rparr>, snd s)"

definition mcd_listen :: "env \<Rightarrow> mdm_ctrl_state set \<Rightarrow> bool \<Rightarrow> st \<Rightarrow> st" where
  "mcd_listen E evs ow s =
     (let ((_, c), h1) = mdm_mcd_register E (mg_mcd (fst s)) evs ow (snd s) in (fst s\<lparr>mg_mcd := c\<rparr>, h1))"

definition mcd_unlisten :: "env \<Rightarrow> mdm_ctrl_state set \<Rightarrow> st \<Rightarrow> st" where
  "mcd_unlisten E evs s =
     (let ((_, c), h1) = mdm_mcd_unregister E (mg_mcd (fst s)) evs (snd s) in (fst s\<lparr>mg_mcd := c\<rparr>, h1))"

definition on_link :: "(link_ctx_t \<Rightarrow> history \<Rightarrow> e_mmgr_errors \<times> history) \<Rightarrow> st \<Rightarrow> st" where
  "on_link f s = (fst s, snd (f (mg_link (fst s)) (snd s)))"

definition on_mcd :: "(mmgr_mcd_ctx_t \<Rightarrow> history \<Rightarrow> e_mmgr_errors \<times> history) \<Rightarrow> st \<Rightarrow> e_mmgr_errors \<times> st" where
  "on_mcd f s = (let (ret, h1) = f (mg_mcd (fst s)) (snd s) in (ret, fst s, h1))"

definition broadcast_msg :: "e_intent_msg \<Rightarrow> st \<Rightarrow> st" where
  "broadcast_msg i s = (fst s, intent_msg i (snd s))"

definition recov_force_op :: "e_force_operation \<Rightarrow> st \<Rightarrow> st" where
  "recov_force_op op s = (fst s\<lparr>mg_reset := snd (recov_force (mg_reset (fst s)) op)\<rparr>, snd s)"

definition recov_set :: "e_reset_operation_state \<Rightarrow> st \<Rightarrow> st" where
  "recov_set x s = (fst s\<lparr>mg_reset := snd (recov_set_state (mg_reset (fst s)) x)\<rparr>, snd s)"

definition set_link_state :: "u32 \<Rightarrow> st \<Rightarrow> st" where
  "set_link_state x s = (fst s\<lparr>mg_events := (mg_events (fst s))\<lparr>evn_link_state := x\<rparr>\<rparr>, snd s)"

definition set_cli_req :: "u32 \<Rightarrow> st \<Rightarrow> st" where
  "set_cli_req x s = (fst s\<lparr>mg_events := (mg_events (fst s))\<lparr>evn_cli_req := x\<rparr>\<rparr>, snd s)"

abbreviation link_state :: "st \<Rightarrow> u32" where
  "link_state s \<equiv> evn_link_state (mg_events (fst s))"

abbreviation cli_req :: "st \<Rightarrow> u32" where
  "cli_req s \<equiv> evn_cli_req (mg_events (fst s))"

text \<open>A notification whose data are C string constants.\<close>

definition tft_ev :: "e_event_type \<Rightarrow> string \<Rightarrow> int \<Rightarrow> string list \<Rightarrow> cli_data" where
  "tft_ev ty ev_type log msgs =
     D_tft_event
       \<lparr>tft_type = int (unat (event_type_code ty)), tft_name_len = of_nat (length ev_type),
        tft_name = Some (cstr ev_type), tft_log = log, tft_num_data = of_nat (length msgs),
        tft_data = Some (map (\<lambda>m. \<lparr>td_len = of_nat (length m), td_value = Some (cstr m)\<rparr>) msgs)\<rparr>"

end
