(* ===== verification/Modem_Events.thy ===== *)
theory Modem_Events
  imports Mmgr_Context
begin

text \<open>
  The modem's events (\<^verbatim>\<open>core/modem_events.c\<close>): the escalation recovery with its pre-operations, the
  hang-up of the modem's channel, the events of the control driver and of the bus, the
  configuration of a modem that came up, core dumps and their logs, and the shutdown sequence.
\<close>

section \<open>Notifications\<close>

definition AP_LOG :: int where "AP_LOG = 1"
definition AP_BP_LOG :: int where "AP_BP_LOG = 3"

definition mdm_close_fds :: "env \<Rightarrow> st \<Rightarrow> st" where
  "mdm_close_fds E s =
     (let ((_, sec), h1) = secure_stop E (mg_secure (fst s)) (snd s);
          ((_, fd), h2) = tty_close E (mg_fd_tty (fst s)) h1 in
      (fst s\<lparr>mg_secure := sec, mg_fd_tty := fd\<rparr>, h2))"

text \<open>
  \<open>with_mcdr\<close>: the module handle is not NULL. The path is printed into a buffer that holds it with its
  zero, which \<open>cd_path_len\<close> counts.
\<close>

definition notify_core_dump ::
  "env \<Rightarrow> bool \<Rightarrow> e_core_dump_state \<Rightarrow> st \<Rightarrow> (e_mmgr_errors \<times> st) option" where
  "notify_core_dump E with_mcdr state s =
     (let cd0 = \<lparr>cd_state = cd_state_code state, cd_path = None, cd_path_len = 0, cd_reason = None,
                 cd_reason_len = 0\<rparr>;
          mc = mg_mcdr (fst s) in
      if \<not> with_mcdr then inform_all E E_MMGR_NOTIFY_CORE_DUMP_COMPLETE (D_core_dump cd0) s
      else
        let path = mcdr_get_path mc @ ''/'' @ mcdr_get_filename mc;
            (ok, h1) = xint E (Libc (X_calloc (length path + 1))) (snd s);
            cd1 = cd0\<lparr>cd_path := Some (cstr path @ [0]), cd_path_len := of_nat (length path + 1)\<rparr> in
        if ok = 0 then Some (E_ERR_FAILED, fst s, h1)
        else do {
          (reason, h2) \<leftarrow>
            (if state = E_CD_TIMEOUT then Some (Some ''Timeout. Operation aborted'', h1)
             else if state \<noteq> E_CD_SUCCEED
             then do { (r, h2) \<leftarrow> mcdr_get_error_reason E mc h1; Some (Some r, h2) }
             else Some (None, h1));
          let cd = (case reason of None \<Rightarrow> cd1
                    | Some r \<Rightarrow> cd1\<lparr>cd_reason := Some (cstr r), cd_reason_len := of_nat (length r)\<rparr>);
          inform_all E E_MMGR_NOTIFY_CORE_DUMP_COMPLETE (D_core_dump cd) (fst s, h2) })"

definition inform_flash_err ::
  "env \<Rightarrow> e_modem_fw_error \<Rightarrow> int \<Rightarrow> int \<Rightarrow> st \<Rightarrow> st option" where
  "inform_flash_err E flash_err attempts timer s =
     do { s1 \<leftarrow> tell_all E E_MMGR_RESPONSE_MODEM_FW_RESULT (D_fw_result (fw_error_code flash_err)) s;
          let tft = (\<lambda>log msgs. tell_all E E_MMGR_NOTIFY_TFT_EVENT
                                   (tft_ev E_EVENT_STATS ''TFT_STAT_FLASH'' log msgs));
          case flash_err of
            E_MODEM_FW_BAD_FAMILY \<Rightarrow>
              do { s2 \<leftarrow> tft 0 [''Modem FW bad family''] s1;
                   Some (broadcast_msg E_MSG_INTENT_MODEM_FW_BAD_FAMILY s2) }
          | E_MODEM_FW_SUCCEED \<Rightarrow>
              do { let (c1, h1) = xint E (Libc (X_calloc 512)) (snd s1);
                   if c1 = 0 then tft 0 [''Modem flashing succeed''] (fst s1, h1)
                   else do {
                     let (c2, h2) = xint E (Libc (X_calloc 512)) h1;
                     if c2 = 0 then tft 0 [''Modem flashing succeed'', dec attempts] (fst s1, h2)
                     else tft 0 [''Modem flashing succeed'', dec attempts, dec timer] (fst s1, h2) } }
          | E_MODEM_FW_SW_CORRUPTED \<Rightarrow> tft 0 [''Modem FW corrupted''] s1
          | E_MODEM_FW_ERROR_UNSPECIFIED \<Rightarrow> tft AP_LOG [''Modem FW unspecified error''] s1
          | E_MODEM_FW_OUTDATED \<Rightarrow>
              do { s2 \<leftarrow> tft 0 [''Modem FW outdated''] s1;
                   Some (broadcast_msg E_MSG_INTENT_MODEM_FW_OUTDATED s2) }
          | E_MODEM_FW_SECURITY_CORRUPTED \<Rightarrow>
              do { s2 \<leftarrow> tft 0 [''Modem FW security corrupted''] s1;
                   Some (broadcast_msg E_MSG_INTENT_MODEM_FW_SECURITY_CORRUPTED s2) }
          | E_MODEM_FW_READY_TIMEOUT \<Rightarrow> Some s1
          | E_MODEM_FW_NUM \<Rightarrow> Some s1 }"

definition inform_upgrade_err :: "env \<Rightarrow> u32 \<Rightarrow> st \<Rightarrow> st option" where
  "inform_upgrade_err E err s =
     (let fls = (err AND MDM_UPDATE_ERR_FLASH \<noteq> 0); tlv = (err AND MDM_UPDATE_ERR_TLV \<noteq> 0);
          s1 = (if fls then broadcast_msg E_MSG_INTENT_MODEM_FW_UPDATE_FAILURE s else s) in
      tell_all E E_MMGR_NOTIFY_TFT_EVENT
        (tft_ev E_EVENT_ERROR ''TFT_MDM_UPDATE'' AP_LOG
           ((if fls then [''FLS UPDATE FAILURE''] else []) @ (if tlv then [''TLV UPDATE FAILURE''] else []))) s1)"

section \<open>Configuration of a running modem\<close>

definition streamline :: "env \<Rightarrow> st \<Rightarrow> (bool \<times> st) option" where
  "streamline E s =
     do { ((file, err, fl), h1) \<leftarrow> mdm_flash_streamline E (mg_flash (fst s)) (snd s);
          let s1 = (fst s\<lparr>mg_flash := fl\<rparr>, h1);
          s2 \<leftarrow> (case file of
                  None \<Rightarrow> Some s1
                | Some f \<Rightarrow>
                    do { s2 \<leftarrow> tell_all E E_MMGR_NOTIFY_TFT_EVENT
                                (tft_ev E_EVENT_ERROR ''TFT_ERROR_TLV'' AP_BP_LOG
                                   [''TLV failure: failed to apply TLV'', f]) s1;
                         Some (set_mmgr_state E_MMGR_MDM_RESET (recov_force_op E_FORCE_OOS s2)) });
          s3 \<leftarrow> tell_all E E_MMGR_RESPONSE_MODEM_NVM_RESULT
                 (D_nvm_result \<lparr>nvm_id = nvm_error_code (fst err), nvm_sub_error_code = snd err\<rparr>) s2;
          Some (fst err = E_MODEM_NVM_SUCCEED, s3) }"

definition core_dump_prepare :: "env \<Rightarrow> st \<Rightarrow> st" where
  "core_dump_prepare E s =
     (let (v, h1) = xstring E (Android (X_property_get (key_mdm_version (mg_keys (fst s))))) (snd s);
          mc = mcdr_set_mdm_version (mg_mcdr (fst s)) (take (PROPERTY_VALUE_MAX - 1) v);
          s1 = (fst s\<lparr>mg_mcdr := mc\<rparr>, h1) in
      if mcdr_is_enabled (Some mc)
      then
        let s2 = timer_on E E_TIMER_CORE_DUMP_READING
                   (timer_off E_TIMER_WAIT_CORE_DUMP_READY (timer_off E_TIMER_CORE_DUMP_IPC_RESET s1));
            s3 = on_link (link_on_cd E) s2;
            ((_, mc1), h4) = mcdr_start E (mg_mcdr (fst s3)) (snd s3) in
        (fst s3\<lparr>mg_mcdr := mc1, mg_cd_retrieved := True\<rparr>, h4)
      else set_mmgr_state E_MMGR_MDM_RESET (timers_off s1))"

definition core_dump_finalize :: "env \<Rightarrow> e_core_dump_state \<Rightarrow> st \<Rightarrow> st option" where
  "core_dump_finalize E state s =
     do { let s1 = broadcast_msg E_MSG_INTENT_CORE_DUMP_COMPLETE (on_link (link_on_cd_complete E) s);
          (_, s2) \<leftarrow> notify_core_dump E True state s1;
          let s3 = mcd_unlisten E {MDM_CTRL_STATE_WARM_BOOT}
                     (mcd_listen E {MDM_CTRL_STATE_IPC_READY} False s2);
          let s4 = (if link_get_bb_type (mg_link (fst s3)) = E_LINK_USB
                    then set_link_state E_MDM_LINK_NONE s3 else s3);
          Some (set_mmgr_state E_MMGR_MDM_RESET s4) }"

definition update_modem_tty :: "env \<Rightarrow> st \<Rightarrow> e_mmgr_errors \<times> st" where
  "update_modem_tty E s =
     (let (ret, h1) = tty_listen_fd E (mg_epollfd (fst s)) (mg_fd_tty (fst s)) (snd s) in
      if ret = E_ERR_SUCCESS
      then
        let ((ret1, c), h2) = mdm_mcd_register E (mg_mcd (fst s))
               {MDM_CTRL_STATE_COREDUMP, MDM_CTRL_STATE_OFF, MDM_CTRL_STATE_WARM_BOOT,
                MDM_CTRL_STATE_COLD_BOOT} True h1 in
        (ret1, fst s\<lparr>mg_mcd := c\<rparr>, h2)
      else (ret, fst s, h1))"

section \<open>Escalation\<close>

definition pre_mdm_cold_reset :: "env \<Rightarrow> st \<Rightarrow> st option" where
  "pre_mdm_cold_reset E s =
     (let current_state = recov_get_state (mg_reset (fst s));
          connected_clients = clients_get_connected (mg_clients (fst s)) in
      if current_state = E_OPERATION_NONE \<and> connected_clients \<noteq> 0
      then do { let s1 = recov_set E_OPERATION_WAIT s;
                s2 \<leftarrow> tell_all E E_MMGR_EVENT_MODEM_DOWN D_null s1;
                s3 \<leftarrow> tell_all E E_MMGR_NOTIFY_MODEM_COLD_RESET D_null s2;
                Some (timer_on E E_TIMER_COLD_RESET_ACK (set_mmgr_state E_MMGR_WAIT_COLD_ACK s3)) }
      else if current_state = E_OPERATION_WAIT \<or> connected_clients = 0
      then
        let s1 = recov_set E_OPERATION_CONTINUE s;
            s2 = (if recov_get_operation (mg_reset (fst s1)) \<noteq> E_FORCE_NO_COUNT
                  then broadcast_msg E_MSG_INTENT_MODEM_COLD_RESET s1 else s1);
            s3 = (if link_get_bb_type (mg_link (fst s2)) = E_LINK_USB \<and>
                     mdm_flash_is_required (mg_flash (fst s2))
                  then set_mmgr_state E_MMGR_MDM_START s2
                  else set_mmgr_state E_MMGR_MDM_CONF_ONGOING s2) in
        if clients_get_connected (mg_clients (fst s3)) \<noteq> 0
        then Some (timer_off E_TIMER_COLD_RESET_ACK
               (fst s3\<lparr>mg_clients := snd (clients_reset_ack_cold (mg_clients (fst s3)))\<rparr>, snd s3))
        else Some s3
      else Some s)"

definition pre_modem_out_of_service :: "env \<Rightarrow> st \<Rightarrow> st option" where
  "pre_modem_out_of_service E s =
     do { s1 \<leftarrow> tell_all E E_MMGR_EVENT_MODEM_OUT_OF_SERVICE D_null s;
          Some (recov_set E_OPERATION_CONTINUE (set_mmgr_state E_MMGR_MDM_OOS
                  (broadcast_msg E_MSG_INTENT_MODEM_OUT_OF_SERVICE s1))) }"

definition pre_platform_reboot :: "env \<Rightarrow> st \<Rightarrow> st option" where
  "pre_platform_reboot E s =
     (let (reboot_counter, h1) = recov_get_reboot E (mg_reset (fst s)) (snd s);
          s1 = recov_set E_OPERATION_CONTINUE (fst s, h1) in
      if reboot_counter \<ge> recov_get_retry_allowed (mg_reset (fst s1))
      then do { (_, r) \<leftarrow> recov_next (mg_reset (fst s1));
                pre_modem_out_of_service E (fst s1\<lparr>mg_reset := r\<rparr>, snd s1) }
      else do { let s2 = (fst s1, recov_set_reboot E (mg_reset (fst s1)) (reboot_counter + 1) (snd s1));
                s3 \<leftarrow> tell_all E E_MMGR_NOTIFY_PLATFORM_REBOOT D_null s2;
                Some (set_mmgr_state E_MMGR_MDM_OOS (broadcast_msg E_MSG_INTENT_PLATFORM_REBOOT s3)) })"

definition call_pre_mdm :: "env \<Rightarrow> pre_hdler \<Rightarrow> st \<Rightarrow> st option" where
  "call_pre_mdm E f s =
     (case f of
        H_pre_mdm_cold_reset \<Rightarrow> pre_mdm_cold_reset E s
      | H_pre_platform_reboot \<Rightarrow> pre_platform_reboot E s
      | H_pre_modem_out_of_service \<Rightarrow> pre_modem_out_of_service E s)"

definition call_mdm :: "env \<Rightarrow> mdm_hdler \<Rightarrow> st \<Rightarrow> st" where
  "call_mdm E f s =
     (case f of
        H_mdm_mcd_cold_reset \<Rightarrow> snd (on_mcd (mdm_mcd_cold_reset E) s)
      | H_platform_reboot \<Rightarrow> (fst s, snd (platform_reboot E (snd s)))
      | H_mdm_mcd_off \<Rightarrow> snd (on_mcd (mdm_mcd_off E) s))"

text \<open>
  The level is not yet known when the firmware is prepared, so it always is. The results of the
  recovery module's operations are not looked at.
\<close>

definition reset_modem :: "env \<Rightarrow> st \<Rightarrow> (e_mmgr_errors \<times> st) option" where
  "reset_modem E s =
     do { ((prep, fl), h1) \<leftarrow> mdm_flash_prepare E (mg_flash (fst s)) (snd s);
          let s1 = (fst s\<lparr>mg_flash := fl\<rparr>, h1);
          let s2 = (if prep \<noteq> E_ERR_SUCCESS then recov_force_op E_FORCE_OOS s1 else s1);
          ((_, r), h3) \<leftarrow> recov_start E (mg_reset (fst s2)) (snd s2);
          let s3 = (fst s2\<lparr>mg_reset := r\<rparr>, h3);
          let level = recov_get_level (Some (mg_reset (fst s3)));
          pre \<leftarrow> mg_hdler_pre_mdm (fst s3) level;
          s4 \<leftarrow> call_pre_mdm E pre s3;
          if recov_get_state (mg_reset (fst s4)) = E_OPERATION_WAIT then Some (E_ERR_SUCCESS, s4)
          else do {
            let s5 = (if level = E_EL_PLATFORM_REBOOT \<or> level = E_EL_MODEM_OUT_OF_SERVICE
                      then mcd_listen E {MDM_CTRL_STATE_UNKNOWN} True s4
                      else mcd_listen E {MDM_CTRL_STATE_COREDUMP} True s4);
            let s6 = mdm_close_fds E (timers_off s5);
            let s7 = on_link (\<lambda>l. link_on_mdm_reset E l 0) s6;
            let level2 = recov_get_level (Some (mg_reset (fst s7)));
            op \<leftarrow> mg_hdler_mdm (fst s7) level2;
            let s8 = call_mdm E op s7;
            if level2 = E_EL_PLATFORM_REBOOT \<or> level2 = E_EL_MODEM_OUT_OF_SERVICE
            then Some (E_ERR_SUCCESS, s8)
            else do {
              (_, r2) \<leftarrow> recov_done (mg_reset (fst s8));
              let s9 = (fst s8\<lparr>mg_reset := r2\<rparr>, snd s8);
              let required = mdm_flash_is_required (mg_flash (fst s9));
              let s10 = (if required
                         then mcd_listen E {MDM_CTRL_STATE_FW_DOWNLOAD_READY, MDM_CTRL_STATE_COREDUMP} True s9
                         else mcd_listen E {MDM_CTRL_STATE_IPC_READY, MDM_CTRL_STATE_COREDUMP} True s9);
              let s11 = (if \<not> required \<and> mdm_mcd_is_ipc_ready_present (mg_mcd (fst s10))
                         then timer_on E E_TIMER_WAIT_FOR_IPC_READY s10 else s10);
              Some (E_ERR_SUCCESS,
                    if link_get_bb_type (mg_link (fst s11)) = E_LINK_USB
                    then set_link_state E_MDM_LINK_NONE (timer_on E E_TIMER_WAIT_FOR_BUS_READY s11)
                    else s11) } } }"

section \<open>Shutdown\<close>

definition POWER_OFF_MODEM :: string where "POWER_OFF_MODEM = ''AT+CFUN=0'' @ [CR]"
definition AT_CFUN_RETRY :: int where "AT_CFUN_RETRY = 0"

definition mdm_start_shtdwn :: "env \<Rightarrow> st \<Rightarrow> (e_mmgr_errors \<times> st) option" where
  "mdm_start_shtdwn E s =
     (let s1 = mcd_listen E {MDM_CTRL_STATE_WARM_BOOT, MDM_CTRL_STATE_COREDUMP} True s;
          ((_, fd), h2) = tty_open E (mdm_dlc_get_shutdown (mg_dlc (fst s1))) CLOSED_FD (snd s1) in
      if fd < 0 then Some (E_ERR_FAILED, fst s1, h2)
      else do {
        (_, h3) \<leftarrow> send_at_retry E fd POWER_OFF_MODEM AT_CFUN_RETRY AT_ANSWER_NO_TIMEOUT h2;
        let (_, h4) = tty_close E fd h3;
        Some (E_ERR_SUCCESS, fst s1, h4) })"

definition mdm_finalize_shtdwn :: "env \<Rightarrow> st \<Rightarrow> (e_mmgr_errors \<times> st) option" where
  "mdm_finalize_shtdwn E s =
     do { s1 \<leftarrow> tell_all E E_MMGR_EVENT_MODEM_DOWN D_null s;
          Some (on_mcd (mdm_mcd_down E) (mdm_close_fds E (recov_set E_OPERATION_NONE s1))) }"

section \<open>Core dump log\<close>

text \<open>
  A line of the log is written to the file, up to the text that ends the log if it is there. The
  number of bytes written is unsigned, so a failed \<^verbatim>\<open>write\<close> passes as a success; only a \<^verbatim>\<open>write\<close> of nothing is a
  failure.
\<close>

definition CD_DUMPLOG_CMD :: string where "CD_DUMPLOG_CMD = ''at@cdd:dumpLog()'' @ [CR]"
definition TIMESTAMP_LEN :: nat where "TIMESTAMP_LEN = 32"
definition cd_log_termination :: string where "cd_log_termination = ''*** CDD log dump done ***''"

definition write_to_cd_log_file :: "env \<Rightarrow> int \<Rightarrow> string \<Rightarrow> history \<Rightarrow> int \<times> history" where
  "write_to_cd_log_file E fs_fd pszResp h =
     (let (ret, len) = (case strstr pszResp cd_log_termination of
                          None \<Rightarrow> (0, length pszResp)
                        | Some r \<Rightarrow> (1, length pszResp - length r + length cd_log_termination)) in
      if fs_fd > 0
      then
        let (written, h1) = sys_write E fs_fd (cstr (take len pszResp)) h in
        if (word_of_int written :: u32) > 0 then (ret, snd (sys_write E fs_fd (cstr CRLF) h1)) else (-1, h1)
      else (-1, h))"

text \<open>The command is repeated as long as the log is not complete.\<close>

partial_function (option) cd_log_loop :: "env \<Rightarrow> int \<Rightarrow> int \<Rightarrow> history \<Rightarrow> ((e_mmgr_errors \<times> int) \<times> history) option" where
  "cd_log_loop E fd fs_fd h =
     do { (ret, h1) \<leftarrow> send_at_retry E fd CD_DUMPLOG_CMD 0 AT_ANSWER_NO_TIMEOUT h;
          if ret \<noteq> E_ERR_SUCCESS then Some ((ret, 0), h1)
          else do {
            (read_status, h2) \<leftarrow> read_cd_logs E fd (write_to_cd_log_file E fs_fd) h1;
            if read_status = -1 then cd_log_loop E fd fs_fd h2 else Some ((ret, read_status), h2) } }"

declare cd_log_loop.simps [code]

definition cd_log_name :: "env \<Rightarrow> string \<Rightarrow> string \<Rightarrow> history \<Rightarrow> string \<times> history" where
  "cd_log_name E mdm_version filename h =
     (if filename = []
      then let ((_, ts), h1) = generate_timestamp E ''00000000000000'' TIMESTAMP_LEN h in
           (snprintf PATH_MAX (''cd_debug_'' @ mdm_version @ ''_'' @ ts), h1)
      else
        let b = snprintf PATH_MAX filename in
        (case strstr b ''.tar.gz'' of None \<Rightarrow> b | Some r \<Rightarrow> take (length b - length r) b, h))"

definition mdm_start_core_dump_logs :: "env \<Rightarrow> st \<Rightarrow> (e_mmgr_errors \<times> st) option" where
  "mdm_start_core_dump_logs E s =
     (let mcdr = mg_mcdr (fst s); version = mcdr_get_mdm_version mcdr;
          ((ret, fd), h1) = tty_open E (mdm_dlc_get_cd_logs (mg_dlc (fst s))) CLOSED_FD (snd s) in
      if fd \<le> 0 then Some (ret, fst s, h1)
      else
        let (dir_fd, h2) = sys_open E (mcdr_get_path mcdr) h1 in
        if dir_fd \<le> 0 then Some (ret, fst s, snd (tty_close E fd h2))
        else
          let (base, h3) = cd_log_name E version (mcdr_get_filename mcdr) h2;
              (fs_fd, h4) = xint E (File (X_openat dir_fd (snprintf PATH_MAX (base @ ''.txt'')))) h3 in
          if fs_fd \<le> 0 then Some (ret, fst s, xcall (Sock (X_close dir_fd)) (snd (tty_close E fd h4)))
          else do {
            ((ret, read_status), h5) \<leftarrow> cd_log_loop E fd fs_fd h4;
            let sync = (\<lambda>h. xcall (Sock (X_close fs_fd)) (xcall (File (X_fsync fs_fd)) h));
            Some (if ret \<noteq> E_ERR_SUCCESS \<or> read_status \<noteq> 0
                  then (if ret \<noteq> E_ERR_SUCCESS then ret else E_ERR_FAILED, fst s,
                        xcall (Sock (X_close dir_fd)) (sync (snd (tty_close E fd h5))))
                  else (E_ERR_SUCCESS, fst s,
                        xcall (Sock (X_close dir_fd)) (snd (tty_close E fd (tcflush_io fd (sync h5)))))) })"

section \<open>Bringing the modem up\<close>

text \<open>A missing device path is an assertion failure.\<close>

definition configure_modem :: "env \<Rightarrow> st \<Rightarrow> (e_mmgr_errors \<times> st) option" where
  "configure_modem E s =
     do { path \<leftarrow> link_get_bb_interface (mg_link (fst s));
          let ((ret, fd), h1) = tty_open E path (mg_fd_tty (fst s)) (snd s);
          let s1 = (fst s\<lparr>mg_fd_tty := fd\<rparr>, h1);
          if ret \<noteq> E_ERR_SUCCESS then Some (ret, set_mmgr_state E_MMGR_MDM_RESET s1)
          else do {
            ((m, fd2, wakeup), h2) \<leftarrow> switch_to_mux E fd path (link_get_bb_type (mg_link (fst s1)))
              (mdm_dlc_get_mux_cfg (mg_dlc (fst s1))) (mdm_dlc_get_sanity (mg_dlc (fst s1))) (mg_wakeup_cfg (fst s1)) h1;
            let s2 = (fst s1\<lparr>mg_fd_tty := fd2, mg_wakeup_cfg := wakeup\<rparr>, h2);
            if m = E_ERR_SUCCESS
            then Some (E_ERR_SUCCESS, snd (update_modem_tty E (set_mmgr_state E_MMGR_MDM_UP s2)))
            else do { s3 \<leftarrow> tell_all E E_MMGR_NOTIFY_TFT_EVENT
                             (tft_ev E_EVENT_ERROR ''TFT_ERROR_IPC'' AP_BP_LOG [''MUX configuration failed'']) s2;
                      Some (m, set_mmgr_state E_MMGR_MDM_RESET s3) } } }"

text \<open>The loop that empties the channel ends when a read returns nothing or fails.\<close>

partial_function (option) drain :: "env \<Rightarrow> int \<Rightarrow> history \<Rightarrow> history option" where
  "drain E fd h =
     (let ((r, _), h1) = sys_read E fd 64 h in if r > 0 then drain E fd h1 else Some h1)"

declare drain.simps [code]

definition cleanup_ipc_event :: "env \<Rightarrow> st \<Rightarrow> st option" where
  "cleanup_ipc_event E s =
     do { h1 \<leftarrow> drain E (mg_fd_tty (fst s)) (snd s); Some (mdm_close_fds E (fst s, h1)) }"

definition ipc_event :: "env \<Rightarrow> st \<Rightarrow> (e_mmgr_errors \<times> st) option" where
  "ipc_event E s =
     do { s1 \<leftarrow> tell_all E E_MMGR_EVENT_MODEM_DOWN D_null s;
          s2 \<leftarrow> cleanup_ipc_event E s1;
          let wakeup = (case mg_wakeup_cfg (fst s2) of
                          E_MDM_WAKEUP_OUTBAND \<Rightarrow> ''Streamline OUTBAND''
                        | E_MDM_WAKEUP_INBAND \<Rightarrow> ''Streamline INBAND''
                        | E_MDM_WAKEUP_UNKNOWN \<Rightarrow> ''Streamline UNKNOWN'');
          s3 \<leftarrow> tell_all E E_MMGR_NOTIFY_TFT_EVENT
                 (tft_ev E_EVENT_ERROR ''TFT_ERROR_IPC'' AP_LOG [''IPC hang-up'', wakeup]) s2;
          if mg_state (fst s3) = E_MMGR_MDM_PREPARE_OFF
          then do { (_, s4) \<leftarrow> mdm_finalize_shtdwn E (timer_off E_TIMER_FMMO s3);
                    Some (E_ERR_SUCCESS, set_mmgr_state E_MMGR_MDM_OFF s4) }
          else Some (E_ERR_SUCCESS, set_mmgr_state E_MMGR_MDM_RESET s3) }"

text \<open>
  The assignment \<^verbatim>\<open>ret = secure_register(...) == E_ERR_SUCCESS\<close> stores the result of the comparison: 1, the
  value of \<^verbatim>\<open>E_ERR_FAILED\<close>, when the registration succeeded, and 0 when it failed.
\<close>

definition launch_secur :: "env \<Rightarrow> st \<Rightarrow> e_mmgr_errors \<times> st" where
  "launch_secur E s =
     (let ((reg, fd, sec), h1) = secure_register E (mg_secure (fst s)) (snd s);
          s1 = (fst s\<lparr>mg_secure := sec\<rparr>, h1);
          ret = (if reg = E_ERR_SUCCESS then E_ERR_FAILED else E_ERR_SUCCESS) in
      if reg = E_ERR_SUCCESS \<and> fd \<noteq> CLOSED_FD
      then
        let (_, h2) = tty_listen_fd E (mg_epollfd (fst s1)) fd h1;
            ((ret2, sec2), h3) = secure_start E (mg_secure (fst s1)) h2 in
        (ret2, fst s1\<lparr>mg_secure := sec2\<rparr>, h3)
      else (ret, s1))"

definition do_configure :: "env \<Rightarrow> st \<Rightarrow> (e_mmgr_errors \<times> st) option" where
  "do_configure E s =
     do { (ret, s1) \<leftarrow> configure_modem E s;
          if ret \<noteq> E_ERR_SUCCESS then Some (ret, s1)
          else do {
            (applied, s2) \<leftarrow> streamline E s1;
            (ret2, s3) \<leftarrow>
              (if applied
               then do { s3 \<leftarrow> tell_all E E_MMGR_EVENT_MODEM_NFLUSH D_null s2;
                         Some (ret, timer_on E E_TIMER_REBOOT_MODEM_DELAY s3) }
               else do { let (ret2, s3) = launch_secur E s2;
                         s4 \<leftarrow> tell_all E E_MMGR_EVENT_MODEM_UP D_null s3;
                         Some (ret2, s4) });
            s4 \<leftarrow> (if mg_cd_retrieved (fst s3)
                   then do {
                     let s4 = (fst s3\<lparr>mg_cd_retrieved := False\<rparr>, snd s3);
                     if mcdr_log_is_enabled (Some (mg_mcdr (fst s4)))
                     then do { (res, h5) \<leftarrow> mcdr_get_result E (mg_mcdr (fst s4)) (snd s4);
                               if res \<noteq> E_CD_SUCCEED
                               then do { (_, s6) \<leftarrow> mdm_start_core_dump_logs E (fst s4, h5); Some s6 }
                               else Some (fst s4, h5) }
                     else Some s4 }
                   else Some s3);
            Some (ret2, on_link (link_on_mdm_up E) s4) } }"

section \<open>Driver and bus events\<close>

definition start_flashing :: "env \<Rightarrow> st \<Rightarrow> e_mmgr_errors \<times> st" where
  "start_flashing E s =
     (let ((ret, fl), h1) = mdm_flash_start E (mg_link (fst s)) (mg_flash (fst s)) (snd s);
          s1 = (fst s\<lparr>mg_flash := fl\<rparr>, h1) in
      if ret = E_ERR_SUCCESS then (ret, timer_on E E_TIMER_MDM_FLASHING s1)
      else (ret, set_mmgr_state E_MMGR_MDM_RESET s1))"

text \<open>The modem is reported down and its channels closed, if they were open.\<close>

definition report_down :: "env \<Rightarrow> st \<Rightarrow> st option" where
  "report_down E s =
     (if mg_fd_tty (fst s) \<noteq> CLOSED_FD
      then do { s1 \<leftarrow> tell_all E E_MMGR_EVENT_MODEM_DOWN D_null s; Some (mdm_close_fds E s1) }
      else Some s)"

definition modem_control_event :: "env \<Rightarrow> st \<Rightarrow> (e_mmgr_errors \<times> st) option" where
  "modem_control_event E s0 =
     (let (mcd_state, h0) = mdm_mcd_get_state E (mg_mcd (fst s0)) (snd s0); s = (fst s0, h0) in
      if mcd_state AND E_EV_FW_DOWNLOAD_READY \<noteq> 0
      then
        let s1 = set_link_state ((link_state s OR E_MDM_LINK_FW_DL_READY) AND NOT E_MDM_LINK_IPC_READY) s;
            s2 = mcd_unlisten E {MDM_CTRL_STATE_FW_DOWNLOAD_READY} s1 in
        if link_get_flash_ebl_type (mg_link (fst s2)) \<noteq> E_LINK_USB \<or>
           link_state s2 AND E_MDM_LINK_FLASH_READY \<noteq> 0
        then Some (start_flashing E s2)
        else Some (E_ERR_SUCCESS, s2)
      else if mcd_state AND E_EV_IPC_READY \<noteq> 0
      then
        let s1 = timer_off E_TIMER_WAIT_FOR_IPC_READY s;
            s2 = set_link_state ((link_state s1 OR E_MDM_LINK_IPC_READY) AND NOT E_MDM_LINK_FW_DL_READY) s1;
            s3 = mcd_unlisten E {MDM_CTRL_STATE_IPC_READY} s2 in
        if mg_state (fst s3) = E_MMGR_MDM_CONF_ONGOING \<and>
           (link_get_bb_type (mg_link (fst s3)) \<noteq> E_LINK_USB \<or> link_state s3 AND E_MDM_LINK_BB_READY \<noteq> 0)
        then do_configure E s3
        else Some (E_ERR_SUCCESS, s3)
      else if mcd_state AND E_EV_CORE_DUMP \<noteq> 0
      then do {
        s1 \<leftarrow> report_down E (timers_off (set_mmgr_state E_MMGR_MDM_CORE_DUMP s));
        let s2 = set_link_state (link_state s1 OR E_MDM_LINK_CORE_DUMP_READY) s1;
        let s3 = mcd_unlisten E {MDM_CTRL_STATE_COREDUMP} s2;
        let s4 = timer_on E E_TIMER_WAIT_CORE_DUMP_READY (timer_on E E_TIMER_CORE_DUMP_IPC_RESET s3);
        s5 \<leftarrow> tell_all E E_MMGR_NOTIFY_CORE_DUMP D_null s4;
        let s6 = broadcast_msg E_MSG_INTENT_CORE_DUMP_WARNING s5;
        if link_get_cd_type (mg_link (fst s6)) = E_LINK_USB \<and>
           link_state s6 AND E_MDM_LINK_CORE_DUMP_READ_READY = 0
        then Some (E_ERR_SUCCESS, s6)
        else Some (E_ERR_SUCCESS, core_dump_prepare E s6) }
      else if mcd_state AND E_EV_MODEM_SELF_RESET \<noteq> 0
      then
        let s1 = mcd_unlisten E {MDM_CTRL_STATE_WARM_BOOT} s in
        if mg_state (fst s1) = E_MMGR_MDM_CORE_DUMP
        then do {
          (res, h2) \<leftarrow> mcdr_get_result E (mg_mcdr (fst s1)) (snd s1);
          let s2 = (fst s1, h2);
          if res \<noteq> E_CD_SUCCEED
          then do {
            s3 \<leftarrow> (if mcdr_is_enabled (Some (mg_mcdr (fst s2)))
                   then do { (mc, h3) \<leftarrow> mcdr_cancel E (mg_mcdr (fst s2)) (snd s2);
                             Some (fst s2\<lparr>mg_mcdr := mc\<rparr>, h3) }
                   else Some s2);
            (_, s4) \<leftarrow> notify_core_dump E False E_CD_SELF_RESET s3;
            Some (E_ERR_SUCCESS, set_mmgr_state E_MMGR_MDM_RESET s4) }
          else Some (E_ERR_SUCCESS, s2) }
        else if mg_state (fst s1) = E_MMGR_MDM_PREPARE_OFF
        then do { (_, s2) \<leftarrow> mdm_finalize_shtdwn E (timer_off E_TIMER_FMMO s1);
                  Some (E_ERR_SUCCESS, set_mmgr_state E_MMGR_MDM_OFF s2) }
        else do { s2 \<leftarrow> tell_all E E_MMGR_EVENT_MODEM_DOWN D_null s1;
                  s3 \<leftarrow> tell_all E E_MMGR_NOTIFY_SELF_RESET D_null s2;
                  Some (E_ERR_SUCCESS, set_mmgr_state E_MMGR_MDM_RESET s3) }
      else Some (E_ERR_SUCCESS, s))"

definition bus_events :: "env \<Rightarrow> st \<Rightarrow> (e_mmgr_errors \<times> st) option" where
  "bus_events E s0 =
     do { let ((_, p), h0) = bus_ev_read E (evn_bus (mg_events (fst s0))) (snd s0);
          b0 \<leftarrow> p;
          let ((hret, b1), h1) = bus_ev_hdle_events E b0 h0;
          let s = (fst s0\<lparr>mg_events := (mg_events (fst s0))\<lparr>evn_bus := Some b1\<rparr>\<rparr>, h1);
          let bus = bus_ev_get_state (Some b1);
          let state = mg_state (fst s);
          let configure = (\<lambda>s. if link_state s AND E_MDM_LINK_IPC_READY \<noteq> 0 \<or>
                                  \<not> mdm_mcd_is_ipc_ready_present (mg_mcd (fst s))
                               then do_configure E s else Some (E_ERR_SUCCESS, s));
          if hret \<noteq> E_ERR_SUCCESS then Some (E_ERR_SUCCESS, s)
          else if bus AND MDM_BB_READY \<noteq> 0 \<and> state = E_MMGR_MDM_CONF_ONGOING
          then
            let s1 = timer_off E_TIMER_WAIT_FOR_BUS_READY (fst s\<lparr>mg_bb_seen := True\<rparr>, snd s) in
            configure (set_link_state ((link_state s1 AND NOT E_MDM_LINK_FLASH_READY) OR E_MDM_LINK_BB_READY) s1)
          else if bus AND MDM_BB_READY \<noteq> 0 \<and> state = E_MMGR_MDM_LINK_USB_DISC
          then
            let s1 = timer_off E_TIMER_WAIT_CORE_DUMP_READY
                       (timer_off E_TIMER_WAIT_FOR_BUS_READY (fst s\<lparr>mg_bb_seen := True\<rparr>, snd s)) in
            configure (set_link_state (link_state s1 OR E_MDM_LINK_BB_READY) s1)
          else if bus AND MDM_FLASH_READY \<noteq> 0 \<and> state = E_MMGR_MDM_START
          then
            let s1 = timer_off E_TIMER_WAIT_FOR_BUS_READY s;
                s2 = set_link_state ((link_state s1 OR E_MDM_LINK_FLASH_READY) AND NOT E_MDM_LINK_BB_READY) s1 in
            if link_state s2 AND E_MDM_LINK_FW_DL_READY \<noteq> 0 \<or>
               \<not> mdm_mcd_is_ipc_ready_present (mg_mcd (fst s2))
            then Some (start_flashing E s2) else Some (E_ERR_SUCCESS, s2)
          else if bus AND MDM_CD_READY \<noteq> 0 \<and> state = E_MMGR_MDM_CORE_DUMP
          then do {
            s1 \<leftarrow> report_down E s;
            let s2 = set_link_state (link_state s1 OR E_MDM_LINK_CORE_DUMP_READ_READY) s1;
            Some (E_ERR_SUCCESS,
                  if link_state s2 AND E_MDM_LINK_CORE_DUMP_READY \<noteq> 0 then core_dump_prepare E s2 else s2) }
          else if bus AND MDM_CD_READY \<noteq> 0 \<and> state = E_MMGR_MDM_LINK_USB_DISC
          then do {
            s1 \<leftarrow> report_down E (timers_off (set_mmgr_state E_MMGR_MDM_CORE_DUMP s));
            s2 \<leftarrow> tell_all E E_MMGR_NOTIFY_CORE_DUMP D_null (timer_on E E_TIMER_CORE_DUMP_IPC_RESET s1);
            let s3 = broadcast_msg E_MSG_INTENT_CORE_DUMP_WARNING s2;
            Some (E_ERR_SUCCESS,
                  core_dump_prepare E (set_link_state (link_state s3 OR E_MDM_LINK_CORE_DUMP_READY) s3)) }
          else if bus AND MDM_BB_READY = 0 \<and> mg_bb_seen (fst s)
          then do {
            let s1 = (fst s\<lparr>mg_bb_seen := False\<rparr>, snd s);
            if state \<in> {E_MMGR_MDM_UP, E_MMGR_WAIT_COLD_ACK, E_MMGR_WAIT_SHT_ACK, E_MMGR_MDM_CONF_ONGOING}
            then do {
              s2 \<leftarrow> tell_all E E_MMGR_EVENT_MODEM_DOWN D_null s1;
              let s3 = (if mg_fd_tty (fst s2) \<noteq> CLOSED_FD then mdm_close_fds E s2 else s2);
              let s4 = timer_on E E_TIMER_WAIT_CORE_DUMP_READY (timer_off E_TIMER_WAIT_CORE_DUMP_READY s3);
              Some (E_ERR_SUCCESS, set_mmgr_state E_MMGR_MDM_LINK_USB_DISC s4) }
            else Some (E_ERR_SUCCESS, s1) }
          else Some (E_ERR_SUCCESS, s) }"

definition modem_events_init :: "st \<Rightarrow> e_mmgr_errors \<times> st" where
  "modem_events_init s =
     (E_ERR_SUCCESS,
      fst s\<lparr>mg_hdler_pre_mdm := (mg_hdler_pre_mdm (fst s))
              (E_EL_MODEM_COLD_RESET \<mapsto> H_pre_mdm_cold_reset,
               E_EL_PLATFORM_REBOOT \<mapsto> H_pre_platform_reboot,
               E_EL_MODEM_OUT_OF_SERVICE \<mapsto> H_pre_modem_out_of_service),
            mg_hdler_mdm := (mg_hdler_mdm (fst s))
              (E_EL_MODEM_COLD_RESET \<mapsto> H_mdm_mcd_cold_reset,
               E_EL_PLATFORM_REBOOT \<mapsto> H_platform_reboot,
               E_EL_MODEM_OUT_OF_SERVICE \<mapsto> H_mdm_mcd_off)\<rparr>, snd s)"

end
