(* ===== verification/Client_Events.thy ===== *)
theory Client_Events
  imports Modem_Events
begin

text \<open>
  The clients' requests (\<^verbatim>\<open>core/client_events.c\<close>): one handler per request, the table that
  says which handler serves a request in which state of the daemon, and the treatment of new, talking and
  departing clients.

  A handler's result is its error code, the new context and history; \<^term>\<open>None\<close> is a failed
  assertion or an access outside a buffer.
\<close>

section \<open>Handlers\<close>

definition request_modem_fuse_info :: "env \<Rightarrow> st \<Rightarrow> (e_mmgr_errors \<times> st) option" where
  "request_modem_fuse_info E s = inform_client E E_MMGR_NACK s"

definition request_modem_get_hw_id :: "env \<Rightarrow> st \<Rightarrow> (e_mmgr_errors \<times> st) option" where
  "request_modem_get_hw_id E s = inform_client E E_MMGR_NACK s"

text \<open>The data is NULL for an empty message, which the assertion on the name in \<^verbatim>\<open>client_set_name\<close> does not survive.\<close>

definition request_set_name :: "env \<Rightarrow> st \<Rightarrow> (e_mmgr_errors \<times> st) option" where
  "request_set_name E s =
     do { c \<leftarrow> the_client (fst s);
          let msg = rq_msg (mg_request (fst s));
          data \<leftarrow> msg_data msg;
          name \<leftarrow> mem_read data 0 (unat (hdr_len (msg_hdr msg)));
          (ret, c') \<leftarrow> client_set_name c name (unat (hdr_len (msg_hdr msg)));
          (_, s1) \<leftarrow> on_client (\<lambda>_. (ret, c')) s;
          s2 \<leftarrow> reply E E_MMGR_ACK s1;
          Some (if ret \<noteq> E_ERR_SUCCESS then E_ERR_DISCONNECTED else ret, s2) }"

text \<open>The event a client learns the current state of the daemon by.\<close>

primrec state_notification :: "e_mmgr_state \<Rightarrow> e_mmgr_events" where
  "state_notification E_MMGR_MDM_OOS = E_MMGR_EVENT_MODEM_OUT_OF_SERVICE"
| "state_notification E_MMGR_MDM_START = E_MMGR_EVENT_MODEM_DOWN"
| "state_notification E_MMGR_MDM_CONF_ONGOING = E_MMGR_EVENT_MODEM_DOWN"
| "state_notification E_MMGR_MDM_RESET = E_MMGR_EVENT_MODEM_DOWN"
| "state_notification E_MMGR_MDM_OFF = E_MMGR_EVENT_MODEM_DOWN"
| "state_notification E_MMGR_MDM_PREPARE_OFF = E_MMGR_EVENT_MODEM_DOWN"
| "state_notification E_MMGR_MDM_LINK_USB_DISC = E_MMGR_EVENT_MODEM_DOWN"
| "state_notification E_MMGR_MDM_UP = E_MMGR_EVENT_MODEM_UP"
| "state_notification E_MMGR_MDM_CORE_DUMP = E_MMGR_NOTIFY_CORE_DUMP"
| "state_notification E_MMGR_WAIT_COLD_ACK = E_MMGR_NOTIFY_MODEM_COLD_RESET"
| "state_notification E_MMGR_WAIT_SHT_ACK = E_MMGR_NOTIFY_MODEM_SHUTDOWN"
| "state_notification E_MMGR_NUM = E_MMGR_NUM_EVENTS"

text \<open>A four-byte message body as a number, in network order.\<close>

definition body_u32 :: "msg_t \<Rightarrow> u32 option" where
  "body_u32 msg = do { bs \<leftarrow> msg_data msg; (v, _) \<leftarrow> deserialize_uint32 (bs, 0); Some v }"

definition request_set_events :: "env \<Rightarrow> st \<Rightarrow> (e_mmgr_errors \<times> st) option" where
  "request_set_events E s =
     (let msg = rq_msg (mg_request (fst s)) in
      if hdr_len (msg_hdr msg) = 4
      then do { filt \<leftarrow> body_u32 msg;
                (ret, s1) \<leftarrow> on_client (\<lambda>c. client_set_filter c filt) s;
                s2 \<leftarrow> reply E E_MMGR_ACK s1;
                s3 \<leftarrow> reply E (state_notification (mg_state (fst s2))) s2;
                Some (ret, s3) }
      else do { s1 \<leftarrow> reply E E_MMGR_NACK s; Some (E_ERR_FAILED, s1) })"

definition resource_acquire_wakeup_modem :: "env \<Rightarrow> st \<Rightarrow> (e_mmgr_errors \<times> st) option" where
  "resource_acquire_wakeup_modem E s =
     do { s1 \<leftarrow> reply E E_MMGR_ACK s;
          (_, s2) \<leftarrow> on_client (\<lambda>c. client_unset_request c E_CNX_RESOURCE_RELEASED) s1;
          let s3 = set_link_state E_MDM_LINK_NONE (mcd_listen E {MDM_CTRL_STATE_COREDUMP} True s2);
          ((prep, fl), h4) \<leftarrow> mdm_flash_prepare E (mg_flash (fst s3)) (snd s3);
          let s4 = (fst s3\<lparr>mg_flash := fl\<rparr>, h4);
          if prep \<noteq> E_ERR_SUCCESS
          then do { (_, s5) \<leftarrow> reset_modem E (recov_force_op E_FORCE_OOS s4);
                    Some (E_ERR_FAILED, s5) }
          else do {
            let s5 = (if mdm_flash_is_required (mg_flash (fst s4))
                      then mcd_listen E {MDM_CTRL_STATE_FW_DOWNLOAD_READY} False s4
                      else if mdm_mcd_is_ipc_ready_present (mg_mcd (fst s4))
                      then mcd_listen E {MDM_CTRL_STATE_IPC_READY} False s4 else s4);
            let (ret, s6) = on_mcd (mdm_mcd_up E) s5;
            if ret = E_ERR_SUCCESS
            then do {
              let ebl_type = link_get_flash_ebl_type (mg_link (fst s6));
              let required = mdm_flash_is_required (mg_flash (fst s6));
              let s7 = (if ebl_type = E_LINK_USB \<and> required then set_mmgr_state E_MMGR_MDM_START s6
                        else set_mmgr_state E_MMGR_MDM_CONF_ONGOING s6);
              let s8 = set_cli_req E_CLI_REQ_NONE s7;
              (_, r) \<leftarrow> recov_reinit (mg_reset (fst s8));
              let s9 = (fst s8\<lparr>mg_reset := r\<rparr>, snd s8);
              let s10 = (if \<not> required \<and> mdm_mcd_is_ipc_ready_present (mg_mcd (fst s9))
                         then timer_on E E_TIMER_WAIT_FOR_IPC_READY s9 else s9);
              Some (ret, if ebl_type = E_LINK_USB then timer_on E E_TIMER_WAIT_FOR_BUS_READY s10 else s10) }
            else Some (ret, s6) } }"

definition resource_acquire :: "env \<Rightarrow> st \<Rightarrow> (e_mmgr_errors \<times> st) option" where
  "resource_acquire E s =
     do { s1 \<leftarrow> reply E E_MMGR_ACK s;
          on_client (\<lambda>c. client_unset_request c E_CNX_RESOURCE_RELEASED) s1 }"

definition request_resource_release_mdm_off :: "env \<Rightarrow> st \<Rightarrow> (e_mmgr_errors \<times> st) option" where
  "request_resource_release_mdm_off E s =
     do { (_, s1) \<leftarrow> on_client (\<lambda>c. client_set_request c E_CNX_RESOURCE_RELEASED) s;
          s2 \<leftarrow> reply E E_MMGR_ACK s1;
          Some (E_ERR_SUCCESS, s2) }"

definition request_resource_release :: "env \<Rightarrow> st \<Rightarrow> (e_mmgr_errors \<times> st) option" where
  "request_resource_release E s =
     do { s1 \<leftarrow> reply E E_MMGR_ACK s;
          (_, s2) \<leftarrow> on_client (\<lambda>c. client_set_request c E_CNX_RESOURCE_RELEASED) s1;
          if \<not> clients_has_resource (mg_clients (fst s2)) E_PRINT \<and> \<not> mg_dsda (fst s2)
          then do { s3 \<leftarrow> tell_all E E_MMGR_NOTIFY_MODEM_SHUTDOWN D_null s2;
                    Some (E_ERR_SUCCESS, set_mmgr_state E_MMGR_WAIT_SHT_ACK
                            (timer_on E E_TIMER_MODEM_SHUTDOWN_ACK (timers_off s3))) }
          else Some (E_ERR_SUCCESS, s2) }"

text \<open>
  The name is copied without its zero; the extra data is the raw payload of a recovery request.
\<close>

definition notify_ap_reset :: "env \<Rightarrow> st \<Rightarrow> (e_mmgr_errors \<times> st) option" where
  "notify_ap_reset E s =
     do { c \<leftarrow> the_client (fst s);
          let name = take CLIENT_NAME_LEN (client_get_name c);
          let (ok, h1) = xint E (Libc (X_calloc (length name))) (snd s);
          if ok = 0 then Some (E_ERR_FAILED, fst s, h1)
          else do {
            let msg = rq_msg (mg_request (fst s));
            let extra = (if hdr_id (msg_hdr msg) = request_id E_MMGR_REQUEST_MODEM_RECOVERY \<and>
                            hdr_len (msg_hdr msg) \<noteq> 0
                         then (hdr_len (msg_hdr msg), msg_data msg) else (0, None));
            inform_all E E_MMGR_NOTIFY_AP_RESET
              (D_internal_ap_reset \<lparr>iap_len = of_nat (length name), iap_name = Some name,
                 iap_extra_len = fst extra, iap_extra_data = snd extra\<rparr>) (fst s, h1) } }"

text \<open>The time stamp of the request is read as a signed number.\<close>

definition request_modem_recovery :: "env \<Rightarrow> st \<Rightarrow> (e_mmgr_errors \<times> st) option" where
  "request_modem_recovery E s =
     do { s1 \<leftarrow> reply E E_MMGR_ACK s;
          let ts = recov_get_last_reset (mg_reset (fst s1));
          if sint (hdr_ts (msg_hdr (rq_msg (mg_request (fst s1))))) > tv_sec ts
          then do { (_, s2) \<leftarrow> notify_ap_reset E (set_cli_req E_CLI_REQ_RESET s1);
                    Some (E_ERR_SUCCESS, set_mmgr_state E_MMGR_MDM_RESET s2) }
          else Some (E_ERR_SUCCESS, s1) }"

definition CARE_CENTER :: u32 where "CARE_CENTER = 0xCA2CE7E2"

definition request_modem_restart :: "env \<Rightarrow> st \<Rightarrow> (e_mmgr_errors \<times> st) option" where
  "request_modem_restart E s =
     do { s1 \<leftarrow> reply E E_MMGR_ACK s;
          let msg = rq_msg (mg_request (fst s1));
          optional \<leftarrow> (if hdr_len (msg_hdr msg) = 4 then body_u32 msg else Some 0);
          c \<leftarrow> the_client (fst s1);
          Some (E_ERR_SUCCESS,
            set_mmgr_state E_MMGR_MDM_RESET
              (if optional = CARE_CENTER \<and> take CLIENT_NAME_LEN (client_get_name c) = cstr ''MMB_NVM''
               then recov_force_op E_FORCE_OOS s1
               else recov_force_op E_FORCE_NO_COUNT (set_cli_req E_CLI_REQ_RESET s1))) }"

definition request_bkup_prod :: "env \<Rightarrow> st \<Rightarrow> (e_mmgr_errors \<times> st) option" where
  "request_bkup_prod E s =
     do { s1 \<leftarrow> reply E E_MMGR_ACK s;
          Some (E_ERR_SUCCESS, set_mmgr_state E_MMGR_MDM_RESET
                  (recov_force_op E_FORCE_NO_COUNT (set_cli_req (cli_req s1 OR E_CLI_REQ_PROD) s1))) }"

definition request_ack_cold_reset :: "env \<Rightarrow> st \<Rightarrow> (e_mmgr_errors \<times> st) option" where
  "request_ack_cold_reset E s =
     do { (_, s1) \<leftarrow> on_client (\<lambda>c. client_set_request c E_CNX_COLD_RESET) s;
          if clients_has_ack_cold (mg_clients (fst s1)) E_MUTE
          then do {
            s2 \<leftarrow> (if cli_req s1 AND E_CLI_REQ_PROD \<noteq> 0
                   then do { let (r, h2) = mdm_fw_backup_calib E (fl_fw (mg_flash (fst s1))) (snd s1);
                             if r = E_ERR_SUCCESS
                             then tell_all E E_MMGR_RESPONSE_MODEM_BACKUP_PRODUCTION D_null (fst s1, h2)
                             else Some (fst s1, h2) }
                   else Some s1);
            Some (E_ERR_SUCCESS, set_mmgr_state E_MMGR_MDM_RESET (set_cli_req E_CLI_REQ_RESET s2)) }
          else Some (E_ERR_SUCCESS, s1) }"

definition request_ack_modem_shutdown :: "env \<Rightarrow> st \<Rightarrow> (e_mmgr_errors \<times> st) option" where
  "request_ack_modem_shutdown E s =
     do { (_, s1) \<leftarrow> on_client (\<lambda>c. client_set_request c E_CNX_MODEM_SHUTDOWN) s;
          if clients_has_ack_shtdwn (mg_clients (fst s1)) E_MUTE
          then Some (E_ERR_SUCCESS, set_mmgr_state E_MMGR_MDM_RESET
                       (timer_off E_TIMER_MODEM_SHUTDOWN_ACK (set_cli_req E_CLI_REQ_OFF s1)))
          else Some (E_ERR_SUCCESS, s1) }"

definition request_force_modem_shutdown :: "env \<Rightarrow> st \<Rightarrow> (e_mmgr_errors \<times> st) option" where
  "request_force_modem_shutdown E s =
     do { s1 \<leftarrow> reply E E_MMGR_ACK s;
          s2 \<leftarrow> tell_all E E_MMGR_NOTIFY_MODEM_SHUTDOWN D_null s1;
          Some (E_ERR_SUCCESS, set_mmgr_state E_MMGR_WAIT_SHT_ACK
                  (timer_on E E_TIMER_MODEM_SHUTDOWN_ACK s2)) }"

section \<open>Requests of test builds\<close>

text \<open>The seven handlers that only acknowledge and broadcast one event have the same body.\<close>

definition fake :: "env \<Rightarrow> e_mmgr_events \<Rightarrow> st \<Rightarrow> (e_mmgr_errors \<times> st) option" where
  "fake E ev s =
     do { s1 \<leftarrow> reply E E_MMGR_ACK s; s2 \<leftarrow> tell_all E ev D_null s1; Some (E_ERR_SUCCESS, s2) }"

definition request_fake_up :: "env \<Rightarrow> st \<Rightarrow> (e_mmgr_errors \<times> st) option" where
  "request_fake_up E s = fake E E_MMGR_EVENT_MODEM_UP s"

definition request_fake_down :: "env \<Rightarrow> st \<Rightarrow> (e_mmgr_errors \<times> st) option" where
  "request_fake_down E s = fake E E_MMGR_EVENT_MODEM_DOWN s"

definition request_fake_shtdwn :: "env \<Rightarrow> st \<Rightarrow> (e_mmgr_errors \<times> st) option" where
  "request_fake_shtdwn E s = fake E E_MMGR_NOTIFY_MODEM_SHUTDOWN s"

definition request_fake_oos :: "env \<Rightarrow> st \<Rightarrow> (e_mmgr_errors \<times> st) option" where
  "request_fake_oos E s = fake E E_MMGR_EVENT_MODEM_OUT_OF_SERVICE s"

definition request_fake_cdd :: "env \<Rightarrow> st \<Rightarrow> (e_mmgr_errors \<times> st) option" where
  "request_fake_cdd E s = fake E E_MMGR_NOTIFY_CORE_DUMP s"

definition request_fake_ptfrmreboot :: "env \<Rightarrow> st \<Rightarrow> (e_mmgr_errors \<times> st) option" where
  "request_fake_ptfrmreboot E s = fake E E_MMGR_NOTIFY_PLATFORM_REBOOT s"

definition request_fake_self_reset :: "env \<Rightarrow> st \<Rightarrow> (e_mmgr_errors \<times> st) option" where
  "request_fake_self_reset E s = fake E E_MMGR_NOTIFY_SELF_RESET s"

text \<open>\<^verbatim>\<open>mcdr_get_path\<close> returns an array, never NULL. The file is created empty.\<close>

definition request_fake_cdd_complete :: "env \<Rightarrow> st \<Rightarrow> (e_mmgr_errors \<times> st) option" where
  "request_fake_cdd_complete E s =
     do { s1 \<leftarrow> reply E E_MMGR_ACK s;
          let filename = snprintf (PATH_MAX - 1)
                (mcdr_get_path (mg_mcdr (fst s1)) @ ''/'' @ ''cd_fake_coredump.tgz'');
          let (_, h2) = file_write E filename [] (snd s1);
          let cd = \<lparr>cd_state = cd_state_code E_CD_SUCCEED, cd_path = Some (cstr filename),
                    cd_path_len = of_nat (length filename), cd_reason = Some (cstr ''(fake reason)''),
                    cd_reason_len = 13\<rparr>;
          s3 \<leftarrow> tell_all E E_MMGR_NOTIFY_CORE_DUMP_COMPLETE (D_core_dump cd) (fst s1, h2);
          Some (E_ERR_SUCCESS, s3) }"

definition request_fake_ap_reset :: "env \<Rightarrow> st \<Rightarrow> (e_mmgr_errors \<times> st) option" where
  "request_fake_ap_reset E s = do { s1 \<leftarrow> reply E E_MMGR_ACK s; notify_ap_reset E s1 }"

text \<open>Each entry is its text, or an empty one when its allocation failed.\<close>

fun fake_tft_data :: "env \<Rightarrow> nat list \<Rightarrow> history \<Rightarrow> mmgr_cli_tft_event_data_t list \<times> history" where
  "fake_tft_data E [] h = ([], h)"
| "fake_tft_data E (i # is) h =
     (let (ok, h1) = xint E (Libc (X_calloc 512)) h; t = ''Test data '' @ digits i;
          d = (if ok = 0 then \<lparr>td_len = 0, td_value = None\<rparr>
               else \<lparr>td_len = of_nat (length t), td_value = Some (cstr t)\<rparr>);
          (ds, h2) = fake_tft_data E is h1 in
      (d # ds, h2))"

definition request_fake_tft_event :: "env \<Rightarrow> st \<Rightarrow> (e_mmgr_errors \<times> st) option" where
  "request_fake_tft_event E s =
     do { let (ds, h1) = fake_tft_data E [0..<6] (snd s);
          s1 \<leftarrow> reply E E_MMGR_ACK (fst s, h1);
          s2 \<leftarrow> tell_all E E_MMGR_NOTIFY_TFT_EVENT
                 (D_tft_event \<lparr>tft_type = int (unat (event_type_code E_EVENT_STATS)), tft_name_len = 14,
                    tft_name = Some (cstr ''TFT_EVENT_TEST''), tft_log = AP_BP_LOG,
                    tft_num_data = MMGR_CLI_MAX_TFT_EVENT_DATA, tft_data = Some ds\<rparr>) s1;
          Some (E_ERR_SUCCESS, s2) }"

definition client_nack :: "env \<Rightarrow> st \<Rightarrow> (e_mmgr_errors \<times> st) option" where
  "client_nack E s = inform_client E E_MMGR_NACK s"

definition client_ack :: "env \<Rightarrow> st \<Rightarrow> (e_mmgr_errors \<times> st) option" where
  "client_ack E s = inform_client E E_MMGR_ACK s"

section \<open>Dispatch\<close>

definition call_client :: "env \<Rightarrow> client_hdler \<Rightarrow> st \<Rightarrow> (e_mmgr_errors \<times> st) option" where
  "call_client E f s =
     (case f of
        H_client_nack \<Rightarrow> client_nack E s
      | H_client_ack \<Rightarrow> client_ack E s
      | H_request_set_name \<Rightarrow> request_set_name E s
      | H_request_set_events \<Rightarrow> request_set_events E s
      | H_resource_acquire_wakeup_modem \<Rightarrow> resource_acquire_wakeup_modem E s
      | H_resource_acquire \<Rightarrow> resource_acquire E s
      | H_request_resource_release_mdm_off \<Rightarrow> request_resource_release_mdm_off E s
      | H_request_resource_release \<Rightarrow> request_resource_release E s
      | H_request_modem_recovery \<Rightarrow> request_modem_recovery E s
      | H_request_modem_restart \<Rightarrow> request_modem_restart E s
      | H_request_force_modem_shutdown \<Rightarrow> request_force_modem_shutdown E s
      | H_request_ack_cold_reset \<Rightarrow> request_ack_cold_reset E s
      | H_request_ack_modem_shutdown \<Rightarrow> request_ack_modem_shutdown E s
      | H_request_modem_fuse_info \<Rightarrow> request_modem_fuse_info E s
      | H_request_modem_get_hw_id \<Rightarrow> request_modem_get_hw_id E s
      | H_request_bkup_prod \<Rightarrow> request_bkup_prod E s
      | H_request_fake_down \<Rightarrow> request_fake_down E s
      | H_request_fake_up \<Rightarrow> request_fake_up E s
      | H_request_fake_shtdwn \<Rightarrow> request_fake_shtdwn E s
      | H_request_fake_oos \<Rightarrow> request_fake_oos E s
      | H_request_fake_cdd \<Rightarrow> request_fake_cdd E s
      | H_request_fake_ptfrmreboot \<Rightarrow> request_fake_ptfrmreboot E s
      | H_request_fake_cdd_complete \<Rightarrow> request_fake_cdd_complete E s
      | H_request_fake_ap_reset \<Rightarrow> request_fake_ap_reset E s
      | H_request_fake_self_reset \<Rightarrow> request_fake_self_reset E s
      | H_request_fake_tft_event \<Rightarrow> request_fake_tft_event E s)"

definition set_request_data :: "byte list option \<Rightarrow> st \<Rightarrow> st" where
  "set_request_data d s =
     (fst s\<lparr>mg_request := (mg_request (fst s))\<lparr>rq_msg := (rq_msg (mg_request (fst s)))\<lparr>msg_data := d\<rparr>\<rparr>\<rparr>,
      snd s)"

text \<open>
  The body of the message is read, and if it is complete the request is looked up. A request number
  out of range is ignored. \<open>mg_state\<close> \<^verbatim>\<open>E_MMGR_NUM\<close> has no handlers. The data is freed at the
  end: the pointer left behind is not used again.
\<close>

definition client_request :: "env \<Rightarrow> st \<Rightarrow> (e_mmgr_errors \<times> st) option" where
  "client_request E s0 =
     do { let s = set_request_data None s0;
          let hdr = msg_hdr (rq_msg (mg_request (fst s)));
          let size = unat (hdr_len hdr);
          c \<leftarrow> the_client (fst s);
          (proceed, ret, s1) \<leftarrow>
            (if size > 0
             then
               let (data, h1) = calloc E size (snd s) in
               (case data of
                  None \<Rightarrow> Some (False, E_ERR_FAILED, (fst s, h1))
                | Some _ \<Rightarrow>
                    let ((ret, buf, n), h2) = cnx_read E (client_get_fd c) size h1 in
                    Some (ret = E_ERR_SUCCESS \<and> n = size, ret, set_request_data (Some buf) (fst s, h2)))
             else Some (True, E_ERR_FAILED, s));
          if proceed \<and> hdr_id hdr < request_id E_MMGR_NUM_REQUESTS
          then
            let req = request_of_id (hdr_id hdr) in
            if \<not> client_is_registered (the_client (fst s1)) \<and> req \<noteq> E_MMGR_SET_NAME \<and> req \<noteq> E_MMGR_SET_EVENTS
            then do { s2 \<leftarrow> reply E E_MMGR_NACK s1; Some (ret, s2) }
            else (case mg_hdler_client (fst s1) (mg_state (fst s1)) req of
                    None \<Rightarrow> Some (ret, s1)
                  | Some f \<Rightarrow> call_client E f s1)
          else Some (ret, s1) }"

definition event_fd :: "mmgr_data_t \<Rightarrow> int option" where
  "event_fd m =
     (let e = mg_events m in
      if 0 \<le> evn_cur_ev e \<and> nat (evn_cur_ev e) < length (evn_fds e)
      then Some (evn_fds e ! nat (evn_cur_ev e)) else None)"

text \<open>A departing client is served as if it had released the resource, then removed.\<close>

definition known_client :: "env \<Rightarrow> st \<Rightarrow> (e_mmgr_errors \<times> st) option" where
  "known_client E s =
     do { fd \<leftarrow> event_fd (fst s);
          case client_find (mg_clients (fst s)) fd of
            None \<Rightarrow> Some (E_ERR_SUCCESS, fst s, xcall (Sock (X_close fd)) (snd s))
          | Some i \<Rightarrow>
              do { ((ret, hdr), h1) \<leftarrow> msg_get_header E fd (msg_hdr (rq_msg (mg_request (fst s)))) (snd s);
                   let s1 = (fst s\<lparr>mg_request := (mg_request (fst s))
                               \<lparr>rq_msg := (rq_msg (mg_request (fst s)))\<lparr>msg_hdr := hdr\<rparr>, rq_client := i\<rparr>\<rparr>, h1);
                   if ret = E_ERR_SUCCESS then client_request E s1
                   else if ret = E_ERR_DISCONNECTED
                   then do { (_, s2) \<leftarrow> (case mg_hdler_client (fst s1) (mg_state (fst s1)) E_MMGR_RESOURCE_RELEASE of
                                          None \<Rightarrow> Some (ret, s1)
                                        | Some f \<Rightarrow> call_client E f s1);
                             let ((r, cl), h3) = client_remove E (mg_clients (fst s2)) fd (snd s2);
                             Some (r, fst s2\<lparr>mg_clients := cl\<rparr>, h3) }
                   else Some (ret, s1) } }"

definition new_client :: "env \<Rightarrow> st \<Rightarrow> (e_mmgr_errors \<times> st) option" where
  "new_client E s =
     do { fd \<leftarrow> event_fd (fst s);
          if clients_get_connected (mg_clients (fst s)) \<le> clients_get_allowed (mg_clients (fst s))
          then do {
            let (conn_sock, h1) = cnx_accept E fd (snd s);
            if conn_sock < 0 then Some (E_ERR_FAILED, fst s, h1)
            else do {
              let (l, h2) = tty_listen_fd E (mg_epollfd (fst s)) conn_sock h1;
              if l = E_ERR_SUCCESS
              then do { let ((ret, cl), h3) = client_add E (mg_clients (fst s)) conn_sock h2;
                        Some (ret, fst s\<lparr>mg_clients := cl\<rparr>, h3) }
              else Some (E_ERR_FAILED, fst s, h2) } }
          else Some (E_ERR_FAILED, s) }"

section \<open>The table of handlers\<close>

text \<open>
  The assignments of \<^verbatim>\<open>client_events_init\<close> in order: the default, the requests that are always served,
  then the exceptions per state. The rows of the table are the states below \<^verbatim>\<open>E_MMGR_NUM\<close>, its columns
  the requests below \<^verbatim>\<open>E_MMGR_NUM_REQUESTS\<close>.
\<close>

type_synonym hdler_table = "e_mmgr_state \<Rightarrow> e_mmgr_requests \<Rightarrow> client_hdler option"

definition set_hdler :: "e_mmgr_state \<Rightarrow> e_mmgr_requests \<Rightarrow> client_hdler \<Rightarrow> hdler_table \<Rightarrow> hdler_table" where
  "set_hdler st req f t = t(st := (t st)(req \<mapsto> f))"

definition set_always :: "e_mmgr_requests \<Rightarrow> client_hdler \<Rightarrow> hdler_table \<Rightarrow> hdler_table" where
  "set_always req f t = (\<lambda>st. if st = E_MMGR_NUM then t st else (t st)(req \<mapsto> f))"

definition default_table :: hdler_table where
  "default_table = (\<lambda>st req. if st = E_MMGR_NUM \<or> req = E_MMGR_NUM_REQUESTS then None else Some H_client_nack)"

definition fake_table :: "hdler_table \<Rightarrow> hdler_table" where
  "fake_table t =
     fold (\<lambda>(r, f). set_always r f)
       [(E_MMGR_REQUEST_FAKE_DOWN, H_request_fake_down), (E_MMGR_REQUEST_FAKE_UP, H_request_fake_up),
        (E_MMGR_REQUEST_FAKE_MODEM_SHUTDOWN, H_request_fake_shtdwn),
        (E_MMGR_REQUEST_FAKE_MODEM_OUT_OF_SERVICE, H_request_fake_oos),
        (E_MMGR_REQUEST_FAKE_CORE_DUMP, H_request_fake_cdd),
        (E_MMGR_REQUEST_FAKE_PLATFORM_REBOOT, H_request_fake_ptfrmreboot),
        (E_MMGR_REQUEST_FAKE_CORE_DUMP_COMPLETE, H_request_fake_cdd_complete),
        (E_MMGR_REQUEST_FAKE_AP_RESET, H_request_fake_ap_reset),
        (E_MMGR_REQUEST_FAKE_SELF_RESET, H_request_fake_self_reset),
        (E_MMGR_REQUEST_FAKE_TFT_EVENT, H_request_fake_tft_event)] t"

definition hdler_table_of :: "bool \<Rightarrow> hdler_table" where
  "hdler_table_of fake_requests =
     (let t1 = set_always E_MMGR_SET_EVENTS H_request_set_events
                 (set_always E_MMGR_SET_NAME H_request_set_name default_table);
          t2 = (if fake_requests then fake_table t1 else t1) in
      fold (\<lambda>(st, r, f). set_hdler st r f)
        [(E_MMGR_MDM_OFF, E_MMGR_RESOURCE_ACQUIRE, H_resource_acquire_wakeup_modem),
         (E_MMGR_MDM_UP, E_MMGR_RESOURCE_ACQUIRE, H_resource_acquire),
         (E_MMGR_MDM_START, E_MMGR_RESOURCE_ACQUIRE, H_resource_acquire),
         (E_MMGR_MDM_CONF_ONGOING, E_MMGR_RESOURCE_ACQUIRE, H_resource_acquire),
         (E_MMGR_WAIT_COLD_ACK, E_MMGR_RESOURCE_ACQUIRE, H_resource_acquire),
         (E_MMGR_MDM_OFF, E_MMGR_RESOURCE_RELEASE, H_request_resource_release_mdm_off),
         (E_MMGR_WAIT_SHT_ACK, E_MMGR_RESOURCE_RELEASE, H_request_resource_release_mdm_off),
         (E_MMGR_WAIT_COLD_ACK, E_MMGR_RESOURCE_RELEASE, H_request_resource_release),
         (E_MMGR_MDM_UP, E_MMGR_RESOURCE_RELEASE, H_request_resource_release),
         (E_MMGR_MDM_UP, E_MMGR_REQUEST_MODEM_RECOVERY, H_request_modem_recovery),
         (E_MMGR_WAIT_COLD_ACK, E_MMGR_REQUEST_MODEM_RECOVERY, H_client_ack),
         (E_MMGR_MDM_UP, E_MMGR_REQUEST_MODEM_RESTART, H_request_modem_restart),
         (E_MMGR_MDM_UP, E_MMGR_REQUEST_FORCE_MODEM_SHUTDOWN, H_request_force_modem_shutdown),
         (E_MMGR_WAIT_COLD_ACK, E_MMGR_ACK_MODEM_COLD_RESET, H_request_ack_cold_reset),
         (E_MMGR_WAIT_SHT_ACK, E_MMGR_ACK_MODEM_SHUTDOWN, H_request_ack_modem_shutdown),
         (E_MMGR_MDM_UP, E_MMGR_REQUEST_MODEM_FUSE_INFO, H_request_modem_fuse_info),
         (E_MMGR_MDM_UP, E_MMGR_REQUEST_MODEM_GET_HW_ID, H_request_modem_get_hw_id),
         (E_MMGR_MDM_UP, E_MMGR_REQUEST_MODEM_BACKUP_PRODUCTION, H_request_bkup_prod)] t2)"

definition client_events_init :: "env \<Rightarrow> int \<Rightarrow> st \<Rightarrow> e_mmgr_errors \<times> st" where
  "client_events_init E nb_client s =
     (let (p, h1) = clients_init E nb_client (snd s) in
      case p of
        None \<Rightarrow> (E_ERR_FAILED, fst s, h1)
      | Some cl \<Rightarrow>
          let (build_type, h2) = property_get_string E key_get_build_type h1;
              s2 = set_cli_req E_CLI_REQ_NONE (fst s\<lparr>mg_clients := cl\<rparr>, h2) in
          (E_ERR_SUCCESS, fst s2\<lparr>mg_hdler_client := hdler_table_of (build_type = ''eng'')\<rparr>, snd s2))"

definition client_events_dispose :: "env \<Rightarrow> st \<Rightarrow> e_mmgr_errors \<times> history" where
  "client_events_dispose E s = clients_dispose E (Some (mg_clients (fst s))) (snd s)"

end
