(* ===== verification/Events_Manager.thy ===== *)
theory Events_Manager
  imports Client_Events
begin

text \<open>
  The event loop of the daemon (\<^verbatim>\<open>core/events_manager.c\<close>): set-up and release of its descriptors, the
  choice of the next event, the handlers of time-outs and of the two worker threads, and one turn of the
  loop. \<^term>\<open>None\<close> is an assertion failure, an access outside a buffer, a handler that does not
  return, or the end of the process.
\<close>

section \<open>Set-up\<close>

definition security_event :: "env \<Rightarrow> st \<Rightarrow> (e_mmgr_errors \<times> st) option" where
  "security_event E s =
     do { ((ret, sec), h1) \<leftarrow> secure_event E (mg_secure (fst s)) (snd s);
          let s1 = (fst s\<lparr>mg_secure := sec\<rparr>, h1);
          s2 \<leftarrow> (case secure_get_error sec of
                  None \<Rightarrow> Some s1
                | Some err_msg \<Rightarrow>
                    tell_all E E_MMGR_NOTIFY_TFT_EVENT
                      (tft_ev E_EVENT_ERROR ''TFT_ERROR_MISC'' AP_BP_LOG [err_msg]) s1);
          Some (ret, s2) }"

definition events_dispose :: "env \<Rightarrow> st \<Rightarrow> e_mmgr_errors \<times> st" where
  "events_dispose E s =
     (let h1 = xcall (Android (X_wake_lock False)) (snd s);
          (tty, h2) = (if mg_fd_tty (fst s) \<noteq> CLOSED_FD
                       then let ((_, fd), h) = tty_close E (mg_fd_tty (fst s)) h1 in (fd, h)
                       else (mg_fd_tty (fst s), h1));
          (cnx, h3) = (if mg_fd_cnx (fst s) \<noteq> CLOSED_FD
                       then let ((_, fd), h) = cnx_close E (mg_fd_cnx (fst s)) h2 in (fd, h)
                       else (mg_fd_cnx (fst s), h2));
          h4 = (if mg_epollfd (fst s) \<noteq> CLOSED_FD then xcall (Sock (X_close (mg_epollfd (fst s)))) h3 else h3) in
      (E_ERR_SUCCESS, fst s\<lparr>mg_fd_tty := tty, mg_fd_cnx := cnx\<rparr>, h4))"

definition FIRST_EVENT :: int where "FIRST_EVENT = -1"

definition events_init :: "env \<Rightarrow> int \<Rightarrow> st \<Rightarrow> e_mmgr_errors \<times> st" where
  "events_init E nb_client s =
     (let m = fst s\<lparr>mg_fd_tty := CLOSED_FD, mg_fd_cnx := CLOSED_FD, mg_epollfd := CLOSED_FD,
                    mg_events := (mg_events (fst s))\<lparr>evn_nfds := 0\<rparr>\<rparr>;
          (ok, h1) = xint E (Libc (X_calloc (nat (12 * (nb_client + 1))))) (snd s) in
      if ok = 0 then (E_ERR_FAILED, m, h1)
      else (E_ERR_SUCCESS, m\<lparr>mg_events := (mg_events m)\<lparr>evn_cur_ev := FIRST_EVENT\<rparr>\<rparr>, h1))"

text \<open>
  A descriptor is added to the poll list unless an earlier step failed: \<open>listen_next\<close> is the repeated
  \<^verbatim>\<open>if (ret != E_ERR_SUCCESS) goto out\<close>.
\<close>

definition listen_next :: "env \<Rightarrow> int \<Rightarrow> e_mmgr_errors \<times> st \<Rightarrow> e_mmgr_errors \<times> st" where
  "listen_next E fd r =
     (case r of (ret, s) \<Rightarrow>
        if ret \<noteq> E_ERR_SUCCESS then (ret, s)
        else let (ret1, h1) = tty_listen_fd E (mg_epollfd (fst s)) fd (snd s) in (ret1, fst s, h1))"

definition is_usb_modem :: "link_ctx_t \<Rightarrow> bool" where
  "is_usb_modem l \<longleftrightarrow> link_get_flash_ebl_type l = E_LINK_USB \<or> link_get_flash_fw_type l = E_LINK_USB \<or>
     link_get_bb_type l = E_LINK_USB"

text \<open>
  The name is left empty for a bad instance number, whose error is ignored. \<^verbatim>\<open>MMGR_SOCKET_LEN\<close> is 64.
\<close>

definition events_start :: "env \<Rightarrow> int \<Rightarrow> st \<Rightarrow> (e_mmgr_errors \<times> st) option" where
  "events_start E inst_id s =
     (let cnx_name = (case snd (cnx_get_name 64 inst_id) of None \<Rightarrow> '''' | Some n \<Rightarrow> n);
          ((ret, cnx), h1) = cnx_open E cnx_name (snd s);
          s1 = (fst s\<lparr>mg_fd_cnx := cnx\<rparr>, h1) in
      if ret \<noteq> E_ERR_SUCCESS then Some (ret, s1)
      else
        let ((ret2, ep), h2) = tty_init_listener E h1;
            s2 = (fst s1\<lparr>mg_epollfd := ep\<rparr>, h2);
            r3 = listen_next E (mdm_flash_get_fd (Some (mg_flash (fst s2))))
                   (listen_next E (mdm_mcd_get_fd (mg_mcd (fst s2)))
                     (listen_next E (mg_fd_cnx (fst s2)) (ret2, s2)));
            r4 = (if mcdr_is_enabled (Some (mg_mcdr (fst s2)))
                  then listen_next E (mcdr_get_fd (Some (mg_mcdr (fst s2)))) r3 else r3) in
        do { (ret5, s5) \<leftarrow>
               (if fst r4 = E_ERR_SUCCESS \<and> is_usb_modem (mg_link (fst s2))
                then do {
                  b \<leftarrow> evn_bus (mg_events (fst (snd r4)));
                  let ((ret5, b1), h5) = bus_ev_start E b (snd (snd r4));
                  let s5 = ((fst (snd r4))\<lparr>mg_events := (mg_events (fst (snd r4)))\<lparr>evn_bus := Some b1\<rparr>\<rparr>, h5);
                  Some (listen_next E (bus_ev_get_fd (Some b1)) (ret5, s5)) }
                else Some r4);
             Some (ret5, if ret5 = E_ERR_SUCCESS \<and> link_get_bb_type (mg_link (fst s5)) \<noteq> E_LINK_USB
                         then set_link_state (link_state s5 OR E_MDM_LINK_BB_READY) s5 else s5) })"

section \<open>The next event\<close>

text \<open>
  \<^verbatim>\<open>epoll_wait\<close> answers an error, or the descriptors that are ready, at most as many as the buffer
  holds. On an error other than a bad descriptor or argument the call is repeated.
\<close>

definition sys_epoll_wait :: "env \<Rightarrow> int \<Rightarrow> int \<Rightarrow> int \<Rightarrow> int list \<Rightarrow> history \<Rightarrow> (int \<times> int list) \<times> history" where
  "sys_epoll_wait E epollfd maxev timeout old h =
     (let h1 = Sock (X_epoll_wait epollfd maxev timeout) # h; fds = take (nat maxev) (env_fds E h1) in
      if env_int E h1 < 0 then ((-1, old), h1) else ((int (length fds), fds), h1))"

partial_function (option) epoll_loop :: "env \<Rightarrow> st \<Rightarrow> (e_mmgr_errors \<times> st) option" where
  "epoll_loop E s =
     (let m = fst s; (timeout, h1) = timer_get_timeout E (mg_timer m) (snd s);
          ((nfds, fds), h2) = sys_epoll_wait E (mg_epollfd m) (clients_get_allowed (mg_clients m) + 1) timeout
                                (evn_fds (mg_events m)) h1;
          s1 = (m\<lparr>mg_events := (mg_events m)\<lparr>evn_cur_ev := FIRST_EVENT, evn_nfds := nfds, evn_fds := fds\<rparr>\<rparr>, h2) in
      if nfds = -1
      then if env_errno E h2 = EBADF \<or> env_errno E h2 = EINVAL then Some (E_ERR_FAILED, s1)
           else epoll_loop E s1
      else Some (E_ERR_SUCCESS, s1))"

declare epoll_loop.simps [code]

definition event_of_fd :: "mmgr_data_t \<Rightarrow> int \<Rightarrow> e_events_type" where
  "event_of_fd m fd =
     (if fd = mg_fd_cnx m then E_EVENT_NEW_CLIENT
      else if fd = mg_fd_tty m then E_EVENT_IPC
      else if fd = mdm_mcd_get_fd (mg_mcd m) then E_EVENT_MCD
      else if fd = bus_ev_get_fd (evn_bus (mg_events m)) then E_EVENT_BUS
      else if fd = secure_get_fd (mg_secure m) then E_EVENT_SECUR
      else if fd = mdm_flash_get_fd (Some (mg_flash m)) then E_EVENT_FLASHING
      else if fd = mcdr_get_fd (Some (mg_mcdr m)) then E_EVENT_MCDR
      else E_EVENT_CLIENT)"

definition wait_for_event :: "env \<Rightarrow> st \<Rightarrow> (e_mmgr_errors \<times> st) option" where
  "wait_for_event E s =
     do { (ret, s1) \<leftarrow> (if evn_cur_ev (mg_events (fst s)) + 1 \<ge> evn_nfds (mg_events (fst s))
                        then epoll_loop E s else Some (E_ERR_SUCCESS, s));
          if ret \<noteq> E_ERR_SUCCESS then Some (ret, s1)
          else do {
            let ev = mg_events (fst s1);
            let s2 = (fst s1\<lparr>mg_events := ev\<lparr>evn_cur_ev := evn_cur_ev ev + 1\<rparr>\<rparr>, snd s1);
            state \<leftarrow> (if evn_nfds ev = 0 then Some E_EVENT_TIMEOUT
                      else do { fd \<leftarrow> event_fd (fst s2); Some (event_of_fd (fst s2) fd) });
            Some (ret, fst s2\<lparr>mg_events := (mg_events (fst s2))\<lparr>evn_state := state\<rparr>\<rparr>, snd s2) } }"

section \<open>Time-outs and worker threads\<close>

definition flush_pipe :: "env \<Rightarrow> int \<Rightarrow> st \<Rightarrow> st" where
  "flush_pipe E fd s = (fst s, snd (sys_read E fd 1 (snd s)))"

definition timeout_event :: "env \<Rightarrow> st \<Rightarrow> (e_mmgr_errors \<times> st) option" where
  "timeout_event E s =
     do { let hw_working = (mg_state (fst s) \<noteq> E_MMGR_MDM_LINK_USB_DISC);
          ((ret, t, mdm_action, cl), h1) \<leftarrow>
            timer_event E (mg_timer (fst s)) (mg_clients (fst s)) (mg_state (fst s)) hw_working (snd s);
          let s1 = (fst s\<lparr>mg_timer := t, mg_clients := cl\<rparr>, h1);
          let does = (\<lambda>a. mdm_action AND a \<noteq> 0);
          let s2 = (if does E_TIMER_STREAMLINE
                    then set_mmgr_state E_MMGR_MDM_RESET (recov_force_op E_FORCE_NO_COUNT s1) else s1);
          let s3 = (if does E_TIMER_RESET then set_mmgr_state E_MMGR_MDM_RESET s2 else s2);
          let s4 = (if does E_TIMER_CD_ERR then on_link (link_on_cd_failure E) s3 else s3);
          s5 \<leftarrow> (if does E_TIMER_CANCEL_FLASHING
                 then do { s5 \<leftarrow> tell_all E E_MMGR_NOTIFY_TFT_EVENT
                                   (tft_ev E_EVENT_STATS ''TFT_STAT_FLASH'' 0
                                      [''Timeout during modem flashing. Operation cancelled'']) s4;
                           (fl, h5) \<leftarrow> mdm_flash_cancel (mg_flash (fst s5)) (snd s5);
                           Some (set_mmgr_state E_MMGR_MDM_RESET (fst s5\<lparr>mg_flash := fl\<rparr>, h5)) }
                 else Some s4);
          s6 \<leftarrow> (if does E_TIMER_STOP_MCDR
                 then do { (mc, h6) \<leftarrow> mcdr_cancel E (mg_mcdr (fst s5)) (snd s5);
                           s6 \<leftarrow> core_dump_finalize E E_CD_TIMEOUT (fst s5\<lparr>mg_mcdr := mc\<rparr>, h6);
                           Some (flush_pipe E (mcdr_get_fd (Some (mg_mcdr (fst s6)))) s6) }
                 else Some s5);
          s7 \<leftarrow> (if does E_TIMER_START_MDM_OFF then Some (set_cli_req E_CLI_REQ_OFF s6)
                 else if does E_TIMER_FINALIZE_MDM_OFF
                 then do { s7 \<leftarrow> tell_all E E_MMGR_NOTIFY_TFT_EVENT
                                   (tft_ev E_EVENT_ERROR ''TFT_ERROR_MISC'' AP_LOG
                                      [''Timeout during FMMO. Force modem shutdown'']) s6;
                           (_, s8) \<leftarrow> mdm_finalize_shtdwn E s7;
                           Some (set_mmgr_state E_MMGR_MDM_OFF s8) }
                 else Some s6);
          Some (ret, s7) }"

text \<open>
  The caller passes the remaining time where \<^verbatim>\<open>inform_flash_err\<close> expects the number of attempts, and the
  attempts where it expects the time. The result of the previous event is left in \<^verbatim>\<open>ret\<close>.
\<close>

definition flashing_event :: "env \<Rightarrow> st \<Rightarrow> (e_mmgr_errors \<times> st) option" where
  "flashing_event E s =
     do { let s1 = timer_off E_TIMER_MDM_FLASHING (flush_pipe E (mdm_flash_get_fd (Some (mg_flash (fst s)))) s);
          bus \<leftarrow> evn_bus (mg_events (fst s1));
          (fl, h2) \<leftarrow> mdm_flash_finalize E (mg_link (fst s1)) bus (mg_flash (fst s1)) (snd s1);
          let s3 = mcd_listen E {MDM_CTRL_STATE_IPC_READY} False (fst s1\<lparr>mg_flash := fl\<rparr>, h2);
          let err = mdm_flash_get_upgrade_err (mg_flash (fst s3));
          s4 \<leftarrow> (if err \<noteq> MDM_UPDATE_ERR_NONE then inform_upgrade_err E err s3 else Some s3);
          let flash_err = mdm_flash_get_flashing_err (mg_flash (fst s4));
          let (tv, h5) = timer_get_value E (mg_timer (fst s4)) E_TIMER_MDM_FLASHING (snd s4);
          s6 \<leftarrow> inform_flash_err E flash_err tv (mdm_flash_get_attempts (mg_flash (fst s4))) (fst s4, h5);
          if flash_err = E_MODEM_FW_SUCCEED
          then do {
            let s7 = set_mmgr_state E_MMGR_MDM_CONF_ONGOING
                       (fst s6\<lparr>mg_flash := mdm_flash_reset_attempts (mg_flash (fst s6))\<rparr>, snd s6);
            let s8 = (if link_get_bb_type (mg_link (fst s7)) = E_LINK_USB
                      then timer_on E E_TIMER_WAIT_FOR_BUS_READY s7 else s7);
            Some (E_ERR_SUCCESS, if mdm_mcd_is_ipc_ready_present (mg_mcd (fst s8))
                                 then timer_on E E_TIMER_WAIT_FOR_IPC_READY s8 else s8) }
          else Some (E_ERR_SUCCESS,
                 set_mmgr_state E_MMGR_MDM_RESET
                   (if flash_err \<noteq> E_MODEM_FW_ERROR_UNSPECIFIED then recov_force_op E_FORCE_OOS s6 else s6)) }"

definition mcdr_event :: "env \<Rightarrow> st \<Rightarrow> (e_mmgr_errors \<times> st) option" where
  "mcdr_event E s =
     do { let s1 = timer_off E_TIMER_CORE_DUMP_READING (flush_pipe E (mcdr_get_fd (Some (mg_mcdr (fst s)))) s);
          s4 \<leftarrow> (if mg_state (fst s1) = E_MMGR_MDM_CORE_DUMP
                 then do { (mc, h2) \<leftarrow> mcdr_finalize E (mg_mcdr (fst s1)) (snd s1);
                           (res, h3) \<leftarrow> mcdr_get_result E mc h2;
                           core_dump_finalize E res (fst s1\<lparr>mg_mcdr := mc\<rparr>, h3) }
                 else Some s1);
          Some (E_ERR_SUCCESS, s4) }"

section \<open>The loop\<close>

text \<open>What a turn does before it waits: a pending shutdown request first, else a pending reset.\<close>

definition pending_work :: "env \<Rightarrow> st \<Rightarrow> st option" where
  "pending_work E s =
     (if cli_req s AND E_CLI_REQ_OFF \<noteq> 0
      then
        let s1 = set_cli_req (cli_req s AND NOT E_CLI_REQ_OFF)
                   (fst s\<lparr>mg_clients := snd (clients_reset_ack_shtdwn (mg_clients (fst s)))\<rparr>, snd s) in
        if \<not> mg_dsda (fst s1)
        then do { (_, s2) \<leftarrow> mdm_start_shtdwn E (timer_on E E_TIMER_FMMO s1);
                  Some (set_mmgr_state E_MMGR_MDM_PREPARE_OFF s2) }
        else Some s1
      else if mg_state (fst s) = E_MMGR_MDM_RESET
      then do { (_, s1) \<leftarrow> reset_modem E s;
                Some (set_cli_req (cli_req s1 AND NOT E_CLI_REQ_RESET) s1) }
      else Some s)"

definition dispatch :: "env \<Rightarrow> st \<Rightarrow> (e_mmgr_errors \<times> st) option" where
  "dispatch E s =
     (case evn_state (mg_events (fst s)) of
        E_EVENT_IPC \<Rightarrow> ipc_event E s
      | E_EVENT_MCD \<Rightarrow> modem_control_event E s
      | E_EVENT_BUS \<Rightarrow> bus_events E s
      | E_EVENT_NEW_CLIENT \<Rightarrow> new_client E s
      | E_EVENT_CLIENT \<Rightarrow> known_client E s
      | E_EVENT_SECUR \<Rightarrow> security_event E s
      | E_EVENT_TIMEOUT \<Rightarrow> timeout_event E s
      | E_EVENT_FLASHING \<Rightarrow> flashing_event E s
      | E_EVENT_MCDR \<Rightarrow> mcdr_event E s)"

text \<open>
  One turn from the top of the loop: the result of waiting, whether the wake lock is held, and the new
  state. A turn whose waiting failed is the last one.
\<close>

definition turn :: "env \<Rightarrow> bool \<Rightarrow> st \<Rightarrow> (e_mmgr_errors \<times> bool \<times> st) option" where
  "turn E wakelock s =
     do { s1 \<leftarrow> pending_work E s;
          let idle = (mg_state (fst s1) \<in> {E_MMGR_MDM_OFF, E_MMGR_MDM_UP, E_MMGR_MDM_OOS});
          let w1 = (wakelock \<and> \<not> idle);
          let s2 = (if idle then (fst s1, xcall (Android (X_wake_lock False)) (snd s1)) else s1);
          (ret, s3) \<leftarrow> wait_for_event E s2;
          if ret \<noteq> E_ERR_SUCCESS then Some (ret, w1, s3)
          else do {
            let s4 = (if w1 then s3 else (fst s3, xcall (Android (X_wake_lock True)) (snd s3)));
            (_, s5) \<leftarrow> dispatch E s4;
            Some (ret, True, s5) } }"

partial_function (option) events_loop :: "env \<Rightarrow> bool \<Rightarrow> st \<Rightarrow> (e_mmgr_errors \<times> st) option" where
  "events_loop E wakelock s =
     do { (ret, w, s1) \<leftarrow> turn E wakelock s;
          if ret \<noteq> E_ERR_SUCCESS then Some (ret, s1) else events_loop E w s1 }"

declare events_loop.simps [code]

definition events_manager :: "env \<Rightarrow> st \<Rightarrow> (e_mmgr_errors \<times> st) option" where
  "events_manager E s = events_loop E False s"

end
