(* ===== verification/Daemon_Inv.thy ===== *)
theory Daemon_Inv
  imports Events_Manager
begin

text \<open>
  The invariant of the running daemon and its preservation by every handler.

  A handler that returns is described with \<^const>\<open>pred_option\<close>: its result, if there is one, satisfies
  the predicate. Calls that leave the part of the context the invariant looks at as it is are
  related by \<open>keeps\<close>; these facts are collected in \<open>keeps_rules\<close>, and the proofs of the handlers
  decompose along the do-notation with \<open>vcg\<close>.
\<close>

named_theorems keeps_rules \<open>calls that keep the control part of the context\<close>
named_theorems inv_rules \<open>steps of the handlers and the invariant\<close>

section \<open>The invariant\<close>

text \<open>
  The size and the counter of the client table agree with its slots. (That the open descriptors are
  distinct in addition rests on the kernel, see the theory of clients.)
\<close>

definition clients_counted :: "client_list_t \<Rightarrow> bool" where
  "clients_counted t \<longleftrightarrow>
     list_size t = int (length (cl_list t)) \<and> connected t = int (length (filter is_open (cl_list t)))"

text \<open>The tables of handlers are those of the initialisation.\<close>

definition pre_table :: "e_escalation_level \<Rightarrow> pre_hdler option" where
  "pre_table = [E_EL_MODEM_COLD_RESET \<mapsto> H_pre_mdm_cold_reset, E_EL_PLATFORM_REBOOT \<mapsto> H_pre_platform_reboot,
                E_EL_MODEM_OUT_OF_SERVICE \<mapsto> H_pre_modem_out_of_service]"

definition mdm_table :: "e_escalation_level \<Rightarrow> mdm_hdler option" where
  "mdm_table = [E_EL_MODEM_COLD_RESET \<mapsto> H_mdm_mcd_cold_reset, E_EL_PLATFORM_REBOOT \<mapsto> H_platform_reboot,
                E_EL_MODEM_OUT_OF_SERVICE \<mapsto> H_mdm_mcd_off]"

definition base :: "mmgr_data_t \<Rightarrow> bool" where
  "base m \<longleftrightarrow>
     clients_counted (mg_clients m) \<and> mg_state m \<noteq> E_MMGR_NUM \<and>
     (\<exists>b. mg_hdler_client m = hdler_table_of b) \<and>
     mg_hdler_pre_mdm m = pre_table \<and> mg_hdler_mdm m = mdm_table \<and>
     length (se_queue (mg_secure m)) \<le> MSGS_MAX \<and>
     FIRST_EVENT \<le> evn_cur_ev (mg_events m) \<and> evn_nfds (mg_events m) \<le> int (length (evn_fds (mg_events m)))"

text \<open>The timer that bounds the wait for acknowledgements in a state, if it is a waiting state.\<close>

primrec ack_timer :: "e_mmgr_state \<Rightarrow> e_timer_type option" where
  "ack_timer E_MMGR_WAIT_COLD_ACK = Some E_TIMER_COLD_RESET_ACK"
| "ack_timer E_MMGR_WAIT_SHT_ACK = Some E_TIMER_MODEM_SHUTDOWN_ACK"
| "ack_timer E_MMGR_MDM_OFF = None"
| "ack_timer E_MMGR_MDM_START = None"
| "ack_timer E_MMGR_MDM_RESET = None"
| "ack_timer E_MMGR_MDM_CONF_ONGOING = None"
| "ack_timer E_MMGR_MDM_UP = None"
| "ack_timer E_MMGR_MDM_OOS = None"
| "ack_timer E_MMGR_MDM_CORE_DUMP = None"
| "ack_timer E_MMGR_MDM_PREPARE_OFF = None"
| "ack_timer E_MMGR_MDM_LINK_USB_DISC = None"
| "ack_timer E_MMGR_NUM = None"

definition ack_timed :: "mmgr_data_t \<Rightarrow> bool" where
  "ack_timed m \<longleftrightarrow>
     (\<forall>ty. ack_timer (mg_state m) = Some ty \<and> tm_timeout (mg_timer m) ty \<noteq> 0 \<longrightarrow> armed (mg_timer m) ty)"

definition daemon_ok :: "mmgr_data_t \<Rightarrow> bool" where
  "daemon_ok m \<longleftrightarrow> base m \<and> ack_timed m"

section \<open>Steps that keep the control part\<close>

definition keeps :: "st \<Rightarrow> st \<Rightarrow> bool" where
  "keeps s s' \<longleftrightarrow>
     mg_state (fst s') = mg_state (fst s) \<and> mg_timer (fst s') = mg_timer (fst s) \<and>
     mg_hdler_client (fst s') = mg_hdler_client (fst s) \<and>
     mg_hdler_pre_mdm (fst s') = mg_hdler_pre_mdm (fst s) \<and> mg_hdler_mdm (fst s') = mg_hdler_mdm (fst s) \<and>
     evn_cur_ev (mg_events (fst s')) = evn_cur_ev (mg_events (fst s)) \<and>
     evn_nfds (mg_events (fst s')) = evn_nfds (mg_events (fst s)) \<and>
     evn_fds (mg_events (fst s')) = evn_fds (mg_events (fst s)) \<and>
     (clients_counted (mg_clients (fst s)) \<longrightarrow> clients_counted (mg_clients (fst s'))) \<and>
     (length (se_queue (mg_secure (fst s))) \<le> MSGS_MAX \<longrightarrow> length (se_queue (mg_secure (fst s'))) \<le> MSGS_MAX)"

lemma keeps_refl [simp, intro]: "keeps s s"
  by (simp add: keeps_def)

lemma keeps_trans [trans]: "keeps s t \<Longrightarrow> keeps t u \<Longrightarrow> keeps s u"
  by (auto simp: keeps_def)

lemma keeps_history: "keeps s (m, h) \<longleftrightarrow> keeps s (m, h')"
  by (simp add: keeps_def)

lemma keeps_inv: "keeps s s' \<Longrightarrow> daemon_ok (fst s) \<Longrightarrow> daemon_ok (fst s')"
  by (auto simp: keeps_def daemon_ok_def base_def ack_timed_def)

lemma keeps_base: "keeps s s' \<Longrightarrow> base (fst s) \<Longrightarrow> base (fst s')"
  by (auto simp: keeps_def base_def)

lemma keeps_state: "keeps s s' \<Longrightarrow> mg_state (fst s') = mg_state (fst s)"
  by (simp add: keeps_def)

text \<open>A loop or module call that only extends the history, and updates of fields outside the control part.\<close>

lemma keeps_update [keeps_rules]:
  "keeps s (fst s\<lparr>mg_reset := r\<rparr>, h)" "keeps s (fst s\<lparr>mg_flash := fl\<rparr>, h)"
  "keeps s (fst s\<lparr>mg_mcdr := mc\<rparr>, h)" "keeps s (fst s\<lparr>mg_mcd := mcd\<rparr>, h)"
  "keeps s (fst s\<lparr>mg_fd_tty := fd\<rparr>, h)" "keeps s (fst s, h)"
  "keeps s (fst s\<lparr>mg_cd_retrieved := c\<rparr>, h)" "keeps s (fst s\<lparr>mg_bb_seen := c\<rparr>, h)"
  "keeps s (fst s\<lparr>mg_request := rq\<rparr>, h)"
  "keeps s (fst s\<lparr>mg_events := (mg_events (fst s))\<lparr>evn_bus := b\<rparr>\<rparr>, h)"
  "keeps s (fst s\<lparr>mg_mcdr := mc, mg_cd_retrieved := c\<rparr>, h)"
  "keeps s (fst s\<lparr>mg_fd_tty := fd, mg_wakeup_cfg := w\<rparr>, h)"
  by (simp_all add: keeps_def)

lemma keeps_sets [keeps_rules]:
  "keeps s (set_link_state x s)" "keeps s (set_cli_req y s)" "keeps s (recov_force_op op s)"
  "keeps s (recov_set st s)" "keeps s (broadcast_msg i s)" "keeps s (on_link f s)"
  "keeps s (set_request_data d s)" "keeps s (flush_pipe E fd s)"
  by (simp_all add: set_link_state_def set_cli_req_def recov_force_op_def recov_set_def
      broadcast_msg_def on_link_def set_request_data_def flush_pipe_def keeps_def)

lemma keeps_mcd [keeps_rules]:
  "keeps s (mcd_listen E evs ow s)" "keeps s (mcd_unlisten E evs s)" "keeps s (snd (on_mcd f s))"
  by (simp_all add: mcd_listen_def mcd_unlisten_def on_mcd_def case_prod_unfold Let_def keeps_def)

lemma keeps_close_fds [keeps_rules]: "keeps s (mdm_close_fds E s)"
  by (simp add: mdm_close_fds_def secure_stop_def case_prod_unfold Let_def keeps_def)

lemma clients_counted_inform:
  "clients_inform_all E t ev d h = Some ((r, t'), h') \<Longrightarrow> clients_counted t' = clients_counted t"
  by (simp add: clients_counted_def inform_all_keeps)

lemma keeps_tell [keeps_rules]:
  "pred_option (\<lambda>(r, s'). keeps s s') (inform_all E ev d s)" "pred_option (keeps s) (tell_all E ev d s)"
proof -
  show "pred_option (\<lambda>(r, s'). keeps s s') (inform_all E ev d s)"
    by (rule pred_optionI)
      (auto simp: inform_all_def bind_eq_Some_conv keeps_def dest: clients_counted_inform)
  then show "pred_option (keeps s) (tell_all E ev d s)"
    unfolding tell_all_def by (intro pred_map) (simp add: case_prod_unfold)
qed

lemma keeps_reply [keeps_rules]:
  "pred_option (\<lambda>(r, s'). keeps s s') (inform_client E ev s)" "pred_option (keeps s) (reply E ev s)"
  by (auto intro!: pred_optionI simp: reply_def inform_client_def bind_eq_Some_conv keeps_def)

lemma clients_counted_update:
  assumes "clients_counted cl" "cl_fd c' = cl_fd (cl_list cl ! i)"
  shows "clients_counted (cl\<lparr>cl_list := (cl_list cl)[i := c']\<rparr>)"
proof (cases "i < length (cl_list cl)")
  case True
  with length_filter_update [OF True, of is_open c'] assms show ?thesis
    by (auto simp: clients_counted_def split: if_splits)
next
  case False
  then show ?thesis using assms by (simp add: list_update_beyond)
qed

lemma keeps_on_client:
  assumes "\<And>c. the_client (fst s) = Some c \<Longrightarrow> cl_fd (snd (f c)) = cl_fd c"
  shows "pred_option (\<lambda>(r, s'). keeps s s') (on_client f s)"
  using clients_counted_update [of "mg_clients (fst s)"] assms
  by (auto intro!: pred_optionI simp: on_client_def the_client_def bind_eq_Some_conv keeps_def Let_def
      case_prod_unfold split: if_splits)

section \<open>Decomposing handlers\<close>

text \<open>A predicate on the context that depends on the control part only.\<close>

locale kept =
  fixes K :: "mmgr_data_t \<Rightarrow> bool"
  assumes kept: "keeps s s' \<Longrightarrow> K (fst s) \<Longrightarrow> K (fst s')"
begin

lemmas fun_rules = keeps_update [THEN kept] keeps_sets [THEN kept] keeps_mcd [THEN kept]
  keeps_close_fds [THEN kept]

lemma mono: "pred_option (keeps s) m \<Longrightarrow> K (fst s) \<Longrightarrow> pred_option (\<lambda>s'. K (fst s')) m"
  by (cases m) (auto dest: kept)

lemma mono2: "pred_option (\<lambda>(r, s'). keeps s s') m \<Longrightarrow> K (fst s) \<Longrightarrow> pred_option (\<lambda>(r, s'). K (fst s')) m"
  by (cases m) (auto dest: kept)

lemmas call_rules = keeps_tell(2) [THEN mono] keeps_reply(2) [THEN mono]
  keeps_tell(1) [THEN mono2] keeps_reply(1) [THEN mono2]

lemma on_client_rule:
  "(\<And>c. the_client (fst s) = Some c \<Longrightarrow> cl_fd (snd (f c)) = cl_fd c) \<Longrightarrow> K (fst s) \<Longrightarrow>
     pred_option (\<lambda>(r, s'). K (fst s')) (on_client f s)"
  using mono2 [OF keeps_on_client] .

lemma bind_rule:
  "pred_option (\<lambda>s'. K (fst s')) m \<Longrightarrow> (\<And>s. K (fst s) \<Longrightarrow> pred_option Q (f s)) \<Longrightarrow> pred_option Q (m \<bind> f)"
  by (rule pred_bind)

lemma bind2_rule:
  "pred_option (\<lambda>(r, s'). K (fst s')) m \<Longrightarrow> (\<And>r s. K (fst s) \<Longrightarrow> pred_option Q (f r s)) \<Longrightarrow>
     pred_option Q (m \<bind> (\<lambda>(r, s). f r s))"
  by (rule pred_bind2)

lemma same: "keeps (m, []) (m', []) \<Longrightarrow> keeps (m', []) (m, []) \<Longrightarrow> K m' = K m"
  using kept [of "(m, [])" "(m', [])"] kept [of "(m', [])" "(m, [])"] by auto

lemma update_simps [simp]:
  "K (m\<lparr>mg_reset := r\<rparr>) = K m" "K (m\<lparr>mg_flash := fl\<rparr>) = K m" "K (m\<lparr>mg_mcdr := mc\<rparr>) = K m"
  "K (m\<lparr>mg_mcd := mcd\<rparr>) = K m" "K (m\<lparr>mg_fd_tty := fd\<rparr>) = K m" "K (m\<lparr>mg_cd_retrieved := c\<rparr>) = K m"
  "K (m\<lparr>mg_bb_seen := c\<rparr>) = K m" "K (m\<lparr>mg_request := rq\<rparr>) = K m" "K (m\<lparr>mg_wakeup_cfg := w\<rparr>) = K m"
  "K (m\<lparr>mg_events := (mg_events m)\<lparr>evn_bus := b\<rparr>\<rparr>) = K m"
  by (rule same; simp add: keeps_def)+

lemma let_rule: "K (fst t) \<Longrightarrow> (\<And>s. K (fst s) \<Longrightarrow> pred_option Q (f s)) \<Longrightarrow> pred_option Q (let s = t in f s)"
  by simp

lemma if_rule: "(c \<Longrightarrow> K (fst s)) \<Longrightarrow> (\<not> c \<Longrightarrow> K (fst t)) \<Longrightarrow> K (fst (if c then s else t))"
  by simp

end

definition unwaiting :: "mmgr_data_t \<Rightarrow> bool" where
  "unwaiting m \<longleftrightarrow> base m \<and> ack_timer (mg_state m) = None"

interpretation kb: kept base
  by unfold_locales (rule keeps_base)

interpretation ki: kept daemon_ok
  by unfold_locales (rule keeps_inv)

interpretation ku: kept unwaiting
  by unfold_locales (auto simp: unwaiting_def dest: keeps_base keeps_state)

lemma unwaiting_ok: "unwaiting m \<Longrightarrow> daemon_ok m"
  by (simp add: unwaiting_def daemon_ok_def ack_timed_def)

lemma daemon_ok_base: "daemon_ok m \<Longrightarrow> base m"
  by (simp add: daemon_ok_def)

lemma unwaiting_base: "unwaiting m \<Longrightarrow> base m"
  by (simp add: unwaiting_def)

lemma set_state_rules:
  "base (fst s) \<Longrightarrow> x \<noteq> E_MMGR_NUM \<Longrightarrow> base (fst (set_mmgr_state x s))"
  "base (fst s) \<Longrightarrow> x \<noteq> E_MMGR_NUM \<Longrightarrow> ack_timer x = None \<Longrightarrow> unwaiting (fst (set_mmgr_state x s))"
  "base (fst s) \<Longrightarrow> x \<noteq> E_MMGR_NUM \<Longrightarrow> ack_timer x = None \<Longrightarrow> daemon_ok (fst (set_mmgr_state x s))"
  by (simp_all add: set_mmgr_state_def base_def unwaiting_def daemon_ok_def ack_timed_def)

lemma timer_rules:
  "base (fst s) \<Longrightarrow> base (fst (timer_on E k s))" "base (fst s) \<Longrightarrow> base (fst (timer_off k s))"
  "base (fst s) \<Longrightarrow> base (fst (timers_off s))"
  "unwaiting (fst s) \<Longrightarrow> unwaiting (fst (timer_on E k s))" "unwaiting (fst s) \<Longrightarrow> unwaiting (fst (timer_off k s))"
  "unwaiting (fst s) \<Longrightarrow> unwaiting (fst (timers_off s))"
  by (simp_all add: timer_on_def timer_off_def timers_off_def case_prod_unfold Let_def base_def unwaiting_def)

lemma timer_on_ok: "daemon_ok (fst s) \<Longrightarrow> daemon_ok (fst (timer_on E k s))"
  using ts.start_armed [where E = E and h = "snd s" and t = "mg_timer (fst s)" and k = k]
    ts.start_configured [where E = E and h = "snd s" and t = "mg_timer (fst s)" and k = k]
  by (auto simp: timer_on_def case_prod_unfold Let_def base_def daemon_ok_def ack_timed_def fun_eq_iff)

lemma timer_off_ok:
  "daemon_ok (fst s) \<Longrightarrow> k \<notin> {E_TIMER_COLD_RESET_ACK, E_TIMER_MODEM_SHUTDOWN_ACK} \<Longrightarrow>
     daemon_ok (fst (timer_off k s))"
  using ts.stop_armed [of "mg_timer (fst s)" k] ts.stop_configured [of "mg_timer (fst s)" k]
  by (cases "mg_state (fst s)")
    (auto simp: timer_off_def case_prod_unfold Let_def base_def daemon_ok_def ack_timed_def fun_eq_iff)

text \<open>Entering a waiting state just after its timer was started, or just before.\<close>

lemma wait_rules:
  "base (fst s) \<Longrightarrow> ack_timer x = Some k \<Longrightarrow> x \<noteq> E_MMGR_NUM \<Longrightarrow>
     daemon_ok (fst (timer_on E k (set_mmgr_state x s)))"
  "base (fst s) \<Longrightarrow> ack_timer x = Some k \<Longrightarrow> x \<noteq> E_MMGR_NUM \<Longrightarrow>
     daemon_ok (fst (set_mmgr_state x (timer_on E k s)))"
  using ts.start_armed [where E = E and h = "snd s" and t = "mg_timer (fst s)" and k = k]
    ts.start_configured [where E = E and h = "snd s" and t = "mg_timer (fst s)" and k = k]
  by (auto simp: timer_on_def set_mmgr_state_def case_prod_unfold Let_def base_def daemon_ok_def ack_timed_def
      fun_eq_iff)

lemmas split_rules = pred_Some pred_if pred_let_prod pred_case_option pred_case_prod
lemmas base_rules = kb.fun_rules kb.if_rule set_state_rules(1) timer_rules(1-3)
lemmas unwaiting_rules = ku.fun_rules ku.if_rule set_state_rules(2) timer_rules(4-6)
lemmas ok_rules = ki.fun_rules ki.if_rule set_state_rules(3) timer_on_ok timer_off_ok wait_rules

section \<open>Modem events\<close>

lemma keeps_notify_core_dump: "pred_option (\<lambda>(r, s'). keeps s s') (notify_core_dump E b st s)"
proof -
  have tell: "pred_option (\<lambda>(r, s'). keeps s s') (inform_all E ev d (fst s, h))" for ev d h
    by (rule pred_mono [OF keeps_tell(1)]) (auto simp: keeps_def)
  show ?thesis
    unfolding notify_core_dump_def
    by (auto intro!: split_rules pred_bind_any keeps_tell tell keeps_update simp: Let_def)
qed

lemma core_dump_finalize_rule [inv_rules]:
  "base (fst s) \<Longrightarrow> pred_option (\<lambda>s'. unwaiting (fst s')) (core_dump_finalize E st s)"
  unfolding core_dump_finalize_def
  by (intro split_rules kb.let_rule pred_bind2 [OF kb.mono2 [OF keeps_notify_core_dump]] base_rules unwaiting_rules) auto

lemma keeps_report_down: "pred_option (keeps s) (report_down E s)"
  unfolding report_down_def
  by (intro split_rules pred_bind [OF keeps_tell(2)] keeps_refl) (blast intro: keeps_trans keeps_close_fds)

lemma keeps_inform_upgrade_err: "pred_option (keeps s) (inform_upgrade_err E err s)"
  unfolding inform_upgrade_err_def Let_def
  by (rule pred_mono [OF keeps_tell(2)]) (auto intro: keeps_trans [OF keeps_sets(5)] split: if_splits)

lemma tell_all_frame:
  "pred_option (\<lambda>s'. \<exists>cl. fst s' = fst s\<lparr>mg_clients := cl\<rparr>) (tell_all E ev d s)"
  by (auto intro!: pred_optionI simp: tell_all_def inform_all_def bind_eq_Some_conv)

lemmas base_calls = split_rules kb.call_rules kb.bind_rule kb.bind2_rule kb.let_rule pred_let_any pred_bind_any
lemmas ok_calls = split_rules ki.call_rules ki.bind_rule ki.bind2_rule ki.let_rule pred_let_any pred_bind_any
lemmas unwaiting_calls = split_rules ku.call_rules ku.bind_rule ku.bind2_rule ku.let_rule pred_let_any pred_bind_any

lemma streamline_rule [inv_rules]:
  "unwaiting (fst s) \<Longrightarrow> pred_option (\<lambda>(r, s'). unwaiting (fst s')) (streamline E s)"
  unfolding streamline_def
  by (intro unwaiting_calls unwaiting_rules) (auto intro: unwaiting_base ku.fun_rules)

lemma core_dump_prepare_rule [inv_rules]: "unwaiting (fst s) \<Longrightarrow> unwaiting (fst (core_dump_prepare E s))"
  unfolding core_dump_prepare_def Let_def case_prod_unfold
  by (auto intro!: unwaiting_rules unwaiting_base)

lemma broadcast_after: "pred_option (keeps s) m \<Longrightarrow> pred_option (keeps s) (m \<bind> (\<lambda>s'. Some (broadcast_msg i s')))"
  by (cases m) (auto intro: keeps_trans keeps_sets(5))

lemma keeps_inform_flash_err: "pred_option (keeps s) (inform_flash_err E err a t s)"
proof -
  have tell: "pred_option (keeps s) (tell_all E ev d s1)" if "keeps s s1" for ev d s1
    using keeps_trans [OF that] by (intro pred_mono [OF keeps_tell(2)])
  have tell': "pred_option (keeps s) (tell_all E ev d (fst s1, h))" if "keeps s s1" for ev d s1 h
    using that by (intro tell) (simp add: keeps_def)
  show ?thesis
    unfolding inform_flash_err_def
    by (rule pred_bind [OF keeps_tell(2)], cases err)
      (auto simp: Let_def intro!: tell tell' broadcast_after split_rules)
qed

lemma keeps_notify_ap_reset: "pred_option (\<lambda>(r, s'). keeps s s') (notify_ap_reset E s)"
  unfolding notify_ap_reset_def
  by (auto intro!: split_rules pred_bind_any keeps_update pred_mono [OF keeps_tell(1)] simp: Let_def keeps_def)

lemma pre_oos_rule: "base (fst s) \<Longrightarrow> pred_option (\<lambda>s'. unwaiting (fst s')) (pre_modem_out_of_service E s)"
  unfolding pre_modem_out_of_service_def
  by (intro base_calls unwaiting_rules base_rules) auto

lemma pre_reboot_rule: "base (fst s) \<Longrightarrow> pred_option (\<lambda>s'. unwaiting (fst s')) (pre_platform_reboot E s)"
  unfolding pre_platform_reboot_def
  by (intro base_calls unwaiting_rules base_rules pre_oos_rule) (auto intro: base_rules)

lemma clients_counted_reset_ack: "clients_counted cl \<Longrightarrow> clients_counted (snd (reset_ack cl filt))"
proof -
  have "cl_fd (if is_open c then c\<lparr>cl_cnx := x\<rparr> else c) = cl_fd c" for c x by simp
  then show "clients_counted cl \<Longrightarrow> clients_counted (snd (reset_ack cl filt))"
    by (simp add: clients_counted_def reset_ack_def filter_map comp_def)
qed

lemma unwaiting_clients:
  "unwaiting m \<Longrightarrow> clients_counted cl \<Longrightarrow> unwaiting (m\<lparr>mg_clients := cl\<rparr>)"
  "base m \<Longrightarrow> clients_counted (mg_clients m)"
  by (simp_all add: unwaiting_def base_def)

lemma cold_reset_asks:
  assumes "base (fst s)"
  shows "pred_option (\<lambda>s'. daemon_ok (fst s') \<and> recov_get_state (mg_reset (fst s')) = E_OPERATION_WAIT)
    (tell_all E E_MMGR_EVENT_MODEM_DOWN D_null (recov_set E_OPERATION_WAIT s) \<bind>
       (\<lambda>s2. tell_all E E_MMGR_NOTIFY_MODEM_COLD_RESET D_null s2 \<bind>
         (\<lambda>s3. Some (timer_on E E_TIMER_COLD_RESET_ACK (set_mmgr_state E_MMGR_WAIT_COLD_ACK s3)))))"
proof -
  define P where "P = (\<lambda>s :: st. base (fst s) \<and> recov_get_state (mg_reset (fst s)) = E_OPERATION_WAIT)"
  have "pred_option P (tell_all E ev d s)" if "P s" for s ev d
  proof -
    have "pred_option (\<lambda>s'. base (fst s')) (tell_all E ev d s)"
      using that by (intro kb.call_rules) (simp add: P_def)
    with tell_all_frame [of s E ev d] that show ?thesis
      by (cases "tell_all E ev d s") (auto simp: P_def)
  qed
  moreover have "P (recov_set E_OPERATION_WAIT s)"
    using assms kb.fun_rules by (simp add: P_def recov_set_def recov_set_state_def recov_get_state_def)
  moreover have "P s \<Longrightarrow> recov_get_state (mg_reset (fst (timer_on E E_TIMER_COLD_RESET_ACK
      (set_mmgr_state E_MMGR_WAIT_COLD_ACK s)))) = E_OPERATION_WAIT" for s
    by (simp add: P_def timer_on_def set_mmgr_state_def case_prod_unfold Let_def)
  ultimately show ?thesis
    by (intro pred_bind [where P = P] pred_Some conjI wait_rules) (auto simp: P_def)
qed

lemma pre_cold_rule:
  assumes "unwaiting (fst s)"
  shows "pred_option (\<lambda>s'. daemon_ok (fst s') \<and>
      (recov_get_state (mg_reset (fst s')) \<noteq> E_OPERATION_WAIT \<longrightarrow> unwaiting (fst s'))) (pre_mdm_cold_reset E s)"
proof -
  have reset: "unwaiting (fst s) \<Longrightarrow>
      unwaiting (fst (fst s\<lparr>mg_clients := snd (clients_reset_ack_cold (mg_clients (fst s)))\<rparr>, h))" for s and h :: history
    by (auto intro!: unwaiting_clients clients_counted_reset_ack unwaiting_clients(2) unwaiting_base
        simp: clients_reset_ack_cold_def)
  have b: "base (fst s)" using assms by (rule unwaiting_base)
  show ?thesis
    unfolding pre_mdm_cold_reset_def Let_def
  proof (intro split_rules, goal_cases)
    case 1
    then show ?case using pred_mono [OF cold_reset_asks [OF b]] by simp
  next
    case 4
    then show ?case using assms by (simp add: unwaiting_ok)
  qed (use assms in \<open>auto intro!: unwaiting_ok reset timer_rules set_state_rules ku.if_rule ku.fun_rules base_rules b\<close>)
qed

lemma call_pre_mdm_rule:
  assumes "unwaiting (fst s)"
  shows "pred_option (\<lambda>s'. daemon_ok (fst s') \<and>
      (recov_get_state (mg_reset (fst s')) \<noteq> E_OPERATION_WAIT \<longrightarrow> unwaiting (fst s'))) (call_pre_mdm E f s)"
  using assms
  by (cases f)
    (auto simp: call_pre_mdm_def pre_cold_rule
      intro: pred_mono [OF pre_oos_rule] pred_mono [OF pre_reboot_rule] unwaiting_base unwaiting_ok)

lemma keeps_call_mdm: "keeps s (call_mdm E f s)"
  by (cases f) (simp_all add: call_mdm_def keeps_mcd keeps_update)

lemma reset_modem_rule:
  assumes "unwaiting (fst s)"
  shows "pred_option (\<lambda>(r, s'). daemon_ok (fst s')) (reset_modem E s)"
  unfolding reset_modem_def
  by (intro pred_bind [OF call_pre_mdm_rule] unwaiting_calls unwaiting_rules ku.kept [OF keeps_call_mdm])
    (use assms in \<open>auto intro!: unwaiting_ok ku.if_rule timer_rules ku.fun_rules\<close>)

lemma keeps_start_shtdwn: "pred_option (\<lambda>(r, s'). keeps s s') (mdm_start_shtdwn E s)"
proof -
  have "keeps s (fst (mcd_listen E evs ow s), h)" for evs ow h
    using keeps_mcd(1) [of s E evs ow] by (simp add: keeps_def)
  then show ?thesis
    unfolding mdm_start_shtdwn_def Let_def case_prod_unfold
    by (intro split_rules pred_bind_any) auto
qed

lemma keeps_core_dump_logs: "pred_option (\<lambda>(r, s'). keeps s s') (mdm_start_core_dump_logs E s)"
  unfolding mdm_start_core_dump_logs_def Let_def case_prod_unfold
  by (intro split_rules pred_bind_any) (auto simp: keeps_update)

lemma keeps_finalize_shtdwn: "pred_option (\<lambda>(r, s'). keeps s s') (mdm_finalize_shtdwn E s)"
  unfolding mdm_finalize_shtdwn_def
  by (rule pred_bind [OF keeps_tell(2)])
    (auto simp: on_mcd_def case_prod_unfold Let_def mdm_close_fds_def recov_set_def secure_stop_def keeps_def)

lemma keeps_cleanup_ipc: "pred_option (keeps s) (cleanup_ipc_event E s)"
  unfolding cleanup_ipc_event_def
  by (intro pred_bind_any pred_Some) (auto simp: mdm_close_fds_def secure_stop_def case_prod_unfold Let_def keeps_def)

lemma keeps_launch_secur: "keeps s (snd (launch_secur E s))"
  unfolding launch_secur_def secure_register_def secure_start_def Let_def case_prod_unfold
  by (simp add: keeps_def)

lemma launch_secur_rule: "launch_secur E s = (r, m, h) \<Longrightarrow> unwaiting (fst s) \<Longrightarrow> unwaiting m"
  using ku.kept [OF keeps_launch_secur [of s E]] by simp

lemma keeps_update_tty: "keeps s (snd (update_modem_tty E s))"
  unfolding update_modem_tty_def Let_def case_prod_unfold by (simp add: keeps_def)

lemma configure_modem_rule:
  "base (fst s) \<Longrightarrow> pred_option (\<lambda>(r, s'). unwaiting (fst s')) (configure_modem E s)"
  unfolding configure_modem_def
  by (intro base_calls)
    (auto intro!: set_state_rules ku.kept [OF keeps_update_tty] kb.call_rules)

lemma ipc_event_rule: "base (fst s) \<Longrightarrow> pred_option (\<lambda>(r, s'). unwaiting (fst s')) (ipc_event E s)"
  unfolding ipc_event_def
  by (intro base_calls kb.mono [OF keeps_cleanup_ipc] kb.mono2 [OF keeps_finalize_shtdwn])
    (auto intro!: set_state_rules timer_rules)

lemma do_configure_rule:
  assumes "base (fst s)"
  shows "pred_option (\<lambda>(r, s'). unwaiting (fst s')) (do_configure E s)"
  unfolding do_configure_def
  by (intro pred_bind2 [OF configure_modem_rule] pred_bind2 [OF streamline_rule] ku.mono2 [OF keeps_core_dump_logs]
      unwaiting_calls)
    (use assms in \<open>auto intro!: unwaiting_rules dest: launch_secur_rule\<close>)

lemma start_flashing_rule: "daemon_ok (fst s) \<Longrightarrow> daemon_ok (fst (snd (start_flashing E s)))"
  unfolding start_flashing_def Let_def case_prod_unfold
  by (auto intro!: ok_rules daemon_ok_base)

lemma control_event_rule:
  assumes "daemon_ok (fst s)"
  shows "pred_option (\<lambda>(r, s'). daemon_ok (fst s')) (modem_control_event E s)"
proof -
  have conf: "base (fst s) \<Longrightarrow> pred_option (\<lambda>(r, s'). daemon_ok (fst s')) (do_configure E s)" for s
    by (rule pred_mono [OF do_configure_rule]) (auto intro: unwaiting_ok)
  show ?thesis
    unfolding modem_control_event_def
  proof (rule pred_let_prod, rule ki.let_rule, goal_cases)
    case (2 mcd_state h s)
    note ok = 2(2) and b = daemon_ok_base [OF 2(2)]
    show ?case
    proof (intro pred_if, goal_cases)
      case 1
      show ?case
        by (intro ok_calls ok_rules ok) (use start_flashing_rule in \<open>auto simp: case_prod_unfold\<close>)
    next
      case 2
      show ?case
        by (intro ok_calls ok_rules conf daemon_ok_base ok) (auto simp: ok)
    next
      case 3
      show ?case
        by (intro pred_if pred_Some ku.mono [OF keeps_report_down] unwaiting_calls unwaiting_rules)
          (auto simp: b intro!: unwaiting_ok core_dump_prepare_rule)
    next
      case 4
      show ?case
        by (intro ki.mono2 [OF keeps_finalize_shtdwn] ki.mono2 [OF keeps_notify_core_dump] ok_calls ok_rules)
          (auto simp: ok intro: set_state_rules daemon_ok_base)
    next
      case 5
      show ?case using ok by simp
    qed
  qed (simp add: assms)
qed

lemma let_handler:
  fixes t :: "st \<Rightarrow> (e_mmgr_errors \<times> st) option"
  assumes "\<And>s. daemon_ok (fst s) \<Longrightarrow> pred_option (\<lambda>(r, s'). daemon_ok (fst s')) (t s)"
    and "\<And>f. (\<And>s. daemon_ok (fst s) \<Longrightarrow> pred_option (\<lambda>(r, s'). daemon_ok (fst s')) (f s)) \<Longrightarrow> pred_option Q (g f)"
  shows "pred_option Q (let f = t in g f)"
  using assms by simp

lemma let_state:
  fixes t :: e_mmgr_state
  shows "pred_option Q (f t) \<Longrightarrow> pred_option Q (let x = t in f x)"
  by simp

lemma unwaitingI: "daemon_ok (fst s) \<Longrightarrow> ack_timer (mg_state (fst s)) = None \<Longrightarrow> unwaiting (fst s)"
  by (simp add: unwaiting_def daemon_ok_base)

lemma bus_events_rule:
  assumes "daemon_ok (fst s)"
  shows "pred_option (\<lambda>(r, s'). daemon_ok (fst s')) (bus_events E s)"
proof -
  have conf: "daemon_ok (fst s) \<Longrightarrow> pred_option (\<lambda>(r, s'). daemon_ok (fst s'))
     (if c then do_configure E s else Some (E_ERR_SUCCESS, s))" for s c
    by (auto intro: pred_mono [OF do_configure_rule] unwaiting_ok daemon_ok_base)
  show ?thesis
    unfolding bus_events_def
  proof (intro pred_let_prod pred_case_prod pred_bind_any ki.let_rule let_state let_handler conf, goal_cases)
    case 1
    show ?case using assms by simp
  next
    case (2 a h0 u p b0 c h1 hret b1 s1)
    then have ok: "daemon_ok (fst s1)" by blast
    show ?case
    proof (rule pred_let_any, intro let_state let_handler conf pred_if, goal_cases)
      case (1 bus s)
      then show ?case by simp
    next
      case (2 bus conf)
      then show ?case using ok by simp
    next
      case (3 bus conf)
      show ?case by (intro ki.let_rule 3 ok_rules) (auto simp: ok)
    next
      case (4 bus conf)
      show ?case by (intro ki.let_rule 4 ok_rules) (auto simp: ok)
    next
      case (5 bus conf)
      show ?case
        by (intro ok_calls ok_rules ok) (use start_flashing_rule in \<open>auto simp: case_prod_unfold\<close>)
    next
      case (6 bus conf)
      then have "unwaiting (fst s1)" using ok by (intro unwaitingI) auto
      then show ?case
        by (intro ku.mono [OF keeps_report_down] unwaiting_calls unwaiting_rules)
          (auto intro!: unwaiting_ok core_dump_prepare_rule ku.if_rule)
    next
      case (7 bus conf)
      show ?case
        by (intro ku.mono [OF keeps_report_down] unwaiting_calls unwaiting_rules)
          (auto intro!: unwaiting_ok core_dump_prepare_rule ku.fun_rules simp: daemon_ok_base [OF ok])
    next
      case (8 bus conf)
      show ?case
        by (intro ok_calls ok_rules) (auto intro!: set_state_rules daemon_ok_base simp: ok)
    next
      case (9 bus conf)
      then show ?case using ok by simp
    qed
  qed
qed

section \<open>Clients' requests\<close>

lemma client_ops_fd [simp]:
  "cl_fd (snd (client_set_filter c f)) = cl_fd c" "cl_fd (snd (client_set_request c r)) = cl_fd c"
  "cl_fd (snd (client_unset_request c r)) = cl_fd c"
  by (simp_all add: client_set_filter_def client_set_request_def client_unset_request_def)

lemma client_set_name_fd: "client_set_name c name n = Some (r, c') \<Longrightarrow> cl_fd c' = cl_fd c"
  by (auto simp: client_set_name_def Let_def split: if_splits option.splits)

lemma set_name_rule: "daemon_ok (fst s) \<Longrightarrow> pred_option (\<lambda>(r, s'). daemon_ok (fst s')) (request_set_name E s)"
  unfolding request_set_name_def
  by (intro ki.on_client_rule ok_calls) (auto dest: client_set_name_fd)

lemma set_events_rule: "daemon_ok (fst s) \<Longrightarrow> pred_option (\<lambda>(r, s'). daemon_ok (fst s')) (request_set_events E s)"
  unfolding request_set_events_def
  by (intro ki.on_client_rule ok_calls) auto

lemma wakeup_rule:
  assumes "unwaiting (fst s)"
  shows "pred_option (\<lambda>(r, s'). daemon_ok (fst s')) (resource_acquire_wakeup_modem E s)"
  unfolding resource_acquire_wakeup_modem_def
  by (intro pred_bind2 [OF reset_modem_rule] ku.on_client_rule unwaiting_calls unwaiting_rules)
    (use assms in \<open>auto intro!: unwaiting_ok unwaiting_rules ku.if_rule unwaiting_base simp: on_mcd_def split: prod.splits\<close>)

lemma acquire_rules:
  "daemon_ok (fst s) \<Longrightarrow> pred_option (\<lambda>(r, s'). daemon_ok (fst s')) (resource_acquire E s)"
  "daemon_ok (fst s) \<Longrightarrow> pred_option (\<lambda>(r, s'). daemon_ok (fst s')) (request_resource_release_mdm_off E s)"
  "daemon_ok (fst s) \<Longrightarrow> pred_option (\<lambda>(r, s'). daemon_ok (fst s')) (request_resource_release E s)"
  unfolding resource_acquire_def request_resource_release_mdm_off_def request_resource_release_def
  by (intro ki.on_client_rule ok_calls; auto intro!: wait_rules timer_rules intro: daemon_ok_base)+

lemma reset_request_rules:
  "daemon_ok (fst s) \<Longrightarrow> pred_option (\<lambda>(r, s'). daemon_ok (fst s')) (request_modem_recovery E s)"
  "daemon_ok (fst s) \<Longrightarrow> pred_option (\<lambda>(r, s'). daemon_ok (fst s')) (request_modem_restart E s)"
  "daemon_ok (fst s) \<Longrightarrow> pred_option (\<lambda>(r, s'). daemon_ok (fst s')) (request_bkup_prod E s)"
  unfolding request_modem_recovery_def request_modem_restart_def request_bkup_prod_def
  by (intro ki.mono2 [OF keeps_notify_ap_reset] ok_calls ok_rules;
      auto intro!: set_state_rules daemon_ok_base ki.fun_rules)+

lemma ack_rules:
  "daemon_ok (fst s) \<Longrightarrow> pred_option (\<lambda>(r, s'). daemon_ok (fst s')) (request_ack_cold_reset E s)"
  "daemon_ok (fst s) \<Longrightarrow> pred_option (\<lambda>(r, s'). daemon_ok (fst s')) (request_ack_modem_shutdown E s)"
  "daemon_ok (fst s) \<Longrightarrow> pred_option (\<lambda>(r, s'). daemon_ok (fst s')) (request_force_modem_shutdown E s)"
  unfolding request_ack_cold_reset_def request_ack_modem_shutdown_def request_force_modem_shutdown_def
  by (intro ki.on_client_rule ok_calls;
      auto intro!: set_state_rules(3) wait_rules timer_rules kb.fun_rules intro: daemon_ok_base ki.fun_rules)+

lemma fake_rules:
  "daemon_ok (fst s) \<Longrightarrow> pred_option (\<lambda>(r, s'). daemon_ok (fst s')) (fake E ev s)"
  "daemon_ok (fst s) \<Longrightarrow> pred_option (\<lambda>(r, s'). daemon_ok (fst s')) (request_fake_cdd_complete E s)"
  "daemon_ok (fst s) \<Longrightarrow> pred_option (\<lambda>(r, s'). daemon_ok (fst s')) (request_fake_ap_reset E s)"
  "daemon_ok (fst s) \<Longrightarrow> pred_option (\<lambda>(r, s'). daemon_ok (fst s')) (request_fake_tft_event E s)"
  unfolding fake_def request_fake_cdd_complete_def request_fake_ap_reset_def request_fake_tft_event_def
  by (intro ki.mono2 [OF keeps_notify_ap_reset] ok_calls; auto)+

lemma call_client_rule:
  assumes "daemon_ok (fst s)" "f = H_resource_acquire_wakeup_modem \<Longrightarrow> ack_timer (mg_state (fst s)) = None"
  shows "pred_option (\<lambda>(r, s'). daemon_ok (fst s')) (call_client E f s)"
  using assms
  by (cases f)
    (auto simp: call_client_def client_nack_def client_ack_def request_modem_fuse_info_def
      request_modem_get_hw_id_def request_fake_up_def request_fake_down_def request_fake_shtdwn_def
      request_fake_oos_def request_fake_cdd_def request_fake_ptfrmreboot_def request_fake_self_reset_def
      intro: ki.call_rules set_name_rule set_events_rule wakeup_rule acquire_rules reset_request_rules ack_rules
      fake_rules unwaitingI)

lemma set_hdler_apply [simp]:
  "set_hdler st r f t st' r' = (if st' = st \<and> r' = r then Some f else t st' r')"
  "set_always r f t st' r' = (if st' \<noteq> E_MMGR_NUM \<and> r' = r then Some f else t st' r')"
  by (auto simp: set_hdler_def set_always_def)

text \<open>The modem is woken up from the state off only.\<close>

lemma wakeup_only_off:
  "hdler_table_of b st req = Some H_resource_acquire_wakeup_modem \<Longrightarrow> st = E_MMGR_MDM_OFF"
  by (simp add: hdler_table_of_def fake_table_def default_table_def Let_def split: if_splits)

lemma served_rule:
  assumes "daemon_ok (fst s)" "mg_hdler_client (fst s) (mg_state (fst s)) req = Some f"
  shows "pred_option (\<lambda>(r, s'). daemon_ok (fst s')) (call_client E f s)"
proof (rule call_client_rule [OF assms(1)])
  assume "f = H_resource_acquire_wakeup_modem"
  moreover obtain b where "mg_hdler_client (fst s) = hdler_table_of b"
    using assms(1) by (auto simp: daemon_ok_def base_def)
  ultimately have "mg_state (fst s) = E_MMGR_MDM_OFF"
    using assms(2) wakeup_only_off by metis
  then show "ack_timer (mg_state (fst s)) = None" by simp
qed

lemma client_request_rule:
  assumes "daemon_ok (fst s)"
  shows "pred_option (\<lambda>(r, s'). daemon_ok (fst s')) (client_request E s)"
proof -
  have body: "pred_option (\<lambda>(p, r, s'). daemon_ok (fst s'))
     (if sz > 0 then let (data, h1) = calloc E n h in
        (case data of None \<Rightarrow> Some (False, E_ERR_FAILED, (fst s, h1))
         | Some _ \<Rightarrow> let ((ret, buf, k), h2) = cnx_read E fd n h1 in
             Some (ret = E_ERR_SUCCESS \<and> k = m, ret, set_request_data (Some buf) (fst s, h2)))
      else Some (True, E_ERR_FAILED, s))" if "daemon_ok (fst s)" for s sz n h fd m
    using that by (auto split: option.splits prod.splits intro!: ki.fun_rules)
  show ?thesis
    unfolding client_request_def
    by (intro ki.let_rule ki.fun_rules assms pred_let_any, rule pred_bind_any, rule pred_bind [OF body], assumption)
      (clarsimp, intro conjI impI ok_calls served_rule, auto)
qed

lemma clients_counted_add:
  assumes "client_add E cl fd h = ((r, cl'), h')" "clients_counted cl" "fd \<noteq> CLOSED_FD"
  shows "clients_counted cl'"
proof (cases "find_slot CLOSED_FD (cl_list cl)")
  case None
  with assms show ?thesis by (simp add: client_add_def)
next
  case (Some i)
  let ?c = "fst (init_client E (cl_list cl ! i) fd h)"
  have "cl' = cl\<lparr>connected := connected cl + 1, cl_list := (cl_list cl)[i := ?c]\<rparr>"
    using assms(1) Some by (auto simp: client_add_def split: prod.splits)
  moreover have "is_open ?c"
    using assms(3) by (simp add: init_client_def case_prod_unfold Let_def)
  ultimately show ?thesis
    using assms(2) find_slot_SomeD [OF Some] open_update(1) [of i "cl_list cl" ?c]
    by (simp add: clients_counted_def)
qed

lemma clients_counted_remove:
  assumes "client_remove E cl fd h = ((r, cl'), h')" "clients_counted cl"
  shows "clients_counted cl'"
proof (cases "fd = CLOSED_FD \<or> find_slot fd (cl_list cl) = None")
  case True
  with assms show ?thesis
    by (auto simp: client_remove_def remove_from_list_def split: prod.splits if_splits)
next
  case False
  then obtain i where fd: "fd \<noteq> CLOSED_FD" and i: "find_slot fd (cl_list cl) = Some i" by auto
  let ?c = "(cl_list cl ! i)\<lparr>cl_fd := CLOSED_FD\<rparr>"
  have "cl' = cl\<lparr>connected := connected cl - 1, cl_list := (cl_list cl)[i := ?c]\<rparr>"
    using assms(1) fd i by (auto simp: client_remove_def remove_from_list_def split: prod.splits)
  then show ?thesis
    using assms(2) find_slot_SomeD [OF i] close_update(1) [of i "cl_list cl" ?c] fd
    by (auto simp: clients_counted_def)
qed

lemma daemon_ok_clients:
  "daemon_ok m \<Longrightarrow> clients_counted cl \<Longrightarrow> daemon_ok (m\<lparr>mg_clients := cl\<rparr>)"
  "daemon_ok m \<Longrightarrow> clients_counted (mg_clients m)"
  by (simp_all add: daemon_ok_def base_def ack_timed_def)

lemma known_client_rule:
  assumes "daemon_ok (fst s)"
  shows "pred_option (\<lambda>(r, s'). daemon_ok (fst s')) (known_client E s)"
  unfolding known_client_def
  by (intro ok_calls client_request_rule served_rule)
    (use assms in \<open>auto intro!: daemon_ok_clients intro: daemon_ok_clients(2) dest!: clients_counted_remove\<close>)

lemma new_client_rule:
  assumes "daemon_ok (fst s)"
  shows "pred_option (\<lambda>(r, s'). daemon_ok (fst s')) (new_client E s)"
  unfolding new_client_def
  by (intro ok_calls)
    (use assms in \<open>auto intro!: daemon_ok_clients intro: daemon_ok_clients(2) dest!: clients_counted_add simp: CLOSED_FD_def\<close>)

section \<open>The event loop\<close>

lemma security_event_rule:
  assumes "daemon_ok (fst s)"
  shows "pred_option (\<lambda>(r, s'). daemon_ok (fst s')) (security_event E s)"
proof -
  have "daemon_ok (fst s\<lparr>mg_secure := sec\<rparr>)"
    if "secure_event E (mg_secure (fst s)) (snd s) = Some ((r, sec), h)" for r sec h
  proof -
    have "length (se_queue (mg_secure (fst s))) \<le> MSGS_MAX"
      using assms by (simp add: daemon_ok_def base_def)
    with that event_loop_bounded [of E "(mg_secure (fst s))\<lparr>se_err_msg := None\<rparr>" "snd s" "((r, sec), h)"]
    have "length (se_queue sec) \<le> MSGS_MAX"
      by (auto simp: secure_event_def split: if_splits)
    with assms show ?thesis by (simp add: daemon_ok_def base_def ack_timed_def)
  qed
  then show ?thesis
    unfolding security_event_def by (intro ok_calls) auto
qed

text \<open>
  What the cascade of \<^verbatim>\<open>timer_event\<close> guarantees whatever the environment answers: it keeps the
  client table counted and the configuration of the timers, and it disarms an acknowledgement timer only
  when it asks for a reset.
\<close>

definition cascade_ok :: "mmgr_timer_t \<Rightarrow> tstate \<Rightarrow> bool" where
  "cascade_ok t0 s \<longleftrightarrow>
     (case s of ((t, a, cl), h) \<Rightarrow>
        clients_counted cl \<and> tm_timeout t = tm_timeout t0 \<and>
        (\<forall>k \<in> {E_TIMER_COLD_RESET_ACK, E_TIMER_MODEM_SHUTDOWN_ACK}. armed t0 k \<longrightarrow> armed t k \<or> a AND E_TIMER_RESET \<noteq> 0))"

lemma cascade_stop:
  assumes "cascade_ok t0 s"
    and "k \<notin> {E_TIMER_COLD_RESET_ACK, E_TIMER_MODEM_SHUTDOWN_ACK} \<or> act AND E_TIMER_RESET \<noteq> 0"
  shows "pred_option (cascade_ok t0) (stop_and k act s)"
proof -
  obtain t a cl h where s: "s = ((t, a, cl), h)" by (metis prod.exhaust)
  have "(a OR act) AND E_TIMER_RESET \<noteq> 0 \<longleftrightarrow> a AND E_TIMER_RESET \<noteq> 0 \<or> act AND E_TIMER_RESET \<noteq> 0"
    by (simp add: E_TIMER_RESET_def flag_simps bit_or_iff)
  moreover have "tm_timeout (snd (timer_stop t k)) = tm_timeout t" by (simp add: timer_stop_def)
  ultimately show ?thesis
    using assms ts.stop_armed [of t k] by (auto simp: s cascade_ok_def stop_and_def)
qed

lemma cascade_tell: "cascade_ok t0 s \<Longrightarrow> pred_option (cascade_ok t0) (tell E ev d s)"
  by (rule pred_optionI)
    (auto simp: cascade_ok_def tell_def bind_eq_Some_conv split: prod.splits dest: clients_counted_inform)

lemma cascade_elapsed:
  "cascade_ok t0 s \<Longrightarrow> (\<And>s. cascade_ok t0 s \<Longrightarrow> pred_option (cascade_ok t0) (body s)) \<Longrightarrow>
     pred_option (cascade_ok t0) (on_elapsed k cur body s)"
  by (simp add: on_elapsed_def)

lemma cascade_next:
  "pred_option (cascade_ok t0) m \<Longrightarrow> (\<And>s. cascade_ok t0 s \<Longrightarrow> pred_option Q (f s)) \<Longrightarrow> pred_option Q (m \<bind> f)"
  by (rule pred_bind)

lemma timer_event_rule:
  assumes "clients_counted cl"
  shows "pred_option (\<lambda>((r, t', act, cl'), h'). cascade_ok t ((t', act, cl'), h')) (timer_event E t cl st hw h)"
proof -
  have start: "cascade_ok t ((t, E_TIMER_NO_ACTION, cl), h)" for h
    using assms by (simp add: cascade_ok_def)
  show ?thesis
    unfolding timer_event_def
    by (intro pred_let_prod cascade_next cascade_elapsed cascade_stop cascade_tell start pred_let_any pred_if pred_Some)
      (auto simp: timer_action_defs flag_simps bit_or_iff start [unfolded E_TIMER_NO_ACTION_def])
qed

text \<open>The context after the cascade, before the actions are carried out.\<close>

lemma cascade_context:
  assumes "daemon_ok m" "cascade_ok (mg_timer m) ((t, act, cl), h)"
  shows "base (m\<lparr>mg_timer := t, mg_clients := cl\<rparr>)"
    and "act AND E_TIMER_RESET = 0 \<Longrightarrow> daemon_ok (m\<lparr>mg_timer := t, mg_clients := cl\<rparr>)"
proof -
  show b: "base (m\<lparr>mg_timer := t, mg_clients := cl\<rparr>)"
    using assms by (simp add: daemon_ok_def base_def cascade_ok_def)
  assume "act AND E_TIMER_RESET = 0"
  then have "ack_timed (m\<lparr>mg_timer := t, mg_clients := cl\<rparr>)"
    using assms by (cases "mg_state m") (auto simp: daemon_ok_def ack_timed_def cascade_ok_def)
  with b show "daemon_ok (m\<lparr>mg_timer := t, mg_clients := cl\<rparr>)" by (simp add: daemon_ok_def)
qed

lemma timeout_event_rule:
  assumes "daemon_ok (fst s)"
  shows "pred_option (\<lambda>(r, s'). daemon_ok (fst s')) (timeout_event E s)"
proof -
  have ctx: "daemon_ok (fst (if act AND E_TIMER_RESET \<noteq> 0 then set_mmgr_state E_MMGR_MDM_RESET s2 else s2))"
    if "cascade_ok (mg_timer (fst s)) ((t, act, cl), h1)"
      and "s2 = (if act AND E_TIMER_STREAMLINE \<noteq> 0
         then set_mmgr_state E_MMGR_MDM_RESET (recov_force_op E_FORCE_NO_COUNT (fst s\<lparr>mg_timer := t, mg_clients := cl\<rparr>, h1))
         else (fst s\<lparr>mg_timer := t, mg_clients := cl\<rparr>, h1))" for t act cl h1 s2
    using cascade_context [OF assms that(1)] that(2)
    by (auto intro!: set_state_rules kb.fun_rules)
  have cancel: "pred_option Q (mdm_flash_cancel fl h \<bind> f)" for Q fl h and f :: "_ \<Rightarrow> st option"
    by (simp add: mdm_flash_cancel_def split: prod.splits)
  have stop: "pred_option (\<lambda>s'. daemon_ok (fst s')) (mcdr_cancel E mc h \<bind> (\<lambda>(mc, h6).
      core_dump_finalize E E_CD_TIMEOUT (fst s\<lparr>mg_mcdr := mc\<rparr>, h6) \<bind>
        (\<lambda>s6. Some (flush_pipe E (fd s6) s6))))" if "daemon_ok (fst s)" for s mc h fd
    by (rule pred_bind_any, rule pred_case_prod, rule pred_bind [OF core_dump_finalize_rule])
      (use that in \<open>auto intro: daemon_ok_base unwaiting_ok ki.fun_rules\<close>)
  have off: "pred_option (\<lambda>s'. daemon_ok (fst s'))
      (mdm_finalize_shtdwn E s \<bind> (\<lambda>(_, s8). Some (set_mmgr_state E_MMGR_MDM_OFF s8)))" if "daemon_ok (fst s)" for s
    using that
    by (intro pred_bind2 [OF kb.mono2 [OF keeps_finalize_shtdwn]] pred_Some set_state_rules)
      (auto intro: daemon_ok_base)
  have cl: "clients_counted (mg_clients (fst s))"
    using assms by (simp add: daemon_ok_def base_def)
  show ?thesis
    unfolding timeout_event_def
  proof (rule pred_let_any, rule pred_bind [OF timer_event_rule [OF cl]], goal_cases)
    case (1 hw x)
    obtain r t act cl h1 where x: "x = ((r, t, act, cl), h1)" by (metis prod.exhaust)
    with 1 have c: "cascade_ok (mg_timer (fst s)) ((t, act, cl), h1)" by simp
    show ?case
      unfolding x prod.case
      by (subst Let_def, subst Let_def, subst Let_def, rule ki.let_rule, rule ctx [OF c refl])
        (intro cancel stop off ki.let_rule ok_rules ki.bind_rule ki.call_rules pred_if pred_Some; simp)
  qed
qed

lemma flashing_event_rule:
  assumes "daemon_ok (fst s)"
  shows "pred_option (\<lambda>(r, s'). daemon_ok (fst s')) (flashing_event E s)"
  unfolding flashing_event_def
  by (intro ki.mono [OF keeps_inform_upgrade_err] ki.mono [OF keeps_inform_flash_err] ok_calls ok_rules)
    (use assms in \<open>auto intro!: set_state_rules ki.if_rule timer_on_ok intro: daemon_ok_base ki.fun_rules\<close>)

lemma mcdr_event_rule:
  assumes "daemon_ok (fst s)"
  shows "pred_option (\<lambda>(r, s'). daemon_ok (fst s')) (mcdr_event E s)"
proof -
  have fin: "daemon_ok (fst s) \<Longrightarrow> pred_option (\<lambda>s'. daemon_ok (fst s')) (core_dump_finalize E st s)" for st s
    by (rule pred_mono [OF core_dump_finalize_rule]) (auto intro: daemon_ok_base unwaiting_ok)
  show ?thesis
    unfolding mcdr_event_def
    by (intro ok_calls ok_rules fin) (use assms in auto)
qed

lemma pending_work_rule:
  assumes "daemon_ok (fst s)"
  shows "pred_option (\<lambda>s'. daemon_ok (fst s')) (pending_work E s)"
proof -
  have acks: "daemon_ok (fst s\<lparr>mg_clients := snd (clients_reset_ack_shtdwn (mg_clients (fst s)))\<rparr>)"
    using assms by (auto intro!: daemon_ok_clients clients_counted_reset_ack daemon_ok_clients(2)
        simp: clients_reset_ack_shtdwn_def)
  show ?thesis
    unfolding pending_work_def
    by (intro ok_calls ok_rules pred_bind2 [OF reset_modem_rule] pred_bind2 [OF kb.mono2 [OF keeps_start_shtdwn]] base_rules)
      (use assms acks in \<open>auto intro!: unwaitingI intro: daemon_ok_base ki.fun_rules\<close>)
qed

lemma dispatch_rule:
  assumes "daemon_ok (fst s)"
  shows "pred_option (\<lambda>(r, s'). daemon_ok (fst s')) (dispatch E s)"
proof -
  have ipc: "pred_option (\<lambda>(r, s'). daemon_ok (fst s')) (ipc_event E s)"
    by (rule pred_mono [OF ipc_event_rule]) (use assms in \<open>auto intro: daemon_ok_base unwaiting_ok\<close>)
  show ?thesis
    unfolding dispatch_def
    by (cases "evn_state (mg_events (fst s))")
      (simp_all add: ipc control_event_rule bus_events_rule new_client_rule known_client_rule
        security_event_rule timeout_event_rule flashing_event_rule mcdr_event_rule assms)
qed

lemma epoll_step_ok:
  assumes "daemon_ok m" "sys_epoll_wait E fd maxev timeout (evn_fds (mg_events m)) h = ((nfds, fds), h')"
  shows "daemon_ok (m\<lparr>mg_events := (mg_events m)\<lparr>evn_cur_ev := FIRST_EVENT, evn_nfds := nfds, evn_fds := fds\<rparr>\<rparr>)"
  using assms
  by (auto simp: sys_epoll_wait_def daemon_ok_def base_def ack_timed_def Let_def split: if_splits)

lemma epoll_loop_ok:
  assumes "epoll_loop E s = Some r"
  shows "daemon_ok (fst s) \<longrightarrow> daemon_ok (fst (snd r)) \<and> evn_cur_ev (mg_events (fst (snd r))) = FIRST_EVENT \<and>
    (fst r = E_ERR_SUCCESS \<or> fst r = E_ERR_FAILED)"
proof (rule epoll_loop.raw_induct [OF _ assms], goal_cases)
  case (1 f E s r)
  obtain timeout h1 where t: "timer_get_timeout E (mg_timer (fst s)) (snd s) = (timeout, h1)"
    by (metis prod.exhaust)
  obtain nfds fds h2 where p: "sys_epoll_wait E (mg_epollfd (fst s)) (clients_get_allowed (mg_clients (fst s)) + 1)
      timeout (evn_fds (mg_events (fst s))) h1 = ((nfds, fds), h2)"
    by (metis prod.exhaust)
  from 1(2) epoll_step_ok [OF _ p] 1(1) show ?case
    by (cases r) (fastforce simp: Let_def t p split: if_splits)
qed

lemma wait_for_event_rule:
  assumes "daemon_ok (fst s)"
  shows "pred_option (\<lambda>(r, s'). daemon_ok (fst s')) (wait_for_event E s)"
proof -
  have bump: "daemon_ok (m\<lparr>mg_events := (mg_events m)\<lparr>evn_cur_ev := evn_cur_ev (mg_events m) + 1, evn_state := st\<rparr>\<rparr>)"
    if "daemon_ok m" for m st
    using that by (simp add: daemon_ok_def base_def ack_timed_def)
  have "pred_option (\<lambda>(r, s'). daemon_ok (fst s')) (epoll_loop E s)"
    using epoll_loop_ok [of E s] assms by (intro pred_optionI) auto
  then show ?thesis
    unfolding wait_for_event_def
    by (intro pred_bind2 [where P = "\<lambda>_ s'. daemon_ok (fst s')"] pred_if pred_Some pred_let_any pred_bind_any)
      (use assms bump in \<open>auto simp: Let_def bind_eq_Some_conv intro!: pred_optionI split: if_splits\<close>)
qed

lemma turn_rule:
  assumes "daemon_ok (fst s)"
  shows "pred_option (\<lambda>(r, w, s'). daemon_ok (fst s')) (turn E wl s)"
proof -
  have disp: "pred_option (\<lambda>(r, w, s'). daemon_ok (fst s')) (dispatch E s \<bind> (\<lambda>(_, s5). Some (x, True, s5)))"
    if "daemon_ok (fst s)" for s x
    by (rule pred_bind2 [OF dispatch_rule [OF that]]) simp
  show ?thesis
    unfolding turn_def
    by (rule pred_bind [OF pending_work_rule [OF assms]],
        intro pred_let_any ki.let_rule ki.if_rule pred_bind2 [OF wait_for_event_rule] pred_if pred_Some disp) auto
qed

end
