(* ===== verification/Modem_Manager.thy ===== *)
theory Modem_Manager
  imports Daemon_Inv
begin

text \<open>
  The start of the daemon (\<^verbatim>\<open>core/modem_manager.c\<close>): the modules are created in order from
  the platform's configuration, then the first state is chosen and the event loop entered.

  The configuration comes from the TCS library, which is not part of the repository: it is the record
  \<open>mmgr_config\<close> of what the modules read from it; \<open>cf_debug\<close> tells a debug build from a production build.
\<close>

section \<open>Initialisation\<close>

record mmgr_config =
  cf_nb :: nat
  cf_recov :: mmgr_recovery_t
  cf_timings :: mmgr_timings_t
  cf_cli_max :: int
  cf_secured :: bool
  cf_secured_device :: string
  cf_mcdr_enable :: bool
  cf_mcdr_path :: string
  cf_mcdr_log :: bool
  cf_mcdr_version_size :: nat
  cf_mcdr_timeout :: int
  cf_mcdr_link :: link_t
  cf_mcdr_ctrl :: link_ctrl_t
  cf_mcdr_power :: power_t
  cf_links :: mmgr_mdm_link_t
  cf_reconfig_usb :: link_t
  cf_dlc :: mdm_dlc_t
  cf_mcd_path :: string
  cf_mcd_board :: int
  cf_mcd_board_aob :: int
  cf_mdm :: mdm_info_t
  cf_fw :: mmgr_fw_t
  cf_debug :: bool

text \<open>
  The structure after \<^verbatim>\<open>memset\<close>. A handle is NULL until its module is created; the zero record
  that stands there meanwhile is never looked at.
\<close>

definition link_zero :: link_ctx_t where
  "link_zero =
     (let c = \<lparr>cl_ctrl = \<lparr>lc_device = [], lc_on = [], lc_off = [], lc_reset = []\<rparr>, cl_type = E_LINK_HSI\<rparr>;
          p = \<lparr>pl_power = \<lparr>pw_device = [], pw_on = [], pw_off = []\<rparr>, pl_type = E_LINK_HSI\<rparr> in
      \<lparr>lk_flash_ebl = Link_other, lk_flash_fw = Link_other, lk_bb = Link_other, lk_cd_type = E_LINK_HSI,
       lk_ctrl = \<lparr>ctrl_mdm = c, ctrl_cd = c\<rparr>, lk_pm = \<lparr>pm_mdm = p, pm_cd = p\<rparr>, lk_ssic_hack = False\<rparr>)"

definition flash_zero :: mdm_flash_ctx_t where
  "flash_zero =
     \<lparr>fl_fw = \<lparr>fw_id = 0, fw_tlvs = [], fw_cfg = \<lparr>fc_input = [], fc_runtime = [], fc_injection = [], fc_factory = [],
          fc_cal = [], fc_dyn = [], fc_sta = [], fc_cert = [], fc_size_runtime = 0, fc_size_injection = 0,
          fc_size_factory = 0, fc_size_tlv = 0, fc_path_max = 0\<rparr>,
        fw_regexp = [], fw_flashless = False, fw_dbg = None, fw_blob_path = [], fw_fw_file = None, fw_packaged_path = [],
        fw_rnd_path = None, fw_nvm_dyn_path = [], fw_nvm_sta_path = []\<rparr>,
      fl_mup = \<lparr>mu_mdm_name = None, mu_streamline_dlc = None, mu_rnd = None, mu_channel_switching = False, mu_baudrate = 0\<rparr>,
      fl_packaged = [],
      fl_flashless = False, fl_update = False, fl_ongoing = False, fl_attempts = 0,
      fl_err = E_MODEM_FW_ERROR_UNSPECIFIED, fl_upgrade_err = 0, fl_pipe_read = 0, fl_pipe_write = 0,
      fl_fw_file = None, fl_blob_hash = \<lparr>hp_key = [], hp_value = []\<rparr>,
      fl_cfg_hash = \<lparr>hp_key = [], hp_value = []\<rparr>\<rparr>"

definition mmgr_zero :: mmgr_data_t where
  "mmgr_zero =
     \<lparr>mg_epollfd = 0, mg_fd_tty = 0, mg_fd_cnx = 0, mg_dsda = False, mg_cd_retrieved = False,
      mg_state = E_MMGR_MDM_OFF, mg_wakeup_cfg = E_MDM_WAKEUP_UNKNOWN,
      mg_reset = \<lparr>level_id = E_EL_UNKNOWN, level_counter = 0, rs_state = E_OPERATION_NONE,
        rs_process = (\<lambda>_. \<lparr>retry_allowed = 0, next_level = E_EL_UNKNOWN\<rparr>),
        last_reset_time = \<lparr>tv_sec = 0, tv_nsec = 0\<rparr>, rs_op = E_FORCE_NONE, reset_delay = 0, key_reboot = []\<rparr>,
      mg_clients = \<lparr>list_size = 0, connected = 0, cl_list = [], down_state = False\<rparr>,
      mg_timer = \<lparr>tm_type = 0, tm_timeout = (\<lambda>_. 0), tm_end = (\<lambda>_. \<lparr>tv_sec = 0, tv_nsec = 0\<rparr>)\<rparr>,
      mg_mcdr = \<lparr>mc_enabled = False, mc_running = False, mc_pipe_read = 0, mc_pipe_write = 0,
        mc_lib = False, mc_path = [], mc_enable_cd_log = False, mc_mdm_version = [],
        mc_version_size = 0, mc_coredump_file = []\<rparr>,
      mg_events = \<lparr>evn_nfds = 0, evn_fds = [], evn_cur_ev = 0, evn_state = E_EVENT_IPC, evn_bus = None,
        evn_cli_req = 0, evn_link_state = 0\<rparr>,
      mg_request = \<lparr>rq_msg = \<lparr>msg_hdr = \<lparr>hdr_id = 0, hdr_ts = 0, hdr_len = 0\<rparr>, msg_data = None\<rparr>, rq_client = 0\<rparr>,
      mg_secure = \<lparr>se_enable = False, se_dlc = [], se_fd = 0, se_hdle = False, se_queue = [], se_err_msg = None\<rparr>,
      mg_mcd = \<lparr>mcd_fd = 0, mcd_ssic_hack = False, mcd_off_allowed = False, mcd_flashless = False,
        mcd_ipc_ready_present = False, mcd_filter = {}, mcd_link = link_zero\<rparr>,
      mg_flash = flash_zero,
      mg_dlc = \<lparr>dlc_mux = \<lparr>mux_frame_size = 0, mux_retry = 0\<rparr>, dlc_sanity_check = [], dlc_shtdwn = [], dlc_custom = [], dlc_cd_logs = []\<rparr>,
      mg_keys = \<lparr>key_blob = [], key_cfg = [], key_amtl = [], key_reboot_counter = [], key_mdm_version = []\<rparr>,
      mg_link = link_zero, mg_hdler_client = (\<lambda>_ _. None), mg_hdler_pre_mdm = (\<lambda>_. None),
      mg_hdler_mdm = (\<lambda>_. None), mg_bb_seen = False\<rparr>"

definition set_amtl_cfg :: "env \<Rightarrow> key_ctx_t \<Rightarrow> string \<Rightarrow> history \<Rightarrow> history" where
  "set_amtl_cfg E keys name h =
     (let (amtl, h1) = property_get_string E (key_amtl keys) h in
      if amtl = []
      then let (platform, h2) = property_get_string E key_get_platform h1 in
           xcall (Android (X_property_set (key_amtl keys)
                    (snprintf PROPERTY_VALUE_MAX (platform @ ''_XMM_'' @ name)))) h2
      else h1)"

text \<open>
  The modules in the order of \<^verbatim>\<open>mmgr_init\<close>; every NULL handle or failure is caught by an
  assertion, which is \<^term>\<open>None\<close>. \<open>ensure\<close> is such an assertion on a result code.
\<close>

definition ensure :: "e_mmgr_errors \<times> st \<Rightarrow> st option" where
  "ensure r = (if fst r = E_ERR_SUCCESS then Some (snd r) else None)"

definition mmgr_init :: "env \<Rightarrow> mmgr_config \<Rightarrow> int \<Rightarrow> history \<Rightarrow> st option" where
  "mmgr_init E cf inst_id h0 =
     (if \<not> (1 \<le> inst_id \<and> inst_id - 1 < int (cf_nb cf)) then None
      else do {
        let links = cf_links cf;
        (keys, h1) \<leftarrow> key_init E inst_id h0;
        let dsda = (cf_nb cf = 2);
        let ssic_hack = (strstr (lc_device (ml_ctrl links)) ''ssic'' \<noteq> None);
        (reset, h2) \<leftarrow> recov_init E (cf_recov cf) (key_reboot_counter keys) h1;
        let (sec, h3) = secure_init E (cf_secured cf) (cf_secured_device cf) h2;
        secure \<leftarrow> sec;
        (mcdr, h4) \<leftarrow> mcdr_init E (cf_mcdr_enable cf) (cf_mcdr_path cf) (cf_mcdr_log cf) (cf_mcdr_version_size cf) h3;
        let s4 = (mmgr_zero\<lparr>mg_keys := keys, mg_dsda := dsda, mg_reset := reset, mg_secure := secure, mg_mcdr := mcdr\<rparr>, h4);
        s5 \<leftarrow> ensure (modem_events_init s4);
        s6 \<leftarrow> ensure (client_events_init E (cf_cli_max cf) s5);
        let (tmr, h7) = timer_init E (cf_recov cf) (cf_timings cf) (cf_mcdr_timeout cf) (snd s6);
        timer \<leftarrow> tmr;
        let (bev, h8) = bus_ev_init E (ml_flash_ebl links) (ml_baseband links) (cf_reconfig_usb cf) (cf_mcdr_link cf) h7;
        bus \<leftarrow> bev;
        (link, h9) \<leftarrow> link_init E links (link_type (cf_mcdr_link cf)) (cf_mcdr_ctrl cf) (cf_mcdr_power cf) ssic_hack h8;
        (dl, h10) \<leftarrow> mdm_dlc_init E (dlc_mux (cf_dlc cf)) (dlc_sanity_check (cf_dlc cf)) (dlc_shtdwn (cf_dlc cf)) (dlc_custom (cf_dlc cf))
                       (dlc_cd_logs (cf_dlc cf)) h9;
        dlc \<leftarrow> dl;
        let s10 = (fst s6\<lparr>mg_timer := timer, mg_events := (mg_events (fst s6))\<lparr>evn_bus := Some bus\<rparr>,
                          mg_link := link, mg_dlc := dlc\<rparr>, h10);
        s11 \<leftarrow> ensure (events_init E (cf_cli_max cf) s10);
        (mc, h12) \<leftarrow> mdm_mcd_init E (cf_mcd_path cf) (cf_mcd_board cf) (cf_mcd_board_aob cf) (mi_name (cf_mdm cf))
                       (mi_flashless (cf_mdm cf)) link (\<not> dsda) ssic_hack (snd s11);
        mcd \<leftarrow> mc;
        (fwo, h13) \<leftarrow> mdm_fw_init E (cf_debug cf) inst_id (cf_mdm cf) (cf_fw cf) h12;
        fw \<leftarrow> fwo;
        let (folders, h14) = mdm_fw_create_folders E fw h13;
        s14 \<leftarrow> ensure (folders, fst s11\<lparr>mg_mcd := mcd\<rparr>, h14);
        (flash, h15) \<leftarrow> mdm_flash_init E (cf_mdm cf) (dlc_custom (cf_dlc cf)) fw (key_blob keys) (key_cfg keys) link (snd s14);
        Some (fst s14\<lparr>mg_flash := flash\<rparr>, set_amtl_cfg E keys (mi_name (cf_mdm cf)) h15) })"

definition disable_telephony :: "env \<Rightarrow> st \<Rightarrow> st" where
  "disable_telephony E s =
     (let ((_, off), h1) = property_get_int E key_get_telephony_state (snd s); s1 = (fst s, h1) in
      if off = 1 then set_mmgr_state E_MMGR_MDM_RESET (recov_force_op E_FORCE_OOS s1)
      else set_mmgr_state E_MMGR_MDM_OFF s1)"

text \<open>
  \<^verbatim>\<open>main\<close> after the options are read: the result is the exit code. The loop of the event manager
  may not end; the codes of \<^verbatim>\<open>stdlib.h\<close> are 0 and 1.
\<close>

definition mmgr_main :: "env \<Rightarrow> mmgr_config \<Rightarrow> int \<Rightarrow> history \<Rightarrow> (int \<times> st) option" where
  "mmgr_main E cf inst_id h =
     do { s \<leftarrow> mmgr_init E cf inst_id h;
          (ret, s1) \<leftarrow> events_start E inst_id (disable_telephony E s);
          if ret \<noteq> E_ERR_SUCCESS then Some (1, s1)
          else do { (_, s2) \<leftarrow> events_manager E s1; Some (0, s2) } }"

section \<open>The running daemon\<close>

text \<open>The states at the top of the event loop, with the local variable \<^verbatim>\<open>wakelock\<close>.\<close>

inductive running :: "env \<Rightarrow> mmgr_config \<Rightarrow> int \<Rightarrow> bool \<Rightarrow> st \<Rightarrow> bool" for E cf inst_id where
  boot: "mmgr_init E cf inst_id h = Some s \<Longrightarrow>
    events_start E inst_id (disable_telephony E s) = Some (E_ERR_SUCCESS, s') \<Longrightarrow>
    running E cf inst_id False s'"
| turn: "running E cf inst_id w s \<Longrightarrow> turn E w s = Some (E_ERR_SUCCESS, w', s') \<Longrightarrow>
    running E cf inst_id w' s'"

lemma init_slots_closed:
  "length (fst (init_slots E n h)) = n" "filter is_open (fst (init_slots E n h)) = []"
  by (induction n arbitrary: h)
    (simp_all add: case_prod_unfold Let_def init_client_def)

lemma clients_init_counted:
  "clients_init E n h = (Some cl, h') \<Longrightarrow> 0 \<le> n \<Longrightarrow> clients_counted cl"
  using init_slots_closed [of E "nat n"]
  by (auto simp: clients_init_def clients_counted_def case_prod_unfold Let_def split: if_splits)

lemma client_events_init_ok:
  assumes "client_events_init E n s = (E_ERR_SUCCESS, s')" "0 \<le> n"
  shows "\<exists>b cl. clients_counted cl \<and> fst s' = fst s\<lparr>mg_clients := cl,
    mg_events := (mg_events (fst s))\<lparr>evn_cli_req := E_CLI_REQ_NONE\<rparr>, mg_hdler_client := hdler_table_of b\<rparr>"
  using assms clients_init_counted [of E n "snd s"]
  by (auto simp: client_events_init_def set_cli_req_def Let_def split: prod.splits option.splits) blast

lemma secure_init_queue: "secure_init E en dev h = (Some sec, h') \<Longrightarrow> se_queue sec = []"
  by (auto simp: secure_init_def Let_def split: prod.splits if_splits)

lemma events_init_ok:
  "events_init E n s = (E_ERR_SUCCESS, s') \<Longrightarrow> fst s' = fst s\<lparr>mg_fd_tty := CLOSED_FD, mg_fd_cnx := CLOSED_FD,
     mg_epollfd := CLOSED_FD, mg_events := (mg_events (fst s))\<lparr>evn_nfds := 0, evn_cur_ev := FIRST_EVENT\<rparr>\<rparr>"
  by (auto simp: events_init_def Let_def split: prod.splits if_splits)

lemma ensureE: "ensure r = Some s \<Longrightarrow> r = (E_ERR_SUCCESS, s)"
  by (auto simp: ensure_def prod_eq_iff split: if_splits)

lemma mmgr_init_ok:
  assumes "0 \<le> cf_cli_max cf"
  shows "pred_option (\<lambda>s. unwaiting (fst s)) (mmgr_init E cf i h)"
  unfolding mmgr_init_def Let_def
proof (intro pred_if pred_bind_any pred_case_prod pred_Some, goal_cases)
  case 1
  then show ?case by simp
next
  case 2
  then show ?case
    by (auto dest!: ensureE client_events_init_ok [OF _ assms] events_init_ok secure_init_queue
        simp: unwaiting_def base_def modem_events_init_def mmgr_zero_def pre_table_def mdm_table_def)
qed

lemma listen_next_rule: "unwaiting (fst (snd r)) \<Longrightarrow> unwaiting (fst (snd (listen_next E fd r)))"
  by (auto simp: listen_next_def case_prod_unfold Let_def)

lemma let_result:
  fixes t :: "e_mmgr_errors \<times> st"
  assumes "unwaiting (fst (snd t))" "\<And>r. unwaiting (fst (snd r)) \<Longrightarrow> pred_option Q (f r)"
  shows "pred_option Q (let r = t in f r)"
  using assms by simp

lemma unwaiting_fds: "unwaiting m \<Longrightarrow> unwaiting (m\<lparr>mg_fd_cnx := a\<rparr>)" "unwaiting m \<Longrightarrow> unwaiting (m\<lparr>mg_epollfd := b\<rparr>)"
  by (simp_all add: unwaiting_def base_def)

lemma events_start_rule:
  assumes "unwaiting (fst s)"
  shows "pred_option (\<lambda>(r, s'). unwaiting (fst s')) (events_start E i s)"
proof -
  have listen: "pred_option (\<lambda>(r, s'). unwaiting (fst s')) (Some (listen_next E fd (ret, s)))"
    if "unwaiting (fst s)" for fd ret s
    using listen_next_rule [of "(ret, s)" E fd] that by (simp add: case_prod_unfold)
  show ?thesis
    unfolding events_start_def
    by (intro listen let_result unwaiting_calls ku.if_rule)
      (use assms in \<open>auto intro!: unwaiting_fds listen_next_rule ku.fun_rules simp: case_prod_unfold\<close>)
qed

lemma disable_telephony_rule: "base (fst s) \<Longrightarrow> unwaiting (fst (disable_telephony E s))"
  unfolding disable_telephony_def Let_def case_prod_unfold
  by (auto intro!: set_state_rules kb.fun_rules)

lemma running_ok:
  assumes "running E cf i w s" "0 \<le> cf_cli_max cf"
  shows "daemon_ok (fst s)"
  using assms(1)
proof induction
  case (boot h s s')
  have "unwaiting (fst s)"
    using pred_optionD [OF mmgr_init_ok [OF assms(2)] boot(1)] .
  then have "unwaiting (fst (disable_telephony E s))"
    by (intro disable_telephony_rule unwaiting_base)
  from pred_optionD [OF events_start_rule [OF this] boot(2)] show ?case
    by (simp add: unwaiting_ok)
next
  case (turn w s w' s')
  from pred_optionD [OF turn_rule [OF turn.IH] turn.hyps(2)] show ?case by simp
qed

lemma armed_sleep:
  assumes "timer_get_timeout E t h = (n, h')" "armed t ty" "ty \<in> set all_timers"
  shows "0 \<le> n \<and> n \<le> remaining t (env_time E (Libc X_boottime # h)) ty"
proof -
  let ?cur = "env_time E (Libc X_boottime # h)"
  let ?rs = "remaining t ?cur ` set (filter (armed t) all_timers)"
  have "tm_type t \<noteq> 0" using assms(2) by (auto simp: armed_def)
  moreover have ne: "filter (armed t) all_timers \<noteq> []"
    using assms(2,3) by (auto simp: filter_empty_conv)
  ultimately have n: "n = Min ?rs"
    using assms(1) by (auto simp: timer_get_timeout_def timeout_loop_spec xtime_def Let_def)
  have fin: "finite ?rs" "?rs \<noteq> {}" using assms(2,3) by auto
  from Min_in [OF fin] have "0 \<le> n" unfolding n by (auto simp: remaining_def)
  moreover have "n \<le> remaining t ?cur ty"
    unfolding n using assms(2,3) by (intro Min_le) auto
  ultimately show ?thesis by simp
qed

section \<open>Properties\<close>

text \<open>
  C1: The running daemon is always in a sound state. At the top of every turn of the event loop, whatever
  the kernel, the modem and the clients answered before: the counter of the client table is the number
  of open slots, the state is a real state, the queue of the secure channel is within its array, the next
  event to be handled is inside the array that \<^verbatim>\<open>epoll_wait\<close> filled, and the tables of handlers
  are the ones installed at start-up.
\<close>

theorem daemon_state_sound:
  assumes "running E cf inst_id w s" "0 \<le> cf_cli_max cf" "m = fst s"
  shows "list_size (mg_clients m) = int (length (cl_list (mg_clients m))) \<and>
    connected (mg_clients m) = int (length (filter is_open (cl_list (mg_clients m)))) \<and>
    mg_state m \<noteq> E_MMGR_NUM \<and> length (se_queue (mg_secure m)) \<le> MSGS_MAX \<and>
    (evn_cur_ev (mg_events m) + 1 < evn_nfds (mg_events m) \<longrightarrow>
       event_fd (m\<lparr>mg_events := (mg_events m)\<lparr>evn_cur_ev := evn_cur_ev (mg_events m) + 1\<rparr>\<rparr>) \<noteq> None) \<and>
    (mg_hdler_client m = hdler_table_of False \<or> mg_hdler_client m = hdler_table_of True)"
proof -
  from running_ok [OF assms(1,2)] have b: "base m" unfolding assms(3) by (rule daemon_ok_base)
  then have "mg_hdler_client m = hdler_table_of False \<or> mg_hdler_client m = hdler_table_of True"
    unfolding base_def by (metis (full_types))
  moreover have "event_fd (m\<lparr>mg_events := (mg_events m)\<lparr>evn_cur_ev := evn_cur_ev (mg_events m) + 1\<rparr>\<rparr>) \<noteq> None"
    if "evn_cur_ev (mg_events m) + 1 < evn_nfds (mg_events m)"
    using b that by (simp add: base_def event_fd_def FIRST_EVENT_def Let_def nat_less_iff)
  ultimately show ?thesis
    using b by (simp add: base_def clients_counted_def)
qed

text \<open>
  C2: The daemon never waits for its clients without a deadline. In every reachable state in which it
  waits for acknowledgements of a cold reset or of a shutdown, the timer of that wait is armed
  (unless the platform configured it to zero), so the next sleep of the event loop is finite and not
  longer than what is left of that timer.
\<close>

theorem ack_wait_has_deadline:
  assumes "running E cf inst_id w s" "0 \<le> cf_cli_max cf" "t = mg_timer (fst s)"
    and "mg_state (fst s) = E_MMGR_WAIT_COLD_ACK \<and> ty = E_TIMER_COLD_RESET_ACK \<or>
         mg_state (fst s) = E_MMGR_WAIT_SHT_ACK \<and> ty = E_TIMER_MODEM_SHUTDOWN_ACK"
    and "tm_timeout t ty \<noteq> 0" "timer_get_timeout E t (snd s) = (n, h')"
  shows "armed t ty \<and> 0 \<le> n \<and> n \<le> remaining t (env_time E (Libc X_boottime # snd s)) ty"
proof -
  have "ack_timed (fst s)"
    using running_ok [OF assms(1,2)] by (simp add: daemon_ok_def)
  with assms(3-5) have a: "armed t ty" by (auto simp: ack_timed_def)
  have "ty \<in> set all_timers" using assms(4) by (auto simp: all_timers_def)
  with armed_sleep [OF assms(6) a] a show ?thesis by simp
qed

end
