(* ===== verification/Daemon_Behaviour.thy ===== *)
theory Daemon_Behaviour
  imports Modem_Manager
begin

text \<open>
  What the daemon does with the modem and tells its clients: the two phases of a cold reset, the
  acknowledgements, the release of the modem, requests that are refused, and departing clients.

  The commands that switch or reset the modem are read off the history of a run.
\<close>

section \<open>Power commands\<close>

definition power_cmds :: "history \<Rightarrow> mdm_ctrl_cmd list" where
  "power_cmds h = filter (\<lambda>c. c \<in> {MDM_CTRL_POWER_OFF, MDM_CTRL_POWER_ON, MDM_CTRL_COLD_RESET}) (ioctls h)"

lemma ioctls_calls [simp]:
  "ioctls (Android c # h) = ioctls h" "ioctls (Plug d # h) = ioctls h"
  by (cases c; simp; cases d; simp)+

lemma power_calls [simp]:
  "power_cmds (Sock a # h) = power_cmds h" "power_cmds (File b # h) = power_cmds h"
  "power_cmds (Libc c # h) = power_cmds h" "power_cmds (Android d # h) = power_cmds h"
  "power_cmds (Plug e # h) = power_cmds h"
  "power_cmds (Modem (X_ioctl fd cmd) # h) =
     (if cmd \<in> {MDM_CTRL_POWER_OFF, MDM_CTRL_POWER_ON, MDM_CTRL_COLD_RESET} then [cmd] else []) @ power_cmds h"
  by (simp_all add: power_cmds_def)

lemma power_cli [simp]: "power_cmds (Cli v # h) = power_cmds h"
  by (cases v) (simp_all add: power_cmds_def)

lemma power_modem_calls [simp]: "(\<And>fd cmd. m \<noteq> X_ioctl fd cmd) \<Longrightarrow> power_cmds (Modem m # h) = power_cmds h"
  by (cases m) (auto simp: power_cmds_def)

text \<open>Talking to clients never commands the modem.\<close>

lemma power_msg_prepare: "msg_prepare E msg i sz h = Some (r, h') \<Longrightarrow> power_cmds h' = power_cmds h"
  by (auto simp: msg_prepare_def calloc_def msg_set_header_def xint_def xtime_def Let_def bind_eq_Some_conv
      split: option.splits if_splits)

lemma power_build_msg: "build_msg E msg i sz body h = Some (r, h') \<Longrightarrow> power_cmds h' = power_cmds h"
  by (auto simp: build_msg_def bind_eq_Some_conv split: if_splits dest: power_msg_prepare)

lemma power_set_data:
  "set_data ev = Some build \<Longrightarrow> build E msg request h = Some (r, h') \<Longrightarrow> power_cmds h' = power_cmds h"
  by (cases ev)
    (auto simp: set_data_def set_msg_modem_hw_id_def set_msg_fuse_info_def set_msg_ap_reset_def
      set_msg_core_dump_def set_msg_tft_event_def set_msg_modem_fw_result_def set_msg_modem_nvm_result_def
      msg_set_empty_def bind_eq_Some_conv split: cli_data.splits dest: power_build_msg power_msg_prepare)

lemma power_client_inform: "client_inform E c ev d h = Some (r, h') \<Longrightarrow> power_cmds h' = power_cmds h"
  by (auto simp: client_inform_def bind_eq_Some_conv cnx_write_def xint_def Let_def
      split: if_splits dest: power_set_data [rotated])

lemma power_inform_slots: "inform_slots E ev d r cs h = Some (r', h') \<Longrightarrow> power_cmds h' = power_cmds h"
  by (induction cs arbitrary: r h)
    (auto simp: bind_eq_Some_conv split: if_splits dest!: power_client_inform)

lemma power_inform_all: "clients_inform_all E t ev d h = Some (r, h') \<Longrightarrow> power_cmds h' = power_cmds h"
  by (auto simp: clients_inform_all_def bind_eq_Some_conv Let_def split: if_splits dest!: power_inform_slots)

lemma power_plain: "only plain h h' \<Longrightarrow> power_cmds h' = power_cmds h"
proof (erule only_same)
  fix c h assume "plain c"
  then show "power_cmds (c # h) = power_cmds h" by (cases c rule: plain.cases) simp_all
qed

lemma power_prepare: "mdm_flash_prepare E fl h = Some (x, h') \<Longrightarrow> power_cmds h' = power_cmds h"
  using plain_prepare [of h h E fl] by (auto intro: power_plain)

lemma power_recov_start: "recov_start E r h = Some (x, h') \<Longrightarrow> power_cmds h' = power_cmds h"
  by (auto simp: recov_start_def property_set_int_def bind_eq_Some_conv xtime_def xint_def case_prod_unfold Let_def split: if_splits)

lemma power_tell_all: "tell_all E ev d s = Some s' \<Longrightarrow> power_cmds (snd s') = power_cmds (snd s)"
  by (auto simp: tell_all_def inform_all_def bind_eq_Some_conv dest: power_inform_all)

lemma power_steps [simp]:
  "power_cmds (snd (timer_on E ty s)) = power_cmds (snd s)"
  "power_cmds (snd (timer_off ty s)) = power_cmds (snd s)"
  "power_cmds (snd (timers_off s)) = power_cmds (snd s)"
  "power_cmds (snd (set_mmgr_state x s)) = power_cmds (snd s)"
  "power_cmds (snd (set_link_state ls s)) = power_cmds (snd s)"
  "power_cmds (snd (set_cli_req rq s)) = power_cmds (snd s)"
  "power_cmds (snd (recov_set rst s)) = power_cmds (snd s)"
  "power_cmds (snd (recov_force_op op s)) = power_cmds (snd s)"
  "power_cmds (snd (broadcast_msg i s)) = power_cmds (snd s)"
  "power_cmds (snd (mcd_listen E evs ow s)) = power_cmds (snd s)"
  "power_cmds (snd (mdm_close_fds E s)) = power_cmds (snd s)"
  by (simp_all add: timer_on_def timer_start_def timer_off_def timers_off_def set_mmgr_state_def
      set_link_state_def set_cli_req_def recov_set_def recov_force_op_def broadcast_msg_def intent_msg_eq mcd_listen_def
      mdm_mcd_register_def mdm_mcd_update_filter_def mdm_close_fds_def secure_stop_def tty_close_def ext_defs
      case_prod_unfold Let_def)

lemma power_link_reset [simp]: "power_cmds (snd (on_link (\<lambda>l. link_on_mdm_reset E l d) s)) = power_cmds (snd s)"
  by (simp add: on_link_def power_cmds_def)

text \<open>The part of the context these steps leave alone, as far as a reset depends on it.\<close>

lemma reset_steps [simp]:
  "mg_reset (fst (timer_on E ty s)) = mg_reset (fst s)" "mg_reset (fst (timers_off s)) = mg_reset (fst s)"
  "mg_reset (fst (timer_off ty s)) = mg_reset (fst s)"
  "mg_reset (fst (mcd_listen E evs ow s)) = mg_reset (fst s)" "mg_reset (fst (mdm_close_fds E s)) = mg_reset (fst s)"
  "mg_reset (fst (on_link f s)) = mg_reset (fst s)" "mg_reset (fst (set_mmgr_state x s)) = mg_reset (fst s)"
  "mg_reset (fst (broadcast_msg i s)) = mg_reset (fst s)" "mg_reset (fst (set_link_state ls s)) = mg_reset (fst s)"
  by (simp_all add: timer_on_def timer_off_def timers_off_def mcd_listen_def mdm_close_fds_def on_link_def
      set_mmgr_state_def broadcast_msg_def set_link_state_def case_prod_unfold Let_def)

section \<open>Messages sent\<close>

definition sent :: "history \<Rightarrow> ext list" where
  "sent h = filter is_send (rev h)"

lemma sent_calls [simp]:
  "sent (Libc a # h) = sent h" "sent (File b # h) = sent h" "sent (Android c # h) = sent h"
  "sent (Modem d # h) = sent h" "sent (Plug e # h) = sent h" "sent (Sock (X_close fd) # h) = sent h"
  by (simp_all add: sent_def is_send_def)

lemma sent_plain: "only plain h h' \<Longrightarrow> sent h' = sent h"
proof (erule only_same)
  fix c h assume "plain c"
  then show "sent (c # h) = sent h" by (cases c rule: plain.cases) (simp_all add: sent_def is_send_def)
qed

lemma sent_prepare: "mdm_flash_prepare E fl h = Some (x, h') \<Longrightarrow> sent h' = sent h"
  using plain_prepare [of h h E fl] by (auto intro: sent_plain)

lemma sent_recov_start: "recov_start E r h = Some (x, h') \<Longrightarrow> sent h' = sent h"
  by (auto simp: recov_start_def property_set_int_def bind_eq_Some_conv xtime_def xint_def case_prod_unfold Let_def split: if_splits)

lemma timer_on_fst: "fst (timer_on E ty s) = fst s\<lparr>mg_timer := timer_started E (snd s) (mg_timer (fst s)) ty\<rparr>"
  by (simp add: timer_on_def case_prod_unfold Let_def)

lemma set_state_fst: "fst (set_mmgr_state x s) = fst s\<lparr>mg_state := x\<rparr>" "snd (set_mmgr_state x s) = snd s"
  by (simp_all add: set_mmgr_state_def)

lemma sent_timer_on [simp]: "sent (snd (timer_on E ty s)) = sent (snd s)"
  by (simp add: timer_on_def timer_start_def xtime_def case_prod_unfold Let_def)

text \<open>The open clients an event goes to.\<close>

definition audience :: "client_list_t \<Rightarrow> e_mmgr_events \<Rightarrow> client_t list" where
  "audience t ev = filter (\<lambda>c. is_open c \<and> subscribed c ev) (cl_list t)"

text \<open>
  The contract of a broadcast without payload: it always returns, sends one message to each client of
  its audience and touches nothing but the memory of the last MODEM_DOWN.
\<close>

definition told :: "e_mmgr_events \<Rightarrow> st \<Rightarrow> st \<Rightarrow> bool" where
  "told ev s s' \<longleftrightarrow>
     (\<exists>b msgs. fst s' = fst s\<lparr>mg_clients := (mg_clients (fst s))\<lparr>down_state := b\<rparr>\<rparr> \<and>
        sent (snd s') = sent (snd s) @ msgs \<and> power_cmds (snd s') = power_cmds (snd s) \<and>
        list_all2 (notice ev) (if ev = E_MMGR_EVENT_MODEM_DOWN \<and> down_state (mg_clients (fst s)) then []
                               else audience (mg_clients (fst s)) ev) msgs \<and>
        (ev \<notin> {E_MMGR_EVENT_MODEM_DOWN, E_MMGR_EVENT_MODEM_UP} \<longrightarrow> b = down_state (mg_clients (fst s))))"

lemma tell_all_told:
  assumes "alloc_ok E" "no_payload ev"
  obtains s' where "tell_all E ev d s = Some s'" "told ev s s'"
proof (cases "ev = E_MMGR_EVENT_MODEM_DOWN \<and> down_state (mg_clients (fst s))")
  case True
  then have "tell_all E ev d s = Some s"
    by (simp add: tell_all_def inform_all_def clients_inform_all_def)
  moreover have "told ev s s" using True by (auto simp: told_def intro!: exI [of _ True])
  ultimately show thesis by (rule that)
next
  case False
  define t where "t = mg_clients (fst s)"
  define t' where "t' = (if ev = E_MMGR_EVENT_MODEM_DOWN then t\<lparr>down_state := True\<rparr>
     else if ev = E_MMGR_EVENT_MODEM_UP then t\<lparr>down_state := False\<rparr> else t)"
  obtain r calls where
    i: "inform_slots E ev d E_ERR_SUCCESS (cl_list t') (snd s) = Some (r, calls @ snd s)"
    and l: "list_all2 (notice ev) (filter (\<lambda>c. is_open c \<and> subscribed c ev) (cl_list t'))
       (filter is_send (rev calls))"
    using inform_slots_sends [OF assms] by blast
  have "tell_all E ev d s = Some (fst s\<lparr>mg_clients := t'\<rparr>, calls @ snd s)"
    using False i unfolding tell_all_def inform_all_def clients_inform_all_def t'_def t_def Let_def by auto
  moreover have "t' = t\<lparr>down_state := down_state t'\<rparr>" "cl_list t' = cl_list t" by (simp_all add: t'_def)
  then have "told ev s (fst s\<lparr>mg_clients := t'\<rparr>, calls @ snd s)"
    using l False power_inform_slots [OF i] unfolding told_def t_def [symmetric]
    by (intro exI [of _ "down_state t'"] exI [of _ "filter is_send (rev calls)"])
      (auto simp: audience_def sent_def t'_def t_def)
  ultimately show thesis by (rule that)
qed

section \<open>Cold reset\<close>

lemma audience_down_state [simp]: "audience (t\<lparr>down_state := b\<rparr>) ev = audience t ev"
  by (simp add: audience_def)

text \<open>
  The state a reset starts from: the firmware is prepared, and the escalation chose its level.
\<close>

definition reset_begins :: "env \<Rightarrow> st \<Rightarrow> mdm_flash_ctx_t \<Rightarrow> reset_management_t \<Rightarrow> history \<Rightarrow> bool" where
  "reset_begins E s fl rm h \<longleftrightarrow>
     (\<exists>h1 r. mdm_flash_prepare E (mg_flash (fst s)) (snd s) = Some ((E_ERR_SUCCESS, fl), h1) \<and>
        recov_start E (mg_reset (fst s)) h1 = Some ((r, rm), h))"

lemma reset_begins_log:
  assumes "reset_begins E s fl rm h"
  shows "power_cmds h = power_cmds (snd s)" "sent h = sent (snd s)"
  using assms by (auto simp: reset_begins_def power_recov_start sent_recov_start power_prepare sent_prepare)

text \<open>The asking half of a cold reset: two broadcasts, then the wait with its timer.\<close>

lemma cold_reset_question:
  assumes "alloc_ok E" "mg_hdler_pre_mdm (fst s) = pre_table" "reset_begins E s fl rm h"
    and "level_id rm = E_EL_MODEM_COLD_RESET" "rs_state rm = E_OPERATION_NONE"
    and "connected (mg_clients (fst s)) \<noteq> 0"
  obtains s1 s2 where
    "reset_modem E s = Some (E_ERR_SUCCESS, timer_on E E_TIMER_COLD_RESET_ACK (set_mmgr_state E_MMGR_WAIT_COLD_ACK s2))"
    "told E_MMGR_EVENT_MODEM_DOWN (recov_set E_OPERATION_WAIT (fst s\<lparr>mg_flash := fl, mg_reset := rm\<rparr>, h)) s1"
    "told E_MMGR_NOTIFY_MODEM_COLD_RESET s1 s2"
proof -
  let ?s3 = "(fst s\<lparr>mg_flash := fl, mg_reset := rm\<rparr>, h)"
  have np: "no_payload E_MMGR_EVENT_MODEM_DOWN" "no_payload E_MMGR_NOTIFY_MODEM_COLD_RESET"
    by (simp_all add: no_payload_def)
  obtain s1 where 1: "tell_all E E_MMGR_EVENT_MODEM_DOWN D_null (recov_set E_OPERATION_WAIT ?s3) = Some s1"
    "told E_MMGR_EVENT_MODEM_DOWN (recov_set E_OPERATION_WAIT ?s3) s1"
    by (rule tell_all_told [OF assms(1) np(1)])
  obtain s2 where 2: "tell_all E E_MMGR_NOTIFY_MODEM_COLD_RESET D_null s1 = Some s2"
    "told E_MMGR_NOTIFY_MODEM_COLD_RESET s1 s2"
    by (rule tell_all_told [OF assms(1) np(2)])
  let ?s' = "timer_on E E_TIMER_COLD_RESET_ACK (set_mmgr_state E_MMGR_WAIT_COLD_ACK s2)"
  have "pre_mdm_cold_reset E ?s3 = Some ?s'"
    using assms(5,6) 1 2
    by (simp add: pre_mdm_cold_reset_def recov_get_state_def clients_get_connected_def)
  moreover have "rs_state (mg_reset (fst s2)) = E_OPERATION_WAIT"
    using 1(2) 2(2) by (auto simp: told_def recov_set_def recov_set_state_def)
  ultimately have "reset_modem E s = Some (E_ERR_SUCCESS, ?s')"
    using assms(2-4)
    by (auto simp: reset_begins_def reset_modem_def recov_get_level_def pre_table_def call_pre_mdm_def
        recov_get_state_def)
  then show thesis using 1(2) 2(2) by (rule that)
qed

text \<open>
  C3: The clients are asked before the modem is reset. When a cold reset begins while clients are connected,
  \<^verbatim>\<open>reset_modem\<close> returns without any command to the modem: it tells the subscribers that the
  modem is down (unless they know), asks each subscriber of the cold reset once, in slot order, sends
  nothing else, arms the acknowledgement timer and waits in \<^verbatim>\<open>E_MMGR_WAIT_COLD_ACK\<close>.
\<close>

theorem cold_reset_asks_first:
  assumes "alloc_ok E" "base (fst s)" "reset_begins E s fl rm h"
    and "level_id rm = E_EL_MODEM_COLD_RESET" "rs_state rm = E_OPERATION_NONE"
    and "connected (mg_clients (fst s)) \<noteq> 0"
  shows "\<exists>s' downs asks. reset_modem E s = Some (E_ERR_SUCCESS, s') \<and>
    mg_state (fst s') = E_MMGR_WAIT_COLD_ACK \<and> rs_state (mg_reset (fst s')) = E_OPERATION_WAIT \<and>
    power_cmds (snd s') = power_cmds (snd s) \<and> sent (snd s') = sent (snd s) @ downs @ asks \<and>
    list_all2 (notice E_MMGR_EVENT_MODEM_DOWN)
      (if down_state (mg_clients (fst s)) then [] else audience (mg_clients (fst s)) E_MMGR_EVENT_MODEM_DOWN) downs \<and>
    list_all2 (notice E_MMGR_NOTIFY_MODEM_COLD_RESET)
      (audience (mg_clients (fst s)) E_MMGR_NOTIFY_MODEM_COLD_RESET) asks \<and>
    (tm_timeout (mg_timer (fst s)) E_TIMER_COLD_RESET_ACK \<noteq> 0 \<longrightarrow>
       armed (mg_timer (fst s')) E_TIMER_COLD_RESET_ACK)"
proof -
  have "mg_hdler_pre_mdm (fst s) = pre_table" using assms(2) by (simp add: base_def)
  from assms(1) this assms(3-6) obtain s1 s2 where r: "reset_modem E s = Some (E_ERR_SUCCESS,
      timer_on E E_TIMER_COLD_RESET_ACK (set_mmgr_state E_MMGR_WAIT_COLD_ACK s2))"
    and 1: "told E_MMGR_EVENT_MODEM_DOWN (recov_set E_OPERATION_WAIT (fst s\<lparr>mg_flash := fl, mg_reset := rm\<rparr>, h)) s1"
    and 2: "told E_MMGR_NOTIFY_MODEM_COLD_RESET s1 s2"
    by (rule cold_reset_question)
  let ?s' = "timer_on E E_TIMER_COLD_RESET_ACK (set_mmgr_state E_MMGR_WAIT_COLD_ACK s2)"
  note r
  moreover have w: "rs_state (mg_reset (fst s2)) = E_OPERATION_WAIT"
    using 1 2 by (auto simp: told_def recov_set_def recov_set_state_def)
  moreover have "tm_timeout (mg_timer (fst s2)) = tm_timeout (mg_timer (fst s))"
    using 1 2 by (auto simp: told_def recov_set_def)
  moreover obtain downs where "sent (snd s1) = sent (snd s) @ downs"
    "list_all2 (notice E_MMGR_EVENT_MODEM_DOWN) (if down_state (mg_clients (fst s)) then []
       else audience (mg_clients (fst s)) E_MMGR_EVENT_MODEM_DOWN) downs"
    using 1 reset_begins_log [OF assms(3)] by (auto simp: told_def recov_set_def cong: if_cong)
  moreover obtain asks where "sent (snd s2) = sent (snd s1) @ asks" "list_all2 (notice E_MMGR_NOTIFY_MODEM_COLD_RESET)
      (audience (mg_clients (fst s)) E_MMGR_NOTIFY_MODEM_COLD_RESET) asks"
    using 1 2 by (auto simp: told_def recov_set_def)
  moreover have "power_cmds (snd s2) = power_cmds (snd s)"
    using 1 2 reset_begins_log [OF assms(3)] by (auto simp: told_def recov_set_def)
  ultimately show ?thesis
    using w ts.start_armed [where E = E and h = "snd s2" and t = "mg_timer (fst s2)" and k = E_TIMER_COLD_RESET_ACK]
    by (intro exI [of _ ?s'] exI [of _ downs] exI [of _ asks]) (simp add: timer_on_fst set_state_fst)
qed

definition env_ready :: env where
  "env_ready = env_ok\<lparr>env_int := (\<lambda>h. case h of File (X_file_exist _) # _ \<Rightarrow> 0 | _ \<Rightarrow> 1)\<rparr>"

lemma alloc_ok_env_ready [simp]: "alloc_ok env_ready"
  by (simp add: alloc_ok_def env_ready_def)

text \<open>A daemon with one client, in the middle of its life.\<close>

definition daemon_example :: mmgr_data_t where
  "daemon_example = mmgr_zero\<lparr>mg_state := E_MMGR_MDM_RESET, mg_clients := clients_example, mg_reset := recov_example,
     mg_timer := timer_example, mg_flash := flash_example, mg_hdler_client := hdler_table_of False,
     mg_hdler_pre_mdm := pre_table, mg_hdler_mdm := mdm_table\<rparr>"

lemma daemon_example_base: "base daemon_example"
  by (auto simp: base_def daemon_example_def mmgr_zero_def clients_counted_def clients_example_def slot_example_def
      FIRST_EVENT_def CLOSED_FD_def)

lemma daemon_example_begins:
  "\<exists>fl h. reset_begins env_ready (daemon_example\<lparr>mg_reset := recov_example\<lparr>rs_state := x\<rparr>\<rparr>, [])
     fl (recov_example\<lparr>rs_state := x\<rparr>) h"
  by (simp add: reset_begins_def daemon_example_def flash_example_def fw_example_def mup_example_def env_ready_def env_ok_def
      mdm_flash_prepare_def mdm_fw_get_fw_path_def mdm_fw_get_tlvs_def mdm_fw_dbg_get_tlvs_def file_find_ext_def file_find_def
      mdm_flash_is_hash_changed_def mdm_flash_compute_cfg_hash_def mdm_flash_is_property_equal_def mdm_mup_package_def
      property_get_string_def file_exist_def ext_defs recov_start_def recov_example_def case_prod_unfold Let_def)

theorem cold_reset_asks_first_witness:
  "\<exists>s'. reset_modem env_ready (daemon_example, []) = Some (E_ERR_SUCCESS, s') \<and>
     mg_state (fst s') = E_MMGR_WAIT_COLD_ACK \<and> power_cmds (snd s') = [] \<and>
     length (filter is_send (snd s')) = 2"
proof -
  have e: "daemon_example\<lparr>mg_reset := recov_example\<lparr>rs_state := E_OPERATION_NONE\<rparr>\<rparr> = daemon_example"
    by (simp add: daemon_example_def recov_example_def)
  obtain fl h where b: "reset_begins env_ready (daemon_example, []) fl (recov_example\<lparr>rs_state := E_OPERATION_NONE\<rparr>) h"
    using daemon_example_begins [of E_OPERATION_NONE] e by auto
  have a: "audience (mg_clients daemon_example) ev = [slot_example 5]"
    if "ev \<in> {E_MMGR_EVENT_MODEM_DOWN, E_MMGR_NOTIFY_MODEM_COLD_RESET}" for ev
    using that by (auto simp: daemon_example_def clients_example_def audience_def slot_example_def
        subscribed_def CLOSED_FD_def flag_simps)
  have c: "level_id recov_example = E_EL_MODEM_COLD_RESET" "connected (mg_clients daemon_example) \<noteq> 0"
    "\<not> down_state (mg_clients daemon_example)"
    by (simp_all add: daemon_example_def clients_example_def recov_example_def)
  obtain s' downs asks where r: "reset_modem env_ready (daemon_example, []) = Some (E_ERR_SUCCESS, s')"
    "mg_state (fst s') = E_MMGR_WAIT_COLD_ACK" "power_cmds (snd s') = power_cmds []" "sent (snd s') = sent [] @ downs @ asks"
    "list_all2 (notice E_MMGR_EVENT_MODEM_DOWN) [slot_example 5] downs"
    "list_all2 (notice E_MMGR_NOTIFY_MODEM_COLD_RESET) [slot_example 5] asks"
    using cold_reset_asks_first [OF alloc_ok_env_ready _ b] daemon_example_base c by (simp add: a cong: if_cong del: split_paired_Ex) blast
  then have "length (sent (snd s')) = 2" by (auto simp: sent_def dest!: list_all2_lengthD)
  with r(1-3) show ?thesis by (simp add: sent_def power_cmds_def rev_filter [symmetric])
qed

text \<open>
  Where the escalation stands after a cold reset: one more is counted, unless this one was asked not to be; when the configured number is
  reached the next recovery is a reboot of the platform, if any are configured, and otherwise the end of the service.
\<close>

definition after_cold_reset :: "mmgr_recovery_t \<Rightarrow> reset_management_t \<Rightarrow> e_escalation_level \<times> int" where
  "after_cold_reset cfg r =
     (let k = level_counter r + (if rs_op r = E_FORCE_NO_COUNT then 0 else 1);
          allowed = (if rc_enable cfg then max 0 (rc_cold_reset cfg) else 0) in
      if k < allowed then (E_EL_MODEM_COLD_RESET, k)
      else (if rc_enable cfg \<and> rc_reboot cfg > 0 then E_EL_PLATFORM_REBOOT else E_EL_MODEM_OUT_OF_SERVICE, 0))"

lemma recov_done_cold:
  assumes "rs_process r = recov_table cfg" "level_id r = E_EL_MODEM_COLD_RESET"
  obtains r' where "recov_done r = Some (E_ERR_SUCCESS, r')" "rs_state r' = E_OPERATION_NONE"
    "(level_id r', level_counter r') = after_cold_reset cfg r"
proof -
  have "\<exists>r'. recov_done r = Some (E_ERR_SUCCESS, r') \<and> rs_state r' = E_OPERATION_NONE \<and> (level_id r', level_counter r') = after_cold_reset cfg r"
    using assms by (auto simp: recov_done_def recov_next_def next_loop_table recov_table_simps after_cold_reset_def Let_def)
  then show thesis using that by blast
qed

lemma pre_cold_continues:
  assumes "rs_state (mg_reset (fst s)) = E_OPERATION_WAIT" "connected (mg_clients (fst s)) \<noteq> 0"
  shows "\<exists>s'. pre_mdm_cold_reset E s = Some s' \<and>
    mg_reset (fst s') = (mg_reset (fst s))\<lparr>rs_state := E_OPERATION_CONTINUE\<rparr> \<and>
    power_cmds (snd s') = power_cmds (snd s) \<and> sent (snd s') = sent (snd s) \<and> mg_mcd (fst s') = mg_mcd (fst s) \<and>
    mg_hdler_mdm (fst s') = mg_hdler_mdm (fst s) \<and>
    mg_state (fst s') \<in> {E_MMGR_MDM_START, E_MMGR_MDM_CONF_ONGOING} \<and>
    mg_clients (fst s') = snd (clients_reset_ack_cold (mg_clients (fst s)))"
  using assms
  by (cases "rs_op (mg_reset (fst s)) = E_FORCE_NO_COUNT";
      cases "link_get_bb_type (mg_link (fst s)) = E_LINK_USB"; cases "mdm_flash_is_required (mg_flash (fst s))")
    (simp_all add: pre_mdm_cold_reset_def recov_get_state_def clients_get_connected_def recov_set_def recov_set_state_def
        recov_get_operation_def broadcast_msg_def intent_msg_eq set_mmgr_state_def timer_off_def xcall_def Let_def)

lemma on_mcd_pair: "fst (snd (on_mcd f s)) = fst s" "snd (snd (on_mcd f s)) = snd (f (mg_mcd (fst s)) (snd s))"
  by (simp_all add: on_mcd_def case_prod_unfold Let_def)

lemma cold_reset_log:
  "power_cmds (snd (mdm_mcd_cold_reset E mcd h)) =
     (if mcd_ssic_hack mcd then MDM_CTRL_POWER_OFF else MDM_CTRL_COLD_RESET) # power_cmds h"
  "sent (snd (mdm_mcd_cold_reset E mcd h)) = sent h"
  by (simp_all add: mdm_mcd_cold_reset_def ext_defs Let_def)

lemma reset_steps_frame [simp]:
  "mg_clients (fst (timers_off s)) = mg_clients (fst s)" "mg_state (fst (timers_off s)) = mg_state (fst s)"
  "mg_mcd (fst (timers_off s)) = mg_mcd (fst s)" "snd (timers_off s) = snd s"
  "mg_clients (fst (mdm_close_fds E s)) = mg_clients (fst s)" "mg_state (fst (mdm_close_fds E s)) = mg_state (fst s)"
  "mg_mcd (fst (mdm_close_fds E s)) = mg_mcd (fst s)" "sent (snd (mdm_close_fds E s)) = sent (snd s)"
  "mg_clients (fst (mcd_listen E evs ow s)) = mg_clients (fst s)" "mg_state (fst (mcd_listen E evs ow s)) = mg_state (fst s)"
  "mcd_ssic_hack (mg_mcd (fst (mcd_listen E evs ow s))) = mcd_ssic_hack (mg_mcd (fst s))"
  "sent (snd (mcd_listen E evs ow s)) = sent (snd s)"
  "sent (snd (on_link (\<lambda>l. link_on_mdm_reset E l d) s)) = sent (snd s)" "fst (on_link f s) = fst s"
  "mg_hdler_mdm (fst (timers_off s)) = mg_hdler_mdm (fst s)" "mg_hdler_mdm (fst (mdm_close_fds E s)) = mg_hdler_mdm (fst s)"
  "mg_hdler_mdm (fst (mcd_listen E evs ow s)) = mg_hdler_mdm (fst s)"
  "snd (set_link_state x s) = snd s" "mg_clients (fst (set_link_state x s)) = mg_clients (fst s)"
  "mg_state (fst (set_link_state x s)) = mg_state (fst s)"
  by (simp_all add: timers_off_def mdm_close_fds_def secure_stop_def tty_close_def mcd_listen_def mdm_mcd_register_def
      mdm_mcd_update_filter_def on_link_def link_on_mdm_reset_def ctrl_on_mdm_reset_def ctrl_on_mdm_reset_op_def
      ctrl_set_state_def file_write_def sys_open_def sys_write_def set_link_state_def ext_defs case_prod_unfold Let_def
      split: e_link.splits)

text \<open>The end of a reset: what is polled from the driver, and the timers of the start of the modem.\<close>

definition reset_rest :: "env \<Rightarrow> st \<Rightarrow> st" where
  "reset_rest E s9 =
     (let required = mdm_flash_is_required (mg_flash (fst s9));
          s10 = (if required
                 then mcd_listen E {MDM_CTRL_STATE_FW_DOWNLOAD_READY, MDM_CTRL_STATE_COREDUMP} True s9
                 else mcd_listen E {MDM_CTRL_STATE_IPC_READY, MDM_CTRL_STATE_COREDUMP} True s9);
          s11 = (if \<not> required \<and> mdm_mcd_is_ipc_ready_present (mg_mcd (fst s10))
                 then timer_on E E_TIMER_WAIT_FOR_IPC_READY s10 else s10) in
      if link_get_bb_type (mg_link (fst s11)) = E_LINK_USB
      then set_link_state E_MDM_LINK_NONE (timer_on E E_TIMER_WAIT_FOR_BUS_READY s11) else s11)"

lemma reset_rest_frame:
  "power_cmds (snd (reset_rest E s)) = power_cmds (snd s)" "sent (snd (reset_rest E s)) = sent (snd s)"
  "mg_reset (fst (reset_rest E s)) = mg_reset (fst s)" "mg_clients (fst (reset_rest E s)) = mg_clients (fst s)"
  "mg_state (fst (reset_rest E s)) = mg_state (fst s)"
  by (simp_all add: reset_rest_def Let_def timer_on_fst)

lemma reset_ack_cold_clears:
  "c \<in> set (cl_list (snd (clients_reset_ack_cold t))) \<Longrightarrow> is_open c \<Longrightarrow> \<not> bit (cl_cnx c) 2"
  by (auto simp: clients_reset_ack_cold_def reset_ack_def E_CNX_COLD_RESET_def flag_simps split: if_splits)

lemma cold_reset_runs:
  assumes "base (fst s)" "reset_begins E s fl rm h"
    and "level_id rm = E_EL_MODEM_COLD_RESET" "rs_state rm = E_OPERATION_WAIT" "rs_process rm = recov_table cfg"
    and "connected (mg_clients (fst s)) \<noteq> 0"
  shows "\<exists>s'. reset_modem E s = Some (E_ERR_SUCCESS, s') \<and>
    power_cmds (snd s') =
      (if mcd_ssic_hack (mg_mcd (fst s)) then MDM_CTRL_POWER_OFF else MDM_CTRL_COLD_RESET) # power_cmds (snd s) \<and>
    rs_state (mg_reset (fst s')) = E_OPERATION_NONE \<and>
    (level_id (mg_reset (fst s')), level_counter (mg_reset (fst s'))) = after_cold_reset cfg rm \<and> sent (snd s') = sent (snd s) \<and>
    mg_state (fst s') \<in> {E_MMGR_MDM_START, E_MMGR_MDM_CONF_ONGOING} \<and>
    (\<forall>c \<in> set (cl_list (mg_clients (fst s'))). is_open c \<longrightarrow> \<not> bit (cl_cnx c) 2)"
proof -
  let ?s3 = "(fst s\<lparr>mg_flash := fl, mg_reset := rm\<rparr>, h)"
  obtain s4 where s4: "pre_mdm_cold_reset E ?s3 = Some s4" "mg_reset (fst s4) = rm\<lparr>rs_state := E_OPERATION_CONTINUE\<rparr>"
    "power_cmds (snd s4) = power_cmds (snd s)" "sent (snd s4) = sent (snd s)" "mg_mcd (fst s4) = mg_mcd (fst s)"
    "mg_hdler_mdm (fst s4) = mdm_table"
    "mg_state (fst s4) \<in> {E_MMGR_MDM_START, E_MMGR_MDM_CONF_ONGOING}"
    "mg_clients (fst s4) = snd (clients_reset_ack_cold (mg_clients (fst s)))"
    using pre_cold_continues [of ?s3 E] assms(1,4,6) reset_begins_log [OF assms(2)] by (auto simp: base_def)
  define s7 where "s7 = on_link (\<lambda>l. link_on_mdm_reset E l 0)
    (mdm_close_fds E (timers_off (mcd_listen E {MDM_CTRL_STATE_COREDUMP} True s4)))"
  define s8 where "s8 = call_mdm E H_mdm_mcd_cold_reset s7"
  have s8: "mg_reset (fst s8) = rm\<lparr>rs_state := E_OPERATION_CONTINUE\<rparr>" "sent (snd s8) = sent (snd s)"
    "power_cmds (snd s8) = (if mcd_ssic_hack (mg_mcd (fst s)) then MDM_CTRL_POWER_OFF else MDM_CTRL_COLD_RESET)
       # power_cmds (snd s)" "mg_clients (fst s8) = mg_clients (fst s4)" "mg_state (fst s8) = mg_state (fst s4)"
    using s4 by (simp_all add: s8_def s7_def call_mdm_def on_mcd_pair cold_reset_log)
  obtain r' where r': "recov_done (rm\<lparr>rs_state := E_OPERATION_CONTINUE\<rparr>) = Some (E_ERR_SUCCESS, r')" "rs_state r' = E_OPERATION_NONE"
    "(level_id r', level_counter r') = after_cold_reset cfg (rm\<lparr>rs_state := E_OPERATION_CONTINUE\<rparr>)"
    using recov_done_cold [of "rm\<lparr>rs_state := E_OPERATION_CONTINUE\<rparr>" cfg] assms(3,5) by auto
  have r'_counts: "(level_id r', level_counter r') = after_cold_reset cfg rm" using r'(3) by (simp add: after_cold_reset_def)
  have "reset_modem E s = Some (E_ERR_SUCCESS, reset_rest E (fst s8\<lparr>mg_reset := r'\<rparr>, snd s8))"
    using assms(1-3) s4(1,2,6) s8(1) r'(1) unfolding s8_def s7_def reset_rest_def
    by (auto simp: reset_begins_def reset_modem_def recov_get_level_def base_def pre_table_def call_pre_mdm_def
        recov_get_state_def mdm_table_def Let_def)
  then show ?thesis
    using s8 s4(7,8) r'(2) r'_counts reset_ack_cold_clears by (auto simp: reset_rest_frame)
qed

text \<open>
  C4: Once the wait is over, the reset is carried out. When \<^verbatim>\<open>reset_modem\<close> is entered a second time
  for the same cold reset it gives exactly one power command to the driver (the cold reset, or the power-off that
  starts the power cycle on platforms without one), counts the operation (the counter of cold resets goes up by one, or, when the
  configured number is reached, the escalation goes to its next level), forgets the
  acknowledgements of this reset and sends no message; the modem is then being started.
\<close>

theorem cold_reset_performed:
  assumes "base (fst s)" "reset_begins E s fl rm h"
    and "level_id rm = E_EL_MODEM_COLD_RESET" "rs_state rm = E_OPERATION_WAIT" "rs_process rm = recov_table cfg"
    and "connected (mg_clients (fst s)) \<noteq> 0"
  shows "\<exists>s'. reset_modem E s = Some (E_ERR_SUCCESS, s') \<and>
    power_cmds (snd s') =
      (if mcd_ssic_hack (mg_mcd (fst s)) then MDM_CTRL_POWER_OFF else MDM_CTRL_COLD_RESET) # power_cmds (snd s) \<and>
    rs_state (mg_reset (fst s')) = E_OPERATION_NONE \<and>
    (level_id (mg_reset (fst s')), level_counter (mg_reset (fst s'))) = after_cold_reset cfg rm \<and> sent (snd s') = sent (snd s) \<and>
    mg_state (fst s') \<in> {E_MMGR_MDM_START, E_MMGR_MDM_CONF_ONGOING} \<and>
    (\<forall>c \<in> set (cl_list (mg_clients (fst s'))). is_open c \<longrightarrow> \<not> bit (cl_cnx c) 2)"
  by (rule cold_reset_runs [OF assms])

theorem cold_reset_performed_witness:
  "\<exists>s'. reset_modem env_ready (daemon_example\<lparr>mg_reset := recov_example\<lparr>rs_state := E_OPERATION_WAIT\<rparr>\<rparr>, []) =
     Some (E_ERR_SUCCESS, s') \<and> power_cmds (snd s') = [MDM_CTRL_COLD_RESET] \<and>
     level_id (mg_reset (fst s')) = E_EL_PLATFORM_REBOOT \<and> level_counter (mg_reset (fst s')) = 0"
proof -
  let ?s = "(daemon_example\<lparr>mg_reset := recov_example\<lparr>rs_state := E_OPERATION_WAIT\<rparr>\<rparr>, []) :: st"
  obtain fl h where b: "reset_begins env_ready ?s fl (recov_example\<lparr>rs_state := E_OPERATION_WAIT\<rparr>) h"
    using daemon_example_begins [of E_OPERATION_WAIT] by blast
  have "base (fst ?s)" using daemon_example_base by simp
  moreover have "connected (mg_clients (fst ?s)) \<noteq> 0" "\<not> mcd_ssic_hack (mg_mcd (fst ?s))"
    by (simp_all add: daemon_example_def mmgr_zero_def clients_example_def)
  moreover have "rs_process recov_example = recov_table cfg_example" "level_id recov_example = E_EL_MODEM_COLD_RESET"
    "after_cold_reset cfg_example (recov_example\<lparr>rs_state := E_OPERATION_WAIT\<rparr>) = (E_EL_PLATFORM_REBOOT, 0)"
    by (simp_all add: recov_example_def cfg_example_def after_cold_reset_def)
  ultimately show ?thesis
    using cold_reset_performed [OF _ b, of cfg_example] by (auto simp: power_cmds_def)
qed

section \<open>Requests\<close>

lemma on_client_eq:
  "the_client (fst s) = Some c \<Longrightarrow>
     on_client f s = Some (fst (f c), fst s\<lparr>mg_clients := (mg_clients (fst s))
       \<lparr>cl_list := (cl_list (mg_clients (fst s)))[rq_client (mg_request (fst s)) := snd (f c)]\<rparr>\<rparr>, snd s)"
  by (simp add: on_client_def case_prod_unfold Let_def)

text \<open>An answer to the client of the current request.\<close>

lemma reply_sent:
  assumes "alloc_ok E" "no_payload ev" "the_client (fst s) = Some c"
  obtains h msgs where "reply E ev s = Some (fst s, h)" "power_cmds h = power_cmds (snd s)"
    "sent h = sent (snd s) @ msgs" "list_all2 (notice ev) (if subscribed c ev then [c] else []) msgs"
    "\<exists>r. inform_client E ev s = Some (r, fst s, h)"
proof -
  obtain r cs where i: "client_inform E c ev D_null (snd s) = Some (r, cs @ snd s)"
    and l: "list_all2 (notice ev) (if subscribed c ev then [c] else []) (filter is_send (rev cs))"
    by (rule client_inform_empty [OF assms(1,2)])
  have "inform_client E ev s = Some (r, fst s, cs @ snd s)"
    using i assms(3) by (simp add: inform_client_def)
  moreover from this have "reply E ev s = Some (fst s, cs @ snd s)" by (simp add: reply_def)
  moreover have "sent (cs @ snd s) = sent (snd s) @ filter is_send (rev cs)" by (simp add: sent_def)
  ultimately show thesis using that power_client_inform [OF i] l by blast
qed

text \<open>The table of clients once the client of the request has set a flag.\<close>

definition marked :: "u32 \<Rightarrow> mmgr_data_t \<Rightarrow> client_list_t" where
  "marked flg m =
     (mg_clients m)\<lparr>cl_list := (cl_list (mg_clients m))[rq_client (mg_request m) :=
        (cl_list (mg_clients m) ! rq_client (mg_request m))
          \<lparr>cl_cnx := cl_cnx (cl_list (mg_clients m) ! rq_client (mg_request m)) OR flg\<rparr>]\<rparr>"

lemma on_client_marks:
  assumes "the_client (fst s) = Some c"
  shows "\<exists>r. on_client (\<lambda>c. client_set_request c flg) s = Some (r, fst s\<lparr>mg_clients := marked flg (fst s)\<rparr>, snd s)"
  using assms on_client_eq [OF assms, of "\<lambda>c. client_set_request c flg"]
  by (auto simp: marked_def the_client_def client_set_request_def Let_def split: if_splits)

text \<open>
  C5: A cold reset waits for the last acknowledgement, and for no other. The acknowledgement of a client marks
  this client only; the reset is started if and only if now every open client that subscribed to the
  cold reset has acknowledged it, and otherwise the daemon keeps waiting. No command
  is given to the modem yet, and no message leaves but the answer to a pending request to back up
  the calibration.
\<close>

theorem cold_reset_acknowledged:
  assumes "alloc_ok E" "the_client (fst s) = Some c"
  defines "t1 \<equiv> marked E_CNX_COLD_RESET (fst s)"
  defines "all_acked \<equiv> \<forall>c \<in> awaited t1 E_MMGR_NOTIFY_MODEM_COLD_RESET. bit (cl_cnx c) 2"
  shows "\<exists>s'. request_ack_cold_reset E s = Some (E_ERR_SUCCESS, s') \<and> mg_clients (fst s') = t1 \<and>
    power_cmds (snd s') = power_cmds (snd s) \<and>
    mg_state (fst s') = (if all_acked then E_MMGR_MDM_RESET else mg_state (fst s)) \<and>
    (cli_req s AND E_CLI_REQ_PROD = 0 \<or> \<not> all_acked \<longrightarrow> sent (snd s') = sent (snd s))"
proof -
  have k: "clients_has_ack_cold t1 E_MUTE \<longleftrightarrow> all_acked"
    by (simp add: all_acked_def clients_has_ack_cold_def check_all_clients_ack_spec E_CNX_COLD_RESET_def flag_simps)
  have np: "no_payload E_MMGR_RESPONSE_MODEM_BACKUP_PRODUCTION" by (simp add: no_payload_def)
  obtain r where m: "on_client (\<lambda>c. client_set_request c E_CNX_COLD_RESET) s = Some (r, fst s\<lparr>mg_clients := t1\<rparr>, snd s)"
    using on_client_marks [OF assms(2)] by (auto simp: t1_def)
  define h2 where "h2 = snd (mdm_fw_backup_calib E (fl_fw (mg_flash (fst s))) (snd s))"
  have h2: "power_cmds h2 = power_cmds (snd s)"
    using plain_fw_calib(2) [of "snd s" "snd s"] by (auto simp: h2_def intro: power_plain)
  let ?s2 = "(fst s\<lparr>mg_clients := t1\<rparr>, h2)"
  obtain s3 where 3: "tell_all E E_MMGR_RESPONSE_MODEM_BACKUP_PRODUCTION D_null ?s2 = Some s3"
    "told E_MMGR_RESPONSE_MODEM_BACKUP_PRODUCTION ?s2 s3"
    by (rule tell_all_told [OF assms(1) np])
  have "mg_clients (fst s3) = t1" "power_cmds (snd s3) = power_cmds (snd s)"
    using 3(2) h2 by (auto simp: told_def)
  then show ?thesis
    using m 3(1) [unfolded h2_def] h2 [unfolded h2_def] k
    by (cases "clients_has_ack_cold t1 E_MUTE")
      (simp_all add: request_ack_cold_reset_def set_mmgr_state_def set_cli_req_def case_prod_unfold Let_def)
qed

theorem cold_reset_acknowledged_witness:
  "\<exists>s'. request_ack_cold_reset env_ready (daemon_example\<lparr>mg_state := E_MMGR_WAIT_COLD_ACK\<rparr>, []) =
     Some (E_ERR_SUCCESS, s') \<and> mg_state (fst s') = E_MMGR_MDM_RESET"
proof -
  let ?s = "(daemon_example\<lparr>mg_state := E_MMGR_WAIT_COLD_ACK\<rparr>, []) :: st"
  have c: "the_client (fst ?s) = Some (slot_example 5)"
    by (simp add: the_client_def daemon_example_def mmgr_zero_def clients_example_def)
  have "\<forall>c \<in> awaited (marked E_CNX_COLD_RESET (fst ?s)) E_MMGR_NOTIFY_MODEM_COLD_RESET. bit (cl_cnx c) 2"
    by (auto simp: marked_def awaited_def daemon_example_def mmgr_zero_def clients_example_def slot_example_def
        E_CNX_COLD_RESET_def CLOSED_FD_def flag_simps)
  with cold_reset_acknowledged [OF alloc_ok_env_ready c] show ?thesis by auto
qed

end
