(* ===== verification/Daemon_Requests.thy ===== *)
theory Daemon_Requests
  imports Daemon_Behaviour
begin

text \<open>
  What clients can make the daemon do: the release of the modem, the departure of a client, requests of
  clients that have not introduced themselves, and the table that says which request is served in which
  state.
\<close>

section \<open>Releasing the modem\<close>

lemma timers_off_armed: "\<not> armed (mg_timer (fst (timers_off s))) ty"
  "tm_timeout (mg_timer (fst (timers_off s))) = tm_timeout (mg_timer (fst s))"
  by (simp_all add: timers_off_def timer_stop_all_def armed_bit)

lemma the_client_marked [simp]:
  "the_client (m\<lparr>mg_clients := marked flg m\<rparr>) =
     map_option (\<lambda>c. c\<lparr>cl_cnx := cl_cnx c OR flg\<rparr>) (the_client m)"
  by (simp add: the_client_def marked_def Let_def)

lemma released_spec:
  "clients_has_resource t p \<longleftrightarrow> \<not> (\<forall>c \<in> set (cl_list t). is_open c \<longrightarrow> bit (cl_cnx c) 4)"
  by (auto simp: clients_has_resource_def resource_loop_spec E_CNX_RESOURCE_RELEASED_def flag_simps)

lemma release_runs:
  assumes "alloc_ok E" "the_client (fst s) = Some c"
  defines "t1 \<equiv> marked E_CNX_RESOURCE_RELEASED (fst s)"
  defines "free \<equiv> (\<forall>c \<in> set (cl_list t1). is_open c \<longrightarrow> bit (cl_cnx c) 4) \<and> \<not> mg_dsda (fst s)"
  shows "\<exists>s' acks asks. request_resource_release E s = Some (E_ERR_SUCCESS, s') \<and> mg_clients (fst s') = t1 \<and>
    power_cmds (snd s') = power_cmds (snd s) \<and> sent (snd s') = sent (snd s) @ acks @ asks \<and>
    list_all2 (notice E_MMGR_ACK) (if subscribed c E_MMGR_ACK then [c] else []) acks \<and>
    list_all2 (notice E_MMGR_NOTIFY_MODEM_SHUTDOWN)
      (if free then audience t1 E_MMGR_NOTIFY_MODEM_SHUTDOWN else []) asks \<and>
    (if free
     then mg_state (fst s') = E_MMGR_WAIT_SHT_ACK \<and>
       (\<forall>ty. armed (mg_timer (fst s')) ty \<longleftrightarrow>
          ty = E_TIMER_MODEM_SHUTDOWN_ACK \<and> tm_timeout (mg_timer (fst s)) ty \<noteq> 0)
     else fst s' = fst s\<lparr>mg_clients := t1\<rparr>)"
proof -
  have np: "no_payload E_MMGR_ACK" "no_payload E_MMGR_NOTIFY_MODEM_SHUTDOWN" by (simp_all add: no_payload_def)
  obtain h acks where a: "reply E E_MMGR_ACK s = Some (fst s, h)" "power_cmds h = power_cmds (snd s)"
    "sent h = sent (snd s) @ acks" "list_all2 (notice E_MMGR_ACK) (if subscribed c E_MMGR_ACK then [c] else []) acks"
    by (rule reply_sent [OF assms(1) np(1) assms(2)])
  let ?s2 = "(fst s\<lparr>mg_clients := t1\<rparr>, h)"
  obtain r where m: "on_client (\<lambda>c. client_set_request c E_CNX_RESOURCE_RELEASED) (fst s, h) = Some (r, ?s2)"
    using on_client_marks [of "(fst s, h)" c] assms(2) by (auto simp: t1_def)
  obtain s3 where t: "tell_all E E_MMGR_NOTIFY_MODEM_SHUTDOWN D_null ?s2 = Some s3"
    "told E_MMGR_NOTIFY_MODEM_SHUTDOWN ?s2 s3"
    by (rule tell_all_told [OF assms(1) np(2)])
  then obtain asks where s3: "fst s3 = fst ?s2" "sent (snd s3) = sent h @ asks" "power_cmds (snd s3) = power_cmds h"
    "list_all2 (notice E_MMGR_NOTIFY_MODEM_SHUTDOWN) (audience t1 E_MMGR_NOTIFY_MODEM_SHUTDOWN) asks"
    by (auto simp: told_def)
  let ?s' = "set_mmgr_state E_MMGR_WAIT_SHT_ACK (timer_on E E_TIMER_MODEM_SHUTDOWN_ACK (timers_off s3))"
  have fr: "free \<longleftrightarrow> \<not> clients_has_resource t1 E_PRINT \<and> \<not> mg_dsda (fst s)"
    by (auto simp: released_spec free_def)
  have run: "request_resource_release E s = Some (E_ERR_SUCCESS, if free then ?s' else ?s2)"
    using a(1) m t(1) by (simp add: request_resource_release_def fr)
  show ?thesis
  proof (cases free)
    case True
    have "mg_clients (fst ?s') = t1" "sent (snd ?s') = sent (snd s) @ acks @ asks" "mg_state (fst ?s') = E_MMGR_WAIT_SHT_ACK"
      "power_cmds (snd ?s') = power_cmds (snd s)"
      "armed (mg_timer (fst ?s')) ty \<longleftrightarrow> ty = E_TIMER_MODEM_SHUTDOWN_ACK \<and> tm_timeout (mg_timer (fst s)) ty \<noteq> 0" for ty
      using s3 a timers_off_armed [of s3]
        ts.start_armed [where E = E and h = "snd (timers_off s3)" and t = "mg_timer (fst (timers_off s3))"
          and k = E_TIMER_MODEM_SHUTDOWN_ACK]
      by (simp_all add: set_state_fst timer_on_fst cong: conj_cong)
    with run True a(4) s3(4) show ?thesis by (intro exI [of _ ?s'] exI [of _ acks] exI [of _ asks]) simp
  next
    case False
    with run a show ?thesis by (intro exI [of _ ?s2] exI [of _ acks] exI [of _ "[]"]) simp
  qed
qed

text \<open>
  C9: The modem is switched off when its last user lets go. A release is acknowledged and marks its client.
  If then no open client holds the modem and the platform has a single modem, every subscriber is asked
  once to accept the shutdown, all timers but the one of this question are stopped and the daemon waits in
  \<^verbatim>\<open>E_MMGR_WAIT_SHT_ACK\<close>; in every other case nothing else changes. The request itself
  never commands the modem.
\<close>

theorem release_shuts_down_last:
  assumes "alloc_ok E" "the_client (fst s) = Some c"
  defines "t1 \<equiv> marked E_CNX_RESOURCE_RELEASED (fst s)"
  defines "free \<equiv> (\<forall>c \<in> set (cl_list t1). is_open c \<longrightarrow> bit (cl_cnx c) 4) \<and> \<not> mg_dsda (fst s)"
  shows "\<exists>s' acks asks. request_resource_release E s = Some (E_ERR_SUCCESS, s') \<and> mg_clients (fst s') = t1 \<and>
    power_cmds (snd s') = power_cmds (snd s) \<and> sent (snd s') = sent (snd s) @ acks @ asks \<and>
    list_all2 (notice E_MMGR_ACK) (if subscribed c E_MMGR_ACK then [c] else []) acks \<and>
    list_all2 (notice E_MMGR_NOTIFY_MODEM_SHUTDOWN)
      (if free then audience t1 E_MMGR_NOTIFY_MODEM_SHUTDOWN else []) asks \<and>
    (if free
     then mg_state (fst s') = E_MMGR_WAIT_SHT_ACK \<and>
       (\<forall>ty. armed (mg_timer (fst s')) ty \<longleftrightarrow>
          ty = E_TIMER_MODEM_SHUTDOWN_ACK \<and> tm_timeout (mg_timer (fst s)) ty \<noteq> 0)
     else fst s' = fst s\<lparr>mg_clients := t1\<rparr>)"
  using release_runs [OF assms(1,2)] unfolding free_def t1_def .

theorem release_shuts_down_last_witness:
  "\<exists>s'. request_resource_release env_ready (daemon_example\<lparr>mg_state := E_MMGR_MDM_UP\<rparr>, []) = Some (E_ERR_SUCCESS, s') \<and>
     mg_state (fst s') = E_MMGR_WAIT_SHT_ACK \<and> power_cmds (snd s') = []"
proof -
  let ?s = "(daemon_example\<lparr>mg_state := E_MMGR_MDM_UP\<rparr>, []) :: st"
  have c: "the_client (fst ?s) = Some (slot_example 5)" "\<not> mg_dsda (fst ?s)"
    by (simp_all add: the_client_def daemon_example_def mmgr_zero_def clients_example_def)
  have a: "\<forall>c \<in> set (cl_list (marked E_CNX_RESOURCE_RELEASED (fst ?s))). is_open c \<longrightarrow> bit (cl_cnx c) 4"
    by (auto simp: marked_def daemon_example_def mmgr_zero_def clients_example_def slot_example_def
        E_CNX_RESOURCE_RELEASED_def CLOSED_FD_def flag_simps)
  from release_shuts_down_last [OF alloc_ok_env_ready c(1)] a c(2) show ?thesis
    by (auto simp: power_cmds_def)
qed

section \<open>Departing clients\<close>

lemma release_hdler:
  assumes "st \<noteq> E_MMGR_NUM"
  shows "hdler_table_of b st E_MMGR_RESOURCE_RELEASE =
    Some (if st \<in> {E_MMGR_MDM_UP, E_MMGR_WAIT_COLD_ACK} then H_request_resource_release
          else if st \<in> {E_MMGR_MDM_OFF, E_MMGR_WAIT_SHT_ACK} then H_request_resource_release_mdm_off
          else H_client_nack)"
  using assms by (cases st; cases b)
    (simp_all add: hdler_table_of_def fake_table_def set_always_def default_table_def Let_def)

lemma marked_fds [simp]: "map cl_fd (cl_list (marked flg m)) = map cl_fd (cl_list (mg_clients m))"
  by (cases "rq_client (mg_request m) < length (cl_list (mg_clients m))")
    (simp_all add: marked_def map_update list_update_beyond list_update_same_conv)

text \<open>Well-formedness of the table is a matter of its descriptors.\<close>

lemma clients_wf_fds:
  "clients_wf t \<longleftrightarrow> (let fds = map cl_fd (cl_list t); op = filter (\<lambda>fd. fd \<noteq> CLOSED_FD) fds in
     list_size t = int (length fds) \<and> connected t = int (length op) \<and> distinct op)"
  by (simp add: clients_wf_def filter_map comp_def)

lemma marked_wf: "clients_wf (mg_clients m) \<Longrightarrow> clients_wf (marked flg m)"
  unfolding clients_wf_fds marked_fds by (simp add: marked_def)

lemma find_slot_fds: "map cl_fd cs = map cl_fd cs' \<Longrightarrow> find_slot fd cs = find_slot fd cs'"
proof (induction cs arbitrary: cs')
  case (Cons c cs)
  then obtain c' ds where "cs' = c' # ds" "cl_fd c' = cl_fd c" "map cl_fd cs = map cl_fd ds" by (cases cs') auto
  with Cons.IH [of ds] show ?case by simp
qed simp

lemma marked_lookup:
  assumes "client_find (mg_clients m) fd = Some (rq_client (mg_request m))"
  shows "client_lookup (marked flg m) =
    (client_lookup (mg_clients m))(fd := map_option (\<lambda>c. c\<lparr>cl_cnx := cl_cnx c OR flg\<rparr>) (client_lookup (mg_clients m) fd))"
proof
  fix x
  let ?i = "rq_client (mg_request m)" and ?t = "mg_clients m"
  have find: "client_find (marked flg m) = client_find ?t"
    using find_slot_fds [OF marked_fds] by (simp add: client_find_def fun_eq_iff)
  have slot: "?i < length (cl_list ?t)" "cl_fd (cl_list ?t ! ?i) = fd"
    using assms find_slot_SomeD [of fd "cl_list ?t" ?i] by (auto simp: client_find_def split: if_splits)
  have other: "j \<noteq> ?i" if "client_find ?t x = Some j" "x \<noteq> fd" for j
    using that slot find_slot_SomeD [of x "cl_list ?t" j] by (auto simp: client_find_def split: if_splits)
  show "client_lookup (marked flg m) x = ((client_lookup ?t)
      (fd := map_option (\<lambda>c. c\<lparr>cl_cnx := cl_cnx c OR flg\<rparr>) (client_lookup ?t fd))) x"
  proof (cases "x = fd")
    case True
    with assms slot show ?thesis unfolding client_lookup_def find by (simp add: marked_def)
  next
    case False
    then show ?thesis using other [OF _ False] unfolding client_lookup_def find
      by (cases "client_find ?t x") (auto simp: marked_def)
  qed
qed

lemma find_slot_member:
  assumes "distinct (map cl_fd (filter is_open cs))" "c \<in> set cs" "is_open c"
  shows "\<exists>i. find_slot (cl_fd c) cs = Some i \<and> cs ! i = c"
  using assms
proof (induction cs)
  case (Cons a cs)
  show ?case
  proof (cases "a = c")
    case False
    then have "c \<in> set cs" using Cons.prems by simp
    moreover have "distinct (map cl_fd (filter is_open cs))" using Cons.prems(1) by (simp split: if_splits)
    moreover have "cl_fd a \<noteq> cl_fd c" using Cons.prems(1,3) \<open>c \<in> set cs\<close> by (auto split: if_splits)
    ultimately show ?thesis using Cons.IH Cons.prems(3) by auto
  qed simp
qed simp

text \<open>The open records of a well-formed table are the range of its look-up.\<close>

lemma all_open_iff:
  assumes "clients_wf t"
  shows "(\<forall>c \<in> set (cl_list t). is_open c \<longrightarrow> P c) \<longleftrightarrow> (\<forall>x c. client_lookup t x = Some c \<longrightarrow> P c)"
proof (intro iffI ballI impI allI)
  fix x c assume "\<forall>c \<in> set (cl_list t). is_open c \<longrightarrow> P c" "client_lookup t x = Some c"
  then show "P c"
    using find_slot_SomeD [of x "cl_list t"] by (auto simp: client_lookup_def client_find_def split: if_splits)
next
  fix c assume "\<forall>x c. client_lookup t x = Some c \<longrightarrow> P c" "c \<in> set (cl_list t)" "is_open c"
  moreover from this have "client_lookup t (cl_fd c) = Some c"
    using find_slot_member [of "cl_list t" c] assms by (auto simp: client_lookup_def client_find_def clients_wf_def)
  ultimately show "P c" by blast
qed

lemma marked_all_released:
  assumes "clients_wf (mg_clients m)" "client_find (mg_clients m) fd = Some (rq_client (mg_request m))"
  shows "(\<forall>c \<in> set (cl_list (marked E_CNX_RESOURCE_RELEASED m)). is_open c \<longrightarrow> bit (cl_cnx c) 4) \<longleftrightarrow>
    (\<forall>x c. x \<noteq> fd \<longrightarrow> client_lookup (mg_clients m) x = Some c \<longrightarrow> bit (cl_cnx c) 4)"
  unfolding all_open_iff [OF marked_wf [OF assms(1)]] marked_lookup [OF assms(2)]
  by (auto simp: E_CNX_RESOURCE_RELEASED_def flag_simps)

text \<open>Serving a release on behalf of the client of the request, in whatever state.\<close>

lemma release_served:
  assumes "alloc_ok E" "base (fst s)" "clients_wf (mg_clients (fst s))" "the_client (fst s) = Some c"
    and "client_find (mg_clients (fst s)) fd = Some (rq_client (mg_request (fst s)))"
  obtains f r s' where
    "mg_hdler_client (fst s) (mg_state (fst s)) E_MMGR_RESOURCE_RELEASE = Some f" "call_client E f s = Some (r, s')"
    "mg_clients (fst s') = mg_clients (fst s) \<or> mg_clients (fst s') = marked E_CNX_RESOURCE_RELEASED (fst s)"
    "power_cmds (snd s') = power_cmds (snd s)"
    "mg_state (fst s') =
      (if mg_state (fst s) \<in> {E_MMGR_MDM_UP, E_MMGR_WAIT_COLD_ACK} \<and> \<not> mg_dsda (fst s) \<and>
          (\<forall>x c. x \<noteq> fd \<longrightarrow> client_lookup (mg_clients (fst s)) x = Some c \<longrightarrow> bit (cl_cnx c) 4)
       then E_MMGR_WAIT_SHT_ACK else mg_state (fst s))"
proof -
  let ?st = "mg_state (fst s)"
  let ?all = "\<forall>x c. x \<noteq> fd \<longrightarrow> client_lookup (mg_clients (fst s)) x = Some c \<longrightarrow> bit (cl_cnx c) 4"
  obtain f where f: "mg_hdler_client (fst s) ?st E_MMGR_RESOURCE_RELEASE = Some f"
    "f = (if ?st \<in> {E_MMGR_MDM_UP, E_MMGR_WAIT_COLD_ACK} then H_request_resource_release
          else if ?st \<in> {E_MMGR_MDM_OFF, E_MMGR_WAIT_SHT_ACK} then H_request_resource_release_mdm_off
          else H_client_nack)"
    using assms(2) release_hdler [of ?st] by (auto simp: base_def)
  consider "f = H_request_resource_release" "?st \<in> {E_MMGR_MDM_UP, E_MMGR_WAIT_COLD_ACK}"
    | "f = H_request_resource_release_mdm_off" "?st \<notin> {E_MMGR_MDM_UP, E_MMGR_WAIT_COLD_ACK}"
    | "f = H_client_nack" "?st \<notin> {E_MMGR_MDM_UP, E_MMGR_WAIT_COLD_ACK}"
    using f(2) by (auto split: if_splits)
  then show thesis
  proof cases
    case 1
    let ?free = "?all \<and> \<not> mg_dsda (fst s)"
    obtain s' where "request_resource_release E s = Some (E_ERR_SUCCESS, s')"
      "mg_clients (fst s') = marked E_CNX_RESOURCE_RELEASED (fst s)" "power_cmds (snd s') = power_cmds (snd s)"
      "if ?free then mg_state (fst s') = E_MMGR_WAIT_SHT_ACK
       else fst s' = fst s\<lparr>mg_clients := marked E_CNX_RESOURCE_RELEASED (fst s)\<rparr>"
      using release_runs [OF assms(1,4)] unfolding marked_all_released [OF assms(3,5)] by (meson)
    with 1 f(1) show thesis by (intro that [of f E_ERR_SUCCESS s']) (auto simp: call_client_def split: if_splits)
  next
    case 2
    obtain r where m: "on_client (\<lambda>c. client_set_request c E_CNX_RESOURCE_RELEASED) s =
        Some (r, fst s\<lparr>mg_clients := marked E_CNX_RESOURCE_RELEASED (fst s)\<rparr>, snd s)"
      using on_client_marks [OF assms(4)] by blast
    let ?s1 = "(fst s\<lparr>mg_clients := marked E_CNX_RESOURCE_RELEASED (fst s)\<rparr>, snd s)"
    obtain h where "reply E E_MMGR_ACK ?s1 = Some (fst ?s1, h)" "power_cmds h = power_cmds (snd ?s1)"
      by (rule reply_sent [OF assms(1), of E_MMGR_ACK ?s1]) (auto simp: no_payload_def assms(4))
    with 2 m f(1) show thesis
      by (intro that [of f E_ERR_SUCCESS "(fst ?s1, h)"])
        (simp_all add: call_client_def request_resource_release_mdm_off_def)
  next
    case 3
    obtain h r where "inform_client E E_MMGR_NACK s = Some (r, fst s, h)" "power_cmds h = power_cmds (snd s)"
      by (rule reply_sent [OF assms(1) _ assms(4), of E_MMGR_NACK]) (auto simp: no_payload_def)
    with 3 f(1) show thesis
      by (intro that [of f r "(fst s, h)"]) (simp_all add: call_client_def client_nack_def)
  qed
qed

text \<open>
  C10: A client that dies lets go of the modem. When the socket of a known client reports the end of
  the connection, the client's slot is freed and the socket closed, all other clients keep their records, and the
  modem is treated as released: if the modem was usable and no other open client holds it, the daemon starts the
  shutdown dialogue; otherwise its state is unchanged. The driver is not commanded.
\<close>

theorem departing_client_releases:
  assumes "alloc_ok E" "base (fst s)" "clients_wf (mg_clients (fst s))" "event_fd (fst s) = Some fd"
    and "client_find (mg_clients (fst s)) fd = Some i"
    and "msg_get_header E fd (msg_hdr (rq_msg (mg_request (fst s)))) (snd s) = Some ((E_ERR_DISCONNECTED, hdr), h1)"
  shows "\<exists>s'. known_client E s = Some (E_ERR_SUCCESS, s') \<and>
    client_lookup (mg_clients (fst s')) = (client_lookup (mg_clients (fst s)))(fd := None) \<and>
    clients_wf (mg_clients (fst s')) \<and> hd (snd s') = Sock (X_close fd) \<and>
    power_cmds (snd s') = power_cmds (snd s) \<and>
    mg_state (fst s') =
      (if mg_state (fst s) \<in> {E_MMGR_MDM_UP, E_MMGR_WAIT_COLD_ACK} \<and> \<not> mg_dsda (fst s) \<and>
          (\<forall>x c. x \<noteq> fd \<longrightarrow> client_lookup (mg_clients (fst s)) x = Some c \<longrightarrow> bit (cl_cnx c) 4)
       then E_MMGR_WAIT_SHT_ACK else mg_state (fst s))"
proof -
  let ?t = "mg_clients (fst s)"
  define s1 where "s1 = (fst s\<lparr>mg_request := (mg_request (fst s))
    \<lparr>rq_msg := (rq_msg (mg_request (fst s)))\<lparr>msg_hdr := hdr\<rparr>, rq_client := i\<rparr>\<rparr>, h1)"
  have i: "fd \<noteq> CLOSED_FD" "i < length (cl_list ?t)"
    using assms(5) find_slot_SomeD [of fd "cl_list ?t" i] by (auto simp: client_find_def split: if_splits)
  have p: "power_cmds h1 = power_cmds (snd s)"
    using assms(6) by (auto simp: msg_get_header_def cnx_read_def recv_def ext_defs bind_eq_Some_conv Let_def split: if_splits)
  have s1: "base (fst s1)" "clients_wf (mg_clients (fst s1))" "the_client (fst s1) = Some (cl_list ?t ! i)"
    "client_find (mg_clients (fst s1)) fd = Some (rq_client (mg_request (fst s1)))"
    using assms(2,3,5) i by (simp_all add: s1_def the_client_def)
  have same: "mg_clients (fst s1) = ?t" "mg_state (fst s1) = mg_state (fst s)" "mg_dsda (fst s1) = mg_dsda (fst s)" "snd s1 = h1"
    by (simp_all add: s1_def)
  obtain f r s2 where f: "mg_hdler_client (fst s1) (mg_state (fst s)) E_MMGR_RESOURCE_RELEASE = Some f"
    "call_client E f s1 = Some (r, s2)"
    and c2: "mg_clients (fst s2) = ?t \<or> mg_clients (fst s2) = marked E_CNX_RESOURCE_RELEASED (fst s1)"
    and s2: "power_cmds (snd s2) = power_cmds h1" "mg_state (fst s2) =
      (if mg_state (fst s) \<in> {E_MMGR_MDM_UP, E_MMGR_WAIT_COLD_ACK} \<and> \<not> mg_dsda (fst s) \<and>
          (\<forall>x c. x \<noteq> fd \<longrightarrow> client_lookup ?t x = Some c \<longrightarrow> bit (cl_cnx c) 4)
       then E_MMGR_WAIT_SHT_ACK else mg_state (fst s))"
    using release_served [OF assms(1) s1] unfolding same by blast
  have l: "client_lookup ?t fd \<noteq> None" by (simp add: client_lookup_def assms(5))
  have look: "clients_wf (mg_clients (fst s2))" "client_lookup (mg_clients (fst s2)) fd \<noteq> None"
    "(client_lookup (mg_clients (fst s2)))(fd := None) = (client_lookup ?t)(fd := None)"
    using c2 marked_wf [OF s1(2)] marked_lookup [OF s1(4)] assms(3) l by (auto simp: same)
  have ok: "ok_result (client_remove E (mg_clients (fst s2)) fd (snd s2)) \<noteq> None"
    using look(2) by (simp add: ct.remove_None [OF look(1)])
  obtain t' where t': "client_remove E (mg_clients (fst s2)) fd (snd s2) =
      ((E_ERR_SUCCESS, t'), Sock (X_close fd) # Sock (X_shutdown fd) # snd s2)"
    using ok by (cases "remove_from_list (mg_clients (fst s2)) fd")
      (auto simp: ok_result_def client_remove_def cnx_close_def xint_def split: if_splits)
  have "known_client E s = Some (E_ERR_SUCCESS, fst s2\<lparr>mg_clients := t'\<rparr>, Sock (X_close fd) # Sock (X_shutdown fd) # snd s2)"
    using assms(4-6) f t' by (simp add: known_client_def s1_def)
  moreover have "ok_result (client_remove E (mg_clients (fst s2)) fd (snd s2)) = Some t'" by (simp add: t' ok_result_def)
  note client_remove_contract [OF look(1) this]
  ultimately show ?thesis
    using s2 p look(3) by simp
qed

theorem departing_client_releases_witness:
  "\<exists>s'. known_client env_ok (daemon_example\<lparr>mg_state := E_MMGR_MDM_UP,
      mg_events := (mg_events daemon_example)\<lparr>evn_cur_ev := 0, evn_nfds := 1, evn_fds := [5]\<rparr>\<rparr>, []) =
      Some (E_ERR_SUCCESS, s') \<and> mg_state (fst s') = E_MMGR_WAIT_SHT_ACK \<and>
      client_lookup (mg_clients (fst s')) 5 = None"
proof -
  let ?m = "daemon_example\<lparr>mg_state := E_MMGR_MDM_UP,
    mg_events := (mg_events daemon_example)\<lparr>evn_cur_ev := 0, evn_nfds := 1, evn_fds := [5]\<rparr>\<rparr>"
  have "base (fst (?m, []))"
    using daemon_example_base by (simp add: base_def FIRST_EVENT_def)
  moreover have c: "mg_clients (fst (?m, [])) = clients_example" "\<not> mg_dsda (fst (?m, []))"
    by (simp_all add: daemon_example_def mmgr_zero_def)
  moreover have "event_fd (fst (?m, [])) = Some 5" by (simp add: event_fd_def)
  moreover have "client_find (mg_clients (fst (?m, []))) 5 = Some 0"
    unfolding c by (simp add: clients_example_def slot_example_def client_find_def CLOSED_FD_def)
  moreover have "msg_get_header env_ok 5 hdr [] = Some ((E_ERR_DISCONNECTED, hdr), [Sock (X_recv 5 SIZE_HEADER)])" for hdr
    by (simp add: msg_get_header_def cnx_read_def recv_def env_ok_def)
  moreover have "client_lookup clients_example x = None" if "x \<noteq> 5" for x
    using that by (auto simp: client_lookup_def client_find_def clients_example_def slot_example_def CLOSED_FD_def)
  ultimately show ?thesis
    using departing_client_releases [OF alloc_ok_env_ok, of "(?m, [])" 5 0] clients_example_wf by auto
qed


section \<open>Refused requests\<close>

text \<open>The answer to a request whose body was read, \<open>proceed\<close> telling whether completely.\<close>

definition answer_request :: "env \<Rightarrow> bool \<Rightarrow> e_mmgr_errors \<Rightarrow> st \<Rightarrow> (e_mmgr_errors \<times> st) option" where
  "answer_request E proceed ret s1 =
     (let hdr = msg_hdr (rq_msg (mg_request (fst s1))) in
      if proceed \<and> hdr_id hdr < request_id E_MMGR_NUM_REQUESTS
      then
        let req = request_of_id (hdr_id hdr) in
        if \<not> client_is_registered (the_client (fst s1)) \<and> req \<noteq> E_MMGR_SET_NAME \<and> req \<noteq> E_MMGR_SET_EVENTS
        then do { s2 \<leftarrow> reply E E_MMGR_NACK s1; Some (ret, s2) }
        else (case mg_hdler_client (fst s1) (mg_state (fst s1)) req of
                None \<Rightarrow> Some (ret, s1)
              | Some f \<Rightarrow> call_client E f s1)
      else Some (ret, s1))"

lemma request_data_frame [simp]:
  "the_client (fst (set_request_data d s)) = the_client (fst s)"
  "msg_hdr (rq_msg (mg_request (fst (set_request_data d s)))) = msg_hdr (rq_msg (mg_request (fst s)))"
  "snd (set_request_data d s) = snd s"
  "set_request_data d (fst (set_request_data d' s), h) = (fst (set_request_data d s), h)"
  by (simp_all add: set_request_data_def the_client_def Let_def)

lemma cnx_read_log: "snd (cnx_read E fd n h) = Sock (X_recv fd n) # h"
  by (simp add: cnx_read_def recv_def case_prod_unfold Let_def)

lemma client_request_reads:
  assumes "alloc_ok E" "the_client (fst s) = Some c"
  obtains proceed ret d h where "client_request E s = answer_request E proceed ret (fst (set_request_data d s), h)"
    "power_cmds h = power_cmds (snd s)" "sent h = sent (snd s)"
    "hdr_len (msg_hdr (rq_msg (mg_request (fst s)))) = 0 \<Longrightarrow> proceed"
proof (cases "unat (hdr_len (msg_hdr (rq_msg (mg_request (fst s))))) > 0")
  case False
  moreover have "(fst (set_request_data None s), snd s) = set_request_data None s" by (simp add: prod_eq_iff)
  ultimately have "client_request E s = answer_request E True E_ERR_FAILED (fst (set_request_data None s), snd s)"
    using assms(2) by (simp add: client_request_def answer_request_def Let_def)
  then show thesis by (rule that) simp_all
next
  case True
  let ?n = "unat (hdr_len (msg_hdr (rq_msg (mg_request (fst s)))))"
  let ?h1 = "Libc (X_calloc ?n) # snd s"
  obtain ret buf n h2 where r: "cnx_read E (cl_fd c) ?n ?h1 = ((ret, buf, n), h2)" by (metis prod.exhaust)
  then have h2: "h2 = Sock (X_recv (cl_fd c) ?n) # ?h1"
    using cnx_read_log [of E "cl_fd c" ?n ?h1] by simp
  have "calloc E ?n (snd s) = (Some (replicate ?n 0), ?h1)"
    using assms(1) by (simp add: calloc_def xint_def alloc_ok_def)
  then have "client_request E s =
      answer_request E (ret = E_ERR_SUCCESS \<and> n = ?n) ret (fst (set_request_data (Some buf) s), h2)"
    using True assms(2) r
    by (simp add: client_request_def answer_request_def client_get_fd_def Let_def)
  then show thesis
    by (rule that) (use True h2 in \<open>auto simp: sent_def is_send_def\<close>)
qed

text \<open>
  C11: A client that has not introduced itself is not served. Whatever request it sends, other than giving
  its name and its filter, the daemon's context is unchanged but for the received message, the
  modem is not commanded, and the only message that can leave is a single NACK to this very client; for a
  request without a body it always leaves, if the client listens to it.
\<close>

theorem unregistered_client_refused:
  assumes "alloc_ok E" "the_client (fst s) = Some c" "\<not> client_is_registered (Some c)"
  defines "hdr \<equiv> msg_hdr (rq_msg (mg_request (fst s)))"
  assumes "request_of_id (hdr_id hdr) \<notin> {E_MMGR_SET_NAME, E_MMGR_SET_EVENTS}"
  shows "\<exists>ret s' d nacks. client_request E s = Some (ret, s') \<and> fst s' = fst (set_request_data d s) \<and>
    power_cmds (snd s') = power_cmds (snd s) \<and> sent (snd s') = sent (snd s) @ nacks \<and>
    (nacks = [] \<or> list_all2 (notice E_MMGR_NACK) [c] nacks) \<and>
    (hdr_len hdr = 0 \<and> hdr_id hdr < request_id E_MMGR_NUM_REQUESTS \<and> subscribed c E_MMGR_NACK \<longrightarrow> nacks \<noteq> [])"
proof -
  obtain proceed ret d h where r: "client_request E s = answer_request E proceed ret (fst (set_request_data d s), h)"
    "power_cmds h = power_cmds (snd s)" "sent h = sent (snd s)" "hdr_len hdr = 0 \<Longrightarrow> proceed"
    using client_request_reads [OF assms(1,2)] unfolding hdr_def by metis
  let ?s1 = "(fst (set_request_data d s), h)"
  show ?thesis
  proof (cases "proceed \<and> hdr_id hdr < request_id E_MMGR_NUM_REQUESTS")
    case False
    then have "client_request E s = Some (ret, ?s1)" using r(1) by (auto simp: answer_request_def hdr_def Let_def)
    with r False show ?thesis by (intro exI [of _ ret] exI [of _ ?s1] exI [of _ d] exI [of _ "[]"]) auto
  next
    case True
    obtain h2 nacks where n: "reply E E_MMGR_NACK ?s1 = Some (fst ?s1, h2)" "power_cmds h2 = power_cmds h"
      "sent h2 = sent h @ nacks" "list_all2 (notice E_MMGR_NACK) (if subscribed c E_MMGR_NACK then [c] else []) nacks"
      by (rule reply_sent [OF assms(1), of E_MMGR_NACK ?s1 c]) (auto simp: no_payload_def assms(2))
    then have "client_request E s = Some (ret, fst ?s1, h2)"
      using r(1) True assms(2,3,5) by (auto simp: answer_request_def hdr_def Let_def)
    with n r show ?thesis
      by (intro exI [of _ ret] exI [of _ "(fst ?s1, h2)"] exI [of _ d] exI [of _ nacks]) (auto split: if_splits)
  qed
qed

theorem unregistered_client_refused_witness:
  "\<exists>ret s'. client_request env_ok (daemon_example
       \<lparr>mg_clients := clients_example\<lparr>cl_list := [(slot_example 5)\<lparr>cl_subscription := flag (ev_code E_MMGR_NACK)\<rparr>]\<rparr>,
        mg_request := \<lparr>rq_msg = \<lparr>msg_hdr = \<lparr>hdr_id = request_id E_MMGR_REQUEST_MODEM_RECOVERY, hdr_ts = 0, hdr_len = 0\<rparr>,
          msg_data = None\<rparr>, rq_client = 0\<rparr>\<rparr>, []) = Some (ret, s') \<and>
     mg_state (fst s') = mg_state daemon_example \<and> length (sent (snd s')) = 1"
proof -
  let ?c = "(slot_example 5)\<lparr>cl_subscription := flag (ev_code E_MMGR_NACK)\<rparr>"
  let ?m = "daemon_example\<lparr>mg_clients := clients_example\<lparr>cl_list := [?c]\<rparr>,
    mg_request := \<lparr>rq_msg = \<lparr>msg_hdr = \<lparr>hdr_id = request_id E_MMGR_REQUEST_MODEM_RECOVERY, hdr_ts = 0, hdr_len = 0\<rparr>,
      msg_data = None\<rparr>, rq_client = 0\<rparr>\<rparr>"
  have c: "the_client (fst (?m, [])) = Some ?c" by (simp add: the_client_def)
  have u: "\<not> client_is_registered (Some ?c)"
    by (simp add: client_is_registered_def slot_example_def E_CNX_defs flag_simps)
  have r: "request_of_id 4 = E_MMGR_REQUEST_MODEM_RECOVERY"
    by (simp add: request_of_id_def all_requests_def)
  have n: "subscribed ?c E_MMGR_NACK" by (simp add: subscribed_def flag_simps)
  obtain ret s' d nacks where "client_request env_ok (?m, []) = Some (ret, s')" "fst s' = fst (set_request_data d (?m, []))"
    "sent (snd s') = sent [] @ nacks" "list_all2 (notice E_MMGR_NACK) [?c] nacks"
    using unregistered_client_refused [OF alloc_ok_env_ok c u] r n by auto
  then show ?thesis by (auto simp: set_request_data_def sent_def dest!: list_all2_lengthD)
qed

section \<open>Who is served when\<close>

text \<open>The handlers that change what the modem does, and the requests that exist on test builds only.\<close>

definition commands_modem :: "client_hdler \<Rightarrow> bool" where
  "commands_modem f \<longleftrightarrow> f \<in> {H_request_modem_recovery, H_request_modem_restart, H_request_bkup_prod,
     H_request_force_modem_shutdown}"

definition test_only :: "e_mmgr_requests \<Rightarrow> bool" where
  "test_only req \<longleftrightarrow> req \<in> {E_MMGR_REQUEST_FAKE_DOWN, E_MMGR_REQUEST_FAKE_UP, E_MMGR_REQUEST_FAKE_MODEM_SHUTDOWN,
     E_MMGR_REQUEST_FAKE_MODEM_OUT_OF_SERVICE, E_MMGR_REQUEST_FAKE_CORE_DUMP, E_MMGR_REQUEST_FAKE_PLATFORM_REBOOT,
     E_MMGR_REQUEST_FAKE_CORE_DUMP_COMPLETE, E_MMGR_REQUEST_FAKE_AP_RESET, E_MMGR_REQUEST_FAKE_SELF_RESET,
     E_MMGR_REQUEST_FAKE_TFT_EVENT}"

text \<open>
  C12: The table of handlers is complete and says who is served when. Every state and every request of the
  protocol has a handler, and nothing outside has one. A request to recover, restart or shut
  down the modem is obeyed only while it is up; the modem is woken up only by an acquisition while it is off;
  acknowledgements count only while they are awaited; and the requests for tests are
  refused in every state unless the build is an engineering one.
\<close>

theorem handler_table_complete:
  "(hdler_table_of eng st req = None \<longleftrightarrow> st = E_MMGR_NUM \<or> req = E_MMGR_NUM_REQUESTS) \<and>
   (\<forall>f. hdler_table_of eng st req = Some f \<and> commands_modem f \<longrightarrow> st = E_MMGR_MDM_UP) \<and>
   (hdler_table_of eng st req = Some H_resource_acquire_wakeup_modem \<longleftrightarrow>
      st = E_MMGR_MDM_OFF \<and> req = E_MMGR_RESOURCE_ACQUIRE) \<and>
   (hdler_table_of eng st req = Some H_request_ack_cold_reset \<longleftrightarrow>
      st = E_MMGR_WAIT_COLD_ACK \<and> req = E_MMGR_ACK_MODEM_COLD_RESET) \<and>
   (hdler_table_of eng st req = Some H_request_ack_modem_shutdown \<longleftrightarrow>
      st = E_MMGR_WAIT_SHT_ACK \<and> req = E_MMGR_ACK_MODEM_SHUTDOWN) \<and>
   (test_only req \<and> \<not> eng \<and> st \<noteq> E_MMGR_NUM \<longrightarrow> hdler_table_of eng st req = Some H_client_nack)"
  by (cases req; cases eng)
    (simp_all add: hdler_table_of_def fake_table_def set_always_def default_table_def commands_modem_def test_only_def
      Let_def)

theorem handler_table_complete_witness:
  "test_only E_MMGR_REQUEST_FAKE_UP \<and>
   hdler_table_of False E_MMGR_MDM_UP E_MMGR_REQUEST_FAKE_UP = Some H_client_nack"
  using handler_table_complete [of False E_MMGR_MDM_UP E_MMGR_REQUEST_FAKE_UP] by (simp add: test_only_def)

end
