(* ===== verification/Daemon_Deadlines.thy ===== *)
theory Daemon_Deadlines
  imports Daemon_Behaviour
begin

text \<open>
  What happens when nobody answers: the time-outs of the cold reset and of the shutdown carry the operation
  on to its command to the modem. And the only way out of the event loop.
\<close>

section \<open>Cold reset\<close>

text \<open>The expiry of a single timer whose branch only stops it.\<close>

lemma stopped_not_elapsed:
  "timer_is_elapsed (snd (timer_stop t k)) ty cur \<longleftrightarrow> timer_is_elapsed t ty cur \<and> ty \<noteq> k"
  using ts.stop_armed [of t k] by (auto simp: timer_is_elapsed_def timer_stop_def)

lemma timer_event_single:
  assumes "\<And>ty. timer_is_elapsed t ty (env_time E (Libc X_boottime # h)) \<longleftrightarrow> ty = k"
  shows "k = E_TIMER_COLD_RESET_ACK \<Longrightarrow> timer_event E t cl st hw h =
      Some ((E_ERR_SUCCESS, snd (timer_stop t k), E_TIMER_RESET, cl), Libc X_boottime # h)"
    and "k = E_TIMER_MODEM_SHUTDOWN_ACK \<Longrightarrow> timer_event E t cl st hw h =
      Some ((E_ERR_SUCCESS, snd (timer_stop t k), E_TIMER_RESET OR E_TIMER_START_MDM_OFF, cl), Libc X_boottime # h)"
    and "k = E_TIMER_FMMO \<Longrightarrow> timer_event E t cl st hw h =
      Some ((E_ERR_SUCCESS, snd (timer_stop t k), E_TIMER_FINALIZE_MDM_OFF, cl), Libc X_boottime # h)"
  using assms
  by (simp_all add: timer_event_def xtime_def on_elapsed_def stop_and_def stopped_not_elapsed E_TIMER_NO_ACTION_def)

lemma timeout_event_resets:
  assumes "\<And>ty. timer_is_elapsed (mg_timer (fst s)) ty (env_time E (Libc X_boottime # snd s)) \<longleftrightarrow> ty = E_TIMER_COLD_RESET_ACK"
  shows "timeout_event E s = Some (E_ERR_SUCCESS,
    fst s\<lparr>mg_timer := snd (timer_stop (mg_timer (fst s)) E_TIMER_COLD_RESET_ACK), mg_state := E_MMGR_MDM_RESET\<rparr>,
    Libc X_boottime # snd s)"
  by (simp add: timeout_event_def timer_event_single(1) [OF assms refl] timer_action_defs flag_simps set_mmgr_state_def Let_def)

lemma recov_start_cold:
  assumes "rs_process r = recov_table cfg" "rc_enable cfg" "rc_cold_reset cfg > 0" "rs_op r \<noteq> E_FORCE_OOS"
    and "level_id r = E_EL_MODEM_COLD_RESET"
  shows "\<exists>r' h'. recov_start E r h = Some ((E_ERR_SUCCESS, r'), h') \<and> level_id r' = E_EL_MODEM_COLD_RESET \<and>
    rs_state r' = rs_state r \<and> rs_process r' = rs_process r"
  using assms by (auto simp: recov_start_def recov_reinit_def recov_table_simps xtime_def case_prod_unfold Let_def)

text \<open>
  C6: Nobody can hold up a cold reset for ever. If the daemon waits for acknowledgements and the timer of this wait
  is the one that has elapsed, then the handling of the time-out returns, and the work at the top
  of the very next turn returns after having given the driver exactly one power command, the
  cold reset (or the power-off that begins a power cycle), whatever the clients did or did not acknowledge.
\<close>

theorem silent_client_cannot_block_reset:
  assumes "base (fst s)" "mg_state (fst s) = E_MMGR_WAIT_COLD_ACK" "connected (mg_clients (fst s)) \<noteq> 0"
    and "rs_state (mg_reset (fst s)) = E_OPERATION_WAIT" "level_id (mg_reset (fst s)) = E_EL_MODEM_COLD_RESET"
    and "rs_process (mg_reset (fst s)) = recov_table cfg" "rc_enable cfg" "rc_cold_reset cfg > 0"
    and "rs_op (mg_reset (fst s)) \<noteq> E_FORCE_OOS" "cli_req s AND E_CLI_REQ_OFF = 0"
    and "\<And>ty. timer_is_elapsed (mg_timer (fst s)) ty (env_time E (Libc X_boottime # snd s)) \<longleftrightarrow> ty = E_TIMER_COLD_RESET_ACK"
    and "mdm_flash_prepare E (mg_flash (fst s)) (Libc X_boottime # snd s) = Some ((E_ERR_SUCCESS, fl), h1)"
  shows "\<exists>s1 s2. timeout_event E s = Some (E_ERR_SUCCESS, s1) \<and> pending_work E s1 = Some s2 \<and>
    power_cmds (snd s2) =
      (if mcd_ssic_hack (mg_mcd (fst s)) then MDM_CTRL_POWER_OFF else MDM_CTRL_COLD_RESET) # power_cmds (snd s) \<and>
    mg_state (fst s2) \<in> {E_MMGR_MDM_START, E_MMGR_MDM_CONF_ONGOING}"
proof -
  define s1 where "s1 = (fst s\<lparr>mg_timer := snd (timer_stop (mg_timer (fst s)) E_TIMER_COLD_RESET_ACK),
    mg_state := E_MMGR_MDM_RESET\<rparr>, Libc X_boottime # snd s)"
  have run: "timeout_event E s = Some (E_ERR_SUCCESS, s1)"
    unfolding s1_def by (rule timeout_event_resets [OF assms(11)])
  have prep: "mdm_flash_prepare E (mg_flash (fst s1)) (snd s1) = Some ((E_ERR_SUCCESS, fl), h1)"
    using assms(12) by (simp add: s1_def)
  obtain rm h where rm: "recov_start E (mg_reset (fst s1)) h1 = Some ((E_ERR_SUCCESS, rm), h)"
    "level_id rm = E_EL_MODEM_COLD_RESET" "rs_state rm = E_OPERATION_WAIT" "rs_process rm = recov_table cfg"
    using recov_start_cold [OF assms(6-9,5), of E h1] assms(4,6) by (auto simp: s1_def)
  have "base (fst s1)" "connected (mg_clients (fst s1)) \<noteq> 0"
    using assms(1,3) by (simp_all add: s1_def base_def)
  with rm prep obtain s2 where s2: "reset_modem E s1 = Some (E_ERR_SUCCESS, s2)" "power_cmds (snd s2) =
      (if mcd_ssic_hack (mg_mcd (fst s1)) then MDM_CTRL_POWER_OFF else MDM_CTRL_COLD_RESET) # power_cmds (snd s1)"
    "mg_state (fst s2) \<in> {E_MMGR_MDM_START, E_MMGR_MDM_CONF_ONGOING}"
    using cold_reset_runs [of s1 E fl rm h cfg] by (auto simp: reset_begins_def)
  have "pending_work E s1 = Some (set_cli_req (cli_req s2 AND NOT E_CLI_REQ_RESET) s2)"
    using s2(1) assms(10) by (simp add: pending_work_def s1_def)
  with run s2(2,3) show ?thesis by (auto simp: s1_def set_cli_req_def)
qed

definition timer_due :: "e_timer_type \<Rightarrow> mmgr_timer_t" where
  "timer_due k = \<lparr>tm_type = flag (timer_code k), tm_timeout = (\<lambda>_. 10), tm_end = (\<lambda>_. \<lparr>tv_sec = 0, tv_nsec = 0\<rparr>)\<rparr>"

lemma timer_due_elapsed: "timer_is_elapsed (timer_due k) ty \<lparr>tv_sec = 0, tv_nsec = 0\<rparr> \<longleftrightarrow> ty = k"
  by (auto simp: timer_is_elapsed_def armed_bit timer_due_def timer_get_elapsed_def flag_simps)

lemma env_ready_answers:
  "env_time env_ready h = \<lparr>tv_sec = 0, tv_nsec = 0\<rparr>"
  "\<exists>fl h'. mdm_flash_prepare env_ready flash_example h = Some ((E_ERR_SUCCESS, fl), h')"
  by (simp_all add: env_ready_def env_ok_def flash_example_def fw_example_def mup_example_def
      mdm_flash_prepare_def mdm_fw_get_fw_path_def mdm_fw_get_tlvs_def mdm_fw_dbg_get_tlvs_def file_find_ext_def file_find_def
      mdm_flash_is_hash_changed_def mdm_flash_compute_cfg_hash_def mdm_flash_is_property_equal_def mdm_mup_package_def
      property_get_string_def file_exist_def ext_defs case_prod_unfold Let_def)

theorem silent_client_cannot_block_reset_witness:
  "\<exists>s1 s2. timeout_event env_ready (daemon_example\<lparr>mg_state := E_MMGR_WAIT_COLD_ACK,
       mg_reset := recov_example\<lparr>rs_state := E_OPERATION_WAIT\<rparr>, mg_timer := timer_due E_TIMER_COLD_RESET_ACK\<rparr>, []) =
       Some (E_ERR_SUCCESS, s1) \<and> pending_work env_ready s1 = Some s2 \<and> power_cmds (snd s2) = [MDM_CTRL_COLD_RESET]"
proof -
  let ?m = "daemon_example\<lparr>mg_state := E_MMGR_WAIT_COLD_ACK,
    mg_reset := recov_example\<lparr>rs_state := E_OPERATION_WAIT\<rparr>, mg_timer := timer_due E_TIMER_COLD_RESET_ACK\<rparr>"
  have b: "base (fst (?m, []))" using daemon_example_base by (simp add: base_def)
  have f: "connected (mg_clients (fst (?m, []))) \<noteq> 0" "mg_flash (fst (?m, [])) = flash_example"
    "\<not> mcd_ssic_hack (mg_mcd (fst (?m, [])))" "cli_req (?m, []) = 0"
    by (simp_all add: daemon_example_def clients_example_def mmgr_zero_def)
  have r: "rs_process recov_example = recov_table cfg_example" "level_id recov_example = E_EL_MODEM_COLD_RESET"
    "rs_op recov_example = E_FORCE_NONE" "rc_enable cfg_example" "rc_cold_reset cfg_example > 0"
    by (simp_all add: recov_example_def cfg_example_def)
  obtain fl h' where "mdm_flash_prepare env_ready flash_example [Libc X_boottime] = Some ((E_ERR_SUCCESS, fl), h')"
    using env_ready_answers(2) by blast
  then show ?thesis
    using silent_client_cannot_block_reset [OF b _ f(1), of cfg_example env_ready fl h'] f(2-4) r timer_due_elapsed
      env_ready_answers(1) by (auto simp: power_cmds_def)
qed

section \<open>Shutdown\<close>

lemma tell_all_tft:
  assumes "alloc_ok E" "tft_wf ev"
  obtains h where "tell_all E E_MMGR_NOTIFY_TFT_EVENT (D_tft_event ev) s = Some (fst s, h)"
    "power_cmds h = power_cmds (snd s)"
proof -
  obtain r t h where i: "clients_inform_all E (mg_clients (fst s)) E_MMGR_NOTIFY_TFT_EVENT (D_tft_event ev) (snd s) =
      Some ((r, t), h)"
    by (rule inform_all_total [OF assms(1) sendable_tft [OF assms(2)]])
  have "t = mg_clients (fst s)" by (rule inform_all_other [OF i]) simp_all
  with i have "tell_all E E_MMGR_NOTIFY_TFT_EVENT (D_tft_event ev) s = Some (fst s, h)"
    by (simp add: tell_all_def inform_all_def)
  then show thesis by (rule that) (rule power_inform_all [OF i])
qed

lemma down_log: "power_cmds (snd (mdm_mcd_down E mcd h)) = MDM_CTRL_POWER_OFF # power_cmds h"
  by (simp add: mdm_mcd_down_def power_cmds_def ext_defs Let_def)

lemma finalize_shtdwn_runs:
  assumes "alloc_ok E"
  shows "\<exists>r s'. mdm_finalize_shtdwn E s = Some (r, s') \<and> power_cmds (snd s') = MDM_CTRL_POWER_OFF # power_cmds (snd s)"
proof -
  have "no_payload E_MMGR_EVENT_MODEM_DOWN" by (simp add: no_payload_def)
  then obtain s1 where t: "tell_all E E_MMGR_EVENT_MODEM_DOWN D_null s = Some s1" "told E_MMGR_EVENT_MODEM_DOWN s s1"
    by (rule tell_all_told [OF assms])
  then have "power_cmds (snd s1) = power_cmds (snd s)" by (auto simp: told_def)
  with t(1) show ?thesis
    by (simp add: mdm_finalize_shtdwn_def on_mcd_def down_log case_prod_unfold Let_def)
qed

lemma tft_ev_wf:
  assumes "length ev_type < 1000" "length msgs \<le> 6" "\<forall>m \<in> set msgs. length m < 500" "log \<in> {0, AP_LOG, AP_BP_LOG}"
  shows "\<exists>ev. tft_ev ty ev_type log msgs = D_tft_event ev \<and> tft_wf ev"
proof -
  have "int_ok (int (unat (event_type_code ty)))" by (cases ty) (simp_all add: int_ok_def)
  with assms show ?thesis
    by (auto simp: tft_ev_def tft_wf_def int_ok_def str_ok_def tft_array_def td_ok_def list_all_iff AP_LOG_def AP_BP_LOG_def
        MMGR_CLI_MAX_TFT_EVENT_DATA_def MMGR_CLI_MAX_RECOVERY_CAUSE_LEN_def word_le_nat_alt word_less_nat_alt unat_of_nat)
qed

text \<open>The end of the shutdown dialogue with the modem: the time-out of its answer forces it off.\<close>

lemma fmmo_timeout_runs:
  assumes "alloc_ok E"
    and "\<And>ty. timer_is_elapsed (mg_timer (fst s)) ty (env_time E (Libc X_boottime # snd s)) \<longleftrightarrow> ty = E_TIMER_FMMO"
  shows "\<exists>s'. timeout_event E s = Some (E_ERR_SUCCESS, s') \<and> mg_state (fst s') = E_MMGR_MDM_OFF \<and>
    power_cmds (snd s') = MDM_CTRL_POWER_OFF # power_cmds (snd s)"
proof -
  let ?s1 = "(fst s\<lparr>mg_timer := snd (timer_stop (mg_timer (fst s)) E_TIMER_FMMO)\<rparr>, Libc X_boottime # snd s)"
  obtain ev where ev: "tft_ev E_EVENT_ERROR ''TFT_ERROR_MISC'' AP_LOG [''Timeout during FMMO. Force modem shutdown''] =
      D_tft_event ev" "tft_wf ev"
    using tft_ev_wf [of "''TFT_ERROR_MISC''" "[''Timeout during FMMO. Force modem shutdown'']" AP_LOG E_EVENT_ERROR] by auto
  obtain h where t: "tell_all E E_MMGR_NOTIFY_TFT_EVENT (D_tft_event ev) ?s1 = Some (fst ?s1, h)"
    "power_cmds h = power_cmds (snd ?s1)"
    by (rule tell_all_tft [OF assms(1) ev(2)])
  obtain r s8 where f: "mdm_finalize_shtdwn E (fst ?s1, h) = Some (r, s8)" "power_cmds (snd s8) = MDM_CTRL_POWER_OFF # power_cmds h"
    using finalize_shtdwn_runs [OF assms(1), of "(fst ?s1, h)"] by auto
  have "timeout_event E s = Some (E_ERR_SUCCESS, set_mmgr_state E_MMGR_MDM_OFF s8)"
    using t(1) f(1) timer_event_single(3) [OF assms(2) refl]
    by (simp add: timeout_event_def timer_action_defs flag_simps ev(1) Let_def)
  with t(2) f(2) show ?thesis by (simp add: set_state_fst)
qed

text \<open>Starting the dialogue always returns: its only command is not answered.\<close>

lemma start_shtdwn_runs:
  "\<exists>r s'. mdm_start_shtdwn E s = Some (r, s') \<and> power_cmds (snd s') = power_cmds (snd s) \<and>
     mg_timer (fst s') = mg_timer (fst s)"
proof -
  define s1 where "s1 = mcd_listen E {MDM_CTRL_STATE_WARM_BOOT, MDM_CTRL_STATE_COREDUMP} True s"
  define p where "p = tty_open E (mdm_dlc_get_shutdown (mg_dlc (fst s1))) CLOSED_FD (snd s1)"
  obtain ret where at: "send_at_retry E (snd (fst p)) POWER_OFF_MODEM 0 AT_ANSWER_NO_TIMEOUT (snd p) =
      Some (ret, snd (tty_write E (snd (fst p)) (cstr POWER_OFF_MODEM) (tcflush_io (snd (fst p)) (snd p))))"
    using send_at_once by blast
  have p: "only plain (snd s1) (snd p)" by (simp add: p_def plain_rules)
  then have "power_cmds (snd p) = power_cmds (snd s1)" by (rule power_plain)
  moreover have "power_cmds (snd (tty_close E fd (snd (tty_write E fd bs (tcflush_io fd (snd p)))))) = power_cmds (snd s1)"
    for fd bs by (rule power_plain) (simp add: p plain_rules)
  moreover have "power_cmds (snd s1) = power_cmds (snd s)" "mg_timer (fst s1) = mg_timer (fst s)"
    by (simp_all add: s1_def) (simp add: mcd_listen_def case_prod_unfold Let_def)
  ultimately show ?thesis
    using at
    by (simp add: mdm_start_shtdwn_def AT_CFUN_RETRY_def case_prod_unfold Let_def flip: s1_def p_def)
qed

text \<open>
  C8: A shutdown that was announced ends with the modem off, whatever clients and modem do. If the clients
  do not all acknowledge in time, the time-out returns and the next turn starts the dialogue
  with the modem: the daemon is in \<^verbatim>\<open>E_MMGR_MDM_PREPARE_OFF\<close>, the timer of the dialogue is armed and
  the modem is not yet commanded. And if in any later state that timer is the one that elapsed, its
  time-out returns, has powered the modem off by exactly one command, and leaves the daemon in
  \<^verbatim>\<open>E_MMGR_MDM_OFF\<close>.
\<close>

theorem shutdown_is_carried_out:
  assumes "alloc_ok E" "mg_state (fst s) = E_MMGR_WAIT_SHT_ACK" "\<not> mg_dsda (fst s)"
    and "\<And>ty. timer_is_elapsed (mg_timer (fst s)) ty (env_time E (Libc X_boottime # snd s)) \<longleftrightarrow> ty = E_TIMER_MODEM_SHUTDOWN_ACK"
  shows "\<exists>s1 s2. timeout_event E s = Some (E_ERR_SUCCESS, s1) \<and> pending_work E s1 = Some s2 \<and>
    mg_state (fst s2) = E_MMGR_MDM_PREPARE_OFF \<and> power_cmds (snd s2) = power_cmds (snd s) \<and>
    (tm_timeout (mg_timer (fst s)) E_TIMER_FMMO \<noteq> 0 \<longrightarrow> armed (mg_timer (fst s2)) E_TIMER_FMMO) \<and>
    (\<forall>s3. (\<forall>ty. timer_is_elapsed (mg_timer (fst s3)) ty (env_time E (Libc X_boottime # snd s3)) \<longleftrightarrow> ty = E_TIMER_FMMO) \<longrightarrow>
       (\<exists>s4. timeout_event E s3 = Some (E_ERR_SUCCESS, s4) \<and> mg_state (fst s4) = E_MMGR_MDM_OFF \<and>
          power_cmds (snd s4) = MDM_CTRL_POWER_OFF # power_cmds (snd s3)))"
proof -
  let ?t = "snd (timer_stop (mg_timer (fst s)) E_TIMER_MODEM_SHUTDOWN_ACK)"
  define s1 where "s1 = set_cli_req E_CLI_REQ_OFF (set_mmgr_state E_MMGR_MDM_RESET (fst s\<lparr>mg_timer := ?t\<rparr>, Libc X_boottime # snd s))"
  have run: "timeout_event E s = Some (E_ERR_SUCCESS, s1)"
    using timer_event_single(2) [OF assms(4) refl]
    by (simp add: timeout_event_def timer_action_defs flag_simps s1_def set_mmgr_state_def Let_def)
  let ?s2 = "timer_on E E_TIMER_FMMO (set_cli_req (cli_req s1 AND NOT E_CLI_REQ_OFF)
    (fst s1\<lparr>mg_clients := snd (clients_reset_ack_shtdwn (mg_clients (fst s1)))\<rparr>, snd s1))"
  obtain r s3 where s3: "mdm_start_shtdwn E ?s2 = Some (r, s3)" "power_cmds (snd s3) = power_cmds (snd ?s2)"
    "mg_timer (fst s3) = mg_timer (fst ?s2)" using start_shtdwn_runs by blast
  let ?s' = "set_mmgr_state E_MMGR_MDM_PREPARE_OFF s3"
  have "pending_work E s1 = Some ?s'"
    using assms(3) s3(1) by (simp add: pending_work_def s1_def set_cli_req_def set_mmgr_state_def E_CLI_REQ_OFF_def Let_def)
  moreover have "armed (mg_timer (fst ?s2)) E_TIMER_FMMO" if "tm_timeout (mg_timer (fst s)) E_TIMER_FMMO \<noteq> 0"
    using that by (simp add: timer_on_fst ts.start_armed) (simp add: s1_def set_cli_req_def set_mmgr_state_def timer_stop_def)
  moreover have "power_cmds (snd s1) = power_cmds (snd s)" by (simp add: s1_def set_cli_req_def set_mmgr_state_def)
  ultimately show ?thesis
    using run fmmo_timeout_runs [OF assms(1)]
    by (intro exI [of _ s1] exI [of _ ?s']) (simp add: set_state_fst s3(2,3))
qed

theorem shutdown_is_carried_out_witness:
  "\<exists>s1 s2. timeout_event env_ready (daemon_example\<lparr>mg_state := E_MMGR_WAIT_SHT_ACK,
       mg_timer := timer_due E_TIMER_MODEM_SHUTDOWN_ACK\<rparr>, []) = Some (E_ERR_SUCCESS, s1) \<and>
     pending_work env_ready s1 = Some s2 \<and> mg_state (fst s2) = E_MMGR_MDM_PREPARE_OFF \<and> armed (mg_timer (fst s2)) E_TIMER_FMMO"
proof -
  let ?s = "(daemon_example\<lparr>mg_state := E_MMGR_WAIT_SHT_ACK, mg_timer := timer_due E_TIMER_MODEM_SHUTDOWN_ACK\<rparr>, []) :: st"
  have "\<not> mg_dsda (fst ?s)" "tm_timeout (mg_timer (fst ?s)) E_TIMER_FMMO \<noteq> 0"
    by (simp_all add: daemon_example_def mmgr_zero_def timer_due_def)
  moreover have "timer_is_elapsed (mg_timer (fst ?s)) ty (env_time env_ready (Libc X_boottime # snd ?s)) \<longleftrightarrow>
      ty = E_TIMER_MODEM_SHUTDOWN_ACK" for ty
    using timer_due_elapsed by (simp add: env_ready_answers)
  ultimately show ?thesis
    using shutdown_is_carried_out [OF alloc_ok_env_ready, of ?s] by auto
qed


section \<open>The end of the loop\<close>

text \<open>What a failure of \<^verbatim>\<open>epoll_wait\<close> that ends the loop looks like in the history.\<close>

definition epoll_failed :: "env \<Rightarrow> history \<Rightarrow> bool" where
  "epoll_failed E h \<longleftrightarrow>
     (\<exists>epfd n t h0. h = Sock (X_epoll_wait epfd n t) # h0 \<and> env_int E h < 0 \<and> env_errno E h \<in> {EBADF, EINVAL})"

lemma epoll_loop_failed:
  assumes "epoll_loop E s = Some (ret, s')"
  shows "ret = E_ERR_SUCCESS \<or> epoll_failed E (snd s')"
proof -
  define P :: "env \<Rightarrow> st \<Rightarrow> e_mmgr_errors \<times> st \<Rightarrow> bool" where
    "P E s r \<longleftrightarrow> fst r = E_ERR_SUCCESS \<or> epoll_failed E (snd (snd r))" for E s r
  have "P E s (ret, s')"
  proof (rule epoll_loop.raw_induct [OF _ assms])
    fix f :: "env \<Rightarrow> st \<Rightarrow> (e_mmgr_errors \<times> st) option" and E s r
    assume IH: "\<And>E s r. f E s = Some r \<Longrightarrow> P E s r"
    assume "(let m = fst s; (timeout, h1) = timer_get_timeout E (mg_timer m) (snd s);
          ((nfds, fds), h2) = sys_epoll_wait E (mg_epollfd m) (clients_get_allowed (mg_clients m) + 1) timeout
                                (evn_fds (mg_events m)) h1;
          s1 = (m\<lparr>mg_events := (mg_events m)\<lparr>evn_cur_ev := FIRST_EVENT, evn_nfds := nfds, evn_fds := fds\<rparr>\<rparr>, h2) in
      if nfds = -1
      then if env_errno E h2 = EBADF \<or> env_errno E h2 = EINVAL then Some (E_ERR_FAILED, s1)
           else f E s1
      else Some (E_ERR_SUCCESS, s1)) = Some r"
    then show "P E s r"
      by (auto simp: P_def epoll_failed_def sys_epoll_wait_def Let_def split: prod.splits if_splits
          dest!: IH [unfolded P_def])
  qed
  then show ?thesis by (simp add: P_def)
qed

lemma turn_failed:
  assumes "turn E w s = Some (ret, w', s')" "ret \<noteq> E_ERR_SUCCESS"
  shows "epoll_failed E (snd s')"
proof -
  have "epoll_failed E (snd s3)" if "wait_for_event E s2 = Some (ret, s3)" for s2 s3
    using that assms(2)
    by (auto simp: wait_for_event_def bind_eq_Some_conv Let_def split: if_splits dest!: epoll_loop_failed)
  with assms show ?thesis
    by (auto simp: turn_def bind_eq_Some_conv Let_def split: if_splits)
qed

text \<open>
  C13: The daemon leaves its event loop for one reason only: \<^verbatim>\<open>epoll_wait\<close> reported a bad
  descriptor or argument. No event, no request of a client and no failure of a handler ends the loop, and the result is
  never a success.
\<close>

theorem event_loop_ends_only_on_epoll_failure:
  assumes "events_manager E s = Some (ret, s')"
  shows "ret \<noteq> E_ERR_SUCCESS \<and> epoll_failed E (snd s')"
proof -
  have "events_loop E False s = Some (ret, s')" using assms by (simp add: events_manager_def)
  then have "fst (ret, s') \<noteq> E_ERR_SUCCESS \<and> epoll_failed E (snd (snd (ret, s')))"
  proof (rule events_loop.raw_induct [rotated], goal_cases)
    case (1 f E w s r)
    from 1(2) obtain x w1 s1 where t: "turn E w s = Some (x, w1, s1)"
      and rest: "(if x \<noteq> E_ERR_SUCCESS then Some (x, s1) else f E w1 s1) = Some r"
      by (auto simp: bind_eq_Some_conv)
    show ?case
    proof (cases "x = E_ERR_SUCCESS")
      case True
      with rest have "f E w1 s1 = Some r" by simp
      then show ?thesis by (rule 1(1))
    next
      case False
      with rest turn_failed [OF t] show ?thesis by auto
    qed
  qed
  then show ?thesis by simp
qed

definition env_bad_epoll :: env where
  "env_bad_epoll = env_ok\<lparr>env_int := (\<lambda>_. -1), env_errno := (\<lambda>_. EBADF)\<rparr>"

theorem event_loop_ends_only_on_epoll_failure_witness:
  "\<exists>ret s'. events_manager env_bad_epoll (daemon_example\<lparr>mg_state := E_MMGR_MDM_UP\<rparr>, []) = Some (ret, s') \<and>
     ret \<noteq> E_ERR_SUCCESS \<and> epoll_failed env_bad_epoll (snd s')"
proof -
  let ?s = "(daemon_example\<lparr>mg_state := E_MMGR_MDM_UP\<rparr>, []) :: st"
  have "cli_req ?s = 0" "evn_nfds (mg_events (fst ?s)) = 0" "evn_cur_ev (mg_events (fst ?s)) = 0"
    by (simp_all add: daemon_example_def mmgr_zero_def)
  moreover obtain s1 where "epoll_loop env_bad_epoll (fst ?s, Android (X_wake_lock False) # snd ?s) = Some (E_ERR_FAILED, s1)"
    by (subst (asm) epoll_loop.simps) (simp add: sys_epoll_wait_def env_bad_epoll_def case_prod_unfold Let_def)
  ultimately have "turn env_bad_epoll False ?s = Some (E_ERR_FAILED, False, s1)"
    by (simp add: turn_def pending_work_def wait_for_event_def xcall_def)
  then have "\<exists>ret s'. events_manager env_bad_epoll ?s = Some (ret, s')"
    by (simp add: events_manager_def events_loop.simps [of env_bad_epoll False])
  then obtain ret s' where r: "events_manager env_bad_epoll ?s = Some (ret, s')" by blast
  from event_loop_ends_only_on_epoll_failure [OF r] r show ?thesis by blast
qed

section \<open>A modem that does not answer\<close>

definition silent :: "env \<Rightarrow> bool" where
  "silent E \<longleftrightarrow> (\<forall>fd t h. fst (tty_wait_for_event E fd t h) \<noteq> E_ERR_SUCCESS)"

lemma silent_send:
  assumes "silent E" "t \<noteq> AT_ANSWER_NO_TIMEOUT"
  shows "\<exists>r h'. send_at E fd cmd t h = Some (r, h') \<and> r \<noteq> E_ERR_SUCCESS"
proof -
  obtain r h1 where w: "tty_write E fd (cstr cmd) (tcflush_io fd h) = (r, h1)" by fastforce
  obtain r2 h2 where "tty_wait_for_event E fd t h1 = (r2, h2)" by fastforce
  moreover from this assms(1) have "r2 \<noteq> E_ERR_SUCCESS" by (metis fst_conv silent_def)
  ultimately have "answer_loop E fd t h1 = Some (r2, h2)" by (subst answer_loop.simps) simp
  with w assms(2) \<open>r2 \<noteq> E_ERR_SUCCESS\<close> show ?thesis by (simp add: send_at_def)
qed

lemma silent_send_retry:
  assumes "silent E" "t \<noteq> AT_ANSWER_NO_TIMEOUT"
  shows "\<exists>r h'. send_at_retry E fd cmd k t h = Some (r, h') \<and> r \<noteq> E_ERR_SUCCESS"
proof -
  have "ret \<noteq> E_ERR_SUCCESS \<Longrightarrow> \<exists>r h'. at_attempts E fd cmd t n ret h = Some (r, h') \<and> r \<noteq> E_ERR_SUCCESS" for n ret h
  proof (induction n arbitrary: ret h)
    case (Suc n)
    obtain r h1 where s: "send_at E fd cmd t h = Some (r, h1)" "r \<noteq> E_ERR_SUCCESS" using silent_send [OF assms] by blast
    obtain r' h' where "at_attempts E fd cmd t n r h1 = Some (r', h')" "r' \<noteq> E_ERR_SUCCESS" using Suc.IH [OF s(2)] by blast
    with s show ?case by auto
  qed simp
  then show ?thesis by (simp add: send_at_retry_def)
qed

lemma silent_mux:
  assumes "silent E"
  shows "\<exists>r fd' wk' h'. switch_to_mux E fd path bb mux dlc wk h = Some ((r, fd', wk'), h') \<and> r \<noteq> E_ERR_SUCCESS"
proof -
  have t: "AT_ANSWER_SHORT_TIMEOUT \<noteq> AT_ANSWER_NO_TIMEOUT" by (simp add: AT_ANSWER_SHORT_TIMEOUT_def AT_ANSWER_NO_TIMEOUT_def)
  have step: "\<exists>r h'. mux_step E bb mux E_MUX_HANDSHAKE fd wk h = Some (r, wk, h') \<and> r \<noteq> E_ERR_SUCCESS" for fd h
    using silent_send_retry [OF assms t, of fd AT_PING_CMD "mux_retry mux" h] by (auto simp: mux_step_def modem_handshake_def)
  have again: "\<exists>r fd' wk' h'. mux_loop E path bb mux E_MUX_HANDSHAKE True fd wk h = Some ((r, fd', wk'), h') \<and> r \<noteq> E_ERR_SUCCESS"
    for fd h using step [of fd h] by (auto simp: mux_loop.simps [of E path bb mux E_MUX_HANDSHAKE True])
  obtain r h1 where r: "mux_step E bb mux E_MUX_HANDSHAKE fd wk h = Some (r, wk, h1)" "r \<noteq> E_ERR_SUCCESS" using step by blast
  obtain c fd1 h2 where c: "tty_close E fd h1 = ((c, fd1), h2)" by (metis prod.exhaust)
  obtain ret2 fd2 h3 where o: "tty_open E path fd1 h2 = ((ret2, fd2), h3)" by (metis prod.exhaust)
  have "\<exists>r fd' wk' h'. mux_loop E path bb mux E_MUX_HANDSHAKE False fd wk h = Some ((r, fd', wk'), h') \<and> r \<noteq> E_ERR_SUCCESS"
    using r c o again [of fd2 h3] by (auto simp: mux_loop.simps [of E path bb mux E_MUX_HANDSHAKE False])
  then show ?thesis by (auto simp: switch_to_mux_def)
qed

text \<open>
  C7: A modem that comes up but never answers is reset. If the AT channel stays silent, the configuration of the modem always
  returns, with an error; the daemon then is in \<^verbatim>\<open>E_MMGR_MDM_RESET\<close>, so the next turn starts the recovery; on the way
  the driver has not been commanded, and the table of clients, with its memory of the last report, is as before.
\<close>

theorem silent_modem_is_reset:
  assumes "silent E" "alloc_ok E" "link_get_bb_interface (mg_link (fst s)) = Some path"
  shows "\<exists>ret s'. do_configure E s = Some (ret, s') \<and> ret \<noteq> E_ERR_SUCCESS \<and> mg_state (fst s') = E_MMGR_MDM_RESET \<and>
    power_cmds (snd s') = power_cmds (snd s) \<and> mg_clients (fst s') = mg_clients (fst s)"
proof -
  obtain ret fd h1 where o: "tty_open E path (mg_fd_tty (fst s)) (snd s) = ((ret, fd), h1)" by (metis prod.exhaust)
  have h1: "only plain (snd s) h1" using plain_tty_open(2) [of "snd s" "snd s" E path "mg_fd_tty (fst s)"] o by simp
  show ?thesis
  proof (cases "ret = E_ERR_SUCCESS")
    case False
    with o assms(3) power_plain [OF h1] show ?thesis
      by (simp add: do_configure_def configure_modem_def set_state_fst)
  next
    case True
    let ?s1 = "(fst s\<lparr>mg_fd_tty := fd\<rparr>, h1)"
    obtain r fd' wk' h2 where m: "switch_to_mux E fd path (link_get_bb_type (mg_link (fst s))) (mdm_dlc_get_mux_cfg (mg_dlc (fst s)))
        (mdm_dlc_get_sanity (mg_dlc (fst s))) (mg_wakeup_cfg (fst s)) h1 = Some ((r, fd', wk'), h2)" "r \<noteq> E_ERR_SUCCESS"
      using silent_mux [OF assms(1)] by blast
    have h2: "only plain h1 h2" using plain_switch_to_mux [OF only_refl] m(1) by (metis (no_types, lifting) case_prodD option.pred_inject(2))
    obtain ev where ev: "tft_ev E_EVENT_ERROR ''TFT_ERROR_IPC'' AP_BP_LOG [''MUX configuration failed''] = D_tft_event ev" "tft_wf ev"
      using tft_ev_wf [of "''TFT_ERROR_IPC''" "[''MUX configuration failed'']" AP_BP_LOG E_EVENT_ERROR] by auto
    obtain h3 where t: "tell_all E E_MMGR_NOTIFY_TFT_EVENT (D_tft_event ev) (fst s\<lparr>mg_fd_tty := fd', mg_wakeup_cfg := wk'\<rparr>, h2) =
        Some (fst s\<lparr>mg_fd_tty := fd', mg_wakeup_cfg := wk'\<rparr>, h3)" "power_cmds h3 = power_cmds h2"
      using tell_all_tft [OF assms(2) ev(2), of "(fst s\<lparr>mg_fd_tty := fd', mg_wakeup_cfg := wk'\<rparr>, h2)"] by auto
    have "do_configure E s = Some (r, set_mmgr_state E_MMGR_MDM_RESET (fst s\<lparr>mg_fd_tty := fd', mg_wakeup_cfg := wk'\<rparr>, h3))"
      using o True m assms(3) t(1) by (simp add: do_configure_def configure_modem_def ev(1))
    with m(2) t(2) power_plain [OF h1] power_plain [OF h2] show ?thesis by (simp add: set_state_fst)
  qed
qed


definition env_silent :: env where
  "env_silent = env_ok\<lparr>env_int := (\<lambda>h. case h of Sock (X_epoll_wait _ _ _) # _ \<Rightarrow> 0 | _ \<Rightarrow> 1)\<rparr>"

lemma silent_env_silent: "silent env_silent" "alloc_ok env_silent"
  by (simp_all add: silent_def alloc_ok_def env_silent_def tty_wait_for_event_def tty_init_listener_def tty_listen_fd_def ext_defs
      case_prod_unfold Let_def)

theorem silent_modem_is_reset_witness:
  "\<exists>ret s'. do_configure env_silent (daemon_example\<lparr>mg_link := link_example\<rparr>, []) = Some (ret, s') \<and>
     mg_state (fst s') = E_MMGR_MDM_RESET"
proof -
  have "\<exists>p. link_get_bb_interface link_example = Some p"
    by (simp add: link_get_bb_interface_def link_get_flash_interface_def link_example_def link_init_def ctrl_init_def pm_init_def links_example_def
        cd_ctrl_example_def cd_power_example_def xint_def env_ok_def Let_def)
  then obtain p where "link_get_bb_interface (mg_link (fst ((daemon_example\<lparr>mg_link := link_example\<rparr>, []) :: st))) = Some p" by auto
  from silent_modem_is_reset [OF silent_env_silent this] show ?thesis by blast
qed

end
