(* ===== verification/Daemon_Run.thy ===== *)
theory Daemon_Run
  imports Daemon_Behaviour
begin

text \<open>
  A concrete run of the daemon, from \<^verbatim>\<open>mmgr_init\<close> to the wait for the acknowledgements of a
  cold reset: an environment in which every module starts, one client connects, the modem resets
  itself and the reset of the daemon begins. The run shows that the states the properties of the
  running daemon speak of are reached, and instantiates these properties.
\<close>

section \<open>The environment\<close>

definition ctrl_sim :: link_ctrl_t where
  "ctrl_sim = \<lparr>lc_device = ''ctl'', lc_on = ''1'', lc_off = ''0'', lc_reset = ''2''\<rparr>"

definition power_sim :: power_t where
  "power_sim = \<lparr>pw_device = ''pwr'', pw_on = ''on'', pw_off = ''off''\<rparr>"

definition config_sim :: mmgr_config where
  "config_sim =
     \<lparr>cf_nb = 1, cf_recov = cfg_example,
      cf_timings = \<lparr>tg_ipc_ready = 60, tg_cd_ipc_reset = 60, tg_cd_ipc_ready = 60, tg_mdm_flash = 60, tg_fmmo = 60\<rparr>,
      cf_cli_max = 2, cf_secured = False, cf_secured_device = [], cf_mcdr_enable = False, cf_mcdr_path = [],
      cf_mcdr_log = False, cf_mcdr_version_size = 0, cf_mcdr_timeout = 60, cf_mcdr_link = Link_hsi ''h'' ''c'' [],
      cf_mcdr_ctrl = ctrl_sim, cf_mcdr_power = power_sim,
      cf_links = \<lparr>ml_flash_ebl = Link_hsi ''h'' ''c'' [], ml_flash_fw = Link_hsi ''h'' ''c'' [],
        ml_baseband = Link_hsi ''h'' ''c'' [], ml_ctrl = ctrl_sim, ml_power = power_sim\<rparr>,
      cf_reconfig_usb = Link_other,
      cf_dlc = \<lparr>dlc_mux = \<lparr>mux_frame_size = 1509, mux_retry = 3\<rparr>, dlc_sanity_check = ''a'', dlc_shtdwn = ''b'', dlc_custom = ''c'', dlc_cd_logs = ''d''\<rparr>,
      cf_mcd_path = ''mcd'', cf_mcd_board = 1, cf_mcd_board_aob = 1,
      cf_mdm = \<lparr>mi_name = ''6360'', mi_flashless = False, mi_hw_revision = ''NA'', mi_sw_revision = ''NA'', mi_tlvs = []\<rparr>,
      cf_fw = fw_cfg fw_example, cf_debug = True\<rparr>"

fun sim_int :: "ext \<Rightarrow> int" where
  "sim_int (Sock X_pipe) = 0"
| "sim_int (Sock (X_control_socket _)) = 3"
| "sim_int (Sock (X_accept _)) = 7"
| "sim_int (Sock (X_close _)) = 0"
| "sim_int (File (X_file_exist _)) = 0"
| "sim_int (File (X_open _)) = 4"
| "sim_int (Modem (X_ioctl _ _)) = 0"
| "sim_int (File (X_folder_exist _)) = 0"
| "sim_int (Libc (X_dlerror _)) = 0"
| "sim_int _ = 1"

definition env_sim :: env where
  "env_sim = env_ok\<lparr>env_int := (\<lambda>h. case h of [] \<Rightarrow> 1 | c # _ \<Rightarrow> sim_int c), env_int2 := (\<lambda>_. 8), env_bytes := (\<lambda>_. [65]),
     env_hu_reset := (\<lambda>_. True), env_fds := (\<lambda>_. [3, 4, 99])\<rparr>"

lemma sim_answers:
  "env_int env_sim (c # h) = sim_int c" "env_int2 env_sim h = 8" "env_bytes env_sim h = [65]"
  "env_hu_reset env_sim h = True" "env_fds env_sim h = [3, 4, 99]" "env_string env_sim h = []"
  "env_time env_sim h = \<lparr>tv_sec = 0, tv_nsec = 0\<rparr>" "env_states env_sim h = {}" "env_dir env_sim h = []"
  by (simp_all add: env_sim_def env_ok_def)

lemmas sim = sim_answers ext_defs Let_def

section \<open>The start\<close>

lemma sim_modules:
  "\<exists>k h'. key_init env_sim 1 h = Some (k, h')"
  "\<exists>h'. recov_init env_sim (cf_recov config_sim) key h = Some (recov_example\<lparr>level_counter := 0, key_reboot := key\<rparr>, h')"
  "\<exists>x h'. secure_init env_sim (cf_secured config_sim) (cf_secured_device config_sim) h = (Some x, h') \<and>
     se_fd x = CLOSED_FD \<and> \<not> se_enable x"
  "\<exists>mc h'. mcdr_init env_sim (cf_mcdr_enable config_sim) (cf_mcdr_path config_sim) (cf_mcdr_log config_sim)
     (cf_mcdr_version_size config_sim) h = Some (mc, h') \<and> \<not> mc_enabled mc \<and> mc_pipe_read mc = 0"
  "\<exists>t h'. timer_init env_sim (cf_recov config_sim) (cf_timings config_sim) (cf_mcdr_timeout config_sim) h = (Some t, h') \<and>
     tm_timeout t E_TIMER_COLD_RESET_ACK = 10 \<and> tm_type t = 0"
  "\<exists>b h'. bus_ev_init env_sim (ml_flash_ebl (cf_links config_sim)) (ml_baseband (cf_links config_sim))
     (cf_reconfig_usb config_sim) (cf_mcdr_link config_sim) h = (Some b, h') \<and> bus_ev_get_fd (Some b) < 50"
  "\<exists>l h'. link_init env_sim (cf_links config_sim) (link_type (cf_mcdr_link config_sim))
     (cf_mcdr_ctrl config_sim) (cf_mcdr_power config_sim) b h = Some (l, h') \<and>
     lk_flash_ebl l = Link_hsi ''h'' ''c'' [] \<and> lk_flash_fw l = Link_hsi ''h'' ''c'' [] \<and> lk_bb l = Link_hsi ''h'' ''c'' []"
  "\<exists>d h'. mdm_dlc_init env_sim (dlc_mux (cf_dlc config_sim)) (dlc_sanity_check (cf_dlc config_sim)) (dlc_shtdwn (cf_dlc config_sim))
     (dlc_custom (cf_dlc config_sim)) (dlc_cd_logs (cf_dlc config_sim)) h = Some (Some d, h')"
  by (simp_all add: key_init_def recov_init_def recov_example_def secure_init_def mcdr_init_def timer_init_def
      bus_ev_init_def usb_ids_def bus_ev_get_fd_def link_init_def ctrl_init_def pm_init_def fill_ctrl_link_def fill_link_def
      mdm_dlc_init_def PATH_MAX_def sim config_sim_def cfg_example_def ctrl_sim_def power_sim_def CLOSED_FD_def)

lemma sim_mcd:
  "\<exists>c h'. mdm_mcd_init env_sim (cf_mcd_path config_sim) (cf_mcd_board config_sim) (cf_mcd_board_aob config_sim)
     (mi_name (cf_mdm config_sim)) (mi_flashless (cf_mdm config_sim)) l b b' h = Some (Some c, h') \<and> mcd_fd c = 4"
  by (simp add: mdm_mcd_init_def mdm_mcd_configure_def mdm_mcd_update_filter_def sys_open_def sim config_sim_def CLOSED_FD_def)

lemma sim_fw:
  "\<exists>fw h'. mdm_fw_init env_sim (cf_debug config_sim) 1 (cf_mdm config_sim) (cf_fw config_sim) h = Some (Some fw, h') \<and>
     fw_dbg fw \<noteq> None \<and> fw_rnd_path fw \<noteq> None \<and> \<not> fw_flashless fw"
  by (simp add: mdm_fw_init_def folder_exist_def mdm_fw_compute_path_def mdm_fw_dbg_init_def malloc_ok_def sim config_sim_def)

lemma sim_flash:
  assumes "fw_dbg fw \<noteq> None" "fw_rnd_path fw \<noteq> None"
  shows "\<exists>f h'. mdm_flash_init env_sim (cf_mdm config_sim) d fw k k' l h = Some (f, h') \<and>
     \<not> fl_flashless f \<and> fl_pipe_read f = 8 \<and> fw_dbg (fl_fw f) \<noteq> None"
  using assms
  by (auto simp: mdm_flash_init_def malloc_ok_def mdm_mup_init_def mdm_fw_get_rnd_path_def mdm_flash_init_hash_def file_read_def
      sys_open_def sys_read_def mdm_flash_are_property_hashes_empty_def mdm_flash_is_property_equal_def property_get_string_def
      mdm_flash_factory_reset_def mdm_fw_dbg_get_miu_folder_def case_prod_unfold sim config_sim_def HASH_SIZE_def)

definition two_free :: "client_list_t \<Rightarrow> bool" where
  "two_free t \<longleftrightarrow> (\<exists>c1 c2. cl_list t = [c1, c2] \<and> cl_fd c1 = CLOSED_FD \<and> cl_fd c2 = CLOSED_FD) \<and>
     list_size t = 2 \<and> connected t = 0"

lemma sim_clients:
  "\<exists>t h'. client_events_init env_sim (cf_cli_max config_sim) s =
     (E_ERR_SUCCESS, fst s\<lparr>mg_clients := t, mg_events := (mg_events (fst s))\<lparr>evn_cli_req := E_CLI_REQ_NONE\<rparr>,
        mg_hdler_client := hdler_table_of False\<rparr>, h') \<and> two_free t"
  by (simp add: client_events_init_def clients_init_def init_client_def property_get_string_def set_cli_req_def
      numeral_2_eq_2 two_free_def sim config_sim_def) (rule exI, rule conjI, rule refl, simp)

text \<open>The daemon just after its start.\<close>

definition booted :: "mmgr_data_t \<Rightarrow> bool" where
  "booted m \<longleftrightarrow> mg_state m = E_MMGR_MDM_OFF \<and> two_free (mg_clients m) \<and> mg_fd_cnx m = 3 \<and> mg_fd_tty m = CLOSED_FD \<and>
     mcd_fd (mg_mcd m) = 4 \<and> (\<exists>b. evn_bus (mg_events m) = Some b \<and> bus_ev_get_fd (Some b) < 50) \<and>
     se_fd (mg_secure m) = CLOSED_FD \<and> fl_pipe_read (mg_flash m) = 8 \<and> \<not> fl_flashless (mg_flash m) \<and> fw_dbg (fl_fw (mg_flash m)) \<noteq> None \<and> \<not> mc_enabled (mg_mcdr m) \<and> mc_pipe_read (mg_mcdr m) = 0 \<and>
     evn_cur_ev (mg_events m) = FIRST_EVENT \<and> evn_nfds (mg_events m) = 0 \<and> evn_cli_req (mg_events m) = E_CLI_REQ_NONE \<and>
     (\<exists>key. mg_reset m = recov_example\<lparr>level_counter := 0, key_reboot := key\<rparr>) \<and>
     tm_timeout (mg_timer m) E_TIMER_COLD_RESET_ACK = 10 \<and> tm_type (mg_timer m) = 0 \<and>
     lk_flash_ebl (mg_link m) = Link_hsi ''h'' ''c'' [] \<and> lk_flash_fw (mg_link m) = Link_hsi ''h'' ''c'' [] \<and>
     lk_bb (mg_link m) = Link_hsi ''h'' ''c'' [] \<and> mg_hdler_pre_mdm m = pre_table"

lemma sim_init:
  "\<exists>s. mmgr_init env_sim config_sim 1 [] = Some s \<and> booted ((fst s)\<lparr>mg_fd_cnx := 3\<rparr>) \<and> mg_epollfd (fst s) = CLOSED_FD"
proof -
  have nb: "cf_nb config_sim = 1" by (simp add: config_sim_def)
  obtain k h1 where 1: "key_init env_sim 1 [] = Some (k, h1)" using sim_modules(1) by blast
  obtain h2 where 2: "recov_init env_sim (cf_recov config_sim) (key_reboot_counter k) h1 =
      Some (recov_example\<lparr>level_counter := 0, key_reboot := key_reboot_counter k\<rparr>, h2)"
    using sim_modules(2) by blast
  obtain sec h3 where 3: "secure_init env_sim (cf_secured config_sim) (cf_secured_device config_sim) h2 = (Some sec, h3)"
    "se_fd sec = CLOSED_FD" using sim_modules(3) by blast
  obtain mc h4 where 4: "mcdr_init env_sim (cf_mcdr_enable config_sim) (cf_mcdr_path config_sim) (cf_mcdr_log config_sim)
     (cf_mcdr_version_size config_sim) h3 = Some (mc, h4)" "\<not> mc_enabled mc" "mc_pipe_read mc = 0" using sim_modules(4) by blast
  let ?s4 = "(mmgr_zero\<lparr>mg_keys := k, mg_dsda := False, mg_reset := recov_example\<lparr>level_counter := 0,
    key_reboot := key_reboot_counter k\<rparr>, mg_secure := sec, mg_mcdr := mc\<rparr>, h4)"
  let ?s5 = "snd (modem_events_init ?s4)"
  obtain t h6 where 6: "client_events_init env_sim (cf_cli_max config_sim) ?s5 =
     (E_ERR_SUCCESS, fst ?s5\<lparr>mg_clients := t, mg_events := (mg_events (fst ?s5))\<lparr>evn_cli_req := E_CLI_REQ_NONE\<rparr>,
        mg_hdler_client := hdler_table_of False\<rparr>, h6)" "two_free t" using sim_clients by blast
  obtain tm h7 where 7: "timer_init env_sim (cf_recov config_sim) (cf_timings config_sim) (cf_mcdr_timeout config_sim) h6 = (Some tm, h7)"
     "tm_timeout tm E_TIMER_COLD_RESET_ACK = 10" "tm_type tm = 0" using sim_modules(5) by blast
  obtain b h8 where 8: "bus_ev_init env_sim (ml_flash_ebl (cf_links config_sim)) (ml_baseband (cf_links config_sim))
     (cf_reconfig_usb config_sim) (cf_mcdr_link config_sim) h7 = (Some b, h8)" "bus_ev_get_fd (Some b) < 50"
    using sim_modules(6) by blast
  let ?ss = "strstr (lc_device (ml_ctrl (cf_links config_sim))) ''ssic'' \<noteq> None"
  obtain l h9 where 9: "link_init env_sim (cf_links config_sim) (link_type (cf_mcdr_link config_sim))
     (cf_mcdr_ctrl config_sim) (cf_mcdr_power config_sim) ?ss h8 = Some (l, h9)"
     "lk_flash_ebl l = Link_hsi ''h'' ''c'' []" "lk_flash_fw l = Link_hsi ''h'' ''c'' []" "lk_bb l = Link_hsi ''h'' ''c'' []"
    using sim_modules(7) by blast
  obtain d h10 where 10: "mdm_dlc_init env_sim (dlc_mux (cf_dlc config_sim)) (dlc_sanity_check (cf_dlc config_sim)) (dlc_shtdwn (cf_dlc config_sim))
     (dlc_custom (cf_dlc config_sim)) (dlc_cd_logs (cf_dlc config_sim)) h9 = Some (Some d, h10)"
    using sim_modules(8) by blast
  let ?h11 = "Libc (X_calloc 36) # h10"
  obtain c h12 where 12: "mdm_mcd_init env_sim (cf_mcd_path config_sim) (cf_mcd_board config_sim) (cf_mcd_board_aob config_sim)
     (mi_name (cf_mdm config_sim)) (mi_flashless (cf_mdm config_sim)) l True ?ss ?h11 = Some (Some c, h12)" "mcd_fd c = 4"
    using sim_mcd by blast
  obtain fw h13 where 13: "mdm_fw_init env_sim (cf_debug config_sim) 1 (cf_mdm config_sim) (cf_fw config_sim) h12 =
      Some (Some fw, h13)" "fw_dbg fw \<noteq> None" "fw_rnd_path fw \<noteq> None" "\<not> fw_flashless fw"
    using sim_fw by blast
  obtain f h14 where 14: "mdm_flash_init env_sim (cf_mdm config_sim) (dlc_custom (cf_dlc config_sim)) fw (key_blob k) (key_cfg k)
     l h13 = Some (f, h14)" "\<not> fl_flashless f" "fl_pipe_read f = 8" "fw_dbg (fl_fw f) \<noteq> None"
    using sim_flash [OF 13(2,3)] by blast
  have cli: "cf_cli_max config_sim = 2" by (simp add: config_sim_def)
  show ?thesis
    using 1 2 3 4 6 7 8 9 10 12 13 14
    by (simp add: mmgr_init_def mdm_fw_create_folders_def nb cli ensure_def modem_events_init_def events_init_def xint_def sim_answers booted_def)
      (auto simp: mmgr_zero_def pre_table_def)
qed


lemma sim_listen:
  "\<exists>h'. cnx_open env_sim n h = ((E_ERR_SUCCESS, 3), h')" "\<exists>fd h'. tty_init_listener env_sim h = ((E_ERR_SUCCESS, fd), h')"
  "listen_next env_sim fd (E_ERR_SUCCESS, s) = (E_ERR_SUCCESS, fst s, Sock (X_epoll_add (mg_epollfd (fst s)) fd) # snd s)"
  "disable_telephony env_sim s = (fst s\<lparr>mg_state := E_MMGR_MDM_OFF\<rparr>, Android (X_property_get key_get_telephony_state) # snd s)"
  by (simp_all add: cnx_open_def tty_init_listener_def listen_next_def tty_listen_fd_def disable_telephony_def property_get_int_def
      scan_int_def set_mmgr_state_def CLOSED_FD_def sim)

lemma sim_boot: "\<exists>s. running env_sim config_sim 1 False s \<and> booted (fst s)"
proof -
  obtain s where s: "mmgr_init env_sim config_sim 1 [] = Some s" "booted ((fst s)\<lparr>mg_fd_cnx := 3\<rparr>)" using sim_init by blast
  let ?s0 = "disable_telephony env_sim s"
  let ?n = "case snd (cnx_get_name 64 1) of None \<Rightarrow> [] | Some n \<Rightarrow> n"
  obtain h1 where 1: "cnx_open env_sim ?n (snd ?s0) = ((E_ERR_SUCCESS, 3), h1)" using sim_listen(1) by blast
  obtain fd h2 where 2: "tty_init_listener env_sim h1 = ((E_ERR_SUCCESS, fd), h2)" using sim_listen(2) by blast
  have "\<exists>s'. events_start env_sim 1 ?s0 = Some (E_ERR_SUCCESS, s') \<and> booted (fst s')"
    using s(2) 1 2
    by (simp add: events_start_def sim_listen(3,4) is_usb_modem_def link_get_flash_ebl_type_def link_get_flash_fw_type_def
        link_get_bb_type_def mcdr_is_enabled_def set_link_state_def booted_def)
  with s(1) show ?thesis by (blast intro: running.boot)
qed


section \<open>Three turns of the event loop\<close>

lemma sim_epoll:
  assumes "clients_get_allowed (mg_clients (fst s)) = 2"
  shows "\<exists>h. epoll_loop env_sim s = Some (E_ERR_SUCCESS, fst s\<lparr>mg_events := (mg_events (fst s))
    \<lparr>evn_cur_ev := FIRST_EVENT, evn_nfds := 3, evn_fds := [3, 4, 99]\<rparr>\<rparr>, h)"
  using assms
  by (subst epoll_loop.simps)
    (simp add: sys_epoll_wait_def sim_answers case_prod_unfold Let_def)

text \<open>The daemon after the first turn: the first event was a connection, the next two are queued.\<close>

definition served :: "mmgr_data_t \<Rightarrow> bool" where
  "served m \<longleftrightarrow> connected (mg_clients m) = 1 \<and> list_size (mg_clients m) = 2 \<and>
     (\<exists>c1 c2. cl_list (mg_clients m) = [c1, c2] \<and> cl_fd c1 = 7 \<and> cl_fd c2 = CLOSED_FD) \<and>
     mg_fd_cnx m = 3 \<and> mg_fd_tty m = CLOSED_FD \<and>
     mcd_fd (mg_mcd m) = 4 \<and> (\<exists>b. evn_bus (mg_events m) = Some b \<and> bus_ev_get_fd (Some b) < 50) \<and>
     se_fd (mg_secure m) = CLOSED_FD \<and> fl_pipe_read (mg_flash m) = 8 \<and> \<not> fl_flashless (mg_flash m) \<and> fw_dbg (fl_fw (mg_flash m)) \<noteq> None \<and> \<not> mc_enabled (mg_mcdr m) \<and> mc_pipe_read (mg_mcdr m) = 0 \<and>
     evn_fds (mg_events m) = [3, 4, 99] \<and> evn_nfds (mg_events m) = 3 \<and> evn_cli_req (mg_events m) = E_CLI_REQ_NONE \<and>
     (\<exists>key. mg_reset m = recov_example\<lparr>level_counter := 0, key_reboot := key\<rparr>) \<and>
     tm_timeout (mg_timer m) E_TIMER_COLD_RESET_ACK = 10 \<and> tm_type (mg_timer m) = 0 \<and>
     mg_hdler_pre_mdm m = pre_table"

lemma sim_turn1:
  assumes "booted (fst s)"
  shows "\<exists>s'. turn env_sim False s = Some (E_ERR_SUCCESS, True, s') \<and> served (fst s') \<and>
    mg_state (fst s') = E_MMGR_MDM_OFF \<and> evn_cur_ev (mg_events (fst s')) = 0"
proof -
  obtain c1 c2 where c: "cl_list (mg_clients (fst s)) = [c1, c2]" "cl_fd c1 = CLOSED_FD" "cl_fd c2 = CLOSED_FD"
    "list_size (mg_clients (fst s)) = 2" "connected (mg_clients (fst s)) = 0"
    using assms by (auto simp: booted_def two_free_def)
  let ?s2 = "(fst s, Android (X_wake_lock False) # snd s)"
  obtain h where e: "epoll_loop env_sim ?s2 = Some (E_ERR_SUCCESS, fst s\<lparr>mg_events := (mg_events (fst s))
    \<lparr>evn_cur_ev := FIRST_EVENT, evn_nfds := 3, evn_fds := [3, 4, 99]\<rparr>\<rparr>, h)"
    using sim_epoll [of ?s2] c by (auto simp: clients_get_allowed_def)
  let ?ev = "(mg_events (fst s))\<lparr>evn_cur_ev := 0, evn_nfds := 3, evn_fds := [3, 4, 99], evn_state := E_EVENT_NEW_CLIENT\<rparr>"
  have w: "wait_for_event env_sim ?s2 = Some (E_ERR_SUCCESS, fst s\<lparr>mg_events := ?ev\<rparr>, h)"
    using assms e by (simp add: wait_for_event_def booted_def FIRST_EVENT_def event_fd_def event_of_fd_def)
  have n: "\<exists>s'. new_client env_sim (fst s\<lparr>mg_events := ?ev\<rparr>, h') = Some (E_ERR_SUCCESS, s') \<and> served (fst s') \<and>
      mg_state (fst s') = E_MMGR_MDM_OFF \<and> evn_cur_ev (mg_events (fst s')) = 0" for h'
    using assms c
    by (simp add: new_client_def event_fd_def clients_get_connected_def clients_get_allowed_def cnx_accept_def tty_listen_fd_def
        client_add_def init_client_def served_def booted_def sim)
  show ?thesis
    using assms w n [of "Android (X_wake_lock True) # h"]
    by (auto simp: turn_def pending_work_def booted_def E_CLI_REQ_NONE_def dispatch_def xcall_def)
qed


lemma sim_alloc [simp]: "alloc_ok env_sim"
  by (simp add: alloc_ok_def env_sim_def)

lemma sim_self_reset:
  "\<exists>h'. mdm_mcd_get_state env_sim mcd h = (E_EV_MODEM_SELF_RESET, h')"
  by (simp add: mdm_mcd_get_state_def state_events_def E_EV_defs sim)

text \<open>After the second turn: the modem reset itself, and the daemon is to reset it again.\<close>

lemma sim_turn2:
  assumes "served (fst s)" "mg_state (fst s) = E_MMGR_MDM_OFF" "evn_cur_ev (mg_events (fst s)) = 0"
  shows "\<exists>s'. turn env_sim True s = Some (E_ERR_SUCCESS, True, s') \<and> served (fst s') \<and>
    mg_state (fst s') = E_MMGR_MDM_RESET \<and> evn_cur_ev (mg_events (fst s')) = 1"
proof -
  let ?ev = "(mg_events (fst s))\<lparr>evn_cur_ev := 1, evn_state := E_EVENT_MCD\<rparr>"
  have w: "wait_for_event env_sim (fst s, h) = Some (E_ERR_SUCCESS, fst s\<lparr>mg_events := ?ev\<rparr>, h)" for h
    using assms by (simp add: wait_for_event_def served_def FIRST_EVENT_def event_fd_def event_of_fd_def mdm_mcd_get_fd_def CLOSED_FD_def)
  have np: "no_payload E_MMGR_EVENT_MODEM_DOWN" "no_payload E_MMGR_NOTIFY_SELF_RESET"
    by (simp_all add: no_payload_def)
  have n: "\<exists>s'. modem_control_event env_sim (fst s\<lparr>mg_events := ?ev\<rparr>, h) = Some (E_ERR_SUCCESS, s') \<and> served (fst s') \<and>
      mg_state (fst s') = E_MMGR_MDM_RESET \<and> evn_cur_ev (mg_events (fst s')) = 1" for h
  proof -
    obtain h0 where 0: "mdm_mcd_get_state env_sim (mg_mcd (fst s)) h = (E_EV_MODEM_SELF_RESET, h0)"
      using sim_self_reset by blast
    let ?s1 = "mcd_unlisten env_sim {MDM_CTRL_STATE_WARM_BOOT} (fst s\<lparr>mg_events := ?ev\<rparr>, h0)"
    obtain s2 where 2: "tell_all env_sim E_MMGR_EVENT_MODEM_DOWN D_null ?s1 = Some s2" "told E_MMGR_EVENT_MODEM_DOWN ?s1 s2"
      by (rule tell_all_told [OF sim_alloc np(1)])
    obtain s3 where 3: "tell_all env_sim E_MMGR_NOTIFY_SELF_RESET D_null s2 = Some s3" "told E_MMGR_NOTIFY_SELF_RESET s2 s3"
      by (rule tell_all_told [OF sim_alloc np(2)])
    have st: "mg_state (fst ?s1) = E_MMGR_MDM_OFF"
      using assms by (simp add: mcd_unlisten_def case_prod_unfold Let_def)
    have "modem_control_event env_sim (fst s\<lparr>mg_events := ?ev\<rparr>, h) = Some (E_ERR_SUCCESS, set_mmgr_state E_MMGR_MDM_RESET s3)"
      using 0 2(1) 3(1) st by (simp add: modem_control_event_def E_EV_defs flag_simps)
    moreover have "served (fst (set_mmgr_state E_MMGR_MDM_RESET s3))" "evn_cur_ev (mg_events (fst s3)) = 1"
      using assms(1) 2(2) 3(2)
      by (auto simp: told_def set_mmgr_state_def mcd_unlisten_def mdm_mcd_unregister_def case_prod_unfold Let_def served_def)
    ultimately show ?thesis by (simp add: set_mmgr_state_def)
  qed
  have "cli_req s AND E_CLI_REQ_OFF = 0" using assms(1) by (simp add: served_def E_CLI_REQ_NONE_def)
  then show ?thesis
    using assms(2) w n [of "Android (X_wake_lock True) # Android (X_wake_lock False) # snd s"]
    by (auto simp: turn_def pending_work_def dispatch_def xcall_def)
qed

text \<open>
  The third turn starts the reset: the client is asked, and the daemon waits for its answer with the
  timer armed. The event that ends the wait is on a descriptor the daemon does not know, which it closes.
\<close>

lemma sim_reset:
  assumes "served (fst s)" "mg_state (fst s) = E_MMGR_MDM_RESET" "evn_cur_ev (mg_events (fst s)) = 1"
  shows "\<exists>s'. reset_modem env_sim s = Some (E_ERR_SUCCESS, s') \<and> mg_state (fst s') = E_MMGR_WAIT_COLD_ACK \<and>
    evn_cur_ev (mg_events (fst s')) = 1 \<and> served (fst s'\<lparr>mg_reset := mg_reset (fst s), mg_timer := mg_timer (fst s)\<rparr>) \<and>
    tm_timeout (mg_timer (fst s')) E_TIMER_COLD_RESET_ACK = 10"
proof -
  obtain key where k: "mg_reset (fst s) = recov_example\<lparr>level_counter := 0, key_reboot := key\<rparr>"
    using assms(1) by (auto simp: served_def)
  obtain fl h1 where f: "mdm_flash_prepare env_sim (mg_flash (fst s)) (snd s) = Some ((E_ERR_SUCCESS, fl), h1)"
    "fl_pipe_read fl = 8" "\<not> fl_flashless fl" "fw_dbg (fl_fw fl) \<noteq> None"
    using assms(1)
    by (auto simp: served_def mdm_flash_prepare_def mdm_fw_get_fw_path_def mdm_fw_get_tlvs_def mdm_fw_dbg_get_tlvs_def
      file_find_ext_def file_find_def mdm_flash_is_hash_changed_def mdm_flash_compute_cfg_hash_def mdm_flash_is_property_equal_def property_get_string_def file_exist_def sim case_prod_unfold)
  obtain rm r h2 where r: "recov_start env_sim (mg_reset (fst s)) h1 = Some ((r, rm), h2)"
    "level_id rm = E_EL_MODEM_COLD_RESET" "rs_state rm = E_OPERATION_NONE"
    by (simp add: k recov_start_def recov_example_def sim case_prod_unfold)
  have "reset_begins env_sim s fl rm h2" using f(1) r(1) by (auto simp: reset_begins_def)
  moreover have "mg_hdler_pre_mdm (fst s) = pre_table" "connected (mg_clients (fst s)) \<noteq> 0"
    using assms(1) by (auto simp: served_def)
  ultimately obtain s1 s2 where a: "reset_modem env_sim s = Some (E_ERR_SUCCESS,
      timer_on env_sim E_TIMER_COLD_RESET_ACK (set_mmgr_state E_MMGR_WAIT_COLD_ACK s2))"
    and 1: "told E_MMGR_EVENT_MODEM_DOWN (recov_set E_OPERATION_WAIT (fst s\<lparr>mg_flash := fl, mg_reset := rm\<rparr>, h2)) s1"
    and 2: "told E_MMGR_NOTIFY_MODEM_COLD_RESET s1 s2"
    using r(2,3) by (metis cold_reset_question sim_alloc)
  let ?s' = "timer_on env_sim E_TIMER_COLD_RESET_ACK (set_mmgr_state E_MMGR_WAIT_COLD_ACK s2)"
  note a
  moreover have "served (fst s2\<lparr>mg_state := E_MMGR_WAIT_COLD_ACK, mg_reset := mg_reset (fst s), mg_timer := mg_timer (fst s)\<rparr>)"
    "evn_cur_ev (mg_events (fst s2)) = 1" "tm_timeout (mg_timer (fst s2)) E_TIMER_COLD_RESET_ACK = 10"
    using assms 1 2 f(2-4) by (auto simp: told_def recov_set_def served_def)
  ultimately show ?thesis by (intro exI [of _ ?s']) (simp add: timer_on_fst set_state_fst timer_start_def case_prod_unfold Let_def)
qed


lemma sim_turn3:
  assumes "served (fst s)" "mg_state (fst s) = E_MMGR_MDM_RESET" "evn_cur_ev (mg_events (fst s)) = 1"
  shows "\<exists>s'. turn env_sim True s = Some (E_ERR_SUCCESS, True, s') \<and>
    mg_state (fst s') = E_MMGR_WAIT_COLD_ACK \<and> tm_timeout (mg_timer (fst s')) E_TIMER_COLD_RESET_ACK = 10"
proof -
  obtain s1 where r: "reset_modem env_sim s = Some (E_ERR_SUCCESS, s1)" "mg_state (fst s1) = E_MMGR_WAIT_COLD_ACK"
    "evn_cur_ev (mg_events (fst s1)) = 1" "served (fst s1\<lparr>mg_reset := mg_reset (fst s), mg_timer := mg_timer (fst s)\<rparr>)"
    "tm_timeout (mg_timer (fst s1)) E_TIMER_COLD_RESET_ACK = 10"
    using sim_reset [OF assms] by blast
  let ?s2 = "set_cli_req (cli_req s1 AND NOT E_CLI_REQ_RESET) s1"
  let ?ev = "(mg_events (fst ?s2))\<lparr>evn_cur_ev := 2, evn_state := E_EVENT_CLIENT\<rparr>"
  have "cli_req s AND E_CLI_REQ_OFF = 0" using assms(1) by (simp add: served_def E_CLI_REQ_NONE_def)
  then have p: "pending_work env_sim s = Some ?s2" using assms(2) r(1) by (simp add: pending_work_def)
  have w: "wait_for_event env_sim ?s2 = Some (E_ERR_SUCCESS, fst ?s2\<lparr>mg_events := ?ev\<rparr>, snd ?s2)"
    using r(3,4) by (auto simp: wait_for_event_def served_def event_fd_def event_of_fd_def mdm_mcd_get_fd_def
        CLOSED_FD_def set_cli_req_def secure_get_fd_def mdm_flash_get_fd_def mcdr_get_fd_def)
  have c: "known_client env_sim (fst ?s2\<lparr>mg_events := ?ev\<rparr>, h) =
      Some (E_ERR_SUCCESS, fst ?s2\<lparr>mg_events := ?ev\<rparr>, Sock (X_close 99) # h)" for h
    using r(4) by (auto simp: known_client_def served_def event_fd_def set_cli_req_def client_find_def xcall_def CLOSED_FD_def)
  show ?thesis
    using p w c r(2,5) by (simp add: turn_def dispatch_def set_cli_req_def)
qed

lemma sim_wait:
  "\<exists>s. running env_sim config_sim 1 True s \<and> mg_state (fst s) = E_MMGR_WAIT_COLD_ACK \<and>
     tm_timeout (mg_timer (fst s)) E_TIMER_COLD_RESET_ACK = 10"
proof -
  obtain s0 where 0: "running env_sim config_sim 1 False s0" "booted (fst s0)" using sim_boot by blast
  obtain s1 where 1: "turn env_sim False s0 = Some (E_ERR_SUCCESS, True, s1)" "served (fst s1)"
    "mg_state (fst s1) = E_MMGR_MDM_OFF" "evn_cur_ev (mg_events (fst s1)) = 0" using sim_turn1 [OF 0(2)] by blast
  obtain s2 where 2: "turn env_sim True s1 = Some (E_ERR_SUCCESS, True, s2)" "served (fst s2)"
    "mg_state (fst s2) = E_MMGR_MDM_RESET" "evn_cur_ev (mg_events (fst s2)) = 1" using sim_turn2 [OF 1(2-4)] by blast
  obtain s3 where 3: "turn env_sim True s2 = Some (E_ERR_SUCCESS, True, s3)" "mg_state (fst s3) = E_MMGR_WAIT_COLD_ACK"
    "tm_timeout (mg_timer (fst s3)) E_TIMER_COLD_RESET_ACK = 10" using sim_turn3 [OF 2(2-4)] by blast
  have "running env_sim config_sim 1 True s3"
    using 0(1) 1(1) 2(1) 3(1) by (meson running.turn)
  with 3(2,3) show ?thesis by blast
qed

section \<open>Instances of the properties of the running daemon\<close>

theorem daemon_state_sound_witness:
  "\<exists>s. running env_sim config_sim 1 True s \<and>
     list_size (mg_clients (fst s)) = int (length (cl_list (mg_clients (fst s)))) \<and>
     connected (mg_clients (fst s)) = int (length (filter is_open (cl_list (mg_clients (fst s)))))"
proof -
  obtain s where s: "running env_sim config_sim 1 True s" using sim_wait by blast
  have "0 \<le> cf_cli_max config_sim" by (simp add: config_sim_def)
  from daemon_state_sound [OF s this refl] s show ?thesis by blast
qed

theorem ack_wait_has_deadline_witness:
  "\<exists>s n. running env_sim config_sim 1 True s \<and> mg_state (fst s) = E_MMGR_WAIT_COLD_ACK \<and>
     armed (mg_timer (fst s)) E_TIMER_COLD_RESET_ACK \<and> 0 \<le> n \<and>
     fst (timer_get_timeout env_sim (mg_timer (fst s)) (snd s)) = n"
proof -
  obtain s where s: "running env_sim config_sim 1 True s" "mg_state (fst s) = E_MMGR_WAIT_COLD_ACK"
    "tm_timeout (mg_timer (fst s)) E_TIMER_COLD_RESET_ACK = 10" using sim_wait by blast
  have "0 \<le> cf_cli_max config_sim" by (simp add: config_sim_def)
  from ack_wait_has_deadline [OF s(1) this refl, of E_TIMER_COLD_RESET_ACK] s show ?thesis
    by (metis (no_types, lifting) prod.collapse zero_neq_numeral)
qed

end
