(* ===== verification/Daemon_Start.thy ===== *)
theory Daemon_Start
  imports Daemon_Run
begin

text \<open>
  The process around the daemon (\<^verbatim>\<open>core/modem_manager.c\<close>): the command line, the signal handlers, and what is
  released when the process exits.
\<close>

section \<open>The command line\<close>

text \<open>\<^verbatim>\<open>strtol\<close> with base 10, as wide as \<^verbatim>\<open>int\<close>: out of range the nearest value, and zero for no number at all.\<close>

definition clamp :: "int \<Rightarrow> int" where
  "clamp v = max (- (2 ^ 31)) (min (2 ^ 31 - 1) v)"

definition strtol :: "string \<Rightarrow> int" where
  "strtol s =
     (let s1 = dropWhile is_space s;
          (neg, s2) = (case s1 of [] \<Rightarrow> (False, [])
                       | c # r \<Rightarrow> if c = CHR ''-'' then (True, r) else if c = CHR ''+'' then (False, r) else (False, s1));
          n = int (fst (scan_nat 0 s2)) in
      clamp (if neg then - n else n))"

text \<open>
  The loop around \<^verbatim>\<open>getopt\<close> with the options \<^verbatim>\<open>hvi:\<close>: \<^term>\<open>None\<close> when the process ends at once (\<^verbatim>\<open>-h\<close>, \<^verbatim>\<open>-v\<close>, an option that is not
  known or whose argument is missing), and otherwise the number of the instance. The options end at the first argument that is none.
\<close>

fun parse_options :: "string list \<Rightarrow> int \<Rightarrow> int option" where
  "parse_options [] inst_id = Some inst_id"
| "parse_options (arg # args) inst_id =
     (if length arg < 2 \<or> arg ! 0 \<noteq> CHR ''-'' \<or> arg = ''--'' then Some inst_id
      else if arg ! 1 \<noteq> CHR ''i'' then None
      else if length arg > 2 then parse_options args (strtol (drop 2 arg))
      else case args of [] \<Rightarrow> None | a # args' \<Rightarrow> parse_options args' (strtol a))"

definition DEFAULT_INST_ID :: int where "DEFAULT_INST_ID = 1"

section \<open>Leaving\<close>

text \<open>
  What is left of the modules: only those whose disposal does more than to free memory are called here. All modules
  are there, as they are from the end of \<^verbatim>\<open>mmgr_init\<close> on.
\<close>

definition cleanup :: "env \<Rightarrow> st \<Rightarrow> history" where
  "cleanup E s =
     (let (_, s1) = events_dispose E s;
          ((_, sec), h2) = secure_stop E (mg_secure (fst s1)) (snd s1);
          (_, h3) = secure_dispose sec h2;
          (_, h4) = mcdr_dispose (mg_mcdr (fst s1)) h3;
          (_, h5) = client_events_dispose E (fst s1, h4);
          (_, h6) = bus_ev_dispose (evn_bus (mg_events (fst s1))) h5;
          h7 = mdm_mcd_dispose (mg_mcd (fst s1)) h6 in
      mdm_flash_dispose (mg_flash (fst s1)) h7)"

text \<open>
  A signal: \<^verbatim>\<open>SIGUSR1\<close> ends the thread that gets it; the other two end the process with code 0, which
  calls \<^verbatim>\<open>cleanup\<close>.
\<close>

definition SIGHUP :: int where "SIGHUP = 1"
definition SIGUSR1 :: int where "SIGUSR1 = 10"
definition SIGTERM :: int where "SIGTERM = 15"

datatype sig_outcome = Thread_exit | Process_exit int history

definition sig_handler :: "env \<Rightarrow> int \<Rightarrow> st \<Rightarrow> sig_outcome" where
  "sig_handler E sig s = (if sig = SIGUSR1 then Thread_exit else Process_exit 0 (cleanup E s))"

fun sigactions :: "env \<Rightarrow> int list \<Rightarrow> history \<Rightarrow> e_mmgr_errors \<times> history" where
  "sigactions E [] h = (E_ERR_SUCCESS, h)"
| "sigactions E (sig # sigs) h =
     (let (r, h1) = xint E (Libc (X_sigaction sig)) h in if r = -1 then (E_ERR_FAILED, h1) else sigactions E sigs h1)"

definition set_signal_handler :: "env \<Rightarrow> history \<Rightarrow> e_mmgr_errors \<times> history" where
  "set_signal_handler E h =
     (let (r, h1) = xint E (Libc X_sigemptyset) h in
      if r = -1 then (E_ERR_FAILED, h1) else sigactions E [SIGUSR1, SIGHUP, SIGTERM] h1)"

text \<open>
  \<^verbatim>\<open>main\<close>: the exit code and the calls of the whole process. A failed assertion aborts the process without any
  disposal, \<^term>\<open>None\<close>; so is a run of the event loop that does not end.
\<close>

definition mmgr_process :: "env \<Rightarrow> mmgr_config \<Rightarrow> string list \<Rightarrow> history \<Rightarrow> (int \<times> history) option" where
  "mmgr_process E cf args h =
     (case parse_options args DEFAULT_INST_ID of
        None \<Rightarrow> Some (0, h)
      | Some inst_id \<Rightarrow>
          let (ret, h1) = set_signal_handler E (xcall (File X_umask) h) in
          if ret = E_ERR_FAILED then Some (1, h1)
          else
            let (r, h2) = xint E (Libc X_atexit) h1 in
            if r \<noteq> 0 then Some (1, h2)
            else do { (code, s) \<leftarrow> mmgr_main E cf inst_id h2; Some (code, cleanup E s) })"

section \<open>What an exit releases\<close>

text \<open>The options: the number of the instance is read as it is printed.\<close>

lemma strtol_dec:
  assumes "- (2 ^ 31) \<le> n" "n < 2 ^ 31"
  shows "strtol (dec n) = n"
proof -
  have scan: "strtol (digits k) = clamp (int k)" "strtol (CHR ''-'' # digits k) = clamp (- int k)" for k
  proof -
    obtain c r where c: "digits k = c # r" by (cases "digits k") simp_all
    then have "is_digit c" using digits_all_digit [of c k] by simp
    then have "\<not> is_space c" "\<not> is_space CHR ''-''" "c \<noteq> CHR ''-''" "c \<noteq> CHR ''+''" by (auto simp: is_digit_def is_space_def)
    with c digits_scan [of "[]" k] show "strtol (digits k) = clamp (int k)" "strtol (CHR ''-'' # digits k) = clamp (- int k)"
      by (simp_all add: strtol_def)
  qed
  show ?thesis using assms by (cases "n < 0") (simp_all add: dec_def scan, simp_all add: clamp_def)
qed

lemma parse_instance: "- (2 ^ 31) \<le> n \<Longrightarrow> n < 2 ^ 31 \<Longrightarrow> parse_options [''-i'', dec n] i = Some n"
  by (simp add: strtol_dec)

text \<open>
  The descriptors that are recorded in the daemon's context. A connection that was accepted but could not be put in the table of
  clients is not among them: \<^verbatim>\<open>new_client\<close> loses it.
\<close>

definition held :: "mmgr_data_t \<Rightarrow> int set" where
  "held m =
     {fd. fd > CLOSED_FD \<and> fd \<in> {mg_fd_tty m, mg_fd_cnx m, mg_epollfd m}} \<union>
     {fd. fd > CLOSED_FD \<and> se_enable (mg_secure m) \<and> fd = se_fd (mg_secure m)} \<union>
     cl_fd ` set (filter is_open (cl_list (mg_clients m))) \<union>
     {mc_pipe_read (mg_mcdr m), mc_pipe_write (mg_mcdr m), mcd_fd (mg_mcd m), fl_pipe_read (mg_flash m), fl_pipe_write (mg_flash m)}"

definition makes :: "ext set \<Rightarrow> history \<Rightarrow> history \<Rightarrow> bool" where
  "makes cs h h' \<longleftrightarrow> (\<exists>xs. h' = xs @ h \<and> cs \<subseteq> set xs)"

lemma makes_trans [trans]: "makes A h h1 \<Longrightarrow> makes B h1 h2 \<Longrightarrow> makes (A \<union> B) h h2"
  unfolding makes_def by (metis Un_mono append_assoc set_append sup_commute)

lemma makes_refl [simp]: "makes {} h h"
  by (simp add: makes_def)

lemma makes_xcall [simp]: "makes {c} h (xcall c h)"
  by (auto simp: makes_def xcall_def intro: exI [of _ "[c]"])

lemma makes_mono: "makes B h h' \<Longrightarrow> A \<subseteq> B \<Longrightarrow> makes A h h'"
  by (auto simp: makes_def)

abbreviation closing :: "int set \<Rightarrow> ext set" where
  "closing fds \<equiv> (\<lambda>fd. Sock (X_close fd)) ` fds"

lemma tty_close_makes: "makes (closing {x. x > CLOSED_FD \<and> x = fd}) h (snd (tty_close E fd h))"
  by (cases "fd > CLOSED_FD") (auto simp: tty_close_def makes_def xcall_def)

lemma cnx_close_makes: "makes (closing {fd}) h (snd (cnx_close E fd h))"
  by (auto simp: cnx_close_def ext_defs makes_def intro: exI [of _ "[Sock (X_close fd), Sock (X_shutdown fd)]"])

lemma close_slots_makes: "makes (closing (cl_fd ` set (filter is_open cs))) h (snd (close_slots E cs h))"
proof (induction cs arbitrary: h)
  case (Cons c cs)
  show ?case
  proof (cases "is_open c")
    case True
    have "makes (closing {cl_fd c} \<union> closing (cl_fd ` set (filter is_open cs))) h
        (snd (close_slots E cs (snd (cnx_close E (cl_fd c) h))))"
      using makes_trans [OF cnx_close_makes Cons] .
    with True show ?thesis by (simp add: case_prod_unfold Let_def)
  qed (use Cons in \<open>simp add: case_prod_unfold Let_def\<close>)
qed simp

lemma events_dispose_makes:
  "makes ({Android (X_wake_lock False)} \<union> closing {fd. fd > CLOSED_FD \<and> fd \<in> {mg_fd_tty (fst s), mg_fd_cnx (fst s), mg_epollfd (fst s)}})
     (snd s) (snd (snd (events_dispose E s)))"
proof -
  let ?h1 = "xcall (Android (X_wake_lock False)) (snd s)"
  let ?t = "if mg_fd_tty (fst s) \<noteq> CLOSED_FD then snd (tty_close E (mg_fd_tty (fst s)) ?h1) else ?h1"
  let ?c = "if mg_fd_cnx (fst s) \<noteq> CLOSED_FD then snd (cnx_close E (mg_fd_cnx (fst s)) ?t) else ?t"
  let ?e = "if mg_epollfd (fst s) \<noteq> CLOSED_FD then xcall (Sock (X_close (mg_epollfd (fst s)))) ?c else ?c"
  have "makes (closing {fd. fd > CLOSED_FD \<and> fd = mg_fd_tty (fst s)}) ?h1 ?t"
    using tty_close_makes [of "mg_fd_tty (fst s)" ?h1 E] by (auto intro: makes_mono [OF makes_refl])
  moreover have "makes (closing {fd. fd > CLOSED_FD \<and> fd = mg_fd_cnx (fst s)}) ?t ?c"
    using cnx_close_makes [of "mg_fd_cnx (fst s)" ?t E] by (auto intro: makes_mono [OF makes_refl] makes_mono)
  moreover have "makes (closing {fd. fd > CLOSED_FD \<and> fd = mg_epollfd (fst s)}) ?c ?e"
    by (auto intro: makes_mono [OF makes_refl] makes_mono [OF makes_xcall])
  ultimately have "makes ({Android (X_wake_lock False)} \<union> (closing {fd. fd > CLOSED_FD \<and> fd = mg_fd_tty (fst s)} \<union>
      (closing {fd. fd > CLOSED_FD \<and> fd = mg_fd_cnx (fst s)} \<union> closing {fd. fd > CLOSED_FD \<and> fd = mg_epollfd (fst s)}))) (snd s) ?e"
    by (intro makes_trans [OF makes_xcall] makes_trans) blast+
  moreover have "snd (snd (events_dispose E s)) = ?e" by (simp add: events_dispose_def case_prod_unfold Let_def)
  ultimately show ?thesis by (auto elim!: makes_mono)
qed

text \<open>
  What an exit does: every descriptor of the context is closed, the library that watches the USB bus gives back its own, the wake lock is
  released, and the libraries are unloaded.
\<close>

definition usb_host :: "mmgr_data_t \<Rightarrow> bool" where
  "usb_host m \<longleftrightarrow> (\<exists>b. evn_bus (mg_events m) = Some b \<and> bus_ctx b)"

definition released :: "st \<Rightarrow> history \<Rightarrow> bool" where
  "released s h' \<longleftrightarrow> makes (closing (held (fst s)) \<union> {Android (X_wake_lock False), Libc (X_dlclose MUP_LIB)} \<union>
     {c. c = Libc (X_dlclose ''libmcdr.so'') \<and> mc_lib (mg_mcdr (fst s))} \<union>
     {c. c = Plug X_usb_cleanup \<and> usb_host (fst s)} \<union>
     {c. c = Libc (X_dlclose ''libdx_cc7.so'') \<and> se_enable (mg_secure (fst s)) \<and> se_hdle (mg_secure (fst s))}) (snd s) h'"

lemma secure_makes:
  "makes (closing {fd. fd > CLOSED_FD \<and> se_enable sec \<and> fd = se_fd sec} \<union>
     {c. c = Libc (X_dlclose ''libdx_cc7.so'') \<and> se_enable sec \<and> se_hdle sec}) h
     (snd (secure_dispose (snd (fst (secure_stop E sec h))) (snd (secure_stop E sec h))))"
  by (cases "se_enable sec"; cases "se_hdle sec"; cases "se_fd sec > CLOSED_FD")
    (auto simp: secure_stop_def secure_dispose_def tty_close_def makes_def xcall_def)

lemma mcdr_makes:
  "makes (closing {mc_pipe_read ctx, mc_pipe_write ctx} \<union> {c. c = Libc (X_dlclose ''libmcdr.so'') \<and> mc_lib ctx}) h (snd (mcdr_dispose ctx h))"
  by (auto simp: mcdr_dispose_def makes_def xcall_def
      intro: exI [of _ "[Sock (X_close (mc_pipe_write ctx)), Sock (X_close (mc_pipe_read ctx)), Libc (X_dlclose ''libmcdr.so'')]"])

lemma bus_makes: "makes {c. c = Plug X_usb_cleanup \<and> usb_host m} h (snd (bus_ev_dispose (evn_bus (mg_events m)) h))"
  by (auto simp: bus_ev_dispose_def usb_host_def makes_def xcall_def split: option.split)

lemma flash_makes:
  "makes (closing {fl_pipe_read fl, fl_pipe_write fl} \<union> {Libc (X_dlclose MUP_LIB)}) h (mdm_flash_dispose fl h)"
  by (auto simp: mdm_flash_dispose_def mdm_mup_dispose_def makes_def xcall_def
      intro: exI [of _ "[Sock (X_close (fl_pipe_write fl)), Sock (X_close (fl_pipe_read fl)), Libc (X_dlclose MUP_LIB)]"])

lemma events_dispose_keeps:
  "mg_secure (fst (snd (events_dispose E s))) = mg_secure (fst s)" "mg_mcdr (fst (snd (events_dispose E s))) = mg_mcdr (fst s)"
  "mg_clients (fst (snd (events_dispose E s))) = mg_clients (fst s)" "mg_events (fst (snd (events_dispose E s))) = mg_events (fst s)"
  "mg_mcd (fst (snd (events_dispose E s))) = mg_mcd (fst s)" "mg_flash (fst (snd (events_dispose E s))) = mg_flash (fst s)"
  by (simp_all add: events_dispose_def case_prod_unfold Let_def)

lemma cleanup_releases: "released s (cleanup E s)"
proof -
  let ?m = "fst s"
  let ?h1 = "snd (snd (events_dispose E s))"
  let ?h3 = "snd (secure_dispose (snd (fst (secure_stop E (mg_secure ?m) ?h1))) (snd (secure_stop E (mg_secure ?m) ?h1)))"
  let ?h4 = "snd (mcdr_dispose (mg_mcdr ?m) ?h3)"
  let ?h5 = "snd (close_slots E (cl_list (mg_clients ?m)) ?h4)"
  let ?h6 = "snd (bus_ev_dispose (evn_bus (mg_events ?m)) ?h5)"
  have c: "cleanup E s = mdm_flash_dispose (mg_flash ?m) (xcall (Sock (X_close (mcd_fd (mg_mcd ?m)))) ?h6)"
    by (simp add: cleanup_def client_events_dispose_def clients_dispose_def client_close_def mdm_mcd_dispose_def events_dispose_keeps
        case_prod_unfold Let_def)
  note makes_trans [OF makes_trans [OF makes_trans [OF makes_trans [OF makes_trans [OF makes_trans
    [OF events_dispose_makes [of s E] secure_makes [of "mg_secure ?m" ?h1 E]] mcdr_makes [of "mg_mcdr ?m" ?h3]]
    close_slots_makes [of "cl_list (mg_clients ?m)" ?h4 E]] bus_makes [of ?m ?h5]] makes_xcall] flash_makes [of "mg_flash ?m"]]
  from this [of "Sock (X_close (mcd_fd (mg_mcd ?m)))"] show ?thesis
    unfolding released_def c by (rule makes_mono) (auto simp: held_def)
qed

text \<open>A process that ends before any module is created has only set up its signals.\<close>

definition setup_call :: "ext \<Rightarrow> bool" where
  "setup_call c \<longleftrightarrow> c \<in> {File X_umask, Libc X_sigemptyset, Libc X_atexit} \<or> (\<exists>sig. c = Libc (X_sigaction sig))"

definition setup_only :: "history \<Rightarrow> history \<Rightarrow> bool" where
  "setup_only h h' \<longleftrightarrow> (\<exists>xs. h' = xs @ h \<and> list_all setup_call xs)"

lemma setup_only_refl [simp]: "setup_only h h"
  by (simp add: setup_only_def)

lemma setup_calls [simp]:
  "setup_call (File X_umask)" "setup_call (Libc X_sigemptyset)" "setup_call (Libc X_atexit)" "setup_call (Libc (X_sigaction sig))"
  by (simp_all add: setup_call_def)

lemma setup_only_Cons: "setup_call c \<Longrightarrow> setup_only h h' \<Longrightarrow> setup_only h (c # h')"
  unfolding setup_only_def by (metis append_Cons list.pred_inject(2))

lemma sigactions_setup: "setup_only h0 h \<Longrightarrow> setup_only h0 (snd (sigactions E sigs h))"
proof (induction sigs arbitrary: h)
  case (Cons sig sigs)
  then have "setup_only h0 (Libc (X_sigaction sig) # h)" by (intro setup_only_Cons) simp_all
  with Cons.IH show ?case by (simp add: xint_def)
qed simp

lemma signal_setup: "setup_only h (snd (set_signal_handler E (xcall (File X_umask) h)))"
  by (auto simp: set_signal_handler_def ext_defs simp del: sigactions.simps intro!: sigactions_setup setup_only_Cons)

text \<open>
  C14: The end of the process gives back what the daemon's context records. Whether a signal ends the process, at any time after the
  modules were created, or the event loop returns, or the sockets cannot be opened: every descriptor that is recorded in the context then (terminal,
  server socket, poll descriptor, secure channel, driver, the pipes of the two worker threads, the clients in the table) is closed, the watch of
  the USB bus is ended if there is one, the wake lock is released and the libraries are unloaded; and the modules were created for the
  instance whose number was given on the command line. Otherwise the signals could not be set up, the code is 1, and no module was created.
  (A signal while \<^verbatim>\<open>mmgr_init\<close> still runs finds modules missing and is outside this statement, and so is an accepted connection that was never recorded.)
\<close>

theorem process_end_releases:
  assumes "- (2 ^ 31) \<le> n" "n < 2 ^ 31"
  shows "(sig \<in> {SIGHUP, SIGTERM} \<longrightarrow> (\<exists>h'. sig_handler E sig s = Process_exit 0 h' \<and> released s h')) \<and>
    (mmgr_process E cf [''-i'', dec n] h = Some (code, h') \<longrightarrow>
       code = 1 \<and> setup_only h h' \<or> (\<exists>h1 s. mmgr_main E cf n h1 = Some (code, s) \<and> released s h'))"
proof (intro conjI impI)
  assume "sig \<in> {SIGHUP, SIGTERM}"
  then show "\<exists>h'. sig_handler E sig s = Process_exit 0 h' \<and> released s h'"
    using cleanup_releases [of s E] by (auto simp: sig_handler_def SIGHUP_def SIGTERM_def SIGUSR1_def)
next
  assume p: "mmgr_process E cf [''-i'', dec n] h = Some (code, h')"
  obtain ret h1 where h1: "set_signal_handler E (xcall (File X_umask) h) = (ret, h1)" by (metis prod.exhaust)
  then have s1: "setup_only h h1" "setup_only h (Libc X_atexit # h1)"
    using signal_setup [of h E] by (auto intro: setup_only_Cons)
  consider "ret = E_ERR_FAILED \<or> env_int E (Libc X_atexit # h1) \<noteq> 0" "code = 1" "h' = h1 \<or> h' = Libc X_atexit # h1"
    | t where "mmgr_main E cf n (Libc X_atexit # h1) = Some (code, t)" "h' = cleanup E t"
    using p h1 unfolding mmgr_process_def parse_instance [OF assms]
    by (auto simp: bind_eq_Some_conv xint_def Let_def split: if_splits)
  then show "code = 1 \<and> setup_only h h' \<or> (\<exists>h1 s. mmgr_main E cf n h1 = Some (code, s) \<and> released s h')"
    by cases (use s1 cleanup_releases in blast)+
qed

theorem process_end_releases_witness:
  "\<exists>s h1 h2. running env_sim config_sim 1 False s \<and> sig_handler env_sim SIGTERM s = Process_exit 0 h1 \<and> released s h1 \<and>
     mmgr_process env_sim config_sim [''-i'', dec 1] [] = Some (1, h2) \<and>
     (setup_only [] h2 \<or> (\<exists>h s'. mmgr_main env_sim config_sim 1 h = Some (1, s') \<and> released s' h2))"
proof -
  have n: "- (2 ^ 31) \<le> (1 :: int)" "(1 :: int) < 2 ^ 31" by simp_all
  obtain s where s: "running env_sim config_sim 1 False s" using sim_boot by blast
  obtain h2 where p: "mmgr_process env_sim config_sim [''-i'', dec 1] [] = Some (1, h2)"
    using parse_instance [OF n] by (simp add: mmgr_process_def set_signal_handler_def sim)
  from process_end_releases [OF n, of SIGTERM env_sim s config_sim "[]" 1 h2] s p show ?thesis by blast
qed

end
