(* ===== verification/Cli_Lib.thy ===== *)
theory Cli_Lib
  imports Msg_Roundtrip Tty
begin

text \<open>
  The client library (\<^verbatim>\<open>libclients/c/utils.c\<close> and \<^verbatim>\<open>libclients/c/interface.c\<close>): the handle, the exchange of a
  request with its acknowledgement, the reader thread that delivers events to the callbacks of the application, the
  reconnection to a daemon that went away, and the functions of \<^verbatim>\<open>mmgr_cli.h\<close>.

  The mutex \<^verbatim>\<open>mtx\<close> only guards single accesses to the handle and is not part of the model; \<^verbatim>\<open>mtx_signal\<close> is held
  across calls and is a field. A thread that locks it twice is stuck: \<^term>\<open>None\<close>. The
  thread a function runs in is its argument \<open>self\<close>, the answer of \<^verbatim>\<open>gettid\<close>. The reader thread
  runs while a thread of the application is blocked in \<^verbatim>\<open>pthread_cond_timedwait\<close>, \<^verbatim>\<open>sleep\<close> or \<^verbatim>\<open>pthread_join\<close>; how far
  it gets there is the environment's answer. Callbacks are functions of the application: the environment answers what
  they return.
\<close>

section \<open>The handle\<close>

datatype e_err_mmgr_cli =
    E_ERR_CLI_SUCCEED | E_ERR_CLI_FAILED | E_ERR_CLI_ALREADY_LOCK | E_ERR_CLI_ALREADY_UNLOCK
  | E_ERR_CLI_BAD_HANDLE | E_ERR_CLI_TIMEOUT | E_ERR_CLI_REJECTED | E_ERR_CLI_BAD_CNX_STATE

datatype cnx_state = E_CNX_DISCONNECTED | E_CNX_CONNECTED | E_CNX_RECONNECT

datatype e_send_method = E_SEND_SINGLE | E_SEND_THREADED

definition DEF_MMGR_RESPONSIVE_TIMEOUT :: int where "DEF_MMGR_RESPONSIVE_TIMEOUT = 20"
definition DEFAULT_TID :: int where "DEFAULT_TID = 1"
definition MMGR_SOCKET_LEN :: nat where "MMGR_SOCKET_LEN = 8"
definition PIPE_BUF :: nat where "PIPE_BUF = 4096"
definition ETIMEDOUT :: int where "ETIMEDOUT = 110"

text \<open>
  \<open>lb_ack\<close> holds what was received last, an event or any other number. A callback is NULL or
  the number of a function. No thread identifier is -1 in \<^verbatim>\<open>thr_id\<close>, \<^term>\<open>None\<close> here. \<open>lb_reader\<close> is the reader thread: while it runs, its local \<^verbatim>\<open>fd_max\<close> and its
  identifier.
\<close>

record mmgr_lib_context_t =
  lb_events :: u32
  lb_thr_id :: "int option"
  lb_cli_ctx :: nat
  lb_connected :: cnx_state
  lb_fd_socket :: int
  lb_pipe_read :: int
  lb_pipe_write :: int
  lb_func :: "e_mmgr_events \<Rightarrow> nat option"
  lb_cli_name :: "byte list"
  lb_lock :: bool
  lb_set_msg :: "e_mmgr_requests \<Rightarrow> builder"
  lb_set_data :: "e_mmgr_events \<Rightarrow> decoder"
  lb_free_data :: "e_mmgr_events \<Rightarrow> releaser"
  lb_mtx_signal :: bool
  lb_ack :: u32
  lb_tid :: int
  lb_cnx_name :: string
  lb_reader :: "(int \<times> int) option"

type_synonym lst = "mmgr_lib_context_t \<times> history"

definition mutex_lock :: "lst \<Rightarrow> lst option" where
  "mutex_lock s = (if lb_mtx_signal (fst s) then None else Some (fst s\<lparr>lb_mtx_signal := True\<rparr>, snd s))"

definition mutex_unlock :: "lst \<Rightarrow> lst" where
  "mutex_unlock s = (fst s\<lparr>lb_mtx_signal := False\<rparr>, snd s)"

definition set_ack :: "u32 \<Rightarrow> lst \<Rightarrow> lst" where
  "set_ack a s = (fst s\<lparr>lb_ack := a\<rparr>, snd s)"

definition set_connected :: "cnx_state \<Rightarrow> lst \<Rightarrow> lst" where
  "set_connected c s = (fst s\<lparr>lb_connected := c\<rparr>, snd s)"

definition is_connected :: "mmgr_lib_context_t option \<Rightarrow> bool" where
  "is_connected h = (case h of None \<Rightarrow> False | Some c \<Rightarrow> lb_connected c = E_CNX_CONNECTED)"

section \<open>Messages of the daemon\<close>

text \<open>\<^verbatim>\<open>msg_delete\<close>: the buffer of a message is given back, if it has one.\<close>

definition free_msg :: "msg_t \<Rightarrow> lst \<Rightarrow> lst" where
  "free_msg msg s = (fst s, free_ptr (msg_data msg) (snd s))"

text \<open>
  Only an end of the connection is told apart: after any other failure of \<^verbatim>\<open>msg_get_header\<close> the
  function goes on with the zeroed header.
\<close>

definition read_msg :: "env \<Rightarrow> lst \<Rightarrow> ((e_err_mmgr_cli \<times> msg_t) \<times> lst) option" where
  "read_msg E s =
     do { ((err, hdr), h1) \<leftarrow> msg_get_header E (lb_fd_socket (fst s)) (msg_hdr msg_empty) (snd s);
          let msg = msg_empty\<lparr>msg_hdr := hdr\<rparr>;
          if err = E_ERR_DISCONNECTED
          then Some ((E_ERR_CLI_BAD_CNX_STATE, msg), set_connected E_CNX_RECONNECT (fst s, h1))
          else
            let size = unat (hdr_len hdr) in
            if size \<noteq> 0
            then
              let (data, h2) = calloc E size h1 in
              (case data of
                 None \<Rightarrow> Some ((E_ERR_CLI_FAILED, msg), (fst s, h2))
               | Some _ \<Rightarrow>
                   let ((err, buf, read_size), h3) = cnx_read E (lb_fd_socket (fst s)) size h2 in
                   Some ((if err \<noteq> E_ERR_SUCCESS \<or> read_size \<noteq> size then E_ERR_CLI_FAILED else E_ERR_CLI_SUCCEED,
                          msg\<lparr>msg_data := Some buf\<rparr>), (fst s, h3)))
            else Some ((E_ERR_CLI_SUCCEED, msg), (fst s, h1)) }"

section \<open>Requests\<close>

text \<open>
  \<open>peer n\<close> is the reader thread running \<open>n\<close> rounds; it is used by a sender that waits for this
  thread (\<^verbatim>\<open>E_SEND_THREADED\<close>), never by the reader thread itself.
\<close>

type_synonym peer = "nat \<Rightarrow> lst \<Rightarrow> lst option"

definition no_peer :: peer where
  "no_peer n s = Some s"

text \<open>The result: the error of the wait and whether the loop is left at once.\<close>

definition wait_single :: "env \<Rightarrow> int \<Rightarrow> lst \<Rightarrow> (e_mmgr_errors \<times> bool \<times> lst) option" where
  "wait_single E timeout s =
     (let (err, h1) = tty_wait_for_event E (lb_fd_socket (fst s)) (timeout * 1000) (snd s) in
      if err = E_ERR_TTY_TIMEOUT then Some (err, True, (fst s, h1))
      else do { ((r, answer), s2) \<leftarrow> read_msg E (fst s, h1);
                Some (err, False, free_msg answer
                  (if r = E_ERR_CLI_SUCCEED then set_ack (hdr_id (msg_hdr answer)) s2 else s2)) })"

definition wait_threaded :: "env \<Rightarrow> peer \<Rightarrow> int \<Rightarrow> lst \<Rightarrow> (e_mmgr_errors \<times> bool \<times> lst) option" where
  "wait_threaded E peer timeout s =
     do { let (ts, h1) = xtime E (Libc X_realtime) (snd s);
          let (r, h2) = xint E (Cli (X_cond_timedwait (tv_sec ts + timeout))) h1;
          s3 \<leftarrow> peer (nat (env_int2 E h2)) (mutex_unlock (fst s, h2));
          s4 \<leftarrow> mutex_lock s3;
          Some (if r = ETIMEDOUT then (E_ERR_TTY_TIMEOUT, True, s4) else (E_ERR_SUCCESS, False, s4)) }"

definition pause :: "env \<Rightarrow> peer \<Rightarrow> e_send_method \<Rightarrow> int \<Rightarrow> lst \<Rightarrow> lst option" where
  "pause E peer meth n s =
     (let h1 = xcall (Libc (X_sleep n)) (snd s) in
      if meth = E_SEND_THREADED then peer (nat (env_int2 E h1)) (fst s, h1) else Some (fst s, h1))"

text \<open>
  One pass of the loop of \<^verbatim>\<open>send_msg\<close>: it is left with \<^verbatim>\<open>ret\<close> and \<^verbatim>\<open>err\<close>, or there is another pass, with the time that is left
  and the length of the pause that was made. \<^verbatim>\<open>cnx_write\<close> aborts on a message that could not be built and never updates the size.
\<close>

definition attempt ::
  "env \<Rightarrow> peer \<Rightarrow> e_send_method \<Rightarrow> u32 \<Rightarrow> msg_t \<Rightarrow> int \<Rightarrow> int \<Rightarrow> int \<Rightarrow> lst \<Rightarrow>
     (((e_err_mmgr_cli \<times> e_mmgr_errors) \<times> lst) + (int \<times> int \<times> lst)) option" where
  "attempt E peer meth rid msg start timeout sleep_duration s =
     do { s1 \<leftarrow> mutex_lock s;
          data \<leftarrow> msg_data msg;
          xs \<leftarrow> mem_read data 0 (unat (of_nat SIZE_HEADER + hdr_len (msg_hdr msg)));
          let (err, h2) = cnx_write E (lb_fd_socket (fst s1)) xs (snd s1);
          let s2 = (fst s1, h2);
          if err \<noteq> E_ERR_SUCCESS then Some (Inl ((E_ERR_CLI_FAILED, err), s2))
          else if rid = request_id E_MMGR_ACK_MODEM_COLD_RESET \<or> rid = request_id E_MMGR_ACK_MODEM_SHUTDOWN
          then Some (Inl ((E_ERR_CLI_SUCCEED, err), s2))
          else do {
            (err3, timed_out, s3) \<leftarrow> (if meth = E_SEND_SINGLE then wait_single E timeout s2
                                       else wait_threaded E peer timeout s2);
            if timed_out then Some (Inl ((E_ERR_CLI_FAILED, err3), s3))
            else if lb_ack (fst s3) = event_id E_MMGR_ACK then Some (Inl ((E_ERR_CLI_SUCCEED, err3), s3))
            else do {
              let s4 = mutex_unlock s3;
              let (ts, h5) = xtime E (Libc X_realtime) (snd s4);
              let timeout' = DEF_MMGR_RESPONSIVE_TIMEOUT - (tv_sec ts - start);
              if timeout' > 0 \<and> sleep_duration + 1 \<le> timeout'
              then do { s6 \<leftarrow> pause E peer meth (sleep_duration + 1) (fst s4, h5);
                        Some (Inr (timeout', sleep_duration + 1, s6)) }
              else Some (Inl ((E_ERR_CLI_FAILED, err3), (fst s4, h5))) } } }"

text \<open>The loop; the result is \<^verbatim>\<open>ret\<close> and \<^verbatim>\<open>err\<close> where it is left.\<close>

partial_function (option) exchange_loop ::
  "env \<Rightarrow> peer \<Rightarrow> e_send_method \<Rightarrow> u32 \<Rightarrow> msg_t \<Rightarrow> int \<Rightarrow> int \<Rightarrow> int \<Rightarrow> lst \<Rightarrow>
     ((e_err_mmgr_cli \<times> e_mmgr_errors) \<times> lst) option" where
  "exchange_loop E peer meth rid msg start timeout sleep_duration s =
     do { r \<leftarrow> attempt E peer meth rid msg start timeout sleep_duration s;
          case r of
            Inl res \<Rightarrow> Some res
          | Inr (timeout', sleep_duration', s') \<Rightarrow> exchange_loop E peer meth rid msg start timeout' sleep_duration' s' }"

declare exchange_loop.simps [code]

text \<open>
  On the way out the mutex is tried and released, whether it was still held or not. A request is NULL,
  or has a number, a length and data.
\<close>

definition send_msg ::
  "env \<Rightarrow> peer \<Rightarrow> mmgr_cli_event_t option \<Rightarrow> e_send_method \<Rightarrow> int \<Rightarrow> lst \<Rightarrow> (e_err_mmgr_cli \<times> lst) option" where
  "send_msg E peer request meth timeout s =
     (case request of
        None \<Rightarrow> Some (E_ERR_CLI_FAILED, mutex_unlock s)
      | Some req \<Rightarrow>
          if ev_id req \<ge> request_id E_MMGR_NUM_REQUESTS then Some (E_ERR_CLI_FAILED, mutex_unlock s)
          else if timeout \<le> 0 then Some (E_ERR_CLI_FAILED, mutex_unlock s)
          else do {
            let s1 = set_ack (event_id E_MMGR_NUM_EVENTS) s;
            ((_, msg), h2) \<leftarrow> lb_set_msg (fst s1) (request_of_id (ev_id req)) E msg_empty req (snd s1);
            let (ts, h3) = xtime E (Libc X_realtime) h2;
            ((ret, err), s4) \<leftarrow> exchange_loop E peer meth (ev_id req) msg (tv_sec ts) timeout 1 (fst s1, h3);
            Some (if err = E_ERR_TTY_TIMEOUT then E_ERR_CLI_TIMEOUT else ret, free_msg msg (mutex_unlock s4)) })"

definition request :: "e_mmgr_requests \<Rightarrow> mmgr_cli_event_t option" where
  "request r = Some \<lparr>ev_id = request_id r, ev_len = 0, ev_data = D_null, ev_context = 0\<rparr>"

section \<open>The reader thread\<close>

definition ev_ack :: "u32 \<Rightarrow> lst \<Rightarrow> (e_err_mmgr_cli \<times> lst) option" where
  "ev_ack i s =
     do { s1 \<leftarrow> mutex_lock (set_ack i s);
          Some (E_ERR_CLI_SUCCEED, mutex_unlock s1) }"

text \<open>
  What comes before the callback: the event is decoded and the thread is noted, so that requests from inside the callback can be told.
  The result is the event and the state in which the callback runs.
\<close>

definition enter_callback :: "env \<Rightarrow> int \<Rightarrow> msg_t \<Rightarrow> lst \<Rightarrow> (mmgr_cli_event_t \<times> lst) option" where
  "enter_callback E self msg s =
     do { let i = hdr_id (msg_hdr msg);
          ((_, event), h1) \<leftarrow> lb_set_data (fst s) (event_of_id i) E msg
            \<lparr>ev_id = i, ev_len = 0, ev_data = D_null, ev_context = lb_cli_ctx (fst s)\<rparr> (snd s);
          Some (event, (fst s\<lparr>lb_tid := self\<rparr>, xcall (Libc X_boottime) h1)) }"

text \<open>
  The first half of \<^verbatim>\<open>call_cli_callback\<close>: an answer is passed on to the sender; the callback of another event is called between two
  readings of the clock, with the decoded event, which is freed afterwards as it was decoded. The results are \<^verbatim>\<open>ret\<close> and \<^verbatim>\<open>err\<close>, the
  answer of the callback.
\<close>

definition deliver :: "env \<Rightarrow> int \<Rightarrow> msg_t \<Rightarrow> lst \<Rightarrow> (e_err_mmgr_cli \<times> int \<times> lst) option" where
  "deliver E self msg s =
     (let i = hdr_id (msg_hdr msg); e = event_of_id i in
      if e = E_MMGR_ACK \<or> e = E_MMGR_NACK then do { (ret, s1) \<leftarrow> ev_ack i s; Some (ret, 1, s1) }
      else
        case lb_func (fst s) e of
          None \<Rightarrow> Some (E_ERR_CLI_FAILED, 1, s)
        | Some f \<Rightarrow>
            do { (event, s1) \<leftarrow> enter_callback E self msg s;
                 let (err, h2) = xint E (Cli (X_callback f i)) (snd s1);
                 (_, h3) \<leftarrow> lb_free_data (fst s1) e event (xcall (Libc X_boottime) h2);
                 Some (E_ERR_CLI_SUCCEED, err, (fst s1, h3)) })"

text \<open>Zero is the approval of a callback; the two notifications that need one are acknowledged then.\<close>

definition call_cli_callback :: "env \<Rightarrow> int \<Rightarrow> msg_t \<Rightarrow> lst \<Rightarrow> (e_err_mmgr_cli \<times> lst) option" where
  "call_cli_callback E self msg s =
     (let i = hdr_id (msg_hdr msg); e = event_of_id i in
      if i < event_id E_MMGR_NUM_EVENTS
      then do {
        (ret, err, s1) \<leftarrow> deliver E self msg s;
        if err = 0 \<and> (e = E_MMGR_NOTIFY_MODEM_COLD_RESET \<or> e = E_MMGR_NOTIFY_MODEM_SHUTDOWN)
        then do { (_, s2) \<leftarrow> send_msg E no_peer
                    (request (if e = E_MMGR_NOTIFY_MODEM_COLD_RESET then E_MMGR_ACK_MODEM_COLD_RESET
                              else E_MMGR_ACK_MODEM_SHUTDOWN))
                    E_SEND_SINGLE DEF_MMGR_RESPONSIVE_TIMEOUT s1;
                  Some (ret, s2) }
        else Some (ret, s1) }
      else Some (E_ERR_CLI_FAILED, s))"

definition handle_cnx_event :: "env \<Rightarrow> int \<Rightarrow> lst \<Rightarrow> (e_err_mmgr_cli \<times> lst) option" where
  "handle_cnx_event E self s =
     do { ((ret, msg), s1) \<leftarrow> read_msg E s;
          (ret', s2) \<leftarrow> (if ret = E_ERR_CLI_SUCCEED then call_cli_callback E self msg s1 else Some (ret, s1));
          Some (ret', free_msg msg s2) }"

definition handle_events :: "env \<Rightarrow> int \<Rightarrow> int list \<Rightarrow> lst \<Rightarrow> (e_err_mmgr_cli \<times> lst) option" where
  "handle_events E self rfds s =
     (if lb_pipe_read (fst s) \<in> set rfds
      then Some (E_ERR_CLI_BAD_CNX_STATE, (fst s, snd (sys_read E (lb_pipe_read (fst s)) PIPE_BUF (snd s))))
      else if lb_fd_socket (fst s) \<in> set rfds then handle_cnx_event E self s
      else Some (E_ERR_CLI_FAILED, s))"

section \<open>Connection\<close>

text \<open>
  The name is sent with its length up to the end of the string, then the events the handle
  subscribed to. The time left for the second request is counted from the start of the first.
\<close>

definition register_client :: "env \<Rightarrow> lst \<Rightarrow> (e_err_mmgr_cli \<times> lst) option" where
  "register_client E s =
     do { let c = fst s;
          let name = Some \<lparr>ev_id = request_id E_MMGR_SET_NAME,
                           ev_len = of_nat (length (takeWhile (\<lambda>b. b \<noteq> 0) (lb_cli_name c))),
                           ev_data = D_bytes (lb_cli_name c), ev_context = 0\<rparr>;
          let filter = Some \<lparr>ev_id = request_id E_MMGR_SET_EVENTS, ev_len = 4, ev_data = D_int (lb_events c),
                             ev_context = 0\<rparr>;
          let (start, h1) = xtime E (Libc X_realtime) (snd s);
          (ret1, s2) \<leftarrow> send_msg E no_peer name E_SEND_SINGLE DEF_MMGR_RESPONSIVE_TIMEOUT (c, h1);
          if ret1 \<noteq> E_ERR_CLI_SUCCEED then Some (ret1, s2)
          else do {
            let (ts, h3) = xtime E (Libc X_realtime) (snd s2);
            (ret2, s4) \<leftarrow> send_msg E no_peer filter E_SEND_SINGLE
                            (DEF_MMGR_RESPONSIVE_TIMEOUT - (tv_sec ts - tv_sec start)) (fst s2, h3);
            Some (ret2, if ret2 = E_ERR_CLI_SUCCEED then (fst s4, xcall (Libc X_realtime) (snd s4)) else s4) } }"

definition cli_connect :: "env \<Rightarrow> lst \<Rightarrow> (e_err_mmgr_cli \<times> lst) option" where
  "cli_connect E s =
     (let (fd, h1) = xint E (Cli (X_socket_local_client (lb_cnx_name (fst s)))) (snd s) in
      if fd < 0 then Some (E_ERR_CLI_FAILED, (fst s, h1))
      else register_client E (fst s\<lparr>lb_fd_socket := fd\<rparr>, h1))"

definition close_socket :: "env \<Rightarrow> lst \<Rightarrow> lst" where
  "close_socket E s =
     (if lb_fd_socket (fst s) \<noteq> CLOSED_FD
      then let ((_, fd), h1) = cnx_close E (lb_fd_socket (fst s)) (snd s) in (fst s\<lparr>lb_fd_socket := fd\<rparr>, h1)
      else s)"

text \<open>The two loops of a reconnection: until the daemon answers, and until it grants the resource again.\<close>

partial_function (option) reconnect_loop :: "env \<Rightarrow> lst \<Rightarrow> lst option" where
  "reconnect_loop E s =
     do { (ret, s1) \<leftarrow> cli_connect E (close_socket E (fst s, xcall (Libc (X_sleep 1)) (snd s)));
          if ret = E_ERR_CLI_SUCCEED then Some s1 else reconnect_loop E s1 }"

partial_function (option) acquire_loop :: "env \<Rightarrow> lst \<Rightarrow> lst option" where
  "acquire_loop E s =
     do { (ret, s1) \<leftarrow> send_msg E no_peer (request E_MMGR_RESOURCE_ACQUIRE) E_SEND_SINGLE
                        DEF_MMGR_RESPONSIVE_TIMEOUT s;
          if ret = E_ERR_CLI_SUCCEED then Some s1 else acquire_loop E s1 }"

declare reconnect_loop.simps [code]
declare acquire_loop.simps [code]

definition fake_event :: "e_mmgr_events \<Rightarrow> msg_t" where
  "fake_event e = msg_empty\<lparr>msg_hdr := (msg_hdr msg_empty)\<lparr>hdr_id := event_id e\<rparr>\<rparr>"

definition close_pipe :: "lst \<Rightarrow> lst" where
  "close_pipe s =
     (let s1 = (if lb_pipe_read (fst s) \<noteq> CLOSED_FD
                then (fst s\<lparr>lb_pipe_read := CLOSED_FD\<rparr>, xcall (Sock (X_close (lb_pipe_read (fst s)))) (snd s)) else s) in
      if lb_pipe_write (fst s1) \<noteq> CLOSED_FD
      then (fst s1\<lparr>lb_pipe_write := CLOSED_FD\<rparr>, xcall (Sock (X_close (lb_pipe_write (fst s1)))) (snd s1)) else s1)"

definition handle_disconnection :: "env \<Rightarrow> int \<Rightarrow> lst \<Rightarrow> (e_err_mmgr_cli \<times> lst) option" where
  "handle_disconnection E self s =
     (let s1 = set_connected E_CNX_DISCONNECTED s in
      if lb_connected (fst s) = E_CNX_RECONNECT
      then do {
        (_, s2) \<leftarrow> call_cli_callback E self (fake_event E_MMGR_EVENT_MODEM_DOWN) s1;
        (_, s3) \<leftarrow> call_cli_callback E self (fake_event E_MMGR_NOTIFY_MODEM_COLD_RESET) s2;
        s4 \<leftarrow> reconnect_loop E s3;
        s5 \<leftarrow> (if lb_lock (fst s4) then acquire_loop E s4 else Some s4);
        Some (E_ERR_CLI_SUCCEED, set_connected E_CNX_CONNECTED s5) }
      else Some (E_ERR_CLI_FAILED, close_pipe (close_socket E s1)))"

text \<open>
  One round of the loop of \<^verbatim>\<open>read_events\<close>: whether the thread goes on. \<^verbatim>\<open>fd_max\<close> is computed once, before the
  first round.
\<close>

definition read_round :: "env \<Rightarrow> int \<Rightarrow> int \<Rightarrow> lst \<Rightarrow> (bool \<times> lst) option" where
  "read_round E self fd_max s =
     (let (r, h1) = xint E (Cli (X_select (fd_max + 1))) (snd s); s1 = (fst s, h1) in
      if r < 0 then Some (False, s1)
      else do {
        (ret, s2) \<leftarrow> handle_events E self (env_fds E h1) s1;
        (ret', s3) \<leftarrow> (if ret = E_ERR_CLI_BAD_CNX_STATE then handle_disconnection E self s2 else Some (ret, s2));
        Some (ret' \<noteq> E_ERR_CLI_FAILED, s3) })"

definition reader_step :: "env \<Rightarrow> lst \<Rightarrow> lst option" where
  "reader_step E s =
     (case lb_reader (fst s) of
        None \<Rightarrow> Some s
      | Some (fd_max, self) \<Rightarrow>
          do { (go, s1) \<leftarrow> read_round E self fd_max s;
               Some (if go then s1 else (fst s1\<lparr>lb_reader := None\<rparr>, snd s1)) })"

fun reader_rounds :: "env \<Rightarrow> nat \<Rightarrow> lst \<Rightarrow> lst option" where
  "reader_rounds E 0 s = Some s"
| "reader_rounds E (Suc n) s = do { s1 \<leftarrow> reader_step E s; reader_rounds E n s1 }"

text \<open>The thread from where it is to its end, as \<^verbatim>\<open>pthread_join\<close> waits for it.\<close>

partial_function (option) read_events :: "env \<Rightarrow> lst \<Rightarrow> lst option" where
  "read_events E s =
     (case lb_reader (fst s) of None \<Rightarrow> Some s | Some _ \<Rightarrow> do { s1 \<leftarrow> reader_step E s; read_events E s1 })"

declare read_events.simps [code]

definition reader_start :: "env \<Rightarrow> lst \<Rightarrow> lst" where
  "reader_start E s =
     (let c = fst s; fd_max = (if lb_fd_socket c > lb_pipe_read c then lb_fd_socket c else lb_pipe_read c) in
      (c\<lparr>lb_reader := Some (fd_max, env_int2 E (snd s)), lb_thr_id := Some (env_int2 E (snd s))\<rparr>, snd s))"

definition cli_disconnect :: "env \<Rightarrow> lst \<Rightarrow> (e_err_mmgr_cli \<times> lst) option" where
  "cli_disconnect E s =
     do { let s1 = (if is_connected (Some (fst s))
                    then (fst s, snd (sys_write E (lb_pipe_write (fst s)) [0] (snd s))) else s);
          s2 \<leftarrow> (if lb_thr_id (fst s1) \<noteq> None
                 then do { s2 \<leftarrow> read_events E (fst s1, xcall (Cli X_reader_join) (snd s1));
                           Some (fst s2\<lparr>lb_thr_id := None\<rparr>, snd s2) }
                 else Some s1);
          Some (if \<not> is_connected (Some (fst s2)) then E_ERR_CLI_SUCCEED else E_ERR_CLI_FAILED, s2) }"

section \<open>The functions of the library\<close>

text \<open>A handle is NULL or a context; the functions return the handle they leave behind.\<close>

type_synonym handle = "mmgr_lib_context_t option"

definition on_lib :: "(lst \<Rightarrow> (e_err_mmgr_cli \<times> lst) option) \<Rightarrow> handle \<Rightarrow> history \<Rightarrow>
    ((e_err_mmgr_cli \<times> handle) \<times> history) option" where
  "on_lib f cli h =
     (case cli of
        None \<Rightarrow> Some ((E_ERR_CLI_BAD_HANDLE, None), h)
      | Some c \<Rightarrow> do { (ret, s) \<leftarrow> f (c, h); Some ((ret, Some (fst s)), snd s) })"

definition is_request_rejected :: "int \<Rightarrow> mmgr_lib_context_t \<Rightarrow> bool" where
  "is_request_rejected self c \<longleftrightarrow> lb_tid c = self"

definition mmgr_cli_send_msg ::
  "env \<Rightarrow> int \<Rightarrow> mmgr_cli_event_t option \<Rightarrow> handle \<Rightarrow> history \<Rightarrow> ((e_err_mmgr_cli \<times> handle) \<times> history) option" where
  "mmgr_cli_send_msg E self req =
     on_lib (\<lambda>s. if \<not> is_connected (Some (fst s)) then Some (E_ERR_CLI_BAD_CNX_STATE, s)
                 else if is_request_rejected self (fst s) then Some (E_ERR_CLI_REJECTED, s)
                 else send_msg E (reader_rounds E) req E_SEND_THREADED DEF_MMGR_RESPONSIVE_TIMEOUT s)"

definition lib_set_msg :: "e_mmgr_requests \<Rightarrow> builder" where
  "lib_set_msg r =
     (case r of
        E_MMGR_SET_NAME \<Rightarrow> set_msg_name
      | E_MMGR_SET_EVENTS \<Rightarrow> set_msg_filter
      | E_MMGR_REQUEST_MODEM_RESTART \<Rightarrow> set_msg_restart
      | E_MMGR_REQUEST_MODEM_RECOVERY \<Rightarrow> set_msg_recovery
      | _ \<Rightarrow> (\<lambda>E msg req h. msg_set_empty E msg (ev_id req) h))"

definition lib_set_data :: "e_mmgr_events \<Rightarrow> decoder" where
  "lib_set_data e =
     (case e of
        E_MMGR_RESPONSE_MODEM_HW_ID \<Rightarrow> set_data_hw_id
      | E_MMGR_RESPONSE_FUSE_INFO \<Rightarrow> set_data_fuse_info
      | E_MMGR_NOTIFY_AP_RESET \<Rightarrow> set_data_ap_reset
      | E_MMGR_NOTIFY_CORE_DUMP_COMPLETE \<Rightarrow> set_data_core_dump
      | E_MMGR_NOTIFY_TFT_EVENT \<Rightarrow> set_data_tft_event
      | E_MMGR_RESPONSE_MODEM_FW_RESULT \<Rightarrow> set_data_fw_result
      | E_MMGR_RESPONSE_MODEM_NVM_RESULT \<Rightarrow> set_data_nvm_result
      | _ \<Rightarrow> set_data_empty)"

definition lib_free_data :: "e_mmgr_events \<Rightarrow> releaser" where
  "lib_free_data e =
     (case e of
        E_MMGR_RESPONSE_MODEM_HW_ID \<Rightarrow> free_data_hw_id
      | E_MMGR_RESPONSE_FUSE_INFO \<Rightarrow> free_one_element_struct
      | E_MMGR_NOTIFY_AP_RESET \<Rightarrow> free_data_ap_reset
      | E_MMGR_NOTIFY_CORE_DUMP_COMPLETE \<Rightarrow> free_data_core_dump
      | E_MMGR_NOTIFY_TFT_EVENT \<Rightarrow> free_data_tft_event
      | E_MMGR_RESPONSE_MODEM_FW_RESULT \<Rightarrow> free_one_element_struct
      | E_MMGR_RESPONSE_MODEM_NVM_RESULT \<Rightarrow> free_one_element_struct
      | _ \<Rightarrow> free_data_empty)"

text \<open>
  The argument is the address of the caller's pointer. The name fills its array up to the last
  byte but one.
\<close>

definition mmgr_cli_create_handle ::
  "env \<Rightarrow> string option \<Rightarrow> nat \<Rightarrow> handle option \<Rightarrow> history \<Rightarrow> (e_err_mmgr_cli \<times> handle option) \<times> history" where
  "mmgr_cli_create_handle E client_name context p h =
     (case p of
        None \<Rightarrow> ((E_ERR_CLI_BAD_HANDLE, p), h)
      | Some (Some _) \<Rightarrow> ((E_ERR_CLI_BAD_HANDLE, p), h)
      | Some None \<Rightarrow>
          (case client_name of
             None \<Rightarrow> ((E_ERR_CLI_FAILED, p), h)
           | Some name \<Rightarrow>
               let (ok, h1) = xint E (Libc (X_calloc 1)) h; n = take (CLIENT_NAME_LEN - 1) (cstr name) in
               if ok = 0 then ((E_ERR_CLI_FAILED, p), h1)
               else
                 ((E_ERR_CLI_SUCCEED, Some (Some
                    \<lparr>lb_events = flag (ev_code E_MMGR_ACK) OR flag (ev_code E_MMGR_NACK), lb_thr_id = None,
                     lb_cli_ctx = context, lb_connected = E_CNX_DISCONNECTED, lb_fd_socket = CLOSED_FD,
                     lb_pipe_read = CLOSED_FD, lb_pipe_write = CLOSED_FD, lb_func = (\<lambda>_. None),
                     lb_cli_name = n @ replicate (CLIENT_NAME_LEN - length n) 0, lb_lock = False,
                     lb_set_msg = lib_set_msg, lb_set_data = lib_set_data, lb_free_data = lib_free_data, lb_mtx_signal = False,
                     lb_ack = request_id E_MMGR_NUM_REQUESTS, lb_tid = DEFAULT_TID,
                     lb_cnx_name = (case snd (cnx_get_name MMGR_SOCKET_LEN 1) of None \<Rightarrow> [] | Some s \<Rightarrow> s),
                     lb_reader = None\<rparr>)), h1)))"

definition mmgr_cli_delete_handle :: "handle \<Rightarrow> e_err_mmgr_cli \<times> handle" where
  "mmgr_cli_delete_handle cli =
     (case cli of
        None \<Rightarrow> (E_ERR_CLI_BAD_HANDLE, cli)
      | Some _ \<Rightarrow> if \<not> is_connected cli then (E_ERR_CLI_SUCCEED, None) else (E_ERR_CLI_BAD_CNX_STATE, cli))"

definition mmgr_cli_subscribe_event :: "nat option \<Rightarrow> e_mmgr_events \<Rightarrow> handle \<Rightarrow> e_err_mmgr_cli \<times> handle" where
  "mmgr_cli_subscribe_event func i cli =
     (case cli of
        None \<Rightarrow> (E_ERR_CLI_BAD_HANDLE, cli)
      | Some c \<Rightarrow>
          if is_connected cli then (E_ERR_CLI_BAD_CNX_STATE, cli)
          else if i = E_MMGR_NUM_EVENTS then (E_ERR_CLI_FAILED, cli)
          else if i = E_MMGR_ACK \<or> i = E_MMGR_NACK then (E_ERR_CLI_FAILED, cli)
          else if func = None then (E_ERR_CLI_FAILED, cli)
          else if lb_func c i \<noteq> None then (E_ERR_CLI_FAILED, cli)
          else (E_ERR_CLI_SUCCEED, Some (c\<lparr>lb_events := lb_events c OR flag (ev_code i), lb_func := (lb_func c)(i := func)\<rparr>)))"

definition mmgr_cli_unsubscribe_event :: "e_mmgr_events \<Rightarrow> handle \<Rightarrow> e_err_mmgr_cli \<times> handle" where
  "mmgr_cli_unsubscribe_event i cli =
     (case cli of
        None \<Rightarrow> (E_ERR_CLI_BAD_HANDLE, cli)
      | Some c \<Rightarrow>
          if is_connected cli then (E_ERR_CLI_BAD_CNX_STATE, cli)
          else if i = E_MMGR_NUM_EVENTS then (E_ERR_CLI_FAILED, cli)
          else if i = E_MMGR_ACK \<or> i = E_MMGR_NACK then (E_ERR_CLI_FAILED, cli)
          else (E_ERR_CLI_SUCCEED, Some (c\<lparr>lb_events := lb_events c AND NOT (flag (ev_code i)), lb_func := (lb_func c)(i := None)\<rparr>)))"

text \<open>
  The pipe's descriptors are the two answers of \<^verbatim>\<open>pipe\<close>, its failure a negative first one. A NULL
  handle reaches \<^verbatim>\<open>handle_disconnection\<close>, which refuses it.
\<close>

definition open_connection :: "env \<Rightarrow> lst \<Rightarrow> (e_err_mmgr_cli \<times> lst) option" where
  "open_connection E s =
     (let (r, h1) = xint E (Sock X_pipe) (snd s) in
      if r < 0 then Some (E_ERR_CLI_FAILED, (fst s, h1))
      else cli_connect E (fst s\<lparr>lb_pipe_read := r, lb_pipe_write := env_int2 E h1\<rparr>, h1))"

definition start_reading :: "env \<Rightarrow> e_err_mmgr_cli \<Rightarrow> lst \<Rightarrow> e_err_mmgr_cli \<times> lst" where
  "start_reading E ret s =
     (if ret = E_ERR_CLI_SUCCEED
      then let (err, h1) = xint E (Cli X_reader_create) (snd s) in
           if err \<noteq> 0 then (E_ERR_CLI_FAILED, (fst s, h1))
           else (ret, set_connected E_CNX_CONNECTED (reader_start E (fst s, h1)))
      else (ret, s))"

definition mmgr_cli_connect :: "env \<Rightarrow> int \<Rightarrow> handle \<Rightarrow> history \<Rightarrow> ((e_err_mmgr_cli \<times> handle) \<times> history) option" where
  "mmgr_cli_connect E self =
     on_lib (\<lambda>s.
       if is_connected (Some (fst s)) then Some (E_ERR_CLI_SUCCEED, s)
       else do {
         (ret, s2) \<leftarrow> open_connection E s;
         let (ret', s3) = start_reading E ret s2;
         if ret' \<noteq> E_ERR_CLI_SUCCEED
         then do { (_, s4) \<leftarrow> handle_disconnection E self s3; Some (ret', s4) }
         else Some (ret', s3) })"

definition mmgr_cli_disconnect :: "env \<Rightarrow> handle \<Rightarrow> history \<Rightarrow> ((e_err_mmgr_cli \<times> handle) \<times> history) option" where
  "mmgr_cli_disconnect E =
     on_lib (\<lambda>s. if is_connected (Some (fst s)) then cli_disconnect E s else Some (E_ERR_CLI_BAD_CNX_STATE, s))"

definition set_lock :: "bool \<Rightarrow> lst \<Rightarrow> lst" where
  "set_lock b s = (fst s\<lparr>lb_lock := b\<rparr>, snd s)"

definition mmgr_cli_lock :: "env \<Rightarrow> int \<Rightarrow> handle \<Rightarrow> history \<Rightarrow> ((e_err_mmgr_cli \<times> handle) \<times> history) option" where
  "mmgr_cli_lock E self =
     on_lib (\<lambda>s. if \<not> is_connected (Some (fst s)) then Some (E_ERR_CLI_BAD_CNX_STATE, s)
                 else if is_request_rejected self (fst s) then Some (E_ERR_CLI_REJECTED, s)
                 else if lb_lock (fst s) then Some (E_ERR_CLI_ALREADY_LOCK, s)
                 else do { (ret, s1) \<leftarrow> send_msg E (reader_rounds E) (request E_MMGR_RESOURCE_ACQUIRE) E_SEND_THREADED
                                          DEF_MMGR_RESPONSIVE_TIMEOUT s;
                           Some (if ret = E_ERR_CLI_SUCCEED then (ret, set_lock True s1) else (E_ERR_CLI_FAILED, s1)) })"

definition mmgr_cli_unlock :: "env \<Rightarrow> int \<Rightarrow> handle \<Rightarrow> history \<Rightarrow> ((e_err_mmgr_cli \<times> handle) \<times> history) option" where
  "mmgr_cli_unlock E self =
     on_lib (\<lambda>s. if \<not> is_connected (Some (fst s)) then Some (E_ERR_CLI_BAD_CNX_STATE, s)
                 else if is_request_rejected self (fst s) then Some (E_ERR_CLI_REJECTED, s)
                 else if \<not> lb_lock (fst s) then Some (E_ERR_CLI_ALREADY_UNLOCK, s)
                 else do { (ret, s1) \<leftarrow> send_msg E (reader_rounds E) (request E_MMGR_RESOURCE_RELEASE) E_SEND_THREADED
                                          DEF_MMGR_RESPONSIVE_TIMEOUT s;
                           Some (if ret = E_ERR_CLI_SUCCEED then (ret, set_lock False s1) else (E_ERR_CLI_FAILED, s1)) })"

definition mmgr_cli_get_fd :: "handle \<Rightarrow> int" where
  "mmgr_cli_get_fd cli = (case cli of None \<Rightarrow> CLOSED_FD | Some c \<Rightarrow> lb_fd_socket c)"

definition mmgr_cli_set_instance :: "int \<Rightarrow> handle \<Rightarrow> e_err_mmgr_cli \<times> handle" where
  "mmgr_cli_set_instance i cli =
     (case cli of
        None \<Rightarrow> (E_ERR_CLI_BAD_HANDLE, cli)
      | Some c \<Rightarrow>
          if \<not> is_connected cli
          then (E_ERR_CLI_SUCCEED,
                Some (case snd (cnx_get_name MMGR_SOCKET_LEN i) of None \<Rightarrow> c | Some n \<Rightarrow> c\<lparr>lb_cnx_name := n\<rparr>))
          else (E_ERR_CLI_BAD_CNX_STATE, cli))"

end
