(* ===== verification/Cli_Memory.thy ===== *)
theory Cli_Memory
  imports Cli_Lib
begin

text \<open>
  The memory behind the messages and events of the client library. Every block a decoder allocates is freed by the function that belongs to
  it, also when the message is incomplete or when only some of the allocations work; a message that is built or received owns
  one block, or none. The history holds the calls of \<^verbatim>\<open>malloc\<close> with their answers and the calls of \<^verbatim>\<open>free\<close>, so the blocks in use can be
  counted.
\<close>

section \<open>Blocks in use\<close>

fun live :: "env \<Rightarrow> history \<Rightarrow> int" where
  "live E [] = 0"
| "live E (c # h) = live E h + (case c of Libc (X_calloc n) \<Rightarrow> of_bool (env_int E (c # h) \<noteq> 0) | Libc X_free \<Rightarrow> - 1 | _ \<Rightarrow> 0)"

lemma live_xcall [simp]:
  "live E (xcall (Libc X_free) h) = live E h - 1" "live E (xcall (Libc X_boottime) h) = live E h"
  by (simp_all add: xcall_def)

lemma live_free_ptr [simp]: "live E (free_ptr p h) = live E h - of_bool (p \<noteq> None)"
  by (simp add: free_ptr_def split: option.split)

text \<open>Later, with \<open>k\<close> more blocks in use.\<close>

definition grown :: "env \<Rightarrow> int \<Rightarrow> history \<Rightarrow> history \<Rightarrow> bool" where
  "grown E k h h' \<longleftrightarrow> extends h h' \<and> live E h' = live E h + k"

lemma grown_refl [simp]: "grown E 0 h h"
  by (simp add: grown_def)

lemma grown_trans: "grown E j a b \<Longrightarrow> grown E k b c \<Longrightarrow> j + k = n \<Longrightarrow> grown E n a c"
  by (auto simp: grown_def intro: extends_trans)

lemma grown_live: "grown E k h h' \<Longrightarrow> live E h' = live E h + k"
  by (simp add: grown_def)

lemma extends_step [intro]: "extends h h' \<Longrightarrow> extends h (c # h')"
  by (metis extends_Cons extends_trans)

lemma extends_call [simp]: "extends h (c # h') \<longleftrightarrow> h = c # h' \<or> extends h h'"
  by (auto simp: extends_def Cons_eq_append_conv)

lemma extends_xcall [intro]: "extends h h' \<Longrightarrow> extends h (xcall c h')"
  by (auto simp: xcall_def)

lemma live_malloc: "malloc E n h = (ok, h1) \<Longrightarrow> live E h1 = live E h + of_bool ok"
  by (auto simp: malloc_def xint_def)

lemma live_dup_string: "dup_string E b len h = Some (p, h1) \<Longrightarrow> live E h1 = live E h + of_bool (p \<noteq> None)"
  by (auto simp: dup_string_def calloc_def xint_def bind_eq_Some_conv split: option.splits if_splits)

definition blocks :: "('a \<Rightarrow> 'b option) \<Rightarrow> 'a list \<Rightarrow> nat" where
  "blocks ptr xs = length (filter (\<lambda>x. ptr x \<noteq> None) xs)"

lemma blocks_simps [simp]:
  "blocks ptr [] = 0" "blocks ptr (x # xs) = of_bool (ptr x \<noteq> None) + blocks ptr xs"
  "ptr x = None \<Longrightarrow> blocks ptr (replicate n x) = 0"
  by (simp_all add: blocks_def)

lemma free_each_live:
  "n \<le> length xs \<Longrightarrow> \<exists>h'. free_each ptr n xs h = Some h' \<and> live E h' = live E h - int (blocks ptr (take n xs))"
proof (induction ptr n xs h rule: free_each.induct)
  case (3 ptr n x xs h)
  then show ?case by fastforce
qed simp_all

lemma get_causes_live:
  "get_causes E n cap b h = Some ((cs, k), h1) \<Longrightarrow>
     k \<le> n \<and> k \<le> length cs \<and> live E h1 = live E h + int (blocks rc_cause (take k cs))"
proof (induction E n cap b h arbitrary: cs k h1 rule: get_causes.induct)
  case (3 E n cap b h)
  from "3.prems" obtain len b1 p h2 where d: "deserialize_size_t b = Some (len, b1)" "dup_string E b1 len h = Some (p, h2)"
    by (auto simp: bind_eq_Some_conv)
  show ?case
  proof (cases p)
    case None
    with "3.prems" d live_dup_string [OF d(2)] show ?thesis by auto
  next
    case (Some q)
    with "3.prems" d obtain cs1 k1 where r: "get_causes E n cap (skip b1 len) h2 = Some ((cs1, k1), h1)"
      "cs = \<lparr>rc_len = len, rc_cause = p\<rparr> # cs1" "k = Suc k1"
      by (auto simp: bind_eq_Some_conv)
    from "3.IH" [OF d(1) refl d(2) refl _ r(1)] Some r live_dup_string [OF d(2)] show ?thesis by auto
  qed
qed auto

lemma get_tft_data_live:
  "get_tft_data E n b h = Some ((ok, ds), h1) \<Longrightarrow> length ds = n \<and> live E h1 = live E h + int (blocks td_value ds)"
proof (induction E n b h arbitrary: ok ds h1 rule: get_tft_data.induct)
  case (2 E n b h)
  from "2.prems" obtain len b1 p h2 where d: "deserialize_size_t b = Some (len, b1)" "dup_string E b1 len h = Some (p, h2)"
    by (auto simp: bind_eq_Some_conv)
  show ?case
  proof (cases p)
    case None
    with "2.prems" d live_dup_string [OF d(2)] show ?thesis by (auto simp: td_zero_def)
  next
    case (Some q)
    with "2.prems" d obtain ds1 where r: "get_tft_data E n (skip b1 len) h2 = Some ((ok, ds1), h1)"
      "ds = \<lparr>td_len = len, td_value = p\<rparr> # ds1"
      by (auto simp: bind_eq_Some_conv)
    from "2.IH" [OF d(1) refl d(2) refl _ r(1)] Some r live_dup_string [OF d(2)] show ?thesis by auto
  qed
qed auto

section \<open>Decoders and releasers only add calls\<close>

lemma later_malloc: "malloc E n h = (ok, h1) \<Longrightarrow> extends h0 h \<Longrightarrow> extends h0 h1"
  by (auto simp: malloc_def xint_def)

lemma later_dup_string: "dup_string E b len h = Some (p, h1) \<Longrightarrow> extends h0 h \<Longrightarrow> extends h0 h1"
  by (auto simp: dup_string_def calloc_def xint_def bind_eq_Some_conv split: option.splits if_splits)

lemma later_get_causes: "get_causes E n cap b h = Some (r, h1) \<Longrightarrow> extends h0 h \<Longrightarrow> extends h0 h1"
proof (induction E n cap b h arbitrary: r rule: get_causes.induct)
  case (3 E n cap b h)
  from "3.prems" obtain len b1 p h2 where d: "deserialize_size_t b = Some (len, b1)" "dup_string E b1 len h = Some (p, h2)"
    by (auto simp: bind_eq_Some_conv)
  with "3.prems" "3.IH" [OF d(1) refl d(2) refl] later_dup_string [OF d(2)] show ?case
    by (auto simp: bind_eq_Some_conv split: if_splits)
qed auto

lemma later_get_tft_data: "get_tft_data E n b h = Some (r, h1) \<Longrightarrow> extends h0 h \<Longrightarrow> extends h0 h1"
proof (induction E n b h arbitrary: r rule: get_tft_data.induct)
  case (2 E n b h)
  from "2.prems" obtain len b1 p h2 where d: "deserialize_size_t b = Some (len, b1)" "dup_string E b1 len h = Some (p, h2)"
    by (auto simp: bind_eq_Some_conv)
  with "2.prems" "2.IH" [OF d(1) refl d(2) refl] later_dup_string [OF d(2)] show ?case
    by (auto simp: bind_eq_Some_conv split: if_splits)
qed auto

lemma later_free_ptr [intro]: "extends h0 h \<Longrightarrow> extends h0 (free_ptr p h)"
  by (auto simp: free_ptr_def split: option.split)

lemma later_free_each: "free_each ptr n xs h = Some h' \<Longrightarrow> extends h0 h \<Longrightarrow> extends h0 h'"
  by (induction ptr n xs h rule: free_each.induct) auto

lemma later_free_array: "free_array ptr n p h = Some h' \<Longrightarrow> extends h0 h \<Longrightarrow> extends h0 h'"
  by (auto simp: free_array_def bind_eq_Some_conv split: option.splits intro: later_free_each)

lemmas walk = pred_bind_any pred_case_prod(1) pred_let_prod pred_if pred_case_option pred_let_any pred_Some

lemmas later_calls = later_malloc later_dup_string later_get_causes later_get_tft_data

lemma later_empty: "pred_option (\<lambda>(x, h1). extends h h1) (set_data_empty E msg ev h)"
  unfolding set_data_empty_def by (intro walk; auto; (erule later_calls | rule extends_refl extends_xcall)+)

lemma later_fuse_info: "pred_option (\<lambda>(x, h1). extends h h1) (set_data_fuse_info E msg ev h)"
  unfolding set_data_fuse_info_def by (intro walk; auto; (erule later_calls | rule extends_refl extends_xcall)+)

lemma later_hw_id: "pred_option (\<lambda>(x, h1). extends h h1) (set_data_hw_id E msg ev h)"
  unfolding set_data_hw_id_def by (intro walk; auto; (erule later_calls | rule extends_refl extends_xcall)+)

lemma later_fw_result: "pred_option (\<lambda>(x, h1). extends h h1) (set_data_fw_result E msg ev h)"
  unfolding set_data_fw_result_def by (intro walk; auto; (erule later_calls | rule extends_refl extends_xcall)+)

lemma later_nvm_result: "pred_option (\<lambda>(x, h1). extends h h1) (set_data_nvm_result E msg ev h)"
  unfolding set_data_nvm_result_def by (intro walk; auto; (erule later_calls | rule extends_refl extends_xcall)+)

lemma later_core_dump: "pred_option (\<lambda>(x, h1). extends h h1) (set_data_core_dump E msg ev h)"
  unfolding set_data_core_dump_def by (intro walk; auto; (erule later_calls | rule extends_refl extends_xcall)+)

lemma later_tft_event: "pred_option (\<lambda>(x, h1). extends h h1) (set_data_tft_event E msg ev h)"
  unfolding set_data_tft_event_def by (intro walk; auto; (erule later_calls | rule extends_refl extends_xcall)+)

lemma later_ap_reset: "pred_option (\<lambda>(x, h1). extends h h1) (set_data_ap_reset E msg ev h)"
  unfolding set_data_ap_reset_def by (intro walk; auto; (erule later_calls | rule extends_refl extends_xcall)+)

lemmas later_decoders = later_empty later_fuse_info later_hw_id later_fw_result later_nvm_result later_core_dump later_tft_event later_ap_reset

lemma later_releasers:
  "free_data_empty ev h = Some (r, h') \<Longrightarrow> extends h h'" "free_one_element_struct ev h = Some (r, h') \<Longrightarrow> extends h h'"
  "free_data_hw_id ev h = Some (r, h') \<Longrightarrow> extends h h'" "free_data_core_dump ev h = Some (r, h') \<Longrightarrow> extends h h'"
  "free_data_tft_event ev h = Some (r, h') \<Longrightarrow> extends h h'" "free_data_ap_reset ev h = Some (r, h') \<Longrightarrow> extends h h'"
  by (auto simp: free_data_empty_def free_one_element_struct_def free_data_hw_id_def free_data_core_dump_def free_data_tft_event_def
      free_data_ap_reset_def bind_eq_Some_conv split: cli_data.splits intro!: extends_xcall intro: later_free_array)

section \<open>A decoder and the function that frees what it allocated\<close>

text \<open>
  The contract between the two: whatever the decoder returned, the event can be freed at any later time, and as many
  blocks are freed as the decoder left in use.
\<close>

locale event_memory =
  fixes set_data :: decoder and free_data :: releaser
  assumes balanced: "set_data E msg event h = Some ((ret, event'), h1) \<Longrightarrow>
    \<exists>r g'. free_data event' g = Some (r, g') \<and> live E g - live E g' = live E h1 - live E h"
    and later: "set_data E msg event h = Some (x, h1) \<Longrightarrow> extends h h1"
    and free_later: "free_data event h = Some (r, h') \<Longrightarrow> extends h h'"
begin

text \<open>Decoding an event, some calls that allocate nothing, and freeing the event.\<close>

lemma delivered:
  assumes "set_data E msg event h = Some ((ret, event'), h1)" "grown E 0 h1 g"
  obtains r g' where "free_data event' g = Some (r, g')" "grown E 0 h g'"
proof -
  obtain r g' where f: "free_data event' g = Some (r, g')" "live E g - live E g' = live E h1 - live E h"
    using balanced [OF assms(1)] by blast
  have "extends h g'" using later [OF assms(1)] free_later [OF f(1)] assms(2) by (auto simp: grown_def intro: extends_trans)
  with f assms(2) that show thesis by (simp add: grown_def)
qed

end

text \<open>The blocks behind the data of an event.\<close>

definition array_blocks :: "('a \<Rightarrow> 'b option) \<Rightarrow> nat \<Rightarrow> 'a list option \<Rightarrow> int" where
  "array_blocks ptr n p = (case p of None \<Rightarrow> 0 | Some xs \<Rightarrow> int (blocks ptr (take n xs)) + 1)"

lemma array_blocks_simps [simp]:
  "array_blocks ptr n None = 0" "array_blocks ptr n (Some xs) = int (blocks ptr (take n xs)) + 1"
  by (simp_all add: array_blocks_def)

definition owned :: "cli_data \<Rightarrow> int" where
  "owned d =
     (case d of
        D_null \<Rightarrow> 0
      | D_hw_id hw \<Rightarrow> 1 + of_bool (hw_id hw \<noteq> None)
      | D_core_dump cd \<Rightarrow> 1 + of_bool (cd_path cd \<noteq> None) + of_bool (cd_reason cd \<noteq> None)
      | D_tft_event ev \<Rightarrow> 1 + of_bool (tft_name ev \<noteq> None) + array_blocks td_value (unat (tft_num_data ev)) (tft_data ev)
      | D_ap_reset ap \<Rightarrow> 1 + of_bool (ap_name ap \<noteq> None) + array_blocks rc_cause (unat (ap_num_causes ap)) (ap_recovery_causes ap)
      | _ \<Rightarrow> 1)"

text \<open>What each function can free.\<close>

definition array_ok :: "nat \<Rightarrow> 'a list option \<Rightarrow> bool" where
  "array_ok n p \<longleftrightarrow> (case p of None \<Rightarrow> True | Some xs \<Rightarrow> n \<le> length xs)"

lemma array_ok_simps [simp]: "array_ok n None" "array_ok n (Some xs) \<longleftrightarrow> n \<le> length xs"
  by (simp_all add: array_ok_def)

definition is_core_dump :: "cli_data \<Rightarrow> bool" where
  "is_core_dump d \<longleftrightarrow> (case d of D_null \<Rightarrow> True | D_core_dump _ \<Rightarrow> True | _ \<Rightarrow> False)"

definition is_tft_event :: "cli_data \<Rightarrow> bool" where
  "is_tft_event d \<longleftrightarrow> (case d of D_null \<Rightarrow> True | D_tft_event ev \<Rightarrow> array_ok (unat (tft_num_data ev)) (tft_data ev) | _ \<Rightarrow> False)"

definition is_ap_reset :: "cli_data \<Rightarrow> bool" where
  "is_ap_reset d \<longleftrightarrow> (case d of D_null \<Rightarrow> True | D_ap_reset ap \<Rightarrow> array_ok (unat (ap_num_causes ap)) (ap_recovery_causes ap) | _ \<Rightarrow> False)"

lemmas owned_defs = owned_def is_core_dump_def is_tft_event_def is_ap_reset_def

lemma free_array_live:
  "array_ok n p \<Longrightarrow> \<exists>h'. free_array ptr n p h = Some h' \<and> live E h' = live E h - array_blocks ptr n p"
  using free_each_live [of n "the p" ptr h E] by (auto simp: free_array_def split: option.splits)

lemma free_owned:
  "is_core_dump (ev_data event) \<Longrightarrow> \<exists>r g'. free_data_core_dump event g = Some (r, g') \<and> live E g - live E g' = owned (ev_data event)"
  "is_tft_event (ev_data event) \<Longrightarrow> \<exists>r g'. free_data_tft_event event g = Some (r, g') \<and> live E g - live E g' = owned (ev_data event)"
  "is_ap_reset (ev_data event) \<Longrightarrow> \<exists>r g'. free_data_ap_reset event g = Some (r, g') \<and> live E g - live E g' = owned (ev_data event)"
proof -
  show "is_core_dump (ev_data event) \<Longrightarrow> \<exists>r g'. free_data_core_dump event g = Some (r, g') \<and> live E g - live E g' = owned (ev_data event)"
    by (cases "ev_data event") (auto simp: free_data_core_dump_def owned_defs)
  show "is_tft_event (ev_data event) \<Longrightarrow> \<exists>r g'. free_data_tft_event event g = Some (r, g') \<and> live E g - live E g' = owned (ev_data event)"
  proof (cases "ev_data event")
    case (D_tft_event ev)
    with free_array_live [of "unat (tft_num_data ev)" "tft_data ev" td_value "free_ptr (tft_name ev) g" E]
    show "is_tft_event (ev_data event) \<Longrightarrow> ?thesis" by (auto simp: free_data_tft_event_def owned_defs)
  qed (auto simp: free_data_tft_event_def owned_defs)
  show "is_ap_reset (ev_data event) \<Longrightarrow> \<exists>r g'. free_data_ap_reset event g = Some (r, g') \<and> live E g - live E g' = owned (ev_data event)"
  proof (cases "ev_data event")
    case (D_ap_reset ap)
    with free_array_live [of "unat (ap_num_causes ap)" "ap_recovery_causes ap" rc_cause "free_ptr (ap_name ap) g" E]
    show "is_ap_reset (ev_data event) \<Longrightarrow> ?thesis" by (auto simp: free_data_ap_reset_def owned_defs)
  qed (auto simp: free_data_ap_reset_def owned_defs)
qed

lemmas later = later_decoders [THEN pred_optionD] later_releasers

interpretation no_data: event_memory set_data_empty free_data_empty
  by unfold_locales (auto simp: set_data_empty_def free_data_empty_def)

lemma one_element_balanced:
  assumes "live E h1 - live E h = of_bool (ev_data event \<noteq> D_null)"
  shows "\<exists>r g'. free_one_element_struct event g = Some (r, g') \<and> live E g - live E g' = live E h1 - live E h"
  using assms by (cases "ev_data event") (simp_all add: free_one_element_struct_def)

interpretation fuse_info: event_memory set_data_fuse_info free_one_element_struct
proof
  fix E msg event h ret event' h1 g
  assume "set_data_fuse_info E msg event h = Some ((ret, event'), h1)"
  then have "live E h1 - live E h = of_bool (ev_data event' \<noteq> D_null)"
    by (auto simp: set_data_fuse_info_def Let_def bind_eq_Some_conv dest: live_malloc split: prod.splits if_splits)
  then show "\<exists>r g'. free_one_element_struct event' g = Some (r, g') \<and> live E g - live E g' = live E h1 - live E h"
    by (rule one_element_balanced)
qed (auto dest: later)

interpretation fw_result: event_memory set_data_fw_result free_one_element_struct
proof
  fix E msg event h ret event' h1 g
  assume "set_data_fw_result E msg event h = Some ((ret, event'), h1)"
  then have "live E h1 - live E h = of_bool (ev_data event' \<noteq> D_null)"
    by (auto simp: set_data_fw_result_def Let_def bind_eq_Some_conv dest: live_malloc split: prod.splits if_splits)
  then show "\<exists>r g'. free_one_element_struct event' g = Some (r, g') \<and> live E g - live E g' = live E h1 - live E h"
    by (rule one_element_balanced)
qed (auto dest: later)

interpretation nvm_result: event_memory set_data_nvm_result free_one_element_struct
proof
  fix E msg event h ret event' h1 g
  assume "set_data_nvm_result E msg event h = Some ((ret, event'), h1)"
  then have "live E h1 - live E h = of_bool (ev_data event' \<noteq> D_null)"
    by (auto simp: set_data_nvm_result_def Let_def bind_eq_Some_conv dest: live_malloc split: prod.splits if_splits)
  then show "\<exists>r g'. free_one_element_struct event' g = Some (r, g') \<and> live E g - live E g' = live E h1 - live E h"
    by (rule one_element_balanced)
qed (auto dest: later)

interpretation hw: event_memory set_data_hw_id free_data_hw_id
proof
  fix E msg event h ret event' h1 g
  assume "set_data_hw_id E msg event h = Some ((ret, event'), h1)"
  then show "\<exists>r g'. free_data_hw_id event' g = Some (r, g') \<and> live E g - live E g' = live E h1 - live E h"
    by (auto simp: set_data_hw_id_def free_data_hw_id_def Let_def bind_eq_Some_conv dest!: live_malloc live_dup_string
        split: prod.splits if_splits)
qed (auto dest: later)

lemma core_dump_decoder_owned:
  assumes a: "set_data_core_dump E msg event h = Some ((ret, event'), h1)"
  shows "is_core_dump (ev_data event') \<and> live E h1 - live E h = owned (ev_data event')"
proof (cases "hdr_len (msg_hdr msg) < 12")
  case False
  obtain ok h2 where m: "malloc E 20 h = (ok, h2)" by (metis prod.exhaust)
  note l = live_malloc [OF m]
  show ?thesis
  proof (cases ok)
    case True
    with a False m obtain data st b1 path_len b2 reason_len b3 where d: "msg_data msg = Some data"
      "deserialize_uint32 (data, 0) = Some (st, b1)" "deserialize_size_t b1 = Some (path_len, b2)" "deserialize_size_t b2 = Some (reason_len, b3)"
      by (auto simp: set_data_core_dump_def bind_eq_Some_conv)
    note a = a [unfolded set_data_core_dump_def] False m d True
    show ?thesis
    proof (cases "path_len + reason_len = hdr_len (msg_hdr msg) - 12")
      case len: True
      with a obtain path h3 where p: "dup_string E b3 path_len h2 = Some (path, h3)" by (auto simp: Let_def bind_eq_Some_conv)
      show ?thesis
      proof (cases "path \<noteq> None \<and> reason_len > 0")
        case True
        with a len p obtain reason where r: "dup_string E (skip b3 path_len) reason_len h3 = Some (reason, h1)"
          "ev_data event' = D_core_dump (cd_zero\<lparr>cd_state := st, cd_path_len := path_len, cd_reason_len := reason_len, cd_path := path,
             cd_reason := reason\<rparr>)"
          by (auto simp: Let_def bind_eq_Some_conv)
        with l live_dup_string [OF p] live_dup_string [OF r(1)] True \<open>ok\<close> show ?thesis by (auto simp: owned_defs)
      next
        case False
        with a len p l live_dup_string [OF p] show ?thesis by (auto simp: Let_def cd_zero_def owned_defs split: if_splits)
      qed
    qed (use a l in \<open>auto simp: Let_def cd_zero_def owned_defs\<close>)
  qed (use a False m l in \<open>auto simp: set_data_core_dump_def owned_defs\<close>)
qed (use a in \<open>auto simp: set_data_core_dump_def owned_defs\<close>)

interpretation core_dump_event: event_memory set_data_core_dump free_data_core_dump
  by unfold_locales (metis core_dump_decoder_owned free_owned(1), auto dest: later)

lemma tft_decoder_owned:
  assumes a: "set_data_tft_event E msg event h = Some ((ret, event'), h1)"
  shows "is_tft_event (ev_data event') \<and> live E h1 - live E h = owned (ev_data event')"
proof (cases "hdr_len (msg_hdr msg) < 16")
  case False
  obtain ok h2 where m: "malloc E 24 h = (ok, h2)" by (metis prod.exhaust)
  show ?thesis
  proof (cases ok)
    case True
    with a False m obtain data ty b1 name_len b2 name h3 where d: "msg_data msg = Some data" "deserialize_int (data, 0) = Some (ty, b1)"
      "deserialize_size_t b1 = Some (name_len, b2)" "dup_string E b2 name_len h2 = Some (name, h3)"
      by (auto simp: set_data_tft_event_def Let_def bind_eq_Some_conv)
    note a = a False m d True
    note l = live_malloc [OF m] live_dup_string [OF d(4)]
    show ?thesis
    proof (cases name)
      case None
      with a l show ?thesis by (auto simp: set_data_tft_event_def owned_defs tft_zero_def)
    next
      case (Some nm)
      with a obtain lg b3 num b4 where n: "deserialize_int (skip b2 name_len) = Some (lg, b3)" "deserialize_size_t b3 = Some (num, b4)"
        by (auto simp: set_data_tft_event_def bind_eq_Some_conv)
      obtain okd h4 where m2: "malloc E (unat num * 8) h3 = (okd, h4)" by (metis prod.exhaust)
      show ?thesis
      proof (cases "num > 0 \<and> okd")
        case True
        with a Some n m2 obtain ok_all ds where g: "get_tft_data E (unat num) b4 h4 = Some ((ok_all, ds), h1)"
          "ev_data event' = D_tft_event (tft_zero\<lparr>tft_type := ty, tft_name_len := name_len, tft_name := name, tft_log := lg,
             tft_num_data := num, tft_data := Some ds\<rparr>)"
          by (auto simp: set_data_tft_event_def bind_eq_Some_conv Let_def)
        with l live_malloc [OF m2] get_tft_data_live [OF g(1)] True Some \<open>ok\<close> show ?thesis by (auto simp: owned_defs)
      next
        case False
        with a Some n m2 l live_malloc [OF m2] \<open>ok\<close> show ?thesis
          by (auto simp: set_data_tft_event_def owned_defs tft_zero_def Let_def split: if_splits)
      qed
    qed
  qed (use a False m live_malloc [OF m] in \<open>auto simp: set_data_tft_event_def owned_defs\<close>)
qed (use a in \<open>auto simp: set_data_tft_event_def owned_defs\<close>)

interpretation tft: event_memory set_data_tft_event free_data_tft_event
  by unfold_locales (metis tft_decoder_owned free_owned(2), auto dest: later)

lemma ap_decoder_owned:
  assumes a: "set_data_ap_reset E msg event h = Some ((ret, event'), h1)"
  shows "is_ap_reset (ev_data event') \<and> live E h1 - live E h = owned (ev_data event')"
proof -
  from a obtain data len_name b1 name h2 where d: "msg_data msg = Some data" "deserialize_size_t (data, 0) = Some (len_name, b1)"
    "dup_string E b1 len_name h = Some (name, h2)"
    by (auto simp: set_data_ap_reset_def bind_eq_Some_conv)
  note l = live_dup_string [OF d(3)]
  show ?thesis
  proof (cases name)
    case None
    with a d l show ?thesis by (auto simp: set_data_ap_reset_def owned_defs)
  next
    case (Some nm)
    with a d obtain num b3 where n: "(if hdr_len (msg_hdr msg) > len_name + 4 then deserialize_size_t (skip b1 len_name)
        else Some (0, skip b1 len_name)) = Some (num, b3)"
      by (auto simp: set_data_ap_reset_def bind_eq_Some_conv Let_def)
    obtain ok_ap h3 where m: "malloc E 16 h2 = (ok_ap, h3)" by (metis prod.exhaust)
    obtain ok_causes h4 where c: "malloc E (unat (num * 8)) h3 = (ok_causes, h4)" by (metis prod.exhaust)
    note l = l live_malloc [OF m] live_malloc [OF c]
    show ?thesis
    proof (cases "ok_ap \<and> ok_causes")
      case True
      with a d Some n m c obtain cs k where g: "get_causes E (unat num) (unat (num * 8) div 8) b3 h4 = Some ((cs, k), h1)"
        "ev_data event' = D_ap_reset \<lparr>ap_len = len_name, ap_name = name, ap_num_causes = of_nat k, ap_recovery_causes = Some cs\<rparr>"
        by (auto simp: set_data_ap_reset_def bind_eq_Some_conv Let_def)
      have "unat num < 2 ^ LENGTH(32)" by (rule unsigned_less)
      then have "unat (of_nat k :: u32) = k" using get_causes_live [OF g(1)] by (simp add: unat_of_nat)
      with g l get_causes_live [OF g(1)] True Some show ?thesis by (auto simp: owned_defs)
    next
      case False
      with a d Some n m c l show ?thesis by (cases ok_ap) (auto simp: set_data_ap_reset_def owned_defs)
    qed
  qed
qed

interpretation ap_reset: event_memory set_data_ap_reset free_data_ap_reset
  by unfold_locales (metis ap_decoder_owned free_owned(3), auto dest: later)

lemma lib_events: "event_memory (lib_set_data e) (lib_free_data e)"
  unfolding lib_set_data_def lib_free_data_def
  using no_data.event_memory_axioms fuse_info.event_memory_axioms fw_result.event_memory_axioms nvm_result.event_memory_axioms
    hw.event_memory_axioms core_dump_event.event_memory_axioms tft.event_memory_axioms ap_reset.event_memory_axioms
  by (cases e) simp_all

section \<open>Messages\<close>

lemma prepare_grown:
  "msg_prepare E msg i sz h = Some ((ret, m, n), h1) \<Longrightarrow> grown E (of_bool (msg_data m \<noteq> None)) h h1 \<and> (ret = E_ERR_SUCCESS \<longrightarrow> msg_data m \<noteq> None)"
  by (auto simp: msg_prepare_def msg_set_header_def calloc_def xint_def xtime_def bind_eq_Some_conv Let_def grown_def
      split: option.splits if_splits)

lemma build_grown: "build_msg E msg i sz body h = Some ((ret, m), h1) \<Longrightarrow> grown E (of_bool (msg_data m \<noteq> None)) h h1"
  by (auto simp: build_msg_def bind_eq_Some_conv split: if_splits dest!: prepare_grown)

text \<open>A request that was built owns one block if it has a buffer, and none otherwise.\<close>

lemma lib_request_grown:
  assumes "lib_set_msg r E msg_empty req h = Some ((ret, m), h1)"
  shows "grown E (of_bool (msg_data m \<noteq> None)) h h1"
  using assms
  by (cases r) (auto simp: lib_set_msg_def set_msg_name_def set_msg_filter_def set_msg_restart_def set_msg_recovery_def msg_set_empty_def
      msg_empty_def bind_eq_Some_conv Let_def split: if_splits cli_data.splits dest: build_grown prepare_grown)

lemma free_msg_grown: "grown E (- of_bool (msg_data m \<noteq> None)) (snd s) (snd (free_msg m s))"
  by (simp add: free_msg_def grown_def later_free_ptr)

end
