(* ===== verification/Cli_Behaviour.thy ===== *)
theory Cli_Behaviour
  imports Cli_Memory Daemon_Requests
begin

text \<open>
  What the client library does with a handle, whichever of its functions runs: the part that belongs to the application stays as it
  is, a free mutex is free again, and no memory is lost. A request is settled in a bounded number of attempts of bounded length, and the
  lock of the handle follows the daemon's acknowledgements.
\<close>

section \<open>The exchange of a request\<close>

text \<open>Some time passed, and nothing was sent.\<close>

definition quiet :: "history \<Rightarrow> history \<Rightarrow> bool" where
  "quiet h h' \<longleftrightarrow> (\<exists>cs. h' = cs @ h \<and> filter is_send cs = [])"

lemma quiet_refl [simp]: "quiet h h"
  by (simp add: quiet_def)

lemma quiet_call [simp]: "\<not> is_send c \<Longrightarrow> quiet h (c # h') \<longleftrightarrow> quiet h h' \<or> h = c # h'"
  by (auto simp: quiet_def Cons_eq_append_conv)

lemma quiet_trans [trans]: "quiet h h' \<Longrightarrow> quiet h' h'' \<Longrightarrow> quiet h h''"
  by (auto simp: quiet_def)

lemma quiet_extends: "quiet h h' \<Longrightarrow> extends h h'"
  by (auto simp: quiet_def extends_def)

lemma quiet_sent: "quiet h h' \<Longrightarrow> sent h' = sent h"
  by (auto simp: quiet_def sent_def rev_filter [symmetric])

lemma is_send_simps [simp]:
  "\<not> is_send (Libc a)" "\<not> is_send (File b)" "\<not> is_send (Android c)" "\<not> is_send (Cli d)" "\<not> is_send (Sock (X_recv fd n))"
  "\<not> is_send (Sock (X_close fd))" "\<not> is_send (Sock X_epoll_create)" "\<not> is_send (Sock (X_epoll_add e fd))"
  "\<not> is_send (Sock (X_epoll_wait e k t))" "is_send (Sock (X_send fd xs))"
  by (simp_all add: is_send_def)

lemma sent_cli [simp]: "sent (Cli d # h) = sent h"
  by (simp add: sent_def)

lemma sent_free_msg [simp]: "sent (snd (free_msg m s)) = sent (snd s)" "fst (free_msg m s) = fst s"
  by (simp_all add: free_msg_def free_ptr_def xcall_def sent_def split: option.split)

lemma msg_get_header_total:
  "\<exists>r hdr'. msg_get_header E fd hdr h = Some ((r, hdr'), Sock (X_recv fd SIZE_HEADER) # h)"
proof -
  let ?h = "Sock (X_recv fd SIZE_HEADER) # h"
  show ?thesis
  proof (cases "env_int E ?h \<ge> 0 \<and> length (take SIZE_HEADER (env_bytes E ?h)) = SIZE_HEADER")
    case True
    then show ?thesis
      by (simp add: msg_get_header_def cnx_read_def recv_def Let_def deserialize_uint32_def mem_read_def SIZE_HEADER_def)
  next
    case False
    then show ?thesis
      by (auto simp: msg_get_header_def cnx_read_def recv_def Let_def)
  qed
qed

text \<open>The part of the handle an exchange leaves alone: all but the connection, the answer and the mutex.\<close>

definition core :: "mmgr_lib_context_t \<Rightarrow> mmgr_lib_context_t" where
  "core c = c\<lparr>lb_connected := E_CNX_DISCONNECTED, lb_ack := 0, lb_mtx_signal := False\<rparr>"

lemma core_updates [simp]:
  "core (c\<lparr>lb_connected := x\<rparr>) = core c" "core (c\<lparr>lb_ack := a\<rparr>) = core c" "core (c\<lparr>lb_mtx_signal := m\<rparr>) = core c"
  by (simp_all add: core_def)

lemma coreD:
  assumes "core c = core c'"
  shows "lb_fd_socket c = lb_fd_socket c'" "lb_lock c = lb_lock c'" "lb_events c = lb_events c'" "lb_func c = lb_func c'"
    "lb_set_msg c = lb_set_msg c'" "lb_set_data c = lb_set_data c'" "lb_cli_name c = lb_cli_name c'" "lb_tid c = lb_tid c'"
    "lb_reader c = lb_reader c'"
  using assms [THEN arg_cong, of lb_fd_socket] assms [THEN arg_cong, of lb_lock] assms [THEN arg_cong, of lb_events]
    assms [THEN arg_cong, of lb_func] assms [THEN arg_cong, of lb_set_msg] assms [THEN arg_cong, of lb_set_data]
    assms [THEN arg_cong, of lb_cli_name] assms [THEN arg_cong, of lb_tid] assms [THEN arg_cong, of lb_reader]
  by (simp_all add: core_def)

text \<open>
  Reading a message returns, sends nothing, changes at most the state of the connection, and allocates the buffer of the message if it has
  one.
\<close>

lemma read_msg_total:
  "\<exists>r msg s'. read_msg E s = Some ((r, msg), s') \<and> quiet (snd s) (snd s') \<and> core (fst s') = core (fst s) \<and>
     lb_mtx_signal (fst s') = lb_mtx_signal (fst s) \<and> grown E (of_bool (msg_data msg \<noteq> None)) (snd s) (snd s')"
proof -
  obtain r hdr where g: "msg_get_header E (lb_fd_socket (fst s)) (msg_hdr msg_empty) (snd s) =
      Some ((r, hdr), Sock (X_recv (lb_fd_socket (fst s)) SIZE_HEADER) # snd s)"
    using msg_get_header_total by blast
  show ?thesis
    unfolding read_msg_def g
    by (auto simp: set_connected_def calloc_def cnx_read_def recv_def xint_def case_prod_unfold Let_def grown_def msg_empty_def
        split: option.split)
qed

lemma tty_wait_quiet: "quiet h (snd (tty_wait_for_event E fd t h)) \<and> grown E 0 h (snd (tty_wait_for_event E fd t h))"
  by (auto simp: grown_def tty_wait_for_event_def tty_init_listener_def tty_listen_fd_def ext_defs Let_def case_prod_unfold)

lemma wait_single_total:
  "\<exists>err to s'. wait_single E t s = Some (err, to, s') \<and> quiet (snd s) (snd s') \<and> core (fst s') = core (fst s) \<and>
     lb_mtx_signal (fst s') = lb_mtx_signal (fst s) \<and> (to \<longleftrightarrow> err = E_ERR_TTY_TIMEOUT) \<and> grown E 0 (snd s) (snd s')"
proof -
  obtain err h1 where w: "tty_wait_for_event E (lb_fd_socket (fst s)) (t * 1000) (snd s) = (err, h1)" "quiet (snd s) h1" "grown E 0 (snd s) h1"
    using tty_wait_quiet by (metis prod.collapse)
  obtain r msg c2 h2 where m: "read_msg E (fst s, h1) = Some ((r, msg), (c2, h2))" "quiet h1 h2"
    "core c2 = core (fst s)" "lb_mtx_signal c2 = lb_mtx_signal (fst s)" "grown E (of_bool (msg_data msg \<noteq> None)) h1 h2"
    using read_msg_total [of E "(fst s, h1)"] by auto
  have q: "quiet (snd s) (free_ptr (msg_data msg) h2)"
    using quiet_trans [OF w(2) m(2)] by (auto simp: free_ptr_def xcall_def split: option.split)
  have g: "grown E 0 (snd s) (free_ptr (msg_data msg) h2)"
    using w(3) m(5) by (auto simp: grown_def intro: extends_trans)
  from m w q g show ?thesis
    by (cases "err = E_ERR_TTY_TIMEOUT"; cases "r = E_ERR_CLI_SUCCEED") (auto simp: wait_single_def set_ack_def free_msg_def)
qed

text \<open>The requests that are not acknowledged, because they are acknowledgements.\<close>

definition is_ack_request :: "u32 \<Rightarrow> bool" where
  "is_ack_request rid \<longleftrightarrow> rid = request_id E_MMGR_ACK_MODEM_COLD_RESET \<or> rid = request_id E_MMGR_ACK_MODEM_SHUTDOWN"

text \<open>The clock does not fall behind a point of time.\<close>

definition clock_from :: "env \<Rightarrow> history \<Rightarrow> int \<Rightarrow> bool" where
  "clock_from E h start \<longleftrightarrow> (\<forall>h'. extends h h' \<longrightarrow> start \<le> tv_sec (env_time E (Libc X_realtime # h')))"

lemma clock_from_extends: "clock_from E h start \<Longrightarrow> extends h h' \<Longrightarrow> clock_from E h' start"
  by (meson clock_from_def extends_trans)

text \<open>
  How an exchange ends: at most \<open>k\<close> copies of the same bytes were sent, and success means an acknowledgement
  was read, unless none is due.
\<close>

definition exchange_ends ::
  "u32 \<Rightarrow> byte list \<Rightarrow> int \<Rightarrow> lst \<Rightarrow> ((e_err_mmgr_cli \<times> e_mmgr_errors) \<times> lst) option \<Rightarrow> bool" where
  "exchange_ends rid xs k s r \<longleftrightarrow>
     (\<exists>ret err s' n. r = Some ((ret, err), s') \<and> core (fst s') = core (fst s) \<and> extends (snd s) (snd s') \<and>
        0 < n \<and> int n \<le> k \<and> (is_ack_request rid \<longrightarrow> n = 1) \<and>
        sent (snd s') = sent (snd s) @ replicate n (Sock (X_send (lb_fd_socket (fst s)) xs)) \<and>
        ret \<in> {E_ERR_CLI_SUCCEED, E_ERR_CLI_FAILED} \<and>
        (ret = E_ERR_CLI_SUCCEED \<longrightarrow> is_ack_request rid \<or> lb_ack (fst s') = event_id E_MMGR_ACK))"

lemma exchange_again:
  assumes "exchange_ends rid xs (k - 1) s1 r" "\<not> is_ack_request rid" "core (fst s1) = core (fst s)"
    and "extends (snd s) (snd s1)" "sent (snd s1) = sent (snd s) @ [Sock (X_send (lb_fd_socket (fst s)) xs)]"
  shows "exchange_ends rid xs k s r"
proof -
  obtain ret err s' n where "r = Some ((ret, err), s')" "core (fst s') = core (fst s1)" "extends (snd s1) (snd s')"
    "int n \<le> k - 1" "sent (snd s') = sent (snd s1) @ replicate n (Sock (X_send (lb_fd_socket (fst s1)) xs))"
    "ret \<in> {E_ERR_CLI_SUCCEED, E_ERR_CLI_FAILED}"
    "ret = E_ERR_CLI_SUCCEED \<longrightarrow> is_ack_request rid \<or> lb_ack (fst s') = event_id E_MMGR_ACK"
    using assms(1) unfolding exchange_ends_def by blast
  with assms(2-) coreD(1) [OF assms(3)] extends_trans [OF assms(4)] show ?thesis
    unfolding exchange_ends_def
    by (intro exI [of _ ret] exI [of _ err] exI [of _ s'] exI [of _ "Suc n"]) auto
qed

text \<open>
  The loop returns: the pause grows by a second from one attempt to the next and may not exceed
  the time left, so there are at most twenty attempts.
\<close>

lemma exchange_single:
  assumes "msg_data msg = Some data" "mem_read data 0 (unat (of_nat SIZE_HEADER + hdr_len (msg_hdr msg))) = Some xs"
    and "\<not> lb_mtx_signal (fst s)" "clock_from E (snd s) start" "sd \<le> 20"
  shows "exchange_ends rid xs (21 - sd) s (exchange_loop E peer E_SEND_SINGLE rid msg start t sd s)"
  using assms(3-)
proof (induction "nat (20 - sd)" arbitrary: sd t s rule: less_induct)
  case (less sd t s)
  let ?fd = "lb_fd_socket (fst s)"
  let ?s2 = "(fst s\<lparr>lb_mtx_signal := True\<rparr>, Sock (X_send ?fd xs) # snd s)"
  have one: "sent (snd ?s2) = sent (snd s) @ [Sock (X_send ?fd xs)]" "extends (snd s) (snd ?s2)"
    by (simp_all add: sent_def)
  obtain err3 to c3 h3 where w: "wait_single E t ?s2 = Some (err3, to, c3, h3)" "quiet (snd ?s2) h3" "core c3 = core (fst s)"
    using wait_single_total [of E t ?s2] by auto
  have three: "sent h3 = sent (snd s) @ [Sock (X_send ?fd xs)]" "extends (snd s) h3"
    using quiet_sent [OF w(2)] one(1) extends_trans [OF one(2) quiet_extends [OF w(2)]] by simp_all
  define ts where "ts = tv_sec (env_time E (Libc X_realtime # h3))"
  have "start \<le> ts" using less.prems(2) three(2) by (simp add: clock_from_def ts_def)
  define go where "go \<longleftrightarrow> 20 - (ts - start) > 0 \<and> sd + 1 \<le> 20 - (ts - start)"
  let ?s6 = "(c3\<lparr>lb_mtx_signal := False\<rparr>, Libc (X_sleep (sd + 1)) # Libc X_realtime # h3)"
  note step = exchange_loop.simps [of E peer E_SEND_SINGLE rid msg start t sd s] attempt_def mutex_lock_def mutex_unlock_def
    cnx_write_def ext_defs is_ack_request_def go_def ts_def DEF_MMGR_RESPONSIVE_TIMEOUT_def pause_def
  consider (last) "env_int E (snd ?s2) < 0 \<or> is_ack_request rid"
    | (stop) "\<not> env_int E (snd ?s2) < 0" "\<not> is_ack_request rid" "to \<or> lb_ack c3 = event_id E_MMGR_ACK \<or> \<not> go"
    | (again) "\<not> env_int E (snd ?s2) < 0" "\<not> is_ack_request rid" "\<not> to" "lb_ack c3 \<noteq> event_id E_MMGR_ACK" "go"
    by blast
  then show ?case
  proof cases
    case again
    have "exchange_loop E peer E_SEND_SINGLE rid msg start t sd s =
        exchange_loop E peer E_SEND_SINGLE rid msg start (20 - (ts - start)) (sd + 1) ?s6"
      using again w(1) less.prems(1) assms(1,2) by (simp add: step)
    moreover have "extends (snd s) (snd ?s6)" using three(2) by (simp add: extends_step)
    moreover have "exchange_ends rid xs (21 - (sd + 1)) ?s6
        (exchange_loop E peer E_SEND_SINGLE rid msg start (20 - (ts - start)) (sd + 1) ?s6)"
      using again(5) \<open>start \<le> ts\<close> clock_from_extends [OF less.prems(2) \<open>extends (snd s) (snd ?s6)\<close>] less.prems(3)
      by (intro less.hyps) (auto simp: go_def)
    ultimately show ?thesis
      using again(2) w(3) three(1) by (auto intro!: exchange_again [of rid xs "21 - sd" ?s6])
  next
    case stop
    then show ?thesis
      using w(1,3) less.prems(1,3) assms(1,2) three
      by (auto simp: step exchange_ends_def extends_step intro!: exI [of _ "1::nat"])
  next
    case last
    then show ?thesis
      using less.prems(1,3) assms(1,2) one
      by (auto simp: step exchange_ends_def intro!: exI [of _ "1::nat"])
  qed
qed

lemma exchange_endsE:
  assumes "exchange_ends rid xs k s r"
  obtains ret err s' n where "r = Some ((ret, err), s')" "core (fst s') = core (fst s)" "extends (snd s) (snd s')" "0 < n" "int n \<le> k"
    "is_ack_request rid \<longrightarrow> n = 1" "sent (snd s') = sent (snd s) @ replicate n (Sock (X_send (lb_fd_socket (fst s)) xs))"
    "ret \<in> {E_ERR_CLI_SUCCEED, E_ERR_CLI_FAILED}"
    "ret = E_ERR_CLI_SUCCEED \<longrightarrow> is_ack_request rid \<or> lb_ack (fst s') = event_id E_MMGR_ACK"
  using assms unfolding exchange_ends_def by (elim exE conjE) (rule that)

text \<open>
  A request the library can put on the wire: if memory is available, its builder makes a message of the
  request's number and of \<open>payload\<close>.
\<close>

definition encodable :: "mmgr_lib_context_t \<Rightarrow> mmgr_cli_event_t \<Rightarrow> byte list \<Rightarrow> bool" where
  "encodable c req payload \<longleftrightarrow>
     ev_id req < request_id E_MMGR_NUM_REQUESTS \<and> length payload + SIZE_HEADER < 2 ^ 32 \<and>
     (\<forall>E h. alloc_ok E \<longrightarrow> (\<exists>m ts h1. lb_set_msg c (request_of_id (ev_id req)) E msg_empty req h = Some ((E_ERR_SUCCESS, m), h1) \<and>
        quiet h h1 \<and> hdr_len (msg_hdr m) = of_nat (length payload) \<and>
        msg_data m = Some (header_image (ev_id req) ts (of_nat (length payload)) @ payload)))"

lemma build_msg_encodes:
  assumes "alloc_ok E" "fills body payload" "length payload + SIZE_HEADER < 2 ^ 32" "sz = of_nat (length payload)"
  shows "\<exists>m ts h1. build_msg E msg_empty i sz body h = Some ((E_ERR_SUCCESS, m), h1) \<and> quiet h h1 \<and>
    hdr_len (msg_hdr m) = of_nat (length payload) \<and> msg_data m = Some (header_image i ts (of_nat (length payload)) @ payload)"
proof -
  have "unat sz = length payload" using assms(3,4) by (simp add: unat_of_nat)
  from build_msg_fills [OF assms(1,2) this assms(3), of msg_empty i h] assms(4) show ?thesis by auto
qed

lemma bare_encodable:
  assumes "lb_set_msg c = lib_set_msg"
    and "r \<notin> {E_MMGR_SET_NAME, E_MMGR_SET_EVENTS, E_MMGR_REQUEST_MODEM_RECOVERY, E_MMGR_NUM_REQUESTS}" "request r = Some req"
  shows "encodable c req []"
proof -
  have req: "req = \<lparr>ev_id = request_id r, ev_len = 0, ev_data = D_null, ev_context = 0\<rparr>"
    using assms(3) by (simp add: request_def)
  have "request_id r < 22" using assms(2) by (cases r) simp_all
  moreover have "\<exists>m ts h1. msg_set_empty E msg_empty i h = Some ((E_ERR_SUCCESS, m), h1) \<and> quiet h h1 \<and>
      hdr_len (msg_hdr m) = 0 \<and> msg_data m = Some (header_image i ts 0)" if "alloc_ok E" for E i h
    using that by (auto simp: msg_set_empty_def msg_prepare_ok SIZE_HEADER_def)
  moreover have "\<exists>m ts h1. build_msg E msg_empty i 0 Some h = Some ((E_ERR_SUCCESS, m), h1) \<and> quiet h h1 \<and>
      hdr_len (msg_hdr m) = 0 \<and> msg_data m = Some (header_image i ts 0)" if "alloc_ok E" for E i h
    using build_msg_encodes [OF that, of Some "[]" 0 i h] by (simp add: fills_def SIZE_HEADER_def)
  ultimately have "\<exists>m ts h1. lib_set_msg r E msg_empty req h = Some ((E_ERR_SUCCESS, m), h1) \<and> quiet h h1 \<and>
      hdr_len (msg_hdr m) = 0 \<and> msg_data m = Some (header_image (ev_id req) ts 0)" if "alloc_ok E" for E h
    using assms(2) that by (cases r) (simp_all add: req lib_set_msg_def set_msg_restart_def)
  then show ?thesis
    using assms(1) \<open>request_id r < 22\<close> by (simp add: encodable_def req SIZE_HEADER_def)
qed

text \<open>The clock never goes back.\<close>

definition clock_monotone :: "env \<Rightarrow> bool" where
  "clock_monotone E \<longleftrightarrow> (\<forall>h h'. extends h h' \<longrightarrow>
     tv_sec (env_time E (Libc X_realtime # h)) \<le> tv_sec (env_time E (Libc X_realtime # h')))"

lemma clock_start: "clock_monotone E \<Longrightarrow> clock_from E (Libc X_realtime # h) (tv_sec (env_time E (Libc X_realtime # h)))"
  by (auto simp: clock_from_def clock_monotone_def) (meson extends_Cons extends_trans)

lemma encodes:
  assumes "alloc_ok E" "encodable c req payload"
  shows "\<exists>m ts h1 xs. lb_set_msg c (request_of_id (ev_id req)) E msg_empty req h = Some ((E_ERR_SUCCESS, m), h1) \<and> quiet h h1 \<and>
    msg_data m = Some xs \<and> mem_read xs 0 (unat (of_nat SIZE_HEADER + hdr_len (msg_hdr m))) = Some xs \<and>
    xs = header_image (ev_id req) ts (of_nat (length payload)) @ payload"
proof -
  from assms obtain m ts h1 where m: "lb_set_msg c (request_of_id (ev_id req)) E msg_empty req h = Some ((E_ERR_SUCCESS, m), h1)"
    "quiet h h1" "hdr_len (msg_hdr m) = of_nat (length payload)"
    "msg_data m = Some (header_image (ev_id req) ts (of_nat (length payload)) @ payload)"
    unfolding encodable_def by blast
  let ?xs = "header_image (ev_id req) ts (of_nat (length payload)) @ payload"
  have "unat (of_nat SIZE_HEADER + of_nat (length payload) :: u32) = length ?xs"
    using assms(2) by (simp add: encodable_def unat_word_ariths unat_of_nat SIZE_HEADER_def length_header_image)
  then have "mem_read ?xs 0 (unat (of_nat SIZE_HEADER + hdr_len (msg_hdr m))) = Some ?xs"
    unfolding m(3) by (simp add: mem_read_def)
  with m show ?thesis by blast
qed

lemma request_exchange:
  assumes "alloc_ok E" "clock_monotone E" "\<not> lb_mtx_signal (fst s)" "encodable (fst s) req payload" "0 < t"
  shows "\<exists>ret s' n ts. send_msg E peer (Some req) E_SEND_SINGLE t s = Some (ret, s') \<and>
    ret \<in> {E_ERR_CLI_SUCCEED, E_ERR_CLI_FAILED, E_ERR_CLI_TIMEOUT} \<and> \<not> lb_mtx_signal (fst s') \<and> core (fst s') = core (fst s) \<and>
    extends (snd s) (snd s') \<and> 0 < n \<and> n \<le> 20 \<and> (is_ack_request (ev_id req) \<longrightarrow> n = 1) \<and>
    sent (snd s') = sent (snd s) @ replicate n (Sock (X_send (lb_fd_socket (fst s))
      (header_image (ev_id req) ts (of_nat (length payload)) @ payload))) \<and>
    (ret = E_ERR_CLI_SUCCEED \<longrightarrow> is_ack_request (ev_id req) \<or> lb_ack (fst s') = event_id E_MMGR_ACK)"
proof -
  let ?s1 = "set_ack (event_id E_MMGR_NUM_EVENTS) s"
  obtain m ts h1 where b: "lb_set_msg (fst s) (request_of_id (ev_id req)) E msg_empty req (snd s) = Some ((E_ERR_SUCCESS, m), h1)"
    and q: "quiet (snd s) h1" and m: "msg_data m = Some (header_image (ev_id req) ts (of_nat (length payload)) @ payload)"
    and r: "mem_read (header_image (ev_id req) ts (of_nat (length payload)) @ payload) 0
      (unat (of_nat SIZE_HEADER + hdr_len (msg_hdr m))) = Some (header_image (ev_id req) ts (of_nat (length payload)) @ payload)"
    using encodes [OF assms(1,4)] by metis
  let ?xs = "header_image (ev_id req) ts (of_nat (length payload)) @ payload"
  let ?s3 = "(fst ?s1, Libc X_realtime # h1)"
  have c: "clock_from E (snd ?s3) (tv_sec (env_time E (Libc X_realtime # h1)))"
    using clock_start [OF assms(2)] by simp
  have "exchange_ends (ev_id req) ?xs (21 - 1) ?s3
      (exchange_loop E peer E_SEND_SINGLE (ev_id req) m (tv_sec (env_time E (Libc X_realtime # h1))) t 1 ?s3)"
    using assms(3) c by (intro exchange_single [OF m r]) (simp_all add: set_ack_def)
  then obtain ret err s' n where x: "exchange_loop E peer E_SEND_SINGLE (ev_id req) m (tv_sec (env_time E (Libc X_realtime # h1))) t 1 ?s3 =
      Some ((ret, err), s')" "core (fst s') = core (fst s)" "extends (snd ?s3) (snd s')" "0 < n" "int n \<le> 20"
    "is_ack_request (ev_id req) \<longrightarrow> n = 1" "sent (snd s') = sent (snd ?s3) @ replicate n (Sock (X_send (lb_fd_socket (fst s)) ?xs))"
    "ret \<in> {E_ERR_CLI_SUCCEED, E_ERR_CLI_FAILED}"
    "ret = E_ERR_CLI_SUCCEED \<longrightarrow> is_ack_request (ev_id req) \<or> lb_ack (fst s') = event_id E_MMGR_ACK"
    by (rule exchange_endsE) (simp add: set_ack_def)
  have e: "extends (snd s) (snd s')"
    using extends_trans [OF extends_step [OF quiet_extends [OF q]]] x(3) by auto
  have "ev_id req < 22" using assms(4) by (simp add: encodable_def)
  then show ?thesis
    using assms(5) b x e quiet_sent [OF q]
    by (intro exI [of _ "if err = E_ERR_TTY_TIMEOUT then E_ERR_CLI_TIMEOUT else ret"] exI [of _ "free_msg m (mutex_unlock s')"] exI [of _ n] exI [of _ ts])
      (auto simp: send_msg_def set_ack_def xtime_def mutex_unlock_def sent_free_msg later_free_ptr, auto simp: free_msg_def)
qed


section \<open>What only the application changes\<close>

definition app_part ::
  "mmgr_lib_context_t \<Rightarrow> u32 \<times> (e_mmgr_events \<Rightarrow> nat option) \<times> byte list \<times> bool \<times> (e_mmgr_requests \<Rightarrow> builder) \<times>
     (e_mmgr_events \<Rightarrow> decoder) \<times> (e_mmgr_events \<Rightarrow> releaser) \<times> string" where
  "app_part c = (lb_events c, lb_func c, lb_cli_name c, lb_lock c, lb_set_msg c, lb_set_data c, lb_free_data c, lb_cnx_name c)"

lemma app_part_updates [simp]:
  "app_part (c\<lparr>lb_connected := x\<rparr>) = app_part c" "app_part (c\<lparr>lb_ack := a\<rparr>) = app_part c" "app_part (c\<lparr>lb_mtx_signal := m\<rparr>) = app_part c"
  "app_part (c\<lparr>lb_fd_socket := fd\<rparr>) = app_part c" "app_part (c\<lparr>lb_pipe_read := fd\<rparr>) = app_part c" "app_part (c\<lparr>lb_pipe_write := fd\<rparr>) = app_part c"
  "app_part (c\<lparr>lb_tid := t\<rparr>) = app_part c" "app_part (c\<lparr>lb_thr_id := t'\<rparr>) = app_part c" "app_part (c\<lparr>lb_reader := r\<rparr>) = app_part c"
  by (simp_all add: app_part_def)

lemma app_part_core: "core c = core c' \<Longrightarrow> app_part c = app_part c'"
  by (drule arg_cong [where f = app_part]) (simp add: core_def)

definition lib_tables :: "mmgr_lib_context_t \<Rightarrow> bool" where
  "lib_tables c \<longleftrightarrow> lb_set_msg c = lib_set_msg \<and> lb_set_data c = lib_set_data \<and> lb_free_data c = lib_free_data"

lemma lib_tables_app_part: "app_part c' = app_part c \<Longrightarrow> lib_tables c' \<longleftrightarrow> lib_tables c"
  by (simp add: app_part_def lib_tables_def)

text \<open>
  What every function of the library does to a handle, whatever else it does: the application's part stays as it is, and, with the tables
  of the library, time has passed and as many blocks are in use as before. A mutex that was free is free again at the end.
\<close>

definition handle_kept :: "env \<Rightarrow> lst \<Rightarrow> lst \<Rightarrow> bool" where
  "handle_kept E s s' \<longleftrightarrow> app_part (fst s') = app_part (fst s) \<and> (lib_tables (fst s) \<longrightarrow> grown E 0 (snd s) (snd s'))"

definition stays :: "env \<Rightarrow> lst \<Rightarrow> lst \<Rightarrow> bool" where
  "stays E s s' \<longleftrightarrow> handle_kept E s s' \<and> (lb_mtx_signal (fst s') \<longrightarrow> lb_mtx_signal (fst s))"

lemma handle_kept_trans [trans]: "handle_kept E s s1 \<Longrightarrow> handle_kept E s1 s2 \<Longrightarrow> handle_kept E s s2"
  using grown_trans [of E 0 "snd s" "snd s1" 0 "snd s2" 0] lib_tables_app_part [of "fst s1" "fst s"] by (auto simp: handle_kept_def)

lemma stays_trans [trans]: "stays E s s1 \<Longrightarrow> stays E s1 s2 \<Longrightarrow> stays E s s2"
  by (auto simp: stays_def intro: handle_kept_trans)

lemma handle_kept_refl [simp]: "handle_kept E s s" "stays E s s"
  by (simp_all add: handle_kept_def stays_def)

lemma handle_kept_app: "handle_kept E s s' \<Longrightarrow> app_part (fst s') = app_part (fst s)" "stays E s s' \<Longrightarrow> app_part (fst s') = app_part (fst s)"
  by (simp_all add: handle_kept_def stays_def)

lemma stays_kept: "stays E s s' \<Longrightarrow> handle_kept E s s'"
  by (simp add: stays_def)

lemma handle_keptI: "app_part (fst s') = app_part (fst s) \<Longrightarrow> grown E 0 (snd s) (snd s') \<Longrightarrow> handle_kept E s s'"
  by (simp add: handle_kept_def)

lemma staysI: "app_part (fst s') = app_part (fst s) \<Longrightarrow> grown E 0 (snd s) (snd s') \<Longrightarrow> \<not> lb_mtx_signal (fst s') \<or> lb_mtx_signal (fst s) \<Longrightarrow>
    stays E s s'"
  by (auto simp: stays_def handle_kept_def)

lemma mutex_stays:
  "stays E s (mutex_unlock s)" "mutex_lock s = Some s1 \<Longrightarrow> handle_kept E s s1" "stays E s (set_ack a s)" "stays E s (set_connected x s)"
  by (auto simp: mutex_unlock_def mutex_lock_def set_ack_def set_connected_def intro!: staysI handle_keptI split: if_splits)

lemma read_msg_keeps:
  assumes "read_msg E s = Some ((ret, msg), s1)"
  shows "app_part (fst s1) = app_part (fst s)" "grown E (of_bool (msg_data msg \<noteq> None)) (snd s) (snd s1)"
    "lb_mtx_signal (fst s1) = lb_mtx_signal (fst s)"
  using read_msg_total [of E s] assms by (auto dest: app_part_core)

lemma wait_single_keeps: "wait_single E t s = Some (err, to, s1) \<Longrightarrow> stays E s s1"
  using wait_single_total [of E t s] by (auto intro!: staysI dest: app_part_core)

text \<open>The reader thread as a sender sees it.\<close>

locale reader =
  fixes E :: env and peer :: peer
  assumes peer_stays: "peer n s = Some s' \<Longrightarrow> stays E s s'"
begin

lemma wait_threaded_keeps:
  assumes "wait_threaded E peer t s = Some (err, to, s')"
  shows "handle_kept E s s'"
proof -
  let ?h = "Cli (X_cond_timedwait (tv_sec (env_time E (Libc X_realtime # snd s)) + t)) # Libc X_realtime # snd s"
  from assms obtain s3 where 3: "peer (nat (env_int2 E ?h)) (mutex_unlock (fst s, ?h)) = Some s3" "mutex_lock s3 = Some s'"
    by (auto simp: wait_threaded_def bind_eq_Some_conv xtime_def xint_def split: if_splits simp del: split_paired_Ex)
  have "handle_kept E s (mutex_unlock (fst s, ?h))" by (auto simp: mutex_unlock_def grown_def intro!: handle_keptI)
  also note stays_kept [OF peer_stays [OF 3(1)]]
  also note mutex_stays(2) [OF 3(2)]
  finally show ?thesis .
qed

lemma pause_stays: "pause E peer meth n s = Some s' \<Longrightarrow> stays E s s'"
proof -
  assume p: "pause E peer meth n s = Some s'"
  have "stays E s (fst s, Libc (X_sleep n) # snd s)" by (auto simp: grown_def intro!: staysI)
  with p show ?thesis by (auto simp: pause_def xcall_def Let_def split: if_splits dest!: peer_stays intro: stays_trans)
qed

text \<open>One pass of the loop.\<close>

lemma attempt_keeps:
  assumes "attempt E peer meth rid msg start t sd s = Some r"
  shows "case r of
      Inl ((ret, err), s') \<Rightarrow> handle_kept E s s' \<and> ret \<in> {E_ERR_CLI_SUCCEED, E_ERR_CLI_FAILED} \<and>
        (ret = E_ERR_CLI_SUCCEED \<longrightarrow> is_ack_request rid \<or> lb_ack (fst s') = event_id E_MMGR_ACK)
    | Inr (t', sd', s') \<Rightarrow> handle_kept E s s' \<and> \<not> lb_mtx_signal (fst s')"
proof -
  from assms obtain s1 data xs where m: "mutex_lock s = Some s1" "msg_data msg = Some data"
    "mem_read data 0 (unat (of_nat SIZE_HEADER + hdr_len (msg_hdr msg))) = Some xs"
    by (auto simp: attempt_def bind_eq_Some_conv)
  obtain err h2 where w: "cnx_write E (lb_fd_socket (fst s1)) xs (snd s1) = (err, h2)" by fastforce
  have "handle_kept E s1 (fst s1, h2)" using w by (auto simp: cnx_write_def ext_defs grown_def intro!: handle_keptI split: if_splits)
  with mutex_stays(2) [OF m(1)] have s2: "handle_kept E s (fst s1, h2)" by (rule handle_kept_trans)
  note body = assms [unfolded attempt_def m w bind.bind_lunit Let_def prod.case]
  show ?thesis
  proof (cases "err \<noteq> E_ERR_SUCCESS \<or> is_ack_request rid")
    case True
    with body s2 show ?thesis by (auto simp: is_ack_request_def split: if_splits)
  next
    case False
    with body obtain err3 to s3 where w3: "(if meth = E_SEND_SINGLE then wait_single E t (fst s1, h2)
        else wait_threaded E peer t (fst s1, h2)) = Some (err3, to, s3)"
      by (auto simp: is_ack_request_def bind_eq_Some_conv simp del: split_paired_Ex split: if_splits)
    then have "handle_kept E (fst s1, h2) s3" by (auto split: if_splits dest: wait_single_keeps stays_kept wait_threaded_keeps)
    with s2 have s3: "handle_kept E s s3" by (rule handle_kept_trans)
    obtain ts h5 where ts: "xtime E (Libc X_realtime) (snd (mutex_unlock s3)) = (ts, h5)" by fastforce
    have "handle_kept E s3 (fst (mutex_unlock s3), h5)" using ts by (auto simp: mutex_unlock_def xtime_def grown_def intro!: handle_keptI)
    with s3 have s5: "handle_kept E s (fst (mutex_unlock s3), h5)" by (rule handle_kept_trans)
    have s6: "handle_kept E s s6 \<and> \<not> lb_mtx_signal (fst s6)" if "pause E peer meth n (fst (mutex_unlock s3), h5) = Some s6" for n s6
      using pause_stays [OF that] handle_kept_trans [OF s5] by (auto simp: stays_def mutex_unlock_def)
    from body False show ?thesis
      by (auto simp: w3 is_ack_request_def ts bind_eq_Some_conv s3 s5 split: if_splits dest!: s6)
  qed
qed

lemma exchange_keeps:
  assumes "exchange_loop E peer meth rid msg start t sd s = Some ((ret, err), s')"
  shows "handle_kept E s s' \<and> ret \<in> {E_ERR_CLI_SUCCEED, E_ERR_CLI_FAILED} \<and>
    (ret = E_ERR_CLI_SUCCEED \<longrightarrow> is_ack_request rid \<or> lb_ack (fst s') = event_id E_MMGR_ACK)"
proof -
  define P where "P = (\<lambda>D (p :: peer) rid (s :: lst) (r :: (e_err_mmgr_cli \<times> e_mmgr_errors) \<times> lst). D = E \<longrightarrow> p = peer \<longrightarrow>
    handle_kept E s (snd r) \<and> fst (fst r) \<in> {E_ERR_CLI_SUCCEED, E_ERR_CLI_FAILED} \<and>
    (fst (fst r) = E_ERR_CLI_SUCCEED \<longrightarrow> is_ack_request rid \<or> lb_ack (fst (snd r)) = event_id E_MMGR_ACK))"
  have "P E peer rid s ((ret, err), s')"
  proof (rule exchange_loop.raw_induct [OF _ assms], goal_cases)
    case (1 f D p meth rid msg start t sd s r)
    from 1(2) obtain x where x: "attempt D p meth rid msg start t sd s = Some x"
      "(case x of Inl res \<Rightarrow> Some res | Inr (t', sd', s') \<Rightarrow> f D p meth rid msg start t' sd' s') = Some r"
      by (auto simp: bind_eq_Some_conv simp del: split_paired_Ex)
    note a = attempt_keeps [of meth rid msg start t sd s x]
    show ?case
    proof (cases x)
      case (Inl res)
      with x a show ?thesis by (auto simp: P_def)
    next
      case (Inr y)
      obtain t' sd' s1 where y: "y = (t', sd', s1)" by (metis prod.exhaust)
      with x Inr have "P D p rid s1 r" by (intro 1(1)) simp
      with x(1) a show ?thesis by (auto simp: P_def Inr y intro: handle_kept_trans)
    qed
  qed
  then show ?thesis by (simp add: P_def)
qed

lemma send_msg_keeps:
  assumes "send_msg E peer req meth t s = Some (ret, s')"
  shows "handle_kept E s s' \<and> \<not> lb_mtx_signal (fst s') \<and> ret \<in> {E_ERR_CLI_SUCCEED, E_ERR_CLI_FAILED, E_ERR_CLI_TIMEOUT} \<and>
    (ret = E_ERR_CLI_SUCCEED \<longrightarrow> is_ack_request (ev_id (the req)) \<or> lb_ack (fst s') = event_id E_MMGR_ACK)"
proof (cases "req = None \<or> ev_id (the req) \<ge> request_id E_MMGR_NUM_REQUESTS \<or> t \<le> 0")
  case True
  with assms have "ret = E_ERR_CLI_FAILED" "s' = mutex_unlock s" by (auto simp: send_msg_def Let_def split: option.splits if_splits)
  with mutex_stays(1) [of E s] show ?thesis by (simp add: stays_def mutex_unlock_def)
next
  case False
  then obtain rq where rq: "req = Some rq" by auto
  let ?s1 = "set_ack (event_id E_MMGR_NUM_EVENTS) s"
  from assms False rq obtain x msg h2 r err s4 where b: "lb_set_msg (fst s) (request_of_id (ev_id rq)) E msg_empty rq (snd s) = Some ((x, msg), h2)"
    and l: "exchange_loop E peer meth (ev_id rq) msg (tv_sec (env_time E (Libc X_realtime # h2))) t 1 (fst ?s1, Libc X_realtime # h2) = Some ((r, err), s4)"
    and s': "ret = (if err = E_ERR_TTY_TIMEOUT then E_ERR_CLI_TIMEOUT else r)" "s' = free_msg msg (mutex_unlock s4)"
    by (auto simp: send_msg_def set_ack_def xtime_def bind_eq_Some_conv Let_def simp del: split_paired_Ex split: if_splits)
  note k = exchange_keeps [OF l]
  have g: "grown E 0 (snd s) (snd s')" if "lib_tables (fst s)"
  proof -
    have "grown E (of_bool (msg_data msg \<noteq> None)) (snd s) h2"
      using lib_request_grown [of "request_of_id (ev_id rq)" E rq "snd s" x msg h2] b that by (simp add: lib_tables_def)
    moreover have "grown E 0 (Libc X_realtime # h2) (snd s4)"
      using k that lib_tables_app_part [of "fst ?s1" "fst s"] by (simp add: handle_kept_def set_ack_def)
    moreover have "grown E 0 h2 (Libc X_realtime # h2)" by (simp add: grown_def)
    ultimately show ?thesis
      using free_msg_grown [of E msg "mutex_unlock s4"] by (auto simp: grown_def s' mutex_unlock_def intro: extends_trans)
  qed
  have "app_part (fst s') = app_part (fst s)" using k by (auto simp: handle_kept_def s'(2) mutex_unlock_def set_ack_def)
  with g k s' rq show ?thesis by (auto simp: handle_kept_def mutex_unlock_def)
qed

lemma send_msg_stays: "send_msg E peer req meth t s = Some (ret, s') \<Longrightarrow> stays E s s'"
  using send_msg_keeps by (auto simp: stays_def)

end

interpretation np: reader E no_peer for E
  by unfold_locales (simp add: no_peer_def)

text \<open>Calls that neither allocate nor free.\<close>

lemma stays_calls [simp]:
  "stays E s (fst s, Libc (X_sleep n) # snd s)" "stays E s (fst s, Libc X_realtime # snd s)" "stays E s (fst s, Cli d # snd s)"
  "stays E s (fst s, Libc X_boottime # snd s)"
  by (auto simp: grown_def intro!: staysI)

lemma ev_ack_stays:
  assumes "ev_ack i s = Some (r, s1)"
  shows "stays E s s1"
proof -
  from assms obtain s2 where "mutex_lock (set_ack i s) = Some s2" "s1 = mutex_unlock s2" by (auto simp: ev_ack_def bind_eq_Some_conv)
  then show ?thesis by (auto simp: mutex_lock_def mutex_unlock_def set_ack_def intro!: staysI split: if_splits)
qed

text \<open>Decoding an event, calling the callback and freeing the event.\<close>

lemma callback_called:
  assumes "lib_tables (fst s)" "enter_callback E self msg s = Some (event, s1)"
  obtains r h3 where "lb_free_data (fst s1) (event_of_id (hdr_id (msg_hdr msg))) event (Libc X_boottime # Cli d # snd s1) = Some (r, h3)"
    "stays E s (fst s1, h3)"
proof -
  from assms(2) obtain x h1 where d: "lb_set_data (fst s) (event_of_id (hdr_id (msg_hdr msg))) E msg
      \<lparr>ev_id = hdr_id (msg_hdr msg), ev_len = 0, ev_data = D_null, ev_context = lb_cli_ctx (fst s)\<rparr> (snd s) = Some ((x, event), h1)"
    and s1: "s1 = (fst s\<lparr>lb_tid := self\<rparr>, Libc X_boottime # h1)"
    by (auto simp: enter_callback_def bind_eq_Some_conv xcall_def Let_def)
  have t: "lb_set_data (fst s) = lib_set_data" "lb_free_data (fst s1) = lib_free_data" using assms(1) by (simp_all add: lib_tables_def s1)
  have "grown E 0 h1 (Libc X_boottime # Cli d # snd s1)" by (simp add: grown_def s1)
  from event_memory.delivered [OF lib_events d [unfolded t(1)] this] obtain r g'
    where g: "lib_free_data (event_of_id (hdr_id (msg_hdr msg))) event (Libc X_boottime # Cli d # snd s1) = Some (r, g')" "grown E 0 (snd s) g'"
    by blast
  have "stays E s (fst s1, g')" using g(2) by (auto simp: s1 intro!: staysI)
  with g(1) t(2) that show thesis by simp
qed

lemma deliver_stays:
  assumes "deliver E self msg s = Some (ret, err, s')"
  shows "stays E s s'"
proof -
  define e where "e = event_of_id (hdr_id (msg_hdr msg))"
  show ?thesis
  proof (cases "e = E_MMGR_ACK \<or> e = E_MMGR_NACK \<or> lb_func (fst s) e = None")
    case True
    with assms show ?thesis by (auto simp: deliver_def e_def Let_def bind_eq_Some_conv split: if_splits dest: ev_ack_stays)
  next
    case False
    then obtain f where f: "lb_func (fst s) e = Some f" by auto
    with assms False obtain event s2 x h3 where 2: "enter_callback E self msg s = Some (event, s2)"
      "lb_free_data (fst s2) e event (Libc X_boottime # Cli (X_callback f (hdr_id (msg_hdr msg))) # snd s2) = Some (x, h3)" "s' = (fst s2, h3)"
      by (auto simp: deliver_def e_def xint_def xcall_def bind_eq_Some_conv Let_def)
    have "app_part (fst s2) = app_part (fst s)" "lb_mtx_signal (fst s2) = lb_mtx_signal (fst s)"
      using 2(1) by (auto simp: enter_callback_def bind_eq_Some_conv Let_def)
    moreover have "stays E s s'" if "lib_tables (fst s)"
      using callback_called [OF that 2(1), of "X_callback f (hdr_id (msg_hdr msg))"] 2(2,3) by (auto simp: e_def)
    ultimately show ?thesis using 2(3) by (auto simp: stays_def handle_kept_def)
  qed
qed

lemma callback_stays:
  assumes "call_cli_callback E self msg s = Some (ret, s')"
  shows "stays E s s'"
proof (cases "hdr_id (msg_hdr msg) < event_id E_MMGR_NUM_EVENTS")
  case True
  with assms show ?thesis
    by (auto simp: call_cli_callback_def Let_def bind_eq_Some_conv split: if_splits dest!: deliver_stays np.send_msg_stays intro: stays_trans)
qed (use assms in \<open>auto simp: call_cli_callback_def Let_def\<close>)

lemma cnx_event_stays:
  assumes "handle_cnx_event E self s = Some (ret, s')"
  shows "stays E s s'"
proof -
  from assms obtain r msg s1 s2 where 1: "read_msg E s = Some ((r, msg), s1)" "s' = free_msg msg s2"
    "s2 = s1 \<or> call_cli_callback E self msg s1 = Some (ret, s2)"
    by (auto simp: handle_cnx_event_def bind_eq_Some_conv simp del: split_paired_Ex split: if_splits)
  then have 2: "stays E s1 s2" by (auto dest: callback_stays)
  note r = read_msg_keeps [OF 1(1)]
  have "grown E 0 (snd s) (snd s')" if "lib_tables (fst s)"
    using 2 that r(2) free_msg_grown [of E msg s2] lib_tables_app_part [OF r(1)]
    by (auto simp: stays_def handle_kept_def grown_def 1(2) intro: extends_trans)
  with 2 r show ?thesis by (auto simp: stays_def handle_kept_def 1(2))
qed

lemma events_stays:
  assumes "handle_events E self fds s = Some (ret, s')"
  shows "stays E s s'"
proof -
  have "stays E s (fst s, snd (sys_read E fd n (snd s)))" for fd n
    by (auto simp: sys_read_def grown_def Let_def intro!: staysI)
  with assms show ?thesis by (auto simp: handle_events_def split: if_splits dest: cnx_event_stays)
qed

lemma stays_clock: "stays E (c, Libc X_realtime # h) s' \<Longrightarrow> stays E (c, h) s'" "stays E s (c, h) \<Longrightarrow> stays E s (c, Libc X_realtime # h)"
  using stays_trans [OF stays_calls(2) [of E "(c, h)"], of s'] stays_trans [OF _ stays_calls(2) [of E "(c, h)"], of s] by simp_all

lemma register_stays:
  assumes "register_client E s = Some (ret, s')"
  shows "stays E s s'"
  using assms
  by (auto simp: register_client_def bind_eq_Some_conv xtime_def xcall_def Let_def split: if_splits
      dest!: np.send_msg_stays stays_clock(1) intro: stays_clock(2) stays_trans)

lemma connect_stays:
  assumes "cli_connect E s = Some (ret, s')"
  shows "stays E s s'"
proof -
  let ?d = "X_socket_local_client (lb_cnx_name (fst s))"
  have 1: "stays E s (fst s\<lparr>lb_fd_socket := fd\<rparr>, Cli ?d # snd s)" for fd by (auto simp: grown_def intro!: staysI)
  from assms have "s' = (fst s, Cli ?d # snd s) \<or> (\<exists>fd. register_client E (fst s\<lparr>lb_fd_socket := fd\<rparr>, Cli ?d # snd s) = Some (ret, s'))"
    by (auto simp: cli_connect_def xint_def split: if_splits)
  then show ?thesis by (auto dest!: register_stays intro: stays_trans [OF 1])
qed

lemma close_stays [simp]: "stays E s (close_socket E s)" "stays E s (close_pipe s)"
  by (auto simp: close_socket_def close_pipe_def cnx_close_def ext_defs grown_def case_prod_unfold Let_def intro!: staysI)

lemma reconnect_stays:
  assumes "reconnect_loop E s = Some s'"
  shows "stays E s s'"
proof (rule reconnect_loop.raw_induct [OF _ assms], goal_cases)
  case (1 f E s s')
  let ?s0 = "close_socket E (fst s, Libc (X_sleep 1) # snd s)"
  from 1(2) obtain ret s1 where c: "cli_connect E ?s0 = Some (ret, s1)"
    and r: "(if ret = E_ERR_CLI_SUCCEED then Some s1 else f E s1) = Some s'"
    by (auto simp: bind_eq_Some_conv xcall_def simp del: split_paired_Ex)
  have "stays E s ?s0" by (rule stays_trans [OF stays_calls(1) close_stays(1)])
  also note connect_stays [OF c]
  finally show ?case using r 1(1) [of E s1 s'] by (auto split: if_splits intro: stays_trans)
qed

lemma acquire_stays:
  assumes "acquire_loop E s = Some s'"
  shows "stays E s s'"
proof (rule acquire_loop.raw_induct [OF _ assms], goal_cases)
  case (1 f E s s')
  from 1(2) obtain ret s1 where c: "send_msg E no_peer (request E_MMGR_RESOURCE_ACQUIRE) E_SEND_SINGLE
      DEF_MMGR_RESPONSIVE_TIMEOUT s = Some (ret, s1)"
    and r: "(if ret = E_ERR_CLI_SUCCEED then Some s1 else f E s1) = Some s'"
    by (auto simp: bind_eq_Some_conv simp del: split_paired_Ex)
  from np.send_msg_stays [OF c] r 1(1) [of E s1 s'] show ?case by (auto split: if_splits intro: stays_trans)
qed

lemma disconnection_stays:
  assumes "handle_disconnection E self s = Some (ret, s')"
  shows "stays E s s'"
proof (cases "lb_connected (fst s) = E_CNX_RECONNECT")
  case True
  let ?s1 = "set_connected E_CNX_DISCONNECTED s"
  from True assms obtain r2 s2 r3 s3 s4 s5
    where 2: "call_cli_callback E self (fake_event E_MMGR_EVENT_MODEM_DOWN) ?s1 = Some (r2, s2)"
      "call_cli_callback E self (fake_event E_MMGR_NOTIFY_MODEM_COLD_RESET) s2 = Some (r3, s3)"
      "reconnect_loop E s3 = Some s4"
    and 5: "(if lb_lock (fst s4) then acquire_loop E s4 else Some s4) = Some s5" "s' = set_connected E_CNX_CONNECTED s5"
    by (auto simp: handle_disconnection_def Let_def bind_eq_Some_conv simp del: split_paired_Ex)
  have "stays E s ?s1" by (rule mutex_stays)
  also note callback_stays [OF 2(1)]
  also note callback_stays [OF 2(2)]
  also note reconnect_stays [OF 2(3)]
  also have "stays E s4 s5" using 5(1) by (auto split: if_splits dest: acquire_stays)
  also have "stays E s5 s'" unfolding 5(2) by (rule mutex_stays)
  finally show ?thesis .
next
  case False
  with assms have "s' = close_pipe (close_socket E (set_connected E_CNX_DISCONNECTED s))"
    by (auto simp: handle_disconnection_def Let_def)
  then show ?thesis using mutex_stays(4) close_stays by (metis stays_trans)
qed

lemma read_round_stays:
  assumes "read_round E self fd_max s = Some (go, s')"
  shows "stays E s s'"
proof (cases "env_int E (Cli (X_select (fd_max + 1)) # snd s) < 0")
  case True
  with assms show ?thesis by (auto simp: read_round_def xint_def)
next
  case False
  let ?h = "Cli (X_select (fd_max + 1)) # snd s"
  from False assms obtain ret s2 where e: "handle_events E self (env_fds E ?h) (fst s, ?h) = Some (ret, s2)"
    and r: "s' = s2 \<or> (\<exists>x. handle_disconnection E self s2 = Some (x, s'))"
    by (auto simp: read_round_def xint_def bind_eq_Some_conv simp del: split_paired_Ex split: if_splits)
  have "stays E s s2" using events_stays [OF e] by (rule stays_trans [OF stays_calls(3)])
  with r show ?thesis by (auto dest!: disconnection_stays intro: stays_trans)
qed

lemma reader_step_stays:
  assumes "reader_step E s = Some s'"
  shows "stays E s s'"
proof (cases "lb_reader (fst s)")
  case None
  with assms show ?thesis by (simp add: reader_step_def)
next
  case (Some x)
  obtain fd_max self where x: "x = (fd_max, self)" by fastforce
  from Some assms obtain go s1 where r: "read_round E self fd_max s = Some (go, s1)"
    "s' = (if go then s1 else (fst s1\<lparr>lb_reader := None\<rparr>, snd s1))"
    by (auto simp: reader_step_def x bind_eq_Some_conv simp del: split_paired_Ex)
  have "stays E s1 (fst s1\<lparr>lb_reader := None\<rparr>, snd s1)" by (auto intro!: staysI)
  with read_round_stays [OF r(1)] r(2) show ?thesis by (auto intro: stays_trans)
qed

lemma reader_rounds_stays: "reader_rounds E n s = Some s' \<Longrightarrow> stays E s s'"
proof (induction n arbitrary: s)
  case (Suc n)
  then obtain s1 where "reader_step E s = Some s1" "reader_rounds E n s1 = Some s'" by (auto simp: bind_eq_Some_conv)
  with Suc.IH reader_step_stays stays_trans show ?case by blast
qed simp

interpretation rr: reader E "reader_rounds E" for E
  by unfold_locales (rule reader_rounds_stays)

lemma read_events_stays:
  assumes "read_events E s = Some s'"
  shows "stays E s s'"
proof (rule read_events.raw_induct [OF _ assms], goal_cases)
  case (1 f E s s')
  show ?case
  proof (cases "lb_reader (fst s)")
    case None
    with 1(2) show ?thesis by simp
  next
    case (Some x)
    with 1(2) obtain s1 where "reader_step E s = Some s1" "f E s1 = Some s'" by (auto simp: bind_eq_Some_conv)
    with 1(1) [of E s1 s'] reader_step_stays [of E s s1] show ?thesis by (auto intro: stays_trans)
  qed
qed

section \<open>How long a request takes\<close>

text \<open>
  The attempts of an exchange. Of each one is recorded for how many seconds it may wait for the answer, how many seconds after the start of the exchange it was
  found not acknowledged, and how long the pause after it is; the last one has neither.
\<close>

inductive exchange_run ::
  "env \<Rightarrow> peer \<Rightarrow> e_send_method \<Rightarrow> u32 \<Rightarrow> msg_t \<Rightarrow> int \<Rightarrow> int \<Rightarrow> int \<Rightarrow> lst \<Rightarrow> (int \<times> int \<times> int) list \<Rightarrow>
     ((e_err_mmgr_cli \<times> e_mmgr_errors) \<times> lst) \<Rightarrow> bool" for E peer meth rid msg start where
  over: "attempt E peer meth rid msg start t sd s = Some (Inl r) \<Longrightarrow> exchange_run E peer meth rid msg start t sd s [(t, 0, 0)] r"
| again: "attempt E peer meth rid msg start t sd s = Some (Inr (t', sd', s')) \<Longrightarrow>
    exchange_run E peer meth rid msg start t' sd' s' ws r \<Longrightarrow>
    exchange_run E peer meth rid msg start t sd s ((t, DEF_MMGR_RESPONSIVE_TIMEOUT - t', sd') # ws) r"

lemma exchange_run_loop:
  "exchange_run E peer meth rid msg start t sd s ws r \<Longrightarrow> exchange_loop E peer meth rid msg start t sd s = Some r"
  by (induction rule: exchange_run.induct) (subst exchange_loop.simps, simp)+

definition send_attempts ::
  "env \<Rightarrow> peer \<Rightarrow> mmgr_cli_event_t \<Rightarrow> e_send_method \<Rightarrow> int \<Rightarrow> lst \<Rightarrow> (int \<times> int \<times> int) list \<Rightarrow> bool" where
  "send_attempts E peer req meth t s ws \<longleftrightarrow>
     (\<exists>x msg h r. lb_set_msg (fst s) (request_of_id (ev_id req)) E msg_empty req (snd s) = Some ((x, msg), h) \<and>
        exchange_run E peer meth (ev_id req) msg (tv_sec (env_time E (Libc X_realtime # h))) t 1
          (fst (set_ack (event_id E_MMGR_NUM_EVENTS) s), Libc X_realtime # h) ws r)"

text \<open>What bounds an attempt: its wait, and the twenty seconds from the start of the exchange in which its pause must end.\<close>

definition in_time :: "int \<Rightarrow> int \<times> int \<times> int \<Rightarrow> bool" where
  "in_time t a = (case a of (w, c, p) \<Rightarrow> w \<le> max t 20 \<and> 0 \<le> c \<and> 0 \<le> p \<and> c + p \<le> 20)"

lemma in_time_later: "t' \<le> 20 \<Longrightarrow> list_all (in_time t') ws \<Longrightarrow> list_all (in_time t) ws"
  by (erule list.pred_mono_strong) (auto simp: in_time_def)

text \<open>
  The reader thread gets through the rounds it is given while a sender waits, whatever state of the handle it finds.
\<close>

definition peer_returns :: "peer \<Rightarrow> env \<Rightarrow> lst \<Rightarrow> bool" where
  "peer_returns peer E s \<longleftrightarrow>
     (\<forall>s'. app_part (fst s') = app_part (fst s) \<longrightarrow> extends (snd s) (snd s') \<longrightarrow> \<not> lb_mtx_signal (fst s') \<longrightarrow>
        peer (nat (env_int2 E (snd s'))) s' \<noteq> None)"

lemma peer_returns_later:
  "peer_returns peer E s \<Longrightarrow> app_part (fst s1) = app_part (fst s) \<Longrightarrow> extends (snd s) (snd s1) \<Longrightarrow> peer_returns peer E s1"
  unfolding peer_returns_def by (metis extends_trans)

lemma peer_returnsD:
  assumes "peer_returns peer E s" "app_part c = app_part (fst s)" "extends (snd s) h" "\<not> lb_mtx_signal c"
  obtains s' where "peer (nat (env_int2 E h)) (c, h) = Some s'"
  using assms unfolding peer_returns_def by (metis fst_conv snd_conv not_None_eq)

lemma handle_kept_extends: "handle_kept E s s' \<Longrightarrow> lib_tables (fst s) \<Longrightarrow> extends (snd s) (snd s')"
  by (simp add: handle_kept_def grown_def)

context reader
begin

lemma wait_total:
  assumes "lib_tables (fst s)" "lb_mtx_signal (fst s)" "meth = E_SEND_SINGLE \<or> peer_returns peer E s"
  shows "\<exists>err to s'. (if meth = E_SEND_SINGLE then wait_single E t s else wait_threaded E peer t s) = Some (err, to, s') \<and> handle_kept E s s'"
proof (cases "meth = E_SEND_SINGLE")
  case True
  then show ?thesis using wait_single_total [of E t s] by (fastforce dest: wait_single_keeps stays_kept)
next
  case False
  let ?h = "Cli (X_cond_timedwait (tv_sec (env_time E (Libc X_realtime # snd s)) + t)) # Libc X_realtime # snd s"
  obtain s3 where 3: "peer (nat (env_int2 E ?h)) (mutex_unlock (fst s, ?h)) = Some s3"
    using assms(3) False by (auto simp: mutex_unlock_def elim!: peer_returnsD [where c = "fst s\<lparr>lb_mtx_signal := False\<rparr>" and h = ?h])
  then have "\<not> lb_mtx_signal (fst s3)" by (auto simp: stays_def mutex_unlock_def dest!: peer_stays)
  with 3 have "\<exists>x. wait_threaded E peer t s = Some x"
    by (auto simp: wait_threaded_def xtime_def xint_def mutex_lock_def)
  then obtain err to s' where w: "wait_threaded E peer t s = Some (err, to, s')" by (metis prod.exhaust)
  with False wait_threaded_keeps [OF w] show ?thesis by auto
qed

lemma pause_total:
  assumes "\<not> lb_mtx_signal (fst s)" "meth = E_SEND_SINGLE \<or> peer_returns peer E s"
  shows "\<exists>s'. pause E peer meth n s = Some s'"
proof (cases "meth = E_SEND_SINGLE")
  case False
  let ?h = "Libc (X_sleep n) # snd s"
  obtain s' where "peer (nat (env_int2 E ?h)) (fst s, ?h) = Some s'"
    using assms False by (auto elim!: peer_returnsD [where c = "fst s" and h = ?h])
  then show ?thesis by (auto simp: pause_def xcall_def Let_def)
qed (simp add: pause_def)

lemma attempt_total:
  assumes "lib_tables (fst s)" "\<not> lb_mtx_signal (fst s)" "clock_from E (snd s) start" "meth = E_SEND_SINGLE \<or> peer_returns peer E s"
    and "msg_data msg = Some data" "mem_read data 0 (unat (of_nat SIZE_HEADER + hdr_len (msg_hdr msg))) = Some xs"
  shows "\<exists>r. attempt E peer meth rid msg start t sd s = Some r \<and>
    (\<forall>t' sd' s'. r = Inr (t', sd', s') \<longrightarrow> sd' = sd + 1 \<and> sd' \<le> t' \<and> t' \<le> 20)"
proof -
  obtain err h2 where w: "cnx_write E (lb_fd_socket (fst s)) xs (snd s) = (err, h2)" by fastforce
  define s2 where "s2 = (fst s\<lparr>lb_mtx_signal := True\<rparr>, h2)"
  have s2: "extends (snd s) (snd s2)" "app_part (fst s2) = app_part (fst s)" "lb_mtx_signal (fst s2)"
    using w by (auto simp: cnx_write_def ext_defs s2_def split: if_splits)
  have t2: "lib_tables (fst s2)" "meth = E_SEND_SINGLE \<or> peer_returns peer E s2"
    using assms(1,4) s2 lib_tables_app_part peer_returns_later by blast+
  obtain err3 to s3 where w3: "(if meth = E_SEND_SINGLE then wait_single E t s2 else wait_threaded E peer t s2) = Some (err3, to, s3)" "handle_kept E s2 s3"
    using wait_total [OF t2(1) s2(3) t2(2)] by blast
  define s5 where "s5 = (fst s3\<lparr>lb_mtx_signal := False\<rparr>, Libc X_realtime # snd s3)"
  have e3: "extends (snd s) (snd s3)" using s2(1) handle_kept_extends [OF w3(2) t2(1)] by (rule extends_trans)
  have "app_part (fst s5) = app_part (fst s)" using handle_kept_app(1) [OF w3(2)] s2(2) by (simp add: s5_def)
  moreover have "extends (snd s) (snd s5)" using e3 by (simp add: s5_def)
  ultimately have "meth = E_SEND_SINGLE \<or> peer_returns peer E s5" using assms(4) peer_returns_later by blast
  then obtain s6 where s6: "pause E peer meth (sd + 1) s5 = Some s6" using pause_total [of s5 meth "sd + 1"] by (auto simp: s5_def simp del: split_paired_Ex)
  have "start \<le> tv_sec (env_time E (Libc X_realtime # snd s3))" using assms(3) e3 by (simp add: clock_from_def)
  then show ?thesis
    using w3(1) s6 assms(2,5,6) w
    by (auto simp: attempt_def mutex_lock_def mutex_unlock_def xtime_def s2_def s5_def DEF_MMGR_RESPONSIVE_TIMEOUT_def Let_def)
qed

lemma exchange_attempts:
  assumes "msg_data msg = Some data" "mem_read data 0 (unat (of_nat SIZE_HEADER + hdr_len (msg_hdr msg))) = Some xs"
    and "lib_tables (fst s)" "\<not> lb_mtx_signal (fst s)" "clock_from E (snd s) start" "meth = E_SEND_SINGLE \<or> peer_returns peer E s" "0 \<le> sd" "sd \<le> 20"
  shows "\<exists>ws r. exchange_run E peer meth rid msg start t sd s ws r \<and> 0 < length ws \<and> int (length ws) \<le> 21 - sd \<and> list_all (in_time t) ws"
  using assms(3-)
proof (induction "nat (20 - sd)" arbitrary: sd t s rule: less_induct)
  case (less sd t s)
  obtain r where r: "attempt E peer meth rid msg start t sd s = Some r"
    "\<forall>t' sd' s'. r = Inr (t', sd', s') \<longrightarrow> sd' = sd + 1 \<and> sd' \<le> t' \<and> t' \<le> 20"
    using attempt_total [OF less.prems(1-4) assms(1,2)] by blast
  show ?case
  proof (cases r)
    case (Inl x)
    with r(1) less.prems(6) show ?thesis
      by (intro exI [of _ "[(t, 0, 0)]"] exI [of _ x]) (auto simp: in_time_def intro: exchange_run.over)
  next
    case (Inr y)
    obtain t' sd' s1 where y: "y = (t', sd', s1)" by (metis prod.exhaust)
    have b: "sd' = sd + 1" "sd' \<le> t'" "t' \<le> 20" using r(2) Inr y by auto
    have k: "handle_kept E s s1" "\<not> lb_mtx_signal (fst s1)" using attempt_keeps [OF r(1)] by (auto simp: Inr y)
    note e = handle_kept_extends [OF k(1) less.prems(1)] and a = handle_kept_app(1) [OF k(1)]
    have "\<exists>ws q. exchange_run E peer meth rid msg start t' sd' s1 ws q \<and> 0 < length ws \<and> int (length ws) \<le> 21 - sd' \<and> list_all (in_time t') ws"
      using less.prems b k(2) lib_tables_app_part [OF a] clock_from_extends [OF _ e] peer_returns_later [OF _ a e]
      by (intro less.hyps) auto
    then obtain ws q where ws: "exchange_run E peer meth rid msg start t' sd' s1 ws q" "int (length ws) \<le> 21 - sd'" "list_all (in_time t') ws"
      by blast
    have "in_time t (t, DEF_MMGR_RESPONSIVE_TIMEOUT - t', sd')"
      using b less.prems(5) by (auto simp: in_time_def DEF_MMGR_RESPONSIVE_TIMEOUT_def)
    with exchange_run.again [OF _ ws(1)] r(1) Inr y ws(2) b in_time_later [OF b(3) ws(3), of t] show ?thesis by fastforce
  qed
qed

lemma request_attempts:
  assumes "alloc_ok E" "clock_monotone E" "lib_tables (fst s)" "\<not> lb_mtx_signal (fst s)" "encodable (fst s) req payload" "0 < t"
    and "meth = E_SEND_SINGLE \<or> peer_returns peer E s"
  shows "\<exists>ret s' ws. send_msg E peer (Some req) meth t s = Some (ret, s') \<and> send_attempts E peer req meth t s ws \<and>
    0 < length ws \<and> length ws \<le> 20 \<and> list_all (in_time t) ws"
proof -
  let ?s1 = "set_ack (event_id E_MMGR_NUM_EVENTS) s"
  obtain m h1 xs where b: "lb_set_msg (fst s) (request_of_id (ev_id req)) E msg_empty req (snd s) = Some ((E_ERR_SUCCESS, m), h1)"
    "quiet (snd s) h1" "msg_data m = Some xs" "mem_read xs 0 (unat (of_nat SIZE_HEADER + hdr_len (msg_hdr m))) = Some xs"
    using encodes [OF assms(1,5)] by blast
  let ?s3 = "(fst ?s1, Libc X_realtime # h1)" and ?start = "tv_sec (env_time E (Libc X_realtime # h1))"
  have e: "extends (snd s) (snd ?s3)" using quiet_extends [OF b(2)] by auto
  have a: "app_part (fst ?s3) = app_part (fst s)" by (simp add: set_ack_def)
  have "\<exists>ws r. exchange_run E peer meth (ev_id req) m ?start t 1 ?s3 ws r \<and> 0 < length ws \<and> int (length ws) \<le> 21 - 1 \<and> list_all (in_time t) ws"
    using assms(3,4,7) lib_tables_app_part [OF a] peer_returns_later [OF _ a e] clock_start [OF assms(2)]
    by (intro exchange_attempts [OF b(3,4)]) (auto simp: set_ack_def)
  then obtain ws ret err s4 where ws: "exchange_run E peer meth (ev_id req) m ?start t 1 ?s3 ws ((ret, err), s4)" "0 < length ws" "length ws \<le> 20"
    "list_all (in_time t) ws"
    by fastforce
  have "ev_id req < 22" using assms(5) by (simp add: encodable_def)
  then have "\<exists>ret s'. send_msg E peer (Some req) meth t s = Some (ret, s')"
    using exchange_run_loop [OF ws(1)] b(1) assms(6) by (simp add: send_msg_def set_ack_def xtime_def)
  moreover have "send_attempts E peer req meth t s ws" using b(1) ws(1) unfolding send_attempts_def by blast
  ultimately show ?thesis using ws(2-) by blast
qed

end

section \<open>Properties of the exchange\<close>

definition lib_example :: mmgr_lib_context_t where
  "lib_example = the (the (snd (fst (mmgr_cli_create_handle env_ok (Some ''rild'') 0 (Some None) []))))
     \<lparr>lb_fd_socket := 5, lb_connected := E_CNX_CONNECTED\<rparr>"

lemma lib_example_fields:
  "lb_set_msg lib_example = lib_set_msg" "lb_set_data lib_example = lib_set_data" "\<not> lb_mtx_signal lib_example" "\<not> lb_lock lib_example"
  "lb_fd_socket lib_example = 5" "lb_tid lib_example = 1" "lb_connected lib_example = E_CNX_CONNECTED" "lb_func lib_example = (\<lambda>_. None)"
  "lb_cli_name lib_example = cstr ''rild'' @ replicate 60 0" "lb_reader lib_example = None" "lb_free_data lib_example = lib_free_data"
  by (simp_all add: lib_example_def mmgr_cli_create_handle_def env_ok_def xint_def DEFAULT_TID_def CLIENT_NAME_LEN_def cstr_def)

lemma clock_monotone_env_ok: "clock_monotone env_ok"
  by (simp add: clock_monotone_def env_ok_def)

text \<open>The reader thread of a handle whose \<^verbatim>\<open>select\<close> fails: it ends.\<close>

definition env_deaf :: env where
  "env_deaf = env_ok\<lparr>env_int := (\<lambda>h. case h of Cli (X_select _) # _ \<Rightarrow> - 1 | _ \<Rightarrow> 1), env_int2 := (\<lambda>_. 1)\<rparr>"

lemma env_deaf_answers: "alloc_ok env_deaf" "clock_monotone env_deaf" "peer_returns (reader_rounds env_deaf) env_deaf s"
  by (auto simp: env_deaf_def alloc_ok_def clock_monotone_def env_ok_def peer_returns_def reader_step_def read_round_def xint_def
      split: option.split)



lemma send_api:
  assumes "send_msg E (reader_rounds E) req E_SEND_THREADED t s = Some (ret, s')"
  shows "lb_lock (fst s') = lb_lock (fst s)"
    and "ret = E_ERR_CLI_SUCCEED \<Longrightarrow> is_ack_request (ev_id (the req)) \<or> lb_ack (fst s') = event_id E_MMGR_ACK"
  using rr.send_msg_keeps [OF assms] by (auto simp: app_part_def handle_kept_def)

text \<open>
  C18: The lock of a handle follows the daemon. The lock changes exactly when \<^verbatim>\<open>mmgr_cli_lock\<close> or \<^verbatim>\<open>mmgr_cli_unlock\<close> reports success, and then to locked or
  unlocked as asked for; and success is reported only on a connected handle that is not in that state already,
  outside callbacks, and with an acknowledgement of the daemon as the last answer that was read. (The converse does not hold: an acknowledgement that comes when the wait
  has timed out leaves the lock as it was.) The time-out that the interface announces is never returned: it becomes the general failure.
\<close>

theorem lock_follows_daemon:
  assumes "f = mmgr_cli_lock \<and> b \<or> f = mmgr_cli_unlock \<and> \<not> b" "f E self (Some c) h = Some ((ret, cli), h')"
  shows "\<exists>c'. cli = Some c' \<and> ret \<noteq> E_ERR_CLI_TIMEOUT \<and> (lb_lock c' \<noteq> lb_lock c \<longleftrightarrow> ret = E_ERR_CLI_SUCCEED) \<and>
    (if ret = E_ERR_CLI_SUCCEED
     then lb_connected c = E_CNX_CONNECTED \<and> lb_tid c \<noteq> self \<and> lb_lock c \<noteq> b \<and> lb_lock c' = b \<and> lb_ack c' = event_id E_MMGR_ACK
     else lb_lock c' = lb_lock c)"
proof -
  define req where "req = request (if b then E_MMGR_RESOURCE_ACQUIRE else E_MMGR_RESOURCE_RELEASE)"
  have na: "\<not> is_ack_request (ev_id (the req))" by (simp add: req_def request_def is_ack_request_def)
  show ?thesis
  proof (cases "lb_connected c = E_CNX_CONNECTED \<and> lb_tid c \<noteq> self \<and> lb_lock c \<noteq> b")
    case True
    with assms obtain r s1 where s: "send_msg E (reader_rounds E) req E_SEND_THREADED DEF_MMGR_RESPONSIVE_TIMEOUT (c, h) = Some (r, s1)"
      and "(ret, cli) = (if r = E_ERR_CLI_SUCCEED then (r, Some (fst (set_lock b s1))) else (E_ERR_CLI_FAILED, Some (fst s1)))"
      by (auto simp: mmgr_cli_lock_def mmgr_cli_unlock_def on_lib_def is_connected_def is_request_rejected_def bind_eq_Some_conv
          req_def split: if_splits)
    with send_api [OF s] na True show ?thesis
      by (cases "r = E_ERR_CLI_SUCCEED") (simp_all add: set_lock_def)
  next
    case False
    with assms show ?thesis
      by (auto simp: mmgr_cli_lock_def mmgr_cli_unlock_def on_lib_def is_connected_def is_request_rejected_def split: if_splits)
  qed
qed

lemma event_id_known: "event_id e < event_id E_MMGR_NUM_EVENTS \<longleftrightarrow> e \<noteq> E_MMGR_NUM_EVENTS"
  by (cases e) (simp_all add: event_id_def)

text \<open>A daemon that acknowledges everything, and a handle whose reader thread runs.\<close>

definition env_ack :: env where
  "env_ack = env_ok\<lparr>env_int2 := (\<lambda>_. 1), env_fds := (\<lambda>_. [5]), env_bytes := (\<lambda>_. header_image (event_id E_MMGR_ACK) 0 0)\<rparr>"

lemma env_ack_answers:
  "env_int env_ack h = 1" "env_int2 env_ack h = 1" "env_fds env_ack h = [5]"
  "env_bytes env_ack h = header_image (event_id E_MMGR_ACK) 0 0" "env_time env_ack h = \<lparr>tv_sec = 0, tv_nsec = 0\<rparr>" "alloc_ok env_ack"
  by (simp_all add: env_ack_def env_ok_def alloc_ok_def)

lemma env_ack_reads:
  "read_msg env_ack s = Some ((E_ERR_CLI_SUCCEED, fake_event E_MMGR_ACK), fst s, Sock (X_recv (lb_fd_socket (fst s)) SIZE_HEADER) # snd s)"
proof -
  have "msg_get_header env_ack fd hdr h = Some ((E_ERR_SUCCESS, hdr\<lparr>hdr_id := event_id E_MMGR_ACK, hdr_ts := 0, hdr_len := 0\<rparr>),
      Sock (X_recv fd SIZE_HEADER) # h)" for fd hdr h
    by (rule msg_get_header_image) (simp_all add: env_ack_answers length_header_image)
  then show ?thesis by (simp add: read_msg_def fake_event_def msg_empty_def)
qed

lemma env_ack_round:
  assumes "lb_reader (fst s) = Some (5, 9)" "lb_fd_socket (fst s) = 5" "lb_pipe_read (fst s) = CLOSED_FD" "\<not> lb_mtx_signal (fst s)"
  shows "\<exists>h. reader_rounds env_ack 1 s = Some (fst s\<lparr>lb_ack := event_id E_MMGR_ACK, lb_mtx_signal := False\<rparr>, h)"
proof -
  have "call_cli_callback E self (fake_event E_MMGR_ACK) (fst s, h) =
      Some (E_ERR_CLI_SUCCEED, fst s\<lparr>lb_ack := event_id E_MMGR_ACK, lb_mtx_signal := False\<rparr>, h)" for E self h
    using assms(4)
    by (simp add: call_cli_callback_def deliver_def fake_event_def ev_ack_def mutex_lock_def mutex_unlock_def set_ack_def event_id_known)
  with assms show ?thesis
    by (simp add: reader_step_def read_round_def xint_def handle_events_def handle_cnx_event_def env_ack_answers env_ack_reads
        free_msg_def free_ptr_def fake_event_def msg_empty_def CLOSED_FD_def)
qed

theorem lock_follows_daemon_witness:
  "\<exists>c' h'. mmgr_cli_lock env_ack 2 (Some (lib_example\<lparr>lb_reader := Some (5, 9)\<rparr>)) [] = Some ((E_ERR_CLI_SUCCEED, Some c'), h') \<and>
     lb_lock c' \<and> lb_ack c' = event_id E_MMGR_ACK"
proof -
  let ?c = "lib_example\<lparr>lb_reader := Some (5, 9)\<rparr>"
  let ?c1 = "?c\<lparr>lb_ack := event_id E_MMGR_NUM_EVENTS\<rparr>"
  obtain req where r: "request E_MMGR_RESOURCE_ACQUIRE = Some req" "ev_id req = 2" by (simp add: request_def)
  have "encodable ?c req []"
    using bare_encodable [OF _ _ r(1), of ?c] lib_example_fields(1) by simp
  then obtain m ts h1 where m: "lb_set_msg ?c (request_of_id (ev_id req)) env_ack msg_empty req [] = Some ((E_ERR_SUCCESS, m), h1)"
    "hdr_len (msg_hdr m) = 0" "msg_data m = Some (header_image (ev_id req) ts 0)"
    using env_ack_answers(6) unfolding encodable_def by fastforce
  have x: "mem_read (header_image (ev_id req) ts 0) 0 12 = Some (header_image (ev_id req) ts 0)"
    using length_header_image [of "ev_id req" ts 0] by (simp add: mem_read_def SIZE_HEADER_def)
  have p: "lb_pipe_read ?c = CLOSED_FD"
    by (simp add: lib_example_def mmgr_cli_create_handle_def env_ok_def xint_def)
  have rounds: "\<exists>h. reader_rounds env_ack 1 (?c1\<lparr>lb_mtx_signal := False\<rparr>, h2) =
      Some (?c1\<lparr>lb_ack := event_id E_MMGR_ACK, lb_mtx_signal := False\<rparr>, h)" for h2
    using env_ack_round [of "(?c1\<lparr>lb_mtx_signal := False\<rparr>, h2)"] p lib_example_fields by simp
  let ?xs = "header_image (ev_id req) ts 0"
  obtain h9 where 9: "reader_rounds env_ack 1 (?c1\<lparr>lb_mtx_signal := False\<rparr>, Cli (X_cond_timedwait 20) # Libc X_realtime #
      Sock (X_send 5 ?xs) # Libc X_realtime # h1) = Some (?c1\<lparr>lb_ack := event_id E_MMGR_ACK, lb_mtx_signal := False\<rparr>, h9)"
    using rounds by blast
  let ?c9 = "?c1\<lparr>lb_ack := event_id E_MMGR_ACK, lb_mtx_signal := True\<rparr>"
  have "exchange_loop env_ack (reader_rounds env_ack) E_SEND_THREADED 2 m 0 20 1 (?c1, Libc X_realtime # h1) =
      Some ((E_ERR_CLI_SUCCEED, E_ERR_SUCCESS), (?c9, h9))"
    using 9 m(2,3) x lib_example_fields
    by (subst exchange_loop.simps) (simp add: attempt_def mutex_lock_def mutex_unlock_def cnx_write_def xint_def xtime_def env_ack_answers
        wait_threaded_def ETIMEDOUT_def SIZE_HEADER_def del: reader_rounds.simps)
  then have "send_msg env_ack (reader_rounds env_ack) (Some req) E_SEND_THREADED DEF_MMGR_RESPONSIVE_TIMEOUT (?c, []) =
      Some (E_ERR_CLI_SUCCEED, free_msg m (mutex_unlock (?c9, h9)))"
    using m(1) r(2) by (simp add: send_msg_def set_ack_def xtime_def env_ack_answers DEF_MMGR_RESPONSIVE_TIMEOUT_def)
  then have "\<exists>c' h'. mmgr_cli_lock env_ack 2 (Some ?c) [] = Some ((E_ERR_CLI_SUCCEED, Some c'), h')"
    using r(1) lib_example_fields
    by (simp add: mmgr_cli_lock_def on_lib_def is_connected_def is_request_rejected_def)
  then show ?thesis using lock_follows_daemon [of mmgr_cli_lock True env_ack 2 ?c] by fastforce
qed

end
