(* ===== verification/Cli_Handle.thy ===== *)
theory Cli_Handle
  imports Cli_Behaviour
begin

text \<open>
  The life of a client handle: the invariant that ties its subscriptions to the mask announced to the daemon, kept
  by every function of the library and by the reader thread, what the reader thread does with an event, and the balance of memory.
\<close>

section \<open>Subscriptions\<close>

text \<open>
  What holds of every handle the application can have: the events announced to the daemon are
  exactly those with a callback, plus the two answers; the name ends inside its array.
\<close>

definition handle_ok :: "mmgr_lib_context_t \<Rightarrow> bool" where
  "handle_ok c \<longleftrightarrow>
     (\<forall>e. e \<noteq> E_MMGR_NUM_EVENTS \<longrightarrow> (bit (lb_events c) (ev_code e) \<longleftrightarrow> lb_func c e \<noteq> None \<or> e = E_MMGR_ACK \<or> e = E_MMGR_NACK)) \<and>
     lb_func c E_MMGR_ACK = None \<and> lb_func c E_MMGR_NACK = None \<and>
     length (lb_cli_name c) = CLIENT_NAME_LEN \<and> 0 \<in> set (lb_cli_name c) \<and>
     lb_set_msg c = lib_set_msg \<and> lb_set_data c = lib_set_data \<and> lb_free_data c = lib_free_data"

lemma handle_okI:
  assumes "\<And>e. e \<noteq> E_MMGR_NUM_EVENTS \<Longrightarrow> bit (lb_events c) (ev_code e) \<longleftrightarrow> lb_func c e \<noteq> None \<or> e = E_MMGR_ACK \<or> e = E_MMGR_NACK"
    and "lb_func c E_MMGR_ACK = None" "lb_func c E_MMGR_NACK = None" "length (lb_cli_name c) = CLIENT_NAME_LEN" "0 \<in> set (lb_cli_name c)"
    and "lb_set_msg c = lib_set_msg" "lb_set_data c = lib_set_data" "lb_free_data c = lib_free_data"
  shows "handle_ok c"
  using assms unfolding handle_ok_def by blast

lemma handle_okD:
  assumes "handle_ok c"
  shows "\<And>e. e \<noteq> E_MMGR_NUM_EVENTS \<Longrightarrow> bit (lb_events c) (ev_code e) \<longleftrightarrow> lb_func c e \<noteq> None \<or> e = E_MMGR_ACK \<or> e = E_MMGR_NACK"
    and "lb_func c E_MMGR_ACK = None" "lb_func c E_MMGR_NACK = None" "length (lb_cli_name c) = CLIENT_NAME_LEN" "0 \<in> set (lb_cli_name c)"
    and "lb_set_msg c = lib_set_msg" "lb_set_data c = lib_set_data" "lb_free_data c = lib_free_data"
  using assms unfolding handle_ok_def by blast+

lemma handle_ok_app_part: "app_part c' = app_part c \<Longrightarrow> handle_ok c' \<longleftrightarrow> handle_ok c"
  by (simp add: app_part_def handle_ok_def)

lemma on_lib_app_part:
  assumes "on_lib f (Some c) h = Some ((ret, cli), h')"
    and "\<And>r s'. f (c, h) = Some (r, s') \<Longrightarrow> handle_ok (fst s') \<longleftrightarrow> handle_ok c"
  shows "\<exists>c'. cli = Some c' \<and> (handle_ok c' \<longleftrightarrow> handle_ok c)"
  using assms(1) by (auto simp: on_lib_def bind_eq_Some_conv dest: assms(2))

text \<open>The life of a handle: what the application does with it, in any order.\<close>

inductive client_handle :: "env \<Rightarrow> mmgr_lib_context_t \<Rightarrow> bool" for E where
  create: "mmgr_cli_create_handle E name ctx (Some None) h = ((E_ERR_CLI_SUCCEED, Some (Some c)), h') \<Longrightarrow> client_handle E c"
| subscribe: "client_handle E c \<Longrightarrow> mmgr_cli_subscribe_event f e (Some c) = (ret, Some c') \<Longrightarrow> client_handle E c'"
| unsubscribe: "client_handle E c \<Longrightarrow> mmgr_cli_unsubscribe_event e (Some c) = (ret, Some c') \<Longrightarrow> client_handle E c'"
| set_instance: "client_handle E c \<Longrightarrow> mmgr_cli_set_instance i (Some c) = (ret, Some c') \<Longrightarrow> client_handle E c'"
| connect: "client_handle E c \<Longrightarrow> mmgr_cli_connect E self (Some c) h = Some ((ret, Some c'), h') \<Longrightarrow> client_handle E c'"
| disconnect: "client_handle E c \<Longrightarrow> mmgr_cli_disconnect E (Some c) h = Some ((ret, Some c'), h') \<Longrightarrow> client_handle E c'"
| lock: "client_handle E c \<Longrightarrow> mmgr_cli_lock E self (Some c) h = Some ((ret, Some c'), h') \<Longrightarrow> client_handle E c'"
| unlock: "client_handle E c \<Longrightarrow> mmgr_cli_unlock E self (Some c) h = Some ((ret, Some c'), h') \<Longrightarrow> client_handle E c'"
| send: "client_handle E c \<Longrightarrow> mmgr_cli_send_msg E self req (Some c) h = Some ((ret, Some c'), h') \<Longrightarrow> client_handle E c'"
| reads: "client_handle E c \<Longrightarrow> reader_step E (c, h) = Some (c', h') \<Longrightarrow> client_handle E c'"

lemma create_handle_ok:
  assumes "mmgr_cli_create_handle E name ctx p h = ((E_ERR_CLI_SUCCEED, Some (Some c)), h')"
  shows "handle_ok c"
proof -
  from assms have c: "lb_events c = flag (ev_code E_MMGR_ACK) OR flag (ev_code E_MMGR_NACK)" "lb_func c = (\<lambda>_. None)"
    "lb_set_msg c = lib_set_msg" "lb_set_data c = lib_set_data" "lb_free_data c = lib_free_data"
    "length (lb_cli_name c) = CLIENT_NAME_LEN" "0 \<in> set (lb_cli_name c)"
    by (auto simp: mmgr_cli_create_handle_def xint_def Let_def CLIENT_NAME_LEN_def split: option.splits if_splits)
  have "bit (lb_events c) (ev_code e) \<longleftrightarrow> e = E_MMGR_ACK \<or> e = E_MMGR_NACK" for e
    by (simp add: c(1) bit_or_flag bit_flag del: ev_code.simps)
  with c show ?thesis by (simp add: handle_ok_def)
qed

lemma subscribe_ok:
  assumes "mmgr_cli_subscribe_event f e (Some c) = (ret, Some c')" "handle_ok c"
  shows "handle_ok c'"
proof -
  have "c' = c \<or> e \<notin> {E_MMGR_NUM_EVENTS, E_MMGR_ACK, E_MMGR_NACK} \<and> f \<noteq> None \<and>
      c' = c\<lparr>lb_events := lb_events c OR flag (ev_code e), lb_func := (lb_func c)(e := f)\<rparr>"
    using assms(1) by (auto simp: mmgr_cli_subscribe_event_def split: if_splits)
  then consider "c' = c" | (new) "e \<notin> {E_MMGR_NUM_EVENTS, E_MMGR_ACK, E_MMGR_NACK}" "f \<noteq> None"
      "c' = c\<lparr>lb_events := lb_events c OR flag (ev_code e), lb_func := (lb_func c)(e := f)\<rparr>"
    by blast
  then show ?thesis
  proof cases
    case new
    have "bit (lb_events c') (ev_code x) \<longleftrightarrow> lb_func c' x \<noteq> None \<or> x = E_MMGR_ACK \<or> x = E_MMGR_NACK"
      if "x \<noteq> E_MMGR_NUM_EVENTS" for x
      using handle_okD [OF assms(2)] new(1,2) that by (cases "x = e") (simp_all add: new(3) bit_or_flag)
    with handle_okD [OF assms(2)] new show ?thesis by (intro handle_okI) auto
  qed (use assms(2) in simp)
qed

lemma unsubscribe_ok:
  assumes "mmgr_cli_unsubscribe_event e (Some c) = (ret, Some c')" "handle_ok c"
  shows "handle_ok c'"
proof -
  have "c' = c \<or> e \<notin> {E_MMGR_NUM_EVENTS, E_MMGR_ACK, E_MMGR_NACK} \<and>
      c' = c\<lparr>lb_events := lb_events c AND NOT (flag (ev_code e)), lb_func := (lb_func c)(e := None)\<rparr>"
    using assms(1) by (auto simp: mmgr_cli_unsubscribe_event_def split: if_splits)
  then consider "c' = c" | (new) "e \<notin> {E_MMGR_NUM_EVENTS, E_MMGR_ACK, E_MMGR_NACK}"
      "c' = c\<lparr>lb_events := lb_events c AND NOT (flag (ev_code e)), lb_func := (lb_func c)(e := None)\<rparr>"
    by blast
  then show ?thesis
  proof cases
    case new
    have "bit (lb_events c') (ev_code x) \<longleftrightarrow> lb_func c' x \<noteq> None \<or> x = E_MMGR_ACK \<or> x = E_MMGR_NACK"
      if "x \<noteq> E_MMGR_NUM_EVENTS" for x
      using handle_okD [OF assms(2)] new(1) that by (cases "x = e") (simp_all add: new(2) bit_and_not_flag)
    with handle_okD [OF assms(2)] new show ?thesis by (intro handle_okI) simp_all
  qed (use assms(2) in simp)
qed

lemma set_instance_ok:
  assumes "mmgr_cli_set_instance i (Some c) = (ret, Some c')" "handle_ok c"
  shows "handle_ok c'"
proof -
  have "c' = c \<or> (\<exists>n. c' = c\<lparr>lb_cnx_name := n\<rparr>)"
    using assms(1) by (auto simp: mmgr_cli_set_instance_def split: if_splits option.splits)
  with handle_okD [OF assms(2)] assms(2) show ?thesis by (elim disjE exE) (simp, intro handle_okI, simp_all)
qed

lemma start_reading_stays: "start_reading E ret s = (ret', s') \<Longrightarrow> stays E s s'"
  by (auto simp: start_reading_def reader_start_def set_connected_def xint_def grown_def Let_def intro!: staysI split: if_splits)

lemma on_lib_eq:
  "on_lib f (Some c) h = Some ((ret, cli), h') \<longleftrightarrow> (\<exists>c'. f (c, h) = Some (ret, c', h') \<and> cli = Some c')"
  by (auto simp: on_lib_def bind_eq_Some_conv)

lemma open_connection_stays:
  assumes "open_connection E s = Some (ret, s')"
  shows "stays E s s'"
proof -
  have 1: "stays E s (fst s\<lparr>lb_pipe_read := r, lb_pipe_write := w\<rparr>, Sock X_pipe # snd s)" "stays E s (fst s, Sock X_pipe # snd s)" for r w
    by (auto simp: grown_def intro!: staysI)
  from assms show ?thesis
    by (auto simp: open_connection_def xint_def Let_def split: if_splits intro: 1 dest!: connect_stays intro: stays_trans [OF 1(1)])
qed

lemma connect_ok:
  assumes "mmgr_cli_connect E self (Some c) h = Some ((ret, Some c'), h')"
  shows "stays E (c, h) (c', h')"
proof (cases "is_connected (Some c)")
  case True
  with assms show ?thesis by (simp add: mmgr_cli_connect_def on_lib_eq)
next
  case False
  with assms obtain ret2 s2 where 2: "open_connection E (c, h) = Some (ret2, s2)"
    and l: "(let (ret', s3) = start_reading E ret2 s2 in
         if ret' \<noteq> E_ERR_CLI_SUCCEED then do { (_, s4) \<leftarrow> handle_disconnection E self s3; Some (ret', s4) }
         else Some (ret', s3)) = Some (ret, c', h')"
    by (auto simp: mmgr_cli_connect_def on_lib_eq bind_eq_Some_conv simp del: split_paired_Ex)
  obtain ret3 s3 where 3: "start_reading E ret2 s2 = (ret3, s3)" by (cases "start_reading E ret2 s2")
  from l have r: "(if ret3 \<noteq> E_ERR_CLI_SUCCEED then do { (_, s4) \<leftarrow> handle_disconnection E self s3; Some (ret3, s4) }
      else Some (ret3, s3)) = Some (ret, c', h')"
    by (simp only: 3 Let_def prod.case)
  note open_connection_stays [OF 2]
  also note start_reading_stays [OF 3]
  also have "stays E s3 (c', h')"
    using r by (cases "ret3 = E_ERR_CLI_SUCCEED") (auto simp: bind_eq_Some_conv dest!: disconnection_stays)
  finally show ?thesis .
qed

lemma disconnect_ok:
  assumes "mmgr_cli_disconnect E (Some c) h = Some ((ret, Some c'), h')"
  shows "stays E (c, h) (c', h')"
proof (cases "is_connected (Some c)")
  case True
  let ?h1 = "snd (sys_write E (lb_pipe_write c) [0] h)"
  have 1: "stays E (c, h) (c, ?h1)" by (auto simp: sys_write_def ext_defs grown_def Let_def intro!: staysI)
  have 2: "stays E (c, h) (fst s2\<lparr>lb_thr_id := None\<rparr>, snd s2)" if "read_events E (c, Cli X_reader_join # ?h1) = Some s2" for s2
  proof -
    note 1
    also have "stays E (c, ?h1) (c, Cli X_reader_join # ?h1)" using stays_calls(3) [of E "(c, ?h1)"] by simp
    also note read_events_stays [OF that]
    also have "stays E s2 (fst s2\<lparr>lb_thr_id := None\<rparr>, snd s2)" by (auto intro!: staysI)
    finally show ?thesis .
  qed
  from True assms 1 2 show ?thesis
    by (auto simp: mmgr_cli_disconnect_def on_lib_eq cli_disconnect_def Let_def bind_eq_Some_conv xcall_def split: if_splits)
qed (use assms in \<open>auto simp: mmgr_cli_disconnect_def on_lib_eq\<close>)

lemma send_ok:
  assumes "mmgr_cli_send_msg E self req (Some c) h = Some ((ret, Some c'), h')"
  shows "stays E (c, h) (c', h')"
  using assms by (auto simp: mmgr_cli_send_msg_def on_lib_eq split: if_splits dest!: rr.send_msg_stays)

lemma lock_sent:
  assumes "mmgr_cli_lock E self (Some c) h = Some ((ret, Some c'), h') \<or> mmgr_cli_unlock E self (Some c) h = Some ((ret, Some c'), h')"
  shows "\<exists>b. stays E (c, h) (c'\<lparr>lb_lock := b\<rparr>, h')"
proof -
  have "c'\<lparr>lb_lock := lb_lock c'\<rparr> = c'" by simp
  moreover have "\<exists>b. stays E (c, h) (fst s1\<lparr>lb_lock := b\<rparr>, snd s1)" if "stays E (c, h) s1" for s1
    using that by (intro exI [of _ "lb_lock (fst s1)"]) simp
  ultimately show ?thesis
    using assms
    by (auto simp: mmgr_cli_lock_def mmgr_cli_unlock_def on_lib_eq set_lock_def bind_eq_Some_conv split: if_splits
        dest!: rr.send_msg_stays intro: exI [of _ "lb_lock c"])
qed

lemma handle_ok_lock [simp]: "handle_ok (c\<lparr>lb_lock := b\<rparr>) = handle_ok c"
  by (simp add: handle_ok_def)

lemma lock_ok:
  assumes "mmgr_cli_lock E self (Some c) h = Some ((ret, Some c'), h') \<or> mmgr_cli_unlock E self (Some c) h = Some ((ret, Some c'), h')"
  shows "handle_ok c' \<longleftrightarrow> handle_ok c"
proof -
  obtain b where "stays E (c, h) (c'\<lparr>lb_lock := b\<rparr>, h')" using lock_sent [OF assms] by blast
  then show ?thesis using handle_ok_app_part [of "c'\<lparr>lb_lock := b\<rparr>" c] by (auto dest: handle_kept_app(2))
qed

lemma stays_ok: "stays E (c, h) (c', h') \<Longrightarrow> handle_ok c' \<longleftrightarrow> handle_ok c"
  using handle_ok_app_part [of c' c] handle_kept_app(2) [of E "(c, h)" "(c', h')"] by simp

text \<open>
  C19: A handle always announces what it listens to. Whatever the application does with a handle, in whatever order, and
  whatever its reader thread does, the mask of events sent to the daemon at a connection has
  exactly the events with a callback and the two answers to requests, no callback is ever attached to an
  answer, and the client's name is terminated inside its array.
\<close>

theorem handle_invariant: "client_handle E c \<Longrightarrow> handle_ok c"
proof (induction rule: client_handle.induct)
  case (create name ctx h c h')
  then show ?case by (rule create_handle_ok)
next
  case (subscribe c f e ret c')
  then show ?case by (blast intro: subscribe_ok)
next
  case (unsubscribe c e ret c')
  then show ?case by (blast intro: unsubscribe_ok)
next
  case (set_instance c i ret c')
  then show ?case by (blast intro: set_instance_ok)
next
  case (connect c self h ret c' h')
  then show ?case using stays_ok [OF connect_ok] by blast
next
  case (disconnect c h ret c' h')
  then show ?case using stays_ok [OF disconnect_ok] by blast
next
  case (send c self req h ret c' h')
  then show ?case using stays_ok [OF send_ok] by blast
next
  case (reads c h c' h')
  then show ?case using stays_ok [OF reader_step_stays] by blast
qed (use lock_ok in blast)+

theorem handle_invariant_witness:
  "\<exists>c. client_handle env_ok c \<and> handle_ok c \<and> bit (lb_events c) (ev_code E_MMGR_EVENT_MODEM_UP)"
proof -
  obtain c h' where c: "mmgr_cli_create_handle env_ok (Some ''rild'') 0 (Some None) [] = ((E_ERR_CLI_SUCCEED, Some (Some c)), h')"
    "lb_connected c = E_CNX_DISCONNECTED" "lb_func c = (\<lambda>_. None)"
    by (simp add: mmgr_cli_create_handle_def env_ok_def xint_def)
  let ?e = "E_MMGR_EVENT_MODEM_UP"
  let ?c = "c\<lparr>lb_events := lb_events c OR flag (ev_code ?e), lb_func := (lb_func c)(?e := Some 0)\<rparr>"
  have "mmgr_cli_subscribe_event (Some 0) ?e (Some c) = (E_ERR_CLI_SUCCEED, Some ?c)"
    using c(2,3) by (simp add: mmgr_cli_subscribe_event_def is_connected_def)
  then have "client_handle env_ok ?c" using c(1) by (blast intro: client_handle.intros)
  with handle_invariant [OF this] show ?thesis by (intro exI [of _ ?c]) (simp add: bit_or_flag)
qed

section \<open>Events\<close>

text \<open>An event without data that has a callback: it is decoded, its thread is remembered, and the callback is called.\<close>

lemma enter_bare:
  assumes "hdr_id (msg_hdr msg) = event_id e" "lb_set_data (fst s) e = set_data_empty"
  shows "enter_callback E self msg s = Some (\<lparr>ev_id = event_id e, ev_len = 0, ev_data = D_null, ev_context = lb_cli_ctx (fst s)\<rparr>,
    (fst s\<lparr>lb_tid := self\<rparr>, Libc X_boottime # snd s))"
  using assms by (simp add: enter_callback_def set_data_empty_def xcall_def Let_def)

lemma callback_bare:
  assumes "hdr_id (msg_hdr msg) = event_id e" "e \<notin> {E_MMGR_NUM_EVENTS, E_MMGR_ACK, E_MMGR_NACK}" "lb_func (fst s) e = Some f"
    and "lb_set_data (fst s) e = set_data_empty" "lb_free_data (fst s) e = free_data_empty"
  defines "h2 \<equiv> Libc X_boottime # Cli (X_callback f (event_id e)) # Libc X_boottime # snd s"
  shows "call_cli_callback E self msg s =
    (if env_int E (tl h2) = 0 \<and> e \<in> {E_MMGR_NOTIFY_MODEM_COLD_RESET, E_MMGR_NOTIFY_MODEM_SHUTDOWN}
     then map_option (\<lambda>(_, s2). (E_ERR_CLI_SUCCEED, s2))
       (send_msg E no_peer (request (if e = E_MMGR_NOTIFY_MODEM_COLD_RESET then E_MMGR_ACK_MODEM_COLD_RESET
          else E_MMGR_ACK_MODEM_SHUTDOWN)) E_SEND_SINGLE DEF_MMGR_RESPONSIVE_TIMEOUT (fst s\<lparr>lb_tid := self\<rparr>, h2))
     else Some (E_ERR_CLI_SUCCEED, fst s\<lparr>lb_tid := self\<rparr>, h2))"
proof -
  have "deliver E self msg s = Some (E_ERR_CLI_SUCCEED, env_int E (tl h2), (fst s\<lparr>lb_tid := self\<rparr>, h2))"
    using assms(1-3,5) enter_bare [OF assms(1,4), of E self]
    by (simp add: deliver_def Let_def free_data_empty_def xint_def xcall_def h2_def)
  then show ?thesis
    using assms(1,2) by (auto simp: call_cli_callback_def Let_def event_id_known map_option_case split: option.splits)
qed

text \<open>Requests of the thread that is noted as the one of a callback.\<close>

lemma own_thread_rejected:
  assumes "lb_tid c = self" "is_connected (Some c)"
  shows "mmgr_cli_send_msg E self req (Some c) h = Some ((E_ERR_CLI_REJECTED, Some c), h)"
    "mmgr_cli_lock E self (Some c) h = Some ((E_ERR_CLI_REJECTED, Some c), h)"
    "mmgr_cli_unlock E self (Some c) h = Some ((E_ERR_CLI_REJECTED, Some c), h)"
  using assms by (simp_all add: mmgr_cli_send_msg_def mmgr_cli_lock_def mmgr_cli_unlock_def on_lib_def is_request_rejected_def)

text \<open>
  C17: A reset or a shutdown is acknowledged exactly when the application approves, and a callback cannot wait for itself. When the reader thread delivers the
  notification of a cold reset or of a shutdown, the callback is called; if it returns zero, exactly one message leaves,
  the matching acknowledgement, and otherwise none. In both cases the delivery returns. In the state in which the callback is called, and from then on, a
  request of its thread on the connected handle is rejected and does nothing at all: no message, no change of the handle.
\<close>

theorem notification_acknowledged:
  assumes "alloc_ok E" "clock_monotone E" "handle_ok (fst s)" "\<not> lb_mtx_signal (fst s)" "lb_func (fst s) e = Some f"
    and "hdr_id (msg_hdr msg) = event_id e"
    and "e = E_MMGR_NOTIFY_MODEM_COLD_RESET \<and> r = E_MMGR_ACK_MODEM_COLD_RESET \<or>
         e = E_MMGR_NOTIFY_MODEM_SHUTDOWN \<and> r = E_MMGR_ACK_MODEM_SHUTDOWN"
  shows "\<exists>event sc s' ts. enter_callback E self msg s = Some (event, sc) \<and>
    call_cli_callback E self msg s = Some (E_ERR_CLI_SUCCEED, s') \<and>
    extends (Cli (X_callback f (event_id e)) # snd sc) (snd s') \<and>
    sent (snd s') = sent (snd s) @
      (if env_int E (Cli (X_callback f (event_id e)) # snd sc) = 0
       then [Sock (X_send (lb_fd_socket (fst s)) (header_image (request_id r) ts 0))] else []) \<and>
    (\<forall>c \<in> {fst sc, fst s'}. is_connected (Some c) \<longrightarrow>
       mmgr_cli_send_msg E self req (Some c) h = Some ((E_ERR_CLI_REJECTED, Some c), h) \<and>
       mmgr_cli_lock E self (Some c) h = Some ((E_ERR_CLI_REJECTED, Some c), h) \<and>
       mmgr_cli_unlock E self (Some c) h = Some ((E_ERR_CLI_REJECTED, Some c), h))"
proof -
  let ?cb = "Cli (X_callback f (event_id e))"
  let ?s1 = "(fst s\<lparr>lb_tid := self\<rparr>, Libc X_boottime # ?cb # Libc X_boottime # snd s)"
  have d: "lb_set_data (fst s) e = set_data_empty" "lb_free_data (fst s) e = free_data_empty"
    using assms(7) handle_okD(7,8) [OF assms(3)] by (auto simp: lib_set_data_def lib_free_data_def)
  note c = callback_bare [OF assms(6) _ assms(5) d, of E self]
  note n = enter_bare [OF assms(6) d(1), of E self]
  define approved where "approved \<longleftrightarrow> env_int E (?cb # Libc X_boottime # snd s) = 0"
  have rejected: ?thesis if "call_cli_callback E self msg s = Some (E_ERR_CLI_SUCCEED, s')" "lb_tid (fst s') = self"
    "extends (?cb # Libc X_boottime # snd s) (snd s')"
    "sent (snd s') = sent (snd s) @ (if approved then [Sock (X_send (lb_fd_socket (fst s)) (header_image (request_id r) ts 0))] else [])"
    for s' ts
  proof -
    have "\<forall>c \<in> {fst s\<lparr>lb_tid := self\<rparr>, fst s'}. lb_tid c = self" using that(2) by simp
    with that n own_thread_rejected show ?thesis
      by (intro exI [of _ s'] exI [of _ ts] exI [of _ "(fst s\<lparr>lb_tid := self\<rparr>, Libc X_boottime # snd s)"] exI) (auto simp: approved_def)
  qed
  show ?thesis
  proof (cases approved)
    case False
    with c assms(7) show ?thesis by (intro rejected [where s' = ?s1]) (auto simp: approved_def)
  next
    case True
    obtain rq where rq: "request r = Some rq" "ev_id rq = request_id r" by (simp add: request_def)
    have "encodable (fst ?s1) rq []"
      using bare_encodable [OF _ _ rq(1), of "fst ?s1"] handle_okD(6) [OF assms(3)] assms(7) by auto
    moreover have "\<not> lb_mtx_signal (fst ?s1)" "0 < DEF_MMGR_RESPONSIVE_TIMEOUT"
      using assms(4) by (simp_all add: DEF_MMGR_RESPONSIVE_TIMEOUT_def)
    ultimately obtain ret s2 n ts where x: "send_msg E no_peer (Some rq) E_SEND_SINGLE DEF_MMGR_RESPONSIVE_TIMEOUT ?s1 = Some (ret, s2)"
      "core (fst s2) = core (fst ?s1)" "extends (snd ?s1) (snd s2)" "is_ack_request (ev_id rq) \<longrightarrow> n = 1"
      "sent (snd s2) = sent (snd ?s1) @ replicate n (Sock (X_send (lb_fd_socket (fst ?s1))
         (header_image (ev_id rq) ts (of_nat (length ([] :: byte list))) @ [])))"
      using request_exchange [OF assms(1,2)] by blast
    have "n = 1" using x(4) assms(7) rq(2) by (auto simp: is_ack_request_def)
    moreover have "call_cli_callback E self msg s = Some (E_ERR_CLI_SUCCEED, s2)"
      using c True assms(7) x(1) rq(1) by (auto simp: approved_def)
    moreover have "extends (?cb # Libc X_boottime # snd s) (snd s2)" using x(3) by (metis extends_Cons extends_trans snd_conv)
    ultimately show ?thesis
      using coreD(8) [OF x(2)] x(5) rq(2) True by (intro rejected [where s' = s2 and ts = ts]) auto
  qed
qed

definition env_approves :: env where
  "env_approves = env_ok\<lparr>env_int := (\<lambda>h. case h of Cli (X_callback _ _) # _ \<Rightarrow> 0 | _ \<Rightarrow> 1)\<rparr>"

lemma lib_example_ok: "handle_ok lib_example"
proof -
  obtain c where c: "fst (mmgr_cli_create_handle env_ok (Some ''rild'') 0 (Some None) []) = (E_ERR_CLI_SUCCEED, Some (Some c))"
    by (simp add: mmgr_cli_create_handle_def env_ok_def xint_def)
  then have "handle_ok c" by (metis create_handle_ok prod.collapse)
  moreover have "app_part lib_example = app_part c" using c by (simp add: lib_example_def)
  ultimately show ?thesis using handle_ok_app_part by blast
qed

definition lib_subscribed :: "e_mmgr_events \<Rightarrow> mmgr_lib_context_t" where
  "lib_subscribed e = lib_example\<lparr>lb_connected := E_CNX_DISCONNECTED, lb_events := lb_events lib_example OR flag (ev_code e),
     lb_func := (\<lambda>_. None)(e := Some 0)\<rparr>"

lemma lib_subscribed_ok:
  assumes "e \<notin> {E_MMGR_NUM_EVENTS, E_MMGR_ACK, E_MMGR_NACK}"
  shows "handle_ok (lib_subscribed e)"
proof -
  let ?d = "lib_example\<lparr>lb_connected := E_CNX_DISCONNECTED\<rparr>"
  have "handle_ok ?d" using lib_example_ok handle_ok_app_part [of ?d lib_example] by simp
  moreover have "mmgr_cli_subscribe_event (Some 0) e (Some ?d) = (E_ERR_CLI_SUCCEED, Some (lib_subscribed e))"
    using assms by (simp add: mmgr_cli_subscribe_event_def is_connected_def lib_example_fields lib_subscribed_def)
  ultimately show ?thesis using subscribe_ok by blast
qed

theorem notification_acknowledged_witness:
  "\<exists>c event sc s' ts. lb_func c E_MMGR_NOTIFY_MODEM_COLD_RESET = Some 0 \<and>
     enter_callback env_approves 9 (fake_event E_MMGR_NOTIFY_MODEM_COLD_RESET) (c, []) = Some (event, sc) \<and>
     mmgr_cli_lock env_approves 9 (Some (fst sc)) [] = Some ((E_ERR_CLI_REJECTED, Some (fst sc)), []) \<and>
     call_cli_callback env_approves 9 (fake_event E_MMGR_NOTIFY_MODEM_COLD_RESET) (c, []) = Some (E_ERR_CLI_SUCCEED, s') \<and>
     sent (snd s') = [Sock (X_send 5 (header_image (request_id E_MMGR_ACK_MODEM_COLD_RESET) ts 0))]"
proof -
  let ?e = "E_MMGR_NOTIFY_MODEM_COLD_RESET" and ?c = "lib_subscribed E_MMGR_NOTIFY_MODEM_COLD_RESET\<lparr>lb_connected := E_CNX_CONNECTED\<rparr>"
  let ?s = "(?c, [] :: history)"
  have E: "alloc_ok env_approves" "clock_monotone env_approves" "\<And>h. env_int env_approves (Cli (X_callback 0 (event_id ?e)) # h) = 0"
    by (simp_all add: env_approves_def alloc_ok_def clock_monotone_def env_ok_def)
  have "handle_ok ?c" using lib_subscribed_ok [of ?e] handle_ok_app_part [of ?c "lib_subscribed ?e"] by simp
  then have s: "handle_ok (fst ?s)" "\<not> lb_mtx_signal (fst ?s)" "lb_func (fst ?s) ?e = Some 0" "lb_fd_socket (fst ?s) = 5"
    by (simp_all add: lib_subscribed_def lib_example_fields)
  have m: "hdr_id (msg_hdr (fake_event ?e)) = event_id ?e" by (simp add: fake_event_def)
  have x: "is_connected (Some (fst sc))" if "enter_callback env_approves 9 (fake_event ?e) ?s = Some (event, sc)" for event sc
    using that by (auto simp: enter_callback_def bind_eq_Some_conv is_connected_def Let_def)
  from notification_acknowledged [OF E(1,2) s(1-3) m, of E_MMGR_ACK_MODEM_COLD_RESET 9 None "[]"] obtain event sc s' ts
    where 1: "enter_callback env_approves 9 (fake_event ?e) ?s = Some (event, sc)"
      "call_cli_callback env_approves 9 (fake_event ?e) ?s = Some (E_ERR_CLI_SUCCEED, s')"
      "sent (snd s') = [Sock (X_send 5 (header_image (request_id E_MMGR_ACK_MODEM_COLD_RESET) ts 0))]"
      "is_connected (Some (fst sc)) \<longrightarrow> mmgr_cli_lock env_approves 9 (Some (fst sc)) [] = Some ((E_ERR_CLI_REJECTED, Some (fst sc)), [])"
    using E(3) s(4) by (auto simp: sent_def simp del: split_paired_Ex)
  with x [OF 1(1)] s(3) show ?thesis by (intro exI [of _ ?c] exI [of _ event] exI [of _ sc] exI [of _ s'] exI [of _ ts]) simp
qed

text \<open>
  A failed read is delivered as a modem that went down. When \<^verbatim>\<open>recv\<close> fails on the socket of the reader thread, nothing was
  received, yet the callback of \<^verbatim>\<open>E_MMGR_EVENT_MODEM_DOWN\<close>, the event with number zero, is called: \<^verbatim>\<open>read_msg\<close> tells
  only the end of the connection apart and goes on with an empty header.
\<close>

theorem read_failure_is_modem_down:
  assumes "lb_func (fst s) E_MMGR_EVENT_MODEM_DOWN = Some f" "handle_ok (fst s)"
    and "env_int E (Sock (X_recv (lb_fd_socket (fst s)) SIZE_HEADER) # snd s) < 0"
  shows "\<exists>s'. handle_cnx_event E self s = Some (E_ERR_CLI_SUCCEED, s') \<and>
    Cli (X_callback f (event_id E_MMGR_EVENT_MODEM_DOWN)) \<in> set (calls_since (snd s) (snd s'))"
proof -
  have "read_msg E s = Some ((E_ERR_CLI_SUCCEED, msg_empty), fst s, Sock (X_recv (lb_fd_socket (fst s)) SIZE_HEADER) # snd s)"
    using assms(3) by (simp add: read_msg_def msg_get_header_def cnx_read_def recv_def msg_empty_def)
  moreover have "hdr_id (msg_hdr msg_empty) = event_id E_MMGR_EVENT_MODEM_DOWN" by (simp add: msg_empty_def event_id_def)
  moreover have "lb_set_data (fst s) E_MMGR_EVENT_MODEM_DOWN = set_data_empty" "lb_free_data (fst s) E_MMGR_EVENT_MODEM_DOWN = free_data_empty"
    using handle_okD(7,8) [OF assms(2)] by (simp_all add: lib_set_data_def lib_free_data_def)
  ultimately show ?thesis
    using callback_bare [of msg_empty E_MMGR_EVENT_MODEM_DOWN "(fst s, Sock (X_recv (lb_fd_socket (fst s)) SIZE_HEADER) # snd s)" f E self] assms(1)
    by (simp add: handle_cnx_event_def calls_since_def free_msg_def free_ptr_def msg_empty_def)
qed

theorem read_failure_is_modem_down_witness:
  "\<exists>c s'. handle_cnx_event (env_ok\<lparr>env_int := (\<lambda>_. -1)\<rparr>) 9 (c, []) = Some (E_ERR_CLI_SUCCEED, s') \<and>
     Cli (X_callback 0 (event_id E_MMGR_EVENT_MODEM_DOWN)) \<in> set (calls_since [] (snd s'))"
proof -
  let ?s = "(lib_subscribed E_MMGR_EVENT_MODEM_DOWN, [] :: history)"
  have "handle_ok (fst ?s)" "lb_func (fst ?s) E_MMGR_EVENT_MODEM_DOWN = Some 0"
    using lib_subscribed_ok [of E_MMGR_EVENT_MODEM_DOWN] by (simp_all add: lib_subscribed_def)
  with read_failure_is_modem_down [of ?s 0 "env_ok\<lparr>env_int := (\<lambda>_. -1)\<rparr>" 9] show ?thesis by fastforce
qed

section \<open>Memory\<close>

lemma handle_ok_tables: "handle_ok c \<Longrightarrow> lib_tables c"
  by (simp add: handle_ok_def lib_tables_def)

lemma stays_live: "stays E s s' \<Longrightarrow> handle_ok (fst s) \<Longrightarrow> live E (snd s') = live E (snd s)"
  by (simp add: stays_def handle_kept_def grown_def handle_ok_tables)

lemma delivery_returns:
  assumes "handle_ok (fst s)" "lb_func (fst s) e = Some f" "hdr_id (msg_hdr msg) = event_id e"
    and "e \<notin> {E_MMGR_NUM_EVENTS, E_MMGR_NOTIFY_MODEM_COLD_RESET, E_MMGR_NOTIFY_MODEM_SHUTDOWN}"
    and "lib_set_data e E msg \<lparr>ev_id = event_id e, ev_len = 0, ev_data = D_null, ev_context = lb_cli_ctx (fst s)\<rparr> (snd s) \<noteq> None"
  shows "\<exists>s1. call_cli_callback E self msg s = Some (E_ERR_CLI_SUCCEED, s1)"
proof -
  have ev: "event_of_id (event_id e) = e" "e \<noteq> E_MMGR_ACK" "e \<noteq> E_MMGR_NACK" "lb_set_data (fst s) = lib_set_data"
    using handle_okD(2,3,7) [OF assms(1)] assms(2) by auto
  obtain x event h1 where "lib_set_data e E msg \<lparr>ev_id = event_id e, ev_len = 0, ev_data = D_null, ev_context = lb_cli_ctx (fst s)\<rparr> (snd s) =
      Some ((x, event), h1)"
    using assms(5) by (metis option.exhaust prod.exhaust)
  then obtain s1 where c: "enter_callback E self msg s = Some (event, s1)"
    using ev assms(3) by (simp add: enter_callback_def)
  then obtain x h3 where "lb_free_data (fst s1) e event (Libc X_boottime # Cli (X_callback f (event_id e)) # snd s1) = Some (x, h3)"
    using callback_called [OF handle_ok_tables [OF assms(1)] c] ev(1) assms(3) by metis
  then have "\<exists>a. deliver E self msg s = Some (E_ERR_CLI_SUCCEED, a, (fst s1, h3))"
    using assms(2,3) ev c by (simp add: deliver_def xint_def xcall_def Let_def)
  then show ?thesis using assms(3,4) ev by (auto simp: call_cli_callback_def Let_def event_id_known)
qed

text \<open>
  C20: The client library leaks no memory, and frees no more than it allocated. Whatever the reader thread does with a message of the daemon (the buffer it was received in,
  the event it was decoded to, whichever of the allocations failed on the way, the answer to a notification that was approved), whatever it does in any of
  its rounds, a reconnection included, and whatever a connection, a disconnection, a lock, an unlock or another request does: if it returns, as many
  blocks are in use as before. The delivery of an event without an answer does return if the decoder does, which is if the message can be
  decoded without reading past its end.
\<close>

theorem library_leaks_nothing:
  assumes "handle_ok (fst s)"
  shows "(call_cli_callback E self msg s = Some (ret, s') \<or> handle_cnx_event E self s = Some (ret, s') \<or> reader_step E s = Some s' \<or>
       mmgr_cli_connect E self (Some (fst s)) (snd s) = Some ((ret, Some (fst s')), snd s') \<or>
       mmgr_cli_disconnect E (Some (fst s)) (snd s) = Some ((ret, Some (fst s')), snd s') \<or>
       mmgr_cli_lock E self (Some (fst s)) (snd s) = Some ((ret, Some (fst s')), snd s') \<or>
       mmgr_cli_unlock E self (Some (fst s)) (snd s) = Some ((ret, Some (fst s')), snd s') \<or>
       mmgr_cli_send_msg E self req (Some (fst s)) (snd s) = Some ((ret, Some (fst s')), snd s') \<longrightarrow>
         live E (snd s') = live E (snd s)) \<and>
    (lb_func (fst s) e = Some f \<and> hdr_id (msg_hdr msg) = event_id e \<and>
       e \<notin> {E_MMGR_NUM_EVENTS, E_MMGR_NOTIFY_MODEM_COLD_RESET, E_MMGR_NOTIFY_MODEM_SHUTDOWN} \<and>
       lib_set_data e E msg \<lparr>ev_id = event_id e, ev_len = 0, ev_data = D_null, ev_context = lb_cli_ctx (fst s)\<rparr> (snd s) \<noteq> None \<longrightarrow>
         (\<exists>s1. call_cli_callback E self msg s = Some (E_ERR_CLI_SUCCEED, s1)))"
proof (intro conjI impI, elim disjE)
  note l = stays_live [OF _ assms]
  show "live E (snd s') = live E (snd s)" if "call_cli_callback E self msg s = Some (ret, s')" using callback_stays [OF that] by (rule l)
  show "live E (snd s') = live E (snd s)" if "handle_cnx_event E self s = Some (ret, s')" using cnx_event_stays [OF that] by (rule l)
  show "live E (snd s') = live E (snd s)" if "reader_step E s = Some s'" using reader_step_stays [OF that] by (rule l)
  show "live E (snd s') = live E (snd s)" if "mmgr_cli_connect E self (Some (fst s)) (snd s) = Some ((ret, Some (fst s')), snd s')"
    using l [of E s'] connect_ok [OF that] by simp
  show "live E (snd s') = live E (snd s)" if "mmgr_cli_disconnect E (Some (fst s)) (snd s) = Some ((ret, Some (fst s')), snd s')"
    using l [of E s'] disconnect_ok [OF that] by simp
  show "live E (snd s') = live E (snd s)" if "mmgr_cli_lock E self (Some (fst s)) (snd s) = Some ((ret, Some (fst s')), snd s')"
    using lock_sent [OF disjI1, OF that] l by fastforce
  show "live E (snd s') = live E (snd s)" if "mmgr_cli_unlock E self (Some (fst s)) (snd s) = Some ((ret, Some (fst s')), snd s')"
    using lock_sent [OF disjI2, OF that] l by fastforce
  show "live E (snd s') = live E (snd s)" if "mmgr_cli_send_msg E self req (Some (fst s)) (snd s) = Some ((ret, Some (fst s')), snd s')"
    using l [of E s'] send_ok [OF that] by simp
qed (use delivery_returns [OF assms] in blast)

text \<open>An application processor reset with two causes, when there is no memory left for the second.\<close>

definition env_scarce :: env where
  "env_scarce = env_ok\<lparr>env_int := (\<lambda>h. case h of Libc (X_calloc n) # _ \<Rightarrow> of_bool (n \<noteq> 3) | _ \<Rightarrow> 1)\<rparr>"

definition reset_msg :: msg_t where
  "reset_msg = \<lparr>msg_hdr = \<lparr>hdr_id = event_id E_MMGR_NOTIFY_AP_RESET, hdr_ts = 0, hdr_len = 20\<rparr>,
     msg_data = Some (be_bytes 1 @ [65] @ be_bytes 2 @ be_bytes 1 @ [66] @ be_bytes 2 @ [67, 68])\<rparr>"

theorem library_leaks_nothing_witness:
  "handle_ok (lib_subscribed E_MMGR_NOTIFY_AP_RESET) \<and>
    (\<exists>s'. call_cli_callback env_scarce 9 reset_msg (lib_subscribed E_MMGR_NOTIFY_AP_RESET, []) = Some (E_ERR_CLI_SUCCEED, s') \<and>
      live env_scarce (snd s') = 0)"
proof -
  let ?e = "E_MMGR_NOTIFY_AP_RESET" and ?s = "(lib_subscribed E_MMGR_NOTIFY_AP_RESET, [] :: history)"
  have s: "handle_ok (fst ?s)" "lb_func (fst ?s) ?e = Some 0" using lib_subscribed_ok [of ?e] by (simp_all add: lib_subscribed_def)
  have "set_data_ap_reset env_scarce reset_msg ev [] \<noteq> None" for ev by code_simp
  then have "lib_set_data ?e env_scarce reset_msg ev (snd ?s) \<noteq> None" for ev by (simp add: lib_set_data_def)
  moreover have "hdr_id (msg_hdr reset_msg) = event_id ?e" by (simp add: reset_msg_def)
  ultimately obtain s' where "call_cli_callback env_scarce 9 reset_msg ?s = Some (E_ERR_CLI_SUCCEED, s')"
    using library_leaks_nothing [OF s(1), of env_scarce 9 reset_msg E_ERR_CLI_SUCCEED ?s None ?e 0] s(2) by blast
  with library_leaks_nothing [OF s(1), of env_scarce 9 reset_msg E_ERR_CLI_SUCCEED s' None ?e 0] s(1) show ?thesis by auto
qed

end
