(* ===== verification/End_To_End.thy ===== *)
theory End_To_End
  imports Cli_Handle Daemon_Requests
begin

text \<open>
  The client library and the daemon together: the bytes \<open>register_client\<close> of \<open>libclients/c/utils.c\<close> puts on its
  socket are the bytes \<open>known_client\<close> of \<open>core/client_events.c\<close> reads. The first section shows which two messages a registration
  sends, the second what the daemon makes of each of them, the third puts both together. The socket between
  the two is the hypothesis \<open>delivers\<close>: two reads return the header and the rest of a message.
\<close>

section \<open>What a registering client sends\<close>

lemma name_encodable:
  assumes "lb_set_msg c = lib_set_msg" "name = takeWhile (\<lambda>b. b \<noteq> 0) (lb_cli_name c)" "name \<noteq> []" "length name + SIZE_HEADER < 2 ^ 32"
  shows "encodable c \<lparr>ev_id = request_id E_MMGR_SET_NAME, ev_len = of_nat (length name), ev_data = D_bytes (lb_cli_name c), ev_context = 0\<rparr> name"
proof -
  have r: "request_of_id 0 = E_MMGR_SET_NAME" by (simp add: request_of_id_def all_requests_def)
  have len: "unat (of_nat (length name) :: u32) = length name" using assms(4) by (simp add: unat_of_nat)
  then have ne: "(of_nat (length name) :: u32) \<noteq> 0" using assms(3) by auto
  have "length name \<le> length (lb_cli_name c)" "take (length name) (lb_cli_name c) = name"
    using assms(2) length_takeWhile_le takeWhile_eq_take by metis+
  then have "fills (\<lambda>b. do { p \<leftarrow> data_region (D_bytes (lb_cli_name c)); put_bytes b p (length name) }) name"
    by (simp add: data_region_def fills_def put_bytes_def mem_simps)
  from build_msg_encodes [OF _ this assms(4) refl, of _ 0] show ?thesis
    using assms(1,4) ne len by (auto simp: encodable_def r lib_set_msg_def set_msg_name_def)
qed

lemma filter_encodable:
  assumes "lb_set_msg c = lib_set_msg"
  shows "encodable c \<lparr>ev_id = request_id E_MMGR_SET_EVENTS, ev_len = 4, ev_data = D_int v, ev_context = 0\<rparr> (be_bytes v)"
proof -
  have r: "request_of_id 1 = E_MMGR_SET_EVENTS" by (simp add: request_of_id_def all_requests_def)
  have "fills (\<lambda>b. serialize_uint32 b v) (be_bytes v)" by (rule fill_rules)
  from build_msg_encodes [OF _ this _ refl, of _ 1] show ?thesis
    using assms by (auto simp: encodable_def r lib_set_msg_def set_msg_filter_def SIZE_HEADER_def)
qed


lemma request_sends:
  assumes "alloc_ok E" "clock_monotone E" "\<not> lb_mtx_signal c" "encodable c req payload" "0 < t"
    and "fd = lb_fd_socket c" "i = ev_id req"
  obtains ret s' n ts where "send_msg E peer (Some req) E_SEND_SINGLE t (c, h) = Some (ret, s')" "\<not> lb_mtx_signal (fst s')"
    "core (fst s') = core c" "0 < n"
    "sent (snd s') = sent h @ replicate n (Sock (X_send fd (header_image i ts (of_nat (length payload)) @ payload)))"
proof -
  note request_exchange [OF assms(1,2), of "(c, h)", unfolded fst_conv snd_conv, OF assms(3-5), of peer]
  then show thesis unfolding assms(6,7) [symmetric] by (elim exE conjE) (rule that)
qed

lemma registering_client_sends:
  assumes "alloc_ok E" "clock_monotone E" "\<not> lb_mtx_signal c" "lb_set_msg c = lib_set_msg"
    and "name = takeWhile (\<lambda>b. b \<noteq> 0) (lb_cli_name c)" "name \<noteq> []" "length name + SIZE_HEADER < 2 ^ 32"
    and "register_client E (c, g) = Some (E_ERR_CLI_SUCCEED, s')"
  obtains ts1 ts2 n1 n2 where "sent (snd s') = sent g @
      replicate n1 (Sock (X_send (lb_fd_socket c) (header_image (request_id E_MMGR_SET_NAME) ts1 (of_nat (length name)) @ name))) @
      replicate n2 (Sock (X_send (lb_fd_socket c) (header_image (request_id E_MMGR_SET_EVENTS) ts2 4 @ be_bytes (lb_events c))))"
    "0 < n1" "0 < n2"
proof -
  let ?name = "\<lparr>ev_id = request_id E_MMGR_SET_NAME, ev_len = of_nat (length name), ev_data = D_bytes (lb_cli_name c), ev_context = 0\<rparr>"
  let ?filter = "\<lparr>ev_id = request_id E_MMGR_SET_EVENTS, ev_len = 4, ev_data = D_int (lb_events c), ev_context = 0\<rparr>"
  let ?g1 = "Libc X_realtime # g"
  obtain r1 s1 n1 ts1 where 1: "send_msg E no_peer (Some ?name) E_SEND_SINGLE DEF_MMGR_RESPONSIVE_TIMEOUT (c, ?g1) = Some (r1, s1)"
    "\<not> lb_mtx_signal (fst s1)" "core (fst s1) = core c" "0 < n1"
    "sent (snd s1) = sent ?g1 @ replicate n1 (Sock (X_send (lb_fd_socket c)
      (header_image (request_id E_MMGR_SET_NAME) ts1 (of_nat (length name)) @ name)))"
    by (rule request_sends [OF assms(1-3) name_encodable [OF assms(4-7)], where h = ?g1 and t = DEF_MMGR_RESPONSIVE_TIMEOUT and
          fd = "lb_fd_socket c" and i = "request_id E_MMGR_SET_NAME" and peer = no_peer])
      (simp_all add: DEF_MMGR_RESPONSIVE_TIMEOUT_def)
  let ?g2 = "Libc X_realtime # snd s1"
  let ?t = "DEF_MMGR_RESPONSIVE_TIMEOUT - (tv_sec (env_time E ?g2) - tv_sec (env_time E ?g1))"
  obtain s2 where 2: "send_msg E no_peer (Some ?filter) E_SEND_SINGLE ?t (fst s1, ?g2) = Some (E_ERR_CLI_SUCCEED, s2)"
    "s' = (fst s2, Libc X_realtime # snd s2)"
    using assms(8) 1(1) unfolding register_client_def assms(5) [symmetric]
    by (auto simp: xtime_def xcall_def bind_eq_Some_conv split: if_splits simp flip: assms(5))
  then have "0 < ?t" by (auto simp: send_msg_def split: if_splits)
  moreover have "encodable (fst (fst s1, ?g2)) ?filter (be_bytes (lb_events c))"
    using filter_encodable assms(4) coreD [OF 1(3)] by simp
  ultimately obtain n2 ts2 where "0 < n2" "sent (snd s2) = sent ?g2 @ replicate n2 (Sock (X_send (lb_fd_socket c)
      (header_image (request_id E_MMGR_SET_EVENTS) ts2 (of_nat (length (be_bytes (lb_events c)))) @ be_bytes (lb_events c))))"
    using request_sends [OF assms(1,2) 1(2), of ?filter "be_bytes (lb_events c)" ?t "lb_fd_socket c" "request_id E_MMGR_SET_EVENTS" no_peer ?g2]
      2(1) coreD(1) [OF 1(3)]
    by (metis (no_types, lifting) fst_conv mmgr_cli_event_t.select_convs(1) option.inject prod.inject)
  with 1(4,5) 2(2) show thesis by (intro that [of n1 ts1 n2 ts2]) simp_all
qed

section \<open>What the daemon makes of it\<close>

text \<open>The message is what the two reads of the daemon return: the header, then the rest.\<close>

definition delivers :: "env \<Rightarrow> int \<Rightarrow> byte list \<Rightarrow> history \<Rightarrow> bool" where
  "delivers E fd msg h \<longleftrightarrow>
     (let h1 = Sock (X_recv fd SIZE_HEADER) # h; n = length msg - SIZE_HEADER; h2 = Sock (X_recv fd n) # Libc (X_calloc n) # h1 in
      env_int E h1 \<ge> 0 \<and> env_bytes E h1 = take SIZE_HEADER msg \<and> env_int E h2 \<ge> 0 \<and> env_bytes E h2 = drop SIZE_HEADER msg)"

lemma daemon_receives:
  assumes "alloc_ok E" "event_fd (fst s) = Some fd" "client_find (mg_clients (fst s)) fd = Some i"
    and "delivers E fd (header_image r ts (of_nat (length p)) @ p) (snd s)" "p \<noteq> []" "length p < 2 ^ 32"
    and "r < request_id E_MMGR_NUM_REQUESTS" "request_of_id r \<in> {E_MMGR_SET_NAME, E_MMGR_SET_EVENTS}"
    and "mg_hdler_client (fst s) (mg_state (fst s)) (request_of_id r) = Some f"
  shows "\<exists>h. known_client E s = call_client E f (fst s\<lparr>mg_request :=
      \<lparr>rq_msg = \<lparr>msg_hdr = \<lparr>hdr_id = r, hdr_ts = ts, hdr_len = of_nat (length p)\<rparr>, msg_data = Some p\<rparr>, rq_client = i\<rparr>\<rparr>, h) \<and>
    sent h = sent (snd s) \<and> power_cmds h = power_cmds (snd s)"
proof -
  let ?h1 = "Sock (X_recv fd SIZE_HEADER) # snd s"
  let ?h2 = "Sock (X_recv fd (length p)) # Libc (X_calloc (length p)) # ?h1"
  have len: "unat (of_nat (length p) :: u32) = length p" using assms(6) by (simp add: unat_of_nat)
  have i: "i < length (cl_list (mg_clients (fst s)))" "cl_fd (cl_list (mg_clients (fst s)) ! i) = fd"
    using assms(3) find_slot_SomeD by (auto simp: client_find_def split: if_splits)
  have d: "env_int E ?h1 \<ge> 0" "take SIZE_HEADER (env_bytes E ?h1) = header_image r ts (of_nat (length p))"
    "env_int E ?h2 \<ge> 0" "env_bytes E ?h2 = p"
    using assms(4) by (simp_all add: delivers_def Let_def)
  note hdr = msg_get_header_image [OF d(1,2)]
  have c: "calloc E (length p) ?h1 = (Some (replicate (length p) 0), Libc (X_calloc (length p)) # ?h1)"
    using assms(1) by (simp add: calloc_def xint_def alloc_ok_def)
  have r: "cnx_read E fd (length p) (Libc (X_calloc (length p)) # ?h1) = ((E_ERR_SUCCESS, p, length p), ?h2)"
    using d(3,4) by (simp add: cnx_read_def recv_def Let_def)
  let ?m = "fst s\<lparr>mg_request := \<lparr>rq_msg = \<lparr>msg_hdr = \<lparr>hdr_id = r, hdr_ts = ts, hdr_len = of_nat (length p)\<rparr>, msg_data = Some p\<rparr>,
    rq_client = i\<rparr>\<rparr>"
  have eq: "q\<lparr>rq_client := i, rq_msg := (rq_msg q)\<lparr>msg_hdr := (msg_hdr (rq_msg q))\<lparr>hdr_id := a, hdr_ts := b, hdr_len := l\<rparr>, msg_data := d\<rparr>\<rparr> =
      \<lparr>rq_msg = \<lparr>msg_hdr = \<lparr>hdr_id = a, hdr_ts = b, hdr_len = l\<rparr>, msg_data = d\<rparr>, rq_client = i\<rparr>" for q a b l d
    by (simp add: current_request_t.equality msg_t.equality msg_hdr_t.equality)
  have "known_client E s = call_client E f (?m, ?h2)"
    using assms(2,3,5,7-9) hdr c r i len
    by (auto simp: known_client_def client_request_def the_client_def client_get_fd_def set_request_data_def eq Let_def)
  then show ?thesis by (intro exI [of _ ?h2]) (simp add: sent_def is_send_def)
qed


lemma registration_handlers:
  assumes "base m"
  shows "mg_hdler_client m (mg_state m) E_MMGR_SET_NAME = Some H_request_set_name"
    "mg_hdler_client m (mg_state m) E_MMGR_SET_EVENTS = Some H_request_set_events"
proof -
  obtain b where "mg_hdler_client m = hdler_table_of b" "mg_state m \<noteq> E_MMGR_NUM" using assms by (auto simp: base_def)
  then show "mg_hdler_client m (mg_state m) E_MMGR_SET_NAME = Some H_request_set_name"
    "mg_hdler_client m (mg_state m) E_MMGR_SET_EVENTS = Some H_request_set_events"
    by (simp_all add: hdler_table_of_def fake_table_def default_table_def Let_def)
qed

text \<open>The record of the slot after its client changed.\<close>

definition with_slot :: "nat \<Rightarrow> client_t \<Rightarrow> mmgr_data_t \<Rightarrow> mmgr_data_t" where
  "with_slot i c m = m\<lparr>mg_clients := (mg_clients m)\<lparr>cl_list := (cl_list (mg_clients m))[i := c]\<rparr>\<rparr>"

lemma find_slot_same: "find_slot fd cs = Some i \<Longrightarrow> cl_fd c = fd \<Longrightarrow> find_slot fd (cs[i := c]) = Some i"
  by (induction cs arbitrary: i) (auto split: if_splits nat.splits)

lemma daemon_names:
  assumes "alloc_ok E" "base (fst s)" "event_fd (fst s) = Some fd" "client_find (mg_clients (fst s)) fd = Some i"
    and "delivers E fd (header_image (request_id E_MMGR_SET_NAME) ts (of_nat (length name)) @ name) (snd s)"
    and "name \<noteq> []" "0 \<notin> set name" "length name < 2 ^ 32" "c = cl_list (mg_clients (fst s)) ! i"
  shows "\<exists>r rq h. known_client E s = Some (r, with_slot i (c\<lparr>cl_name := take CLIENT_NAME_LEN name, cl_cnx := cl_cnx c OR E_CNX_NAME\<rparr>)
      (fst s\<lparr>mg_request := rq\<rparr>), h) \<and> power_cmds h = power_cmds (snd s)"
proof -
  have r: "request_of_id 0 = E_MMGR_SET_NAME" by (simp add: request_of_id_def all_requests_def)
  have i: "i < length (cl_list (mg_clients (fst s)))"
    using assms(4) find_slot_SomeD by (auto simp: client_find_def split: if_splits)
  let ?rq = "\<lparr>rq_msg = \<lparr>msg_hdr = \<lparr>hdr_id = 0, hdr_ts = ts, hdr_len = of_nat (length name)\<rparr>, msg_data = Some name\<rparr>, rq_client = i\<rparr>"
  obtain h where k: "known_client E s = request_set_name E (fst s\<lparr>mg_request := ?rq\<rparr>, h)" "power_cmds h = power_cmds (snd s)"
    using daemon_receives [OF assms(1,3,4), of 0 ts name H_request_set_name] assms(5,6,8) registration_handlers(1) [OF assms(2)] r
    by (auto simp: call_client_def)
  let ?c = "c\<lparr>cl_name := take CLIENT_NAME_LEN name, cl_cnx := cl_cnx c OR E_CNX_NAME\<rparr>"
  have len: "unat (of_nat (length name) :: u32) = length name" using assms(8) by (simp add: unat_of_nat)
  have "takeWhile (\<lambda>b. b \<noteq> 0) (take n name) = take n name" "takeWhile (\<lambda>b. b \<noteq> 0) name = name" for n
    using assms(7) in_set_takeD by (fastforce simp: takeWhile_eq_all_conv)+
  then have n: "client_set_name c name (length name) = Some (E_ERR_SUCCESS, ?c)"
    by (auto simp: client_set_name_def)
  let ?s1 = "(with_slot i ?c (fst s\<lparr>mg_request := ?rq\<rparr>), h)"
  have "the_client (fst ?s1) = Some ?c" using i by (simp add: the_client_def with_slot_def)
  moreover have "no_payload E_MMGR_ACK" by (simp add: no_payload_def)
  ultimately obtain h2 where "reply E E_MMGR_ACK ?s1 = Some (fst ?s1, h2)" "power_cmds h2 = power_cmds h"
    using reply_sent [OF assms(1)] by (metis snd_conv)
  then have "known_client E s = Some (E_ERR_SUCCESS, fst ?s1, h2)"
    using k(1) n len i assms(9)
    by (simp add: request_set_name_def the_client_def on_client_def with_slot_def mem_read_def mem_simps Let_def)
  then show ?thesis using k(2) \<open>power_cmds h2 = power_cmds h\<close> by auto
qed

lemma daemon_subscribes:
  assumes "alloc_ok E" "base (fst s)" "event_fd (fst s) = Some fd" "client_find (mg_clients (fst s)) fd = Some i"
    and "delivers E fd (header_image (request_id E_MMGR_SET_EVENTS) ts 4 @ be_bytes v) (snd s)"
    and "c = cl_list (mg_clients (fst s)) ! i"
  shows "\<exists>r rq h. known_client E s = Some (r, with_slot i (c\<lparr>cl_subscription := v, cl_cnx := cl_cnx c OR E_CNX_FILTER\<rparr>)
      (fst s\<lparr>mg_request := rq\<rparr>), h) \<and> power_cmds h = power_cmds (snd s)"
proof -
  have r: "request_of_id 1 = E_MMGR_SET_EVENTS" by (simp add: request_of_id_def all_requests_def)
  have i: "i < length (cl_list (mg_clients (fst s)))"
    using assms(4) find_slot_SomeD by (auto simp: client_find_def split: if_splits)
  let ?rq = "\<lparr>rq_msg = \<lparr>msg_hdr = \<lparr>hdr_id = 1, hdr_ts = ts, hdr_len = 4\<rparr>, msg_data = Some (be_bytes v)\<rparr>, rq_client = i\<rparr>"
  have "length (be_bytes v) = 4" by simp
  then have b: "length (be_bytes v) = 4" "be_bytes v \<noteq> []" by fastforce+
  obtain h where k: "known_client E s = request_set_events E (fst s\<lparr>mg_request := ?rq\<rparr>, h)" "power_cmds h = power_cmds (snd s)"
    using daemon_receives [OF assms(1,3,4), of 1 ts "be_bytes v" H_request_set_events] assms(5) b registration_handlers(2) [OF assms(2)] r
    by (auto simp: call_client_def)
  let ?c = "c\<lparr>cl_subscription := v, cl_cnx := cl_cnx c OR E_CNX_FILTER\<rparr>"
  let ?s1 = "(with_slot i ?c (fst s\<lparr>mg_request := ?rq\<rparr>), h)"
  let ?ev = "state_notification (mg_state (fst s))"
  have body: "body_u32 \<lparr>msg_hdr = m, msg_data = Some (be_bytes v)\<rparr> = Some v" for m
    using deserialize_uint32_image [of "[]" 0 v "[]"] by (simp add: body_u32_def)
  have t: "the_client (fst (fst ?s1, h')) = Some ?c" for h' :: history using i by (simp add: the_client_def with_slot_def)
  have "mg_state (fst s) \<noteq> E_MMGR_NUM" using assms(2) by (simp add: base_def)
  then have np: "no_payload E_MMGR_ACK" "no_payload ?ev" by (cases "mg_state (fst s)"; simp add: no_payload_def)+
  obtain h2 where 2: "reply E E_MMGR_ACK ?s1 = Some (fst ?s1, h2)" "power_cmds h2 = power_cmds h"
    using reply_sent [OF assms(1) np(1), of ?s1 ?c] t [of h] by (metis fst_conv snd_conv)
  obtain h3 where 3: "reply E ?ev (fst ?s1, h2) = Some (fst ?s1, h3)" "power_cmds h3 = power_cmds h2"
    using reply_sent [OF assms(1) np(2) t [of h2]] by (metis fst_conv snd_conv)
  have "known_client E s = Some (E_ERR_SUCCESS, fst ?s1, h3)"
    using k(1) i assms(6) body 2(1) 3(1)
    by (simp add: request_set_events_def the_client_def on_client_def client_set_filter_def with_slot_def Let_def)
  then show ?thesis using k(2) 2(2) 3(2) by auto
qed


section \<open>Registration from end to end\<close>

text \<open>
  C15: A client that connected successfully is the client the daemon knows. If the registration of a handle succeeds,
  the library put nothing on the wire but copies of two messages; and any daemon, in whatever state, that reads these two messages one after
  the other from a connection it knows has this client registered, under the handle's name (cut to the daemon's limit) and
  subscribed to exactly the events of the handle, with every other client as before and no command given to the modem.
\<close>

theorem registration_end_to_end:
  assumes "alloc_ok E" "clock_monotone E" "\<not> lb_mtx_signal c" "lb_set_msg c = lib_set_msg"
    and "name = takeWhile (\<lambda>b. b \<noteq> 0) (lb_cli_name c)" "name \<noteq> []" "length name + SIZE_HEADER < 2 ^ 32"
    and "register_client E (c, g) = Some (E_ERR_CLI_SUCCEED, s')"
  shows "\<exists>m1 m2 n1 n2. sent (snd s') = sent g @ replicate n1 (Sock (X_send (lb_fd_socket c) m1)) @ replicate n2 (Sock (X_send (lb_fd_socket c) m2)) \<and>
    0 < n1 \<and> 0 < n2 \<and>
    (\<forall>D d fd i. alloc_ok D \<and> base (fst d) \<and> event_fd (fst d) = Some fd \<and> client_find (mg_clients (fst d)) fd = Some i \<and> delivers D fd m1 (snd d) \<longrightarrow>
       (\<exists>r d1. known_client D d = Some (r, d1) \<and>
          (delivers D fd m2 (snd d1) \<longrightarrow> (\<exists>r2 d2 c2. known_client D d1 = Some (r2, d2) \<and>
             cl_list (mg_clients (fst d2)) = (cl_list (mg_clients (fst d)))[i := c2] \<and> cl_name c2 = take CLIENT_NAME_LEN name \<and>
             cl_subscription c2 = lb_events c \<and> client_is_registered (Some c2) \<and> power_cmds (snd d2) = power_cmds (snd d)))))"
proof -
  obtain ts1 ts2 n1 n2 where s: "sent (snd s') = sent g @
      replicate n1 (Sock (X_send (lb_fd_socket c) (header_image (request_id E_MMGR_SET_NAME) ts1 (of_nat (length name)) @ name))) @
      replicate n2 (Sock (X_send (lb_fd_socket c) (header_image (request_id E_MMGR_SET_EVENTS) ts2 4 @ be_bytes (lb_events c))))"
    "0 < n1" "0 < n2" by (rule registering_client_sends [OF assms])
  let ?m1 = "header_image (request_id E_MMGR_SET_NAME) ts1 (of_nat (length name)) @ name"
  let ?m2 = "header_image (request_id E_MMGR_SET_EVENTS) ts2 4 @ be_bytes (lb_events c)"
  have name: "0 \<notin> set name" "length name < 2 ^ 32" using assms(5,7) set_takeWhileD by fastforce+
  have "\<exists>r d1. known_client D d = Some (r, d1) \<and>
      (delivers D fd ?m2 (snd d1) \<longrightarrow> (\<exists>r2 d2 c2. known_client D d1 = Some (r2, d2) \<and>
         cl_list (mg_clients (fst d2)) = (cl_list (mg_clients (fst d)))[i := c2] \<and> cl_name c2 = take CLIENT_NAME_LEN name \<and>
         cl_subscription c2 = lb_events c \<and> client_is_registered (Some c2) \<and> power_cmds (snd d2) = power_cmds (snd d)))"
    if d: "alloc_ok D" "base (fst d)" "event_fd (fst d) = Some fd" "client_find (mg_clients (fst d)) fd = Some i" "delivers D fd ?m1 (snd d)"
    for D d fd i
  proof -
    define c0 where "c0 = cl_list (mg_clients (fst d)) ! i"
    define c1 where "c1 = c0\<lparr>cl_name := take CLIENT_NAME_LEN name, cl_cnx := cl_cnx c0 OR E_CNX_NAME\<rparr>"
    define c2 where "c2 = c1\<lparr>cl_subscription := lb_events c, cl_cnx := cl_cnx c1 OR E_CNX_FILTER\<rparr>"
    obtain r rq h where 1: "known_client D d = Some (r, with_slot i c1 (fst d\<lparr>mg_request := rq\<rparr>), h)" "power_cmds h = power_cmds (snd d)"
      using daemon_names [OF d assms(6) name c0_def] unfolding c1_def by blast
    let ?d1 = "(with_slot i c1 (fst d\<lparr>mg_request := rq\<rparr>), h)"
    have i: "i < length (cl_list (mg_clients (fst d)))" "cl_fd c0 = fd" "fd \<noteq> CLOSED_FD"
      using d(4) find_slot_SomeD by (auto simp: client_find_def c0_def split: if_splits)
    have c: "cl_fd c1 = fd" using i(2) by (simp add: c1_def)
    have b: "base (fst ?d1)" "event_fd (fst ?d1) = Some fd" "c1 = cl_list (mg_clients (fst ?d1)) ! i"
      using d(2,3) clients_counted_update [of "mg_clients (fst d)" c1 i] i c by (simp_all add: base_def with_slot_def event_fd_def c0_def)
    have f: "client_find (mg_clients (fst ?d1)) fd = Some i"
      using d(4) i(3) find_slot_same [OF _ c] by (simp add: client_find_def with_slot_def)
    show ?thesis
    proof (rule exI [of _ r], rule exI [of _ ?d1], rule conjI [OF 1(1)], rule impI)
      assume "delivers D fd ?m2 (snd ?d1)"
      from daemon_subscribes [OF d(1) b(1,2) f this b(3)] obtain r2 rq2 h2 where
        2: "known_client D ?d1 = Some (r2, with_slot i c2 (fst ?d1\<lparr>mg_request := rq2\<rparr>), h2)" "power_cmds h2 = power_cmds (snd ?d1)"
        unfolding c2_def by blast
      have "client_is_registered (Some c2)"
        by (simp add: client_is_registered_def c2_def c1_def E_CNX_defs flag_simps bit_or_iff)
      then show "\<exists>r2 d2 c2. known_client D ?d1 = Some (r2, d2) \<and>
         cl_list (mg_clients (fst d2)) = (cl_list (mg_clients (fst d)))[i := c2] \<and> cl_name c2 = take CLIENT_NAME_LEN name \<and>
         cl_subscription c2 = lb_events c \<and> client_is_registered (Some c2) \<and> power_cmds (snd d2) = power_cmds (snd d)"
        using 1(2) 2 by (intro exI [of _ r2] exI [of _ "(with_slot i c2 (fst ?d1\<lparr>mg_request := rq2\<rparr>), h2)"] exI [of _ c2])
          (simp add: with_slot_def, simp add: c2_def c1_def)
    qed
  qed
  with s show ?thesis by blast
qed


lemma env_ack_settles:
  assumes "encodable c req payload" "\<not> lb_mtx_signal c" "0 < t"
  shows "\<exists>s'. send_msg env_ack no_peer (Some req) E_SEND_SINGLE t (c, h) = Some (E_ERR_CLI_SUCCEED, s') \<and> core (fst s') = core c \<and>
    \<not> lb_mtx_signal (fst s')"
proof -
  let ?c = "c\<lparr>lb_ack := event_id E_MMGR_NUM_EVENTS\<rparr>"
  from assms(1) env_ack_answers(6) obtain m ts h1 where m: "lb_set_msg c (request_of_id (ev_id req)) env_ack msg_empty req h = Some ((E_ERR_SUCCESS, m), h1)"
    "hdr_len (msg_hdr m) = of_nat (length payload)" "msg_data m = Some (header_image (ev_id req) ts (of_nat (length payload)) @ payload)"
    unfolding encodable_def by blast
  let ?xs = "header_image (ev_id req) ts (of_nat (length payload)) @ payload"
  have "unat (of_nat SIZE_HEADER + of_nat (length payload) :: u32) = length ?xs"
    using assms(1) by (simp add: encodable_def unat_word_ariths unat_of_nat SIZE_HEADER_def length_header_image)
  then have x: "mem_read ?xs 0 (unat (of_nat SIZE_HEADER + of_nat (length payload) :: u32)) = Some ?xs" by (simp add: mem_read_def)
  have w: "\<exists>h'. tty_wait_for_event env_ack fd n h = (E_ERR_SUCCESS, h')" for fd n h
    by (simp add: tty_wait_for_event_def tty_init_listener_def tty_listen_fd_def env_ack_answers EPOLLIN_def EPOLLHUP_def CLOSED_FD_def
        ext_defs Let_def)
  obtain h3 where 3: "tty_wait_for_event env_ack (lb_fd_socket c) (t * 1000) (Sock (X_send (lb_fd_socket c) ?xs) # Libc X_realtime # h1) =
      (E_ERR_SUCCESS, h3)" using w by blast
  let ?s4 = "(?c\<lparr>lb_ack := event_id E_MMGR_ACK, lb_mtx_signal := True\<rparr>, Sock (X_recv (lb_fd_socket c) SIZE_HEADER) # h3)"
  have "\<exists>s4 err. exchange_loop env_ack no_peer E_SEND_SINGLE (ev_id req) m 0 t 1 (?c, Libc X_realtime # h1) = Some ((E_ERR_CLI_SUCCEED, err), s4) \<and>
      core (fst s4) = core c \<and> err \<noteq> E_ERR_TTY_TIMEOUT"
    using assms(2) m(2,3) x 3 env_ack_reads
    by (subst exchange_loop.simps, cases "ev_id req = 7 \<or> ev_id req = 8")
      (auto simp: attempt_def free_msg_def free_ptr_def mutex_lock_def cnx_write_def xint_def xtime_def env_ack_answers wait_single_def set_ack_def fake_event_def msg_empty_def
        Let_def)
  then obtain s4 err where "exchange_loop env_ack no_peer E_SEND_SINGLE (ev_id req) m 0 t 1 (?c, Libc X_realtime # h1) = Some ((E_ERR_CLI_SUCCEED, err), s4)"
    "core (fst s4) = core c" "err \<noteq> E_ERR_TTY_TIMEOUT" by blast
  moreover have "\<not> 22 \<le> ev_id req" using assms(1) by (simp add: encodable_def not_le)
  ultimately show ?thesis
    using m(1) assms(3) by (simp add: send_msg_def set_ack_def xtime_def env_ack_answers mutex_unlock_def)
qed

definition name_example :: "byte list" where
  "name_example = cstr ''rild''"

lemma name_example_taken: "takeWhile (\<lambda>b. b \<noteq> 0) (lb_cli_name lib_example) = name_example"
  by (simp add: lib_example_fields name_example_def cstr_def)

lemma example_registers: "\<exists>s'. register_client env_ack (lib_example, []) = Some (E_ERR_CLI_SUCCEED, s')"
proof -
  let ?name = "\<lparr>ev_id = request_id E_MMGR_SET_NAME, ev_len = of_nat (length name_example), ev_data = D_bytes (lb_cli_name lib_example), ev_context = 0\<rparr>"
  let ?filter = "\<lparr>ev_id = request_id E_MMGR_SET_EVENTS, ev_len = 4, ev_data = D_int (lb_events lib_example), ev_context = 0\<rparr>"
  have "name_example \<noteq> []" "length name_example + SIZE_HEADER < 2 ^ 32" by (simp_all add: name_example_def cstr_def SIZE_HEADER_def)
  then have e: "encodable lib_example ?name name_example"
    using name_encodable [OF lib_example_fields(1) name_example_taken [symmetric]] by simp
  obtain s1 where 1: "send_msg env_ack no_peer (Some ?name) E_SEND_SINGLE DEF_MMGR_RESPONSIVE_TIMEOUT (lib_example, [Libc X_realtime]) =
      Some (E_ERR_CLI_SUCCEED, s1)" "core (fst s1) = core lib_example" "\<not> lb_mtx_signal (fst s1)"
    using env_ack_settles [OF e lib_example_fields(3), of DEF_MMGR_RESPONSIVE_TIMEOUT "[Libc X_realtime]"]
    by (auto simp: DEF_MMGR_RESPONSIVE_TIMEOUT_def)
  have "encodable (fst s1) ?filter (be_bytes (lb_events lib_example))"
    using filter_encodable coreD(5) [OF 1(2)] lib_example_fields(1) by simp
  then obtain s2 where "send_msg env_ack no_peer (Some ?filter) E_SEND_SINGLE DEF_MMGR_RESPONSIVE_TIMEOUT (fst s1, Libc X_realtime # snd s1) =
      Some (E_ERR_CLI_SUCCEED, s2)"
    using env_ack_settles [of "fst s1" ?filter "be_bytes (lb_events lib_example)" DEF_MMGR_RESPONSIVE_TIMEOUT "Libc X_realtime # snd s1"] 1(3)
    by (auto simp: DEF_MMGR_RESPONSIVE_TIMEOUT_def)
  with 1(1) show ?thesis
    by (simp add: register_client_def xtime_def env_ack_answers name_example_taken)
qed

theorem registration_end_to_end_witness:
  "\<exists>s' m1 m2 n1 n2. register_client env_ack (lib_example, []) = Some (E_ERR_CLI_SUCCEED, s') \<and>
     sent (snd s') = replicate n1 (Sock (X_send 5 m1)) @ replicate n2 (Sock (X_send 5 m2)) \<and> 0 < n1 \<and> 0 < n2"
proof -
  obtain s' where r: "register_client env_ack (lib_example, []) = Some (E_ERR_CLI_SUCCEED, s')" using example_registers by blast
  have c: "clock_monotone env_ack" by (simp add: clock_monotone_def env_ack_answers)
  have n: "name_example \<noteq> []" "length name_example + SIZE_HEADER < 2 ^ 32" by (simp_all add: name_example_def cstr_def SIZE_HEADER_def)
  from registration_end_to_end [OF env_ack_answers(6) c lib_example_fields(3,1) name_example_taken [symmetric] n r]
  obtain m1 m2 n1 n2 where "sent (snd s') = sent [] @ replicate n1 (Sock (X_send (lb_fd_socket lib_example) m1)) @
      replicate n2 (Sock (X_send (lb_fd_socket lib_example) m2))" "0 < n1" "0 < n2" by blast
  with r lib_example_fields(5) show ?thesis by (auto simp: sent_def)
qed

end
