(* ===== verification/Modem_Dialogue.thy ===== *)
theory Modem_Dialogue
  imports Modem_Info
begin

text \<open>
  What the dialogue with the modem amounts to: the wake-up configuration is what the lines of the modem's answer say, however the
  answer is cut into pieces, and a modem that was switched to the multiplexer acknowledged the command on the channel that is then
  used.
\<close>

section \<open>Answers in pieces\<close>

lemma strstr_append: "strstr s pat = Some r \<Longrightarrow> length pat \<le> length s \<Longrightarrow> strstr (s @ t) pat = Some (r @ t)"
proof (induction s)
  case (Cons c s)
  show ?case
  proof (cases "take (length pat) (c # s) = pat")
    case True
    with Cons.prems show ?thesis by (auto simp: take_Cons')
  next
    case False
    with Cons.prems have s: "strstr s pat = Some r" by simp
    obtain p where "s = p @ r" "take (length pat) r = pat" using strstr_suffix [OF s] by blast
    then have "length pat \<le> length s" by (metis length_append length_take min.absorb_iff2 trans_le_add2)
    moreover have "take (length pat) (c # s @ t) \<noteq> pat"
      using False Cons.prems(2) by (metis append_Cons take_append append_Nil2 diff_is_0_eq take0)
    ultimately show ?thesis using Cons.IH [OF s] by simp
  qed
qed (cases t, auto)

lemma next_line_append:
  assumes "next_line a = Some (l, r)"
  shows "next_line (a @ b) = Some (l, r @ b)"
proof -
  obtain t where t: "strstr a CRLF = Some t" "l = take (length a - length t) a" "r = drop (length CRLF) t"
    using assms by (auto simp: next_line_def)
  obtain p where p: "a = p @ t" "take (length CRLF) t = CRLF" using strstr_suffix [OF t(1)] by blast
  then have "length CRLF \<le> length t" by (metis length_take min.absorb_iff2)
  moreover from this p have "strstr (a @ b) CRLF = Some (t @ b)" by (intro strstr_append [OF t(1)]) simp
  ultimately show ?thesis using t(2,3) p by (simp add: next_line_def)
qed

lemma wakeup_pieces:
  "wakeup_lines (a @ b) cfg =
     (case wakeup_lines a cfg of (ended, cfg', rest) \<Rightarrow>
        if ended then (True, cfg', rest @ b) else wakeup_lines (rest @ b) cfg')"
proof (induction a cfg rule: wakeup_lines.induct)
  case (1 a cfg)
  show ?case
  proof (cases "next_line a")
    case None
    then show ?thesis by (simp add: wakeup_lines.simps [of a cfg])
  next
    case (Some x)
    obtain l r where x: "x = (l, r)" by fastforce
    with Some 1 next_line_append [of a l r b] show ?thesis
      by (auto simp: wakeup_lines.simps [of a cfg] wakeup_lines.simps [of "a @ b" cfg])
  qed
qed

lemma cd_pieces:
  "cd_lines parse (a @ b) ret h =
     (case cd_lines parse a ret h of ((ended, ret', rest), h1) \<Rightarrow>
        if ended then ((True, ret', rest @ b), h1) else cd_lines parse (rest @ b) ret' h1)"
proof (induction parse a ret h rule: cd_lines.induct)
  case (1 parse a ret h)
  show ?case
  proof (cases "next_line a")
    case None
    then show ?thesis by (simp add: cd_lines.simps [of parse a ret h])
  next
    case (Some x)
    obtain l r where x: "x = (l, r)" by fastforce
    obtain res h1 where p: "parse l h = (res, h1)" by fastforce
    from Some x p 1 next_line_append [of a l r b] show ?thesis
      by (auto simp: cd_lines.simps [of parse a ret h] cd_lines.simps [of parse "a @ b" ret h])
  qed
qed

text \<open>The reference: the complete lines of a text, those before the end of the answer, and what they say.\<close>

function complete_lines :: "string \<Rightarrow> string list" where
  "complete_lines s = (case next_line s of None \<Rightarrow> [] | Some (l, r) \<Rightarrow> l # complete_lines r)"
  by pat_completeness auto
termination
  by (relation "measure length") (auto dest: next_line_less)

declare complete_lines.simps [simp del]

definition answer_lines :: "string \<Rightarrow> string list" where
  "answer_lines s = takeWhile (\<lambda>l. l \<notin> {''OK'', ''ERROR''}) (complete_lines s)"

definition config_of :: "e_mdm_wakeup_cfg \<Rightarrow> string list \<Rightarrow> e_mdm_wakeup_cfg" where
  "config_of cfg ls =
     (case rev (filter (\<lambda>l. strstr l ''current_configuration'' \<noteq> None) ls) of
        [] \<Rightarrow> cfg
      | l # _ \<Rightarrow> if strstr l ''NO_REMOTE_WAKEUP'' \<noteq> None then E_MDM_WAKEUP_OUTBAND else E_MDM_WAKEUP_INBAND)"

lemma config_of_Cons:
  "config_of cfg (l # ls) =
     config_of (if strstr l ''current_configuration'' \<noteq> None
                then if strstr l ''NO_REMOTE_WAKEUP'' \<noteq> None then E_MDM_WAKEUP_OUTBAND else E_MDM_WAKEUP_INBAND
                else cfg) ls"
  by (simp add: config_of_def split: list.splits)

lemma wakeup_lines_spec: "fst (snd (wakeup_lines s cfg)) = config_of cfg (answer_lines s)"
proof (induction s cfg rule: wakeup_lines.induct)
  case (1 s cfg)
  show ?case
  proof (cases "next_line s")
    case None
    then show ?thesis
      by (simp add: wakeup_lines.simps [of s] answer_lines_def complete_lines.simps [of s] config_of_def)
  next
    case (Some x)
    obtain l r where x: "x = (l, r)" by fastforce
    show ?thesis
    proof (cases "l = ''OK'' \<or> l = ''ERROR''")
      case True
      with Some x have "answer_lines s = []" by (auto simp: answer_lines_def complete_lines.simps [of s])
      with True Some x show ?thesis by (simp add: wakeup_lines.simps [of s] config_of_def)
    next
      case False
      with Some x have "answer_lines s = l # answer_lines r"
        by (simp add: answer_lines_def complete_lines.simps [of s])
      with 1 [OF Some x [symmetric] False] Some x False show ?thesis
        by (simp add: wakeup_lines.simps [of s] config_of_Cons)
    qed
  qed
qed

text \<open>What the modem said so far on a channel.\<close>

fun heard :: "env \<Rightarrow> int \<Rightarrow> history \<Rightarrow> string" where
  "heard E fd [] = []"
| "heard E fd (c # h) = heard E fd h @
     (case c of File (X_read fd' n) \<Rightarrow>
        if fd' = fd \<and> env_int E (c # h) \<ge> 0 then buffer_string (take n (env_bytes E (c # h))) else []
      | _ \<Rightarrow> [])"

lemma heard_write [simp]: "heard E fd (snd (tty_write E fd' data h)) = heard E fd h"
proof (induction E fd' data h rule: tty_write.induct)
  case (1 E fd' data h)
  have "heard E fd (snd (sys_write E fd' data h)) = heard E fd h" by (simp add: sys_write_def ext_defs case_prod_unfold Let_def)
  with 1 show ?case by (simp add: tty_write.simps [of E fd' data h] case_prod_unfold Let_def)
qed

lemma heard_flush [simp]: "heard E fd (tcflush_io fd' h) = heard E fd h"
  by (simp add: tcflush_io_def xcall_def)

lemma heard_wait [simp]: "heard E fd (snd (tty_wait_for_event E fd' t h)) = heard E fd h"
  by (simp add: tty_wait_for_event_def tty_init_listener_def tty_listen_fd_def ext_defs case_prod_unfold Let_def)

lemma heard_read:
  assumes "tty_read E fd n 1 h = ((E_ERR_SUCCESS, buf, k), h')"
  shows "heard E fd h' = heard E fd h @ buffer_string (take k buf)"
  using assms
  by (auto simp: tty_read_def sys_read_def xcall_def buffer_string_def min_def Let_def split: if_splits)

lemma heard_read_failed:
  assumes "tty_read E fd n 1 h = ((err, buf, k), h')" "err \<noteq> E_ERR_SUCCESS"
  shows "heard E fd h' = heard E fd h"
  using assms
  by (auto simp: tty_read_def sys_read_def xcall_def buffer_string_def Let_def split: if_splits)

lemma wakeup_rest: "wakeup_lines s cfg = (False, c, r) \<Longrightarrow> next_line r = None"
proof (induction s cfg rule: wakeup_lines.induct)
  case (1 s cfg)
  then show ?case by (auto simp: wakeup_lines.simps [of s cfg] split: option.splits if_splits)
qed

text \<open>A step of the loop: a further piece of the answer.\<close>

lemma wakeup_step:
  assumes "next_line pending = None" "wakeup_lines (pending @ piece) cfg = (ended, cfg', rest)"
  shows "ended \<Longrightarrow> config_of cfg (answer_lines (pending @ piece)) = cfg'"
    and "\<not> ended \<Longrightarrow> next_line rest = None \<and>
      config_of cfg (answer_lines (pending @ piece @ t)) = config_of cfg' (answer_lines (rest @ t))"
proof -
  show "ended \<Longrightarrow> config_of cfg (answer_lines (pending @ piece)) = cfg'"
    using assms(2) by (simp flip: wakeup_lines_spec)
  assume "\<not> ended"
  with assms(2) wakeup_pieces [of "pending @ piece" t cfg] wakeup_rest
  show "next_line rest = None \<and>
      config_of cfg (answer_lines (pending @ piece @ t)) = config_of cfg' (answer_lines (rest @ t))"
    by (auto simp flip: wakeup_lines_spec)
qed

lemma wakeup_loop_spec:
  assumes "wakeup_loop E fd start inner pending cfg h = Some p"
  shows "next_line pending = None \<longrightarrow>
    (\<exists>t. heard E fd (snd p) = heard E fd h @ t \<and> fst p = config_of cfg (answer_lines (pending @ t)))"
proof (rule wakeup_loop.raw_induct [OF _ assms], goal_cases)
  case (1 f E fd start inner pending cfg h p)
  define goal where "goal \<longleftrightarrow> (\<exists>t. heard E fd (snd p) = heard E fd h @ t \<and> fst p = config_of cfg (answer_lines (pending @ t)))"
  have quiet: "goal" if "heard E fd (snd p) = heard E fd h" "fst p = cfg" "next_line pending = None"
    using that by (simp add: goal_def answer_lines_def complete_lines.simps [of pending] config_of_def)
  have again: "goal" if "f E fd start i pending cfg h' = Some p" "heard E fd h' = heard E fd h" "next_line pending = None" for i h'
    using 1(1) [OF that(1)] that(2,3) by (simp add: goal_def)
  show ?case
  proof (rule impI, fold goal_def)
    assume n: "next_line pending = None"
    show goal
    proof (cases inner)
      case False
      then show ?thesis
        using 1(2) quiet again n by (auto simp: xtime_def case_prod_unfold Let_def split: if_splits)
    next
      case True
      let ?r = "tty_read E fd (nat (int AT_STREAMLINE_REPLY_SIZE - int (length pending))) 1 h"
      obtain err buf k h1 where r: "?r = ((err, buf, k), h1)" by (metis prod.exhaust)
      define piece where "piece = buffer_string (take k buf)"
      obtain ended cfg' rest where w: "wakeup_lines (pending @ piece) cfg = (ended, cfg', rest)" by (metis prod.exhaust)
      show ?thesis
      proof (cases "int AT_STREAMLINE_REPLY_SIZE - int (length pending) \<le> 0 \<or> err \<noteq> E_ERR_SUCCESS \<or> k = 0")
        case nothing: True
        moreover have "heard E fd h1 = heard E fd h" if "err \<noteq> E_ERR_SUCCESS \<or> k = 0"
          using that heard_read_failed [OF r] heard_read [of E fd _ h buf k h1] r
          by (cases "err = E_ERR_SUCCESS") (auto simp: buffer_string_def)
        ultimately show ?thesis
          using 1(2) True r quiet again n by (auto simp: Let_def split: if_splits)
      next
        case False
        then have h1: "heard E fd h1 = heard E fd h @ piece" using heard_read [of E fd _ h buf k h1] r by (simp add: piece_def)
        show ?thesis
        proof (cases ended)
          case True
          then have "p = (cfg', h1)" using 1(2) \<open>inner\<close> False r w by (simp add: piece_def)
          with h1 wakeup_step(1) [OF n w True] show ?thesis by (auto simp: goal_def)
        next
          case cont: False
          then have "f E fd start True rest cfg' h1 = Some p" using 1(2) \<open>inner\<close> False r w by (simp add: piece_def)
          from 1(1) [OF this] wakeup_step(2) [OF n w cont] h1 show ?thesis
            by (auto simp: goal_def)
        qed
      qed
    qed
  qed
qed

lemma wakeup_cfg_of_answer:
  assumes "get_wakeup_cfg E fd h = Some (cfg, h')"
  shows "\<exists>answer. heard E fd h' = heard E fd h @ answer \<and> cfg = config_of E_MDM_WAKEUP_UNKNOWN (answer_lines answer)"
proof (cases "fst (tty_write E fd (cstr AT_STREAMLINE_GET) (tcflush_io fd h)) = E_ERR_SUCCESS")
  case False
  with assms show ?thesis
    by (auto simp: get_wakeup_cfg_def case_prod_unfold Let_def answer_lines_def complete_lines.simps [of "[]"] next_line_def
        CRLF_def config_of_def intro!: exI [of _ "[]"])
next
  case True
  let ?h2 = "Libc X_boottime # snd (tty_write E fd (cstr AT_STREAMLINE_GET) (tcflush_io fd h))"
  obtain start h3 where w: "wakeup_loop E fd start False [] E_MDM_WAKEUP_UNKNOWN ?h2 = Some (cfg, h3)" "h' = tcflush_io fd h3"
    using assms True by (auto simp: get_wakeup_cfg_def xtime_def case_prod_unfold Let_def bind_eq_Some_conv)
  have "next_line [] = None" by (simp add: next_line_def CRLF_def)
  with wakeup_loop_spec [OF w(1)] w(2) show ?thesis by simp
qed

text \<open>The question comes back.\<close>

fun is_read :: "ext \<Rightarrow> bool" where
  "is_read (File (X_read _ _)) = True"
| "is_read _ = False"

text \<open>
  The modem falls silent after some reads, and the clock of the system runs: any \<open>n\<close> calls take three seconds.
\<close>

definition falls_silent :: "env \<Rightarrow> int \<Rightarrow> nat \<Rightarrow> bool" where
  "falls_silent E fd n \<longleftrightarrow> (\<forall>h k. n \<le> length (filter is_read h) \<longrightarrow> env_bytes E (File (X_read fd k) # h) = [])"

definition clock_runs :: "env \<Rightarrow> nat \<Rightarrow> bool" where
  "clock_runs E n \<longleftrightarrow> (\<forall>h. 0 \<le> tv_nsec (env_time E h) \<and> tv_nsec (env_time E h) < 1000000000) \<and>
     (\<forall>h cs. n \<le> length cs \<longrightarrow> tv_sec (env_time E h) + 3 \<le> tv_sec (env_time E (cs @ h)))"

lemma min_nothing: "min (length xs) n = 0 \<longleftrightarrow> xs = [] \<or> n = 0"
  by (cases xs) (auto simp: min_def)

lemma read_once:
  "tty_read E fd m (Suc 0) h =
     (let h1 = File (X_read fd m) # h; bs = take m (env_bytes E h1) in
      if env_int E h1 < 0 then ((if env_errno E h1 = EBADF then E_ERR_TTY_BAD_FD else E_ERR_FAILED, replicate m 0, m), h1)
      else ((E_ERR_SUCCESS, bs @ replicate (m - length bs) 0, length bs), if bs = [] then Libc (X_usleep 20000) # h1 else h1))"
  by (auto simp: tty_read_def sys_read_def xcall_def min_nothing Let_def)

lemma time_is_up:
  assumes "clock_runs E n" "n \<le> length cs"
  shows "AT_STREAMLINE_TIMEOUT < (tv_sec (env_time E (cs @ h)) - tv_sec (env_time E h)) * 1000 +
    tdiv (tv_nsec (env_time E (cs @ h)) - tv_nsec (env_time E h)) 1000000"
proof -
  have "tdiv a 1000000 \<ge> - 1000" if "a \<ge> - 1000000000" for a :: int
    using that by (cases a "0 :: int" rule: linorder_cases) (auto simp: tdiv_def)
  moreover have "tv_nsec (env_time E (cs @ h)) - tv_nsec (env_time E h) \<ge> - 1000000000"
    using assms(1) unfolding clock_runs_def by (smt (verit))
  moreover have "tv_sec (env_time E h) + 3 \<le> tv_sec (env_time E (cs @ h))" using assms by (simp add: clock_runs_def)
  ultimately show ?thesis unfolding AT_STREAMLINE_TIMEOUT_def by (smt (verit))
qed

lemma wait_history: "\<exists>cs. snd (tty_wait_for_event E fd t h) = cs @ h"
  using plain_tty_wait [OF only_refl] unfolding only_def by blast

text \<open>Each turn of the loop reads a further piece, or lets time pass.\<close>

lemma wakeup_loop_ends:
  assumes "falls_silent E fd n" "clock_runs E m"
  shows "\<exists>p. wakeup_loop E fd (env_time E h0) inner pending cfg (cs @ h0) = Some p"
proof (induction "2 * (Suc m - length cs) + (n - length (filter is_read (cs @ h0))) + (if inner then 1 else 0)"
    arbitrary: inner pending cfg cs rule: less_induct)
  case less
  show ?case
  proof (cases inner)
    case False
    let ?h1 = "Libc X_boottime # cs @ h0"
    let ?t = "AT_STREAMLINE_TIMEOUT - ((tv_sec (env_time E ?h1) - tv_sec (env_time E h0)) * 1000 +
      tdiv (tv_nsec (env_time E ?h1) - tv_nsec (env_time E h0)) 1000000)"
    show ?thesis
    proof (cases "?t < 0")
      case True
      with False show ?thesis by (subst wakeup_loop.simps) (simp add: xtime_def)
    next
      case wait: False
      then have "length cs < m" using time_is_up [OF assms(2), of "Libc X_boottime # cs" h0] by force
      moreover obtain ds where "snd (tty_wait_for_event E fd ?t ?h1) = ds @ ?h1" using wait_history by blast
      moreover have "\<exists>p. wakeup_loop E fd (env_time E h0) True pending cfg ((ds @ Libc X_boottime # cs) @ h0) = Some p" for ds
        using \<open>length cs < m\<close> False by (intro less) simp
      ultimately show ?thesis
        using False wait by (subst wakeup_loop.simps) (auto simp: xtime_def case_prod_unfold Let_def)
    qed
  next
    case True
    let ?room = "AT_STREAMLINE_REPLY_SIZE - length pending"
    let ?h1 = "File (X_read fd ?room) # cs @ h0"
    let ?bs = "take ?room (env_bytes E ?h1)"
    have "\<exists>p. wakeup_loop E fd (env_time E h0) False pending cfg ((Libc (X_usleep 20000) # File (X_read fd ?room) # cs) @ h0) = Some p"
      using True by (intro less) (simp, linarith?)
    moreover have "\<exists>p. wakeup_loop E fd (env_time E h0) True pending' cfg' ((File (X_read fd ?room) # cs) @ h0) = Some p"
      if "?bs \<noteq> []" for pending' cfg'
    proof -
      have "length (filter is_read (cs @ h0)) < n" using assms(1) that by (fastforce simp: falls_silent_def not_le [symmetric])
      then show ?thesis using True by (intro less) (simp, linarith?)
    qed
    ultimately show ?thesis
      using True by (subst wakeup_loop.simps) (auto simp: read_once min_nothing nat_diff_distrib Let_def split: prod.split)
  qed
qed

lemma get_wakeup_cfg_returns:
  assumes "falls_silent E fd n" "clock_runs E m"
  shows "get_wakeup_cfg E fd h \<noteq> None"
proof -
  let ?h2 = "Libc X_boottime # snd (tty_write E fd (cstr AT_STREAMLINE_GET) (tcflush_io fd h))"
  obtain p where "wakeup_loop E fd (env_time E ?h2) False [] E_MDM_WAKEUP_UNKNOWN ?h2 = Some p"
    using wakeup_loop_ends [OF assms, of ?h2 False "[]" E_MDM_WAKEUP_UNKNOWN "[]"] by (metis append_Nil)
  then show ?thesis by (cases p) (simp add: get_wakeup_cfg_def xtime_def case_prod_unfold Let_def)
qed

text \<open>
  C22: The wake-up configuration is what the modem's answer says, however the answer arrives. The text read from the
  channel after the question is cut into lines at its separators, wherever the pieces of the reads begin and end; the
  lines before the first \<^verbatim>\<open>OK\<close> or \<^verbatim>\<open>ERROR\<close> count, and the last of them that names the current
  configuration decides. An incomplete last line does not count, and with no such line the configuration is unknown. The question always gets a result if the modem
  falls silent in the end and the clock runs: neither alone is enough, as the time is not looked at while the modem sends.
\<close>

theorem wakeup_cfg_answer:
  "(get_wakeup_cfg E fd h = Some (cfg, h') \<longrightarrow>
     (\<exists>answer. heard E fd h' = heard E fd h @ answer \<and> cfg = config_of E_MDM_WAKEUP_UNKNOWN (answer_lines answer))) \<and>
   (falls_silent E fd n \<and> clock_runs E m \<longrightarrow> (\<exists>cfg h'. get_wakeup_cfg E fd h = Some (cfg, h')))"
  using wakeup_cfg_of_answer get_wakeup_cfg_returns by (metis not_None_eq surj_pair)

text \<open>An answer in two pieces, cut between the two characters of a separator.\<close>

definition env_answer :: env where
  "env_answer = env_ok\<lparr>env_int := (\<lambda>h. case h of File (X_write _ bs) # _ \<Rightarrow> int (length bs) | _ \<Rightarrow> 1),
     env_int2 := (\<lambda>_. 1), env_bytes := (\<lambda>h. if length (filter is_read h) = 1
       then cstr (''current_configuration: NO_REMOTE_WAKEUP'' @ [CR]) else cstr ([LF] @ ''OK'' @ CRLF))\<rparr>"

lemma env_answer_wait:
  "\<exists>h'. tty_wait_for_event env_answer fd t h = (E_ERR_SUCCESS, h') \<and> filter is_read h' = filter is_read h"
  by (simp add: tty_wait_for_event_def tty_init_listener_def tty_listen_fd_def env_answer_def EPOLLIN_def EPOLLHUP_def
      CLOSED_FD_def ext_defs Let_def)

lemma env_answer_read:
  assumes "h0 = File (X_read fd n) # h" "env_bytes env_answer h0 = bs" "bs \<noteq> []" "length bs \<le> n"
  shows "tty_read env_answer fd n 1 h = ((E_ERR_SUCCESS, bs @ replicate (n - length bs) 0, length bs), h0)"
proof -
  have "env_int env_answer h0 = 1" by (simp add: assms(1) env_answer_def)
  with assms show ?thesis by (simp add: tty_read_def sys_read_def Let_def)
qed

lemma env_answer_write:
  "\<exists>h'. tty_write env_answer fd bs h = (E_ERR_SUCCESS, h') \<and> filter is_read h' = filter is_read h" if "bs \<noteq> []"
  using that by (subst tty_write.simps) (simp add: sys_write_def env_answer_def ext_defs Let_def)

lemma env_answer_lines:
  "wakeup_lines (''current_configuration: NO_REMOTE_WAKEUP'' @ [CR]) E_MDM_WAKEUP_UNKNOWN =
     (False, E_MDM_WAKEUP_UNKNOWN, ''current_configuration: NO_REMOTE_WAKEUP'' @ [CR])"
  "wakeup_lines (''current_configuration: NO_REMOTE_WAKEUP'' @ [CR] @ [LF] @ ''OK'' @ CRLF) E_MDM_WAKEUP_UNKNOWN =
     (True, E_MDM_WAKEUP_OUTBAND, [])"
  by code_simp+


lemma env_answer_texts:
  defines "a \<equiv> cstr (''current_configuration: NO_REMOTE_WAKEUP'' @ [CR])" and "b \<equiv> cstr ([LF] @ ''OK'' @ CRLF)"
  shows "length a = 40" "length b = 5" "buffer_string a = ''current_configuration: NO_REMOTE_WAKEUP'' @ [CR]"
    "buffer_string b = [LF] @ ''OK'' @ CRLF"
  unfolding a_def b_def by code_simp+

text \<open>A modem that says nothing.\<close>

definition env_clock :: env where
  "env_clock = env_ok\<lparr>env_time := (\<lambda>h. \<lparr>tv_sec = 3 * int (length h), tv_nsec = 0\<rparr>), env_bytes := (\<lambda>_. [])\<rparr>"

theorem wakeup_cfg_answer_witness:
  "(\<exists>h'. get_wakeup_cfg env_answer 5 [] = Some (E_MDM_WAKEUP_OUTBAND, h') \<and>
     config_of E_MDM_WAKEUP_UNKNOWN (answer_lines (heard env_answer 5 h')) = E_MDM_WAKEUP_OUTBAND) \<and>
   (\<exists>cfg h'. get_wakeup_cfg env_clock 5 [] = Some (cfg, h'))"
proof -
  let ?a = "cstr (''current_configuration: NO_REMOTE_WAKEUP'' @ [CR])" and ?b = "cstr ([LF] @ ''OK'' @ CRLF)"
  have "cstr AT_STREAMLINE_GET \<noteq> []" by (simp add: cstr_def AT_STREAMLINE_GET_def)
  then obtain h1 where 1: "tty_write env_answer 5 (cstr AT_STREAMLINE_GET) (tcflush_io 5 []) = (E_ERR_SUCCESS, h1)"
    "filter is_read h1 = []" using env_answer_write [of "cstr AT_STREAMLINE_GET" 5 "tcflush_io 5 []"] by (auto simp: tcflush_io_def xcall_def)
  let ?h2 = "Libc X_boottime # Libc X_boottime # h1"
  obtain h3 where 3: "tty_wait_for_event env_answer 5 1000 ?h2 = (E_ERR_SUCCESS, h3)" "filter is_read h3 = []"
    using env_answer_wait [of 5 1000 ?h2] 1(2) by auto
  let ?h4 = "File (X_read 5 2048) # h3" let ?h5 = "File (X_read 5 2008) # ?h4"
  have "env_bytes env_answer ?h4 = ?a" "env_bytes env_answer ?h5 = ?b" using 3(2) by (simp_all add: env_answer_def)
  then have r: "tty_read env_answer 5 2048 1 h3 = ((E_ERR_SUCCESS, ?a @ replicate (2048 - 40) 0, 40), ?h4)"
    "tty_read env_answer 5 2008 1 ?h4 = ((E_ERR_SUCCESS, ?b @ replicate (2008 - 5) 0, 5), ?h5)"
    using env_answer_read [OF refl, of 5 2048 h3 ?a] env_answer_read [OF refl, of 5 2008 ?h4 ?b] env_answer_texts(1,2)
    by (auto simp: cstr_def)
  have t: "env_time env_answer h = \<lparr>tv_sec = 0, tv_nsec = 0\<rparr>" for h by (simp add: env_answer_def env_ok_def)
  have "wakeup_loop env_answer 5 \<lparr>tv_sec = 0, tv_nsec = 0\<rparr> False [] E_MDM_WAKEUP_UNKNOWN (Libc X_boottime # h1) =
      Some (E_MDM_WAKEUP_OUTBAND, ?h5)"
    using 3(1) r env_answer_texts env_answer_lines
    by (subst wakeup_loop.simps, subst wakeup_loop.simps, subst wakeup_loop.simps)
      (simp add: xtime_def t AT_STREAMLINE_TIMEOUT_def AT_STREAMLINE_REPLY_SIZE_def tdiv_def)
  then have g: "get_wakeup_cfg env_answer 5 [] = Some (E_MDM_WAKEUP_OUTBAND, tcflush_io 5 ?h5)"
    using 1(1) by (simp add: get_wakeup_cfg_def xtime_def t)
  have "falls_silent env_clock 5 0" "clock_runs env_clock 1"
    by (simp_all add: falls_silent_def clock_runs_def env_clock_def)
  with wakeup_cfg_answer [of env_answer 5 "[]" E_MDM_WAKEUP_OUTBAND] wakeup_cfg_answer [of env_clock 5 "[]"] g show ?thesis
    by fastforce
qed

section \<open>A modem that is switched to the multiplexer\<close>

text \<open>The last thing that happened on the channel: the modem's answer contained \<^verbatim>\<open>OK\<close>, and the rest was flushed.\<close>

definition acknowledged :: "env \<Rightarrow> int \<Rightarrow> history \<Rightarrow> bool" where
  "acknowledged E fd h \<longleftrightarrow>
     (\<exists>h0 buf n h1. tty_read E fd AT_READ_SIZE AT_READ_MAX_RETRIES h0 = ((E_ERR_SUCCESS, buf, n), h1) \<and>
        strstr (buffer_string (take n buf)) ''OK'' \<noteq> None \<and> h = tcflush_in fd h1)"

lemma answer_loop_ok:
  assumes "answer_loop E fd t h = Some p"
  shows "fst p = E_ERR_SUCCESS \<longrightarrow> acknowledged E fd (snd p)"
proof (rule answer_loop.raw_induct [OF _ assms], goal_cases)
  case (1 f E fd t h p)
  obtain ret h1 where w: "tty_wait_for_event E fd t h = (ret, h1)" by fastforce
  obtain ret2 buf n h2 where r: "tty_read E fd AT_READ_SIZE AT_READ_MAX_RETRIES h1 = ((ret2, buf, n), h2)" by (metis prod.exhaust)
  have "acknowledged E fd (tcflush_in fd h2)" if "ret2 = E_ERR_SUCCESS" "strstr (buffer_string (take n buf)) ''OK'' \<noteq> None"
    using r that unfolding acknowledged_def by blast
  with 1(2) 1(1) show ?case by (auto simp: w r Let_def split: if_splits)
qed

lemma send_at_retry_ok:
  assumes "send_at_retry E fd cmd k t h = Some (E_ERR_SUCCESS, h')" "t \<noteq> AT_ANSWER_NO_TIMEOUT"
  shows "acknowledged E fd h'"
proof -
  have once: "send_at E fd cmd t h = Some (E_ERR_SUCCESS, h') \<Longrightarrow> acknowledged E fd h'" for h
    using assms(2) answer_loop_ok
    by (fastforce simp: send_at_def case_prod_unfold Let_def split: if_splits)
  have "at_attempts E fd cmd t n ret h = Some (E_ERR_SUCCESS, h') \<Longrightarrow> n > 0 \<or> ret \<noteq> E_ERR_SUCCESS \<Longrightarrow> acknowledged E fd h'" for n ret h
    by (induction n arbitrary: ret h) (auto simp: bind_eq_Some_conv split: if_splits dest: once)
  with assms(1) show ?thesis unfolding send_at_retry_def by blast
qed

lemma mux_loop_ends_with_cmux:
  "mux_loop E path bb mux st d fd wk h = Some ((E_ERR_SUCCESS, fd', wk'), h') \<Longrightarrow> st \<noteq> E_MUX_DRIVER \<Longrightarrow>
     \<exists>h0. only plain h h0 \<and> send_at_cmux E fd' mux h0 = Some (E_ERR_SUCCESS, h')"
proof (induction st d fd wk h rule: mux_loop_induct)
  case (1 st d fd wk h)
  obtain ret w1 h1 where s: "mux_step E bb mux st fd wk h = Some (ret, w1, h1)"
    using "1.prems" by (auto simp: mux_loop.simps [of E path bb mux st d] split: option.splits)
  have h1: "only plain h h1" using plain_mux_step [of h h E bb mux st fd wk] s by simp
  consider (driver) "ret = E_ERR_SUCCESS" "mux_next st = E_MUX_DRIVER" | (step) "ret = E_ERR_SUCCESS" "mux_next st \<noteq> E_MUX_DRIVER"
    | (reopen) "ret \<noteq> E_ERR_SUCCESS" by blast
  then show ?case
  proof cases
    case driver
    then have "st = E_MUX_AT_CMD" using "1.prems"(2) by (cases st) auto
    moreover have "fd' = fd" "h' = h1"
      using driver s "1.prems" by (auto simp: mux_loop.simps [of E path bb mux st d] mux_loop.simps [of E path bb mux E_MUX_DRIVER])
    ultimately have "send_at_cmux E fd' mux h = Some (E_ERR_SUCCESS, h')"
      using s driver by (auto simp: mux_step_def bind_eq_Some_conv)
    then show ?thesis by (intro exI [of _ h]) simp
  next
    case step
    with s "1.prems" have "mux_loop E path bb mux (mux_next st) d fd w1 h1 = Some ((E_ERR_SUCCESS, fd', wk'), h')"
      by (simp add: mux_loop.simps [of E path bb mux st d])
    from "1.IH"(1) [OF "1.prems"(2) this step(2)] h1 show ?thesis by (blast intro: only_trans)
  next
    case reopen
    let ?c = "tty_close E fd h1" let ?o = "tty_open E path (snd (fst ?c)) (snd ?c)"
    have "only plain h (snd ?o)" using h1 by (simp add: plain_rules)
    moreover have "\<not> d" "mux_loop E path bb mux st True (snd (fst ?o)) w1 (snd ?o) = Some ((E_ERR_SUCCESS, fd', wk'), h')"
      using reopen s "1.prems" by (auto simp: mux_loop.simps [of E path bb mux st d] case_prod_unfold Let_def split: if_splits)
    ultimately show ?thesis using "1.IH"(2) "1.prems"(2) by (blast intro: only_trans)
  qed
qed

lemma cmux_driver_ok:
  assumes "configure_cmux_driver E fd n h = (E_ERR_SUCCESS, h')"
  obtains cfg h1 where "h' = File (X_tty_ioctl fd (GSMIOC_SETCONF cfg)) # h1" "env_int E h' \<ge> 0" "only plain h h'"
    "gc_mru cfg = n" "gc_mtu cfg = n" "gc_initiator cfg = 1" "gc_encapsulation cfg = 0"
proof -
  have "only plain h h'" using plain_mux [of h h E fd n] assms by simp
  with assms that show thesis
    by (auto simp: configure_cmux_driver_def xint_def Let_def split: if_splits)
qed

lemma sanity_loop_ok:
  assumes "sanity_loop E dlc start h = Some p"
  shows "fst p = E_ERR_SUCCESS \<longrightarrow> (\<exists>h1. only plain h (File (X_open dlc) # h1) \<and> env_int E (File (X_open dlc) # h1) \<ge> 0 \<and>
    snd p = Sock (X_close (env_int E (File (X_open dlc) # h1))) # File (X_open dlc) # h1)"
proof (rule sanity_loop.raw_induct [OF _ assms], goal_cases)
  case (1 f E dlc start h p)
  let ?h1 = "Libc (X_usleep (STAT_DELAY * 1000)) # h"
  show ?case
  proof (cases "env_int E (File (X_open dlc) # ?h1) \<ge> 0")
    case True
    with 1(2) show ?thesis by (auto simp: sys_open_def xint_def xcall_def intro!: exI [of _ ?h1])
  next
    case False
    then have "f E dlc start (Libc X_monotonic # File (X_open dlc) # ?h1) = Some p \<or> fst p = E_ERR_FAILED"
      using 1(2) by (auto simp: sys_open_def xint_def xcall_def xtime_def CLOSED_FD_def Let_def split: if_splits)
    moreover have "only plain h (Libc X_monotonic # File (X_open dlc) # ?h1)" by simp
    ultimately show ?thesis using 1(1) only_trans by fastforce
  qed
qed

text \<open>
  C21: A modem reported as multiplexed is one. If \<^verbatim>\<open>switch_to_mux\<close> succeeds, then on the descriptor it leaves to the caller, also when
  the channel had to be reopened on the way, the modem acknowledged the multiplexer command; after that the kernel's multiplexer accepted a
  configuration with the configured frame size in both directions and the daemon as initiator; and after that the channel for the sanity
  check could be opened, and was closed again. On the way no client was told anything and the modem was not commanded.
\<close>

theorem mux_established:
  assumes "switch_to_mux E fd path bb mux dlc wk h = Some ((E_ERR_SUCCESS, fd', wk'), h')"
  shows "\<exists>h0 h1 cfg h2 h3. only plain h h0 \<and> send_at_cmux E fd' mux h0 = Some (E_ERR_SUCCESS, h1) \<and> acknowledged E fd' h1 \<and>
    only plain h1 (File (X_tty_ioctl fd' (GSMIOC_SETCONF cfg)) # h2) \<and> env_int E (File (X_tty_ioctl fd' (GSMIOC_SETCONF cfg)) # h2) \<ge> 0 \<and>
    gc_mru cfg = mux_frame_size mux \<and> gc_mtu cfg = mux_frame_size mux \<and> gc_initiator cfg = 1 \<and>
    only plain (File (X_tty_ioctl fd' (GSMIOC_SETCONF cfg)) # h2) (File (X_open dlc) # h3) \<and> env_int E (File (X_open dlc) # h3) \<ge> 0 \<and>
    only plain (Sock (X_close (env_int E (File (X_open dlc) # h3))) # File (X_open dlc) # h3) h'"
proof -
  obtain h1 where 1: "mux_loop E path bb mux E_MUX_HANDSHAKE False fd wk h = Some ((E_ERR_SUCCESS, fd', wk'), h1)"
    and cm: "fst (configure_cmux_driver E fd' (mux_frame_size mux) h1) = E_ERR_SUCCESS"
    using assms by (auto simp: switch_to_mux_def bind_eq_Some_conv case_prod_unfold Let_def split: if_splits)
  then obtain hc where 2: "configure_cmux_driver E fd' (mux_frame_size mux) h1 = (E_ERR_SUCCESS, hc)" by (metis prod.collapse)
  obtain start h4 where 3: "sanity_loop E dlc start (Libc X_monotonic # hc) = Some (E_ERR_SUCCESS, h4)"
    and h': "h' = snd (tty_set_termio E fd' h4)"
    using assms 1 2 by (auto simp: switch_to_mux_def xtime_def bind_eq_Some_conv case_prod_unfold Let_def split: if_splits)
  obtain h0 where h0: "only plain h h0" "send_at_cmux E fd' mux h0 = Some (E_ERR_SUCCESS, h1)"
    using mux_loop_ends_with_cmux [OF 1] by auto
  have "acknowledged E fd' h1"
    using send_at_retry_ok h0(2) by (simp add: send_at_cmux_def AT_ANSWER_SHORT_TIMEOUT_def AT_ANSWER_NO_TIMEOUT_def)
  moreover obtain cfg h2 where c: "hc = File (X_tty_ioctl fd' (GSMIOC_SETCONF cfg)) # h2" "env_int E hc \<ge> 0" "only plain h1 hc"
    "gc_mru cfg = mux_frame_size mux" "gc_mtu cfg = mux_frame_size mux" "gc_initiator cfg = 1" by (rule cmux_driver_ok [OF 2])
  moreover obtain h3 where "only plain (Libc X_monotonic # hc) (File (X_open dlc) # h3)" "env_int E (File (X_open dlc) # h3) \<ge> 0"
    "h4 = Sock (X_close (env_int E (File (X_open dlc) # h3))) # File (X_open dlc) # h3"
    using sanity_loop_ok [OF 3] by auto
  moreover from this(1) have "only plain hc (File (X_open dlc) # h3)" by (rule only_trans [rotated]) simp
  moreover have "only plain h4 h'" using h' by (simp add: plain_rules)
  ultimately show ?thesis using h0 by blast
qed

text \<open>A modem that acknowledges every command and has no failure log.\<close>

fun last_write :: "history \<Rightarrow> byte list" where
  "last_write [] = []"
| "last_write (File (X_write _ bs) # h) = bs"
| "last_write (_ # h) = last_write h"

definition env_modem :: env where
  "env_modem = env_ok\<lparr>
     env_int := (\<lambda>h. case h of File (X_write _ bs) # _ \<Rightarrow> int (length bs) | _ \<Rightarrow> 1),
     env_int2 := (\<lambda>h. case h of File (X_tty_ioctl _ TIOCGETD) # _ \<Rightarrow> N_GSM0710 | _ \<Rightarrow> 1),
     env_bytes := (\<lambda>h. if last_write h = cstr AT_XLOG_GET then [] else cstr ''OK'')\<rparr>"

lemma env_modem_answers:
  "env_int env_modem (c # h) = (case c of File (X_write _ bs) \<Rightarrow> int (length bs) | _ \<Rightarrow> 1)"
  "env_int2 env_modem (c # h) = (case c of File (X_tty_ioctl _ TIOCGETD) \<Rightarrow> N_GSM0710 | _ \<Rightarrow> 1)"
  "env_bytes env_modem h = (if last_write h = cstr AT_XLOG_GET then [] else cstr ''OK'')"
  "env_time env_modem h = \<lparr>tv_sec = 0, tv_nsec = 0\<rparr>"
  by (simp_all add: env_modem_def env_ok_def split: ext.splits file_call.splits tty_request.splits)

lemma modem_wait:
  "\<exists>h'. tty_wait_for_event env_modem fd t h = (E_ERR_SUCCESS, h') \<and> last_write h' = last_write h"
  by (simp add: tty_wait_for_event_def tty_init_listener_def tty_listen_fd_def env_modem_answers EPOLLIN_def EPOLLHUP_def
      CLOSED_FD_def ext_defs Let_def)

lemma modem_write:
  "bs \<noteq> [] \<Longrightarrow> \<exists>h'. tty_write env_modem fd bs h = (E_ERR_SUCCESS, h') \<and> last_write h' = bs"
  by (subst tty_write.simps) (simp add: sys_write_def env_modem_answers ext_defs Let_def)

lemma modem_read:
  "last_write h = cstr AT_XLOG_GET \<Longrightarrow> \<exists>buf h'. tty_read env_modem fd n AT_READ_MAX_RETRIES h = ((E_ERR_SUCCESS, buf, 0), h')"
  "last_write h \<noteq> cstr AT_XLOG_GET \<Longrightarrow> \<exists>h'. tty_read env_modem fd AT_READ_SIZE AT_READ_MAX_RETRIES h =
     ((E_ERR_SUCCESS, cstr ''OKOKOKOK'' @ replicate 12 0, 8), h')"
proof -
  have r: "AT_READ_MAX_RETRIES = Suc (Suc (Suc (Suc 0)))" by (simp add: AT_READ_MAX_RETRIES_def)
  have ne: "cstr ''OK'' \<noteq> []" by (simp add: cstr_def)
  have c: "cstr ''OK'' @ cstr ''OK'' @ cstr ''OK'' @ cstr ''OK'' = cstr ''OKOKOKOK''" by (simp add: cstr_def)
  show "last_write h = cstr AT_XLOG_GET \<Longrightarrow> \<exists>buf h'. tty_read env_modem fd n AT_READ_MAX_RETRIES h = ((E_ERR_SUCCESS, buf, 0), h')"
    by (simp add: tty_read_def sys_read_def env_modem_answers r xcall_def Let_def)
  show "last_write h \<noteq> cstr AT_XLOG_GET \<Longrightarrow> \<exists>h'. tty_read env_modem fd AT_READ_SIZE AT_READ_MAX_RETRIES h =
     ((E_ERR_SUCCESS, cstr ''OKOKOKOK'' @ replicate 12 0, 8), h')"
    by (simp add: tty_read_def sys_read_def env_modem_answers r xcall_def Let_def AT_READ_SIZE_def c ne)
qed

lemma modem_text: "buffer_string (take 8 (cstr ''OKOKOKOK'' @ replicate 12 0)) = ''OKOKOKOK''" "strstr ''OKOKOKOK'' ''OK'' \<noteq> None"
  by code_simp+

lemma modem_acknowledges:
  assumes "cmd \<noteq> []" "cstr cmd \<noteq> cstr AT_XLOG_GET" "k \<ge> 0"
  shows "\<exists>h'. send_at_retry env_modem fd cmd k AT_ANSWER_SHORT_TIMEOUT h = Some (E_ERR_SUCCESS, h')"
proof -
  have "cstr cmd \<noteq> []" using assms(1) by (simp add: cstr_def)
  then obtain h1 where 1: "tty_write env_modem fd (cstr cmd) (tcflush_io fd h) = (E_ERR_SUCCESS, h1)" "last_write h1 = cstr cmd"
    using modem_write by blast
  obtain h2 where 2: "tty_wait_for_event env_modem fd AT_ANSWER_SHORT_TIMEOUT h1 = (E_ERR_SUCCESS, h2)" "last_write h2 = last_write h1"
    using modem_wait by blast
  obtain h3 where "tty_read env_modem fd AT_READ_SIZE AT_READ_MAX_RETRIES h2 =
      ((E_ERR_SUCCESS, cstr ''OKOKOKOK'' @ replicate 12 0, 8), h3)"
    using modem_read(2) [of h2 fd] 1(2) 2(2) assms(2) by auto
  with 2 modem_text have "answer_loop env_modem fd AT_ANSWER_SHORT_TIMEOUT h1 = Some (E_ERR_SUCCESS, tcflush_in fd h3)"
    by (subst answer_loop.simps) simp
  with 1 have s: "send_at env_modem fd cmd AT_ANSWER_SHORT_TIMEOUT h = Some (E_ERR_SUCCESS, tcflush_in fd h3)"
    by (simp add: send_at_def AT_ANSWER_SHORT_TIMEOUT_def AT_ANSWER_NO_TIMEOUT_def)
  obtain n where "nat (k + 1) = Suc n" using assms(3) by (metis Suc_nat_eq_nat_zadd1 add.commute)
  with s show ?thesis by (simp add: send_at_retry_def)
qed

lemma modem_xlog: "k \<ge> 0 \<Longrightarrow> \<exists>h'. run_at_xlog env_modem fd k h = Some (E_ERR_SUCCESS, h')"
proof -
  assume k: "k \<ge> 0"
  have "cstr AT_XLOG_GET \<noteq> []" by (simp add: cstr_def AT_XLOG_GET_def)
  then obtain h1 where 1: "tty_write env_modem fd (cstr AT_XLOG_GET) (tcflush_io fd h) = (E_ERR_SUCCESS, h1)"
    "last_write h1 = cstr AT_XLOG_GET" using modem_write by blast
  obtain h2 where 2: "tty_wait_for_event env_modem fd AT_XLOG_TIMEOUT h1 = (E_ERR_SUCCESS, h2)" "last_write h2 = last_write h1"
    using modem_wait by blast
  obtain buf h3 where "tty_read env_modem fd AT_ANSWER_SIZE AT_READ_MAX_RETRIES h2 = ((E_ERR_SUCCESS, buf, 0), h3)"
    using modem_read(1) [of h2 fd AT_ANSWER_SIZE] 1(2) 2(2) by auto
  then have "xlog_loop env_modem fd h2 = Some (E_ERR_SUCCESS, h3)" by (subst xlog_loop.simps) simp
  moreover have "cstr AT_XLOG_RESET \<noteq> cstr AT_XLOG_GET" by code_simp
  then obtain h4 where "send_at_retry env_modem fd AT_XLOG_RESET k AT_ANSWER_SHORT_TIMEOUT (tcflush_in fd h3) = Some (E_ERR_SUCCESS, h4)"
    using modem_acknowledges [of AT_XLOG_RESET k fd "tcflush_in fd h3"] k by (auto simp: AT_XLOG_RESET_def)
  ultimately show ?thesis using 1 2 by (simp add: run_at_xlog_def)
qed

theorem mux_established_witness:
  "\<exists>fd' wk' h' h0 cfg h2. switch_to_mux env_modem 5 ''/dev/ttyIFX0'' E_LINK_HSI \<lparr>mux_frame_size = 1509, mux_retry = 3\<rparr> ''/dev/gsmtty1''
     E_MDM_WAKEUP_UNKNOWN [] = Some ((E_ERR_SUCCESS, fd', wk'), h') \<and> gc_mtu cfg = 1509 \<and>
     only plain h0 (File (X_tty_ioctl fd' (GSMIOC_SETCONF cfg)) # h2)"
proof -
  let ?mux = "\<lparr>mux_frame_size = 1509, mux_retry = 3\<rparr>"
  have "cstr AT_PING_CMD \<noteq> cstr AT_XLOG_GET" "cstr (at_cmux_config ?mux) \<noteq> cstr AT_XLOG_GET" by code_simp+
  then have at: "\<exists>h'. send_at_retry env_modem fd AT_PING_CMD 3 AT_ANSWER_SHORT_TIMEOUT h = Some (E_ERR_SUCCESS, h')"
    "\<exists>h'. send_at_retry env_modem fd (at_cmux_config ?mux) 3 AT_ANSWER_SHORT_TIMEOUT h = Some (E_ERR_SUCCESS, h')" for fd h
    using modem_acknowledges [of AT_PING_CMD 3] modem_acknowledges [of "at_cmux_config ?mux" 3]
    by (simp_all add: AT_PING_CMD_def at_cmux_config_def snprintf_def AT_MUX_CMD_SIZE_def)
  obtain h1 where 1: "send_at_retry env_modem 5 AT_PING_CMD 3 AT_ANSWER_SHORT_TIMEOUT [] = Some (E_ERR_SUCCESS, h1)" using at by blast
  obtain h2 where 2: "run_at_xlog env_modem 5 3 h1 = Some (E_ERR_SUCCESS, h2)" using modem_xlog [of 3 5 h1] by auto
  obtain h3 where 3: "send_at_retry env_modem 5 (at_cmux_config ?mux) 3 AT_ANSWER_SHORT_TIMEOUT h2 = Some (E_ERR_SUCCESS, h3)" using at by blast
  have "mux_loop env_modem p E_LINK_HSI ?mux E_MUX_HANDSHAKE False 5 E_MDM_WAKEUP_UNKNOWN [] = Some ((E_ERR_SUCCESS, 5, E_MDM_WAKEUP_UNKNOWN), h3)" for p
    using 1 2 3
    by (simp add: mux_loop.simps [of env_modem p E_LINK_HSI ?mux E_MUX_HANDSHAKE] mux_loop.simps [of env_modem p E_LINK_HSI ?mux E_MUX_XLOG]
        mux_loop.simps [of env_modem p E_LINK_HSI ?mux E_MUX_GET_STREAMLINE] mux_loop.simps [of env_modem p E_LINK_HSI ?mux E_MUX_AT_CMD]
        mux_loop.simps [of env_modem p E_LINK_HSI ?mux E_MUX_DRIVER] mux_step_def modem_handshake_def send_at_cmux_def)
  moreover obtain h4 where "configure_cmux_driver env_modem 5 1509 h3 = (E_ERR_SUCCESS, h4)"
    by (simp add: configure_cmux_driver_def xint_def env_modem_answers Let_def)
  moreover obtain h5 where "sanity_loop env_modem ''/dev/gsmtty1'' \<lparr>tv_sec = 0, tv_nsec = 0\<rparr> (Libc X_monotonic # h4) = Some (E_ERR_SUCCESS, h5)"
    by (subst (asm) sanity_loop.simps) (simp add: sys_open_def xint_def env_modem_answers)
  moreover obtain h6 where "tty_set_termio env_modem 5 h5 = (E_ERR_SUCCESS, h6)"
    by (simp add: tty_set_termio_def xint_def env_modem_answers)
  ultimately have "\<exists>h'. switch_to_mux env_modem 5 ''/dev/ttyIFX0'' E_LINK_HSI ?mux ''/dev/gsmtty1'' E_MDM_WAKEUP_UNKNOWN [] =
      Some ((E_ERR_SUCCESS, 5, E_MDM_WAKEUP_UNKNOWN), h')"
    by (simp add: switch_to_mux_def xtime_def env_modem_answers)
  then obtain h' where s: "switch_to_mux env_modem 5 ''/dev/ttyIFX0'' E_LINK_HSI ?mux ''/dev/gsmtty1'' E_MDM_WAKEUP_UNKNOWN [] =
      Some ((E_ERR_SUCCESS, 5, E_MDM_WAKEUP_UNKNOWN), h')" by blast
  obtain h0 cfg h2 where "only plain h0 (File (X_tty_ioctl 5 (GSMIOC_SETCONF cfg)) # h2)" "gc_mtu cfg = 1509"
    using mux_established [OF s] by auto
  with s show ?thesis by blast
qed

end
