(* ===== verification/Fg_Config.thy ===== *)
theory Fg_Config
  imports Tty
begin

text \<open>
  The fuel gauge configuration helper (\<^verbatim>\<open>em_common/fg_config/fg_conf_helper.c\<close>), a program of its own: at boot it writes a
  battery table to the fuel gauge driver, and at shutdown it saves what the driver has learnt. The table comes from
  the primary file, which is part of the system image and holds tables for several batteries, or from the secondary file,
  in which the last state of the driver was saved.

  The world of this program is a store of files. Each system call is numbered, and the parameter \<open>fg_env\<close> says for each number
  whether the call works, fails with an error or moves only a part of the bytes; it also gives the content of
  uninitialised memory. Every descriptor is used for one read or write at the beginning of the file, so it is the path itself, and
  closing it has no effect. \<^term>\<open>None\<close> is an access outside a buffer.
\<close>

section \<open>Files\<close>

datatype fault = Works | Fails int | Partial nat

record fg_env =
  fe_fault :: "nat \<Rightarrow> fault"
  fe_junk :: "nat \<Rightarrow> byte list"

text \<open>
  The files with their contents, the names \<^verbatim>\<open>readdir\<close> returns for the folder of the power supplies, the
  number of system calls so far, what was written to which file, newest first, and the static variable \<^verbatim>\<open>is_xpwr\<close>.
\<close>

record fg_sys =
  fs_files :: "string \<Rightarrow> byte list option"
  fs_supplies :: "string list"
  fs_calls :: nat
  fs_written :: "(string \<times> byte list) list"
  is_xpwr :: bool

text \<open>The numbers of \<^verbatim>\<open>errno.h\<close>; a failing call never sets \<^verbatim>\<open>errno\<close> to a number that is not positive.\<close>

definition c_EPERM :: int where "c_EPERM = 1"
definition c_ENOENT :: int where "c_ENOENT = 2"
definition c_EIO :: int where "c_EIO = 5"
definition c_ENOMEM :: int where "c_ENOMEM = 12"
definition c_EINVAL :: int where "c_EINVAL = 22"
definition c_ENODATA :: int where "c_ENODATA = 61"

lemmas c_errno_defs = c_EPERM_def c_ENOENT_def c_EIO_def c_ENOMEM_def c_EINVAL_def c_ENODATA_def

definition errno_of :: "int \<Rightarrow> int" where
  "errno_of e = (if e \<le> 0 then c_EPERM else e)"

definition next_call :: "fg_env \<Rightarrow> fg_sys \<Rightarrow> fault \<times> fg_sys" where
  "next_call E s = (fe_fault E (fs_calls s), s\<lparr>fs_calls := Suc (fs_calls s)\<rparr>)"

text \<open>\<^verbatim>\<open>open\<close>, with or without \<^verbatim>\<open>O_CREAT\<close>: 0 or the error.\<close>

definition fg_open :: "fg_env \<Rightarrow> bool \<Rightarrow> string \<Rightarrow> fg_sys \<Rightarrow> int \<times> fg_sys" where
  "fg_open E create path s =
     (let (f, s1) = next_call E s in
      case f of
        Fails e \<Rightarrow> (errno_of e, s1)
      | _ \<Rightarrow>
          if fs_files s1 path \<noteq> None then (0, s1)
          else if create then (0, s1\<lparr>fs_files := (fs_files s1)(path := Some [])\<rparr>)
          else (c_ENOENT, s1))"

text \<open>\<^verbatim>\<open>read\<close>: the error, or at most \<open>n\<close> bytes of the file.\<close>

definition fg_read :: "fg_env \<Rightarrow> string \<Rightarrow> nat \<Rightarrow> fg_sys \<Rightarrow> (int + byte list) \<times> fg_sys" where
  "fg_read E path n s =
     (let (f, s1) = next_call E s; bs = (case fs_files s path of None \<Rightarrow> [] | Some bs \<Rightarrow> take n bs) in
      case f of
        Fails e \<Rightarrow> (Inl (errno_of e), s1)
      | Works \<Rightarrow> (Inr bs, s1)
      | Partial k \<Rightarrow> (Inr (take k bs), s1))"

text \<open>
  \<^verbatim>\<open>write\<close>: the error, or the number of bytes written. A regular file keeps what lies behind them, as it is opened
  without \<^verbatim>\<open>O_TRUNC\<close>; what a device makes of the bytes is not known here.
\<close>

definition is_dev :: "string \<Rightarrow> bool" where
  "is_dev path \<longleftrightarrow> take 5 path = ''/dev/''"

definition put_file :: "string \<Rightarrow> byte list \<Rightarrow> fg_sys \<Rightarrow> fg_sys" where
  "put_file path bs s =
     (let old = (case fs_files s path of None \<Rightarrow> [] | Some old \<Rightarrow> old) in
      s\<lparr>fs_written := (path, bs) # fs_written s,
        fs_files := (if is_dev path then fs_files s else (fs_files s)(path := Some (bs @ drop (length bs) old)))\<rparr>)"

definition fg_write :: "fg_env \<Rightarrow> string \<Rightarrow> byte list \<Rightarrow> fg_sys \<Rightarrow> (int + nat) \<times> fg_sys" where
  "fg_write E path bs s =
     (let (f, s1) = next_call E s in
      case f of
        Fails e \<Rightarrow> (Inl (errno_of e), s1)
      | Works \<Rightarrow> (Inr (length bs), put_file path bs s1)
      | Partial k \<Rightarrow> (Inr (min k (length bs)), put_file path (take k bs) s1))"

text \<open>\<^verbatim>\<open>malloc\<close> and \<^verbatim>\<open>opendir\<close>.\<close>

definition fg_works :: "fg_env \<Rightarrow> fg_sys \<Rightarrow> int \<times> fg_sys" where
  "fg_works E s = (let (f, s1) = next_call E s in (case f of Fails e \<Rightarrow> errno_of e | _ \<Rightarrow> 0, s1))"

text \<open>Uninitialised memory of \<open>n\<close> bytes.\<close>

definition junk :: "fg_env \<Rightarrow> nat \<Rightarrow> fg_sys \<Rightarrow> byte list" where
  "junk E n s = take n (fe_junk E (fs_calls s) @ replicate n 0)"

section \<open>Tables\<close>

definition PRIMARY_FILE :: string where "PRIMARY_FILE = ''/system/etc/fg_config.bin''"
definition SECONDARY_FILE :: string where "SECONDARY_FILE = ''/config/em/battid.dat''"
definition DEV_FILE :: string where "DEV_FILE = ''/dev/fg''"
definition XPWR_PRIMARY_FILE :: string where "XPWR_PRIMARY_FILE = ''/system/etc/fg_config_xpwr.bin''"
definition INTEL_FG_DEV_FILE :: string where "INTEL_FG_DEV_FILE = ''/dev/intel_fg''"
definition POWER_SUPPLY_PATH :: string where "POWER_SUPPLY_PATH = ''/sys/class/power_supply/''"

definition XPWR_CONFIG_SIZE :: nat where "XPWR_CONFIG_SIZE = 38"
definition XPWR_SEC_CONFIG_SIZE :: nat where "XPWR_SEC_CONFIG_SIZE = 40"
definition MAX_COMMAND_LINE_BUF :: nat where "MAX_COMMAND_LINE_BUF = 1024"
definition MAX_TABLE_NAME_SIZE :: nat where "MAX_TABLE_NAME_SIZE = 8"
definition MAX_BATTID_SIZE :: nat where "MAX_BATTID_SIZE = 8"
definition MAX_FG_CONFIG_SIZE :: nat where "MAX_FG_CONFIG_SIZE = 138"
definition MODEL_NAME_SIZE :: nat where "MODEL_NAME_SIZE = 2"
definition MAX_SERIAL_NUM_SIZE :: nat where "MAX_SERIAL_NUM_SIZE = 12"
definition MAX_FG_TABLES :: nat where "MAX_FG_TABLES = 15"

lemmas fg_sizes = XPWR_CONFIG_SIZE_def XPWR_SEC_CONFIG_SIZE_def MAX_TABLE_NAME_SIZE_def MAX_BATTID_SIZE_def
  MAX_FG_CONFIG_SIZE_def MODEL_NAME_SIZE_def MAX_SERIAL_NUM_SIZE_def MAX_FG_TABLES_def MAX_COMMAND_LINE_BUF_def

lemmas fg_files = PRIMARY_FILE_def SECONDARY_FILE_def DEV_FILE_def XPWR_PRIMARY_FILE_def INTEL_FG_DEV_FILE_def
  POWER_SUPPLY_PATH_def

text \<open>The packed structures, in the byte order of the target.\<close>

record primary_header =
  ph_rev :: u16
  ph_file_size :: u16
  ph_cksum :: u16
  ph_res :: u16

record table_body =
  tb_table_type :: byte
  tb_size :: u16
  tb_rev :: u16
  tb_table_name :: "byte list"
  tb_battid :: "byte list"
  tb_config_init :: byte
  tb_fg_config :: "byte list"
  tb_cksum :: u16

record sec_file_body =
  sb_tbl :: table_body
  sb_pcksum :: u16
  sb_serial_num :: "byte list"

definition le16 :: "u16 \<Rightarrow> byte list" where
  "le16 w = [ucast w, ucast (drop_bit 8 w)]"

fun u16_of :: "byte list \<Rightarrow> u16" where
  "u16_of [a, b] = ucast a OR push_bit 8 (ucast b)"
| "u16_of _ = 0"

definition field :: "byte list \<Rightarrow> nat \<Rightarrow> nat \<Rightarrow> byte list" where
  "field bs off n = take n (drop off bs)"

definition SIZEOF_HEADER :: nat where "SIZEOF_HEADER = 8"
definition SIZEOF_TABLE :: nat where "SIZEOF_TABLE = 162"
definition SIZEOF_SEC :: nat where "SIZEOF_SEC = 177"

definition header_of :: "byte list \<Rightarrow> primary_header" where
  "header_of bs = \<lparr>ph_rev = u16_of (field bs 0 2), ph_file_size = u16_of (field bs 2 2), ph_cksum = u16_of (field bs 4 2),
                   ph_res = u16_of (field bs 6 2)\<rparr>"

definition table_of :: "byte list \<Rightarrow> table_body" where
  "table_of bs =
     \<lparr>tb_table_type = bs ! 0, tb_size = u16_of (field bs 1 2), tb_rev = u16_of (field bs 3 2),
      tb_table_name = field bs 5 8, tb_battid = field bs 13 8, tb_config_init = bs ! 21,
      tb_fg_config = field bs 22 138, tb_cksum = u16_of (field bs 160 2)\<rparr>"

definition bytes_of_table :: "table_body \<Rightarrow> byte list" where
  "bytes_of_table t =
     [tb_table_type t] @ le16 (tb_size t) @ le16 (tb_rev t) @ tb_table_name t @ tb_battid t @ [tb_config_init t] @
     tb_fg_config t @ le16 (tb_cksum t)"

definition sec_of :: "byte list \<Rightarrow> sec_file_body" where
  "sec_of bs = \<lparr>sb_tbl = table_of (take SIZEOF_TABLE bs), sb_pcksum = u16_of (field bs 162 2), sb_serial_num = field bs 164 13\<rparr>"

definition bytes_of_sec :: "sec_file_body \<Rightarrow> byte list" where
  "bytes_of_sec b = bytes_of_table (sb_tbl b) @ le16 (sb_pcksum b) @ sb_serial_num b"

text \<open>A table without its checksum.\<close>

definition body_of_table :: "table_body \<Rightarrow> byte list" where
  "body_of_table t = take (SIZEOF_TABLE - 2) (bytes_of_table t)"

definition MAX_PRIM_FILE_SIZE :: nat where
  "MAX_PRIM_FILE_SIZE = SIZEOF_HEADER + MAX_FG_TABLES * SIZEOF_TABLE"

text \<open>The sum of the bytes in 16 bits.\<close>

definition checksum :: "byte list \<Rightarrow> u16" where
  "checksum bs = foldl (\<lambda>c b. c + ucast b) 0 bs"

text \<open>
  Whether two strings agree in their first \<open>n\<close> characters (\<^verbatim>\<open>strncmp\<close>). The comparison stops at a difference
  and at a zero; going on past the end of a buffer is an access out of bounds.
\<close>

fun strneq :: "byte list \<Rightarrow> byte list \<Rightarrow> nat \<Rightarrow> bool option" where
  "strneq xs ys 0 = Some True"
| "strneq (x # xs) (y # ys) (Suc n) = (if x \<noteq> y then Some False else if x = 0 then Some True else strneq xs ys n)"
| "strneq _ _ (Suc n) = None"

text \<open>\<^verbatim>\<open>strlen\<close> of a buffer.\<close>

definition c_strlen :: "byte list \<Rightarrow> nat option" where
  "c_strlen bs = (if 0 \<in> set bs then Some (length (takeWhile (\<lambda>b. b \<noteq> 0) bs)) else None)"

definition c_strnlen :: "byte list \<Rightarrow> nat \<Rightarrow> nat" where
  "c_strnlen bs n = length (takeWhile (\<lambda>b. b \<noteq> 0) (take n bs))"

section \<open>Reading\<close>

text \<open>Each reader returns the error or what was read; most callers return the error to their caller.\<close>

definition on_success ::
  "(int + 'a) \<times> fg_sys \<Rightarrow> ('a \<Rightarrow> fg_sys \<Rightarrow> ((int + 'b) \<times> fg_sys) option) \<Rightarrow> ((int + 'b) \<times> fg_sys) option" where
  "on_success r f = (case r of (Inl e, s) \<Rightarrow> Some (Inl e, s) | (Inr a, s) \<Rightarrow> f a s)"

definition read_exactly :: "fg_env \<Rightarrow> string \<Rightarrow> nat \<Rightarrow> fg_sys \<Rightarrow> (int + byte list) \<times> fg_sys" where
  "read_exactly E path n s =
     (let (e, s1) = fg_open E False path s in
      if e \<noteq> 0 then (Inl e, s1)
      else
        let (r, s2) = fg_read E path n s1 in
        case r of
          Inr bs \<Rightarrow> if length bs = n then (Inr bs, s2) else (Inl c_ENODATA, s2)
        | Inl _ \<Rightarrow> (Inl c_ENODATA, s2))"

definition read_primary_header :: "fg_env \<Rightarrow> fg_sys \<Rightarrow> (int + primary_header) \<times> fg_sys" where
  "read_primary_header E s =
     (let (r, s1) = read_exactly E PRIMARY_FILE SIZEOF_HEADER s in
      case r of
        Inl e \<Rightarrow> (Inl e, s1)
      | Inr bs \<Rightarrow>
          let pheader = header_of bs in
          if unat (ph_file_size pheader) > MAX_PRIM_FILE_SIZE then (Inl c_EINVAL, s1) else (Inr pheader, s1))"

definition read_primary_file :: "fg_env \<Rightarrow> nat \<Rightarrow> fg_sys \<Rightarrow> (int + byte list) \<times> fg_sys" where
  "read_primary_file E n = read_exactly E PRIMARY_FILE n"

definition read_xpwr_primary_file :: "fg_env \<Rightarrow> fg_sys \<Rightarrow> (int + byte list) \<times> fg_sys" where
  "read_xpwr_primary_file E = read_exactly E XPWR_PRIMARY_FILE XPWR_CONFIG_SIZE"

definition read_secondary_file :: "fg_env \<Rightarrow> fg_sys \<Rightarrow> (int + sec_file_body) \<times> fg_sys" where
  "read_secondary_file E s =
     (let (r, s1) = read_exactly E SECONDARY_FILE SIZEOF_SEC s in
      (case r of Inl e \<Rightarrow> Inl e | Inr bs \<Rightarrow> Inr (sec_of bs), s1))"

definition read_xpwr_secondary_file :: "fg_env \<Rightarrow> fg_sys \<Rightarrow> (int + byte list) \<times> fg_sys" where
  "read_xpwr_secondary_file E = read_exactly E SECONDARY_FILE XPWR_SEC_CONFIG_SIZE"

text \<open>
  The name of the power supply whose type is \<^verbatim>\<open>Battery\<close>. The buffer of 20 bytes keeps its content from one entry to the
  next; a type that does not end its line within the buffer is compared together with what is left in it.
\<close>

definition BATTERY :: "byte list" where "BATTERY = cstr ''Battery'' @ [0]"

fun find_battery :: "fg_env \<Rightarrow> string list \<Rightarrow> byte list \<Rightarrow> fg_sys \<Rightarrow> (int + string) \<times> fg_sys" where
  "find_battery E [] buf s = (Inl c_ENOENT, s)"
| "find_battery E (name # names) buf s =
     (if name = ''.'' \<or> name = ''..'' then find_battery E names buf s
      else
        let path = snprintf PATH_MAX (POWER_SUPPLY_PATH @ ''/'' @ name @ ''/type''); (e, s1) = fg_open E False path s in
        if e \<noteq> 0 then (Inl e, s1)
        else
          let (r, s2) = fg_read E path 20 s1 in
          case r of
            Inl _ \<Rightarrow> find_battery E names buf s2
          | Inr bs \<Rightarrow>
              if bs = [] then find_battery E names buf s2
              else
                let buf1 = bs @ drop (length bs) buf;
                    buf2 = (if last bs = 10 then buf1[length bs - 1 := 0] else buf1) in
                if take 8 buf2 = BATTERY
                then (Inr (snprintf PATH_MAX name), s2\<lparr>is_xpwr := is_xpwr s2 \<or> strstr name ''dollar'' \<noteq> None\<rparr>)
                else find_battery E names buf2 s2)"

definition get_battery_ps_name :: "fg_env \<Rightarrow> fg_sys \<Rightarrow> (int + string) \<times> fg_sys" where
  "get_battery_ps_name E s =
     (let (e, s1) = fg_works E s in
      if e \<noteq> 0 then (Inl e, s1) else find_battery E (fs_supplies s1) (junk E 20 s) s1)"

text \<open>An attribute of the battery: at most \<open>n\<close> bytes.\<close>

definition read_attribute :: "fg_env \<Rightarrow> string \<Rightarrow> nat \<Rightarrow> fg_sys \<Rightarrow> (int + byte list) \<times> fg_sys" where
  "read_attribute E attr n s =
     (let (r, s1) = get_battery_ps_name E s in
      case r of
        Inl e \<Rightarrow> (Inl e, s1)
      | Inr name \<Rightarrow>
          let path = snprintf PATH_MAX (POWER_SUPPLY_PATH @ ''/'' @ name @ attr); (e, s2) = fg_open E False path s1 in
          if e \<noteq> 0 then (Inl e, s2) else fg_read E path n s2)"

text \<open>Of the eight bytes of the battery's identifier two are read, or fewer: the rest is not initialised.\<close>

definition get_battid :: "fg_env \<Rightarrow> fg_sys \<Rightarrow> (int + byte list) \<times> fg_sys" where
  "get_battid E s =
     (let (r, s1) = read_attribute E ''/model_name'' MODEL_NAME_SIZE s in
      (case r of Inl e \<Rightarrow> Inl e | Inr bs \<Rightarrow> Inr (bs @ drop (length bs) (junk E MAX_BATTID_SIZE s)), s1))"

definition get_serial_num :: "fg_env \<Rightarrow> fg_sys \<Rightarrow> (int + byte list) \<times> fg_sys" where
  "get_serial_num E s =
     (let (r, s1) = read_attribute E ''/serial_number'' MAX_SERIAL_NUM_SIZE s in
      (case r of Inl e \<Rightarrow> Inl e | Inr bs \<Rightarrow> Inr (bs @ replicate (MAX_SERIAL_NUM_SIZE + 1 - length bs) 0), s1))"

section \<open>Checking\<close>

text \<open>The checksum of the primary file is taken with its own field set to zero.\<close>

definition is_prim_cksum_ok :: "byte list \<Rightarrow> bool option" where
  "is_prim_cksum_ok buf =
     (if length buf < 6 then None
      else Some (checksum (take 4 buf @ [0, 0] @ drop 6 buf) = u16_of (field buf 4 2)))"

definition is_sec_cksum_ok :: "sec_file_body \<Rightarrow> bool" where
  "is_sec_cksum_ok sbuf \<longleftrightarrow> checksum (body_of_table (sb_tbl sbuf)) = tb_cksum (sb_tbl sbuf)"

section \<open>Writing\<close>

text \<open>To a device: an error, or an incomplete write.\<close>

definition write_exactly :: "fg_env \<Rightarrow> string \<Rightarrow> byte list \<Rightarrow> fg_sys \<Rightarrow> int \<times> fg_sys" where
  "write_exactly E path bs s =
     (let (e, s1) = fg_open E False path s in
      if e \<noteq> 0 then (e, s1)
      else
        let (r, s2) = fg_write E path bs s1 in
        (case r of Inl e \<Rightarrow> e | Inr n \<Rightarrow> if n = length bs then 0 else c_EIO, s2))"

definition write_to_intel_fg_dev :: "fg_env \<Rightarrow> byte list \<Rightarrow> fg_sys \<Rightarrow> int \<times> fg_sys" where
  "write_to_intel_fg_dev E buf = write_exactly E INTEL_FG_DEV_FILE (take (XPWR_CONFIG_SIZE - 2) buf)"

definition write_to_dev :: "fg_env \<Rightarrow> table_body \<Rightarrow> fg_sys \<Rightarrow> int \<times> fg_sys" where
  "write_to_dev E tbl = write_exactly E DEV_FILE (body_of_table tbl)"

section \<open>Choosing a table\<close>

text \<open>The loop over the tables of the primary file, from an offset on: the first that fits, if any.\<close>

function search_tables :: "byte list \<Rightarrow> nat \<Rightarrow> nat \<Rightarrow> byte list \<Rightarrow> byte list \<Rightarrow> table_body option option" where
  "search_tables pbuf sz file_size name battid =
     (if sz < file_size
      then do {
        same \<leftarrow> strneq (drop (sz + 5) pbuf) name MAX_TABLE_NAME_SIZE;
        fits \<leftarrow> (if same then strneq (drop (sz + 13) pbuf) battid MODEL_NAME_SIZE else Some False);
        if fits then do { t \<leftarrow> mem_read pbuf sz SIZEOF_TABLE; Some (Some (table_of t)) }
        else search_tables pbuf (sz + SIZEOF_TABLE) file_size name battid }
      else Some None)"
  by pat_completeness auto
termination
  by (relation "measure (\<lambda>(_, sz, file_size, _). file_size - sz)") (auto simp: SIZEOF_TABLE_def)

declare search_tables.simps [simp del]

definition get_primary_fg_config ::
  "fg_env \<Rightarrow> byte list \<Rightarrow> byte list \<Rightarrow> fg_sys \<Rightarrow> ((int + table_body) \<times> fg_sys) option" where
  "get_primary_fg_config E pbuf battid s =
     on_success (get_battery_ps_name E s) (\<lambda>name s1.
       do { found \<leftarrow> search_tables pbuf SIZEOF_HEADER (unat (ph_file_size (header_of pbuf))) (cstr name @ [0]) battid;
            Some (case found of Some t \<Rightarrow> Inr t | None \<Rightarrow> Inl c_EINVAL, s1) })"

text \<open>Whether the system boots for charging only.\<close>

definition isCOS :: "fg_env \<Rightarrow> fg_sys \<Rightarrow> bool \<times> fg_sys" where
  "isCOS E s =
     (let (e, s1) = fg_open E False ''/proc/cmdline'' s in
      if e \<noteq> 0 then (False, s1)
      else
        let (r, s2) = fg_read E ''/proc/cmdline'' MAX_COMMAND_LINE_BUF s1 in
        case r of
          Inl _ \<Rightarrow> (False, s2)
        | Inr bs \<Rightarrow>
            if bs = [] then (False, s2)
            else
              let buf = (bs @ drop (length bs) (junk E MAX_COMMAND_LINE_BUF s))[MAX_COMMAND_LINE_BUF - 1 := 0] in
              case strstr (buffer_string buf) ''androidboot.mode='' of
                None \<Rightarrow> (False, s2)
              | Some p \<Rightarrow> (take 4 (drop 17 p) \<noteq> ''main'' \<and> take 7 (drop 17 p) = ''charger'', s2))"

text \<open>
  The other kind of gauge has one table, of which the first bytes are written to the driver at once. The secondary file
  has the checksum of the primary file it was saved with in front of its own.
\<close>

definition xpwr_config :: "fg_env \<Rightarrow> fg_sys \<Rightarrow> int \<times> fg_sys" where
  "xpwr_config E s =
     (let (e1, s1) = fg_works E s in
      if e1 \<noteq> 0 then (c_ENOMEM, s1)
      else
        let (e2, s2) = fg_works E s1 in
        if e2 \<noteq> 0 then (c_ENOMEM, s2)
        else
          let (sec, s3) = read_xpwr_secondary_file E s2;
              sbuf = (case sec of Inl _ \<Rightarrow> junk E XPWR_SEC_CONFIG_SIZE s | Inr bs \<Rightarrow> bs);
              use_sec_file = (case sec of Inl _ \<Rightarrow> False
                | Inr bs \<Rightarrow> checksum (take (XPWR_SEC_CONFIG_SIZE - 2) bs) = u16_of (field bs (XPWR_SEC_CONFIG_SIZE - 2) 2));
              (prim, s4) = read_xpwr_primary_file E s3 in
          case prim of
            Inl _ \<Rightarrow> (c_EINVAL, s4)
          | Inr pbuf \<Rightarrow>
              let pcksum = checksum (take (XPWR_CONFIG_SIZE - 2) pbuf) in
              if pcksum \<noteq> u16_of (field pbuf (XPWR_CONFIG_SIZE - 2) 2) \<and> \<not> use_sec_file then (c_EINVAL, s4)
              else if use_sec_file \<and> pcksum = u16_of (field sbuf (XPWR_SEC_CONFIG_SIZE - 4) 2)
              then write_to_intel_fg_dev E sbuf s4
              else write_to_intel_fg_dev E pbuf s4)"

text \<open>Whether the secondary file was saved for this battery and with this primary file.\<close>

definition secondary_fits :: "sec_file_body \<Rightarrow> byte list \<Rightarrow> byte list \<Rightarrow> primary_header \<Rightarrow> bool option" where
  "secondary_fits sbuf battid serial_num pheader =
     do { same \<leftarrow> strneq (tb_battid (sb_tbl sbuf)) battid MODEL_NAME_SIZE;
          if \<not> same then Some False
          else do {
            len \<leftarrow> c_strlen (sb_serial_num sbuf);
            let n = c_strnlen serial_num (MAX_SERIAL_NUM_SIZE + 1);
            same \<leftarrow> (if len \<noteq> n then Some False else strneq (sb_serial_num sbuf) serial_num n);
            Some (same \<and> ph_cksum pheader = sb_pcksum sbuf) } }"

text \<open>The last part of the choice: a table of the primary file.\<close>

definition primary_config ::
  "fg_env \<Rightarrow> byte list \<Rightarrow> bool \<Rightarrow> byte list \<Rightarrow> fg_sys \<Rightarrow> ((int + table_body) \<times> fg_sys) option" where
  "primary_config E pbuf is_pcksum_ok battid s =
     (if \<not> is_pcksum_ok then Some (Inl (- c_EINVAL), s)
      else do {
        r \<leftarrow> get_primary_fg_config E pbuf battid s;
        on_success r (\<lambda>t s1.
          let (inCOS, s2) = isCOS E s1 in Some (Inr (if inCOS then t\<lparr>tb_config_init := 1\<rparr> else t), s2)) })"

text \<open>The choice between the two files, once the primary file has been read.\<close>

definition choose_table ::
  "fg_env \<Rightarrow> byte list \<Rightarrow> byte list \<Rightarrow> primary_header \<Rightarrow> byte list \<Rightarrow> fg_sys \<Rightarrow> ((int + table_body) \<times> fg_sys) option" where
  "choose_table E battid serial_num pheader pbuf s =
     do { is_pcksum_ok \<leftarrow> is_prim_cksum_ok pbuf;
          let (r, s1) = read_secondary_file E s;
          case r of
            Inl _ \<Rightarrow> primary_config E pbuf is_pcksum_ok battid s1
          | Inr sbuf \<Rightarrow>
              if \<not> is_pcksum_ok \<and> \<not> is_sec_cksum_ok sbuf then Some (Inl c_EINVAL, s1)
              else if \<not> is_sec_cksum_ok sbuf then primary_config E pbuf is_pcksum_ok battid s1
              else do {
                fits \<leftarrow> secondary_fits sbuf battid serial_num pheader;
                if fits then Some (Inr (sb_tbl sbuf), s1) else primary_config E pbuf is_pcksum_ok battid s1 } }"

definition table_config :: "fg_env \<Rightarrow> byte list \<Rightarrow> fg_sys \<Rightarrow> ((int + table_body) \<times> fg_sys) option" where
  "table_config E battid s =
     on_success (get_serial_num E s) (\<lambda>serial_num s1.
     on_success (read_primary_header E s1) (\<lambda>pheader s2.
       let (e, s3) = fg_works E s2 in
       if e \<noteq> 0 then Some (Inl c_ENOMEM, s3)
       else on_success (read_primary_file E (unat (ph_file_size pheader)) s3) (choose_table E battid serial_num pheader)))"

text \<open>
  The table for the driver; no table when the driver has been written already (\<^verbatim>\<open>is_xpwr\<close>).
\<close>

definition get_fg_config_table :: "fg_env \<Rightarrow> fg_sys \<Rightarrow> ((int + table_body option) \<times> fg_sys) option" where
  "get_fg_config_table E s =
     on_success (get_battid E s) (\<lambda>battid s1.
       if is_xpwr s1
       then let (e, s2) = xpwr_config E s1 in Some (if e = 0 then Inr None else Inl e, s2)
       else do { r \<leftarrow> table_config E battid s1; on_success r (\<lambda>t s2. Some (Inr (Some t), s2)) })"

section \<open>The commands\<close>

text \<open>
  \<^verbatim>\<open>is_xpwr\<close> is tested again here: every look-up of the battery can set it, also one after the table of the other kind was chosen.
\<close>

definition write_fgdev_config :: "fg_env \<Rightarrow> fg_sys \<Rightarrow> (int \<times> fg_sys) option" where
  "write_fgdev_config E s =
     do { (r, s1) \<leftarrow> get_fg_config_table E s;
          Some (case r of
                  Inl e \<Rightarrow> (e, s1)
                | Inr None \<Rightarrow> (0, s1)
                | Inr (Some t) \<Rightarrow> if is_xpwr s1 then (0, s1) else write_to_dev E t s1) }"

text \<open>
  Saving. The secondary file is opened before anything is known to be saved. Of the other kind of gauge the checksum of the primary
  file is kept as it stands in that file, or what was on the stack if the file cannot be read.
\<close>

definition write_secondary :: "fg_env \<Rightarrow> byte list \<Rightarrow> fg_sys \<Rightarrow> int \<times> fg_sys" where
  "write_secondary E bs s =
     (let (r, s1) = fg_write E SECONDARY_FILE bs s in
      (case r of Inl _ \<Rightarrow> c_ENODATA | Inr n \<Rightarrow> if n = length bs then 0 else c_ENODATA, s1))"

definition write_xpwr_sec :: "fg_env \<Rightarrow> byte list \<Rightarrow> fg_sys \<Rightarrow> int \<times> fg_sys" where
  "write_xpwr_sec E buf s =
     (let (e, s1) = fg_open E True SECONDARY_FILE s in
      if e \<noteq> 0 then (e, s1)
      else
        let (r, s2) = read_xpwr_primary_file E s1;
            buf1 = (case r of Inl _ \<Rightarrow> buf
              | Inr tmp \<Rightarrow> take (XPWR_SEC_CONFIG_SIZE - 4) buf @ field tmp (XPWR_CONFIG_SIZE - 2) 2 @ drop (XPWR_SEC_CONFIG_SIZE - 2) buf);
            cksum = checksum (take (XPWR_SEC_CONFIG_SIZE - 2) buf1) in
        write_secondary E (take (XPWR_SEC_CONFIG_SIZE - 2) buf1 @ le16 cksum) s2)"

definition write_sec_config :: "fg_env \<Rightarrow> sec_file_body \<Rightarrow> fg_sys \<Rightarrow> int \<times> fg_sys" where
  "write_sec_config E sbuf s =
     (let (e, s1) = fg_open E True SECONDARY_FILE s in
      if e \<noteq> 0 then (e, s1)
      else
        let (r, s2) = read_primary_header E s1 in
        case r of
          Inl _ \<Rightarrow> (c_ENODATA, s2)
        | Inr pheader \<Rightarrow>
            let tbl = (sb_tbl sbuf)\<lparr>tb_cksum := checksum (body_of_table (sb_tbl sbuf))\<rparr>;
                (r, s3) = get_serial_num E s2 in
            case r of
              Inl _ \<Rightarrow> (c_ENODATA, s3)
            | Inr serial_num \<Rightarrow>
                let n = c_strnlen serial_num (MAX_SERIAL_NUM_SIZE + 1);
                    sbuf1 = \<lparr>sb_tbl = tbl, sb_pcksum = ph_cksum pheader,
                             sb_serial_num = take n serial_num @ [0] @ drop (n + 1) (sb_serial_num sbuf)\<rparr> in
                write_secondary E (bytes_of_sec sbuf1) s3)"

text \<open>What a device gives: an error, or too few bytes.\<close>

definition read_device :: "fg_env \<Rightarrow> string \<Rightarrow> nat \<Rightarrow> fg_sys \<Rightarrow> (int + byte list) \<times> fg_sys" where
  "read_device E path n s =
     (let (e, s1) = fg_open E False path s in
      if e \<noteq> 0 then (Inl e, s1)
      else
        let (r, s2) = fg_read E path n s1 in
        (case r of Inl e \<Rightarrow> Inl e | Inr bs \<Rightarrow> if length bs = n then Inr bs else Inl c_ENODATA, s2))"

text \<open>The result of \<^verbatim>\<open>write_sec_config\<close> is only logged.\<close>

definition read_fg_write_sec :: "fg_env \<Rightarrow> fg_sys \<Rightarrow> int \<times> fg_sys" where
  "read_fg_write_sec E s =
     (let (r, s1) = get_battery_ps_name E s in
      if (case r of Inl _ \<Rightarrow> False | Inr _ \<Rightarrow> True) \<and> is_xpwr s1
      then
        let (r, s2) = read_device E INTEL_FG_DEV_FILE (XPWR_CONFIG_SIZE - 2) s1 in
        case r of
          Inl e \<Rightarrow> (e, s2)
        | Inr bs \<Rightarrow> write_xpwr_sec E (bs @ drop (XPWR_CONFIG_SIZE - 2) (junk E XPWR_SEC_CONFIG_SIZE s)) s2
      else
        let (r, s2) = read_device E DEV_FILE (SIZEOF_TABLE - 2) s1 in
        case r of
          Inl e \<Rightarrow> (e, s2)
        | Inr bs \<Rightarrow>
            let (_, s3) = write_sec_config E (sec_of (bs @ drop (SIZEOF_TABLE - 2) (junk E SIZEOF_SEC s))) s2 in
            (0, s3))"

text \<open>Printing tables to the log: the tables printed.\<close>

function dump_tables :: "byte list \<Rightarrow> nat \<Rightarrow> nat \<Rightarrow> table_body list option" where
  "dump_tables pbuf offset file_size =
     (if offset < file_size
      then do { t \<leftarrow> mem_read pbuf offset SIZEOF_TABLE;
                ts \<leftarrow> dump_tables pbuf (offset + SIZEOF_TABLE) file_size;
                Some (table_of t # ts) }
      else Some [])"
  by pat_completeness auto
termination
  by (relation "measure (\<lambda>(_, offset, file_size). file_size - offset)") (auto simp: SIZEOF_TABLE_def)

declare dump_tables.simps [simp del]

definition dump_primary :: "fg_env \<Rightarrow> fg_sys \<Rightarrow> ((int + table_body list) \<times> fg_sys) option" where
  "dump_primary E s =
     (let (r, s1) = read_primary_header E s in
      case r of
        Inl e \<Rightarrow> Some (Inl e, s1)
      | Inr pheader \<Rightarrow>
          let (e, s2) = fg_works E s1 in
          if e \<noteq> 0 then Some (Inl c_ENOMEM, s2)
          else
            let (r, s3) = read_primary_file E (unat (ph_file_size pheader)) s2 in
            case r of
              Inl e \<Rightarrow> Some (Inl e, s3)
            | Inr pbuf \<Rightarrow> do { ts \<leftarrow> dump_tables pbuf SIZEOF_HEADER (unat (ph_file_size pheader)); Some (Inr ts, s3) })"

definition dump_fg_config :: "fg_env \<Rightarrow> string \<Rightarrow> fg_sys \<Rightarrow> ((int + table_body list) \<times> fg_sys) option" where
  "dump_fg_config E sel s =
     (if take 1 sel = ''p'' then dump_primary E s
      else if take 1 sel = ''s''
      then let (r, s1) = read_secondary_file E s in Some (case r of Inl e \<Rightarrow> Inl e | Inr b \<Rightarrow> Inr [sb_tbl b], s1)
      else if sel = []
      then do { (r, s1) \<leftarrow> get_fg_config_table E s;
                Some (case r of Inl e \<Rightarrow> Inl e | Inr None \<Rightarrow> Inr [table_of (junk E SIZEOF_TABLE s)] | Inr (Some t) \<Rightarrow> Inr [t], s1) }
      else Some (Inl c_EINVAL, s))"

definition fg_main :: "fg_env \<Rightarrow> string list \<Rightarrow> fg_sys \<Rightarrow> (int \<times> fg_sys) option" where
  "fg_main E args s =
     (case args of
        [arg] \<Rightarrow>
          if take 1 arg \<noteq> ''-'' then Some (c_EINVAL, s)
          else if take 1 (drop 1 arg) = ''w'' then write_fgdev_config E s
          else if take 1 (drop 1 arg) = ''r'' then Some (read_fg_write_sec E s)
          else if take 1 (drop 1 arg) = ''d''
          then do { (r, s1) \<leftarrow> dump_fg_config E (drop 2 arg) s; Some (case r of Inl e \<Rightarrow> e | Inr _ \<Rightarrow> 0, s1) }
          else if take 1 (drop 1 arg) = ''h'' then Some (0, s)
          else Some (c_EINVAL, s)
      | _ \<Rightarrow> Some (- c_EINVAL, s))"

end
