(* ===== verification/Fg_Restore.thy ===== *)
theory Fg_Restore
  imports Fg_Config
begin

text \<open>
  What the fuel gauge helper guarantees: the packed structures can be laid out and read back (locale \<open>packed\<close>); reading changes nothing;
  what is saved is restored; only checked data reach the driver, whatever fails; and which table is chosen at the first start
  and for the other kind of gauge.
\<close>


section \<open>Packed structures\<close>

text \<open>A structure of a fixed size: reading back what was laid out, and laying out what was read.\<close>

locale packed =
  fixes lay :: "'a \<Rightarrow> byte list" and get :: "byte list \<Rightarrow> 'a" and n :: nat and ok :: "'a \<Rightarrow> bool"
  assumes lay_length: "ok x \<Longrightarrow> length (lay x) = n"
    and get_lay: "ok x \<Longrightarrow> get (lay x) = x"
    and lay_get: "length bs = n \<Longrightarrow> lay (get bs) = bs"
    and get_ok: "length bs = n \<Longrightarrow> ok (get bs)"
begin

lemma get_field: "ok x \<Longrightarrow> length pre = off \<Longrightarrow> get (field (pre @ lay x @ post) off n) = x"
  by (simp add: field_def lay_length get_lay)

lemma lay_inj: "ok x \<Longrightarrow> ok y \<Longrightarrow> lay x = lay y \<Longrightarrow> x = y"
  by (metis get_lay)

end

lemma u16_of_le16 [simp]: "u16_of (le16 w) = w"
proof (rule bit_word_eqI)
  fix n :: nat
  assume "n < LENGTH(16)"
  then show "bit (u16_of (le16 w)) n \<longleftrightarrow> bit w n"
    by (cases "n < 8") (auto simp: le16_def bit_simps less_diff_conv2)
qed

lemma le16_u16_of:
  assumes "length bs = 2" shows "le16 (u16_of bs) = bs"
proof -
  obtain a b where bs: "bs = [a, b]" using assms by (auto simp: numeral_eq_Suc length_Suc_conv)
  show ?thesis
    unfolding bs by (auto simp: le16_def intro!: bit_word_eqI) (auto simp: bit_simps dest: bit_imp_le_length)
qed

lemma length_le16 [simp]: "length (le16 w) = 2"
  by (simp add: le16_def)

interpretation half: packed le16 u16_of 2 "\<lambda>_. True"
  by unfold_locales (simp_all add: le16_u16_of)

definition table_ok :: "table_body \<Rightarrow> bool" where
  "table_ok t \<longleftrightarrow> length (tb_table_name t) = 8 \<and> length (tb_battid t) = 8 \<and> length (tb_fg_config t) = 138"

lemma length_field: "length (field bs off n) = min (length bs - off) n"
  by (simp add: field_def min.commute)

lemma field_split: "off + n + m \<le> length bs \<Longrightarrow> field bs off n @ field bs (off + n) m = field bs off (n + m)"
  unfolding field_def take_add by (simp add: add.commute)

lemma field_one: "off < length bs \<Longrightarrow> [bs ! off] = field bs off 1"
  by (simp add: field_def take_Suc hd_drop_conv_nth)

lemma table_parts:
  assumes "length bs = 162"
  shows "bytes_of_table (table_of bs) = bs"
proof -
  have "bytes_of_table (table_of bs) = field bs 0 1 @ field bs 1 2 @ field bs 3 2 @ field bs 5 8 @ field bs 13 8 @ field bs 21 1 @
      field bs 22 138 @ field bs 160 2"
    using assms by (simp add: bytes_of_table_def table_of_def le16_u16_of length_field field_one)
  also have "\<dots> = field bs 0 162"
    using assms field_split [of 0 1 161 bs] field_split [of 1 2 159 bs] field_split [of 3 2 157 bs] field_split [of 5 8 149 bs]
      field_split [of 13 8 141 bs] field_split [of 21 1 140 bs] field_split [of 22 138 2 bs]
    by (simp add: numeral_3_eq_3 [symmetric])
  finally show ?thesis using assms by (simp add: field_def)
qed

lemma table_back:
  assumes "table_ok t"
  shows "table_of (bytes_of_table t) = t"
  using assms u16_of_le16 [unfolded le16_def u16_of.simps]
  by (simp add: table_of_def bytes_of_table_def table_ok_def field_def le16_def nth_append)

interpretation table: packed bytes_of_table table_of SIZEOF_TABLE table_ok
  unfolding SIZEOF_TABLE_def
  by unfold_locales (simp_all add: table_parts table_back, simp_all add: table_ok_def bytes_of_table_def table_of_def length_field)

definition sec_ok :: "sec_file_body \<Rightarrow> bool" where
  "sec_ok b \<longleftrightarrow> table_ok (sb_tbl b) \<and> length (sb_serial_num b) = 13"

interpretation sec: packed bytes_of_sec sec_of SIZEOF_SEC sec_ok
proof
  fix b assume b: "sec_ok b"
  then have t: "length (bytes_of_table (sb_tbl b)) = 162" using table.lay_length by (simp add: sec_ok_def SIZEOF_TABLE_def)
  then show "length (bytes_of_sec b) = SIZEOF_SEC" using b by (simp add: bytes_of_sec_def SIZEOF_SEC_def sec_ok_def)
  show "sec_of (bytes_of_sec b) = b"
    using b t half.get_field [where x = "sb_pcksum b" and pre = "bytes_of_table (sb_tbl b)" and off = 162 and post = "sb_serial_num b"]
    by (simp add: sec_of_def bytes_of_sec_def sec_ok_def SIZEOF_TABLE_def table_back) (simp add: field_def)
next
  fix bs :: "byte list" assume bs: "length bs = SIZEOF_SEC"
  then have "bytes_of_sec (sec_of bs) = field bs 0 162 @ field bs 162 2 @ field bs 164 13"
    by (simp add: bytes_of_sec_def sec_of_def table_parts le16_u16_of length_field SIZEOF_TABLE_def SIZEOF_SEC_def)
      (simp add: field_def)
  also have "\<dots> = field bs 0 177"
    using bs field_split [of 0 162 15 bs] field_split [of 162 2 13 bs] by (simp add: SIZEOF_SEC_def)
  finally show "bytes_of_sec (sec_of bs) = bs" using bs by (simp add: field_def SIZEOF_SEC_def)
  show "sec_ok (sec_of bs)"
    using bs by (simp add: sec_ok_def sec_of_def table.get_ok length_field SIZEOF_TABLE_def SIZEOF_SEC_def)
qed

section \<open>What reading leaves as it is\<close>

definition reads :: "fg_sys \<Rightarrow> fg_sys \<Rightarrow> bool" where
  "reads s s' \<longleftrightarrow> fs_files s' = fs_files s \<and> fs_supplies s' = fs_supplies s \<and> fs_written s' = fs_written s \<and>
     (is_xpwr s \<longrightarrow> is_xpwr s')"

lemma reads_refl [simp]: "reads s s"
  by (simp add: reads_def)

lemma reads_trans [trans]: "reads s s' \<Longrightarrow> reads s' s'' \<Longrightarrow> reads s s''"
  by (simp add: reads_def)

named_theorems reading \<open>operations that only read\<close>

lemma reads_next [reading]: "reads s0 s \<Longrightarrow> reads s0 (snd (next_call E s))"
  by (simp add: reads_def next_call_def)

lemma reads_open [reading]: "reads s0 s \<Longrightarrow> reads s0 (snd (fg_open E False path s))"
  by (simp add: fg_open_def reads_next case_prod_unfold Let_def split: fault.split)

lemma reads_read [reading]:
  "reads s0 s \<Longrightarrow> reads s0 (snd (fg_read E path n s))" "reads s0 s \<Longrightarrow> reads s0 (snd (fg_works E s))"
  by (simp_all add: fg_read_def fg_works_def reads_next case_prod_unfold Let_def split: fault.split)

lemma reads_exactly [reading]: "reads s0 s \<Longrightarrow> reads s0 (snd (read_exactly E path n s))"
  by (simp add: read_exactly_def reading case_prod_unfold Let_def split: sum.split)

lemma reads_files [reading]:
  "reads s0 s \<Longrightarrow> reads s0 (snd (read_primary_header E s))" "reads s0 s \<Longrightarrow> reads s0 (snd (read_primary_file E n s))"
  "reads s0 s \<Longrightarrow> reads s0 (snd (read_xpwr_primary_file E s))" "reads s0 s \<Longrightarrow> reads s0 (snd (read_secondary_file E s))"
  "reads s0 s \<Longrightarrow> reads s0 (snd (read_xpwr_secondary_file E s))"
  by (simp_all add: read_primary_header_def read_primary_file_def read_xpwr_primary_file_def read_secondary_file_def
      read_xpwr_secondary_file_def reading case_prod_unfold Let_def split: sum.split)

lemma reads_battery: "reads s0 s \<Longrightarrow> reads s0 (snd (find_battery E names buf s))"
proof (induction names arbitrary: buf s)
  case (Cons name names)
  have "reads s0 (s\<lparr>is_xpwr := is_xpwr s \<or> b\<rparr>)" if "reads s0 s" for s b using that by (simp add: reads_def)
  with Cons show ?case by (simp add: reading case_prod_unfold Let_def split: sum.split)
qed simp

lemma reads_attributes [reading]:
  "reads s0 s \<Longrightarrow> reads s0 (snd (get_battery_ps_name E s))" "reads s0 s \<Longrightarrow> reads s0 (snd (read_attribute E a n s))"
  "reads s0 s \<Longrightarrow> reads s0 (snd (get_battid E s))" "reads s0 s \<Longrightarrow> reads s0 (snd (get_serial_num E s))"
  "reads s0 s \<Longrightarrow> reads s0 (snd (isCOS E s))" "reads s0 s \<Longrightarrow> reads s0 (snd (read_device E p n s))"
  by (simp_all add: get_battery_ps_name_def read_attribute_def get_battid_def get_serial_num_def isCOS_def read_device_def reads_battery
      reading case_prod_unfold Let_def split: sum.split option.split)

section \<open>A world without faults\<close>

definition faultless :: "fg_env \<Rightarrow> bool" where
  "faultless E \<longleftrightarrow> (\<forall>n. fe_fault E n = Works)"

lemma faultless_next: "faultless E \<Longrightarrow> next_call E s = (Works, s\<lparr>fs_calls := Suc (fs_calls s)\<rparr>)"
  by (simp add: faultless_def next_call_def)

lemma faultless_works: "faultless E \<Longrightarrow> fg_works E s = (0, s\<lparr>fs_calls := Suc (fs_calls s)\<rparr>)"
  by (simp add: fg_works_def faultless_next)

lemma faultless_open:
  assumes "faultless E" "fs_files s path = Some bs"
  shows "fg_open E c path s = (0, s\<lparr>fs_calls := Suc (fs_calls s)\<rparr>)"
    "fg_read E path n s = (Inr (take n bs), s\<lparr>fs_calls := Suc (fs_calls s)\<rparr>)"
    "\<exists>k. fg_write E path xs s = (Inr (length xs), put_file path xs (s\<lparr>fs_calls := k\<rparr>))"
  using assms by (auto simp: fg_open_def fg_read_def fg_write_def faultless_next)

lemma faultless_exactly:
  assumes "faultless E" "fs_files s path = Some bs" "n \<le> length bs"
  shows "\<exists>k. read_exactly E path n s = (Inr (take n bs), s\<lparr>fs_calls := k\<rparr>)"
    "\<exists>k. read_device E path n s = (Inr (take n bs), s\<lparr>fs_calls := k\<rparr>)"
  using assms by (auto simp: read_exactly_def read_device_def faultless_open Let_def)

text \<open>The power supplies: each has a type, in one line; the first battery is the one that counts.\<close>

definition type_path :: "string \<Rightarrow> string" where
  "type_path name = snprintf PATH_MAX (POWER_SUPPLY_PATH @ ''/'' @ name @ ''/type'')"

definition attr_path :: "string \<Rightarrow> string \<Rightarrow> string" where
  "attr_path name attr = snprintf PATH_MAX (POWER_SUPPLY_PATH @ ''/'' @ snprintf PATH_MAX name @ attr)"

definition plain_type :: "fg_sys \<Rightarrow> string \<Rightarrow> bool" where
  "plain_type s name \<longleftrightarrow> (case fs_files s (type_path name) of None \<Rightarrow> False
     | Some bs \<Rightarrow> bs \<noteq> [] \<and> last bs = 10 \<and> length bs \<le> 20 \<and> 0 \<notin> set (butlast bs))"

lemma plain_typeD:
  assumes "plain_type s name"
  shows "\<exists>t. fs_files s (type_path name) = Some (t @ [10]) \<and> length t < 20 \<and> 0 \<notin> set t"
proof -
  obtain bs where "fs_files s (type_path name) = Some bs" "bs \<noteq> []" "last bs = 10" "length bs \<le> 20" "0 \<notin> set (butlast bs)"
    using assms by (auto simp: plain_type_def split: option.splits)
  then show ?thesis using append_butlast_last_id [of bs] by (intro exI [of _ "butlast bs"]) auto
qed

definition is_battery :: "fg_sys \<Rightarrow> string \<Rightarrow> bool" where
  "is_battery s name \<longleftrightarrow> fs_files s (type_path name) = Some (cstr ''Battery'' @ [10])"

definition no_dot :: "string \<Rightarrow> bool" where
  "no_dot name \<longleftrightarrow> name \<noteq> ''.'' \<and> name \<noteq> ''..''"

definition the_battery :: "fg_sys \<Rightarrow> string \<Rightarrow> bool" where
  "the_battery s name \<longleftrightarrow> (\<forall>n \<in> set (fs_supplies s). no_dot n \<longrightarrow> plain_type s n) \<and>
     find (is_battery s) (filter no_dot (fs_supplies s)) = Some name"

lemma calls_first [simp]: "s\<lparr>is_xpwr := b, fs_calls := k\<rparr> = s\<lparr>fs_calls := k, is_xpwr := b\<rparr>"
  by simp

lemma calls_only [simp]: "\<not> is_xpwr s \<Longrightarrow> s\<lparr>fs_calls := k, is_xpwr := False\<rparr> = s\<lparr>fs_calls := k\<rparr>"
  by simp

lemma battery_calls [simp]:
  "is_battery (s\<lparr>fs_calls := k\<rparr>) = is_battery s" "is_battery (s\<lparr>is_xpwr := b\<rparr>) = is_battery s"
  "plain_type (s\<lparr>fs_calls := k\<rparr>) = plain_type s" "plain_type (s\<lparr>is_xpwr := b\<rparr>) = plain_type s"
  "the_battery (s\<lparr>fs_calls := k\<rparr>) = the_battery s" "the_battery (s\<lparr>is_xpwr := b\<rparr>) = the_battery s"
  by (auto simp: fun_eq_iff is_battery_def plain_type_def the_battery_def cong: find_cong)

lemma cstr_battery: "cstr ''Battery'' = [66, 97, 116, 116, 101, 114, 121]"
  by (simp add: cstr_def)

lemma battery_compare:
  assumes "0 \<notin> set t"
  shows "take 8 (t @ 0 # r) = BATTERY \<longleftrightarrow> t = cstr ''Battery''"
proof
  assume b: "take 8 (t @ 0 # r) = BATTERY"
  have w: "takeWhile (\<lambda>b. b \<noteq> 0) BATTERY = cstr ''Battery''" "0 \<in> set BATTERY" by (simp_all add: BATTERY_def cstr_battery)
  have "length t < 8"
  proof (rule ccontr)
    assume "\<not> length t < 8"
    then have "set BATTERY \<subseteq> set t" using b set_take_subset [of 8 t] by simp
    with w(2) assms show False by blast
  qed
  then have eq: "BATTERY = t @ 0 # take (7 - length t) r" using b by (simp add: take_Cons')
  have "takeWhile (\<lambda>b. b \<noteq> 0) (t @ 0 # take (7 - length t) r) = t" using assms by (subst takeWhile_append2) auto
  with w(1) show "t = cstr ''Battery''" unfolding eq by simp
next
  assume "t = cstr ''Battery''"
  then show "take 8 (t @ 0 # r) = BATTERY" by (simp add: BATTERY_def)
qed

lemma find_battery_plain:
  assumes "faultless E" "\<forall>n \<in> set names. no_dot n \<longrightarrow> plain_type s n" "length buf = 20"
    and "find (is_battery s) (filter no_dot names) = Some name"
  shows "\<exists>k. find_battery E names buf s = (Inr (snprintf PATH_MAX name),
      s\<lparr>fs_calls := k, is_xpwr := is_xpwr s \<or> strstr name ''dollar'' \<noteq> None\<rparr>)"
  using assms(2-4)
proof (induction names arbitrary: buf s)
  case (Cons n names)
  show ?case
  proof (cases "no_dot n")
    case True
    then obtain t where t: "fs_files s (type_path n) = Some (t @ [10])" "length t < 20" "0 \<notin> set t"
      using Cons.prems(1) plain_typeD by force
    let ?s2 = "s\<lparr>fs_calls := Suc (Suc (fs_calls s))\<rparr>"
    let ?buf = "t @ 0 # drop (Suc (length t)) buf"
    have b: "(t @ [10] @ drop (Suc (length t)) buf)[length t := 0] = ?buf" by (simp add: list_update_append)
    have tk: "take 20 (t @ [10]) = t @ [10]" using t(2) by simp
    have r: "find_battery E (n # names) buf s =
        (if t = cstr ''Battery'' then (Inr (snprintf PATH_MAX n), ?s2\<lparr>is_xpwr := is_xpwr s \<or> strstr n ''dollar'' \<noteq> None\<rparr>)
         else find_battery E names ?buf ?s2)"
      using True t b tk faultless_open [OF assms(1) t(1) [unfolded type_path_def]]
        faultless_open [OF assms(1), of "s\<lparr>fs_calls := Suc (fs_calls s)\<rparr>" "type_path n" "t @ [10]", unfolded type_path_def]
        battery_compare [OF t(3), of "drop (Suc (length t)) buf"]
      by (simp add: no_dot_def type_path_def Let_def del: take_append)
    have isb: "is_battery s n \<longleftrightarrow> t = cstr ''Battery''" using t(1) by (simp add: is_battery_def)
    show ?thesis
    proof (cases "t = cstr ''Battery''")
      case True
      with r isb Cons.prems(3) \<open>no_dot n\<close> show ?thesis by auto
    next
      case False
      have "find (is_battery ?s2) (filter no_dot names) = Some name" "\<forall>n\<in>set names. no_dot n \<longrightarrow> plain_type ?s2 n" "length ?buf = 20"
        using Cons.prems False isb True t(2) by auto
      from Cons.IH [OF this(2,3,1)] r False show ?thesis by simp
    qed
  next
    case False
    then show ?thesis using Cons by (auto simp: no_dot_def)
  qed
qed simp

definition dollar :: "string \<Rightarrow> bool" where
  "dollar name \<longleftrightarrow> strstr name ''dollar'' \<noteq> None"

lemma ps_name_works:
  assumes "faultless E" "the_battery s name"
  shows "\<exists>k. get_battery_ps_name E s = (Inr (snprintf PATH_MAX name), s\<lparr>fs_calls := k, is_xpwr := is_xpwr s \<or> dollar name\<rparr>)"
proof -
  let ?s1 = "s\<lparr>fs_calls := Suc (fs_calls s)\<rparr>"
  have "\<forall>n \<in> set (fs_supplies ?s1). no_dot n \<longrightarrow> plain_type ?s1 n" "find (is_battery ?s1) (filter no_dot (fs_supplies ?s1)) = Some name"
    using assms(2) by (simp_all add: the_battery_def)
  moreover have "length (junk E 20 s) = 20" by (simp add: junk_def)
  ultimately show ?thesis
    using find_battery_plain [OF assms(1), of "fs_supplies ?s1" ?s1 "junk E 20 s" name]
    by (simp add: get_battery_ps_name_def faultless_works [OF assms(1)] dollar_def)
qed

lemma attribute_works:
  assumes "faultless E" "the_battery s name" "fs_files s (attr_path name attr) = Some bs"
  shows "\<exists>k. read_attribute E attr n s = (Inr (take n bs), s\<lparr>fs_calls := k, is_xpwr := is_xpwr s \<or> dollar name\<rparr>)"
proof -
  obtain k where "get_battery_ps_name E s = (Inr (snprintf PATH_MAX name), s\<lparr>fs_calls := k, is_xpwr := is_xpwr s \<or> dollar name\<rparr>)"
    using ps_name_works [OF assms(1,2)] by blast
  then show ?thesis
    using assms(3) by (auto simp: read_attribute_def attr_path_def faultless_open [OF assms(1)])
qed

section \<open>Saving and restoring\<close>

lemma header_of_take [simp]: "header_of (take SIZEOF_HEADER p) = header_of p"
  by (simp add: header_of_def field_def SIZEOF_HEADER_def drop_take min_def)

lemma body_of_table_of: "length bs = SIZEOF_TABLE \<Longrightarrow> body_of_table (table_of bs) = take (SIZEOF_TABLE - 2) bs"
  by (simp add: body_of_table_def table.lay_get)

lemma body_of_table_cksum: "table_ok t \<Longrightarrow> body_of_table (t\<lparr>tb_cksum := c\<rparr>) = body_of_table t"
  by (simp add: body_of_table_def bytes_of_table_def table_ok_def SIZEOF_TABLE_def)

lemma strneq_same:
  "take n xs = take n ys \<Longrightarrow> n \<le> length xs \<Longrightarrow> n \<le> length ys \<Longrightarrow> strneq xs ys n = Some True"
proof (induction n arbitrary: xs ys)
  case (Suc n)
  then show ?case by (cases xs; cases ys) auto
qed simp

text \<open>A serial number of at most 12 characters, ended and filled up with zeros.\<close>

definition padded :: "byte list \<Rightarrow> byte list" where
  "padded sn = take MAX_SERIAL_NUM_SIZE sn @ replicate (MAX_SERIAL_NUM_SIZE + 1 - length (take MAX_SERIAL_NUM_SIZE sn)) 0"

lemma padded_facts:
  "length (padded sn) = 13" "c_strnlen (padded sn) (MAX_SERIAL_NUM_SIZE + 1) = length (takeWhile (\<lambda>b. b \<noteq> 0) (padded sn))"
  "length (takeWhile (\<lambda>b. b \<noteq> 0) (padded sn)) < 13"
proof -
  show l: "length (padded sn) = 13" by (simp add: padded_def MAX_SERIAL_NUM_SIZE_def)
  then show "c_strnlen (padded sn) (MAX_SERIAL_NUM_SIZE + 1) = length (takeWhile (\<lambda>b. b \<noteq> 0) (padded sn))"
    by (simp add: c_strnlen_def MAX_SERIAL_NUM_SIZE_def)
  have "takeWhile (\<lambda>b. b \<noteq> 0) (padded sn) \<noteq> padded sn"
    by (simp add: takeWhile_eq_all_conv) (simp add: padded_def MAX_SERIAL_NUM_SIZE_def)
  moreover note takeWhile_eq_take [of "\<lambda>b. b \<noteq> 0" "padded sn"]
  ultimately show "length (takeWhile (\<lambda>b. b \<noteq> 0) (padded sn)) < 13" using l by (metis not_less take_all)
qed

lemma serial_works:
  assumes "faultless E" "the_battery s name" "fs_files s (attr_path name ''/serial_number'') = Some sn"
  shows "\<exists>k. get_serial_num E s = (Inr (padded sn), s\<lparr>fs_calls := k, is_xpwr := is_xpwr s \<or> dollar name\<rparr>)"
  using attribute_works [OF assms, of MAX_SERIAL_NUM_SIZE] by (auto simp: get_serial_num_def padded_def)

lemma header_works:
  assumes "faultless E" "fs_files s PRIMARY_FILE = Some p" "SIZEOF_HEADER \<le> length p"
    "unat (ph_file_size (header_of p)) \<le> MAX_PRIM_FILE_SIZE"
  shows "\<exists>k. read_primary_header E s = (Inr (header_of p), s\<lparr>fs_calls := k\<rparr>)"
  using faultless_exactly(1) [OF assms(1-3)] assms(4) by (auto simp: read_primary_header_def)

text \<open>What the file looks like that was saved from the driver's data \<open>d\<close>.\<close>

definition saved :: "byte list \<Rightarrow> byte list \<Rightarrow> byte list \<Rightarrow> sec_file_body \<Rightarrow> bool" where
  "saved d p sn b \<longleftrightarrow> sec_ok b \<and> body_of_table (sb_tbl b) = take (SIZEOF_TABLE - 2) d \<and>
     tb_cksum (sb_tbl b) = checksum (take (SIZEOF_TABLE - 2) d) \<and> sb_pcksum b = ph_cksum (header_of p) \<and>
     (\<exists>r. sb_serial_num b = takeWhile (\<lambda>b. b \<noteq> 0) (padded sn) @ 0 # r)"

lemma sysfs_not_secondary: "type_path n \<noteq> SECONDARY_FILE" "attr_path n a \<noteq> SECONDARY_FILE"
proof -
  have "take 2 (snprintf PATH_MAX (POWER_SUPPLY_PATH @ x)) \<noteq> take 2 SECONDARY_FILE" for x
    by (simp add: snprintf_def PATH_MAX_def fg_files)
  then show "type_path n \<noteq> SECONDARY_FILE" "attr_path n a \<noteq> SECONDARY_FILE"
    unfolding type_path_def attr_path_def by metis+
qed

lemma other_paths [simp]:
  "PRIMARY_FILE \<noteq> SECONDARY_FILE" "DEV_FILE \<noteq> SECONDARY_FILE" "XPWR_PRIMARY_FILE \<noteq> SECONDARY_FILE" "INTEL_FG_DEV_FILE \<noteq> SECONDARY_FILE"
  "\<not> is_dev SECONDARY_FILE" "is_dev DEV_FILE" "is_dev INTEL_FG_DEV_FILE" "\<not> is_dev PRIMARY_FILE" "\<not> is_dev XPWR_PRIMARY_FILE"
  by (simp_all add: fg_files is_dev_def)

lemma battery_files:
  assumes "\<And>path. path \<noteq> SECONDARY_FILE \<Longrightarrow> \<not> is_dev path \<Longrightarrow> fs_files s' path = fs_files s path" "fs_supplies s' = fs_supplies s"
  shows "the_battery s' = the_battery s"
proof -
  have "take 2 (type_path n) = ''/s''" for n by (simp add: type_path_def snprintf_def PATH_MAX_def fg_files)
  then have "take 2 (take 5 (type_path n)) \<noteq> take 2 ''/dev/''" for n by simp
  then have "\<not> is_dev (type_path n)" for n unfolding is_dev_def by metis
  then have "fs_files s' (type_path n) = fs_files s (type_path n)" for n using assms(1) sysfs_not_secondary(1) by simp
  then have "is_battery s' = is_battery s" "plain_type s' = plain_type s"
    by (auto simp: fun_eq_iff is_battery_def plain_type_def)
  then show ?thesis using assms(2) by (intro ext) (simp add: the_battery_def)
qed

lemma create_works:
  assumes "faultless E"
  shows "\<exists>old. fg_open E True path s = (0, s\<lparr>fs_calls := Suc (fs_calls s), fs_files := (fs_files s)(path := Some old)\<rparr>)"
proof (cases "fs_files s path")
  case (Some old)
  then have "s\<lparr>fs_calls := Suc (fs_calls s), fs_files := (fs_files s)(path := Some old)\<rparr> = s\<lparr>fs_calls := Suc (fs_calls s)\<rparr>"
    by (simp add: fun_upd_idem)
  with Some show ?thesis by (intro exI [of _ old]) (simp add: fg_open_def faultless_next [OF assms])
qed (auto simp: fg_open_def faultless_next [OF assms])

lemma put_secondary:
  assumes "faultless E"
  shows "\<exists>old s'. write_secondary E bs s = (0, s') \<and> fs_files s' = (fs_files s)(SECONDARY_FILE := Some (bs @ old)) \<and>
    fs_supplies s' = fs_supplies s"
  by (auto simp: write_secondary_def fg_write_def faultless_next [OF assms] put_file_def Let_def)

lemma sec_config_works:
  assumes "faultless E" "the_battery s name" "\<not> dollar name" "sec_ok sbuf" "body_of_table (sb_tbl sbuf) = take (SIZEOF_TABLE - 2) d"
    and "fs_files s PRIMARY_FILE = Some p" "SIZEOF_HEADER \<le> length p" "unat (ph_file_size (header_of p)) \<le> MAX_PRIM_FILE_SIZE"
    and "fs_files s (attr_path name ''/serial_number'') = Some sn"
  shows "\<exists>b old s'. write_sec_config E sbuf s = (0, s') \<and> saved d p sn b \<and> fs_supplies s' = fs_supplies s \<and>
    fs_files s' = (fs_files s)(SECONDARY_FILE := Some (bytes_of_sec b @ old))"
proof -
  obtain old where "fg_open E True SECONDARY_FILE s = (0, s\<lparr>fs_calls := Suc (fs_calls s), fs_files := (fs_files s)(SECONDARY_FILE := Some old)\<rparr>)"
    using create_works [OF assms(1)] by blast
  moreover define s1 where "s1 = s\<lparr>fs_calls := Suc (fs_calls s), fs_files := (fs_files s)(SECONDARY_FILE := Some old)\<rparr>"
  ultimately have o: "fg_open E True SECONDARY_FILE s = (0, s1)" by simp
  have s1: "fs_files s1 PRIMARY_FILE = Some p" "the_battery s1 name" "fs_files s1 (attr_path name ''/serial_number'') = Some sn"
    using assms(2,6,9) battery_files [of s1 s] sysfs_not_secondary by (auto simp: s1_def)
  obtain k where h: "read_primary_header E s1 = (Inr (header_of p), s1\<lparr>fs_calls := k\<rparr>)"
    using header_works [OF assms(1) s1(1) assms(7,8)] by blast
  obtain k2 where n: "get_serial_num E (s1\<lparr>fs_calls := k\<rparr>) = (Inr (padded sn), s1\<lparr>fs_calls := k2, is_xpwr := is_xpwr s1 \<or> dollar name\<rparr>)"
    using serial_works [OF assms(1), of "s1\<lparr>fs_calls := k\<rparr>" name sn] s1 by auto
  let ?n = "length (takeWhile (\<lambda>b. b \<noteq> 0) (padded sn))"
  define b where "b = \<lparr>sb_tbl = (sb_tbl sbuf)\<lparr>tb_cksum := checksum (body_of_table (sb_tbl sbuf))\<rparr>, sb_pcksum = ph_cksum (header_of p),
    sb_serial_num = take ?n (padded sn) @ [0] @ drop (?n + 1) (sb_serial_num sbuf)\<rparr>"
  have "take ?n (padded sn) = takeWhile (\<lambda>b. b \<noteq> 0) (padded sn)" by (simp flip: takeWhile_eq_take)
  then have "saved d p sn b"
    using assms(4,5) padded_facts(1,3) [of sn] by (auto simp: saved_def b_def sec_ok_def body_of_table_cksum) (auto simp: table_ok_def)
  moreover obtain old2 s' where "write_secondary E (bytes_of_sec b) (s1\<lparr>fs_calls := k2, is_xpwr := is_xpwr s1 \<or> dollar name\<rparr>) = (0, s')"
    "fs_files s' = (fs_files s1)(SECONDARY_FILE := Some (bytes_of_sec b @ old2))" "fs_supplies s' = fs_supplies s"
    using put_secondary [OF assms(1), of "bytes_of_sec b" "s1\<lparr>fs_calls := k2, is_xpwr := is_xpwr s1 \<or> dollar name\<rparr>"]
    by (auto simp: s1_def)
  moreover have "write_sec_config E sbuf s = write_secondary E (bytes_of_sec b) (s1\<lparr>fs_calls := k2, is_xpwr := is_xpwr s1 \<or> dollar name\<rparr>)"
    using o h n padded_facts(2) [of sn] by (simp add: write_sec_config_def b_def Let_def)
  ultimately show ?thesis by (auto simp: s1_def)
qed

lemma battid_of_body: "table_ok t \<Longrightarrow> tb_battid t = field (body_of_table t) 13 8"
  by (simp add: body_of_table_def bytes_of_table_def table_ok_def field_def SIZEOF_TABLE_def le16_def)

lemma battid_works:
  assumes "faultless E" "the_battery s name" "fs_files s (attr_path name ''/model_name'') = Some m" "2 \<le> length m"
  shows "\<exists>k j. get_battid E s = (Inr (take 2 m @ j), s\<lparr>fs_calls := k, is_xpwr := is_xpwr s \<or> dollar name\<rparr>)"
  using attribute_works [OF assms(1-3), of MODEL_NAME_SIZE] assms(4) by (auto simp: get_battid_def MODEL_NAME_SIZE_def)

lemma dev_works:
  assumes "faultless E" "fs_files s path = Some x"
  shows "\<exists>s'. write_exactly E path bs s = (0, s') \<and> fs_written s' = (path, bs) # fs_written s"
  using assms by (simp add: write_exactly_def faultless_open fg_write_def faultless_next put_file_def Let_def)

lemma saved_fits:
  assumes "saved d p sn b" "SIZEOF_TABLE - 2 \<le> length d" "take 2 m = field d 13 2" "2 \<le> length m"
  shows "is_sec_cksum_ok b" "secondary_fits b (take 2 m @ j) (padded sn) (header_of p) = Some True"
proof -
  from assms(1) show "is_sec_cksum_ok b" by (simp add: saved_def is_sec_cksum_ok_def)
  obtain r where r: "sb_serial_num b = takeWhile (\<lambda>b. b \<noteq> 0) (padded sn) @ 0 # r" and ok: "sec_ok b" using assms(1) by (auto simp: saved_def)
  let ?u = "takeWhile (\<lambda>b. b \<noteq> 0) (padded sn)"
  have "takeWhile (\<lambda>b. b \<noteq> 0) (?u @ 0 # r) = ?u" by (subst takeWhile_append2) (auto dest: set_takeWhileD)
  then have l: "c_strlen (sb_serial_num b) = Some (length ?u)" by (simp add: c_strlen_def r)
  have "strneq (sb_serial_num b) (padded sn) (length ?u) = Some True"
    using takeWhile_eq_take [of "\<lambda>b. b \<noteq> 0" "padded sn"] by (intro strneq_same) (simp_all add: r length_takeWhile_le)
  moreover have "strneq (tb_battid (sb_tbl b)) (take 2 m @ j) 2 = Some True"
    using assms ok battid_of_body [of "sb_tbl b"]
    by (intro strneq_same) (auto simp: saved_def sec_ok_def field_def SIZEOF_TABLE_def drop_take)
  ultimately show "secondary_fits b (take 2 m @ j) (padded sn) (header_of p) = Some True"
    using assms(1) l by (simp add: secondary_fits_def MODEL_NAME_SIZE_def padded_facts(2) [simplified] saved_def Let_def)
qed

lemma secondary_restored:
  assumes "faultless E" "the_battery s name" "\<not> dollar name" "\<not> is_xpwr s"
    and "fs_files s SECONDARY_FILE = Some (bytes_of_sec b @ old)" "saved d p sn b" "SIZEOF_TABLE - 2 \<le> length d"
    and "fs_files s PRIMARY_FILE = Some p" "SIZEOF_HEADER \<le> unat (ph_file_size (header_of p))"
    and "unat (ph_file_size (header_of p)) \<le> length p" "unat (ph_file_size (header_of p)) \<le> MAX_PRIM_FILE_SIZE"
    and "fs_files s (attr_path name ''/serial_number'') = Some sn"
    and "fs_files s (attr_path name ''/model_name'') = Some m" "2 \<le> length m" "take 2 m = field d 13 2" "fs_files s DEV_FILE \<noteq> None"
  shows "\<exists>s'. write_fgdev_config E s = Some (0, s') \<and> fs_written s' = (DEV_FILE, take (SIZEOF_TABLE - 2) d) # fs_written s"
proof -
  have s_calls: "s\<lparr>fs_calls := k, is_xpwr := is_xpwr s \<or> dollar name\<rparr> = s\<lparr>fs_calls := k\<rparr>" for k using assms(3,4) by simp
  obtain k1 j where 1: "get_battid E s = (Inr (take 2 m @ j), s\<lparr>fs_calls := k1\<rparr>)"
    using battid_works [OF assms(1,2,13,14)] unfolding s_calls by blast
  obtain k2 where 2: "get_serial_num E (s\<lparr>fs_calls := k1\<rparr>) = (Inr (padded sn), s\<lparr>fs_calls := k2\<rparr>)"
    using serial_works [OF assms(1), of "s\<lparr>fs_calls := k1\<rparr>" name sn] assms(2,3,4,12) by auto
  obtain k3 where 3: "read_primary_header E (s\<lparr>fs_calls := k2\<rparr>) = (Inr (header_of p), s\<lparr>fs_calls := k3\<rparr>)"
    using header_works [OF assms(1), of "s\<lparr>fs_calls := k2\<rparr>" p] assms(8-11) by auto
  let ?n = "unat (ph_file_size (header_of p))"
  obtain k5 where 5: "read_primary_file E ?n (s\<lparr>fs_calls := Suc k3\<rparr>) = (Inr (take ?n p), s\<lparr>fs_calls := k5\<rparr>)"
    using faultless_exactly(1) [OF assms(1), of "s\<lparr>fs_calls := Suc k3\<rparr>" PRIMARY_FILE p ?n] assms(8,10) by (auto simp: read_primary_file_def)
  have b: "length (bytes_of_sec b) = SIZEOF_SEC" "sec_of (bytes_of_sec b) = b"
    using assms(6) sec.lay_length sec.get_lay by (auto simp: saved_def)
  obtain k6 where 6: "read_secondary_file E (s\<lparr>fs_calls := k5\<rparr>) = (Inr b, s\<lparr>fs_calls := k6\<rparr>)"
    using faultless_exactly(1) [OF assms(1), of "s\<lparr>fs_calls := k5\<rparr>" SECONDARY_FILE "bytes_of_sec b @ old" SIZEOF_SEC] assms(5) b
    by (auto simp: read_secondary_file_def)
  obtain ok where c: "is_prim_cksum_ok (take ?n p) = Some ok"
    using assms(9,10) by (simp add: is_prim_cksum_ok_def SIZEOF_HEADER_def)
  have "get_fg_config_table E s = Some (Inr (Some (sb_tbl b)), s\<lparr>fs_calls := k6\<rparr>)"
    using 1 2 3 5 6 c assms(4) saved_fits [OF assms(6,7,15,14)]
    by (simp add: get_fg_config_table_def table_config_def choose_table_def on_success_def faultless_works [OF assms(1)] Let_def)
  moreover obtain s' where "write_exactly E DEV_FILE (body_of_table (sb_tbl b)) (s\<lparr>fs_calls := k6\<rparr>) = (0, s')"
    "fs_written s' = (DEV_FILE, body_of_table (sb_tbl b)) # fs_written s"
    using dev_works [OF assms(1), of "s\<lparr>fs_calls := k6\<rparr>" DEV_FILE] assms(16) by auto
  ultimately show ?thesis using assms(4,6) by (simp add: write_fgdev_config_def write_to_dev_def saved_def)
qed

lemma driver_saved:
  assumes "faultless E" "the_battery s name" "\<not> dollar name" "\<not> is_xpwr s"
    and "fs_files s DEV_FILE = Some d" "SIZEOF_TABLE - 2 \<le> length d"
    and "fs_files s PRIMARY_FILE = Some p" "SIZEOF_HEADER \<le> length p" "unat (ph_file_size (header_of p)) \<le> MAX_PRIM_FILE_SIZE"
    and "fs_files s (attr_path name ''/serial_number'') = Some sn"
  shows "\<exists>b old s'. read_fg_write_sec E s = (0, s') \<and> saved d p sn b \<and> fs_supplies s' = fs_supplies s \<and>
    fs_files s' = (fs_files s)(SECONDARY_FILE := Some (bytes_of_sec b @ old))"
proof -
  obtain k1 where 1: "get_battery_ps_name E s = (Inr (snprintf PATH_MAX name), s\<lparr>fs_calls := k1\<rparr>)"
    using ps_name_works [OF assms(1,2)] assms(3,4) by auto
  obtain k2 where 2: "read_device E DEV_FILE (SIZEOF_TABLE - 2) (s\<lparr>fs_calls := k1\<rparr>) = (Inr (take (SIZEOF_TABLE - 2) d), s\<lparr>fs_calls := k2\<rparr>)"
    using faultless_exactly(2) [OF assms(1), of "s\<lparr>fs_calls := k1\<rparr>" DEV_FILE d] assms(5,6) by auto
  define raw where "raw = take (SIZEOF_TABLE - 2) d @ drop (SIZEOF_TABLE - 2) (junk E SIZEOF_SEC s)"
  have "length raw = SIZEOF_SEC" using assms(6) by (simp add: raw_def junk_def SIZEOF_TABLE_def SIZEOF_SEC_def)
  then have ok: "sec_ok (sec_of raw)" by (rule sec.get_ok)
  have body: "body_of_table (sb_tbl (sec_of raw)) = take (SIZEOF_TABLE - 2) d"
    using assms(6) by (simp add: sec_of_def body_of_table_of raw_def junk_def SIZEOF_TABLE_def SIZEOF_SEC_def)
  from sec_config_works [OF assms(1) _ assms(3) ok body, of "s\<lparr>fs_calls := k2\<rparr>" p sn] assms(2,7-10)
  obtain b old s' where "write_sec_config E (sec_of raw) (s\<lparr>fs_calls := k2\<rparr>) = (0, s')" "saved d p sn b" "fs_supplies s' = fs_supplies s"
    "fs_files s' = (fs_files s)(SECONDARY_FILE := Some (bytes_of_sec b @ old))" by auto
  with 1 2 assms(4) show ?thesis by (auto simp: read_fg_write_sec_def raw_def)
qed

text \<open>
  A system with a battery \<open>name\<close> whose driver has the data \<open>d\<close>, for the model that the power supply reports, with the primary file
  \<open>p\<close> and the serial number \<open>sn\<close>.
\<close>

definition installed :: "fg_sys \<Rightarrow> string \<Rightarrow> byte list \<Rightarrow> byte list \<Rightarrow> byte list \<Rightarrow> bool" where
  "installed s name d p sn \<longleftrightarrow> the_battery s name \<and> \<not> dollar name \<and> \<not> is_xpwr s \<and>
     fs_files s DEV_FILE = Some d \<and> SIZEOF_TABLE - 2 \<le> length d \<and>
     fs_files s PRIMARY_FILE = Some p \<and> SIZEOF_HEADER \<le> unat (ph_file_size (header_of p)) \<and>
     unat (ph_file_size (header_of p)) \<le> length p \<and> unat (ph_file_size (header_of p)) \<le> MAX_PRIM_FILE_SIZE \<and>
     fs_files s (attr_path name ''/serial_number'') = Some sn \<and>
     (case fs_files s (attr_path name ''/model_name'') of None \<Rightarrow> False
      | Some m \<Rightarrow> 2 \<le> length m \<and> take 2 m = field d 13 2)"

text \<open>The next start: all files but the devices are as they were left, and the program starts afresh.\<close>

definition next_start :: "fg_sys \<Rightarrow> fg_sys \<Rightarrow> bool" where
  "next_start s s' \<longleftrightarrow> (\<forall>path. \<not> is_dev path \<longrightarrow> fs_files s' path = fs_files s path) \<and> fs_supplies s' = fs_supplies s \<and>
     \<not> is_xpwr s'"

lemma sysfs_not_dev: "\<not> is_dev (attr_path n a)"
proof -
  have "take 2 (attr_path n a) = ''/s''" by (simp add: attr_path_def snprintf_def PATH_MAX_def fg_files)
  then have "take 2 (take 5 (attr_path n a)) \<noteq> take 2 ''/dev/''" by simp
  then show ?thesis unfolding is_dev_def by metis
qed

text \<open>
  C25: What the fuel gauge has learnt survives a restart. On a system with a readable battery and a sound primary file, saving
  always succeeds; and if at the next start nothing but the devices has changed, restoring succeeds as well and writes to
  the driver exactly once, exactly the data that were read from it before, whatever the memory of the program
  contained and whatever an older and longer secondary file held.
\<close>

theorem fg_save_restore:
  assumes "faultless E" "faultless E'" "installed s name d p sn"
  shows "\<exists>s1. fg_main E [''-r''] s = Some (0, s1) \<and>
    (\<forall>s2. next_start s1 s2 \<and> fs_files s2 DEV_FILE \<noteq> None \<longrightarrow>
      (\<exists>s3. fg_main E' [''-w''] s2 = Some (0, s3) \<and> fs_written s3 = (DEV_FILE, take (SIZEOF_TABLE - 2) d) # fs_written s2))"
proof -
  from assms(3) obtain m where i: "the_battery s name" "\<not> dollar name" "\<not> is_xpwr s" "fs_files s DEV_FILE = Some d" "SIZEOF_TABLE - 2 \<le> length d"
    "fs_files s PRIMARY_FILE = Some p" "SIZEOF_HEADER \<le> unat (ph_file_size (header_of p))" "unat (ph_file_size (header_of p)) \<le> length p"
    "unat (ph_file_size (header_of p)) \<le> MAX_PRIM_FILE_SIZE" "fs_files s (attr_path name ''/serial_number'') = Some sn"
    "fs_files s (attr_path name ''/model_name'') = Some m" "2 \<le> length m" "take 2 m = field d 13 2"
    by (auto simp: installed_def split: option.splits)
  from driver_saved [OF assms(1) i(1-6) order_trans [OF i(7,8)] i(9,10)]
  obtain b old s1 where s1: "read_fg_write_sec E s = (0, s1)" "saved d p sn b" "fs_supplies s1 = fs_supplies s"
    "fs_files s1 = (fs_files s)(SECONDARY_FILE := Some (bytes_of_sec b @ old))" by blast
  have "\<exists>s3. fg_main E' [''-w''] s2 = Some (0, s3) \<and> fs_written s3 = (DEV_FILE, take (SIZEOF_TABLE - 2) d) # fs_written s2"
    if s2: "next_start s1 s2" "fs_files s2 DEV_FILE \<noteq> None" for s2
  proof -
    have f: "fs_files s2 path = fs_files s1 path" if "\<not> is_dev path" for path using s2(1) that by (simp add: next_start_def)
    have "the_battery s2 = the_battery s"
      using f s1(3,4) s2(1) by (intro battery_files) (auto simp: next_start_def)
    then show ?thesis
      using secondary_restored [OF assms(2), of s2 name b old d p sn m] i s1(2,4) s2 f sysfs_not_dev sysfs_not_secondary(2)
      by (simp add: fg_main_def next_start_def)
  qed
  with s1(1) show ?thesis by (auto simp: fg_main_def)
qed

section \<open>Only checked data reach the driver\<close>

lemma read_exactly_from:
  assumes "read_exactly E path n s = (Inr bs, s')"
  shows "\<exists>x. fs_files s path = Some x \<and> bs = take n x \<and> length bs = n" "reads s s'"
proof -
  show "reads s s'" using reads_exactly [of s s E path n] assms by simp
  have "(fs_files s path = None \<longrightarrow> fst (fg_open E False path s) \<noteq> 0)"
    by (auto simp: fg_open_def errno_of_def c_errno_defs next_call_def split: fault.splits)
  then show "\<exists>x. fs_files s path = Some x \<and> bs = take n x \<and> length bs = n"
    using assms reads_open [of s s E path]
    by (cases "fg_open E False path s")
      (auto simp: read_exactly_def fg_read_def reads_def next_call_def Let_def split: if_splits sum.splits fault.splits option.splits)
qed

lemma strneq_take: "n \<le> m \<Longrightarrow> strneq (take m xs) ys n = strneq xs ys n"
proof (induction xs ys n arbitrary: m rule: strneq.induct)
  case (2 x xs y ys n)
  then show ?case by (cases m) auto
qed auto

lemma strneq_total: "n \<le> length xs \<Longrightarrow> n \<le> length ys \<or> 0 \<in> set ys \<Longrightarrow> \<exists>b. strneq xs ys n = Some b"
  by (induction xs ys n rule: strneq.induct) auto

text \<open>A table of the primary file that fits the battery.\<close>

definition fits :: "byte list \<Rightarrow> byte list \<Rightarrow> table_body \<Rightarrow> bool" where
  "fits name battid t \<longleftrightarrow> strneq (tb_table_name t) name MAX_TABLE_NAME_SIZE = Some True \<and>
     strneq (tb_battid t) battid MODEL_NAME_SIZE = Some True"

lemma table_of_fields:
  assumes "mem_read pbuf sz SIZEOF_TABLE = Some t"
  shows "strneq (tb_table_name (table_of t)) name MAX_TABLE_NAME_SIZE = strneq (drop (sz + 5) pbuf) name MAX_TABLE_NAME_SIZE"
    "strneq (tb_battid (table_of t)) battid MODEL_NAME_SIZE = strneq (drop (sz + 13) pbuf) battid MODEL_NAME_SIZE"
  using assms
  by (auto simp: mem_read_def table_of_def field_def drop_take strneq_take fg_sizes SIZEOF_TABLE_def add.commute split: if_splits)

lemma search_tables_found:
  assumes "search_tables pbuf sz fsz name battid = Some (Some t)"
  shows "\<exists>k. mem_read pbuf (sz + k * SIZEOF_TABLE) SIZEOF_TABLE = Some (bytes_of_table t) \<and> fits name battid t"
  using assms
proof (induction pbuf sz fsz name battid rule: search_tables.induct)
  case (1 pbuf sz fsz name battid)
  from "1.prems" obtain same fit where c: "sz < fsz" "strneq (drop (sz + 5) pbuf) name MAX_TABLE_NAME_SIZE = Some same"
    "(if same then strneq (drop (sz + 13) pbuf) battid MODEL_NAME_SIZE else Some False) = Some fit"
    by (subst (asm) search_tables.simps) (auto simp: bind_eq_Some_conv split: if_splits)
  show ?case
  proof (cases fit)
    case True
    with c "1.prems" obtain u where u: "mem_read pbuf sz SIZEOF_TABLE = Some u" "t = table_of u"
      by (subst (asm) search_tables.simps) (auto simp: bind_eq_Some_conv)
    then have "bytes_of_table t = u" by (auto intro: table.lay_get)
    with u True c table_of_fields [OF u(1)] show ?thesis by (intro exI [of _ 0]) (auto simp: fits_def split: if_splits)
  next
    case False
    with c "1.prems" have "search_tables pbuf (sz + SIZEOF_TABLE) fsz name battid = Some (Some t)"
      by (subst (asm) search_tables.simps) (auto split: if_splits)
    from "1.IH" [OF c(1-3) False this] obtain k where
      "mem_read pbuf (sz + SIZEOF_TABLE + k * SIZEOF_TABLE) SIZEOF_TABLE = Some (bytes_of_table t)" "fits name battid t" by blast
    then show ?thesis by (intro exI [of _ "Suc k"]) (simp add: add.assoc)
  qed
qed

text \<open>In a file of whole tables the search finds the first that fits.\<close>

lemma search_tables_first:
  assumes "\<forall>t \<in> set ts. table_ok t" "0 \<in> set name" "MODEL_NAME_SIZE \<le> length battid"
  shows "search_tables (pre @ concat (map bytes_of_table ts)) (length pre) (length pre + length ts * SIZEOF_TABLE) name battid =
    Some (find (fits name battid) ts)"
  using assms(1)
proof (induction ts arbitrary: pre)
  case Nil
  then show ?case by (subst search_tables.simps) simp
next
  case (Cons t ts)
  let ?buf = "pre @ bytes_of_table t @ concat (map bytes_of_table ts)"
  have l: "length (bytes_of_table t) = SIZEOF_TABLE" using Cons.prems table.lay_length by simp
  then have m: "mem_read ?buf (length pre) SIZEOF_TABLE = Some (bytes_of_table t)" by (simp add: mem_simps)
  have t: "table_of (bytes_of_table t) = t" using Cons.prems table.get_lay by simp
  obtain same where a: "strneq (tb_table_name t) name MAX_TABLE_NAME_SIZE = Some same"
    using strneq_total [of MAX_TABLE_NAME_SIZE "tb_table_name t" name] assms(2) Cons.prems by (auto simp: table_ok_def fg_sizes)
  obtain fit where b: "strneq (tb_battid t) battid MODEL_NAME_SIZE = Some fit"
    using strneq_total [of MODEL_NAME_SIZE "tb_battid t" battid] assms(3) Cons.prems by (auto simp: table_ok_def fg_sizes)
  note f = table_of_fields [OF m, unfolded t, of name] table_of_fields(2) [OF m, unfolded t, of battid]
  have "search_tables ?buf (length pre + SIZEOF_TABLE) (length pre + length (t # ts) * SIZEOF_TABLE) name battid =
      Some (find (fits name battid) ts)"
    using Cons.IH [of "pre @ bytes_of_table t"] Cons.prems l by (simp add: ac_simps)
  then show ?case
    using a b f m t by (subst search_tables.simps) (simp add: fits_def SIZEOF_TABLE_def)
qed

lemma on_successE [consumes 1, case_names error result]:
  assumes "on_success r f = Some (x, s')"
  obtains e where "r = (Inl e, s')" "x = Inl e" | a s1 where "r = (Inr a, s1)" "f a s1 = Some (x, s')"
  using assms by (auto simp: on_success_def split: prod.splits sum.splits)

lemma reads_prod: "reads s (snd p) \<Longrightarrow> p = (a, s') \<Longrightarrow> reads s s'"
  by simp

lemma get_primary_found:
  assumes "get_primary_fg_config E pbuf battid s = Some (r, s')"
  shows "reads s s'" "r = Inr t \<Longrightarrow> \<exists>name. fst (get_battery_ps_name E s) = Inr name \<and>
    search_tables pbuf SIZEOF_HEADER (unat (ph_file_size (header_of pbuf))) (cstr name @ [0]) battid = Some (Some t)"
  using assms [unfolded get_primary_fg_config_def] reads_attributes(1) [OF reads_refl, of s E]
  by (auto elim!: on_successE simp: bind_eq_Some_conv split: option.splits)

lemma primary_config_checked:
  assumes "primary_config E pbuf ok battid s = Some (r, s')"
  shows "reads s s'" "r = Inr t \<Longrightarrow> ok \<and> (\<exists>name k t0. mem_read pbuf (SIZEOF_HEADER + k * SIZEOF_TABLE) SIZEOF_TABLE = Some (bytes_of_table t0) \<and>
    fst (get_battery_ps_name E s) = Inr name \<and> fits (cstr name @ [0]) battid t0 \<and> (t = t0 \<or> t = t0\<lparr>tb_config_init := 1\<rparr>))"
proof -
  consider (bad) "\<not> ok" "s' = s" "\<exists>e. r = Inl e" | (go) r1 s1 where "ok" "get_primary_fg_config E pbuf battid s = Some (r1, s1)"
    "on_success (r1, s1) (\<lambda>t s1. let (inCOS, s2) = isCOS E s1 in Some (Inr (if inCOS then t\<lparr>tb_config_init := 1\<rparr> else t), s2)) = Some (r, s')"
    using assms by (auto simp: primary_config_def bind_eq_Some_conv split: if_splits)
  then have "reads s s' \<and> (\<forall>t. r = Inr t \<longrightarrow> ok \<and> (\<exists>name k t0. mem_read pbuf (SIZEOF_HEADER + k * SIZEOF_TABLE) SIZEOF_TABLE = Some (bytes_of_table t0) \<and>
    fst (get_battery_ps_name E s) = Inr name \<and> fits (cstr name @ [0]) battid t0 \<and> (t = t0 \<or> t = t0\<lparr>tb_config_init := 1\<rparr>)))"
  proof cases
    case go
    note g = get_primary_found(1) [OF go(2)] get_primary_found(2) [OF go(2)]
    from go(3) show ?thesis
    proof (cases rule: on_successE)
      case (result t0 s2)
      have "reads s (snd (isCOS E s1))" using reads_attributes(5) [OF g(1), of E] .
      moreover obtain name where "fst (get_battery_ps_name E s) = Inr name"
        "search_tables pbuf SIZEOF_HEADER (unat (ph_file_size (header_of pbuf))) (cstr name @ [0]) battid = Some (Some t0)"
        using g(2) result(1) by blast
      ultimately show ?thesis using result go(1) search_tables_found by (auto simp: case_prod_unfold Let_def split: if_splits) blast+
    qed (use g in auto)
  qed auto
  then show "reads s s'" "r = Inr t \<Longrightarrow> ok \<and> (\<exists>name k t0. mem_read pbuf (SIZEOF_HEADER + k * SIZEOF_TABLE) SIZEOF_TABLE = Some (bytes_of_table t0) \<and>
    fst (get_battery_ps_name E s) = Inr name \<and> fits (cstr name @ [0]) battid t0 \<and> (t = t0 \<or> t = t0\<lparr>tb_config_init := 1\<rparr>))" by auto
qed

lemma xpwr_writes: "is_xpwr (snd (write_exactly E path bs s)) = is_xpwr s"
  by (simp add: write_exactly_def fg_open_def fg_write_def next_call_def put_file_def case_prod_unfold Let_def split: fault.split sum.split)

lemma xpwr_stays: "is_xpwr s \<Longrightarrow> is_xpwr (snd (xpwr_config E s))"
proof -
  assume "is_xpwr s"
  then have "is_xpwr s'" if "reads s s'" for s' using that by (simp add: reads_def)
  then show ?thesis
    by (simp add: xpwr_config_def write_to_intel_fg_dev_def xpwr_writes reading case_prod_unfold Let_def split: sum.split)
qed

text \<open>Where a table for the driver may come from; \<open>battid\<close> and \<open>serial\<close> are what the power supply reports.\<close>

definition from_secondary :: "fg_sys \<Rightarrow> byte list \<Rightarrow> byte list \<Rightarrow> table_body \<Rightarrow> bool" where
  "from_secondary s battid serial t \<longleftrightarrow> (\<exists>f p. fs_files s SECONDARY_FILE = Some f \<and> fs_files s PRIMARY_FILE = Some p \<and>
     t = sb_tbl (sec_of (take SIZEOF_SEC f)) \<and> is_sec_cksum_ok (sec_of (take SIZEOF_SEC f)) \<and>
     secondary_fits (sec_of (take SIZEOF_SEC f)) battid serial (header_of p) = Some True)"

definition battery_found :: "fg_env \<Rightarrow> fg_sys \<Rightarrow> string \<Rightarrow> bool" where
  "battery_found E s name \<longleftrightarrow> (\<exists>s1. reads s s1 \<and> fst (get_battery_ps_name E s1) = Inr name)"

definition from_primary :: "fg_env \<Rightarrow> fg_sys \<Rightarrow> byte list \<Rightarrow> table_body \<Rightarrow> bool" where
  "from_primary E s battid t \<longleftrightarrow> (\<exists>p pbuf name k t0. fs_files s PRIMARY_FILE = Some p \<and> pbuf = take (unat (ph_file_size (header_of p))) p \<and>
     is_prim_cksum_ok pbuf = Some True \<and> mem_read pbuf (SIZEOF_HEADER + k * SIZEOF_TABLE) SIZEOF_TABLE = Some (bytes_of_table t0) \<and>
     battery_found E s name \<and> fits (cstr name @ [0]) battid t0 \<and> (t = t0 \<or> t = t0\<lparr>tb_config_init := 1\<rparr>))"

lemma from_reads:
  assumes "reads s s'"
  shows "from_secondary s' battid serial t \<longleftrightarrow> from_secondary s battid serial t" "from_primary E s' battid t \<Longrightarrow> from_primary E s battid t"
proof -
  have f: "fs_files s' = fs_files s" using assms by (simp add: reads_def)
  then show "from_secondary s' battid serial t \<longleftrightarrow> from_secondary s battid serial t" by (simp add: from_secondary_def)
  have "battery_found E s' name \<Longrightarrow> battery_found E s name" for name using reads_trans [OF assms] by (auto simp: battery_found_def)
  then show "from_primary E s' battid t \<Longrightarrow> from_primary E s battid t" unfolding from_primary_def f by (elim exE conjE) (intro exI conjI, assumption+)
qed

lemma choose_table_cases:
  assumes "choose_table E battid serial pheader pbuf s = Some (r, s')" "read_secondary_file E s = (sec, s1)"
  obtains (none) "s' = s1" "r = Inl c_EINVAL"
  | (secondary) sbuf where "sec = Inr sbuf" "is_sec_cksum_ok sbuf" "secondary_fits sbuf battid serial pheader = Some True"
      "s' = s1" "r = Inr (sb_tbl sbuf)"
  | (primary) ok where "is_prim_cksum_ok pbuf = Some ok" "primary_config E pbuf ok battid s1 = Some (r, s')"
proof -
  obtain ok where ok: "is_prim_cksum_ok pbuf = Some ok" using assms(1) by (auto simp: choose_table_def bind_eq_Some_conv)
  show thesis
  proof (cases sec)
    case (Inl e)
    with assms ok primary show thesis by (simp add: choose_table_def)
  next
    case (Inr sbuf)
    show thesis
    proof (cases "is_sec_cksum_ok sbuf")
      case True
      with assms Inr ok obtain fits where f: "secondary_fits sbuf battid serial pheader = Some fits"
        by (auto simp: choose_table_def bind_eq_Some_conv)
      show thesis
      proof (cases fits)
        case True
        from assms Inr ok f this \<open>is_sec_cksum_ok sbuf\<close> secondary show thesis by (simp add: choose_table_def)
      next
        case False
        from assms Inr ok f this \<open>is_sec_cksum_ok sbuf\<close> primary show thesis by (simp add: choose_table_def)
      qed
    next
      case False
      with assms Inr ok none primary show thesis by (cases ok) (simp_all add: choose_table_def)
    qed
  qed
qed

lemma read_secondary_from:
  assumes "read_secondary_file E s = (Inr sbuf, s')"
  shows "\<exists>f. fs_files s SECONDARY_FILE = Some f \<and> sbuf = sec_of (take SIZEOF_SEC f)"
proof (cases "read_exactly E SECONDARY_FILE SIZEOF_SEC s")
  case (Pair r s1)
  with assms obtain bs where "r = Inr bs" "sbuf = sec_of bs" by (auto simp: read_secondary_file_def split: sum.splits)
  with read_exactly_from(1) [of E SECONDARY_FILE SIZEOF_SEC s bs s1] Pair show ?thesis by auto
qed

lemma choose_table_checked:
  assumes "choose_table E battid serial (header_of p) (take (unat (ph_file_size (header_of p))) p) s = Some (r, s')"
    and "fs_files s PRIMARY_FILE = Some p"
  shows "reads s s'" "r = Inr t \<Longrightarrow> from_secondary s battid serial t \<or> from_primary E s battid t"
proof -
  obtain sec s1 where sec: "read_secondary_file E s = (sec, s1)" by (metis prod.exhaust)
  have s1: "reads s s1" using reads_files(4) [OF reads_refl, of s E] sec by simp
  from assms(1) sec have "reads s s' \<and> (\<forall>t. r = Inr t \<longrightarrow> from_secondary s battid serial t \<or> from_primary E s battid t)"
  proof (cases rule: choose_table_cases)
    case (secondary sbuf)
    then obtain f where "fs_files s SECONDARY_FILE = Some f" "sbuf = sec_of (take SIZEOF_SEC f)"
      using read_secondary_from sec by blast
    with secondary assms(2) have "from_secondary s battid serial (sb_tbl sbuf)" unfolding from_secondary_def by auto
    with secondary s1 show ?thesis by simp
  next
    case (primary ok)
    note c = primary_config_checked(1) [OF primary(2)] primary_config_checked(2) [OF primary(2)]
    have "from_primary E s battid t" if "r = Inr t" for t
    proof -
      from c(2) [OF that] obtain name k t0 where t0: "ok" "fst (get_battery_ps_name E s1) = Inr name" "fits (cstr name @ [0]) battid t0"
        "mem_read (take (unat (ph_file_size (header_of p))) p) (SIZEOF_HEADER + k * SIZEOF_TABLE) SIZEOF_TABLE = Some (bytes_of_table t0)"
        "t = t0 \<or> t = t0\<lparr>tb_config_init := 1\<rparr>" by blast
      have "battery_found E s name" using s1 t0(2) by (auto simp: battery_found_def)
      with t0 primary(1) assms(2) show ?thesis unfolding from_primary_def by auto
    qed
    then show ?thesis using reads_trans [OF s1 c(1)] by blast
  qed (use s1 in simp)
  then show "reads s s'" "r = Inr t \<Longrightarrow> from_secondary s battid serial t \<or> from_primary E s battid t" by blast+
qed

lemma read_header_from:
  assumes "read_primary_header E s = (Inr pheader, s')"
  shows "\<exists>p. fs_files s PRIMARY_FILE = Some p \<and> pheader = header_of p" "reads s s'"
proof -
  show "reads s s'" using reads_files(1) [OF reads_refl, of s E] assms by simp
  obtain r s1 where r: "read_exactly E PRIMARY_FILE SIZEOF_HEADER s = (r, s1)" by (metis prod.exhaust)
  with assms obtain bs where "r = Inr bs" "pheader = header_of bs"
    by (auto simp: read_primary_header_def Let_def split: sum.splits if_splits)
  with read_exactly_from(1) [of E PRIMARY_FILE SIZEOF_HEADER s bs s1] r
  show "\<exists>p. fs_files s PRIMARY_FILE = Some p \<and> pheader = header_of p" by auto
qed

lemma table_config_checked:
  assumes "table_config E battid s = Some (r, s')"
  shows "reads s s' \<and> (\<forall>t. r = Inr t \<longrightarrow> (\<exists>serial. fst (get_serial_num E s) = Inr serial \<and>
    (from_secondary s battid serial t \<or> from_primary E s battid t)))"
  using assms unfolding table_config_def
proof (cases rule: on_successE)
  case (error e)
  then show ?thesis using reads_attributes(4) [OF reads_refl, of s E] by simp
next
  case (result serial s1)
  have serial: "fst (get_serial_num E s) = Inr serial" using result(1) by simp
  have s1: "reads s s1" using reads_attributes(4) [OF reads_refl, of s E] result(1) by simp
  from result(2) show ?thesis
  proof (cases rule: on_successE)
    case (error e)
    then show ?thesis using reads_files(1) [OF s1, of E] by simp
  next
    case (result pheader s2)
    obtain p where p: "fs_files s1 PRIMARY_FILE = Some p" "pheader = header_of p" and r2: "reads s1 s2"
      using read_header_from [OF result(1)] by blast
    obtain e s3 where w: "fg_works E s2 = (e, s3)" by (metis prod.exhaust)
    have s3: "reads s s3" using reads_read(2) [OF reads_trans [OF s1 r2], of E] w by simp
    show ?thesis
    proof (cases "e = 0")
      case True
      with result(2) w have "on_success (read_primary_file E (unat (ph_file_size pheader)) s3) (choose_table E battid serial pheader) =
        Some (r, s')" by simp
      then show ?thesis
      proof (cases rule: on_successE)
        case (error e)
        then show ?thesis using reads_files(2) [OF s3, of E "unat (ph_file_size pheader)"] by simp
      next
        case (result pbuf s4)
        note f = read_exactly_from [OF result(1) [unfolded read_primary_file_def]]
        have same: "fs_files s3 = fs_files s" "fs_files s1 = fs_files s" "fs_files s4 = fs_files s"
          using s1 s3 f(2) by (simp_all add: reads_def)
        with f(1) p(1) have "pbuf = take (unat (ph_file_size pheader)) p" "fs_files s4 PRIMARY_FILE = Some p" by auto
        note c = choose_table_checked [OF result(2) [unfolded this(1) p(2)] this(2)]
        have s4: "reads s s4" using reads_trans [OF s3 f(2)] .
        show ?thesis using reads_trans [OF s4 c(1)] c(2) from_reads [OF s4] serial by blast
      qed
    qed (use result(2) s3 w in auto)
  qed
qed

definition checked_table :: "fg_env \<Rightarrow> fg_sys \<Rightarrow> table_body \<Rightarrow> bool" where
  "checked_table E s t \<longleftrightarrow> (\<exists>battid serial. fst (get_battid E s) = Inr battid \<and>
     fst (get_serial_num E (snd (get_battid E s))) = Inr serial \<and>
     (from_secondary s battid serial t \<or> from_primary E s battid t))"

lemma config_table_checked:
  assumes "get_fg_config_table E s = Some (r, s')" "\<not> is_xpwr s'"
  shows "reads s s'" "r = Inr x \<Longrightarrow> \<exists>t. x = Some t \<and> checked_table E s t"
proof -
  have b: "reads s (snd (get_battid E s))" using reads_attributes(3) [OF reads_refl, of s E] .
  from assms(1) [unfolded get_fg_config_table_def]
  have "reads s s' \<and> (\<forall>x. r = Inr x \<longrightarrow> (\<exists>t. x = Some t \<and> checked_table E s t))"
  proof (cases rule: on_successE)
    case (error e)
    with b show ?thesis by simp
  next
    case (result battid s1)
    have "\<not> is_xpwr s1"
    proof
      assume "is_xpwr s1"
      with result(2) have "s' = snd (xpwr_config E s1)" by (auto simp: case_prod_unfold Let_def split: if_splits)
      with xpwr_stays \<open>is_xpwr s1\<close> assms(2) show False by blast
    qed
    with result(2) obtain r1 s2 where t: "table_config E battid s1 = Some (r1, s2)"
      "on_success (r1, s2) (\<lambda>t s2. Some (Inr (Some t), s2)) = Some (r, s')"
      by (auto simp: bind_eq_Some_conv)
    then have x: "s' = s2" "\<And>x. r = Inr x \<Longrightarrow> \<exists>t. x = Some t \<and> r1 = Inr t" by (auto simp: on_success_def split: sum.splits)
    have s1: "reads s s1" using b result(1) by simp
    have "checked_table E s t" if r1: "r1 = Inr t" for t
      using table_config_checked [OF t(1)] r1 from_reads [OF s1] result(1) unfolding checked_table_def by auto
    then show ?thesis using x table_config_checked [OF t(1)] reads_trans [OF s1] by blast
  qed
  then show "reads s s'" "r = Inr x \<Longrightarrow> \<exists>t. x = Some t \<and> checked_table E s t" by blast+
qed

text \<open>No function reports an error with the number 0.\<close>

definition nonzero :: "int + 'a \<Rightarrow> bool" where
  "nonzero r \<longleftrightarrow> r \<noteq> Inl 0"

named_theorems nonzeros \<open>operations that report no error with the number 0\<close>

lemma nonzero_simps [simp]: "nonzero (Inr a)" "nonzero (Inl e) \<longleftrightarrow> e \<noteq> 0"
  by (simp_all add: nonzero_def)

lemma errno_nonzero [simp]: "errno_of e \<noteq> 0" "c_EINVAL \<noteq> 0" "c_ENODATA \<noteq> 0" "c_ENOMEM \<noteq> 0" "c_ENOENT \<noteq> 0" "c_EIO \<noteq> 0"
  by (simp_all add: errno_of_def c_errno_defs)

lemma nonzero_read [nonzeros]: "nonzero (fst (fg_read E path n s))"
  by (simp add: fg_read_def case_prod_unfold Let_def split: fault.split)

lemma nonzero_exactly [nonzeros]: "nonzero (fst (read_exactly E path n s))"
  by (simp add: read_exactly_def case_prod_unfold Let_def split: sum.split)

lemma nonzero_header [nonzeros]: "nonzero (fst (read_primary_header E s))"
  using nonzero_exactly [of E PRIMARY_FILE SIZEOF_HEADER s]
  by (auto simp: read_primary_header_def case_prod_unfold Let_def split: sum.split)

lemma nonzero_battery [nonzeros]: "nonzero (fst (find_battery E names buf s))"
  by (induction names arbitrary: buf s) (simp_all add: case_prod_unfold Let_def split: sum.split)

lemma nonzero_attribute [nonzeros]:
  "nonzero (fst (get_battery_ps_name E s))" "nonzero (fst (read_attribute E a n s))"
  "nonzero (fst (get_battid E s))" "nonzero (fst (get_serial_num E s))"
proof -
  show n: "nonzero (fst (get_battery_ps_name E s))" for s
    by (simp add: get_battery_ps_name_def nonzeros case_prod_unfold Let_def)
  show a: "nonzero (fst (read_attribute E a n s))" for a n
    using n [of s] by (auto simp: read_attribute_def nonzeros case_prod_unfold Let_def split: sum.split)
  show "nonzero (fst (get_battid E s))" "nonzero (fst (get_serial_num E s))"
    using a [of "''/model_name''" MODEL_NAME_SIZE] a [of "''/serial_number''" MAX_SERIAL_NUM_SIZE]
    by (auto simp: get_battid_def get_serial_num_def case_prod_unfold Let_def split: sum.split)
qed

lemma nonzero_on_success:
  assumes "on_success r f = Some (x, s')" "nonzero (fst r)" "\<And>a s1 x s'. f a s1 = Some (x, s') \<Longrightarrow> nonzero x"
  shows "nonzero x"
  using assms by (auto simp: on_success_def split: prod.splits sum.splits)

lemma nonzero_primary:
  assumes "primary_config E pbuf ok battid s = Some (x, s')"
  shows "nonzero x"
proof (cases ok)
  case True
  have "nonzero r" if "get_primary_fg_config E pbuf battid s = Some (r, s1)" for r s1
    using that unfolding get_primary_fg_config_def
    by (rule nonzero_on_success) (auto simp: nonzeros bind_eq_Some_conv split: option.splits)
  then have "nonzero (fst r)" if "get_primary_fg_config E pbuf battid s = Some r" for r using that by (cases r) simp
  with assms True show ?thesis
    by (auto simp: primary_config_def bind_eq_Some_conv case_prod_unfold Let_def elim!: nonzero_on_success)
qed (use assms in \<open>auto simp: primary_config_def\<close>)

lemma nonzero_table:
  assumes "table_config E battid s = Some (x, s')"
  shows "nonzero x"
proof -
  have c: "nonzero x" if "choose_table E battid serial pheader pbuf s = Some (x, s')" for serial pheader pbuf s x s'
    using that prod.collapse [symmetric] by (rule choose_table_cases) (auto dest: nonzero_primary)
  show ?thesis
    using assms unfolding table_config_def
    by (rule nonzero_on_success)
      (auto simp: nonzeros read_primary_file_def case_prod_unfold Let_def dest: c split: if_splits elim!: nonzero_on_success)
qed

lemma nonzero_config:
  assumes "get_fg_config_table E s = Some (x, s')"
  shows "nonzero x"
  using assms unfolding get_fg_config_table_def
  by (rule nonzero_on_success) (auto simp: nonzeros case_prod_unfold Let_def bind_eq_Some_conv split: if_splits
      elim!: nonzero_on_success dest: nonzero_table)

lemma write_exactly_log:
  assumes "write_exactly E path bs s = (r, s')"
  shows "(r \<noteq> 0 \<and> fs_written s' = fs_written s) \<or>
    (\<exists>n. fs_written s' = (path, take n bs) # fs_written s \<and> (r = 0 \<longrightarrow> take n bs = bs))"
proof -
  have "fs_written (snd (fg_open E False path s)) = fs_written s" using reads_open [of s s E path] by (simp add: reads_def)
  then show ?thesis
    using assms
    by (auto simp: write_exactly_def fg_write_def next_call_def put_file_def Let_def case_prod_unfold min_def
        split: if_splits sum.splits fault.splits intro: exI [of _ "length bs"])
qed

text \<open>
  C26: Whatever faults the files and the device have, the driver of a gauge with tables gets nothing but checked data. Either the helper
  reports an error and has written nothing, or it has written to the driver once, a table (or the beginning of it if
  the device did not take it all, and then it does not report success) that comes from one of two places: from a secondary file whose checksum is right
  and that was saved for the model and the serial number of this battery with the primary file that is installed, or from a primary file whose
  checksum is right, where it is a table for this model, unchanged but for the mark that is set when the system boots to charge.
\<close>

theorem fg_device_data_checked:
  assumes "write_fgdev_config E s = Some (r, s')" "\<not> is_xpwr s'"
  shows "(fs_written s' = fs_written s \<and> r \<noteq> 0) \<or>
    (\<exists>t n. checked_table E s t \<and>
       fs_written s' = (DEV_FILE, take n (body_of_table t)) # fs_written s \<and> (r = 0 \<longrightarrow> take n (body_of_table t) = body_of_table t))"
proof -
  obtain x s1 where c: "get_fg_config_table E s = Some (x, s1)"
    and w: "(r, s') = (case x of Inl e \<Rightarrow> (e, s1) | Inr None \<Rightarrow> (0, s1)
      | Inr (Some t) \<Rightarrow> if is_xpwr s1 then (0, s1) else write_to_dev E t s1)"
    using assms(1) by (auto simp: write_fgdev_config_def bind_eq_Some_conv)
  have "\<not> is_xpwr s1"
    using w assms(2) xpwr_writes by (auto simp: write_to_dev_def split: sum.splits option.splits if_splits)
  note c1 = config_table_checked [OF c this]
  have log: "fs_written s1 = fs_written s" using c1(1) by (simp add: reads_def)
  show ?thesis
  proof (cases x)
    case (Inl e)
    with w log nonzero_config [OF c] show ?thesis by simp
  next
    case (Inr y)
    from c1(2) [OF Inr] obtain t where t: "y = Some t" "checked_table E s t" by blast
    with w Inr \<open>\<not> is_xpwr s1\<close> have "write_exactly E DEV_FILE (body_of_table t) s1 = (r, s')" by (simp add: write_to_dev_def)
    from write_exactly_log [OF this] t log show ?thesis by auto
  qed
qed

section \<open>The other kind of gauge\<close>

definition sec_sound :: "byte list \<Rightarrow> bool" where
  "sec_sound f \<longleftrightarrow> XPWR_SEC_CONFIG_SIZE \<le> length f \<and>
     checksum (take (XPWR_SEC_CONFIG_SIZE - 2) f) = u16_of (field f (XPWR_SEC_CONFIG_SIZE - 2) 2)"

definition prim_sound :: "byte list \<Rightarrow> bool" where
  "prim_sound p \<longleftrightarrow> checksum (take (XPWR_CONFIG_SIZE - 2) p) = u16_of (field p (XPWR_CONFIG_SIZE - 2) 2)"

text \<open>The file whose data are written, by what the two files hold.\<close>

definition xpwr_choice :: "byte list option \<Rightarrow> byte list \<Rightarrow> byte list option" where
  "xpwr_choice sec p =
     (case sec of
        Some f \<Rightarrow>
          if sec_sound f
          then Some (if checksum (take (XPWR_CONFIG_SIZE - 2) p) = u16_of (field f (XPWR_SEC_CONFIG_SIZE - 4) 2) then f else p)
          else if prim_sound p then Some p else None
      | None \<Rightarrow> if prim_sound p then Some p else None)"

lemma field_take: "off + n \<le> m \<Longrightarrow> field (take m bs) off n = field bs off n"
  by (simp add: field_def drop_take min_def)

lemma faultless_short:
  assumes "faultless E" "fs_files s path = None \<or> (\<exists>bs. fs_files s path = Some bs \<and> length bs < n)"
  shows "\<exists>k e. read_exactly E path n s = (Inl e, s\<lparr>fs_calls := k\<rparr>)"
  using assms(2) by (auto simp: read_exactly_def fg_open_def fg_read_def faultless_next [OF assms(1)] c_ENOENT_def Let_def)

lemma xpwr_config_works:
  assumes "faultless E" "fs_files s XPWR_PRIMARY_FILE = Some p" "XPWR_CONFIG_SIZE \<le> length p" "fs_files s INTEL_FG_DEV_FILE \<noteq> None"
  shows "\<exists>s'. xpwr_config E s = (case xpwr_choice (fs_files s SECONDARY_FILE) p of None \<Rightarrow> c_EINVAL | Some _ \<Rightarrow> 0, s') \<and>
    fs_written s' = (case xpwr_choice (fs_files s SECONDARY_FILE) p of None \<Rightarrow> []
      | Some d \<Rightarrow> [(INTEL_FG_DEV_FILE, take (XPWR_CONFIG_SIZE - 2) d)]) @ fs_written s"
proof -
  let ?k = "Suc (Suc (fs_calls s))"
  obtain sec k1 where sec: "read_xpwr_secondary_file E (s\<lparr>fs_calls := ?k\<rparr>) = (sec, s\<lparr>fs_calls := k1\<rparr>)"
    "case fs_files s SECONDARY_FILE of None \<Rightarrow> \<exists>e. sec = Inl e
      | Some f \<Rightarrow> if XPWR_SEC_CONFIG_SIZE \<le> length f then sec = Inr (take XPWR_SEC_CONFIG_SIZE f) else \<exists>e. sec = Inl e"
  proof (cases "\<exists>f. fs_files s SECONDARY_FILE = Some f \<and> XPWR_SEC_CONFIG_SIZE \<le> length f")
    case True
    then show thesis
      using faultless_exactly(1) [OF assms(1), of "s\<lparr>fs_calls := ?k\<rparr>" SECONDARY_FILE _ XPWR_SEC_CONFIG_SIZE] that
      by (fastforce simp: read_xpwr_secondary_file_def)
  next
    case False
    then show thesis
      using faultless_short [OF assms(1), of "s\<lparr>fs_calls := ?k\<rparr>" SECONDARY_FILE XPWR_SEC_CONFIG_SIZE] that
      by (cases "fs_files s SECONDARY_FILE") (auto simp: read_xpwr_secondary_file_def)
  qed
  obtain k2 where prim: "read_xpwr_primary_file E (s\<lparr>fs_calls := k1\<rparr>) = (Inr (take XPWR_CONFIG_SIZE p), s\<lparr>fs_calls := k2\<rparr>)"
    using faultless_exactly(1) [OF assms(1), of "s\<lparr>fs_calls := k1\<rparr>" XPWR_PRIMARY_FILE p] assms(2,3)
    by (auto simp: read_xpwr_primary_file_def)
  have dev: "\<exists>s'. write_to_intel_fg_dev E d (s\<lparr>fs_calls := k2\<rparr>) = (0, s') \<and>
      fs_written s' = (INTEL_FG_DEV_FILE, take (XPWR_CONFIG_SIZE - 2) d) # fs_written s" for d
    using dev_works [OF assms(1), of "s\<lparr>fs_calls := k2\<rparr>" INTEL_FG_DEV_FILE] assms(4) by (auto simp: write_to_intel_fg_dev_def)
  show ?thesis
    using sec prim dev [of p] dev [of "take XPWR_CONFIG_SIZE p"] dev [of "the (fs_files s SECONDARY_FILE)"]
      dev [of "take XPWR_SEC_CONFIG_SIZE (the (fs_files s SECONDARY_FILE))"]
    by (auto simp: xpwr_config_def faultless_works [OF assms(1)] xpwr_choice_def sec_sound_def prim_sound_def field_take
        XPWR_CONFIG_SIZE_def XPWR_SEC_CONFIG_SIZE_def split: option.splits if_splits)
qed

text \<open>
  C28: What is written to the driver of the other kind of gauge. With a readable battery and primary file the result is a function of
  the contents of the two files: a sound secondary file saved with this primary file is preferred; otherwise the primary file is
  taken if either file is sound; and if none is, nothing is written and the error is \<^verbatim>\<open>EINVAL\<close>. So a primary file with a wrong
  checksum is written to the driver as soon as there is a sound secondary file that was saved with another one.
\<close>

theorem xpwr_data_written:
  assumes "faultless E" "the_battery s name" "dollar name" "fs_files s (attr_path name ''/model_name'') = Some m"
    and "fs_files s XPWR_PRIMARY_FILE = Some p" "XPWR_CONFIG_SIZE \<le> length p" "fs_files s INTEL_FG_DEV_FILE \<noteq> None"
  shows "\<exists>s'. (case xpwr_choice (fs_files s SECONDARY_FILE) p of
      None \<Rightarrow> fg_main E [''-w''] s = Some (c_EINVAL, s') \<and> fs_written s' = fs_written s
    | Some d \<Rightarrow> fg_main E [''-w''] s = Some (0, s') \<and>
        fs_written s' = (INTEL_FG_DEV_FILE, take (XPWR_CONFIG_SIZE - 2) d) # fs_written s)"
proof -
  obtain k where "read_attribute E ''/model_name'' MODEL_NAME_SIZE s = (Inr (take MODEL_NAME_SIZE m), s\<lparr>fs_calls := k, is_xpwr := True\<rparr>)"
    using attribute_works [OF assms(1,2,4), of MODEL_NAME_SIZE] assms(3) by auto
  then obtain battid where b: "get_battid E s = (Inr battid, s\<lparr>fs_calls := k, is_xpwr := True\<rparr>)" by (simp add: get_battid_def)
  show ?thesis
    using xpwr_config_works [OF assms(1), of "s\<lparr>fs_calls := k, is_xpwr := True\<rparr>" p] assms(5-7) b
    by (auto simp: fg_main_def write_fgdev_config_def get_fg_config_table_def on_success_def split: option.splits)
qed

section \<open>The first start\<close>

text \<open>A primary file: header and whole tables, with its checksum.\<close>

definition primary_image :: "u16 \<Rightarrow> u16 \<Rightarrow> table_body list \<Rightarrow> byte list" where
  "primary_image v res ts =
     (let sz = le16 (of_nat (SIZEOF_HEADER + length ts * SIZEOF_TABLE)); tables = concat (map bytes_of_table ts) in
      le16 v @ sz @ le16 (checksum (le16 v @ sz @ [0, 0] @ le16 res @ tables)) @ le16 res @ tables)"

lemma length_tables: "\<forall>t \<in> set ts. table_ok t \<Longrightarrow> length (concat (map bytes_of_table ts)) = length ts * SIZEOF_TABLE"
  by (induction ts) (simp_all add: table.lay_length)

lemma image_facts:
  assumes "\<forall>t \<in> set ts. table_ok t" "length ts \<le> MAX_FG_TABLES"
  shows "length (primary_image v res ts) = SIZEOF_HEADER + length ts * SIZEOF_TABLE"
    "unat (ph_file_size (header_of (primary_image v res ts))) = SIZEOF_HEADER + length ts * SIZEOF_TABLE"
    "is_prim_cksum_ok (primary_image v res ts) = Some True"
proof -
  show l: "length (primary_image v res ts) = SIZEOF_HEADER + length ts * SIZEOF_TABLE"
    using length_tables [OF assms(1)] by (simp add: primary_image_def SIZEOF_HEADER_def Let_def)
  have "ph_file_size (header_of (primary_image v res ts)) = of_nat (SIZEOF_HEADER + length ts * SIZEOF_TABLE)"
    by (simp add: header_of_def primary_image_def field_def Let_def)
  then show "unat (ph_file_size (header_of (primary_image v res ts))) = SIZEOF_HEADER + length ts * SIZEOF_TABLE"
    using assms(2) by (simp only: unat_of_nat) (simp add: SIZEOF_HEADER_def SIZEOF_TABLE_def MAX_FG_TABLES_def)
  show "is_prim_cksum_ok (primary_image v res ts) = Some True"
    using l by (simp add: is_prim_cksum_ok_def SIZEOF_HEADER_def) (simp add: primary_image_def field_def Let_def)
qed

lemma image_search:
  assumes "\<forall>t \<in> set ts. table_ok t" "0 \<in> set name" "MODEL_NAME_SIZE \<le> length battid"
  shows "search_tables (primary_image v res ts) SIZEOF_HEADER (SIZEOF_HEADER + length ts * SIZEOF_TABLE) name battid =
    Some (find (fits name battid) ts)"
proof -
  define pre where "pre = take SIZEOF_HEADER (primary_image v res ts)"
  have "primary_image v res ts = pre @ concat (map bytes_of_table ts)" "length pre = SIZEOF_HEADER"
    by (simp_all add: pre_def primary_image_def SIZEOF_HEADER_def Let_def)
  with search_tables_first [OF assms, of pre] show ?thesis by simp
qed

lemma strneq_take_right: "n \<le> length ys \<Longrightarrow> strneq xs (take n ys @ zs) n = strneq xs ys n"
  by (induction xs ys n rule: strneq.induct) (auto simp: neq_Nil_conv Suc_le_length_iff)

lemma fits_model: "2 \<le> length m \<Longrightarrow> fits name (take 2 m @ j) = fits name m"
  by (simp add: fun_eq_iff fits_def MODEL_NAME_SIZE_def strneq_take_right)

lemma cos_works: "faultless E \<Longrightarrow> \<exists>k b. isCOS E s = (b, s\<lparr>fs_calls := k\<rparr>)"
  by (auto simp: isCOS_def fg_open_def fg_read_def faultless_next Let_def split: option.split)

lemma primary_written:
  assumes "faultless E" "the_battery s name" "\<not> dollar name" "\<not> is_xpwr s" "fs_files s SECONDARY_FILE = None"
    and "fs_files s PRIMARY_FILE = Some (primary_image v res ts)" "\<forall>t \<in> set ts. table_ok t" "length ts \<le> MAX_FG_TABLES"
    and "fs_files s (attr_path name ''/serial_number'') = Some sn"
    and "fs_files s (attr_path name ''/model_name'') = Some m" "2 \<le> length m" "fs_files s DEV_FILE \<noteq> None"
  shows "\<exists>s'. \<not> is_xpwr s' \<and> (case find (fits (cstr (snprintf PATH_MAX name) @ [0]) m) ts of
      None \<Rightarrow> write_fgdev_config E s = Some (c_EINVAL, s') \<and> fs_written s' = fs_written s
    | Some t \<Rightarrow> write_fgdev_config E s = Some (0, s') \<and>
        (\<exists>u \<in> {t, t\<lparr>tb_config_init := 1\<rparr>}. fs_written s' = (DEV_FILE, body_of_table u) # fs_written s))"
proof -
  have s_calls: "s\<lparr>fs_calls := k, is_xpwr := is_xpwr s \<or> dollar name\<rparr> = s\<lparr>fs_calls := k\<rparr>" for k using assms(3,4) by simp
  let ?p = "primary_image v res ts" and ?n = "SIZEOF_HEADER + length ts * SIZEOF_TABLE" and ?name = "snprintf PATH_MAX name"
  note p = image_facts [OF assms(7,8), of v res]
  obtain k1 j where 1: "get_battid E s = (Inr (take 2 m @ j), s\<lparr>fs_calls := k1\<rparr>)"
    using battid_works [OF assms(1,2,10,11)] unfolding s_calls by blast
  obtain k2 where 2: "get_serial_num E (s\<lparr>fs_calls := k1\<rparr>) = (Inr (padded sn), s\<lparr>fs_calls := k2\<rparr>)"
    using serial_works [OF assms(1), of "s\<lparr>fs_calls := k1\<rparr>" name sn] assms(2,3,4,9) by auto
  have "?n \<le> MAX_PRIM_FILE_SIZE" using assms(8) by (simp add: MAX_PRIM_FILE_SIZE_def)
  then obtain k3 where 3: "read_primary_header E (s\<lparr>fs_calls := k2\<rparr>) = (Inr (header_of ?p), s\<lparr>fs_calls := k3\<rparr>)"
    using header_works [OF assms(1), of "s\<lparr>fs_calls := k2\<rparr>" ?p] assms(6) p by auto
  obtain k5 where 5: "read_primary_file E ?n (s\<lparr>fs_calls := Suc k3\<rparr>) = (Inr ?p, s\<lparr>fs_calls := k5\<rparr>)"
    using faultless_exactly(1) [OF assms(1), of "s\<lparr>fs_calls := Suc k3\<rparr>" PRIMARY_FILE ?p ?n] assms(6) p(1) by (auto simp: read_primary_file_def)
  obtain k6 e where 6: "read_secondary_file E (s\<lparr>fs_calls := k5\<rparr>) = (Inl e, s\<lparr>fs_calls := k6\<rparr>)"
    using faultless_short [OF assms(1), of "s\<lparr>fs_calls := k5\<rparr>" SECONDARY_FILE SIZEOF_SEC] assms(5) by (auto simp: read_secondary_file_def)
  obtain k7 where 7: "get_battery_ps_name E (s\<lparr>fs_calls := k6\<rparr>) = (Inr ?name, s\<lparr>fs_calls := k7\<rparr>)"
    using ps_name_works [OF assms(1), of "s\<lparr>fs_calls := k6\<rparr>" name] assms(2,3,4) by auto
  have 8: "search_tables ?p SIZEOF_HEADER ?n (cstr ?name @ [0]) (take 2 m @ j) = Some (find (fits (cstr ?name @ [0]) m) ts)"
    using image_search [OF assms(7), of "cstr ?name @ [0]" "take 2 m @ j"] assms(11) fits_model [OF assms(11)] by (simp add: MODEL_NAME_SIZE_def)
  obtain k9 b where 9: "isCOS E (s\<lparr>fs_calls := k7\<rparr>) = (b, s\<lparr>fs_calls := k9\<rparr>)" using cos_works [OF assms(1), of "s\<lparr>fs_calls := k7\<rparr>"] by auto
  have c: "get_fg_config_table E s = Some (case find (fits (cstr ?name @ [0]) m) ts of
      None \<Rightarrow> (Inl c_EINVAL, s\<lparr>fs_calls := k7\<rparr>)
    | Some t \<Rightarrow> (Inr (Some (if b then t\<lparr>tb_config_init := 1\<rparr> else t)), s\<lparr>fs_calls := k9\<rparr>))"
    using 1 2 3 5 6 7 8 9 p assms(4)
    by (simp add: get_fg_config_table_def table_config_def choose_table_def primary_config_def get_primary_fg_config_def on_success_def
        faultless_works [OF assms(1)] Let_def split: option.split)
  show ?thesis
  proof (cases "find (fits (cstr ?name @ [0]) m) ts")
    case (Some t)
    have "\<exists>s'. write_to_dev E u (s\<lparr>fs_calls := k9\<rparr>) = (0, s') \<and> fs_written s' = (DEV_FILE, body_of_table u) # fs_written s \<and>
        \<not> is_xpwr s'" for u
      using dev_works [OF assms(1), of "s\<lparr>fs_calls := k9\<rparr>" DEV_FILE _ "body_of_table u"] assms(4,12)
        xpwr_writes [of E DEV_FILE "body_of_table u" "s\<lparr>fs_calls := k9\<rparr>"] by (auto simp: write_to_dev_def)
    from this [of "if b then t\<lparr>tb_config_init := 1\<rparr> else t"] c Some assms(4) show ?thesis
      by (cases b) (auto simp: write_fgdev_config_def)
  qed (use c assms(4) in \<open>auto simp: write_fgdev_config_def\<close>)
qed

text \<open>
  C27: At the first start, with no secondary file yet, the driver gets the table for its battery. If the primary file is well formed, with at
  most 15 tables, the helper writes the first table whose name is that of the power supply and whose model is that of the battery, except for
  the mark that is set when the system boots to charge; and if there is no such table it writes nothing and returns \<^verbatim>\<open>EINVAL\<close>.
\<close>

theorem fg_first_start:
  assumes "faultless E" "the_battery s name" "\<not> dollar name" "\<not> is_xpwr s" "fs_files s SECONDARY_FILE = None"
    and "fs_files s PRIMARY_FILE = Some (primary_image v res ts)" "\<forall>t \<in> set ts. table_ok t" "length ts \<le> MAX_FG_TABLES"
    and "fs_files s (attr_path name ''/serial_number'') = Some sn"
    and "fs_files s (attr_path name ''/model_name'') = Some m" "2 \<le> length m" "fs_files s DEV_FILE \<noteq> None"
  shows "\<exists>s'. (case find (fits (cstr (snprintf PATH_MAX name) @ [0]) m) ts of
      None \<Rightarrow> fg_main E [''-w''] s = Some (c_EINVAL, s') \<and> fs_written s' = fs_written s
    | Some t \<Rightarrow> fg_main E [''-w''] s = Some (0, s') \<and>
        (\<exists>u \<in> {t, t\<lparr>tb_config_init := 1\<rparr>}. fs_written s' = (DEV_FILE, body_of_table u) # fs_written s))"
  using primary_written [OF assms] by (auto simp: fg_main_def split: option.splits)

section \<open>Examples\<close>

text \<open>
  A system with a gauge \<open>name\<close> (and a charger beside it), whose model is \<^verbatim>\<open>AB\<close>; the primary file of the first kind has two tables for
  the gauge \<^verbatim>\<open>bat\<close>, the one of the other kind has a wrong checksum, and
  the secondary file beside it is sound but was saved with yet another one.
\<close>

definition ex_env :: fg_env where
  "ex_env = \<lparr>fe_fault = (\<lambda>_. Works), fe_junk = (\<lambda>n. [255, 254, 253])\<rparr>"

definition ex_table :: table_body where
  "ex_table = \<lparr>tb_table_type = 1, tb_size = 0, tb_rev = 0, tb_table_name = cstr ''bat'' @ replicate 5 0,
     tb_battid = cstr ''AB'' @ replicate 6 0, tb_config_init = 0, tb_fg_config = replicate 138 7, tb_cksum = 0\<rparr>"

definition ex_primary :: "byte list" where
  "ex_primary = primary_image 1 0 [ex_table\<lparr>tb_battid := cstr ''XY'' @ replicate 6 0\<rparr>, ex_table]"

definition ex_files :: "string \<Rightarrow> string \<Rightarrow> byte list option" where
  "ex_files name path =
     (if path = type_path ''charger'' then Some (cstr ''Mains'' @ [10])
      else if path = type_path name then Some (cstr ''Battery'' @ [10])
      else if path = attr_path name ''/model_name'' then Some (cstr ''AB'')
      else if path = attr_path name ''/serial_number'' then Some (cstr ''1234'' @ [10])
      else if path = PRIMARY_FILE then Some ex_primary
      else if path = XPWR_PRIMARY_FILE then Some (replicate 36 7 @ [0, 0])
      else if path = SECONDARY_FILE \<and> dollar name then Some (replicate 36 0 @ le16 1 @ le16 1)
      else if path = DEV_FILE \<or> path = INTEL_FG_DEV_FILE then Some (body_of_table ex_table)
      else None)"

definition ex_sys :: "string \<Rightarrow> fg_sys" where
  "ex_sys name = \<lparr>fs_files = ex_files name, fs_supplies = [''.'', ''..'', ''charger'', name], fs_calls = 0, fs_written = [], is_xpwr = False\<rparr>"

lemma ex_faultless: "faultless ex_env"
  by (simp add: faultless_def ex_env_def)

lemma ex_paths:
  "type_path ''charger'' = ''/sys/class/power_supply//charger/type''" "type_path ''bat'' = ''/sys/class/power_supply//bat/type''"
  "type_path ''dollar_cove'' = ''/sys/class/power_supply//dollar_cove/type''"
  "attr_path ''bat'' ''/model_name'' = ''/sys/class/power_supply//bat/model_name''"
  "attr_path ''bat'' ''/serial_number'' = ''/sys/class/power_supply//bat/serial_number''"
  "attr_path ''dollar_cove'' ''/model_name'' = ''/sys/class/power_supply//dollar_cove/model_name''"
  "attr_path ''dollar_cove'' ''/serial_number'' = ''/sys/class/power_supply//dollar_cove/serial_number''"
  by (simp_all add: type_path_def attr_path_def snprintf_def PATH_MAX_def POWER_SUPPLY_PATH_def)

lemma ex_battery:
  "the_battery (ex_sys ''bat'') ''bat''" "the_battery (ex_sys ''dollar_cove'') ''dollar_cove''"
  by (simp_all add: the_battery_def ex_sys_def no_dot_def plain_type_def is_battery_def ex_files_def ex_paths cstr_def)

lemma ex_dollar: "\<not> dollar ''bat''" "dollar ''dollar_cove''"
  by (simp_all add: dollar_def)

lemma ex_tables: "\<forall>t \<in> set [ex_table\<lparr>tb_battid := cstr ''XY'' @ replicate 6 0\<rparr>, ex_table]. table_ok t"
  by (simp add: table_ok_def ex_table_def cstr_def)

lemmas ex_image = image_facts [OF ex_tables, of 1 0, folded ex_primary_def]

lemma ex_lengths: "length (body_of_table ex_table) = 160"
  using table.lay_length [of ex_table] ex_tables by (simp add: body_of_table_def SIZEOF_TABLE_def)

lemma ex_model: "field (body_of_table ex_table) 13 2 = [65, 66]"
proof -
  have "field (body_of_table ex_table) 13 2 = take 2 (field (body_of_table ex_table) 13 8)" by (simp add: field_def)
  also have "\<dots> = take 2 (tb_battid ex_table)" using battid_of_body [of ex_table] ex_tables by simp
  finally show ?thesis by (simp add: ex_table_def cstr_def)
qed

lemma ex_installed: "installed (ex_sys ''bat'') ''bat'' (body_of_table ex_table) ex_primary (cstr ''1234'' @ [10])"
  using ex_battery(1) ex_dollar(1) ex_image
  by (simp add: installed_def ex_lengths ex_model SIZEOF_TABLE_def SIZEOF_HEADER_def MAX_PRIM_FILE_SIZE_def MAX_FG_TABLES_def)
   (simp add: ex_sys_def ex_files_def ex_paths fg_files ex_model cstr_def)

theorem fg_save_restore_witness:
  "installed (ex_sys ''bat'') ''bat'' (body_of_table ex_table) ex_primary (cstr ''1234'' @ [10]) \<and>
    (\<exists>s1. fg_main ex_env [''-r''] (ex_sys ''bat'') = Some (0, s1) \<and>
    (\<forall>s2. next_start s1 s2 \<and> fs_files s2 DEV_FILE \<noteq> None \<longrightarrow>
      (\<exists>s3. fg_main ex_env [''-w''] s2 = Some (0, s3) \<and>
        fs_written s3 = (DEV_FILE, take (SIZEOF_TABLE - 2) (body_of_table ex_table)) # fs_written s2)))"
  using fg_save_restore [OF ex_faultless ex_faultless ex_installed] ex_installed by blast

lemma ex_find:
  "find (fits (cstr (snprintf PATH_MAX ''bat'') @ [0]) (cstr ''AB'')) [ex_table\<lparr>tb_battid := cstr ''XY'' @ replicate 6 0\<rparr>, ex_table] =
    Some ex_table"
  by (simp add: snprintf_def PATH_MAX_def fits_def ex_table_def cstr_def fg_sizes numeral_eq_Suc)

lemma ex_world:
  "\<not> is_xpwr (ex_sys ''bat'')" "fs_files (ex_sys ''bat'') SECONDARY_FILE = None"
  "fs_files (ex_sys ''bat'') PRIMARY_FILE = Some (primary_image 1 0 [ex_table\<lparr>tb_battid := cstr ''XY'' @ replicate 6 0\<rparr>, ex_table])"
  "fs_files (ex_sys ''bat'') (attr_path ''bat'' ''/serial_number'') = Some (cstr ''1234'' @ [10])"
  "fs_files (ex_sys ''bat'') (attr_path ''bat'' ''/model_name'') = Some (cstr ''AB'')"
  "2 \<le> length (cstr ''AB'')" "fs_files (ex_sys ''bat'') DEV_FILE \<noteq> None" "fs_written (ex_sys ''bat'') = []"
  "length [ex_table\<lparr>tb_battid := cstr ''XY'' @ replicate 6 0\<rparr>, ex_table] \<le> MAX_FG_TABLES"
  using ex_dollar(1) by (simp_all add: ex_sys_def ex_files_def ex_paths ex_primary_def fg_files MAX_FG_TABLES_def cstr_def)

theorem fg_first_start_witness:
  "\<exists>s'. fg_main ex_env [''-w''] (ex_sys ''bat'') = Some (0, s') \<and>
    (\<exists>u \<in> {ex_table, ex_table\<lparr>tb_config_init := 1\<rparr>}. fs_written s' = [(DEV_FILE, body_of_table u)])"
  using fg_first_start [OF ex_faultless ex_battery(1) ex_dollar(1) ex_world(1-3) ex_tables ex_world(9,4-7)]
  by (simp only: ex_find ex_world(8) option.case)

lemma ex_run: "\<exists>s'. write_fgdev_config ex_env (ex_sys ''bat'') = Some (0, s') \<and> \<not> is_xpwr s'"
  using primary_written [OF ex_faultless ex_battery(1) ex_dollar(1) ex_world(1-3) ex_tables ex_world(9,4-7)]
  by (simp only: ex_find ex_world(8) option.case) blast

theorem fg_device_data_checked_witness:
  "\<exists>s' t. write_fgdev_config ex_env (ex_sys ''bat'') = Some (0, s') \<and> \<not> is_xpwr s' \<and>
    checked_table ex_env (ex_sys ''bat'') t \<and> fs_written s' = [(DEV_FILE, body_of_table t)]"
proof -
  obtain s' where s': "write_fgdev_config ex_env (ex_sys ''bat'') = Some (0, s')" "\<not> is_xpwr s'" using ex_run by blast
  with fg_device_data_checked [OF s'] ex_world(8) show ?thesis by auto
qed

theorem xpwr_data_written_witness:
  "\<not> prim_sound (replicate 36 7 @ [0, 0]) \<and> (\<exists>s'. fg_main ex_env [''-w''] (ex_sys ''dollar_cove'') = Some (0, s') \<and>
    fs_written s' = [(INTEL_FG_DEV_FILE, replicate 36 7)])"
proof -
  let ?p = "replicate 36 7 @ [0, 0] :: byte list" and ?f = "replicate 36 0 @ le16 1 @ le16 1 :: byte list"
  have p: "\<not> prim_sound ?p" and f: "xpwr_choice (Some ?f) ?p = Some ?p"
    by code_simp+
  have w: "fs_files (ex_sys ''dollar_cove'') XPWR_PRIMARY_FILE = Some ?p" "fs_files (ex_sys ''dollar_cove'') SECONDARY_FILE = Some ?f"
    "fs_files (ex_sys ''dollar_cove'') (attr_path ''dollar_cove'' ''/model_name'') = Some (cstr ''AB'')"
    "XPWR_CONFIG_SIZE \<le> length ?p" "fs_files (ex_sys ''dollar_cove'') INTEL_FG_DEV_FILE \<noteq> None" "fs_written (ex_sys ''dollar_cove'') = []"
    using ex_dollar(2) by (simp_all add: ex_sys_def ex_files_def ex_paths fg_files XPWR_CONFIG_SIZE_def)
  show ?thesis
    using xpwr_data_written [OF ex_faultless ex_battery(2) ex_dollar(2) w(3,1,4,5)] p f w(2,6)
    by (simp add: XPWR_CONFIG_SIZE_def)
qed

end
