(* ===== verification/Omx_List.thy ===== *)
theory Omx_List
  imports Mmgr_Prelude
begin

text \<open>
  The doubly linked lists of the OpenMAX core (\<^verbatim>\<open>wrs_omxil_core/utils/src/list.c\<close>), over an explicit heap: the code changes
  the links of shared nodes in place. An address is a number and a pointer an optional address; the heap
  holds the allocated nodes. Using a node that is not allocated, or freeing it, is \<^term>\<open>None\<close>, and so is a loop over a list with
  a cycle. A name that begins with two underscores in the source begins with \<open>raw\<close> here.
\<close>

section \<open>Memory\<close>

type_synonym addr = nat
type_synonym ptr = "addr option"

text \<open>\<^verbatim>\<open>struct list\<close>; a data pointer is a number, zero for NULL.\<close>

record list_node =
  nd_next :: ptr
  nd_prev :: ptr
  nd_data :: nat

type_synonym list_heap = "addr \<rightharpoonup> list_node"

text \<open>\<^verbatim>\<open>malloc\<close>: the address of the block, with what it happens to hold, or nothing; a new block is not at NULL and none of the allocated ones.\<close>

type_synonym allocator = "list_heap \<Rightarrow> (addr \<times> list_node) option"

definition fresh :: "allocator \<Rightarrow> bool" where
  "fresh A \<longleftrightarrow> (\<forall>h a nd. A h = Some (a, nd) \<longrightarrow> h a = None \<and> a \<noteq> 0)"

definition load :: "list_heap \<Rightarrow> ptr \<Rightarrow> list_node option" where
  "load h p = (case p of None \<Rightarrow> None | Some a \<Rightarrow> h a)"

definition modify :: "(list_node \<Rightarrow> list_node) \<Rightarrow> ptr \<Rightarrow> list_heap \<Rightarrow> list_heap option" where
  "modify f p h = (case p of None \<Rightarrow> None | Some a \<Rightarrow> (case h a of None \<Rightarrow> None | Some nd \<Rightarrow> Some (h(a \<mapsto> f nd))))"

abbreviation set_next :: "ptr \<Rightarrow> ptr \<Rightarrow> list_heap \<Rightarrow> list_heap option" where
  "set_next p v \<equiv> modify (nd_next_update (\<lambda>_. v)) p"

abbreviation set_prev :: "ptr \<Rightarrow> ptr \<Rightarrow> list_heap \<Rightarrow> list_heap option" where
  "set_prev p v \<equiv> modify (nd_prev_update (\<lambda>_. v)) p"

abbreviation set_node_data :: "ptr \<Rightarrow> nat \<Rightarrow> list_heap \<Rightarrow> list_heap option" where
  "set_node_data p v \<equiv> modify (nd_data_update (\<lambda>_. v)) p"

definition raw_list_next :: "list_heap \<Rightarrow> ptr \<Rightarrow> ptr option" where
  "raw_list_next h p = (case p of None \<Rightarrow> Some None | Some a \<Rightarrow> map_option nd_next (h a))"

definition raw_list_prev :: "list_heap \<Rightarrow> ptr \<Rightarrow> ptr option" where
  "raw_list_prev h p = (case p of None \<Rightarrow> Some None | Some a \<Rightarrow> map_option nd_prev (h a))"

section \<open>Operations\<close>

definition raw_list_init :: "ptr \<Rightarrow> list_heap \<Rightarrow> list_heap option" where
  "raw_list_init p h =
     (if p = None then Some h
      else do { h1 \<leftarrow> set_prev p None h; h2 \<leftarrow> set_next p None h1; set_node_data p 0 h2 })"

definition raw_list_alloc :: "allocator \<Rightarrow> list_heap \<Rightarrow> (ptr \<times> list_heap) option" where
  "raw_list_alloc A h =
     (case A h of
        None \<Rightarrow> Some (None, h)
      | Some (a, nd) \<Rightarrow> do { h1 \<leftarrow> raw_list_init (Some a) (h(a \<mapsto> nd)); Some (Some a, h1) })"

definition list_alloc :: "allocator \<Rightarrow> nat \<Rightarrow> list_heap \<Rightarrow> (ptr \<times> list_heap) option" where
  "list_alloc A data h =
     do { (new, h1) \<leftarrow> raw_list_alloc A h;
          if new \<noteq> None then do { h2 \<leftarrow> set_node_data new data h1; Some (new, h2) } else Some (new, h1) }"

definition raw_list_free :: "ptr \<Rightarrow> list_heap \<Rightarrow> list_heap option" where
  "raw_list_free p h =
     (case p of None \<Rightarrow> Some h | Some a \<Rightarrow> if h a = None then None else Some (h(a := None)))"

partial_function (option) free_loop :: "ptr \<Rightarrow> ptr \<Rightarrow> list_heap \<Rightarrow> list_heap option" where
  "free_loop ptr tmp h =
     (if ptr = None then Some h
      else do { h1 \<leftarrow> raw_list_free ptr h; nxt \<leftarrow> raw_list_next h1 tmp; free_loop tmp nxt h1 })"

definition list_free_all :: "ptr \<Rightarrow> list_heap \<Rightarrow> list_heap option" where
  "list_free_all l h = do { tmp \<leftarrow> raw_list_next h l; free_loop l tmp h }"

partial_function (option) last_loop :: "list_heap \<Rightarrow> ptr \<Rightarrow> ptr option" where
  "last_loop h l = do { nd \<leftarrow> load h l; if nd_next nd = None then Some l else last_loop h (nd_next nd) }"

definition raw_list_last :: "list_heap \<Rightarrow> ptr \<Rightarrow> ptr option" where
  "raw_list_last h l = (if l = None then Some None else last_loop h l)"

partial_function (option) first_loop :: "list_heap \<Rightarrow> ptr \<Rightarrow> ptr option" where
  "first_loop h l = do { nd \<leftarrow> load h l; if nd_prev nd = None then Some l else first_loop h (nd_prev nd) }"

definition raw_list_first :: "list_heap \<Rightarrow> ptr \<Rightarrow> ptr option" where
  "raw_list_first h l = (if l = None then Some None else first_loop h l)"

partial_function (option) entry_loop :: "list_heap \<Rightarrow> ptr \<Rightarrow> int \<Rightarrow> int \<Rightarrow> ptr option" where
  "entry_loop h entry i index =
     (if entry = None \<or> i = index then Some entry
      else do { nxt \<leftarrow> raw_list_next h entry; entry_loop h nxt (i + 1) index })"

definition raw_list_entry :: "list_heap \<Rightarrow> ptr \<Rightarrow> int \<Rightarrow> ptr option" where
  "raw_list_entry h l index = entry_loop h l 0 index"

partial_function (option) length_loop :: "list_heap \<Rightarrow> ptr \<Rightarrow> int \<Rightarrow> int option" where
  "length_loop h l n = (if l = None then Some n else do { nxt \<leftarrow> raw_list_next h l; length_loop h nxt (n + 1) })"

definition list_length :: "list_heap \<Rightarrow> ptr \<Rightarrow> int option" where
  "list_length h l = length_loop h l 0"

definition raw_list_add_before :: "ptr \<Rightarrow> ptr \<Rightarrow> list_heap \<Rightarrow> (ptr \<times> list_heap) option" where
  "raw_list_add_before entry new h =
     (if entry = None then Some (new, h)
      else do {
        e \<leftarrow> load h entry;
        let prev = nd_prev e;
        h1 \<leftarrow> (if prev \<noteq> None then set_next prev new h else Some h);
        h2 \<leftarrow> set_prev new prev h1;
        h3 \<leftarrow> set_next new entry h2;
        h4 \<leftarrow> set_prev entry new h3;
        Some (new, h4) })"

definition raw_list_add_after :: "ptr \<Rightarrow> ptr \<Rightarrow> list_heap \<Rightarrow> (ptr \<times> list_heap) option" where
  "raw_list_add_after entry new h =
     (if entry = None then Some (new, h)
      else do {
        e \<leftarrow> load h entry;
        let nxt = nd_next e;
        h1 \<leftarrow> (if nxt \<noteq> None then set_prev nxt new h else Some h);
        h2 \<leftarrow> set_next new nxt h1;
        h3 \<leftarrow> set_prev new entry h2;
        h4 \<leftarrow> set_next entry new h3;
        Some (entry, h4) })"

definition raw_list_add_head :: "ptr \<Rightarrow> ptr \<Rightarrow> list_heap \<Rightarrow> (ptr \<times> list_heap) option" where
  "raw_list_add_head l new h =
     (if l = None then Some (new, h)
      else do { f \<leftarrow> raw_list_first h l; (_, h1) \<leftarrow> raw_list_add_before f new h; Some (new, h1) })"

definition raw_list_add_tail :: "ptr \<Rightarrow> ptr \<Rightarrow> list_heap \<Rightarrow> (ptr \<times> list_heap) option" where
  "raw_list_add_tail l new h =
     (if l = None then Some (new, h)
      else do { e \<leftarrow> raw_list_last h l; (_, h1) \<leftarrow> raw_list_add_after e new h; Some (l, h1) })"

definition list_add_head :: "allocator \<Rightarrow> ptr \<Rightarrow> nat \<Rightarrow> list_heap \<Rightarrow> (ptr \<times> list_heap) option" where
  "list_add_head A l data h =
     do { (new, h1) \<leftarrow> list_alloc A data h;
          if new = None then Some (None, h1) else raw_list_add_head l new h1 }"

definition list_add_tail :: "allocator \<Rightarrow> ptr \<Rightarrow> nat \<Rightarrow> list_heap \<Rightarrow> (ptr \<times> list_heap) option" where
  "list_add_tail A l data h =
     do { (new, h1) \<leftarrow> list_alloc A data h;
          if new = None then Some (None, h1) else raw_list_add_tail l new h1 }"

definition raw_list_remove :: "ptr \<Rightarrow> ptr \<Rightarrow> list_heap \<Rightarrow> (ptr \<times> list_heap) option" where
  "raw_list_remove l entry h =
     (if entry = None then Some (l, h)
      else do {
        e \<leftarrow> load h entry;
        let prev = nd_prev e;
        let nxt = nd_next e;
        (l1, h1) \<leftarrow> (if prev \<noteq> None then do { h1 \<leftarrow> set_next prev nxt h; Some (l, h1) } else Some (nxt, h));
        h2 \<leftarrow> (if nxt \<noteq> None then set_prev nxt prev h1 else Some h1);
        h3 \<leftarrow> set_prev entry None h2;
        h4 \<leftarrow> set_next entry None h3;
        Some (l1, h4) })"

definition raw_list_delete :: "ptr \<Rightarrow> ptr \<Rightarrow> list_heap \<Rightarrow> (ptr \<times> list_heap) option" where
  "raw_list_delete l entry h =
     do { (l1, h1) \<leftarrow> raw_list_remove l entry h; h2 \<leftarrow> raw_list_free entry h1; Some (l1, h2) }"

partial_function (option) delete_loop :: "nat \<Rightarrow> ptr \<Rightarrow> ptr \<Rightarrow> ptr \<Rightarrow> list_heap \<Rightarrow> (ptr \<times> list_heap) option" where
  "delete_loop data l ptr tmp h =
     (if ptr = None then Some (l, h)
      else do {
        nd \<leftarrow> load h ptr;
        if nd_data nd = data then raw_list_delete l ptr h
        else do { nxt \<leftarrow> raw_list_next h tmp; delete_loop data l tmp nxt h } })"

definition list_delete :: "ptr \<Rightarrow> nat \<Rightarrow> list_heap \<Rightarrow> (ptr \<times> list_heap) option" where
  "list_delete l data h = do { tmp \<leftarrow> raw_list_next h l; delete_loop data l l tmp h }"

partial_function (option) delete_all_loop :: "nat \<Rightarrow> ptr \<Rightarrow> ptr \<Rightarrow> ptr \<Rightarrow> list_heap \<Rightarrow> (ptr \<times> list_heap) option" where
  "delete_all_loop data l ptr tmp h =
     (if ptr = None then Some (l, h)
      else do {
        nd \<leftarrow> load h ptr;
        (l1, h1) \<leftarrow> (if nd_data nd = data then raw_list_delete l ptr h else Some (l, h));
        nxt \<leftarrow> raw_list_next h1 tmp;
        delete_all_loop data l1 tmp nxt h1 })"

definition list_delete_all :: "ptr \<Rightarrow> nat \<Rightarrow> list_heap \<Rightarrow> (ptr \<times> list_heap) option" where
  "list_delete_all l data h = do { tmp \<leftarrow> raw_list_next h l; delete_all_loop data l l tmp h }"

partial_function (option) find_loop :: "list_heap \<Rightarrow> ptr \<Rightarrow> nat \<Rightarrow> ptr option" where
  "find_loop h ptr data =
     (if ptr = None then Some None
      else do {
        nd \<leftarrow> load h ptr;
        if nd_data nd = data then Some ptr else find_loop h (nd_next nd) data })"

definition list_find :: "list_heap \<Rightarrow> ptr \<Rightarrow> nat \<Rightarrow> ptr option" where
  "list_find h l data = find_loop h l data"

partial_function (option) find_reverse_loop :: "list_heap \<Rightarrow> ptr \<Rightarrow> nat \<Rightarrow> ptr option" where
  "find_reverse_loop h ptr data =
     (if ptr = None then Some None
      else do {
        nd \<leftarrow> load h ptr;
        if nd_data nd = data then Some ptr else find_reverse_loop h (nd_prev nd) data })"

definition list_find_reverse :: "list_heap \<Rightarrow> ptr \<Rightarrow> nat \<Rightarrow> ptr option" where
  "list_find_reverse h l data = do { e \<leftarrow> raw_list_last h l; find_reverse_loop h e data }"

section \<open>Lists in the heap\<close>

text \<open>
  A segment: the nodes \<open>xs\<close> are linked in this order, the first one back to \<open>pv\<close> and the last one on to \<open>nx\<close>.
\<close>

definition first_of :: "addr list \<Rightarrow> ptr \<Rightarrow> ptr" where
  "first_of xs nx = (case xs of [] \<Rightarrow> nx | a # _ \<Rightarrow> Some a)"

definition last_of :: "ptr \<Rightarrow> addr list \<Rightarrow> ptr" where
  "last_of pv xs = (if xs = [] then pv else Some (last xs))"

lemma first_of_simps [simp]:
  "first_of [] nx = nx" "first_of (a # xs) nx = Some a" "first_of (xs @ ys) nx = first_of xs (first_of ys nx)"
  by (simp_all add: first_of_def) (cases xs; simp)

lemma last_of_simps [simp]:
  "last_of pv [] = pv" "last_of pv [a] = Some a" "last_of pv (a # xs) = last_of (Some a) xs" "last_of pv (xs @ ys) = last_of (last_of pv xs) ys"
  by (simp_all add: last_of_def)

fun lseg :: "list_heap \<Rightarrow> ptr \<Rightarrow> addr list \<Rightarrow> ptr \<Rightarrow> bool" where
  "lseg h pv [] nx \<longleftrightarrow> True"
| "lseg h pv (a # xs) nx \<longleftrightarrow>
     (case h a of None \<Rightarrow> False | Some nd \<Rightarrow> nd_prev nd = pv \<and> nd_next nd = first_of xs nx) \<and> lseg h (Some a) xs nx"

lemma lseg_append [simp]: "lseg h pv (xs @ ys) nx \<longleftrightarrow> lseg h pv xs (first_of ys nx) \<and> lseg h (last_of pv xs) ys nx"
  by (induction xs arbitrary: pv) (auto split: option.splits)

lemma lseg_cong: "(\<And>a. a \<in> set xs \<Longrightarrow> h a = h' a) \<Longrightarrow> lseg h pv xs nx \<longleftrightarrow> lseg h' pv xs nx"
  by (induction xs arbitrary: pv) auto

lemma lseg_upd [simp]: "a \<notin> set xs \<Longrightarrow> lseg (h(a := v)) pv xs nx \<longleftrightarrow> lseg h pv xs nx"
  by (rule lseg_cong) auto

lemma lseg_alloc: "lseg h pv xs nx \<Longrightarrow> a \<in> set xs \<Longrightarrow> \<exists>nd. h a = Some nd"
  by (induction xs arbitrary: pv) (auto split: option.splits)

definition vals :: "list_heap \<Rightarrow> addr list \<Rightarrow> nat list" where
  "vals h xs = map (\<lambda>a. nd_data (the (h a))) xs"

lemma vals_simps [simp]:
  "vals h [] = []" "vals h (a # xs) = nd_data (the (h a)) # vals h xs" "vals h (xs @ ys) = vals h xs @ vals h ys"
  "length (vals h xs) = length xs"
  by (simp_all add: vals_def)

lemma vals_upd [simp]: "a \<notin> set xs \<Longrightarrow> vals (h(a := v)) xs = vals h xs"
  by (auto simp: vals_def)

text \<open>A whole list.\<close>

definition chain :: "list_heap \<Rightarrow> addr list \<Rightarrow> bool" where
  "chain h xs \<longleftrightarrow> distinct xs \<and> lseg h None xs None"

lemmas heap_simps = load_def modify_def raw_list_next_def raw_list_prev_def

section \<open>Loops\<close>

text \<open>On a list every loop returns.\<close>

lemma last_loop_chain: "lseg h pv (a # xs) None \<Longrightarrow> last_loop h (Some a) = Some (last_of (Some a) xs)"
proof (induction xs arbitrary: a pv)
  case (Cons b xs)
  then show ?case by (subst last_loop.simps) (auto simp: heap_simps split: option.splits)
qed (subst last_loop.simps, auto simp: heap_simps split: option.splits)

lemma first_loop_chain: "lseg h None (xs @ [a]) nx \<Longrightarrow> first_loop h (Some a) = Some (first_of (xs @ [a]) None)"
proof (induction xs arbitrary: a nx rule: rev_induct)
  case (snoc b xs)
  then show ?case by (subst first_loop.simps) (auto simp: heap_simps split: option.splits)
qed (subst first_loop.simps, auto simp: heap_simps split: option.splits)

lemma first_of_append_last: "first_of (us @ [e] @ ws) nx = first_of (us @ [e]) None"
  by (cases us) simp_all

lemma last_of_append_first: "last_of pv (us @ [e] @ ws) = last_of (Some e) ws"
  by simp

text \<open>From any node of a list its two ends are found.\<close>

lemma raw_list_ends:
  assumes "chain h (us @ [e] @ ws)"
  shows "raw_list_first h (Some e) = Some (first_of (us @ [e]) None)" "raw_list_last h (Some e) = Some (last_of (Some e) ws)"
  using assms first_loop_chain [of h us e "first_of ws None"] last_loop_chain [of h "last_of None us" e ws]
  by (auto simp: chain_def raw_list_first_def raw_list_last_def split: option.splits)

lemma length_loop_chain: "lseg h pv xs None \<Longrightarrow> length_loop h (first_of xs None) n = Some (n + int (length xs))"
proof (induction xs arbitrary: pv n)
  case (Cons a xs)
  then show ?case by (subst length_loop.simps) (auto simp: heap_simps split: option.splits)
qed (subst length_loop.simps, simp)

lemma entry_loop_chain:
  "lseg h pv xs None \<Longrightarrow> i \<le> index \<Longrightarrow> entry_loop h (first_of xs None) i index =
     Some (if index - i < int (length xs) then Some (xs ! nat (index - i)) else None)"
proof (induction xs arbitrary: pv i)
  case (Cons a xs)
  have "nat (index - i) = Suc (nat (index - (i + 1)))" if "i \<noteq> index" using that Cons.prems(2) by simp
  with Cons show ?case by (subst entry_loop.simps) (auto simp: heap_simps split: option.splits)
qed (subst entry_loop.simps, simp)

lemma find_loop_chain:
  "lseg h pv xs None \<Longrightarrow> find_loop h (first_of xs None) d = Some (find (\<lambda>a. nd_data (the (h a)) = d) xs)"
proof (induction xs arbitrary: pv)
  case (Cons a xs)
  then show ?case by (subst find_loop.simps) (auto simp: heap_simps split: option.splits)
qed (subst find_loop.simps, simp)

lemma find_reverse_loop_chain:
  "lseg h None xs nx \<Longrightarrow> find_reverse_loop h (last_of None xs) d = Some (find (\<lambda>a. nd_data (the (h a)) = d) (rev xs))"
proof (induction xs arbitrary: nx rule: rev_induct)
  case (snoc a xs)
  then show ?case by (subst find_reverse_loop.simps) (auto simp: heap_simps split: option.splits)
qed (subst find_reverse_loop.simps, simp)

section \<open>Changing a list\<close>

lemma chain_split: "chain h (us @ e # ws) \<Longrightarrow> \<exists>nd. h e = Some nd \<and> nd_prev nd = last_of None us \<and> nd_next nd = first_of ws None"
  by (auto simp: chain_def split: option.splits)

text \<open>Everything outside the list is left as it is, and the data stay where they are.\<close>

definition relinked :: "addr set \<Rightarrow> list_heap \<Rightarrow> list_heap \<Rightarrow> bool" where
  "relinked S h h' \<longleftrightarrow> (\<forall>a. a \<notin> S \<longrightarrow> h' a = h a) \<and> dom h' = dom h \<and> (\<forall>a \<in> dom h. nd_data (the (h' a)) = nd_data (the (h a)))"

lemma relinkedI:
  "dom h' = dom h \<Longrightarrow> (\<And>a. a \<notin> S \<Longrightarrow> h' a = h a) \<Longrightarrow> (\<And>a nd. h a = Some nd \<Longrightarrow> nd_data (the (h' a)) = nd_data nd) \<Longrightarrow> relinked S h h'"
  unfolding relinked_def by fastforce

lemma add_after_chain:
  assumes "chain h (us @ e # ws)" "n \<notin> set (us @ e # ws)" "h n = Some nd"
  shows "\<exists>h'. raw_list_add_after (Some e) (Some n) h = Some (Some e, h') \<and> chain h' (us @ e # n # ws) \<and>
    relinked (set (n # us @ e # ws)) h h'"
proof -
  obtain ne where e: "h e = Some ne" "nd_prev ne = last_of None us" "nd_next ne = first_of ws None"
    using chain_split [OF assms(1)] by blast
  show ?thesis
  proof (cases ws)
    case Nil
    let ?h = "h(n \<mapsto> nd\<lparr>nd_next := None, nd_prev := Some e\<rparr>, e \<mapsto> ne\<lparr>nd_next := Some n\<rparr>)"
    have "raw_list_add_after (Some e) (Some n) h = Some (Some e, ?h)"
      using e assms Nil by (simp add: raw_list_add_after_def heap_simps)
    moreover have "chain ?h (us @ e # n # ws)" using e assms Nil by (auto simp: chain_def)
    moreover have "relinked (set (n # us @ e # ws)) h ?h" using e assms Nil by (intro relinkedI) auto
    ultimately show ?thesis by blast
  next
    case (Cons w ws')
    obtain nw where w: "h w = Some nw" "nd_prev nw = Some e" "nd_next nw = first_of ws' None"
      using chain_split [of h "us @ [e]" w ws'] assms(1) Cons by auto
    let ?h = "h(w \<mapsto> nw\<lparr>nd_prev := Some n\<rparr>, n \<mapsto> nd\<lparr>nd_next := Some w, nd_prev := Some e\<rparr>, e \<mapsto> ne\<lparr>nd_next := Some n\<rparr>)"
    have "raw_list_add_after (Some e) (Some n) h = Some (Some e, ?h)"
      using e w assms Cons by (simp add: raw_list_add_after_def heap_simps chain_def)
    moreover have "chain ?h (us @ e # n # ws)" using e w assms Cons by (auto simp: chain_def)
    moreover have "relinked (set (n # us @ e # ws)) h ?h" using e w assms Cons by (intro relinkedI) auto
    ultimately show ?thesis by blast
  qed
qed

lemma add_before_chain:
  assumes "chain h (us @ e # ws)" "n \<notin> set (us @ e # ws)" "h n = Some nd"
  shows "\<exists>h'. raw_list_add_before (Some e) (Some n) h = Some (Some n, h') \<and> chain h' (us @ n # e # ws) \<and>
    relinked (set (n # us @ e # ws)) h h'"
proof -
  obtain ne where e: "h e = Some ne" "nd_prev ne = last_of None us" "nd_next ne = first_of ws None"
    using chain_split [OF assms(1)] by blast
  show ?thesis
  proof (cases us rule: rev_cases)
    case Nil
    let ?h = "h(n \<mapsto> nd\<lparr>nd_prev := None, nd_next := Some e\<rparr>, e \<mapsto> ne\<lparr>nd_prev := Some n\<rparr>)"
    have "raw_list_add_before (Some e) (Some n) h = Some (Some n, ?h)"
      using e assms Nil by (simp add: raw_list_add_before_def heap_simps)
    moreover have "chain ?h (us @ n # e # ws)" using e assms Nil by (auto simp: chain_def)
    moreover have "relinked (set (n # us @ e # ws)) h ?h" using e assms Nil by (intro relinkedI) auto
    ultimately show ?thesis by blast
  next
    case (snoc us' u)
    obtain nu where u: "h u = Some nu" "nd_prev nu = last_of None us'" "nd_next nu = Some e"
      using chain_split [of h us' u "e # ws"] assms(1) snoc by auto
    let ?h = "h(u \<mapsto> nu\<lparr>nd_next := Some n\<rparr>, n \<mapsto> nd\<lparr>nd_prev := Some u, nd_next := Some e\<rparr>, e \<mapsto> ne\<lparr>nd_prev := Some n\<rparr>)"
    have "raw_list_add_before (Some e) (Some n) h = Some (Some n, ?h)"
      using e u assms snoc by (simp add: raw_list_add_before_def heap_simps chain_def)
    moreover have "chain ?h (us @ n # e # ws)" using e u assms snoc by (auto simp: chain_def)
    moreover have "relinked (set (n # us @ e # ws)) h ?h" using e u assms snoc by (intro relinkedI) auto
    ultimately show ?thesis by blast
  qed
qed

lemma remove_head_chain:
  assumes "chain h (e # ws)"
  shows "\<exists>h'. raw_list_remove (Some e) (Some e) h = Some (first_of ws None, h') \<and> chain h' ws \<and> relinked (set (e # ws)) h h'"
proof -
  obtain ne where e: "h e = Some ne" "nd_prev ne = None" "nd_next ne = first_of ws None"
    using chain_split [of h "[]"] assms by auto
  let ?e = "ne\<lparr>nd_prev := None, nd_next := None\<rparr>"
  show ?thesis
  proof (cases ws)
    case Nil
    have "raw_list_remove (Some e) (Some e) h = Some (first_of ws None, h(e \<mapsto> ?e))"
      using e Nil by (simp add: raw_list_remove_def heap_simps)
    moreover have "relinked (set (e # ws)) h (h(e \<mapsto> ?e))" using e by (intro relinkedI) auto
    ultimately show ?thesis using Nil by (simp add: chain_def)
  next
    case (Cons w ws')
    obtain nw where w: "h w = Some nw" "nd_prev nw = Some e" "nd_next nw = first_of ws' None"
      using chain_split [of h "[e]" w ws'] assms(1) Cons by auto
    let ?h = "h(w \<mapsto> nw\<lparr>nd_prev := None\<rparr>, e \<mapsto> ?e)"
    have "raw_list_remove (Some e) (Some e) h = Some (first_of ws None, ?h)"
      using assms e w Cons by (simp add: raw_list_remove_def heap_simps chain_def)
    moreover have "chain ?h ws" using e w assms Cons by (auto simp: chain_def)
    moreover have "relinked (set (e # ws)) h ?h" using e w Cons by (intro relinkedI) auto
    ultimately show ?thesis by blast
  qed
qed

lemma remove_later_chain:
  assumes "chain h (us @ u # e # ws)"
  shows "\<exists>h'. raw_list_remove l (Some e) h = Some (l, h') \<and> chain h' (us @ u # ws) \<and> relinked (set (us @ u # e # ws)) h h'"
proof -
  obtain ne where e: "h e = Some ne" "nd_prev ne = Some u" "nd_next ne = first_of ws None"
    using chain_split [of h "us @ [u]"] assms by auto
  obtain nu where u: "h u = Some nu" "nd_prev nu = last_of None us" "nd_next nu = Some e"
    using chain_split [of h us u "e # ws"] assms by auto
  let ?e = "ne\<lparr>nd_prev := None, nd_next := None\<rparr>"
  show ?thesis
  proof (cases ws)
    case Nil
    let ?h = "h(u \<mapsto> nu\<lparr>nd_next := None\<rparr>, e \<mapsto> ?e)"
    have "raw_list_remove l (Some e) h = Some (l, ?h)"
      using assms e u Nil by (simp add: raw_list_remove_def heap_simps chain_def)
    moreover have "chain ?h (us @ u # ws)" using e u assms Nil by (auto simp: chain_def)
    moreover have "relinked (set (us @ u # e # ws)) h ?h" using e u by (intro relinkedI) auto
    ultimately show ?thesis by blast
  next
    case (Cons w ws')
    obtain nw where w: "h w = Some nw" "nd_prev nw = Some e" "nd_next nw = first_of ws' None"
      using chain_split [of h "us @ [u, e]" w ws'] assms(1) Cons by auto
    let ?h = "h(u \<mapsto> nu\<lparr>nd_next := Some w\<rparr>, w \<mapsto> nw\<lparr>nd_prev := Some u\<rparr>, e \<mapsto> ?e)"
    have "raw_list_remove l (Some e) h = Some (l, ?h)"
      using assms e u w Cons by (simp add: raw_list_remove_def heap_simps chain_def)
    moreover have "chain ?h (us @ u # ws)" using e u w assms Cons by (auto simp: chain_def)
    moreover have "relinked (set (us @ u # e # ws)) h ?h" using e u w Cons by (intro relinkedI) auto
    ultimately show ?thesis by blast
  qed
qed

lemma remove_chain:
  assumes "chain h (us @ e # ws)"
  shows "\<exists>h'. raw_list_remove (first_of (us @ e # ws) None) (Some e) h = Some (first_of (us @ ws) None, h') \<and> chain h' (us @ ws) \<and>
    relinked (set (us @ e # ws)) h h'"
proof (cases us rule: rev_cases)
  case Nil
  then show ?thesis using remove_head_chain assms by auto
next
  case (snoc us' u)
  then show ?thesis using remove_later_chain [of h us' u e ws "first_of (us' @ [u]) None"] assms by auto
qed

section \<open>Adding\<close>

text \<open>Memory after a node was put into a list: one block more, the data in place, and nothing outside the list changed.\<close>

definition extended :: "addr \<Rightarrow> addr set \<Rightarrow> list_heap \<Rightarrow> list_heap \<Rightarrow> bool" where
  "extended n S h h' \<longleftrightarrow> h n = None \<and> dom h' = insert n (dom h) \<and> (\<forall>a. a \<notin> insert n S \<longrightarrow> h' a = h a) \<and>
     (\<forall>a \<in> dom h. nd_data (the (h' a)) = nd_data (the (h a)))"

lemma list_alloc_None: "A h = None \<Longrightarrow> list_alloc A d h = Some (None, h)"
  by (simp add: list_alloc_def raw_list_alloc_def)

lemma list_alloc_Some:
  "A h = Some (n, nd) \<Longrightarrow> list_alloc A d h = Some (Some n, h(n \<mapsto> \<lparr>nd_next = None, nd_prev = None, nd_data = d\<rparr>))"
  by (cases nd) (simp add: list_alloc_def raw_list_alloc_def raw_list_init_def heap_simps)

lemma chain_dom: "chain h xs \<Longrightarrow> set xs \<subseteq> dom h"
  using lseg_alloc by (fastforce simp: chain_def)

lemma chain_new:
  assumes "chain h xs" "h n = None"
  shows "n \<notin> set xs" "chain (h(n := v)) xs"
proof -
  show n: "n \<notin> set xs" using chain_dom [OF assms(1)] assms(2) by blast
  show "chain (h(n := v)) xs" using assms(1) lseg_upd [OF n] by (simp add: chain_def)
qed

lemma relinked_extended:
  assumes "relinked (insert n S) (h(n \<mapsto> nd)) h'" "h n = None"
  shows "extended n S h h'"
  using assms by (auto simp: relinked_def extended_def split: if_splits)

lemma relinked_data: "relinked S h h' \<Longrightarrow> h n = Some nd \<Longrightarrow> nd_data (the (h' n)) = nd_data nd"
  unfolding relinked_def by (metis domI option.sel)

lemma extended_vals: "extended n S h h' \<Longrightarrow> set xs \<subseteq> dom h \<Longrightarrow> vals h' xs = vals h xs"
  by (auto simp: extended_def vals_def)

lemma add_tail_chain:
  assumes "chain h (us @ e # ws)" "n \<notin> set (us @ e # ws)" "h n = Some nd"
  shows "\<exists>h'. raw_list_add_tail (Some e) (Some n) h = Some (Some e, h') \<and> chain h' (us @ e # ws @ [n]) \<and> relinked (set (n # us @ e # ws)) h h'"
proof (cases ws rule: rev_cases)
  case Nil
  then show ?thesis
    using raw_list_ends(2) [of h us e ws] add_after_chain [of h us e ws n nd] assms by (auto simp: raw_list_add_tail_def)
next
  case (snoc ws' w)
  then show ?thesis
    using raw_list_ends(2) [of h us e ws] add_after_chain [of h "us @ e # ws'" w "[]" n nd] assms by (auto simp: raw_list_add_tail_def)
qed

lemma add_head_chain:
  assumes "chain h (us @ e # ws)" "n \<notin> set (us @ e # ws)" "h n = Some nd"
  shows "\<exists>h'. raw_list_add_head (Some e) (Some n) h = Some (Some n, h') \<and> chain h' (n # us @ e # ws) \<and> relinked (set (n # us @ e # ws)) h h'"
proof (cases us)
  case Nil
  then show ?thesis
    using raw_list_ends(1) [of h us e ws] add_before_chain [of h us e ws n nd] assms by (auto simp: raw_list_add_head_def)
next
  case (Cons u us')
  then show ?thesis
    using raw_list_ends(1) [of h us e ws] add_before_chain [of h "[]" u "us' @ e # ws" n nd] assms by (auto simp: raw_list_add_head_def)
qed

text \<open>Without memory the two operations that take data return NULL and not the list they were given, which is still there.\<close>

lemma list_add_without_memory: "A h = None \<Longrightarrow> list_add_head A l d h = Some (None, h) \<and> list_add_tail A l d h = Some (None, h)"
  by (simp add: list_add_head_def list_add_tail_def list_alloc_None)

section \<open>Deleting\<close>

text \<open>Memory after nodes were deleted from a list: exactly the nodes that are no longer in it were freed.\<close>

definition edited :: "list_heap \<Rightarrow> addr list \<Rightarrow> list_heap \<Rightarrow> addr list \<Rightarrow> bool" where
  "edited h xs h' ys \<longleftrightarrow> chain h' ys \<and> set ys \<subseteq> set xs \<and> dom h' = dom h - (set xs - set ys) \<and> (\<forall>a. a \<notin> set xs \<longrightarrow> h' a = h a) \<and>
     (\<forall>a \<in> set ys. nd_data (the (h' a)) = nd_data (the (h a)))"

lemma edited_refl: "chain h xs \<Longrightarrow> edited h xs h xs"
  by (simp add: edited_def)

lemma edited_trans:
  assumes "edited h xs h' ys" "edited h' ys h'' zs"
  shows "edited h xs h'' zs"
proof -
  have sub: "set zs \<subseteq> set ys" "set ys \<subseteq> set xs" "chain h'' zs" using assms by (simp_all add: edited_def)
  have eqs: "dom h' = dom h - (set xs - set ys)" "dom h'' = dom h' - (set ys - set zs)"
    "\<And>a. a \<notin> set xs \<Longrightarrow> h' a = h a" "\<And>a. a \<notin> set ys \<Longrightarrow> h'' a = h' a"
    "\<And>a. a \<in> set ys \<Longrightarrow> nd_data (the (h' a)) = nd_data (the (h a))" "\<And>a. a \<in> set zs \<Longrightarrow> nd_data (the (h'' a)) = nd_data (the (h' a))"
    using assms by (simp_all add: edited_def)
  have "dom h'' = dom h - (set xs - set zs)" unfolding eqs(2) eqs(1) using sub by blast
  moreover have "h'' a = h a" if "a \<notin> set xs" for a using eqs(3,4) sub that by (metis subsetD)
  moreover have "nd_data (the (h'' a)) = nd_data (the (h a))" if "a \<in> set zs" for a using eqs(5,6) sub that by (metis subsetD)
  ultimately show ?thesis using sub by (simp add: edited_def)
qed

lemma edited_vals: "edited h xs h' ys \<Longrightarrow> vals h' ys = vals h ys"
  by (auto simp: edited_def vals_def)

lemma remove_then_free:
  assumes "chain h (us @ e # ws)"
  shows "\<exists>h' nd. raw_list_remove (first_of (us @ e # ws) None) (Some e) h = Some (first_of (us @ ws) None, h') \<and>
    h' e = Some nd \<and> nd_data nd = nd_data (the (h e)) \<and> edited h (us @ e # ws) (h'(e := None)) (us @ ws)"
proof -
  obtain h1 where h1: "raw_list_remove (first_of (us @ e # ws) None) (Some e) h = Some (first_of (us @ ws) None, h1)"
    "chain h1 (us @ ws)" "relinked (set (us @ e # ws)) h h1" using remove_chain [OF assms] by blast
  have e: "e \<notin> set (us @ ws)" "e \<in> dom h1" "set (us @ e # ws) \<subseteq> dom h"
    using assms chain_dom [OF assms] h1(3) by (auto simp: chain_def relinked_def)
  have "chain (h1(e := None)) (us @ ws)" using h1(2) e(1) by (simp add: chain_def)
  moreover have "dom (h1(e := None)) = dom h - (set (us @ e # ws) - set (us @ ws))"
    "\<forall>a. a \<notin> set (us @ e # ws) \<longrightarrow> (h1(e := None)) a = h a" using h1(3) e(1) by (auto simp: relinked_def)
  moreover have "\<forall>a \<in> set (us @ ws). nd_data (the ((h1(e := None)) a)) = nd_data (the (h a))"
    using h1(3) e(1,3) by (auto simp: relinked_def)
  ultimately have "edited h (us @ e # ws) (h1(e := None)) (us @ ws)" unfolding edited_def by auto
  moreover obtain nd where nd: "h1 e = Some nd" using e(2) by blast
  moreover have "nd_data (the (h1 e)) = nd_data (the (h e))" using e(3) h1(3) by (simp add: relinked_def)
  ultimately show ?thesis using h1(1) by auto
qed

lemma raw_list_delete_chain:
  assumes "chain h (us @ e # ws)"
  shows "\<exists>h'. raw_list_delete (first_of (us @ e # ws) None) (Some e) h = Some (first_of (us @ ws) None, h') \<and> edited h (us @ e # ws) h' (us @ ws)"
  using remove_then_free [OF assms] by (auto simp: raw_list_delete_def raw_list_free_def)

lemma raw_list_next_chain: "chain h (vs @ ws) \<Longrightarrow> raw_list_next h (first_of ws None) = Some (first_of (tl ws) None)"
  by (cases ws) (auto simp: chain_def raw_list_next_def split: option.splits)

text \<open>Without its first node that has the data.\<close>

definition delete_first :: "list_heap \<Rightarrow> nat \<Rightarrow> addr list \<Rightarrow> addr list" where
  "delete_first h d xs = (let P = (\<lambda>a. nd_data (the (h a)) \<noteq> d) in takeWhile P xs @ tl (dropWhile P xs))"

lemma delete_first_Cons: "delete_first h d (a # xs) = (if nd_data (the (h a)) = d then xs else a # delete_first h d xs)"
  by (simp add: delete_first_def Let_def)

lemma vals_delete_first: "vals h (delete_first h d xs) = remove1 d (vals h xs)"
  by (induction xs) (simp_all add: delete_first_Cons, simp add: delete_first_def)

lemma vals_filter: "vals h (filter (\<lambda>a. nd_data (the (h a)) \<noteq> d) xs) = removeAll d (vals h xs)"
  by (induction xs) auto

lemma delete_loop_chain:
  "chain h (vs @ ws) \<Longrightarrow>
   \<exists>h'. delete_loop d (first_of (vs @ ws) None) (first_of ws None) (first_of (tl ws) None) h = Some (first_of (vs @ delete_first h d ws) None, h') \<and>
     edited h (vs @ ws) h' (vs @ delete_first h d ws)"
proof (induction ws arbitrary: vs)
  case Nil
  then show ?case using edited_refl by (subst delete_loop.simps) (simp add: delete_first_def)
next
  case (Cons w ws)
  obtain nd where nd: "h w = Some nd" using chain_split [OF Cons.prems] by blast
  show ?case
  proof (cases "nd_data nd = d")
    case True
    then show ?thesis using raw_list_delete_chain [OF Cons.prems] nd
      by (subst delete_loop.simps) (simp add: load_def delete_first_Cons)
  next
    case False
    then show ?thesis using Cons.IH [of "vs @ [w]"] Cons.prems raw_list_next_chain [of h "vs @ [w]" ws] nd
      by (subst delete_loop.simps) (simp add: load_def delete_first_Cons)
  qed
qed

lemma delete_all_loop_chain:
  "chain h (vs @ ws) \<Longrightarrow>
   \<exists>h'. delete_all_loop d (first_of (vs @ ws) None) (first_of ws None) (first_of (tl ws) None) h =
       Some (first_of (vs @ filter (\<lambda>a. nd_data (the (h a)) \<noteq> d) ws) None, h') \<and>
     edited h (vs @ ws) h' (vs @ filter (\<lambda>a. nd_data (the (h a)) \<noteq> d) ws)"
proof (induction ws arbitrary: vs h)
  case Nil
  then show ?case using edited_refl by (subst delete_all_loop.simps) simp
next
  case (Cons w ws)
  obtain nd where nd: "h w = Some nd" using chain_split [OF Cons.prems] by blast
  show ?case
  proof (cases "nd_data nd = d")
    case True
    obtain h1 where h1: "raw_list_delete (first_of (vs @ w # ws) None) (Some w) h = Some (first_of (vs @ ws) None, h1)"
      "edited h (vs @ w # ws) h1 (vs @ ws)" using raw_list_delete_chain [OF Cons.prems] by blast
    have c: "chain h1 (vs @ ws)" and same: "filter (\<lambda>a. nd_data (the (h1 a)) \<noteq> d) ws = filter (\<lambda>a. nd_data (the (h a)) \<noteq> d) ws"
      using h1(2) by (auto simp: edited_def intro!: filter_cong)
    from Cons.IH [OF c] same edited_trans [OF h1(2)] h1(1) raw_list_next_chain [OF c] True nd
    show ?thesis by (subst delete_all_loop.simps) (auto simp: load_def)
  next
    case False
    then show ?thesis using Cons.IH [of h "vs @ [w]"] Cons.prems raw_list_next_chain [of h "vs @ [w]" ws] nd
      by (subst delete_all_loop.simps) (simp add: load_def)
  qed
qed

lemma free_loop_chain:
  "lseg h pv xs None \<Longrightarrow> distinct xs \<Longrightarrow> free_loop (first_of xs None) (first_of (tl xs) None) h = Some (h |` (- set xs))"
proof (induction xs arbitrary: h pv)
  case (Cons a xs)
  let ?h = "h(a := None)"
  have l: "lseg ?h (Some a) xs None" using Cons.prems by (simp del: fun_upd_apply)
  then have IH: "free_loop (first_of xs None) (first_of (tl xs) None) ?h = Some (?h |` (- set xs))" using Cons.IH [OF l] Cons.prems(2) by (simp del: fun_upd_apply)
  have "raw_list_free (Some a) h = Some ?h" using Cons.prems by (auto simp: raw_list_free_def split: option.splits)
  moreover from l have "raw_list_next ?h (first_of xs None) = Some (first_of (tl xs) None)"
    by (cases xs) (auto simp: raw_list_next_def split: option.splits)
  moreover have "?h |` (- set xs) = h |` (- set (a # xs))" by (auto simp: restrict_map_def)
  ultimately show ?case using IH by (subst free_loop.simps) (simp del: fun_upd_apply restrict_complement_singleton_eq)
qed (subst free_loop.simps, simp add: restrict_map_def)

lemma list_free_all_chain: "chain h xs \<Longrightarrow> list_free_all (first_of xs None) h = Some (h |` (- set xs))"
  using raw_list_next_chain [of h "[]" xs] free_loop_chain by (auto simp: list_free_all_def chain_def)

lemma last_of_None [simp]: "last_of None xs = None \<longleftrightarrow> xs = []"
  by (simp add: last_of_def)

lemma first_of_None [simp]: "first_of xs None = None \<longleftrightarrow> xs = []"
  by (cases xs) simp_all

section \<open>What the operations do\<close>

text \<open>The look-ups give the nodes of the list, and terminate.\<close>

lemma list_lookups:
  assumes "chain h xs"
  shows "list_length h (first_of xs None) = Some (int (length xs))"
    and "0 \<le> i \<Longrightarrow> raw_list_entry h (first_of xs None) i = Some (if i < int (length xs) then Some (xs ! nat i) else None)"
    and "list_find h (first_of xs None) d = Some (find (\<lambda>a. nd_data (the (h a)) = d) xs)"
    and "list_find_reverse h (first_of xs None) d = Some (find (\<lambda>a. nd_data (the (h a)) = d) (rev xs))"
proof -
  have l: "lseg h None xs None" using assms by (simp add: chain_def)
  show "list_length h (first_of xs None) = Some (int (length xs))" using length_loop_chain [OF l] by (simp add: list_length_def)
  show "raw_list_entry h (first_of xs None) i = Some (if i < int (length xs) then Some (xs ! nat i) else None)" if "0 \<le> i"
    using entry_loop_chain [OF l that] by (simp add: raw_list_entry_def)
  show "list_find h (first_of xs None) d = Some (find (\<lambda>a. nd_data (the (h a)) = d) xs)"
    using find_loop_chain [OF l] by (simp add: list_find_def)
  have "raw_list_last h (first_of xs None) = Some (last_of None xs)"
    using raw_list_ends(2) [of h "[]"] assms by (cases xs) (auto simp: raw_list_last_def)
  then show "list_find_reverse h (first_of xs None) d = Some (find (\<lambda>a. nd_data (the (h a)) = d) (rev xs))"
    using find_reverse_loop_chain [OF l] by (simp add: list_find_reverse_def)
qed

text \<open>
  C31: On every list, \<^verbatim>\<open>list_delete\<close> takes out the first node with the data and \<^verbatim>\<open>list_delete_all\<close> all of them. Both return, with a well-formed
  list whose data are those of the old one without the first occurrence, or without any; exactly the nodes that were taken out
  are given back to the memory, the other nodes keep their data, and nothing outside the list is changed.
\<close>

theorem list_deletions:
  assumes "chain h xs"
  shows "(\<exists>ys h'. list_delete (first_of xs None) d h = Some (first_of ys None, h') \<and> edited h xs h' ys \<and> vals h' ys = remove1 d (vals h xs)) \<and>
    (\<exists>ys h'. list_delete_all (first_of xs None) d h = Some (first_of ys None, h') \<and> edited h xs h' ys \<and> vals h' ys = removeAll d (vals h xs))"
proof
  have n: "raw_list_next h (first_of xs None) = Some (first_of (tl xs) None)" using raw_list_next_chain [of h "[]" xs] assms by simp
  obtain h1 where "delete_loop d (first_of xs None) (first_of xs None) (first_of (tl xs) None) h = Some (first_of (delete_first h d xs) None, h1)"
    "edited h xs h1 (delete_first h d xs)" using delete_loop_chain [of h "[]" xs d] assms by auto
  then show "\<exists>ys h'. list_delete (first_of xs None) d h = Some (first_of ys None, h') \<and> edited h xs h' ys \<and> vals h' ys = remove1 d (vals h xs)"
    using n edited_vals vals_delete_first by (auto simp: list_delete_def)
  let ?ys = "filter (\<lambda>a. nd_data (the (h a)) \<noteq> d) xs"
  obtain h2 where "delete_all_loop d (first_of xs None) (first_of xs None) (first_of (tl xs) None) h = Some (first_of ?ys None, h2)"
    "edited h xs h2 ?ys" using delete_all_loop_chain [of h "[]" xs d] assms by auto
  then show "\<exists>ys h'. list_delete_all (first_of xs None) d h = Some (first_of ys None, h') \<and> edited h xs h' ys \<and> vals h' ys = removeAll d (vals h xs)"
    using n edited_vals vals_filter by (auto simp: list_delete_all_def)
qed

theorem list_deletions_witness:
  "let h = [1 \<mapsto> \<lparr>nd_next = Some 4, nd_prev = None, nd_data = 8\<rparr>, 4 \<mapsto> \<lparr>nd_next = Some 2, nd_prev = Some 1, nd_data = 7\<rparr>,
      2 \<mapsto> \<lparr>nd_next = None, nd_prev = Some 4, nd_data = 8\<rparr>]
   in chain h [1, 4, 2] \<and> (\<exists>ys h'. list_delete (Some 1) 8 h = Some (first_of ys None, h') \<and> edited h [1, 4, 2] h' ys \<and> vals h' ys = [7, 8]) \<and>
     (\<exists>ys h'. list_delete_all (Some 1) 8 h = Some (first_of ys None, h') \<and> edited h [1, 4, 2] h' ys \<and> vals h' ys = [7])"
proof -
  let ?h = "[1 \<mapsto> \<lparr>nd_next = Some 4, nd_prev = None, nd_data = 8\<rparr>, 4 \<mapsto> \<lparr>nd_next = Some 2, nd_prev = Some 1, nd_data = 7\<rparr>,
    2 \<mapsto> \<lparr>nd_next = None, nd_prev = Some 4, nd_data = 8\<rparr>] :: list_heap"
  have c: "chain ?h [1, 4, 2]" by (simp add: chain_def)
  then show ?thesis using list_deletions [OF c, of 8] by (simp add: Let_def)
qed

end
