(* ===== verification/Omx_Queue.thy ===== *)
theory Omx_Queue
  imports Omx_List
begin

text \<open>
  The queues of the OpenMAX core (\<^verbatim>\<open>wrs_omxil_core/utils/src/queue.c\<close>): a doubly linked list with a pointer to each end and a counter. The
  queue is shown to be a double-ended queue of data pointers, in the memory it shares with the rest of the process.
\<close>

section \<open>Operations\<close>

text \<open>
  \<^verbatim>\<open>struct queue\<close>. The counter is a C \<^verbatim>\<open>int\<close>; it counts nodes in memory, and is unbounded here.
\<close>

record queue =
  q_head :: ptr
  q_tail :: ptr
  q_length :: int

definition raw_queue_init :: "queue \<Rightarrow> queue" where
  "raw_queue_init q = q\<lparr>q_head := None, q_tail := None, q_length := 0\<rparr>"

text \<open>The queue structures have a part of the memory to themselves.\<close>

type_synonym queue_heap = "addr \<rightharpoonup> queue"

definition queue_alloc :: "(queue_heap \<Rightarrow> (addr \<times> queue) option) \<Rightarrow> queue_heap \<Rightarrow> ptr \<times> queue_heap" where
  "queue_alloc A qh = (case A qh of None \<Rightarrow> (None, qh) | Some (a, q) \<Rightarrow> (Some a, qh(a \<mapsto> raw_queue_init q)))"

definition raw_queue_free :: "ptr \<Rightarrow> queue_heap \<Rightarrow> queue_heap option" where
  "raw_queue_free p qh = (case p of None \<Rightarrow> Some qh | Some a \<Rightarrow> if qh a = None then None else Some (qh(a := None)))"

definition queue_free_all :: "queue \<Rightarrow> list_heap \<Rightarrow> (queue \<times> list_heap) option" where
  "queue_free_all q h = do { h1 \<leftarrow> list_free_all (q_head q) h; Some (raw_queue_init q, h1) }"

definition raw_queue_push_head :: "queue \<Rightarrow> ptr \<Rightarrow> list_heap \<Rightarrow> (queue \<times> list_heap) option" where
  "raw_queue_push_head q entry h =
     do { (l, h1) \<leftarrow> raw_list_add_head (q_head q) entry h;
          let q1 = q\<lparr>q_head := l\<rparr>;
          let q2 = (if q_tail q1 = None then q1\<lparr>q_tail := q_head q1\<rparr> else q1);
          Some (q2\<lparr>q_length := q_length q2 + 1\<rparr>, h1) }"

definition queue_push_head :: "allocator \<Rightarrow> queue \<Rightarrow> nat \<Rightarrow> list_heap \<Rightarrow> (int \<times> queue \<times> list_heap) option" where
  "queue_push_head A q data h =
     do { (entry, h1) \<leftarrow> list_alloc A data h;
          if entry = None then Some (- 1, q, h1)
          else do {
            (l, h2) \<leftarrow> raw_list_add_head (q_head q) entry h1;
            let q1 = q\<lparr>q_head := l\<rparr>;
            let q2 = (if q_tail q1 = None then q1\<lparr>q_tail := q_head q1\<rparr> else q1);
            Some (0, q2\<lparr>q_length := q_length q2 + 1\<rparr>, h2) } }"

text \<open>A pointer as the data of a node.\<close>

definition ptr_value :: "ptr \<Rightarrow> nat" where
  "ptr_value p = (case p of None \<Rightarrow> 0 | Some a \<Rightarrow> a)"

definition raw_queue_push_tail :: "allocator \<Rightarrow> queue \<Rightarrow> ptr \<Rightarrow> list_heap \<Rightarrow> (queue \<times> list_heap) option" where
  "raw_queue_push_tail A q entry h =
     do { (l, h1) \<leftarrow> list_add_tail A (q_tail q) (ptr_value entry) h;
          let q1 = q\<lparr>q_tail := l\<rparr>;
          if q_tail q1 = None then Some (q1, h1)
          else do {
            nd \<leftarrow> load h1 (q_tail q1);
            let q2 = (if nd_next nd \<noteq> None then q1\<lparr>q_tail := nd_next nd\<rparr> else q1\<lparr>q_head := q_tail q1\<rparr>);
            Some (q2\<lparr>q_length := q_length q2 + 1\<rparr>, h1) } }"

definition queue_push_tail :: "allocator \<Rightarrow> queue \<Rightarrow> nat \<Rightarrow> list_heap \<Rightarrow> (int \<times> queue \<times> list_heap) option" where
  "queue_push_tail A q data h =
     do { (entry, h1) \<leftarrow> list_alloc A data h;
          if entry = None then Some (- 1, q, h1)
          else do {
            (l, h2) \<leftarrow> raw_list_add_tail (q_tail q) entry h1;
            let q1 = q\<lparr>q_tail := l\<rparr>;
            nd \<leftarrow> load h2 (q_tail q1);
            let q2 = (if nd_next nd \<noteq> None then q1\<lparr>q_tail := nd_next nd\<rparr> else q1\<lparr>q_head := q_tail q1\<rparr>);
            Some (0, q2\<lparr>q_length := q_length q2 + 1\<rparr>, h2) } }"

definition raw_queue_pop_head :: "queue \<Rightarrow> list_heap \<Rightarrow> (ptr \<times> queue \<times> list_heap) option" where
  "raw_queue_pop_head q h =
     (let entry = q_head q in
      if entry \<noteq> None then do {
        (l, h1) \<leftarrow> raw_list_remove (q_head q) entry h;
        let q1 = q\<lparr>q_head := l\<rparr>;
        let q2 = (if q_head q1 = None then q1\<lparr>q_tail := None\<rparr> else q1);
        Some (entry, q2\<lparr>q_length := q_length q2 - 1\<rparr>, h1) }
      else Some (entry, q, h))"

definition queue_pop_head :: "queue \<Rightarrow> list_heap \<Rightarrow> (nat \<times> queue \<times> list_heap) option" where
  "queue_pop_head q h =
     do { (entry, q1, h1) \<leftarrow> raw_queue_pop_head q h;
          if entry \<noteq> None then do { nd \<leftarrow> load h1 entry; h2 \<leftarrow> raw_list_free entry h1; Some (nd_data nd, q1, h2) }
          else Some (0, q1, h1) }"

definition raw_queue_pop_tail :: "queue \<Rightarrow> list_heap \<Rightarrow> (ptr \<times> queue \<times> list_heap) option" where
  "raw_queue_pop_tail q h =
     (let entry = q_tail q in
      if entry \<noteq> None then do {
        nd \<leftarrow> load h entry;
        let prev = nd_prev nd;
        (l, h1) \<leftarrow> raw_list_remove (q_head q) entry h;
        let q1 = q\<lparr>q_head := l, q_tail := prev\<rparr>;
        Some (entry, q1\<lparr>q_length := q_length q1 - 1\<rparr>, h1) }
      else Some (entry, q, h))"

definition queue_pop_tail :: "queue \<Rightarrow> list_heap \<Rightarrow> (nat \<times> queue \<times> list_heap) option" where
  "queue_pop_tail q h =
     do { (entry, q1, h1) \<leftarrow> raw_queue_pop_tail q h;
          if entry \<noteq> None then do { nd \<leftarrow> load h1 entry; h2 \<leftarrow> raw_list_free entry h1; Some (nd_data nd, q1, h2) }
          else Some (0, q1, h1) }"

definition queue_peek_head :: "queue \<Rightarrow> list_heap \<Rightarrow> nat option" where
  "queue_peek_head q h = (if q_head q \<noteq> None then map_option nd_data (load h (q_head q)) else Some 0)"

definition queue_peek_tail :: "queue \<Rightarrow> list_heap \<Rightarrow> nat option" where
  "queue_peek_tail q h = (if q_tail q \<noteq> None then map_option nd_data (load h (q_tail q)) else Some 0)"

definition queue_length :: "queue \<Rightarrow> int" where
  "queue_length q = q_length q"

section \<open>Double-ended queues\<close>

text \<open>The calls a client makes with a queue it was given, and what it gets back.\<close>

datatype queue_op = PushHead nat | PushTail nat | PopHead | PopTail | PeekHead | PeekTail | QueueLength | FreeAll

datatype queue_answer = Status int | Data nat | Count int | Done

fun queue_step :: "allocator \<Rightarrow> queue_op \<Rightarrow> queue \<times> list_heap \<Rightarrow> (queue_answer \<times> queue \<times> list_heap) option" where
  "queue_step A (PushHead d) (q, h) = map_option (map_prod Status id) (queue_push_head A q d h)"
| "queue_step A (PushTail d) (q, h) = map_option (map_prod Status id) (queue_push_tail A q d h)"
| "queue_step A PopHead (q, h) = map_option (map_prod Data id) (queue_pop_head q h)"
| "queue_step A PopTail (q, h) = map_option (map_prod Data id) (queue_pop_tail q h)"
| "queue_step A PeekHead (q, h) = map_option (\<lambda>d. (Data d, q, h)) (queue_peek_head q h)"
| "queue_step A PeekTail (q, h) = map_option (\<lambda>d. (Data d, q, h)) (queue_peek_tail q h)"
| "queue_step A QueueLength (q, h) = Some (Count (queue_length q), q, h)"
| "queue_step A FreeAll (q, h) = map_option (Pair Done) (queue_free_all q h)"

text \<open>What a client expects: a sequence, of which the front and the back are used; a push is refused without memory, and an empty queue gives NULL.\<close>

fun deque_step :: "bool \<Rightarrow> queue_op \<Rightarrow> nat list \<Rightarrow> queue_answer \<times> nat list" where
  "deque_step memory (PushHead d) ds = (if memory then (Status 0, d # ds) else (Status (- 1), ds))"
| "deque_step memory (PushTail d) ds = (if memory then (Status 0, ds @ [d]) else (Status (- 1), ds))"
| "deque_step memory PopHead ds = (Data (case ds of [] \<Rightarrow> 0 | d # _ \<Rightarrow> d), tl ds)"
| "deque_step memory PopTail ds = (Data (if ds = [] then 0 else last ds), butlast ds)"
| "deque_step memory PeekHead ds = (Data (case ds of [] \<Rightarrow> 0 | d # _ \<Rightarrow> d), ds)"
| "deque_step memory PeekTail ds = (Data (if ds = [] then 0 else last ds), ds)"
| "deque_step memory QueueLength ds = (Count (int (length ds)), ds)"
| "deque_step memory FreeAll ds = (Done, [])"

text \<open>Sequences of calls; each answer comes with whether there was memory at the call.\<close>

fun run_calls :: "(queue_op \<Rightarrow> 's \<Rightarrow> (queue_answer \<times> 's) option) \<Rightarrow> ('s \<Rightarrow> bool) \<Rightarrow> queue_op list \<Rightarrow> 's \<Rightarrow> ((bool \<times> queue_answer) list \<times> 's) option" where
  "run_calls step memory [] s = Some ([], s)"
| "run_calls step memory (op # ops) s =
     do { (ans, s1) \<leftarrow> step op s; (log, s2) \<leftarrow> run_calls step memory ops s1; Some ((memory s, ans) # log, s2) }"

fun deque_run :: "bool list \<Rightarrow> queue_op list \<Rightarrow> nat list \<Rightarrow> queue_answer list \<times> nat list" where
  "deque_run (m # ms) (op # ops) ds = (let (ans, ds1) = deque_step m op ds; (rest, ds2) = deque_run ms ops ds1 in (ans # rest, ds2))"
| "deque_run _ _ ds = ([], ds)"

text \<open>What the users of a queue rely on: no call goes wrong, and each one does to the contents what it does to a sequence.\<close>

locale deque =
  fixes step :: "queue_op \<Rightarrow> 's \<Rightarrow> (queue_answer \<times> 's) option"
    and memory :: "'s \<Rightarrow> bool"
    and holds :: "'s \<Rightarrow> nat list \<Rightarrow> bool"
  assumes step_simulates: "holds s ds \<Longrightarrow> \<exists>ans s' ds'. step op s = Some (ans, s') \<and> deque_step (memory s) op ds = (ans, ds') \<and> holds s' ds'"
begin

lemma calls_simulate:
  "holds s ds \<Longrightarrow> \<exists>log s' ds'. run_calls step memory ops s = Some (log, s') \<and> deque_run (map fst log) ops ds = (map snd log, ds') \<and> holds s' ds'"
proof (induction ops arbitrary: s ds)
  case (Cons op ops)
  obtain ans s1 ds1 where 1: "step op s = Some (ans, s1)" "deque_step (memory s) op ds = (ans, ds1)" "holds s1 ds1"
    using step_simulates [OF Cons.prems] by blast
  with Cons.IH [OF 1(3)] show ?case by fastforce
qed auto

end

section \<open>The queue is a double-ended queue\<close>

text \<open>
  The queue holds \<open>ds\<close>, and without its nodes the memory is \<open>h0\<close>: the nodes of the queue are its own, and all the blocks taken since.
\<close>

definition queue_holds :: "list_heap \<Rightarrow> queue \<Rightarrow> list_heap \<Rightarrow> nat list \<Rightarrow> bool" where
  "queue_holds h0 q h ds \<longleftrightarrow>
     (\<exists>xs. chain h xs \<and> q_head q = first_of xs None \<and> q_tail q = last_of None xs \<and> q_length q = int (length xs) \<and>
        vals h xs = ds \<and> h |` (- set xs) = h0)"

lemma extended_rest: "extended n (set xs) h h' \<Longrightarrow> h' |` (- insert n (set xs)) = h |` (- set xs)"
  by (rule ext) (auto simp: extended_def restrict_map_def)

lemma edited_rest:
  assumes "edited h xs h' ys"
  shows "h' |` (- set ys) = h |` (- set xs)"
proof (rule ext)
  fix a
  show "(h' |` (- set ys)) a = (h |` (- set xs)) a"
    using assms by (cases "a \<in> set xs"; cases "a \<in> set ys") (auto simp: edited_def restrict_map_def dom_def)
qed

text \<open>A new node at one of the ends.\<close>

lemma new_node_frame:
  assumes "relinked (insert n (set xs)) (h(n \<mapsto> \<lparr>nd_next = None, nd_prev = None, nd_data = d\<rparr>)) h'" "h n = None" "chain h xs"
  shows "h' |` (- insert n (set xs)) = h |` (- set xs)" "vals h' xs = vals h xs" "nd_data (the (h' n)) = d"
  using extended_rest relinked_extended [OF assms(1,2)] extended_vals [OF _ chain_dom [OF assms(3)]] relinked_data [OF assms(1)] by auto

lemma relinked_refl: "relinked S h h"
  by (simp add: relinked_def)

lemma new_head:
  assumes "chain h xs" "h n = None"
  shows "\<exists>h'. raw_list_add_head (first_of xs None) (Some n) (h(n \<mapsto> \<lparr>nd_next = None, nd_prev = None, nd_data = d\<rparr>)) = Some (Some n, h') \<and>
    chain h' (n # xs) \<and> vals h' (n # xs) = d # vals h xs \<and> h' |` (- set (n # xs)) = h |` (- set xs)"
proof -
  let ?h = "h(n \<mapsto> \<lparr>nd_next = None, nd_prev = None, nd_data = d\<rparr>)"
  obtain h' where "raw_list_add_head (first_of xs None) (Some n) ?h = Some (Some n, h')" "chain h' (n # xs)" "relinked (insert n (set xs)) ?h h'"
  proof (cases xs)
    case Nil
    then show ?thesis using that [of ?h] relinked_refl by (simp add: raw_list_add_head_def chain_def)
  next
    case (Cons x xs')
    then show ?thesis using add_head_chain [of ?h "[]" x xs' n] chain_new [OF assms] that by fastforce
  qed
  then show ?thesis using new_node_frame [OF _ assms(2,1)] by auto
qed

lemma new_tail:
  assumes "chain h xs" "h n = None"
  shows "\<exists>h'. raw_list_add_tail (last_of None xs) (Some n) (h(n \<mapsto> \<lparr>nd_next = None, nd_prev = None, nd_data = d\<rparr>)) =
      Some (if xs = [] then Some n else last_of None xs, h') \<and>
    chain h' (xs @ [n]) \<and> vals h' (xs @ [n]) = vals h xs @ [d] \<and> h' |` (- set (xs @ [n])) = h |` (- set xs)"
proof -
  let ?h = "h(n \<mapsto> \<lparr>nd_next = None, nd_prev = None, nd_data = d\<rparr>)"
  obtain h' where "raw_list_add_tail (last_of None xs) (Some n) ?h = Some (if xs = [] then Some n else last_of None xs, h')" "chain h' (xs @ [n])"
    "relinked (insert n (set xs)) ?h h'"
  proof (cases xs rule: rev_cases)
    case Nil
    then show ?thesis using that [of ?h] relinked_refl by (simp add: raw_list_add_tail_def chain_def)
  next
    case (snoc xs' x)
    then show ?thesis using add_tail_chain [of ?h xs' x "[]" n] chain_new [OF assms] that by fastforce
  qed
  then show ?thesis using new_node_frame [OF _ assms(2,1)] by auto
qed

text \<open>The operations, one by one.\<close>

lemma queue_holdsI:
  "chain h xs \<Longrightarrow> q_head q = first_of xs None \<Longrightarrow> q_tail q = last_of None xs \<Longrightarrow> q_length q = int (length xs) \<Longrightarrow> vals h xs = ds \<Longrightarrow>
   h |` (- set xs) = h0 \<Longrightarrow> queue_holds h0 q h ds"
  by (auto simp: queue_holds_def)

lemma queue_holdsE:
  assumes "queue_holds h0 q h ds"
  obtains xs where "chain h xs" "q_head q = first_of xs None" "q_tail q = last_of None xs" "q_length q = int (length xs)"
    "vals h xs = ds" "h |` (- set xs) = h0"
  using assms by (auto simp: queue_holds_def)

lemma push_refused: "A h = None \<Longrightarrow> queue_push_head A q d h = Some (- 1, q, h) \<and> queue_push_tail A q d h = Some (- 1, q, h)"
  by (simp add: queue_push_head_def queue_push_tail_def list_alloc_None)

lemma push_head_holds:
  assumes "queue_holds h0 q h ds" "fresh A" "A h = Some (n, nd)"
  shows "\<exists>q' h'. queue_push_head A q d h = Some (0, q', h') \<and> queue_holds h0 q' h' (d # ds)"
proof -
  obtain xs where xs: "chain h xs" "q_head q = first_of xs None" "q_tail q = last_of None xs" "q_length q = int (length xs)"
    "vals h xs = ds" "h |` (- set xs) = h0" by (rule queue_holdsE [OF assms(1)])
  have "h n = None" using assms(2,3) by (auto simp: fresh_def)
  from new_head [OF xs(1) this, of d] xs(2) obtain h' where
    h': "raw_list_add_head (q_head q) (Some n) (h(n \<mapsto> \<lparr>nd_next = None, nd_prev = None, nd_data = d\<rparr>)) = Some (Some n, h')"
    "chain h' (n # xs)" "vals h' (n # xs) = d # vals h xs" "h' |` (- set (n # xs)) = h |` (- set xs)" by auto
  let ?q = "q\<lparr>q_head := Some n, q_tail := last_of (Some n) xs, q_length := q_length q + 1\<rparr>"
  have "queue_push_head A q d h = Some (0, ?q, h')"
    using h'(1) xs(3) by (cases q) (auto simp: queue_push_head_def list_alloc_Some [of A, OF assms(3)] last_of_def)
  moreover have "queue_holds h0 ?q h' (d # ds)" using h'(2,3,4) xs(4-6) by (intro queue_holdsI [of _ "n # xs"]) auto
  ultimately show ?thesis by blast
qed

lemma push_tail_holds:
  assumes "queue_holds h0 q h ds" "fresh A" "A h = Some (n, nd)"
  shows "\<exists>q' h'. queue_push_tail A q d h = Some (0, q', h') \<and> queue_holds h0 q' h' (ds @ [d])"
proof -
  obtain xs where xs: "chain h xs" "q_head q = first_of xs None" "q_tail q = last_of None xs" "q_length q = int (length xs)"
    "vals h xs = ds" "h |` (- set xs) = h0" by (rule queue_holdsE [OF assms(1)])
  have "h n = None" using assms(2,3) by (auto simp: fresh_def)
  from new_tail [OF xs(1) this, of d] xs(3) obtain h' where
    h': "raw_list_add_tail (q_tail q) (Some n) (h(n \<mapsto> \<lparr>nd_next = None, nd_prev = None, nd_data = d\<rparr>)) = Some (if xs = [] then Some n else last_of None xs, h')"
    "chain h' (xs @ [n])" "vals h' (xs @ [n]) = vals h xs @ [d]" "h' |` (- set (xs @ [n])) = h |` (- set xs)" by auto
  let ?q = "q\<lparr>q_head := first_of xs (Some n), q_tail := Some n, q_length := q_length q + 1\<rparr>"
  have "queue_push_tail A q d h = Some (0, ?q, h')"
  proof (cases xs rule: rev_cases)
    case Nil
    then show ?thesis using h'(1) chain_split [of h' "[]" n "[]"] h'(2)
      by (cases q) (auto simp: queue_push_tail_def list_alloc_Some [of A, OF assms(3)] load_def)
  next
    case (snoc ys y)
    then show ?thesis using h'(1) chain_split [of h' ys y "[n]"] h'(2) xs(2)
      by (cases q; cases ys) (auto simp: queue_push_tail_def list_alloc_Some [of A, OF assms(3)] load_def)
  qed
  moreover have "queue_holds h0 ?q h' (ds @ [d])" using h'(2,3,4) xs(4-6) by (intro queue_holdsI [of _ "xs @ [n]"]) auto
  ultimately show ?thesis by blast
qed

lemma pop_head_holds:
  assumes "queue_holds h0 q h ds"
  shows "\<exists>q' h'. queue_pop_head q h = Some (case ds of [] \<Rightarrow> 0 | d # _ \<Rightarrow> d, q', h') \<and> queue_holds h0 q' h' (tl ds)"
proof -
  obtain xs where xs: "chain h xs" "q_head q = first_of xs None" "q_tail q = last_of None xs" "q_length q = int (length xs)"
    "vals h xs = ds" "h |` (- set xs) = h0" by (rule queue_holdsE [OF assms])
  show ?thesis
  proof (cases xs)
    case Nil
    then show ?thesis using assms xs by (auto simp: queue_pop_head_def raw_queue_pop_head_def)
  next
    case (Cons e ws)
    obtain h' nd where h': "raw_list_remove (Some e) (Some e) h = Some (first_of ws None, h')" "h' e = Some nd" "nd_data nd = nd_data (the (h e))"
      "edited h xs (h'(e := None)) ws" using remove_then_free [of h "[]" e ws] xs(1) Cons by auto
    let ?q = "q\<lparr>q_head := first_of ws None, q_tail := last_of None ws, q_length := q_length q - 1\<rparr>"
    have "queue_pop_head q h = Some (nd_data (the (h e)), ?q, h'(e := None))"
      using h' xs(2,3) Cons
      by (cases q; cases ws) (auto simp: queue_pop_head_def raw_queue_pop_head_def load_def raw_list_free_def last_of_def)
    moreover have "queue_holds h0 ?q (h'(e := None)) (tl ds)"
      using h'(4) edited_rest [OF h'(4)] edited_vals [OF h'(4)] xs(4-6) Cons
      by (intro queue_holdsI [of _ ws]) (auto simp: edited_def)
    ultimately show ?thesis using xs(5) Cons by auto
  qed
qed

lemma pop_tail_holds:
  assumes "queue_holds h0 q h ds"
  shows "\<exists>q' h'. queue_pop_tail q h = Some (if ds = [] then 0 else last ds, q', h') \<and> queue_holds h0 q' h' (butlast ds)"
proof -
  obtain xs where xs: "chain h xs" "q_head q = first_of xs None" "q_tail q = last_of None xs" "q_length q = int (length xs)"
    "vals h xs = ds" "h |` (- set xs) = h0" by (rule queue_holdsE [OF assms])
  show ?thesis
  proof (cases xs rule: rev_cases)
    case Nil
    then show ?thesis using assms xs by (auto simp: queue_pop_tail_def raw_queue_pop_tail_def)
  next
    case (snoc us e)
    obtain h' nd where h': "raw_list_remove (first_of xs None) (Some e) h = Some (first_of us None, h')" "h' e = Some nd" "nd_data nd = nd_data (the (h e))"
      "edited h xs (h'(e := None)) us" using remove_then_free [of h us e "[]"] xs(1) snoc by auto
    obtain ne where "h e = Some ne" "nd_prev ne = last_of None us" using chain_split [of h us e "[]"] xs(1) snoc by auto
    let ?q = "q\<lparr>q_head := first_of us None, q_tail := last_of None us, q_length := q_length q - 1\<rparr>"
    have "queue_pop_tail q h = Some (nd_data (the (h e)), ?q, h'(e := None))"
      using h'(1-3) xs(2,3) snoc \<open>h e = Some ne\<close> \<open>nd_prev ne = last_of None us\<close>
      by (cases q) (simp add: queue_pop_tail_def raw_queue_pop_tail_def load_def raw_list_free_def)
    moreover have "queue_holds h0 ?q (h'(e := None)) (butlast ds)"
      using h'(4) edited_rest [OF h'(4)] edited_vals [OF h'(4)] xs(4-6) snoc
      by (intro queue_holdsI [of _ us]) (auto simp: edited_def)
    ultimately show ?thesis using xs(5) snoc by auto
  qed
qed

lemma peek_holds:
  assumes "queue_holds h0 q h ds"
  shows "queue_peek_head q h = Some (case ds of [] \<Rightarrow> 0 | d # _ \<Rightarrow> d)" "queue_peek_tail q h = Some (if ds = [] then 0 else last ds)"
    "queue_length q = int (length ds)"
proof -
  obtain xs where xs: "chain h xs" "q_head q = first_of xs None" "q_tail q = last_of None xs" "q_length q = int (length xs)"
    "vals h xs = ds" "h |` (- set xs) = h0" by (rule queue_holdsE [OF assms])
  show "queue_peek_head q h = Some (case ds of [] \<Rightarrow> 0 | d # _ \<Rightarrow> d)"
    using xs(2,5) chain_split [of h "[]"] xs(1) by (cases xs) (fastforce simp: queue_peek_head_def load_def)+
  show "queue_peek_tail q h = Some (if ds = [] then 0 else last ds)"
    using xs(3,5) chain_split [of h _ _ "[]"] xs(1) by (cases xs rule: rev_cases) (fastforce simp: queue_peek_tail_def load_def)+
  show "queue_length q = int (length ds)" using xs(4,5) by (auto simp: queue_length_def)
qed

lemma free_all_holds:
  assumes "queue_holds h0 q h ds"
  shows "queue_free_all q h = Some (raw_queue_init q, h0)" "queue_holds h0 (raw_queue_init q) h0 []"
proof -
  obtain xs where xs: "chain h xs" "q_head q = first_of xs None" "q_tail q = last_of None xs" "q_length q = int (length xs)"
    "vals h xs = ds" "h |` (- set xs) = h0" by (rule queue_holdsE [OF assms])
  show "queue_free_all q h = Some (raw_queue_init q, h0)" using list_free_all_chain [OF xs(1)] xs(2,6) by (simp add: queue_free_all_def)
  show "queue_holds h0 (raw_queue_init q) h0 []" by (intro queue_holdsI [of _ "[]"]) (simp_all add: raw_queue_init_def chain_def restrict_map_def)
qed

lemma queue_step_simulates:
  assumes "fresh A" "queue_holds h0 q h ds"
  shows "\<exists>ans q' h' ds'. queue_step A op (q, h) = Some (ans, q', h') \<and> deque_step (A h \<noteq> None) op ds = (ans, ds') \<and> queue_holds h0 q' h' ds'"
proof (cases op)
  case (PushHead d)
  then show ?thesis using push_head_holds [OF assms(2,1), of _ _ d] push_refused [of A h q d] assms(2) by (cases "A h") force+
next
  case (PushTail d)
  then show ?thesis using push_tail_holds [OF assms(2,1), of _ _ d] push_refused [of A h q d] assms(2) by (cases "A h") force+
next
  case PopHead
  then show ?thesis using pop_head_holds [OF assms(2)] by force
next
  case PopTail
  then show ?thesis using pop_tail_holds [OF assms(2)] by force
qed (use assms(2) peek_holds [OF assms(2)] free_all_holds [OF assms(2)] in auto)

text \<open>The contract, for whatever memory the process has and whichever way \<^verbatim>\<open>malloc\<close> chooses its blocks.\<close>

interpretation dq: deque "queue_step A" "\<lambda>(q, h). A h \<noteq> None" "\<lambda>s ds. fresh A \<and> queue_holds h0 (fst s) (snd s) ds" for A h0
  by unfold_locales (use queue_step_simulates in fastforce)

lemma queue_init_holds: "queue_holds h (raw_queue_init q) h []"
  by (rule queue_holdsI [of _ "[]"]) (simp_all add: raw_queue_init_def chain_def restrict_map_def)

text \<open>
  C29: A queue is a double-ended queue of data pointers. Whatever calls are made on an initialised queue, in whatever order and
  even if \<^verbatim>\<open>malloc\<close> fails now and then, none of them uses memory that is not allocated or runs for ever, and the answers are those of a sequence
  whose front and back are used: a push is refused with -1, without effect, exactly when there is no memory, and an empty queue gives NULL.
  The queue changes nothing of the memory it found, and \<^verbatim>\<open>queue_free_all\<close> leaves the memory as it was before the first call.
\<close>

theorem queue_is_deque:
  assumes "fresh A"
  shows "\<exists>log q' h' ds. run_calls (queue_step A) (\<lambda>(q, h). A h \<noteq> None) ops (raw_queue_init q, h) = Some (log, q', h') \<and>
    deque_run (map fst log) ops [] = (map snd log, ds) \<and> queue_holds h q' h' ds \<and> queue_free_all q' h' = Some (raw_queue_init q', h)"
  using dq.calls_simulate [of A h "(raw_queue_init q, h)" "[]" ops] queue_init_holds assms free_all_holds(1) by fastforce

theorem queue_is_deque_witness:
  "let A = (\<lambda>h. if h 1 = None then Some (1, \<lparr>nd_next = Some 9, nd_prev = None, nd_data = 3\<rparr>) else None);
     q0 = \<lparr>q_head = None, q_tail = None, q_length = 0\<rparr>; ops = [PushTail 5, PushHead 6, PopTail, PopHead];
     h = [7 \<mapsto> \<lparr>nd_next = None, nd_prev = None, nd_data = 1\<rparr>]
   in fresh A \<and>
     (\<exists>log q' h' ds. run_calls (queue_step A) (\<lambda>(q, h). A h \<noteq> None) ops (raw_queue_init q0, h) = Some (log, q', h') \<and>
       deque_run (map fst log) ops [] = (map snd log, ds) \<and> queue_holds h q' h' ds \<and> queue_free_all q' h' = Some (raw_queue_init q', h))"
proof -
  let ?A = "\<lambda>h. if h 1 = None then Some (1, \<lparr>nd_next = Some 9, nd_prev = None, nd_data = 3\<rparr>) else None"
  have f: "fresh ?A" by (simp add: fresh_def)
  show ?thesis unfolding Let_def by (intro conjI f queue_is_deque [OF f])
qed

section \<open>Adding an entry at the back\<close>

text \<open>
  \<^verbatim>\<open>__queue_push_tail\<close> is given an entry, as \<^verbatim>\<open>__queue_push_head\<close> is, but calls \<^verbatim>\<open>list_add_tail\<close>, which takes data: the queue gets a new node whose data is the
  address of the entry, and the entry itself stays outside.
\<close>

lemma raw_push_tail_wraps:
  assumes "queue_holds h0 q h ds" "fresh A" "A h = Some (n, nd)"
  shows "\<exists>q' h'. raw_queue_push_tail A q entry h = Some (q', h') \<and> queue_holds h0 q' h' (ds @ [ptr_value entry])"
proof -
  obtain q' h' where "queue_push_tail A q (ptr_value entry) h = Some (0, q', h')" "queue_holds h0 q' h' (ds @ [ptr_value entry])"
    using push_tail_holds [OF assms] by blast
  moreover have "raw_queue_push_tail A q entry h = Some (q', h')"
    using calculation(1)
    by (auto simp: queue_push_tail_def raw_queue_push_tail_def list_add_tail_def list_alloc_Some [of A, OF assms(3)] load_def Let_def
        split: bind_splits if_splits option.splits)
  ultimately show ?thesis by blast
qed

text \<open>Without memory it forgets the back of the queue, and the next push at the back loses the whole contents, which the counter still counts.\<close>

lemma raw_push_tail_forgets:
  assumes "queue_holds h0 q h ds" "A h = None" "B h = Some (n, nd)" "fresh B"
  shows "raw_queue_push_tail A q entry h = Some (q\<lparr>q_tail := None\<rparr>, h)"
    and "queue_push_tail B (q\<lparr>q_tail := None\<rparr>) d h =
      Some (0, \<lparr>q_head = Some n, q_tail = Some n, q_length = int (length ds) + 1\<rparr>, h(n \<mapsto> \<lparr>nd_next = None, nd_prev = None, nd_data = d\<rparr>))"
proof -
  show "raw_queue_push_tail A q entry h = Some (q\<lparr>q_tail := None\<rparr>, h)"
    by (simp add: raw_queue_push_tail_def list_add_tail_def list_alloc_None [of A, OF assms(2)])
  show "queue_push_tail B (q\<lparr>q_tail := None\<rparr>) d h =
      Some (0, \<lparr>q_head = Some n, q_tail = Some n, q_length = int (length ds) + 1\<rparr>, h(n \<mapsto> \<lparr>nd_next = None, nd_prev = None, nd_data = d\<rparr>))"
    using peek_holds(3) [OF assms(1)]
    by (cases q) (simp add: queue_push_tail_def list_alloc_Some [of B, OF assms(3)] raw_list_add_tail_def load_def queue_length_def)
qed

end
