(* ===== verification/Omx_Module.thy ===== *)
theory Omx_Module
  imports Omx_List
begin

text \<open>
  The shared libraries of the OpenMAX core (\<^verbatim>\<open>wrs_omxil_core/utils/src/module.c\<close>): loaded libraries are counted references, kept in a singly linked
  list of heap records. What the dynamic loader, \<^verbatim>\<open>malloc\<close>, \<^verbatim>\<open>strdup\<close> and the functions of the library answer during a call is a parameter of the call.
  A use of memory that is not allocated and a second lock of the mutex by its owner are \<^term>\<open>None\<close>.
\<close>

section \<open>State\<close>

text \<open>\<^verbatim>\<open>struct module\<close>; handles and function pointers are numbers, zero for NULL.\<close>

record module =
  m_name :: "string option"
  m_ref_count :: int
  m_handle :: nat
  m_init :: nat
  m_exit :: nat
  m_priv :: nat
  m_next :: ptr

type_synonym module_heap = "addr \<rightharpoonup> module"

text \<open>What the loader and the library are asked to do, the oldest first.\<close>

datatype dl_event = DlOpen string nat | DlClose nat | InitCall nat int | ExitCall nat

text \<open>The globals of the file, the heap of the modules, the number of name blocks in use, and the history.\<close>

record module_state =
  ms_heap :: module_heap
  g_module_head :: ptr
  g_module_err :: "string option"
  g_lock :: bool
  ms_names :: nat
  ms_log :: "dl_event list"

definition modules_start :: module_state where
  "modules_start = \<lparr>ms_heap = Map.empty, g_module_head = None, g_module_err = None, g_lock = False, ms_names = 0, ms_log = []\<rparr>"

text \<open>The answers during one \<^verbatim>\<open>module_open\<close>: a block, the handle and the message of \<^verbatim>\<open>dlopen\<close>, a copy of the name and of the message, and the two symbols, each with
  what \<^verbatim>\<open>dlerror\<close> says afterwards. The initialisation of the library returns a number and may set the private field of its module.\<close>

record open_answers =
  a_malloc :: "module_heap \<Rightarrow> (addr \<times> module) option"
  a_dlopen :: nat
  a_dlopen_error :: "string option"
  a_strdup :: bool
  a_strdup_error :: bool
  a_init :: nat
  a_init_error :: "string option"
  a_init_result :: int
  a_init_priv :: nat
  a_exit :: nat
  a_exit_error :: "string option"

definition fresh_answers :: "open_answers \<Rightarrow> bool" where
  "fresh_answers w \<longleftrightarrow> (\<forall>h a m. a_malloc w h = Some (a, m) \<longrightarrow> h a = None \<and> a \<noteq> 0)"

definition lock :: "module_state \<Rightarrow> module_state option" where
  "lock s = (if g_lock s then None else Some (s\<lparr>g_lock := True\<rparr>))"

definition unlock :: "module_state \<Rightarrow> module_state" where
  "unlock s = s\<lparr>g_lock := False\<rparr>"

definition dl_note :: "dl_event list \<Rightarrow> module_state \<Rightarrow> module_state" where
  "dl_note evs s = s\<lparr>ms_log := ms_log s @ evs\<rparr>"

definition change_module :: "(module \<Rightarrow> module) \<Rightarrow> ptr \<Rightarrow> module_heap \<Rightarrow> module_heap option" where
  "change_module f p h = (case p of None \<Rightarrow> None | Some a \<Rightarrow> (case h a of None \<Rightarrow> None | Some m \<Rightarrow> Some (h(a \<mapsto> f m))))"

definition get_module :: "module_heap \<Rightarrow> ptr \<Rightarrow> module option" where
  "get_module h p = (case p of None \<Rightarrow> None | Some a \<Rightarrow> h a)"

definition free_module :: "ptr \<Rightarrow> module_state \<Rightarrow> module_state option" where
  "free_module p s =
     (case p of None \<Rightarrow> Some s | Some a \<Rightarrow> if ms_heap s a = None then None else Some (s\<lparr>ms_heap := (ms_heap s)(a := None)\<rparr>))"

section \<open>The list of modules\<close>

partial_function (option) module_find_with_name :: "module_heap \<Rightarrow> ptr \<Rightarrow> string \<Rightarrow> ptr option" where
  "module_find_with_name h p filename =
     (if p = None then Some None
      else do {
        m \<leftarrow> get_module h p;
        name \<leftarrow> m_name m;
        if name = filename then Some p else module_find_with_name h (m_next m) filename })"

partial_function (option) module_find_with_handle :: "module_heap \<Rightarrow> ptr \<Rightarrow> nat \<Rightarrow> ptr option" where
  "module_find_with_handle h p handle =
     (if p = None then Some None
      else do {
        m \<leftarrow> get_module h p;
        if m_handle m = handle then Some p else module_find_with_handle h (m_next m) handle })"

partial_function (option) find_last_module :: "module_heap \<Rightarrow> ptr \<Rightarrow> ptr option" where
  "find_last_module h p =
     (if p = None then Some None
      else do { m \<leftarrow> get_module h p; if m_next m = None then Some p else find_last_module h (m_next m) })"

definition module_add_list :: "ptr \<Rightarrow> ptr \<Rightarrow> module_heap \<Rightarrow> (ptr \<times> module_heap) option" where
  "module_add_list hd_ptr add h =
     do { last_ptr \<leftarrow> find_last_module h hd_ptr;
          if last_ptr \<noteq> None then do { h1 \<leftarrow> change_module (m_next_update (\<lambda>_. add)) last_ptr h; Some (hd_ptr, h1) }
          else Some (add, h) }"

partial_function (option) find_prev_module :: "module_heap \<Rightarrow> ptr \<Rightarrow> ptr \<Rightarrow> ptr option" where
  "find_prev_module h p del_ptr =
     (if p = None then Some None
      else do { m \<leftarrow> get_module h p; if m_next m = del_ptr then Some p else find_prev_module h (m_next m) del_ptr })"

definition module_del_list :: "ptr \<Rightarrow> ptr \<Rightarrow> module_heap \<Rightarrow> (ptr \<times> module_heap) option" where
  "module_del_list hd_ptr del_ptr h =
     do { prev \<leftarrow> find_prev_module h hd_ptr del_ptr;
          m \<leftarrow> get_module h del_ptr;
          if prev = None then Some (m_next m, h)
          else do { h1 \<leftarrow> change_module (m_next_update (\<lambda>_. m_next m)) prev h; Some (hd_ptr, h1) } }"

section \<open>Operations\<close>

definition module_set_error :: "bool \<Rightarrow> string option \<Rightarrow> module_state \<Rightarrow> module_state" where
  "module_set_error dup dlerr s = s\<lparr>g_module_err := (if dup then dlerr else None)\<rparr>"

definition module_error :: "module_state \<Rightarrow> string option" where
  "module_error s = g_module_err s"

text \<open>The two labels at the end of \<^verbatim>\<open>module_open\<close>.\<close>

definition open_free_new :: "ptr \<Rightarrow> module_state \<Rightarrow> (ptr \<times> module_state) option" where
  "open_free_new new s = do { s1 \<leftarrow> free_module new s; Some (None, unlock s1) }"

definition open_free_handle :: "ptr \<Rightarrow> module_state \<Rightarrow> (ptr \<times> module_state) option" where
  "open_free_handle new s = do { m \<leftarrow> get_module (ms_heap s) new; open_free_new new (dl_note [DlClose (m_handle m)] s) }"

definition add_reference :: "ptr \<Rightarrow> module_state \<Rightarrow> module_state option" where
  "add_reference p s = do { h1 \<leftarrow> change_module (\<lambda>m. m\<lparr>m_ref_count := m_ref_count m + 1\<rparr>) p (ms_heap s); Some (s\<lparr>ms_heap := h1\<rparr>) }"

definition has_init :: "open_answers \<Rightarrow> bool" where
  "has_init w \<longleftrightarrow> a_init_error w = None \<and> a_init w \<noteq> 0"

text \<open>The part of \<^verbatim>\<open>module_open\<close> that sets up a library that was not known.\<close>

definition open_setup :: "open_answers \<Rightarrow> string \<Rightarrow> ptr \<Rightarrow> module_state \<Rightarrow> (ptr \<times> module_state) option" where
  "open_setup w file_name new s =
     (if \<not> a_strdup w then open_free_handle new s
      else do {
        h1 \<leftarrow> change_module (\<lambda>m. m\<lparr>m_name := Some file_name, m_init := a_init w\<rparr>) new (ms_heap s);
        let s1 = s\<lparr>ms_heap := h1, ms_names := ms_names s + 1\<rparr>;
        let calls = has_init w;
        h2 \<leftarrow> (if calls then change_module (\<lambda>m. m\<lparr>m_priv := a_init_priv w\<rparr>) new h1 else Some h1);
        let s2 = (if calls then dl_note [InitCall (a_init w) (a_init_result w)] (s1\<lparr>ms_heap := h2\<rparr>) else s1);
        if calls \<and> a_init_result w \<noteq> 0 then open_free_handle new s2
        else do {
          h3 \<leftarrow> change_module (\<lambda>m. m\<lparr>m_exit := (if a_exit_error w \<noteq> None then 0 else a_exit w)\<rparr>) new h2;
          (hd_ptr, h4) \<leftarrow> module_add_list (g_module_head s2) new h3;
          Some (new, unlock (s2\<lparr>ms_heap := h4, g_module_head := hd_ptr\<rparr>)) } })"

definition module_open :: "open_answers \<Rightarrow> string \<Rightarrow> module_state \<Rightarrow> (ptr \<times> module_state) option" where
  "module_open w file_name s0 =
     do {
       s \<leftarrow> lock s0;
       existing \<leftarrow> module_find_with_name (ms_heap s) (g_module_head s) file_name;
       if existing \<noteq> None then do { s1 \<leftarrow> add_reference existing s; Some (existing, unlock s1) }
       else (case a_malloc w (ms_heap s) of
           None \<Rightarrow> Some (None, unlock s)
         | Some (a, m) \<Rightarrow>
             (let new = Some a;
                  s1 = s\<lparr>ms_heap := (ms_heap s)(a \<mapsto> m\<lparr>m_ref_count := 1, m_priv := 0, m_next := None, m_handle := a_dlopen w\<rparr>)\<rparr>;
                  s2 = dl_note [DlOpen file_name (a_dlopen w)] s1
              in if a_dlopen w = 0 then open_free_new new (module_set_error (a_strdup_error w) (a_dlopen_error w) s2)
                 else do {
                   known \<leftarrow> module_find_with_handle (ms_heap s2) (g_module_head s2) (a_dlopen w);
                   if known \<noteq> None then do { s3 \<leftarrow> add_reference known s2; s4 \<leftarrow> free_module new s3; Some (known, unlock s4) }
                   else open_setup w file_name new s2 })) }"

definition module_close :: "ptr \<Rightarrow> module_state \<Rightarrow> (int \<times> module_state) option" where
  "module_close p s0 =
     (if p = None then Some (0, s0)
      else do {
        m \<leftarrow> get_module (ms_heap s0) p;
        if m_handle m = 0 then Some (0, s0)
        else do {
          s \<leftarrow> lock s0;
          h1 \<leftarrow> change_module (\<lambda>m. m\<lparr>m_ref_count := m_ref_count m - 1\<rparr>) p (ms_heap s);
          let ret = m_ref_count m - 1;
          let s1 = s\<lparr>ms_heap := h1\<rparr>;
          if ret = 0 then do {
            let s2 = dl_note ((if m_exit m \<noteq> 0 then [ExitCall (m_exit m)] else []) @ [DlClose (m_handle m)]) s1;
            (hd_ptr, h2) \<leftarrow> module_del_list (g_module_head s2) p (ms_heap s2);
            let s3 = s2\<lparr>ms_heap := h2, g_module_head := hd_ptr, ms_names := (if m_name m = None then ms_names s2 else ms_names s2 - 1)\<rparr>;
            s4 \<leftarrow> free_module p s3;
            Some (ret, unlock s4) }
          else Some (ret, unlock s1) } })"

definition module_symbol :: "nat \<Rightarrow> bool \<Rightarrow> string option \<Rightarrow> ptr \<Rightarrow> string option \<Rightarrow> module_state \<Rightarrow> (nat \<times> module_state) option" where
  "module_symbol symbol dup dlerr p name s0 =
     (if p = None then Some (0, s0)
      else do {
        m \<leftarrow> get_module (ms_heap s0) p;
        if m_handle m = 0 \<or> name = None then Some (0, s0)
        else do { s \<leftarrow> lock s0; Some (symbol, unlock (if symbol = 0 then module_set_error dup dlerr s else s)) } })"

section \<open>Lists of modules in the heap\<close>

fun mseg :: "module_heap \<Rightarrow> addr list \<Rightarrow> bool" where
  "mseg h [] \<longleftrightarrow> True"
| "mseg h (a # xs) \<longleftrightarrow> (case h a of None \<Rightarrow> False | Some m \<Rightarrow> m_next m = first_of xs None) \<and> mseg h xs"

lemma mseg_upd [simp]: "a \<notin> set xs \<Longrightarrow> mseg (h(a := v)) xs = mseg h xs"
  by (induction xs) auto

lemma mseg_same_next: "h a = Some m \<Longrightarrow> m_next m' = m_next m \<Longrightarrow> mseg (h(a \<mapsto> m')) xs = mseg h xs"
  by (induction xs) auto

lemma mseg_mem: "mseg h (us @ e # ws) \<Longrightarrow> \<exists>m. h e = Some m \<and> m_next m = first_of ws None"
  by (induction us) (auto split: option.splits)

lemma mseg_suffix: "mseg h (us @ ws) \<Longrightarrow> mseg h ws"
  by (induction us) auto

lemma mseg_join: "mseg h (us @ e # ws) \<Longrightarrow> distinct (us @ e # ws) \<Longrightarrow> set ws' \<inter> set (us @ [e]) = {} \<Longrightarrow> mseg h ws' \<Longrightarrow>
    h e = Some m \<Longrightarrow> mseg (h(e \<mapsto> m\<lparr>m_next := first_of ws' None\<rparr>)) (us @ e # ws')"
  by (induction us) (auto split: option.splits)

text \<open>The fields that matter to the clients: name, references and handle.\<close>

definition facts :: "module_heap \<Rightarrow> addr \<rightharpoonup> string option \<times> int \<times> nat" where
  "facts h a = map_option (\<lambda>m. (m_name m, m_ref_count m, m_handle m)) (h a)"

lemma facts_upd [simp]: "facts (h(a \<mapsto> m)) = (facts h)(a \<mapsto> (m_name m, m_ref_count m, m_handle m))" "facts (h(a := None)) = (facts h)(a := None)"
  by (auto simp: facts_def)

lemma facts_same: "h a = Some m \<Longrightarrow> facts h a = Some (m_name m, m_ref_count m, m_handle m)"
  by (simp add: facts_def)

lemma facts_next: "h a = Some m \<Longrightarrow> facts (h(a \<mapsto> m\<lparr>m_next := n\<rparr>)) = facts h"
  by (auto simp: facts_def)

lemma find_with_handle_list:
  "mseg h xs \<Longrightarrow> module_find_with_handle h (first_of xs None) hnd = Some (find (\<lambda>a. m_handle (the (h a)) = hnd) xs)"
proof (induction xs)
  case (Cons a xs)
  then show ?case by (subst module_find_with_handle.simps) (auto simp: get_module_def split: option.splits)
qed (subst module_find_with_handle.simps, simp)

lemma find_with_name_list:
  "mseg h xs \<Longrightarrow> \<forall>a \<in> set xs. m_name (the (h a)) \<noteq> None \<Longrightarrow> module_find_with_name h (first_of xs None) f = Some (find (\<lambda>a. m_name (the (h a)) = Some f) xs)"
proof (induction xs)
  case (Cons a xs)
  then show ?case by (subst module_find_with_name.simps) (auto simp: get_module_def split: option.splits)
qed (subst module_find_with_name.simps, simp)

lemma find_last_list: "mseg h xs \<Longrightarrow> find_last_module h (first_of xs None) = Some (last_of None xs)"
proof (induction xs)
  case (Cons a xs)
  then show ?case by (subst find_last_module.simps) (cases xs; auto simp: get_module_def split: option.splits)
qed (subst find_last_module.simps, simp)

lemma find_prev_absent: "mseg h xs \<Longrightarrow> e \<notin> set xs \<Longrightarrow> find_prev_module h (first_of xs None) (Some e) = Some None"
proof (induction xs)
  case (Cons a xs)
  then show ?case by (subst find_prev_module.simps) (cases xs; auto simp: get_module_def split: option.splits)
qed (subst find_prev_module.simps, simp)

lemma find_prev_list:
  "mseg h (us @ e # ws) \<Longrightarrow> distinct (us @ e # ws) \<Longrightarrow> find_prev_module h (first_of (us @ e # ws) None) (Some e) = Some (last_of None us)"
proof (induction us)
  case Nil
  then show ?case using find_prev_absent [of h ws e]
    by (subst find_prev_module.simps) (cases ws; auto simp: get_module_def split: option.splits)
next
  case (Cons a us)
  then show ?case by (subst find_prev_module.simps) (cases us; auto simp: get_module_def split: option.splits)
qed

lemma module_add_list_ok:
  assumes "mseg h xs" "distinct xs" "a \<notin> set xs" "h a = Some m" "m_next m = None"
  shows "\<exists>h'. module_add_list (first_of xs None) (Some a) h = Some (first_of (xs @ [a]) None, h') \<and> mseg h' (xs @ [a]) \<and> facts h' = facts h"
proof (cases xs rule: rev_cases)
  case Nil
  then show ?thesis using assms find_last_list [OF assms(1)] by (simp add: module_add_list_def)
next
  case (snoc ys y)
  obtain n where n: "h y = Some n" using mseg_mem [of h ys y "[]"] assms(1) snoc by auto
  have "mseg (h(y \<mapsto> n\<lparr>m_next := Some a\<rparr>)) (xs @ [a])"
    using mseg_join [of h ys y "[]" "[a]" n] assms n snoc by simp
  moreover have "module_add_list (first_of xs None) (Some a) h = Some (first_of (xs @ [a]) None, h(y \<mapsto> n\<lparr>m_next := Some a\<rparr>))"
    using find_last_list [OF assms(1)] n snoc by (cases ys) (auto simp: module_add_list_def change_module_def)
  ultimately show ?thesis using facts_next [of h, OF n] by blast
qed

lemma module_del_list_ok:
  assumes "mseg h (us @ e # ws)" "distinct (us @ e # ws)"
  shows "\<exists>h'. module_del_list (first_of (us @ e # ws) None) (Some e) h = Some (first_of (us @ ws) None, h') \<and> mseg h' (us @ ws) \<and> facts h' = facts h"
proof -
  obtain m where m: "h e = Some m" "m_next m = first_of ws None" using mseg_mem [OF assms(1)] by blast
  show ?thesis
  proof (cases us rule: rev_cases)
    case Nil
    then show ?thesis using assms m find_prev_list [OF assms] by (auto simp: module_del_list_def get_module_def)
  next
    case (snoc vs v)
    obtain n where n: "h v = Some n" using mseg_mem [of h vs v "e # ws"] assms(1) snoc by auto
    have "mseg (h(v \<mapsto> n\<lparr>m_next := first_of ws None\<rparr>)) (us @ ws)"
      using mseg_join [of h vs v "e # ws" ws n] assms n snoc mseg_suffix [of h "vs @ [v, e]" ws] by auto
    moreover have "module_del_list (first_of (us @ e # ws) None) (Some e) h = Some (first_of (us @ ws) None, h(v \<mapsto> n\<lparr>m_next := first_of ws None\<rparr>))"
      using find_prev_list [OF assms] m n snoc by (cases vs) (auto simp: module_del_list_def change_module_def get_module_def)
    ultimately show ?thesis using facts_next [of h, OF n] by blast
  qed
qed

section \<open>Counted references\<close>

text \<open>
  The clients hold \<open>refs a\<close> references to the module at \<open>a\<close>. Exactly the modules they hold are in the list and in the memory, with this count; names and handles are
  unique.
\<close>

fun agree :: "(string option \<times> int \<times> nat) option \<Rightarrow> nat \<Rightarrow> bool" where
  "agree None r \<longleftrightarrow> r = 0"
| "agree (Some (n, c, hnd)) r \<longleftrightarrow> n \<noteq> None \<and> 0 < r \<and> c = int r \<and> hnd \<noteq> 0"

definition refs_agree :: "(addr \<rightharpoonup> string option \<times> int \<times> nat) \<Rightarrow> (addr \<Rightarrow> nat) \<Rightarrow> bool" where
  "refs_agree F refs \<longleftrightarrow> (\<forall>a. agree (F a) (refs a))"

definition unique :: "(addr \<rightharpoonup> string option \<times> int \<times> nat) \<Rightarrow> bool" where
  "unique F \<longleftrightarrow> (\<forall>a b n c k n' c' k'. F a = Some (n, c, k) \<and> F b = Some (n', c', k') \<and> a \<noteq> b \<longrightarrow> n \<noteq> n' \<and> k \<noteq> k')"

text \<open>How often the loader still has a handle open.\<close>

fun dl_balance :: "dl_event list \<Rightarrow> nat \<Rightarrow> int" where
  "dl_balance [] hnd = 0"
| "dl_balance (DlOpen f k # es) hnd = (if k = hnd then 1 else 0) + dl_balance es hnd"
| "dl_balance (DlClose k # es) hnd = (if k = hnd then - 1 else 0) + dl_balance es hnd"
| "dl_balance (_ # es) hnd = dl_balance es hnd"

lemma dl_balance_append [simp]: "dl_balance (es @ es') hnd = dl_balance es hnd + dl_balance es' hnd"
  by (induction es hnd rule: dl_balance.induct) auto

definition loaded :: "(addr \<rightharpoonup> string option \<times> int \<times> nat) \<Rightarrow> nat \<Rightarrow> bool" where
  "loaded F hnd \<longleftrightarrow> (\<exists>a n c. F a = Some (n, c, hnd))"

definition dl_kept :: "dl_event list \<Rightarrow> (addr \<rightharpoonup> string option \<times> int \<times> nat) \<Rightarrow> bool" where
  "dl_kept log F \<longleftrightarrow> (\<forall>hnd. hnd \<noteq> 0 \<longrightarrow> 0 \<le> dl_balance log hnd \<and> (loaded F hnd \<longrightarrow> 1 \<le> dl_balance log hnd))"

definition module_list :: "module_state \<Rightarrow> addr list \<Rightarrow> bool" where
  "module_list s xs \<longleftrightarrow> distinct xs \<and> mseg (ms_heap s) xs \<and> g_module_head s = first_of xs None \<and> length xs \<le> ms_names s"

definition modules_counted :: "module_state \<Rightarrow> (addr \<Rightarrow> nat) \<Rightarrow> bool" where
  "modules_counted s refs \<longleftrightarrow>
     (\<exists>xs. module_list s xs \<and> dom (ms_heap s) = set xs) \<and> \<not> g_lock s \<and>
     refs_agree (facts (ms_heap s)) refs \<and> unique (facts (ms_heap s)) \<and> dl_kept (ms_log s) (facts (ms_heap s))"

lemma refs_agreeD: "refs_agree (facts h) refs \<Longrightarrow> h a = Some m \<Longrightarrow> m_name m \<noteq> None \<and> m_handle m \<noteq> 0 \<and> m_ref_count m = int (refs a) \<and> 0 < refs a"
  unfolding refs_agree_def facts_def by (drule spec [of _ a]) simp

text \<open>One reference more or less to a module of the list.\<close>

lemma count_changed:
  assumes "F a = Some (n, c, hnd)"
  shows "refs_agree F refs \<Longrightarrow> 0 < k \<Longrightarrow> refs_agree (F(a \<mapsto> (n, int k, hnd))) (refs(a := k))"
    and "unique F \<Longrightarrow> unique (F(a \<mapsto> (n, d, hnd)))" and "loaded (F(a \<mapsto> (n, d, hnd))) k = loaded F k"
proof -
  show "refs_agree (F(a \<mapsto> (n, int k, hnd))) (refs(a := k))" if "refs_agree F refs" "0 < k" for k
    using that spec [OF that(1) [unfolded refs_agree_def], of a] assms unfolding refs_agree_def by simp
  show "unique (F(a \<mapsto> (n, d, hnd)))" if "unique F" using that assms unfolding unique_def by (auto; metis)
  show "loaded (F(a \<mapsto> (n, d, hnd))) k = loaded F k"
  proof
    show "loaded F k" if "loaded (F(a \<mapsto> (n, d, hnd))) k" using that assms by (auto simp: loaded_def split: if_splits)
    assume "loaded F k"
    then obtain b n' c' where b: "F b = Some (n', c', k)" by (auto simp: loaded_def)
    show "loaded (F(a \<mapsto> (n, d, hnd))) k" unfolding loaded_def
      using b assms by (cases "b = a") (auto intro!: exI [of _ b])
  qed
qed

text \<open>A module leaves, and a module comes.\<close>

lemma module_gone:
  shows "refs_agree F refs \<Longrightarrow> refs_agree (F(a := None)) (refs(a := 0))" and "unique F \<Longrightarrow> unique (F(a := None))"
    and "F a = Some (n, c, hnd) \<Longrightarrow> unique F \<Longrightarrow> \<not> loaded (F(a := None)) hnd" and "loaded (F(a := None)) k \<Longrightarrow> loaded F k"
proof -
  show "refs_agree (F(a := None)) (refs(a := 0))" if "refs_agree F refs" using that unfolding refs_agree_def by simp
  show "unique (F(a := None))" if "unique F" using that unfolding unique_def by (auto split: if_splits)
  show "\<not> loaded (F(a := None)) hnd" if "F a = Some (n, c, hnd)" "unique F" 
    using that unfolding loaded_def unique_def by (auto split: if_splits) blast
  show "loaded F k" if "loaded (F(a := None)) k" using that unfolding loaded_def by (auto split: if_splits)
qed

lemma module_comes:
  assumes "F a = None"
  shows "refs_agree F refs \<Longrightarrow> hnd \<noteq> 0 \<Longrightarrow> refs_agree (F(a \<mapsto> (Some f, 1, hnd))) (refs(a := 1))"
    and "unique F \<Longrightarrow> \<not> loaded F hnd \<Longrightarrow> (\<forall>b n c k. F b = Some (n, c, k) \<longrightarrow> n \<noteq> Some f) \<Longrightarrow> unique (F(a \<mapsto> (Some f, 1, hnd)))"
    and "loaded (F(a \<mapsto> (Some f, 1, hnd))) k \<longleftrightarrow> k = hnd \<or> loaded F k"
proof -
  show "refs_agree (F(a \<mapsto> (Some f, 1, hnd))) (refs(a := 1))" if "refs_agree F refs" "hnd \<noteq> 0" using that unfolding refs_agree_def by simp
  show "unique (F(a \<mapsto> (Some f, 1, hnd)))" if "unique F" "\<not> loaded F hnd" "\<forall>b n c k. F b = Some (n, c, k) \<longrightarrow> n \<noteq> Some f"
    using that unfolding unique_def loaded_def by (auto split: if_splits) blast+
  show "loaded (F(a \<mapsto> (Some f, 1, hnd))) k \<longleftrightarrow> k = hnd \<or> loaded F k" using assms unfolding loaded_def by (auto, metis option.distinct(1))
qed

text \<open>The four ways in which a call leaves the modules.\<close>

definition dl_grows :: "module_state \<Rightarrow> module_state \<Rightarrow> bool" where
  "dl_grows s s' \<longleftrightarrow> (\<forall>hnd. hnd \<noteq> 0 \<longrightarrow> dl_balance (ms_log s) hnd \<le> dl_balance (ms_log s') hnd)"

lemma dl_kept_mono: "dl_kept (ms_log s) F \<Longrightarrow> dl_grows s s' \<Longrightarrow> (\<And>k. loaded F' k \<Longrightarrow> loaded F k) \<Longrightarrow> dl_kept (ms_log s') F'"
  unfolding dl_kept_def dl_grows_def by (meson order_trans)

lemma counted_same:
  assumes "modules_counted s refs" "ms_heap s' = ms_heap s" "g_module_head s' = g_module_head s" "ms_names s \<le> ms_names s'" "\<not> g_lock s'" "dl_grows s s'"
  shows "modules_counted s' refs"
  using assms dl_kept_mono [OF _ assms(6)] unfolding modules_counted_def module_list_def by (metis order_trans)

lemma counted_ref:
  assumes "modules_counted s refs" "ms_heap s a = Some m" "ms_heap s' = (ms_heap s)(a \<mapsto> m\<lparr>m_ref_count := int k\<rparr>)" "0 < k"
    "g_module_head s' = g_module_head s" "ms_names s' = ms_names s" "\<not> g_lock s'" "dl_grows s s'"
  shows "modules_counted s' (refs(a := k))"
proof -
  note f = facts_same [of "ms_heap s", OF assms(2)]
  have "facts (ms_heap s') = (facts (ms_heap s))(a \<mapsto> (m_name m, int k, m_handle m))" using assms(3) by simp
  moreover have "\<exists>xs. module_list s' xs \<and> dom (ms_heap s') = set xs"
    using assms mseg_same_next [of "ms_heap s" a m "m\<lparr>m_ref_count := int k\<rparr>"]
    by (auto simp: modules_counted_def module_list_def dom_def insert_absorb)
  moreover have "dl_kept (ms_log s') ((facts (ms_heap s))(a \<mapsto> (m_name m, int k, m_handle m)))"
    using dl_kept_mono [OF _ assms(8)] assms(1) count_changed(3) [of "facts (ms_heap s)", OF f] by (auto simp: modules_counted_def)
  ultimately show ?thesis using assms(1,4,7) count_changed(1,2) [of "facts (ms_heap s)", OF f] by (simp add: modules_counted_def)
qed

lemma facts_dom: "dom (facts h) = dom h"
  by (auto simp: facts_def dom_def)

lemma counted_gone:
  assumes "modules_counted s refs" "module_list s (us @ a # ws)" "dom (ms_heap s) = set (us @ a # ws)" "ms_heap s a = Some m"
    "facts (ms_heap s') = (facts (ms_heap s))(a := None)" "mseg (ms_heap s') (us @ ws)" "g_module_head s' = first_of (us @ ws) None"
    "ms_names s' = ms_names s - 1" "\<not> g_lock s'"
    "\<And>hnd. dl_balance (ms_log s') hnd = dl_balance (ms_log s) hnd - (if hnd = m_handle m then 1 else 0)"
  shows "modules_counted s' (refs(a := 0))"
proof -
  note f = facts_same [of "ms_heap s", OF assms(4)]
  have "dom (ms_heap s') = set (us @ ws)"
    using assms(2,3,5) facts_dom [of "ms_heap s'"] facts_dom [of "ms_heap s"] by (auto simp: module_list_def)
  moreover have "module_list s' (us @ ws)" using assms(2,6,7,8) by (auto simp: module_list_def)
  moreover have "dl_kept (ms_log s') ((facts (ms_heap s))(a := None))" unfolding dl_kept_def
  proof (intro allI impI conjI)
    fix hnd :: nat
    assume "hnd \<noteq> 0"
    have k: "0 \<le> dl_balance (ms_log s) hnd" "loaded (facts (ms_heap s)) hnd \<Longrightarrow> 1 \<le> dl_balance (ms_log s) hnd"
      using assms(1) \<open>hnd \<noteq> 0\<close> by (auto simp: modules_counted_def dl_kept_def)
    have l: "loaded (facts (ms_heap s)) (m_handle m)" using f by (auto simp: loaded_def)
    show "0 \<le> dl_balance (ms_log s') hnd" using k l assms(10) by auto
    show "1 \<le> dl_balance (ms_log s') hnd" if "loaded ((facts (ms_heap s))(a := None)) hnd"
      using that k assms(1,10) module_gone(3) [of "facts (ms_heap s)", OF f] module_gone(4) [OF that] by (auto simp: modules_counted_def)
  qed
  ultimately show ?thesis using assms(1,5,9) module_gone(1,2) by (auto simp: modules_counted_def)
qed

lemma counted_new:
  assumes "modules_counted s refs" "module_list s xs" "dom (ms_heap s) = set xs" "ms_heap s a = None" "hnd \<noteq> 0"
    "\<not> loaded (facts (ms_heap s)) hnd" "\<forall>b n c k. facts (ms_heap s) b = Some (n, c, k) \<longrightarrow> n \<noteq> Some f"
    "facts (ms_heap s') = (facts (ms_heap s))(a \<mapsto> (Some f, 1, hnd))" "mseg (ms_heap s') (xs @ [a])" "g_module_head s' = first_of (xs @ [a]) None"
    "ms_names s' = ms_names s + 1" "\<not> g_lock s'"
    "\<And>k. dl_balance (ms_log s') k = dl_balance (ms_log s) k + (if k = hnd then 1 else 0)"
  shows "modules_counted s' (refs(a := 1))"
proof -
  have a: "facts (ms_heap s) a = None" using assms(4) by (simp add: facts_def)
  have "dom (ms_heap s') = set (xs @ [a])" using assms(3,8) facts_dom [of "ms_heap s'"] facts_dom [of "ms_heap s"] by auto
  moreover have "module_list s' (xs @ [a])" using assms(2,3,4,9,10,11) by (auto simp: module_list_def)
  moreover have "dl_kept (ms_log s') ((facts (ms_heap s))(a \<mapsto> (Some f, 1, hnd)))"
    using assms(1,13) module_comes(3) [of "facts (ms_heap s)", OF a, of f hnd] by (auto simp: modules_counted_def dl_kept_def)
  ultimately show ?thesis
    using assms(1,5-8,12) module_comes(1) [of "facts (ms_heap s)", OF a] module_comes(2) [of "facts (ms_heap s)", OF a _ assms(6,7)] by (auto simp: modules_counted_def)
qed

section \<open>Closing\<close>

lemma held_module:
  assumes "modules_counted s refs" "0 < refs a"
  obtains m where "ms_heap s a = Some m" "m_handle m \<noteq> 0" "m_ref_count m = int (refs a)" "m_name m \<noteq> None"
proof -
  have r: "refs_agree (facts (ms_heap s)) refs" using assms(1) by (simp add: modules_counted_def)
  then have "agree (facts (ms_heap s) a) (refs a)" by (simp add: refs_agree_def)
  with assms(2) obtain m where "ms_heap s a = Some m" by (cases "ms_heap s a") (auto simp: facts_def)
  with refs_agreeD [OF r this] that show ?thesis by blast
qed

lemma close_not_last:
  assumes "modules_counted s refs" "1 < refs a"
  shows "\<exists>s'. module_close (Some a) s = Some (int (refs a) - 1, s') \<and> modules_counted s' (refs(a := refs a - 1)) \<and> ms_log s' = ms_log s"
proof -
  obtain m where m: "ms_heap s a = Some m" "m_handle m \<noteq> 0" "m_ref_count m = int (refs a)" using held_module [OF assms(1), of a] assms(2) by auto
  let ?s = "s\<lparr>ms_heap := (ms_heap s)(a \<mapsto> m\<lparr>m_ref_count := int (refs a - 1)\<rparr>), g_lock := False\<rparr>"
  have "\<not> g_lock s" using assms(1) by (simp add: modules_counted_def)
  then have "module_close (Some a) s = Some (int (refs a) - 1, ?s)" using m assms(2)
    by (simp add: module_close_def get_module_def lock_def change_module_def unlock_def of_nat_diff)
  moreover have "modules_counted ?s (refs(a := refs a - 1))"
    using assms(2) by (intro counted_ref [OF assms(1) m(1)]) (simp_all add: dl_grows_def)
  ultimately show ?thesis by auto
qed

lemma close_last:
  assumes "modules_counted s refs" "refs a = 1" "ms_heap s a = Some m"
  shows "\<exists>s'. module_close (Some a) s = Some (0, s') \<and> modules_counted s' (refs(a := 0)) \<and> ms_heap s' a = None \<and>
    ms_log s' = ms_log s @ (if m_exit m \<noteq> 0 then [ExitCall (m_exit m)] else []) @ [DlClose (m_handle m)]"
proof -
  have m: "m_handle m \<noteq> 0" "m_ref_count m = 1" "m_name m \<noteq> None" "\<not> g_lock s"
    using refs_agreeD [of "ms_heap s" refs a m] assms by (auto simp: modules_counted_def)
  obtain xs where "module_list s xs" and xs: "dom (ms_heap s) = set xs" using assms(1) by (auto simp: modules_counted_def)
  moreover obtain us ws where split: "xs = us @ a # ws" using xs assms(3) by (metis domI split_list)
  ultimately have l: "module_list s (us @ a # ws)" "dom (ms_heap s) = set (us @ a # ws)" by simp_all
  let ?h = "(ms_heap s)(a \<mapsto> m\<lparr>m_ref_count := 0\<rparr>)"
  have "mseg ?h (us @ a # ws)" "distinct (us @ a # ws)"
    using l(1) mseg_same_next [of "ms_heap s" a m "m\<lparr>m_ref_count := 0\<rparr>"] assms(3) by (simp_all add: module_list_def)
  from module_del_list_ok [OF this] l(1) obtain h2 where
    h2: "module_del_list (g_module_head s) (Some a) ?h = Some (first_of (us @ ws) None, h2)" "mseg h2 (us @ ws)" "facts h2 = facts ?h"
    by (auto simp: module_list_def)
  have a: "a \<notin> set (us @ ws)" "h2 a \<noteq> None" using l(1) h2(3) facts_dom [of h2] facts_dom [of ?h] by (auto simp: module_list_def)
  let ?s = "s\<lparr>ms_heap := h2(a := None), g_module_head := first_of (us @ ws) None, g_lock := False, ms_names := ms_names s - 1,
    ms_log := ms_log s @ (if m_exit m \<noteq> 0 then [ExitCall (m_exit m)] else []) @ [DlClose (m_handle m)]\<rparr>"
  have "module_close (Some a) s = Some (0, ?s)" using m assms(3) h2(1) a(2)
    by (cases s) (auto simp: module_close_def get_module_def lock_def change_module_def unlock_def dl_note_def free_module_def Let_def)
  moreover have "modules_counted ?s (refs(a := 0))"
    using h2(2,3) a(1) by (intro counted_gone [OF assms(1) l assms(3)]) auto
  ultimately show ?thesis by auto
qed

section \<open>Opening\<close>

text \<open>A library that was not known: the block of its module is at \<open>a\<close>, outside the list.\<close>

lemma setup_fails:
  assumes "modules_counted s0 refs" "ms_heap s0 a = None"
    "s = s0\<lparr>g_lock := True, ms_heap := (ms_heap s0)(a \<mapsto> m), ms_log := ms_log s0 @ [DlOpen f (m_handle m)] @ inits, ms_names := ms_names s0 + k\<rparr>"
    "\<And>hnd. dl_balance inits hnd = 0"
  shows "\<exists>s'. open_free_handle (Some a) s = Some (None, s') \<and> modules_counted s' refs"
proof -
  let ?s = "s0\<lparr>g_lock := False, ms_log := ms_log s0 @ [DlOpen f (m_handle m)] @ inits @ [DlClose (m_handle m)], ms_names := ms_names s0 + k\<rparr>"
  have "(ms_heap s0)(a := None) = ms_heap s0" using assms(2) by auto
  then have "open_free_handle (Some a) s = Some (None, ?s)"
    using assms(3) by (simp add: open_free_handle_def open_free_new_def get_module_def free_module_def dl_note_def unlock_def)
  moreover have "modules_counted ?s refs" using assms(4) by (intro counted_same [OF assms(1)]) (simp_all add: dl_grows_def)
  ultimately show ?thesis by blast
qed

lemma setup_ends:
  assumes "modules_counted s0 refs" "ms_heap s0 a = None" "m_handle m \<noteq> 0" "m_ref_count m = 1" "m_next m = None"
    "\<not> loaded (facts (ms_heap s0)) (m_handle m)" "\<forall>b n c k. facts (ms_heap s0) b = Some (n, c, k) \<longrightarrow> n \<noteq> Some f" "m_name m = Some f"
  shows "\<exists>hd_ptr h. module_add_list (g_module_head s0) (Some a) ((ms_heap s0)(a \<mapsto> m)) = Some (hd_ptr, h) \<and>
    ((\<forall>hnd. dl_balance inits hnd = 0) \<longrightarrow>
     modules_counted (s0\<lparr>g_lock := False, ms_heap := h, g_module_head := hd_ptr, ms_log := ms_log s0 @ [DlOpen f (m_handle m)] @ inits,
      ms_names := Suc (ms_names s0)\<rparr>) (refs(a := 1)))"
proof -
  obtain xs where xs: "module_list s0 xs" "dom (ms_heap s0) = set xs" using assms(1) by (auto simp: modules_counted_def)
  have a: "a \<notin> set xs" using xs(2) assms(2) by auto
  let ?h = "(ms_heap s0)(a \<mapsto> m)"
  obtain h where h: "module_add_list (g_module_head s0) (Some a) ?h = Some (first_of (xs @ [a]) None, h)" "mseg h (xs @ [a])" "facts h = facts ?h"
    using module_add_list_ok [of ?h xs a m] xs(1) a assms(5) by (auto simp: module_list_def)
  have "modules_counted (s0\<lparr>g_lock := False, ms_heap := h, g_module_head := first_of (xs @ [a]) None, ms_log := ms_log s0 @ [DlOpen f (m_handle m)] @ inits,
      ms_names := Suc (ms_names s0)\<rparr>) (refs(a := 1))" if "\<forall>hnd. dl_balance inits hnd = 0"
    using h(2,3) assms(4,8) that by (intro counted_new [OF assms(1) xs assms(2,3,6,7)]) simp_all
  then show ?thesis using h(1) by blast
qed

lemma open_setup_counts:
  assumes "modules_counted s0 refs" "ms_heap s0 a = None" "m_handle m \<noteq> 0" "m_ref_count m = 1" "m_next m = None"
    "\<not> loaded (facts (ms_heap s0)) (m_handle m)" "\<forall>b n c k. facts (ms_heap s0) b = Some (n, c, k) \<longrightarrow> n \<noteq> Some f"
    "s = s0\<lparr>g_lock := True, ms_heap := (ms_heap s0)(a \<mapsto> m), ms_log := ms_log s0 @ [DlOpen f (m_handle m)]\<rparr>"
  shows "\<exists>p s'. open_setup w f (Some a) s = Some (p, s') \<and> modules_counted s' (case p of None \<Rightarrow> refs | Some b \<Rightarrow> refs(b := refs b + 1))"
proof -
  have zero: "refs a = 0" using assms(1,2) by (auto simp: modules_counted_def refs_agree_def facts_def dest: spec [of _ a])
  let ?inits = "if has_init w then [InitCall (a_init w) (a_init_result w)] else []"
  let ?m = "m\<lparr>m_name := Some f, m_init := a_init w, m_priv := (if has_init w then a_init_priv w else m_priv m)\<rparr>"
  consider (nodup) "\<not> a_strdup w" | (failed) "a_strdup w" "has_init w" "a_init_result w \<noteq> 0" | (ready) "a_strdup w" "has_init w \<longrightarrow> a_init_result w = 0" by blast
  then show ?thesis
  proof cases
    case nodup
    then show ?thesis using setup_fails [OF assms(1,2), where s = s and m = m and f = f and inits = "[]" and k = 0] assms(8) by (auto simp: open_setup_def)
  next
    case failed
    then show ?thesis
      using setup_fails [OF assms(1,2), where s = "dl_note [InitCall (a_init w) (a_init_result w)] (s\<lparr>ms_names := Suc (ms_names s0), ms_heap := (ms_heap s0)(a \<mapsto> ?m)\<rparr>)" and m = ?m and f = f
          and inits = "[InitCall (a_init w) (a_init_result w)]" and k = 1] assms(8)
      by (auto simp: open_setup_def change_module_def dl_note_def)
  next
    case ready
    obtain hd_ptr h where h: "module_add_list (g_module_head s0) (Some a) ((ms_heap s0)(a \<mapsto> ?m\<lparr>m_exit := (if a_exit_error w \<noteq> None then 0 else a_exit w)\<rparr>)) = Some (hd_ptr, h)"
      "modules_counted (s0\<lparr>g_lock := False, ms_heap := h, g_module_head := hd_ptr, ms_log := ms_log s0 @ [DlOpen f (m_handle m)] @ ?inits,
      ms_names := Suc (ms_names s0)\<rparr>) (refs(a := 1))"
      using setup_ends [OF assms(1,2), where m = "?m\<lparr>m_exit := (if a_exit_error w \<noteq> None then 0 else a_exit w)\<rparr>" and f = f and inits = ?inits] assms(3-7) by auto
    show ?thesis using ready h assms(8) zero
      by (cases s0; cases "has_init w") (simp_all add: open_setup_def change_module_def dl_note_def unlock_def Let_def)
  qed
qed

lemma find_SomeD: "find P xs = Some a \<Longrightarrow> a \<in> set xs \<and> P a"
  by (induction xs) (auto split: if_splits)

text \<open>A library that is already loaded under another name: the loader opened it once more, and it is closed only once at the end.\<close>

lemma open_by_handle:
  assumes "modules_counted s refs" "a_malloc w (ms_heap s) = Some (a, m)" "module_find_with_name (ms_heap s) (g_module_head s) f = Some None"
    "a_dlopen w \<noteq> 0" "module_find_with_handle ((ms_heap s)(a \<mapsto> m\<lparr>m_ref_count := 1, m_priv := 0, m_next := None, m_handle := a_dlopen w\<rparr>))
      (g_module_head s) (a_dlopen w) = Some (Some b)" "ms_heap s a = None" "b \<noteq> a" "ms_heap s b = Some mb"
  shows "\<exists>s'. module_open w f s = Some (Some b, s') \<and> modules_counted s' (refs(b := refs b + 1)) \<and> ms_log s' = ms_log s @ [DlOpen f (a_dlopen w)]"
proof -
  have c: "m_ref_count mb = int (refs b)" "\<not> g_lock s"
    using refs_agreeD [of "ms_heap s" refs b mb] assms(1,8) by (auto simp: modules_counted_def)
  let ?m = "m\<lparr>m_ref_count := 1, m_priv := 0, m_next := None, m_handle := a_dlopen w\<rparr>"
  let ?e = "s\<lparr>g_lock := False, ms_heap := (ms_heap s)(b \<mapsto> mb\<lparr>m_ref_count := int (refs b + 1)\<rparr>), ms_log := ms_log s @ [DlOpen f (a_dlopen w)]\<rparr>"
  have "((ms_heap s)(a \<mapsto> ?m, b \<mapsto> mb\<lparr>m_ref_count := int (refs b + 1)\<rparr>))(a := None) = (ms_heap s)(b \<mapsto> mb\<lparr>m_ref_count := int (refs b + 1)\<rparr>)"
    using assms(6,7) by auto
  then have "module_open w f s = Some (Some b, ?e)" using assms(2-8) c
    by (cases s) (simp add: module_open_def lock_def unlock_def dl_note_def Let_def add_reference_def change_module_def free_module_def add.commute)
  moreover have "modules_counted ?e (refs(b := refs b + 1))" by (intro counted_ref [OF assms(1,8)]) (simp_all add: dl_grows_def)
  ultimately show ?thesis by auto
qed

text \<open>A new block, whatever happens to it.\<close>

lemma open_unknown:
  assumes "modules_counted s refs" "a_malloc w (ms_heap s) = Some (a, m)" "fresh_answers w"
    "module_find_with_name (ms_heap s) (g_module_head s) f = Some None" "\<forall>b n c k. facts (ms_heap s) b = Some (n, c, k) \<longrightarrow> n \<noteq> Some f"
  shows "\<exists>p s'. module_open w f s = Some (p, s') \<and> modules_counted s' (case p of None \<Rightarrow> refs | Some b \<Rightarrow> refs(b := refs b + 1))"
proof -
  obtain xs where xs: "module_list s xs" "dom (ms_heap s) = set xs" using assms(1) by (auto simp: modules_counted_def)
  have a: "ms_heap s a = None" "a \<notin> set xs" "\<not> g_lock s" using assms(1-3) xs(2) by (auto simp: fresh_answers_def modules_counted_def)
  let ?m = "m\<lparr>m_ref_count := 1, m_priv := 0, m_next := None, m_handle := a_dlopen w\<rparr>"
  let ?s = "s\<lparr>g_lock := True, ms_heap := (ms_heap s)(a \<mapsto> ?m), ms_log := ms_log s @ [DlOpen f (a_dlopen w)]\<rparr>"
  have restored: "(ms_heap s)(a := None) = ms_heap s" using a(1) by auto
  note defs = module_open_def lock_def unlock_def dl_note_def Let_def
  show ?thesis
  proof (cases "a_dlopen w = 0")
    case True
    let ?e = "s\<lparr>g_lock := False, ms_log := ms_log s @ [DlOpen f 0], g_module_err := (if a_strdup_error w then a_dlopen_error w else None)\<rparr>"
    have "module_open w f s = Some (None, ?e)"
      using assms(2,4) a True restored by (cases s) (simp add: defs open_free_new_def free_module_def module_set_error_def)
    moreover have "modules_counted ?e refs" by (intro counted_same [OF assms(1)]) (simp_all add: dl_grows_def)
    ultimately show ?thesis by simp
  next
    case False
    have seg: "mseg (ms_heap ?s) xs" "g_module_head ?s = first_of xs None" using xs(1) a(2) by (simp_all add: module_list_def)
    let ?found = "find (\<lambda>b. m_handle (the (ms_heap ?s b)) = a_dlopen w) xs"
    show ?thesis
    proof (cases ?found)
      case None
      have "\<not> loaded (facts (ms_heap s)) (a_dlopen w)"
      proof
        assume "loaded (facts (ms_heap s)) (a_dlopen w)"
        then obtain b mb where b: "ms_heap s b = Some mb" "m_handle mb = a_dlopen w" by (auto simp: loaded_def facts_def)
        then have "b \<in> set xs" "b \<noteq> a" using xs(2) a(1) by auto
        then show False using None b by (auto simp: find_None_iff)
      qed
      then have "\<exists>p s'. open_setup w f (Some a) ?s = Some (p, s') \<and> modules_counted s' (case p of None \<Rightarrow> refs | Some b \<Rightarrow> refs(b := refs b + 1))"
        using False by (intro open_setup_counts [OF assms(1) a(1), of ?m]) (simp_all add: assms(5))
      moreover have "module_open w f s = open_setup w f (Some a) ?s"
        using assms(2,4) a False find_with_handle_list [OF seg(1), of "a_dlopen w"] None seg(2) by (cases s) (simp add: defs)
      ultimately show ?thesis by simp
    next
      case (Some b)
      then have b: "b \<in> set xs" "b \<noteq> a" using find_SomeD a(2) by metis+
      then obtain mb where mb: "ms_heap s b = Some mb" using xs(2) by auto
      have "module_find_with_handle (ms_heap ?s) (g_module_head s) (a_dlopen w) = Some (Some b)"
        using find_with_handle_list [OF seg(1), of "a_dlopen w"] Some seg(2) by simp
      then show ?thesis using open_by_handle [OF assms(1,2,4) False _ a(1) b(2) mb] by auto
    qed
  qed
qed

lemma module_open_counts:
  assumes "modules_counted s refs" "fresh_answers w"
  shows "\<exists>p s'. module_open w f s = Some (p, s') \<and> modules_counted s' (case p of None \<Rightarrow> refs | Some b \<Rightarrow> refs(b := refs b + 1))"
proof -
  obtain xs where xs: "module_list s xs" "dom (ms_heap s) = set xs" using assms(1) by (auto simp: modules_counted_def)
  have names: "\<forall>a \<in> set xs. m_name (the (ms_heap s a)) \<noteq> None"
  proof
    fix a
    assume "a \<in> set xs"
    then obtain m where "ms_heap s a = Some m" using xs(2) by auto
    then show "m_name (the (ms_heap s a)) \<noteq> None" using refs_agreeD [of "ms_heap s" refs a m] assms(1) by (simp add: modules_counted_def)
  qed
  have found: "module_find_with_name (ms_heap s) (g_module_head s) f = Some (find (\<lambda>a. m_name (the (ms_heap s a)) = Some f) xs)"
    using find_with_name_list [OF _ names] xs(1) by (simp add: module_list_def)
  have unlocked: "\<not> g_lock s" using assms(1) by (simp add: modules_counted_def)
  show ?thesis
  proof (cases "find (\<lambda>a. m_name (the (ms_heap s a)) = Some f) xs")
    case None
    have new: "\<forall>b n c k. facts (ms_heap s) b = Some (n, c, k) \<longrightarrow> n \<noteq> Some f"
      using None xs(2) by (fastforce simp: facts_def find_None_iff)
    show ?thesis
    proof (cases "a_malloc w (ms_heap s)")
      case none: None
      have "module_open w f s = Some (None, s)" using found None none unlocked by (cases s) (simp add: module_open_def lock_def unlock_def)
      then show ?thesis using assms(1) by simp
    next
      case (Some am)
      obtain a m where "am = (a, m)" by (cases am)
      then show ?thesis using open_unknown [OF assms(1) _ assms(2) _ new] Some found None by simp
    qed
  next
    case (Some b)
    then obtain m where m: "ms_heap s b = Some m" using find_SomeD [OF Some] xs(2) by auto
    then have c: "m_ref_count m = int (refs b)" using refs_agreeD [of "ms_heap s" refs b m] assms(1) by (simp add: modules_counted_def)
    let ?e = "s\<lparr>ms_heap := (ms_heap s)(b \<mapsto> m\<lparr>m_ref_count := int (refs b + 1)\<rparr>)\<rparr>"
    have "module_open w f s = Some (Some b, ?e)"
      using found Some m c unlocked by (cases s) (simp add: module_open_def lock_def unlock_def add_reference_def change_module_def add.commute)
    moreover have "modules_counted ?e (refs(b := refs b + 1))" using unlocked by (intro counted_ref [OF assms(1) m]) (simp_all add: dl_grows_def)
    ultimately show ?thesis by simp
  qed
qed

lemma module_close_counts:
  assumes "modules_counted s refs" "0 < refs a"
  shows "\<exists>s'. module_close (Some a) s = Some (int (refs a) - 1, s') \<and> modules_counted s' (refs(a := refs a - 1))"
proof (cases "refs a = 1")
  case True
  obtain m where "ms_heap s a = Some m" using held_module [OF assms] by blast
  then show ?thesis using close_last [OF assms(1) True] True by auto
next
  case False
  then show ?thesis using close_not_last [OF assms(1), of a] assms(2) by auto
qed

text \<open>If the initialisation of a library fails, the copy of its name is not given back.\<close>

lemma init_failure_leaks_name:
  assumes "a_malloc w Map.empty = Some (a, m)" "a_dlopen w \<noteq> 0" "a_strdup w" "has_init w" "a_init_result w \<noteq> 0"
  shows "\<exists>s'. module_open w f modules_start = Some (None, s') \<and> ms_heap s' = Map.empty \<and> ms_names s' = 1"
proof -
  have "module_find_with_name h None f = Some None" "module_find_with_handle h None k = Some None" for h k
    by (subst module_find_with_name.simps module_find_with_handle.simps, simp)+
  then show ?thesis using assms
    by (simp add: module_open_def modules_start_def lock_def unlock_def dl_note_def Let_def open_setup_def change_module_def open_free_handle_def
        open_free_new_def get_module_def free_module_def)
qed

text \<open>Looking up a symbol changes nothing but the error message.\<close>

lemma module_symbol_counts:
  assumes "modules_counted s refs" "0 < refs a"
  shows "\<exists>s'. module_symbol symb dup e (Some a) (Some n) s = Some (symb, s') \<and> modules_counted s' refs \<and>
    module_error s' = (if symb = 0 then (if dup then e else None) else module_error s)"
proof -
  obtain m where m: "ms_heap s a = Some m" "m_handle m \<noteq> 0" using held_module [OF assms] by blast
  let ?s = "s\<lparr>g_module_err := (if symb = 0 then (if dup then e else None) else g_module_err s)\<rparr>"
  have u: "\<not> g_lock s" using assms(1) by (simp add: modules_counted_def)
  have "module_symbol symb dup e (Some a) (Some n) s = Some (symb, ?s)"
    using m u by (cases s) (simp add: module_symbol_def get_module_def lock_def unlock_def module_set_error_def)
  moreover have "modules_counted ?s refs" using u by (intro counted_same [OF assms(1)]) (simp_all add: dl_grows_def)
  ultimately show ?thesis by (auto simp: module_error_def)
qed

section \<open>Clients\<close>

text \<open>
  Clients acquire and release references, and release only what they hold; \<open>refs\<close> is what they hold together. A release of what nobody holds does not happen.
\<close>

datatype 'w module_use = Acquire 'w | Release addr

fun clients :: "('w \<Rightarrow> 's \<Rightarrow> (ptr \<times> 's) option) \<Rightarrow> (ptr \<Rightarrow> 's \<Rightarrow> (int \<times> 's) option) \<Rightarrow> 'w module_use list \<Rightarrow> 's \<times> (addr \<Rightarrow> nat) \<Rightarrow> ('s \<times> (addr \<Rightarrow> nat)) option" where
  "clients acquire release [] (s, refs) = Some (s, refs)"
| "clients acquire release (Acquire w # uses) (s, refs) =
     do { (p, s1) \<leftarrow> acquire w s;
          clients acquire release uses (s1, case p of None \<Rightarrow> refs | Some a \<Rightarrow> refs(a := refs a + 1)) }"
| "clients acquire release (Release a # uses) (s, refs) =
     (if refs a = 0 then clients acquire release uses (s, refs)
      else do {
        (left, s1) \<leftarrow> release (Some a) s;
        if left = int (refs a) - 1 then clients acquire release uses (s1, refs(a := refs a - 1)) else None })"

fun use_allowed :: "('w \<Rightarrow> bool) \<Rightarrow> 'w module_use \<Rightarrow> bool" where
  "use_allowed P (Acquire w) \<longleftrightarrow> P w"
| "use_allowed P (Release a) \<longleftrightarrow> True"

text \<open>What the clients rely on: acquiring and releasing return, and change the references by one.\<close>

locale counted_resources =
  fixes acquire :: "'w \<Rightarrow> 's \<Rightarrow> (ptr \<times> 's) option"
    and release :: "ptr \<Rightarrow> 's \<Rightarrow> (int \<times> 's) option"
    and allowed :: "'w \<Rightarrow> bool"
    and counted :: "'s \<Rightarrow> (addr \<Rightarrow> nat) \<Rightarrow> bool"
  assumes acquire_counts:
      "counted s refs \<Longrightarrow> allowed w \<Longrightarrow> \<exists>p s'. acquire w s = Some (p, s') \<and> counted s' (case p of None \<Rightarrow> refs | Some a \<Rightarrow> refs(a := refs a + 1))"
    and release_counts: "counted s refs \<Longrightarrow> 0 < refs a \<Longrightarrow> \<exists>s'. release (Some a) s = Some (int (refs a) - 1, s') \<and> counted s' (refs(a := refs a - 1))"
begin

lemma clients_counted:
  "counted s refs \<Longrightarrow> list_all (use_allowed allowed) uses \<Longrightarrow> \<exists>s' refs'. clients acquire release uses (s, refs) = Some (s', refs') \<and> counted s' refs'"
proof (induction uses arbitrary: s refs)
  case (Cons u uses)
  show ?case
  proof (cases u)
    case (Acquire w)
    with acquire_counts [OF Cons.prems(1), of w] Cons.prems(2) obtain p s1 where
      "acquire w s = Some (p, s1)" "counted s1 (case p of None \<Rightarrow> refs | Some a \<Rightarrow> refs(a := refs a + 1))" by auto
    with Cons.IH [OF this(2)] Cons.prems(2) Acquire show ?thesis by simp
  next
    case (Release a)
    with release_counts [OF Cons.prems(1), of a] Cons.IH Cons.prems show ?thesis by (cases "refs a = 0") auto
  qed
qed simp

end

interpretation ml: counted_resources "\<lambda>(w, f). module_open w f" module_close "\<lambda>(w, f). fresh_answers w" modules_counted
  by unfold_locales (use module_open_counts module_close_counts in auto)

lemma modules_start_counted: "modules_counted modules_start (\<lambda>_. 0)"
  by (auto simp: modules_counted_def modules_start_def module_list_def refs_agree_def unique_def dl_kept_def loaded_def facts_def intro: exI [of _ "[]"])

text \<open>
  C30: However clients open and close libraries, and whatever the dynamic loader, the allocator and the libraries answer: every call returns, without use of freed memory and with
  the mutex released; a module exists exactly while a client holds it, and its counter is the number of references held; a library that
  is held is open at the loader, and none is closed more often than it was opened; and when all references were given back the list is empty.
\<close>

theorem modules_ref_counted:
  assumes "list_all (use_allowed (\<lambda>(w, f). fresh_answers w)) uses"
  shows "\<exists>s refs. clients (\<lambda>(w, f). module_open w f) module_close uses (modules_start, \<lambda>_. 0) = Some (s, refs) \<and> \<not> g_lock s \<and>
    (\<forall>a. ms_heap s a = None \<longleftrightarrow> refs a = 0) \<and>
    (\<forall>a m. ms_heap s a = Some m \<longrightarrow> m_ref_count m = int (refs a) \<and> 1 \<le> dl_balance (ms_log s) (m_handle m)) \<and>
    (\<forall>k. k \<noteq> 0 \<longrightarrow> 0 \<le> dl_balance (ms_log s) k) \<and> ((\<forall>a. refs a = 0) \<longrightarrow> g_module_head s = None)"
proof -
  obtain s refs where run: "clients (\<lambda>(w, f). module_open w f) module_close uses (modules_start, \<lambda>_. 0) = Some (s, refs)" and c: "modules_counted s refs"
    using ml.clients_counted [OF modules_start_counted assms] by blast
  have none: "ms_heap s a = None \<longleftrightarrow> refs a = 0" for a
    using c held_module [OF c, of a] by (cases "ms_heap s a") (auto simp: modules_counted_def refs_agree_def facts_def dest: spec [of _ a])
  moreover have "m_ref_count m = int (refs a) \<and> 1 \<le> dl_balance (ms_log s) (m_handle m)" if "ms_heap s a = Some m" for a m
  proof -
    have "loaded (facts (ms_heap s)) (m_handle m)" using facts_same [of "ms_heap s" a m] that by (auto simp: loaded_def)
    then show ?thesis using c refs_agreeD [of "ms_heap s" refs a m] that by (auto simp: modules_counted_def dl_kept_def)
  qed
  moreover have "g_module_head s = None" if "\<forall>a. refs a = 0"
  proof -
    have "ms_heap s = Map.empty" using none that by auto
    then show ?thesis using c by (auto simp: modules_counted_def module_list_def)
  qed
  ultimately show ?thesis using run c by (auto simp: modules_counted_def dl_kept_def)
qed

theorem modules_ref_counted_witness:
  "let m = \<lparr>m_name = None, m_ref_count = 7, m_handle = 7, m_init = 7, m_exit = 7, m_priv = 7, m_next = Some 7\<rparr>;
     w = \<lparr>a_malloc = \<lambda>h. if h 1 = None then Some (1, m) else None, a_dlopen = 5, a_dlopen_error = None, a_strdup = True, a_strdup_error = True, a_init = 4,
       a_init_error = None, a_init_result = 0, a_init_priv = 2, a_exit = 6, a_exit_error = None\<rparr>;
     uses = [Acquire (w, ''libva.so''), Acquire (w, ''libva.so''), Release 1, Release 1]
   in list_all (use_allowed (\<lambda>(w, f). fresh_answers w)) uses \<and>
     (\<exists>s refs. clients (\<lambda>(w, f). module_open w f) module_close uses (modules_start, \<lambda>_. 0) = Some (s, refs) \<and> \<not> g_lock s \<and>
      (\<forall>a. ms_heap s a = None \<longleftrightarrow> refs a = 0) \<and>
      (\<forall>a m. ms_heap s a = Some m \<longrightarrow> m_ref_count m = int (refs a) \<and> 1 \<le> dl_balance (ms_log s) (m_handle m)) \<and>
      (\<forall>k. k \<noteq> 0 \<longrightarrow> 0 \<le> dl_balance (ms_log s) k) \<and> ((\<forall>a. refs a = 0) \<longrightarrow> g_module_head s = None))"
  unfolding Let_def by (intro conjI modules_ref_counted) (simp_all add: fresh_answers_def)

end
