(* ===== verification/Omx_Audio.thy ===== *)
theory Omx_Audio
  imports Mmgr_Prelude
begin

text \<open>
  The audio headers of the OpenMAX core (\<^verbatim>\<open>wrs_omxil_core/utils/src/audio_parser.c\<close>): MP3 frame headers, and the configuration of
  MPEG-4 audio in both directions. The bit fields are those of the machine word the bytes make up; a missing table, an index out of its table,
  a division by zero, an overflow of \<^verbatim>\<open>int\<close> and the use of a null pointer are \<^term>\<open>None\<close>. Log output is left out.
\<close>

section \<open>Bit fields\<close>

definition bits_at :: "nat \<Rightarrow> nat \<Rightarrow> 'w::len word \<Rightarrow> nat" where
  "bits_at lo n w = unat (take_bit n (drop_bit lo w))"

definition set_bits_at :: "nat \<Rightarrow> nat \<Rightarrow> int \<Rightarrow> 'w::len word \<Rightarrow> 'w word" where
  "set_bits_at lo n v w = (w AND NOT (push_bit lo (mask n))) OR push_bit lo (take_bit n (word_of_int v))"

lemma bits_at_less: "n < LENGTH('w) \<Longrightarrow> bits_at lo n (w :: 'w::len word) < 2 ^ n"
  by (simp add: bits_at_def unsigned_take_bit_eq take_bit_nat_less_exp)

lemma bits_at_set_same:
  "lo + n \<le> LENGTH('w) \<Longrightarrow> bits_at lo n (set_bits_at lo n v (w :: 'w::len word)) = unat (take_bit n (word_of_int v :: 'w word))"
proof -
  assume l: "lo + n \<le> LENGTH('w)"
  have "take_bit n (drop_bit lo (set_bits_at lo n v w)) = take_bit n (word_of_int v :: 'w word)"
    using l by (auto intro!: bit_eqI simp: set_bits_at_def bit_simps)
  then show ?thesis by (simp add: bits_at_def)
qed

lemma bits_at_set_other:
  "lo + n \<le> lo' \<or> lo' + n' \<le> lo \<Longrightarrow> bits_at lo n (set_bits_at lo' n' v (w :: 'w::len word)) = bits_at lo n w"
proof -
  assume l: "lo + n \<le> lo' \<or> lo' + n' \<le> lo"
  have "take_bit n (drop_bit lo (set_bits_at lo' n' v w)) = take_bit n (drop_bit lo w)"
    using l by (auto intro!: bit_eqI simp: set_bits_at_def bit_simps dest: bit_imp_le_length)
  then show ?thesis by (simp add: bits_at_def)
qed

lemma unat_take_bit_of_int:
  assumes "0 \<le> v" "v < 2 ^ n" "n \<le> LENGTH('w)"
  shows "unat (take_bit n (word_of_int v :: 'w::len word)) = nat v"
proof -
  have v: "v < 2 ^ LENGTH('w)" using assms(2,3) by (meson order_less_le_trans one_le_numeral power_increasing)
  have "uint (take_bit n (word_of_int v :: 'w word)) = take_bit n (take_bit LENGTH('w) v)"
    by (simp add: unsigned_take_bit_eq unsigned_of_int)
  also have "\<dots> = v" using assms v by (simp add: take_bit_int_eq_self)
  finally show ?thesis by (metis unat_eq_nat_uint)
qed

section \<open>MP3\<close>

definition mp3_frame_header_s :: "byte \<Rightarrow> byte \<Rightarrow> byte \<Rightarrow> byte \<Rightarrow> 32 word" where
  "mp3_frame_header_s h0 h1 h2 h3 = push_bit 24 (ucast h3) OR push_bit 16 (ucast h2) OR push_bit 8 (ucast h1) OR ucast h0"

abbreviation padding_bit :: "32 word \<Rightarrow> nat" where "padding_bit \<equiv> bits_at 9 1"
abbreviation mode_extension_bits :: "32 word \<Rightarrow> nat" where "mode_extension_bits \<equiv> bits_at 4 2"
abbreviation channel_mode :: "32 word \<Rightarrow> nat" where "channel_mode \<equiv> bits_at 6 2"
abbreviation samplingrate_index :: "32 word \<Rightarrow> nat" where "samplingrate_index \<equiv> bits_at 10 2"
abbreviation bitrate_index :: "32 word \<Rightarrow> nat" where "bitrate_index \<equiv> bits_at 12 4"
abbreviation protected :: "32 word \<Rightarrow> nat" where "protected \<equiv> bits_at 16 1"
abbreviation layer_index :: "32 word \<Rightarrow> nat" where "layer_index \<equiv> bits_at 17 2"
abbreviation version_index :: "32 word \<Rightarrow> nat" where "version_index \<equiv> bits_at 19 2"
abbreviation sync :: "32 word \<Rightarrow> nat" where "sync \<equiv> bits_at 21 11"

definition sampling_rate_table_version_1 :: "int list" where "sampling_rate_table_version_1 = [44100, 48000, 32000, 0]"
definition sampling_rate_table_version_2 :: "int list" where "sampling_rate_table_version_2 = [22050, 24000, 16000, 0]"
definition sampling_rate_table_version_25 :: "int list" where "sampling_rate_table_version_25 = [11025, 12000, 8000, 0]"

definition sampling_rate_table :: "int list option list" where
  "sampling_rate_table = [Some sampling_rate_table_version_25, None, Some sampling_rate_table_version_2, Some sampling_rate_table_version_1]"

definition bitrate_table_version_1_layer_1 :: "int list" where
  "bitrate_table_version_1_layer_1 = [0, 32, 64, 96, 128, 160, 192, 224, 256, 288, 320, 352, 384, 416, 448, 0]"
definition bitrate_table_version_1_layer_2 :: "int list" where
  "bitrate_table_version_1_layer_2 = [0, 32, 48, 56, 64, 80, 96, 112, 128, 160, 192, 224, 256, 320, 384, 0]"
definition bitrate_table_version_1_layer_3 :: "int list" where
  "bitrate_table_version_1_layer_3 = [0, 32, 40, 48, 56, 64, 80, 96, 112, 128, 160, 192, 224, 256, 320, 0]"
definition bitrate_table_version_2_25_layer_1 :: "int list" where
  "bitrate_table_version_2_25_layer_1 = [0, 32, 48, 56, 64, 80, 96, 112, 128, 144, 160, 176, 192, 224, 256, 0]"
definition bitrate_table_version_2_25_layer_2_3 :: "int list" where
  "bitrate_table_version_2_25_layer_2_3 = [0, 8, 16, 24, 32, 40, 48, 56, 64, 80, 96, 112, 128, 144, 160, 0]"

definition bitrate_table_version_1 :: "int list option list" where
  "bitrate_table_version_1 = [None, Some bitrate_table_version_1_layer_3, Some bitrate_table_version_1_layer_2, Some bitrate_table_version_1_layer_1]"

definition bitrate_table_version_2_25 :: "int list option list" where
  "bitrate_table_version_2_25 =
     [None, Some bitrate_table_version_2_25_layer_2_3, Some bitrate_table_version_2_25_layer_2_3, Some bitrate_table_version_2_25_layer_1]"

definition bitrate_table :: "int list option list option list" where
  "bitrate_table = [Some bitrate_table_version_2_25, None, Some bitrate_table_version_2_25, Some bitrate_table_version_1]"

definition one_slot_length_table :: "int list" where "one_slot_length_table = [-1, 1, 1, 4]"
definition bitrate_coeff_table :: "int list" where "bitrate_coeff_table = [-1, 144, 144, 12]"

definition entry_of :: "'a list \<Rightarrow> nat \<Rightarrow> 'a option" where
  "entry_of xs i = (if i < length xs then Some (xs ! i) else None)"

text \<open>A result of \<^verbatim>\<open>int\<close> arithmetic.\<close>

definition as_int :: "int \<Rightarrow> int option" where
  "as_int v = (if - (2 ^ 31) \<le> v \<and> v < 2 ^ 31 then Some v else None)"

definition int_div :: "int \<Rightarrow> int \<Rightarrow> int option" where
  "int_div a b = (if b = 0 then None else as_int (tdiv a b))"

definition mp3_calculate_frame_length :: "int \<Rightarrow> int \<Rightarrow> int \<Rightarrow> nat \<Rightarrow> int option" where
  "mp3_calculate_frame_length bitrate samplingrate layer extraslot =
     (if layer < 1 \<or> layer > 3 then Some (- 1)
      else do {
        one_slot_length \<leftarrow> (if extraslot \<noteq> 0 then entry_of one_slot_length_table (nat layer) else Some 0);
        coeff \<leftarrow> entry_of bitrate_coeff_table (nat layer);
        a \<leftarrow> as_int (coeff * bitrate);
        b \<leftarrow> as_int (a * 1000);
        c \<leftarrow> int_div b samplingrate;
        frame_length \<leftarrow> as_int (c + one_slot_length);
        if layer = 3 then as_int (frame_length * 4) else Some frame_length })"

definition mp3_calculate_frame_duration :: "int \<Rightarrow> int \<Rightarrow> int \<Rightarrow> int option" where
  "mp3_calculate_frame_duration version layer frequency = int_div (1152 * 1000) frequency"

record mp3_info =
  mp_version :: int
  mp_layer :: int
  mp_crc :: int
  mp_bitrate :: int
  mp_frequency :: int
  mp_channel :: int
  mp_mode_extension :: int
  mp_frame_length :: int
  mp_frame_duration :: int

text \<open>
  The buffer is its first four bytes. Of the result pointers seven are compared with NULL (\<open>outs\<close>) and the two of the frame length and duration are not
  (\<open>frame_outs\<close>). The value is -1 with nothing, or 0 with what is stored.
\<close>

definition mp3_header_parse :: "(byte \<times> byte \<times> byte \<times> byte) option \<Rightarrow> bool \<Rightarrow> bool \<Rightarrow> (int \<times> mp3_info option) option" where
  "mp3_header_parse buffer outs frame_outs =
     (case buffer of
        None \<Rightarrow> Some (- 1, None)
      | Some (p0, p1, p2, p3) \<Rightarrow>
          if \<not> outs then Some (- 1, None)
          else (let header = mp3_frame_header_s p3 p2 p1 p0 in
            if sync header \<noteq> 0x7ff then Some (- 1, None)
            else if version_index header > 3 \<or> version_index header = 1 then Some (- 1, None)
            else if layer_index header > 3 \<or> layer_index header < 1 then Some (- 1, None)
            else if bitrate_index header > 14 then Some (- 1, None)
            else if samplingrate_index header > 2 then Some (- 1, None)
            else do {
              psampling_rate_table \<leftarrow> entry_of sampling_rate_table (version_index header);
              ppbitrate_table \<leftarrow> entry_of bitrate_table (version_index header);
              rows \<leftarrow> ppbitrate_table;
              pbitrate_table \<leftarrow> entry_of rows (layer_index header);
              bitrates \<leftarrow> pbitrate_table;
              bitrate \<leftarrow> entry_of bitrates (bitrate_index header);
              rates \<leftarrow> psampling_rate_table;
              frequency \<leftarrow> entry_of rates (samplingrate_index header);
              frame_length \<leftarrow> mp3_calculate_frame_length bitrate frequency (int (layer_index header)) (padding_bit header);
              frame_duration \<leftarrow> mp3_calculate_frame_duration (int (version_index header)) (int (layer_index header)) frequency;
              if \<not> frame_outs then None
              else Some (0, Some \<lparr>mp_version = int (version_index header), mp_layer = int (layer_index header), mp_crc = int (protected header),
                mp_bitrate = bitrate, mp_frequency = frequency, mp_channel = int (channel_mode header),
                mp_mode_extension = int (mode_extension_bits header), mp_frame_length = frame_length, mp_frame_duration = frame_duration\<rparr>) }))"

section \<open>MPEG-4\<close>

definition audio_specific_config_s :: "byte \<Rightarrow> byte \<Rightarrow> 16 word" where
  "audio_specific_config_s h0 h1 = push_bit 8 (ucast h1) OR ucast h0"

definition frequency_table :: "int list" where
  "frequency_table = [96000, 88200, 64000, 48000, 44100, 32000, 24000, 22050, 16000, 12000, 11025, 8000, 7350, 0, 0, 0]"

definition audio_specific_config_parse :: "(byte \<times> byte) option \<Rightarrow> bool \<Rightarrow> (int \<times> (int \<times> int \<times> int) option) option" where
  "audio_specific_config_parse buffer outs =
     (case buffer of
        None \<Rightarrow> Some (- 1, None)
      | Some (p0, p1) \<Rightarrow>
          if \<not> outs then Some (- 1, None)
          else do {
            let config = audio_specific_config_s p1 p0;
            frequency \<leftarrow> entry_of frequency_table (bits_at 7 4 config);
            Some (0, Some (int (bits_at 11 5 config), frequency, int (bits_at 3 4 config))) })"

text \<open>The loop over the table: the index of the first entry that is the frequency, or 16.\<close>

fun frequency_loop :: "int list \<Rightarrow> nat \<Rightarrow> int \<Rightarrow> nat" where
  "frequency_loop [] i frequency = i"
| "frequency_loop (f # fs) i frequency = (if f = frequency then i else frequency_loop fs (i + 1) frequency)"

text \<open>\<open>junk\<close> is what the local variable held: the three flags of the structure are never set. The bytes that are stored are the second part of the result.\<close>

definition audio_specific_config_bitcoding :: "16 word \<Rightarrow> bool \<Rightarrow> int \<Rightarrow> int \<Rightarrow> int \<Rightarrow> int \<times> (byte \<times> byte) option" where
  "audio_specific_config_bitcoding junk buffer aot frequency channel =
     (if \<not> buffer then (- 1, None)
      else let i = frequency_loop frequency_table 0 frequency in
        if i > 12 then (- 1, None)
        else let config = set_bits_at 3 4 channel (set_bits_at 7 4 (int i) (set_bits_at 11 5 aot junk))
          in (0, Some (ucast (drop_bit 8 config), ucast config)))"

section \<open>MP3 headers are parsed safely\<close>

text \<open>The tables, entry by entry, for every header that is accepted.\<close>

definition mp3_sizes :: "nat \<Rightarrow> nat \<Rightarrow> nat \<Rightarrow> nat \<Rightarrow> nat \<Rightarrow> (int \<times> int \<times> int \<times> int) option" where
  "mp3_sizes v l b r pad =
     do { rows \<leftarrow> bitrate_table ! v; bitrates \<leftarrow> rows ! l; rates \<leftarrow> sampling_rate_table ! v;
          n \<leftarrow> mp3_calculate_frame_length (bitrates ! b) (rates ! r) (int l) pad;
          d \<leftarrow> mp3_calculate_frame_duration (int v) (int l) (rates ! r);
          Some (bitrates ! b, rates ! r, n, d) }"

fun sizes_fine :: "(int \<times> int \<times> int \<times> int) option \<Rightarrow> bool" where
  "sizes_fine None \<longleftrightarrow> False"
| "sizes_fine (Some (bitrate, frequency, n, d)) \<longleftrightarrow>
     0 \<le> bitrate \<and> bitrate \<le> 448 \<and> 8000 \<le> frequency \<and> frequency \<le> 48000 \<and> 0 \<le> n \<and> n \<le> 2881 \<and> 24 \<le> d \<and> d \<le> 144"

lemmas mp3_tables = bitrate_table_def bitrate_table_version_1_def bitrate_table_version_2_25_def bitrate_table_version_1_layer_1_def
  bitrate_table_version_1_layer_2_def bitrate_table_version_1_layer_3_def bitrate_table_version_2_25_layer_1_def
  bitrate_table_version_2_25_layer_2_3_def sampling_rate_table_def sampling_rate_table_version_1_def sampling_rate_table_version_2_def
  sampling_rate_table_version_25_def one_slot_length_table_def bitrate_coeff_table_def

lemma mp3_sizes_checked:
  "list_all (\<lambda>v. list_all (\<lambda>l. list_all (\<lambda>b. list_all (\<lambda>r. list_all (\<lambda>p. sizes_fine (mp3_sizes v l b r p)) [0, 1]) [0, 1, 2]) [0..<15]) [1, 2, 3]) [0, 2, 3]"
  by code_simp

definition accepted :: "32 word \<Rightarrow> bool" where
  "accepted h \<longleftrightarrow> sync h = 0x7ff \<and> version_index h \<noteq> 1 \<and> layer_index h \<noteq> 0 \<and> bitrate_index h \<noteq> 15 \<and> samplingrate_index h \<noteq> 3"

lemma header_fields:
  "version_index h < 4" "layer_index h < 4" "bitrate_index h < 16" "samplingrate_index h < 4" "padding_bit h < 2"
  using bits_at_less [of 2 19 h] bits_at_less [of 2 17 h] bits_at_less [of 4 12 h] bits_at_less [of 2 10 h] bits_at_less [of 1 9 h] by simp_all

lemma sizes_of_accepted:
  assumes "accepted h"
  shows "sizes_fine (mp3_sizes (version_index h) (layer_index h) (bitrate_index h) (samplingrate_index h) (padding_bit h))"
proof -
  have "version_index h \<in> set [0, 2, 3]" "layer_index h \<in> set [1, 2, 3]" "bitrate_index h \<in> set [0..<15]" "samplingrate_index h \<in> set [0, 1, 2]"
    "padding_bit h \<in> set [0, 1]" using assms header_fields [of h] by (auto simp: accepted_def)
  then show ?thesis using mp3_sizes_checked unfolding list_all_iff by blast
qed

text \<open>The tables the parser reaches have the entries it reads.\<close>

lemma tables_reached:
  assumes "v < 4" "v \<noteq> 1" "l < 4" "l \<noteq> 0" "b < 16" "r < 4"
  obtains rows bitrates rates where "entry_of bitrate_table v = Some (Some rows)" "entry_of rows l = Some (Some bitrates)"
    "entry_of sampling_rate_table v = Some (Some rates)" "entry_of bitrates b = Some (bitrates ! b)" "entry_of rates r = Some (rates ! r)"
    "bitrate_table ! v = Some rows" "rows ! l = Some bitrates" "sampling_rate_table ! v = Some rates"
proof -
  have "v \<in> {0, 2, 3}" "l \<in> {1, 2, 3}" using assms by auto
  then show ?thesis using assms that by (auto simp: entry_of_def mp3_tables)
qed

lemma mp3_parse_accepted:
  assumes "accepted (mp3_frame_header_s p3 p2 p1 p0)"
  shows "\<exists>i. mp3_header_parse (Some (p0, p1, p2, p3)) True True = Some (0, Some i) \<and>
    mp3_sizes (version_index (mp3_frame_header_s p3 p2 p1 p0)) (layer_index (mp3_frame_header_s p3 p2 p1 p0))
      (bitrate_index (mp3_frame_header_s p3 p2 p1 p0)) (samplingrate_index (mp3_frame_header_s p3 p2 p1 p0)) (padding_bit (mp3_frame_header_s p3 p2 p1 p0))
    = Some (mp_bitrate i, mp_frequency i, mp_frame_length i, mp_frame_duration i)"
proof -
  let ?h = "mp3_frame_header_s p3 p2 p1 p0"
  note a = assms [unfolded accepted_def]
  note f = header_fields [of ?h]
  obtain rows bitrates rates where t: "entry_of bitrate_table (version_index ?h) = Some (Some rows)" "entry_of rows (layer_index ?h) = Some (Some bitrates)"
    "entry_of sampling_rate_table (version_index ?h) = Some (Some rates)" "entry_of bitrates (bitrate_index ?h) = Some (bitrates ! bitrate_index ?h)"
    "entry_of rates (samplingrate_index ?h) = Some (rates ! samplingrate_index ?h)"
    "bitrate_table ! version_index ?h = Some rows" "rows ! layer_index ?h = Some bitrates" "sampling_rate_table ! version_index ?h = Some rates"
    using tables_reached [of "version_index ?h" "layer_index ?h" "bitrate_index ?h" "samplingrate_index ?h"] a f by blast
  obtain n d where nd: "mp3_calculate_frame_length (bitrates ! bitrate_index ?h) (rates ! samplingrate_index ?h) (int (layer_index ?h)) (padding_bit ?h) = Some n"
    "mp3_calculate_frame_duration (int (version_index ?h)) (int (layer_index ?h)) (rates ! samplingrate_index ?h) = Some d"
    using sizes_of_accepted [OF assms] t(6-8) by (cases "mp3_sizes (version_index ?h) (layer_index ?h) (bitrate_index ?h) (samplingrate_index ?h) (padding_bit ?h)")
      (auto simp: mp3_sizes_def split: bind_splits)
  have g: "\<not> version_index ?h > 3" "\<not> layer_index ?h > 3" "\<not> layer_index ?h < 1" "\<not> bitrate_index ?h > 14" "\<not> samplingrate_index ?h > 2" using a f by auto
  show ?thesis using a g t nd by (simp add: mp3_header_parse_def mp3_sizes_def Let_def)
qed

text \<open>
  C33: An MP3 frame header of any four bytes is parsed without a fault: no table is missed or read out of its bounds, nothing is divided by zero and no \<^verbatim>\<open>int\<close>
  overflows. It is accepted exactly if it has the sync pattern and no reserved version, layer, bit rate or sampling rate (the emphasis is not looked at); then the bit rate is at most 448,
  the sampling rate between 8000 and 48000, the frame between 0 and 2881 bytes long and between 24 and 144 milliseconds.
\<close>

theorem mp3_header_safe:
  "\<exists>ret out. mp3_header_parse (Some (p0, p1, p2, p3)) True True = Some (ret, out) \<and>
    (if accepted (mp3_frame_header_s p3 p2 p1 p0)
     then ret = 0 \<and> (\<exists>i. out = Some i \<and> sizes_fine (Some (mp_bitrate i, mp_frequency i, mp_frame_length i, mp_frame_duration i)))
     else ret = - 1 \<and> out = None)"
proof (cases "accepted (mp3_frame_header_s p3 p2 p1 p0)")
  case True
  obtain i where "mp3_header_parse (Some (p0, p1, p2, p3)) True True = Some (0, Some i)"
    "sizes_fine (Some (mp_bitrate i, mp_frequency i, mp_frame_length i, mp_frame_duration i))"
    using mp3_parse_accepted [OF True] sizes_of_accepted [OF True] by metis
  then show ?thesis using True by simp
next
  case False
  then show ?thesis using header_fields [of "mp3_frame_header_s p3 p2 p1 p0"] by (auto simp: mp3_header_parse_def accepted_def Let_def)
qed

text \<open>The length of a padded frame of the first layer: the table has one slot of four bytes, but the frame becomes sixteen bytes longer.\<close>

lemma layer_1_padding: "mp3_calculate_frame_length 384 48000 3 0 = Some 384" "mp3_calculate_frame_length 384 48000 3 1 = Some 400"
  by code_simp+

section \<open>The configuration comes back\<close>

lemma config_bytes: "audio_specific_config_s (ucast w) (ucast (drop_bit 8 w)) = (w :: 16 word)"
  by (rule bit_eqI) (auto simp: audio_specific_config_s_def bit_simps)

lemma frequency_loop_known:
  assumes "f \<in> set (take 13 frequency_table)"
  shows "frequency_loop frequency_table 0 f \<le> 12" "frequency_table ! frequency_loop frequency_table 0 f = f"
  using assms by (auto simp: frequency_table_def)

lemma frequency_loop_unknown: "f \<notin> set (take 13 frequency_table) \<Longrightarrow> 12 < frequency_loop frequency_table 0 f"
  by (simp add: frequency_table_def)

text \<open>
  C32: What \<^verbatim>\<open>audio_specific_config_bitcoding\<close> stores, \<^verbatim>\<open>audio_specific_config_parse\<close> reads back: for an object type below 32, a channel configuration below 16 and one
  of the thirteen frequencies of the table the two bytes give exactly these values, whatever the flags that are never set happened to hold; with any other frequency it fails and
  stores nothing.
\<close>

theorem audio_config_round_trip:
  assumes "0 \<le> aot" "aot < 32" "0 \<le> channel" "channel < 16"
  shows "if frequency \<in> set (take 13 frequency_table)
    then \<exists>b0 b1. audio_specific_config_bitcoding junk True aot frequency channel = (0, Some (b0, b1)) \<and>
      audio_specific_config_parse (Some (b0, b1)) True = Some (0, Some (aot, frequency, channel))
    else audio_specific_config_bitcoding junk True aot frequency channel = (- 1, None)"
proof (cases "frequency \<in> set (take 13 frequency_table)")
  case True
  let ?i = "frequency_loop frequency_table 0 frequency"
  let ?c = "set_bits_at 3 4 channel (set_bits_at 7 4 (int ?i) (set_bits_at 11 5 aot junk))"
  note i = frequency_loop_known [OF True]
  have fields: "bits_at 11 5 ?c = nat aot" "bits_at 7 4 ?c = ?i" "bits_at 3 4 ?c = nat channel"
    using assms i(1) unat_take_bit_of_int [of aot 5, where 'w = 16] unat_take_bit_of_int [of "int ?i" 4, where 'w = 16]
      unat_take_bit_of_int [of channel 4, where 'w = 16]
    by (simp_all add: bits_at_set_same bits_at_set_other del: of_int_of_nat_eq)
  have "entry_of frequency_table ?i = Some frequency" using i by (simp add: entry_of_def) (simp add: frequency_table_def)
  then have "audio_specific_config_parse (Some (ucast (drop_bit 8 ?c), ucast ?c)) True = Some (0, Some (aot, frequency, channel))"
    using fields assms by (simp add: audio_specific_config_parse_def config_bytes Let_def)
  moreover have "audio_specific_config_bitcoding junk True aot frequency channel = (0, Some (ucast (drop_bit 8 ?c), ucast ?c))"
    using i(1) by (simp add: audio_specific_config_bitcoding_def Let_def)
  ultimately show ?thesis using True by simp
next
  case False
  then show ?thesis using frequency_loop_unknown by (simp add: audio_specific_config_bitcoding_def Let_def)
qed

theorem audio_config_round_trip_witness:
  "(0 :: int) \<le> 2 \<and> (2 :: int) < 32 \<and> (0 :: int) \<le> 2 \<and> (2 :: int) < 16 \<and>
   (\<exists>b0 b1. audio_specific_config_bitcoding 5 True 2 44100 2 = (0, Some (b0, b1)) \<and>
      audio_specific_config_parse (Some (b0, b1)) True = Some (0, Some (2, 44100, 2)))"
proof -
  have "44100 \<in> set (take 13 frequency_table)" by (simp add: frequency_table_def)
  then show ?thesis using audio_config_round_trip [of 2 2 44100 5] by simp
qed

end
