(* ===== verification/Spec2Isabelle.thy ===== *)
theory Spec2Isabelle
  imports Daemon_Requests Daemon_Deadlines Daemon_Start End_To_End Modem_Dialogue Fg_Restore Omx_Queue Omx_Module Omx_Audio
begin

text \<open>
  A verification development for the modem manager (\<^verbatim>\<open>src/mmgr\<close>), the fuel gauge helper (\<^verbatim>\<open>src/em_common/fg_config\<close>) and the C library
  of the OpenMAX core (\<^verbatim>\<open>src/wrs_omxil_core/utils\<close>) of the Intel Android hardware tree.

  \<^bold>\<open>The programs.\<close> The modem manager is a daemon that owns the cellular modem. It starts,
  flashes, resets and stops the modem through a kernel driver; client processes connect to its local socket, ask for the
  modem, are told about its state and are asked before it is taken away. One event loop over \<^verbatim>\<open>epoll\<close> serves
  the sockets, the driver, the USB bus, the AT channel, the secure channel, the pipes of two worker threads and the timers.
  The fuel gauge helper runs at boot and at shutdown: it chooses and checks the battery table for the fuel gauge driver and saves what
  the driver has learnt. The library of the OpenMAX core gives the media components their lists, queues, loadable libraries and audio headers.

  \<^bold>\<open>How the code is modelled.\<close> Every operation is a function from the state it works on to
  its result and the new state. A C struct is a \<^verbatim>\<open>record\<close>, an enumeration a \<^verbatim>\<open>datatype\<close>, a mask a 32-bit word
  (sizes are those of the 32-bit targets), a handle the record it points to or an index into the table that owns it, a static
  variable a field. Result codes are values of \<open>e_mmgr_errors\<close>; an operation that can abort
  (\<^verbatim>\<open>ASSERT\<close>, an access out of bounds, the use of a null pointer, \<^verbatim>\<open>exit\<close>) or loop for ever returns an
  \<^verbatim>\<open>option\<close> whose None is that outcome. What lies outside the repository
  (kernel, C library, Android services, modem driver, loaded libraries, platform configuration) is the
  parameter \<open>env\<close>: each call is recorded in the history, newest first, and answered by a function of the whole history. So the
  properties hold for every behaviour of the outside world, and what they need of it is a named hypothesis, mostly
  \<open>alloc_ok\<close> (allocations succeed). The work of a thread is done where it is joined; a delayed thread is only recorded.

  \<^bold>\<open>The theories\<close>, each with the sources it models:
  \<^item> \<open>Mmgr_Prelude\<close>, \<open>Mmgr_Types\<close>, \<open>Mmgr_World\<close>, \<open>C_Strings\<close>: shared lemmas; the enumerations and structures of \<^verbatim>\<open>inc/\<close>,
    \<^verbatim>\<open>libutils/errors.h\<close> and \<^verbatim>\<open>core/states.h\<close>; the outside world; the string
    functions of C the sources use (decimal numbers, \<^verbatim>\<open>snprintf\<close>, \<^verbatim>\<open>strstr\<close>), with the round trip of numbers.
  \<^item> \<open>Msg_Format\<close>, \<open>Msg_Events\<close>, \<open>Msg_Client\<close>, \<open>Msg_Roundtrip\<close>: \<^verbatim>\<open>libcnx\<close>, the encoders
    of \<^verbatim>\<open>core/data_to_msg.c\<close>, the encoders and decoders of \<^verbatim>\<open>libclients/c\<close>, and that what one side encodes the
    other side decodes; the functions that free a decoded event. The locale \<open>wire_codec\<close> states the law once for integers and sizes, \<open>string_array\<close> for the two
    kinds of variable-length arrays.
  \<^item> \<open>Clients\<close>: \<^verbatim>\<open>core/client.c\<close>. The table refines a finite map from descriptors to records (locale \<open>fd_table\<close>); broadcasts
    reach exactly the subscribers; the acknowledgement checks are equivalent to quantified statements.
  \<^item> \<open>Recovery\<close>: \<^verbatim>\<open>core/reset_escalation.c\<close>. The escalation ladder: the walk over the levels ends (locale \<open>ladder\<close>), and
    the level after n recoveries is the configured one; the reboot counter survives a restart.
  \<^item> \<open>Timers\<close>: \<^verbatim>\<open>core/timer_events.c\<close> (locale \<open>timer_service\<close>).
  \<^item> \<open>Tty\<close>, \<open>Bus_Events\<close>, \<open>Link\<close>, \<open>Mcd\<close>, \<open>Core_Dump\<close>, \<open>Flash\<close>, \<open>Security\<close>: \<^verbatim>\<open>libutils\<close> (terminals,
    reading and writing files, properties, keys), \<^verbatim>\<open>core/bus_events.c\<close>, \<^verbatim>\<open>core/link\<close>, \<^verbatim>\<open>core/mdm_mcd.c\<close>, \<^verbatim>\<open>core/core_dump.c\<close>,
    \<^verbatim>\<open>core/mdm_flash.c\<close>, \<^verbatim>\<open>core/security.c\<close>. The locale \<open>file_switch\<close> is the contract of the link operations,
    \<open>worker\<close> the one of the two modules that own a thread.
  \<^item> \<open>Files\<close>, \<open>Mdm_Fw\<close>, \<open>Mdm_Mup\<close>: \<^verbatim>\<open>libutils/file.c\<close> and \<^verbatim>\<open>folder.c\<close>, \<^verbatim>\<open>libutils/mdm_fw.c\<close>,
    \<^verbatim>\<open>core/mdm_mup.c\<close>. A directory is a finite tree the environment shows when it is opened. The search finds every file once;
    the firmware is chosen only if it is the only one; two instances do not share files.
  \<^item> \<open>At\<close>, \<open>Modem_Info\<close>, \<open>Modem_Dialogue\<close>: \<^verbatim>\<open>libutils/at.c\<close>, \<^verbatim>\<open>core/mux.c\<close>, \<^verbatim>\<open>core/modem_info.c\<close>: AT
    commands and their retries, the wake-up question, the reader of the core dump log and the switch to the multiplexer; what a modem
    reported as multiplexed has acknowledged, and that an answer means the same however it is cut into reads.
  \<^item> \<open>Java_Intent\<close>: \<^verbatim>\<open>core/java_intent.c\<close>, the shell commands that inform Android.
  \<^item> \<open>Mmgr_Context\<close>: the context \<open>mmgr_data_t\<close> (\<^verbatim>\<open>core/events_manager.h\<close>) with the operations the handlers share, and
    \<^verbatim>\<open>core/mdm_dlc.c\<close>.
  \<^item> \<open>Modem_Events\<close>, \<open>Client_Events\<close>, \<open>Events_Manager\<close>, \<open>Modem_Manager\<close>: \<^verbatim>\<open>core/modem_events.c\<close>,
    \<^verbatim>\<open>core/client_events.c\<close>, \<^verbatim>\<open>core/events_manager.c\<close>, \<^verbatim>\<open>core/modem_manager.c\<close>: every handler, the table of handlers, the
    event loop and the start. \<open>running\<close> is the reachability relation of the daemon.
  \<^item> \<open>Daemon_Inv\<close>: every handler keeps the invariant of the daemon. The locale \<open>kept\<close> holds the composition rules, proved
    once and used for three invariants.
  \<^item> \<open>Daemon_Behaviour\<close>, \<open>Daemon_Requests\<close>, \<open>Daemon_Deadlines\<close>: the dialogue of reset and shutdown across components:
    clients are asked first, the driver is commanded exactly once, a silent or dead client
    holds up nothing, a modem that never answers is reset, an unregistered client is refused, the loop ends only when waiting fails.
  \<^item> \<open>Daemon_Run\<close>: a concrete run from the start to the middle of a cold reset, which shows that the hypotheses of the
    properties of the running daemon can hold.
  \<^item> \<open>Daemon_Start\<close>: the process around the daemon (\<^verbatim>\<open>core/modem_manager.c\<close>): the command line, the signal handlers and the disposal at exit;
    whatever ends the process, every descriptor of the context is closed, the wake lock released and the libraries unloaded.
  \<^item> \<open>Cli_Lib\<close>, \<open>Cli_Behaviour\<close>, \<open>Cli_Handle\<close>: the client library (\<^verbatim>\<open>libclients/c/interface.c\<close>, \<^verbatim>\<open>utils.c\<close>): handles,
    requests and their retries, the reader thread and its reconnection. The reader thread runs while the application thread
    blocks, for a number of rounds the environment chooses; the locale \<open>reader\<close> states what a waiting request needs of
    it. Requests end after a bounded number of attempts of bounded length (\<open>exchange_run\<close> lists them), the lock follows the daemon's answers, a callback cannot wait
    for itself, and \<open>client_handle\<close> is the reachability relation of a handle, with its invariant. \<open>stays\<close> is what every function keeps, proved from the
    bottom up and used for the invariant, the bound and the balance of memory.
  \<^item> \<open>Cli_Memory\<close>: the memory behind messages and events: the locale \<open>event_memory\<close> is the contract between a decoder and the function that frees what
    it allocated, interpreted for each of the eight pairs of the library. With it \<open>Cli_Handle\<close> shows that the library as a whole leaks nothing.
  \<^item> \<open>End_To_End\<close>: the library and the daemon together: the messages of a successful registration, read by any daemon,
    register this client with its name and its events.
  \<^item> \<open>Fg_Config\<close>, \<open>Fg_Restore\<close>: the whole of \<^verbatim>\<open>em_common/fg_config/fg_conf_helper.c\<close>, over a store of files whose system calls can fail
    or move only a part of the bytes. The locale \<open>packed\<close> is the contract of the packed structures (a number, a table, a
    secondary file). What is saved is restored; only checked data reach the driver; at the first start the
    driver gets the first table that fits; and what is written for the other kind of gauge.
  \<^item> \<open>Omx_List\<close>, \<open>Omx_Queue\<close>: \<^verbatim>\<open>wrs_omxil_core/utils/src/list.c\<close> and \<^verbatim>\<open>queue.c\<close>, on an explicit heap of linked nodes whose addresses
    \<^verbatim>\<open>malloc\<close> chooses: the code changes shared nodes in place, so aliasing and the use of freed nodes are part of the model. \<open>chain\<close> says that a sequence of
    nodes is a list; deletions are those of sequences and free exactly what they take out; the locale \<open>deque\<close> is the contract of a double-ended queue, which any sequence of
    calls of the queue keeps.
  \<^item> \<open>Omx_Module\<close>: \<^verbatim>\<open>utils/src/module.c\<close>, reference-counted libraries in a singly linked list on the heap. What the loader and the libraries answer is an
    argument of each call; the locale \<open>counted_resources\<close> is the contract of acquiring and releasing, from which the count of every client program follows.
  \<^item> \<open>Omx_Audio\<close>: \<^verbatim>\<open>utils/src/audio_parser.c\<close>, bit fields of machine words: MP3 headers are parsed without faults and within bounds, and the configuration of MPEG-4
    audio is read back as it was written.

  \<^bold>\<open>Loops.\<close> Loops bounded by data are structural recursion, or have a measure (the lines of an answer, the bytes left to
  write). The walk down the escalation ladder, the repetition of \<^verbatim>\<open>epoll_wait\<close> and the event loop, the retries of a client's
  request, its reconnection and its reader thread, and the loops that wait for the modem (an AT answer, the self-reset log, the wake-up
  question, the core dump log, the sanity channel), and those over linked nodes, are partial functions into \<^verbatim>\<open>option\<close>. The walk and the retries are proved to
  return, and so are the loops over linked nodes, on every list without a cycle; the wake-up question returns if the modem falls silent and the clock runs; with a silent modem the whole switch to the
  multiplexer returns; and of the event loop it is proved when it does.

  \<^bold>\<open>Not modelled.\<close> The matching of regular expressions, MD5, base64 and the loaded libraries (modem upload, core dump reader,
  security, USB), which are answers of the environment; functions that only free memory, except those of the client library; log output; a signal
  while the modules are being created; the Java library and the test tools. The other programs of \<^verbatim>\<open>em_common\<close> copy values between kernel
  files and an algorithm whose source is not in the tree. The other projects
  (cameras, codecs, Wi-Fi, and the C++ classes of the OpenMAX core) are independent of the code modelled here.
\<close>

end
